(* ===== verification/Mt_Policy.thy ===== *)
theory Mt_Policy
  imports Prelude
begin

section \<open>Merge-train policy\<close>

text \<open>
  The policy contracts of \<open>control_plane/contracts/merge_train_policy.py\<close>: one record per pydantic
  model, one \<open>validate\<close> function per model validator (the normalised model, or the error it raises),
  and the lookup of the policy of a repository and base branch.

  Field types and bounds are pydantic's own work; a value of a record type is one that passed them.
\<close>

subsection \<open>Enumerations\<close>

datatype actor_role_lit = Repo_owner | Repo_admin

datatype failure_policy = Pause_train | Continue_after_blocking_pr

datatype identity_kind = Github_actions_oidc | Github_app_identity | Github_token_secret

datatype merge_method = Method_merge | Method_squash | Method_rebase

datatype runner_mode = Level1 | Controller_mode

datatype update_format = Dependabot_trailer | Renovate_metadata

datatype update_type = Update_digest | Update_minor | Update_patch

datatype review_mode = Advisory | Required

fun actor_role_str :: "actor_role_lit \<Rightarrow> string" where
  "actor_role_str Repo_owner = ''repo_owner''"
| "actor_role_str Repo_admin = ''repo_admin''"

fun merge_method_str :: "merge_method \<Rightarrow> string" where
  "merge_method_str Method_merge = ''merge''"
| "merge_method_str Method_squash = ''squash''"
| "merge_method_str Method_rebase = ''rebase''"

fun update_type_str :: "update_type \<Rightarrow> string" where
  "update_type_str Update_digest = ''digest''"
| "update_type_str Update_minor = ''minor''"
| "update_type_str Update_patch = ''patch''"

text \<open>Python sorts the update types as strings; the order of the type is that order.\<close>

instantiation update_type :: linorder
begin

definition less_eq_update_type :: "update_type \<Rightarrow> update_type \<Rightarrow> bool" where
  "less_eq_update_type a b = (update_type_str a \<le> update_type_str b)"

definition less_update_type :: "update_type \<Rightarrow> update_type \<Rightarrow> bool" where
  "less_update_type a b = (update_type_str a < update_type_str b)"

instance
proof
  fix x y z :: update_type
  show "(x < y) = (x \<le> y \<and> \<not> y \<le> x)"
    by (auto simp: less_eq_update_type_def less_update_type_def)
  show "x \<le> x" by (simp add: less_eq_update_type_def)
  show "x \<le> y \<Longrightarrow> y \<le> z \<Longrightarrow> x \<le> z" by (auto simp: less_eq_update_type_def)
  show "x \<le> y \<or> y \<le> x" by (auto simp: less_eq_update_type_def)
  show "x \<le> y \<Longrightarrow> y \<le> x \<Longrightarrow> x = y"
    by (cases x; cases y) (auto simp: less_eq_update_type_def dest: antisym)
qed

end

subsection \<open>Models\<close>

record dependency_bot_policy =
  bot_user_id :: nat
  bot_metadata_format :: update_format
  bot_allowed_update_types :: "update_type list"

record enqueue_policy =
  label_required :: bool
  allowed_actor_roles :: "actor_role_lit list"
  trusted_automation_ids :: "nat list"
  dependency_update_ids :: "nat list"
  dependency_update_bots :: "dependency_bot_policy list"

record merge_identity =
  identity_kind_of :: identity_kind
  identity_name :: string

record service_authz =
  authz_action :: string
  authz_product :: string
  authz_context :: string

record github_app_source =
  app_id :: nat
  app_repository_id :: nat
  private_key_context :: string

record github_token_source =
  env_var :: string
  runtime_context :: string
  github_app :: "github_app_source option"

record scheduler_policy =
  sched_enabled :: bool
  sched_runner_mode :: runner_mode
  sched_mutate :: bool
  sched_mutation_authorized :: bool

record status_check_expectation =
  check_context :: string
  check_app_id :: nat

datatype alerts_threshold = Alerts_none | Alerts_errors | Alerts_errors_and_warnings | Alerts_all

datatype security_threshold =
  Security_none | Security_critical | Security_high_or_higher | Security_medium_or_higher | Security_all

record code_scanning_expectation =
  scan_tool :: string
  scan_alerts_threshold :: alerts_threshold
  scan_security_threshold :: security_threshold

record pull_request_expectation =
  pe_dismiss_stale_reviews_on_push :: bool
  pe_require_code_owner_review :: bool
  pe_require_last_push_approval :: bool
  pe_required_approving_review_count :: nat
  pe_required_review_thread_resolution :: bool

record provider_expectation =
  px_required_status_checks :: "status_check_expectation list"
  px_strict_required_status_checks_policy :: bool
  px_code_scanning_tools :: "code_scanning_expectation list"
  px_pull_request :: "pull_request_expectation option"
  px_allowed_merge_methods :: "merge_method list"

record repository_policy =
  rp_repository :: string
  rp_base_branch :: string
  enqueue_label :: string
  blocked_label :: string
  stack_child_disposition_label :: string
  merge_method_of :: merge_method
  max_batch_size :: "nat option"
  engineering_review_mode :: review_mode
  failure_policy_of :: failure_policy
  enqueue :: enqueue_policy
  merge_identity_of :: merge_identity
  service_authz_of :: service_authz
  config_authority_events_enabled :: bool
  github_token :: github_token_source
  scheduler :: scheduler_policy
  provider_expectation_of :: "provider_expectation option"

record train_policy =
  schema_version :: nat
  policies :: "repository_policy list"

subsection \<open>Validators\<close>

definition normalize_required_value :: "string \<Rightarrow> string \<Rightarrow> string res" where
  "normalize_required_value value message =
     (let normalized = py_strip value in
      if normalized = '''' then Inl (ValueError message)
      else if CHR 0x0A \<in> set normalized \<or> CHR 0x0D \<in> set normalized
      then Inl (ValueError (message @ ''; value must be a single line''))
      else Inr normalized)"

definition require_text :: "string \<Rightarrow> string \<Rightarrow> string res" where
  "require_text value message =
     (let normalized = py_strip value in
      if normalized = '''' then Inl (ValueError message) else Inr normalized)"

definition normalize_update_types :: "update_type list \<Rightarrow> update_type list" where
  "normalize_update_types value = sorted_list_of_set (set value)"

definition validate_enqueue_policy :: "enqueue_policy \<Rightarrow> enqueue_policy res" where
  "validate_enqueue_policy p =
     andThen (ensure (allowed_actor_roles p \<noteq> [])
       (ValueError ''merge train enqueue policy requires at least one actor role'')) (\<lambda>_.
     let trusted = sorted_list_of_set (set (trusted_automation_ids p));
         updates = sorted_list_of_set (set (dependency_update_ids p));
         identities = map bot_user_id (dependency_update_bots p)
     in
     andThen (ensure (set updates \<subseteq> set trusted)
       (ValueError ''merge train dependency update identities must also be trusted automation'')) (\<lambda>_.
     andThen (ensure (distinct identities)
       (ValueError ''merge train dependency bot identities must be unique'')) (\<lambda>_.
     andThen (ensure (set identities \<subseteq> set trusted)
       (ValueError ''merge train dependency bots must also be trusted automation'')) (\<lambda>_.
     Inr (p\<lparr>allowed_actor_roles := dedup (allowed_actor_roles p),
            trusted_automation_ids := trusted,
            dependency_update_ids := updates,
            dependency_update_bots := sort_key bot_user_id (dependency_update_bots p)\<rparr>)))))"

definition dependency_identity_ids :: "enqueue_policy \<Rightarrow> nat set" where
  "dependency_identity_ids p =
     set (dependency_update_ids p) \<union> set (map bot_user_id (dependency_update_bots p))"

definition dependency_bot :: "enqueue_policy \<Rightarrow> nat \<Rightarrow> dependency_bot_policy option" where
  "dependency_bot p github_user_id =
     find (\<lambda>bot. bot_user_id bot = github_user_id) (dependency_update_bots p)"

definition validate_identity :: "merge_identity \<Rightarrow> merge_identity res" where
  "validate_identity i =
     (if py_strip (identity_name i) = '''' then Inl (ValueError ''merge train identity requires name'')
      else Inr (i\<lparr>identity_name := py_strip (identity_name i)\<rparr>))"

definition validate_service_authz :: "service_authz \<Rightarrow> service_authz res" where
  "validate_service_authz a =
     andThen (normalize_required_value (authz_action a)
       ''merge train service authz requires action'') (\<lambda>act.
     andThen (normalize_required_value (authz_product a)
       ''merge train service authz requires product'') (\<lambda>prod.
     andThen (normalize_required_value (authz_context a)
       ''merge train service authz requires context'') (\<lambda>ctx.
     Inr (a\<lparr>authz_action := act, authz_product := prod, authz_context := ctx\<rparr>))))"

definition validate_token_source :: "github_token_source \<Rightarrow> github_token_source res" where
  "validate_token_source t =
     (let env = py_strip (env_var t); ctx = py_strip (runtime_context t);
          defined = (if truthy env then 1 else 0) + (if truthy ctx then 1 else 0)
            + (if github_app t \<noteq> None then 1 else (0::nat))
      in if defined > 1
         then Inl (ValueError ''Merge train GitHub token cannot define multiple credential sources.'')
         else Inr (t\<lparr>env_var := env, runtime_context := ctx\<rparr>))"

definition normalize_required_status_checks ::
  "status_check_expectation list \<Rightarrow> status_check_expectation list res" where
  "normalize_required_status_checks value =
     (let identity = (\<lambda>c. (py_casefold (check_context c), check_app_id c));
          ordered = sort_key identity value
      in if distinct (map identity ordered) then Inr ordered
         else Inl (ValueError ''provider required status checks must be unique by context/app_id''))"

definition validate_status_check :: "status_check_expectation \<Rightarrow> status_check_expectation res" where
  "validate_status_check c =
     andThen (normalize_required_value (check_context c)
       ''provider required status check requires context'') (\<lambda>ctx. Inr (c\<lparr>check_context := ctx\<rparr>))"

definition validate_code_scanning :: "code_scanning_expectation \<Rightarrow> code_scanning_expectation res" where
  "validate_code_scanning c =
     andThen (normalize_required_value (scan_tool c)
       ''provider code scanning expectation requires tool'') (\<lambda>tool. Inr (c\<lparr>scan_tool := tool\<rparr>))"

definition normalize_code_scanning_tools ::
  "code_scanning_expectation list \<Rightarrow> code_scanning_expectation list res" where
  "normalize_code_scanning_tools value =
     (let ordered = sort_key scan_tool value
      in if distinct (map scan_tool ordered) then Inr ordered
         else Inl (ValueError ''provider code scanning expectations must use unique tool names''))"

definition normalize_allowed_merge_methods :: "merge_method list \<Rightarrow> merge_method list res" where
  "normalize_allowed_merge_methods value =
     (if \<not> distinct value
      then Inl (ValueError ''provider allowed merge methods must be unique'')
      else if Method_merge \<notin> set value
      then Inl (ValueError ''provider allowed merge methods must include merge'')
      else Inr (filter (\<lambda>m. m \<in> set value) [Method_merge, Method_squash, Method_rebase]))"

definition validate_provider_expectation :: "provider_expectation \<Rightarrow> provider_expectation res" where
  "validate_provider_expectation x =
     andThen (normalize_required_status_checks (px_required_status_checks x)) (\<lambda>checks.
     andThen (normalize_code_scanning_tools (px_code_scanning_tools x)) (\<lambda>tools.
     andThen (normalize_allowed_merge_methods (px_allowed_merge_methods x)) (\<lambda>methods.
     Inr (x\<lparr>px_required_status_checks := checks, px_code_scanning_tools := tools,
            px_allowed_merge_methods := methods\<rparr>))))"

definition validate_repository_policy :: "repository_policy \<Rightarrow> repository_policy res" where
  "validate_repository_policy p =
     andThen (ensure (github_app (github_token p) = None
         \<or> identity_kind_of (merge_identity_of p) = Github_app_identity)
       (ValueError ''Merge train App credentials require a github_app merge identity'')) (\<lambda>_.
     andThen (normalize_required_value (rp_repository p)
       ''merge train policy requires repository'') (\<lambda>repo.
     andThen (ensure (CHR ''/'' \<in> set repo)
       (ValueError ''merge train repository must be owner/name'')) (\<lambda>_.
     andThen (normalize_required_value (rp_base_branch p)
       ''merge train policy requires base_branch'') (\<lambda>branch.
     andThen (normalize_required_value (enqueue_label p)
       ''merge train policy requires enqueue_label'') (\<lambda>enq.
     andThen (normalize_required_value (blocked_label p)
       ''merge train policy requires blocked_label'') (\<lambda>blk.
     let disposition = py_strip (stack_child_disposition_label p) in
     andThen (ensure (enq \<noteq> blk)
       (ValueError ''merge train enqueue_label and blocked_label must differ'')) (\<lambda>_.
     andThen (ensure (disposition \<notin> {enq, blk})
       (ValueError ''merge train stack_child_disposition_label must differ from enqueue_label and blocked_label'')) (\<lambda>_.
     Inr (p\<lparr>rp_repository := repo, rp_base_branch := branch, enqueue_label := enq,
            blocked_label := blk, stack_child_disposition_label := disposition\<rparr>)))))))))"

definition policy_key :: "repository_policy \<Rightarrow> string" where
  "policy_key p = rp_repository p @ '':'' @ rp_base_branch p"

definition require_advisory_review :: "train_policy \<Rightarrow> unit res" where
  "require_advisory_review p =
     ensure (\<forall>q \<in> set (policies p). engineering_review_mode q = Advisory)
       (ValueError ''Required engineering-review merge mode is retired; use advisory'')"

definition require_supported_token_sources :: "train_policy \<Rightarrow> unit res" where
  "require_supported_token_sources p =
     andThen (ensure (\<forall>q \<in> set (policies p). \<not> truthy (env_var (github_token q)))
       (ValueError ''Merge train env_var token source is retired; use github_app'')) (\<lambda>_.
     ensure (\<forall>q \<in> set (policies p). \<not> truthy (runtime_context (github_token q)))
       (ValueError ''Merge train runtime_context token source is retired; use github_app''))"

definition lookup_key :: "repository_policy \<Rightarrow> string" where
  "lookup_key p = py_casefold (rp_repository p) @ '':'' @ rp_base_branch p"

fun require_unique_keys :: "string set \<Rightarrow> repository_policy list \<Rightarrow> unit res" where
  "require_unique_keys seen [] = Inr ()"
| "require_unique_keys seen (p # ps) =
     (if lookup_key p \<in> seen
      then Inl (ValueError ''merge train policies must be unique by repository/base_branch'')
      else require_unique_keys (insert (lookup_key p) seen) ps)"

text \<open>The argument \<open>historical\<close> is the validation context \<open>historical_policy_record\<close>.\<close>

definition validate_train_policy :: "bool \<Rightarrow> train_policy \<Rightarrow> train_policy res" where
  "validate_train_policy historical p =
     andThen (if historical then Inr () else
       andThen (require_advisory_review p) (\<lambda>_. require_supported_token_sources p)) (\<lambda>_.
     andThen (ensure (policies p \<noteq> [])
       (ValueError ''merge train policy requires at least one repository policy'')) (\<lambda>_.
     andThen (require_unique_keys {} (policies p)) (\<lambda>_. Inr p)))"

definition find_repository_policy :: "train_policy \<Rightarrow> string \<Rightarrow> string \<Rightarrow> repository_policy res" where
  "find_repository_policy p repository base_branch =
     andThen (normalize_required_value repository
       ''merge train policy lookup requires repository'') (\<lambda>repo.
     andThen (normalize_required_value base_branch
       ''merge train policy lookup requires base_branch'') (\<lambda>branch.
     case find (\<lambda>q. py_casefold (rp_repository q) = py_casefold repo \<and> rp_base_branch q = branch)
            (policies p) of
       Some q \<Rightarrow> Inr q
     | None \<Rightarrow> Inl (ValueError (''merge train policy not found for '' @ repo @ '':'' @ branch))))"

definition scheduler_mutation_authorized :: "repository_policy \<Rightarrow> bool" where
  "scheduler_mutation_authorized p \<longleftrightarrow> sched_mutation_authorized (scheduler p)
     \<or> (sched_enabled (scheduler p) \<and> sched_mutate (scheduler p))"

subsection \<open>Facts about the validators\<close>

lemma merge_method_str_inject [simp]: "merge_method_str a = merge_method_str b \<longleftrightarrow> a = b"
  by (cases a; cases b) simp_all

lemma normalize_required_value_Inr:
  "normalize_required_value v m = Inr w \<longleftrightarrow>
     w = py_strip v \<and> w \<noteq> [] \<and> CHR 0x0A \<notin> set w \<and> CHR 0x0D \<notin> set w"
  by (auto simp: normalize_required_value_def Let_def split: if_splits)

lemma require_text_Inr: "require_text v m = Inr w \<longleftrightarrow> w = py_strip v \<and> w \<noteq> []"
  by (auto simp: require_text_def Let_def)

lemma require_text_result: "require_text v m = Inr w \<Longrightarrow> require_text w m' = Inr w"
  by (auto simp: require_text_Inr)

lemma normalize_required_value_result:
  "normalize_required_value v m = Inr w \<Longrightarrow> normalize_required_value w m' = Inr w"
  by (auto simp: normalize_required_value_Inr)

lemma require_unique_keys_iff:
  "require_unique_keys seen ps = Inr u \<longleftrightarrow>
     distinct (map lookup_key ps) \<and> set (map lookup_key ps) \<inter> seen = {}"
  by (induction ps arbitrary: seen) auto

lemma find_SomeD: "find P xs = Some x \<Longrightarrow> x \<in> set xs \<and> P x"
  by (auto simp: find_Some_iff)

end
