(* ===== verification/Mt_Handoff.thy ===== *)
theory Mt_Handoff
  imports Mt_Policy
begin

section \<open>Ready handoffs\<close>

text \<open>
  The engineering handoffs of \<open>control_plane/merge_train_handoff.py\<close>: which comment declares one
  (\<open>handoff_kind\<close>), who may write it and why it does not admit a head. A refusal is a message,
  the empty string is "not refused", as in the source. The regular expressions of \<open>handoff_head\<close>
  are not modelled: the head a comment names is a field of the handoff record.
\<close>

subsection \<open>Definitions\<close>

datatype handoff_status =
    Handoff_ready | Handoff_missing | Handoff_waiting | Handoff_stale | Handoff_unreadable
  | Handoff_edited

record ready_handoff =
  ho_status :: handoff_status
  ho_head_sha :: string
  ho_actor_id :: "nat option"
  ho_actor_role :: string
  ho_comment_id :: "nat option"
  ho_client_wait :: bool
  ho_client_accepted :: bool

datatype handoff_comment_kind = Kind_ready | Kind_client_wait | Kind_waiting

text \<open>The line boundaries of \<open>str.splitlines\<close>; the first line is what stands before the first.\<close>

definition py_line_break :: "char \<Rightarrow> bool" where
  "py_line_break c = (let n = (of_char c :: nat) in
     (10 \<le> n \<and> n \<le> 13) \<or> (28 \<le> n \<and> n \<le> 30) \<or> n = 133)"

definition first_line :: "string \<Rightarrow> string" where
  "first_line body = takeWhile (\<lambda>c. \<not> py_line_break c) body"

definition remove_suffix :: "string \<Rightarrow> string \<Rightarrow> string" where
  "remove_suffix suf s = (if suf \<noteq> [] \<and> suffix suf s then take (length s - length suf) s else s)"

definition handoff_kind :: "string \<Rightarrow> handoff_comment_kind option" where
  "handoff_kind body =
     (let first = remove_suffix ''.'' (py_strip (first_line body));
          first = (if prefix ''**'' first \<and> suffix ''**'' first
                   then remove_suffix ''.'' (take (length first - 4) (drop 2 first)) else first)
      in if first = ''Ready for the merge train'' then Some Kind_ready
         else if first = ''Engineering ready; waiting for the Client's acceptance''
         then Some Kind_client_wait
         else if prefix ''Engineering ready; waiting for'' first then Some Kind_waiting
         else None)"

definition role_allowed :: "repository_policy \<Rightarrow> string \<Rightarrow> bool" where
  "role_allowed policy role \<longleftrightarrow>
     role \<in> set (map actor_role_str (allowed_actor_roles (enqueue policy)))"

definition trusted_automation :: "repository_policy \<Rightarrow> nat \<Rightarrow> bool" where
  "trusted_automation policy i \<longleftrightarrow> i \<in> set (trusted_automation_ids (enqueue policy))"

definition handoff_actor_allowed :: "repository_policy \<Rightarrow> nat option \<Rightarrow> string \<Rightarrow> bool" where
  "handoff_actor_allowed policy actor_id actor_role =
     (case actor_id of None \<Rightarrow> False
      | Some i \<Rightarrow> trusted_automation policy i \<or> role_allowed policy actor_role)"

definition ready_handoff_refusal ::
  "repository_policy \<Rightarrow> ready_handoff option \<Rightarrow> string \<Rightarrow> string" where
  "ready_handoff_refusal policy handoff head_sha =
     (case handoff of None \<Rightarrow> ''missing trusted current-head Ready handoff''
      | Some h \<Rightarrow>
        if ho_status h = Handoff_missing then ''missing trusted current-head Ready handoff''
        else if ho_status h = Handoff_edited
        then ''trusted comment was edited; post a fresh checked gh-pr.py ready handoff''
        else if ho_status h = Handoff_unreadable then ''Ready handoff evidence is unreadable''
        else if ho_status h = Handoff_waiting \<and> \<not> ho_client_accepted h then
          (if \<not> ho_client_wait h
           then ''latest trusted engineering handoff is waiting (not the checked Client wait); post a fresh checked gh-pr.py ready handoff when that wait clears''
           else if ho_head_sha h = '''' \<or> ho_head_sha h \<noteq> head_sha
           then ''checked Client-wait handoff does not name the current head; post a fresh checked gh-pr.py ready handoff''
           else ''checked Client-wait handoff is waiting for the Client's acceptance of the current head; Client acceptance in Launchplane clears it'')
        else if ho_status h = Handoff_stale \<or> ho_head_sha h \<noteq> head_sha
        then ''Ready handoff does not name exactly the current head; post a fresh checked gh-pr.py ready handoff''
        else if \<not> handoff_actor_allowed policy (ho_actor_id h) (ho_actor_role h)
        then ''Ready handoff author is not allowed to enqueue''
        else '''')"

subsection \<open>When a handoff admits a head\<close>

text \<open>What the refusals leave: the contract of an admitting handoff.\<close>

definition handoff_admits :: "repository_policy \<Rightarrow> ready_handoff option \<Rightarrow> string \<Rightarrow> bool" where
  "handoff_admits policy handoff head_sha \<longleftrightarrow>
     (\<exists>h. handoff = Some h
        \<and> (ho_status h = Handoff_ready \<or> ho_status h = Handoff_waiting \<and> ho_client_accepted h)
        \<and> ho_head_sha h = head_sha
        \<and> handoff_actor_allowed policy (ho_actor_id h) (ho_actor_role h))"

lemma ready_handoff_refusal_iff:
  "ready_handoff_refusal policy handoff head_sha = '''' \<longleftrightarrow> handoff_admits policy handoff head_sha"
proof (cases handoff)
  case None
  then show ?thesis by (simp add: ready_handoff_refusal_def handoff_admits_def)
next
  case (Some h)
  then show ?thesis
    by (cases "ho_status h") (auto simp: ready_handoff_refusal_def handoff_admits_def)
qed

lemma handoff_admits_Some: "handoff_admits p h s \<Longrightarrow> h \<noteq> None"
  by (auto simp: handoff_admits_def)

end
