(* ===== verification/Mt_Dependency.thy ===== *)
theory Mt_Dependency
  imports Mt_Policy
begin

section \<open>Dependency updates\<close>

text \<open>
  The classification of bot-authored dependency updates,
  \<open>control_plane/merge_train_dependency_updates.py\<close>: the version comparison with the regular
  expression \<open>^v?(major)(.minor)?(.patch)?(suffix)$\<close> written out as a scanner, the test of one
  update, and the verdict on the commit messages of a pull request. The two metadata parsers
  (regular expressions and \<open>json.loads\<close> over a commit message) are the argument \<open>parsers\<close>, as the
  dispatch table \<open>UPDATE_FORMAT_PARSERS\<close> is a value in the source; whether a digest moves forward
  is a callback there and an argument here.
\<close>

subsection \<open>Definitions\<close>

datatype update_class = Patch_or_minor | Needs_review

type_synonym update = "string \<rightharpoonup> string"

record version =
  v_major :: string
  v_minor :: "string option"
  v_patch :: "string option"
  v_suffix :: string

definition py_digit :: "char \<Rightarrow> bool" where
  "py_digit c \<longleftrightarrow> 48 \<le> (of_char c :: nat) \<and> (of_char c :: nat) \<le> 57"

definition digits_of :: "string \<Rightarrow> string \<times> string" where
  "digits_of s = (takeWhile py_digit s, dropWhile py_digit s)"

text \<open>\<open>(?:[.](digits))?\<close>: a dot and at least one digit, or nothing.\<close>

definition dot_number :: "string \<Rightarrow> string option \<times> string" where
  "dot_number s =
     (case s of c # cs \<Rightarrow>
        if c = CHR ''.'' \<and> fst (digits_of cs) \<noteq> []
        then (Some (fst (digits_of cs)), snd (digits_of cs)) else (None, s)
      | [] \<Rightarrow> (None, s))"

text \<open>\<open>.*$\<close>: no newline, but for one at the very end, which \<open>$\<close> leaves out.\<close>

definition rest_of_line :: "string \<Rightarrow> string option" where
  "rest_of_line s =
     (if CHR 0x0A \<notin> set s then Some s
      else if CHR 0x0A \<notin> set (butlast s) then Some (butlast s) else None)"

definition match_version :: "string \<Rightarrow> version option" where
  "match_version s =
     (let s = (case s of c # cs \<Rightarrow> if c = CHR ''v'' then cs else s | [] \<Rightarrow> s);
          (major, r1) = digits_of s;
          (minor, r2) = dot_number r1;
          (patch, r3) = dot_number r2
      in if major = [] then None
         else map_option (\<lambda>suf. \<lparr>v_major = major, v_minor = minor, v_patch = patch, v_suffix = suf\<rparr>)
                (rest_of_line r3))"

definition number_of :: "string \<Rightarrow> nat" where
  "number_of s = foldl (\<lambda>n c. n * 10 + (of_char c - 48)) 0 s"

definition part_number :: "string option \<Rightarrow> nat" where
  "part_number p = (case p of None \<Rightarrow> 0 | Some s \<Rightarrow> number_of s)"

definition version_parts :: "version \<Rightarrow> nat \<times> nat \<times> nat" where
  "version_parts v = (number_of (v_major v), part_number (v_minor v), part_number (v_patch v))"

definition minor_text :: "version \<Rightarrow> string" where
  "minor_text v = (case v_minor v of None \<Rightarrow> ''0'' | Some s \<Rightarrow> s)"

definition dependency_version_update_type :: "string \<Rightarrow> string \<Rightarrow> string" where
  "dependency_version_update_type old_version new_version =
     (case (match_version old_version, match_version new_version) of
        (Some old, Some new) \<Rightarrow>
          if v_suffix old \<noteq> v_suffix new then ''''
          else if v_major old \<noteq> v_major new then ''''
          else if version_parts new \<le> version_parts old then ''''
          else if minor_text old \<noteq> minor_text new
          then (if v_major old \<noteq> ''0'' then ''minor'' else '''')
          else ''patch''
      | _ \<Rightarrow> '''')"

definition get_or_empty :: "update \<Rightarrow> string \<Rightarrow> string" where
  "get_or_empty u k = (case u k of None \<Rightarrow> '''' | Some v \<Rightarrow> v)"

definition update_qualifies ::
  "update \<Rightarrow> update_type list \<Rightarrow> (update \<Rightarrow> bool) option \<Rightarrow> bool" where
  "update_qualifies u allowed digest_moves_forward =
     (if get_or_empty u ''depName'' = '''' \<or>
         u ''updateType'' \<notin> Some ` set (map update_type_str allowed) then False
      else if u ''updateType'' = Some ''digest'' then
        (let old_value = get_or_empty u ''currentValue''; new_value = get_or_empty u ''newValue''
         in truthy old_value \<and> old_value = new_value
            \<and> (case digest_moves_forward of None \<Rightarrow> False | Some moves \<Rightarrow> moves u))
      else u ''updateType'' = Some (dependency_version_update_type
             (get_or_empty u ''currentVersion'') (get_or_empty u ''newVersion'')))"

definition classify_dependency_update ::
  "(update_format \<Rightarrow> (string \<Rightarrow> update list) option) \<Rightarrow> string list \<Rightarrow> update_format
     \<Rightarrow> update_type list \<Rightarrow> (update \<Rightarrow> bool) option \<Rightarrow> update_class" where
  "classify_dependency_update parsers commit_messages metadata_format allowed digest_moves_forward =
     (case parsers metadata_format of None \<Rightarrow> Needs_review
      | Some read_updates \<Rightarrow>
        if commit_messages = [] then Needs_review
        else if \<exists>m \<in> set commit_messages. read_updates m = []
               \<or> \<not> list_all (\<lambda>u. update_qualifies u allowed digest_moves_forward) (read_updates m)
        then Needs_review else Patch_or_minor)"

subsection \<open>Facts\<close>

lemma dependency_version_update_type_cases:
  "dependency_version_update_type a b \<in> {'''', ''minor'', ''patch''}"
  by (simp add: dependency_version_update_type_def split: option.split prod.split)

text \<open>
  A qualifying update: for a version bump both versions parse, agree on the major number and the
  suffix, and the new one is later; a minor bump never leaves major version zero.
\<close>

definition safe_version_step :: "version \<Rightarrow> version \<Rightarrow> bool" where
  "safe_version_step old new \<longleftrightarrow> v_major new = v_major old \<and> v_suffix new = v_suffix old
     \<and> version_parts old < version_parts new
     \<and> (minor_text new \<noteq> minor_text old \<longrightarrow> v_major old \<noteq> ''0'')"

lemma dependency_version_update_type_safe:
  assumes "dependency_version_update_type a b \<noteq> ''''"
  obtains old new where "match_version a = Some old" "match_version b = Some new"
    "safe_version_step old new"
  using assms
  by (auto simp: dependency_version_update_type_def safe_version_step_def not_le
      split: option.splits if_splits)

end
