(* ===== verification/Mt_Queue.thy ===== *)
theory Mt_Queue
  imports Mt_Handoff Mt_Dependency
begin

section \<open>The merge-train queue\<close>

text \<open>
  The snapshot of the open pull requests and the queue entries built from it, the first half of
  \<open>control_plane/merge_train.py\<close>: what makes a pull request eligible and which reasons keep it out.
\<close>

subsection \<open>Snapshot\<close>

datatype check_status = Checks_pass | Checks_fail | Checks_pending | Checks_unknown

datatype mergeable_state = Mergeable | Conflicting | Mergeability_unknown

datatype pr_state = PR_open | PR_closed | PR_merged

datatype conversation_rule = Rule_required | Rule_unreadable

fun check_status_str :: "check_status \<Rightarrow> string" where
  "check_status_str Checks_pass = ''pass''"
| "check_status_str Checks_fail = ''fail''"
| "check_status_str Checks_pending = ''pending''"
| "check_status_str Checks_unknown = ''unknown''"

fun mergeable_str :: "mergeable_state \<Rightarrow> string" where
  "mergeable_str Mergeable = ''mergeable''"
| "mergeable_str Conflicting = ''conflicting''"
| "mergeable_str Mergeability_unknown = ''unknown''"

record label_actor =
  la_label :: string
  la_actor_id :: "nat option"
  la_actor_login :: string
  la_actor_role :: string
  la_on_behalf_via_app :: string

record review_conversations =
  rc_rule :: conversation_rule
  rc_unresolved_count :: nat
  rc_code_scanning_count :: nat

record pull_request =
  pr_number :: nat
  pr_url :: string
  pr_title :: string
  pr_state_of :: pr_state
  pr_is_draft :: bool
  pr_created_at :: string
  pr_labels :: "string list"
  pr_label_actors :: "label_actor list"
  pr_ready_handoff :: "ready_handoff option"
  pr_recovery_ready_comment_floor :: nat
  pr_recovery_ready_unavailable :: bool
  pr_changed_paths :: "string list"
  pr_actor_id :: "nat option"
  pr_actor_role :: string
  pr_head_sha :: string
  pr_head_ref :: string
  pr_head_repository :: string
  pr_base_sha :: string
  pr_base_ref :: string
  pr_base_repository :: string
  pr_mergeable :: mergeable_state
  pr_requires_individual_landing :: bool
  pr_owner_review_required :: bool
  pr_client_test_notes_error :: string
  pr_required_checks_status :: check_status
  pr_required_checks_observation_error :: string
  pr_branch_update_required :: bool
  pr_dependency_update_class :: "update_class option"
  pr_preview_hold :: string
  pr_review_conversations :: "review_conversations option"

record train_snapshot =
  snap_repository :: string
  snap_base_branch :: string
  snap_base_sha :: string
  pull_requests :: "pull_request list"

definition DEPENDENCY_HEAD_CONFLICTS :: string where
  "DEPENDENCY_HEAD_CONFLICTS = ''dependency update current-head merge conflicts''"

definition DEPENDENCY_HEAD_MERGEABILITY_UNKNOWN :: string where
  "DEPENDENCY_HEAD_MERGEABILITY_UNKNOWN = ''dependency update current-head mergeability unknown''"

definition DEPENDENCY_HEAD_CHECKS_FAILED :: string where
  "DEPENDENCY_HEAD_CHECKS_FAILED = ''dependency update current-head checks failed''"

definition CURRENT_HEAD_PREVIEW_HOLDS :: "string set" where
  "CURRENT_HEAD_PREVIEW_HOLDS = {''current-head preview failed'',
     ''preview has not served the current head'', ''preview record could not be read''}"

definition DEPENDENCY_HEAD_HOLD_REASONS :: "string set" where
  "DEPENDENCY_HEAD_HOLD_REASONS = {DEPENDENCY_HEAD_CONFLICTS, DEPENDENCY_HEAD_MERGEABILITY_UNKNOWN,
     DEPENDENCY_HEAD_CHECKS_FAILED} \<union> CURRENT_HEAD_PREVIEW_HOLDS"

definition review_conversations_reason :: "review_conversations \<Rightarrow> string" where
  "review_conversations_reason c =
     (let count = rc_unresolved_count c;
          noun = (if count = 1 then ''conversation'' else ''conversations'');
          rule = (if rc_rule c = Rule_required
                  then ''the base branch requires conversation resolution''
                  else ''the base branch's conversation-resolution rule could not be read'');
          reason = str_nat count @ '' unresolved review '' @ noun @ ''; '' @ rule
      in if rc_code_scanning_count c \<noteq> 0
         then reason @ ''; fix the code-scanning finding in the code instead of resolving its thread''
         else reason)"

fun normalize_unique_from :: "string list \<Rightarrow> string list \<Rightarrow> string list res" where
  "normalize_unique_from normalized [] = Inr normalized"
| "normalize_unique_from normalized (raw # rest) =
     (let value = py_strip raw in
      if value = '''' then Inl (ValueError ''merge train labels must be non-empty'')
      else normalize_unique_from
             (if value \<in> set normalized then normalized else normalized @ [value]) rest)"

definition normalize_unique_values :: "string list \<Rightarrow> string list res" where
  "normalize_unique_values values = normalize_unique_from [] values"

definition validate_pull_request :: "pull_request \<Rightarrow> pull_request res" where
  "validate_pull_request p =
     andThen (require_text (pr_created_at p)
       ''merge train pull request snapshot requires created_at'') (\<lambda>created.
     andThen (normalize_unique_values (pr_labels p)) (\<lambda>labels.
     andThen (require_text (pr_actor_role p)
       ''merge train pull request snapshot requires actor_role'') (\<lambda>role.
     andThen (require_text (pr_head_sha p)
       ''merge train pull request snapshot requires head_sha'') (\<lambda>head.
     andThen (ensure (pr_preview_hold p = '''' \<or> pr_preview_hold p \<in> CURRENT_HEAD_PREVIEW_HOLDS)
       (ValueError ''merge train preview hold is not a preview hold reason'')) (\<lambda>_.
     Inr (p\<lparr>pr_url := py_strip (pr_url p), pr_title := py_strip (pr_title p),
            pr_created_at := created, pr_labels := labels, pr_actor_role := role,
            pr_head_sha := head, pr_head_ref := py_strip (pr_head_ref p),
            pr_head_repository := py_strip (pr_head_repository p),
            pr_base_sha := py_strip (pr_base_sha p), pr_base_ref := py_strip (pr_base_ref p),
            pr_base_repository := py_strip (pr_base_repository p)\<rparr>))))))"

definition validate_train_snapshot :: "train_snapshot \<Rightarrow> train_snapshot res" where
  "validate_train_snapshot s =
     andThen (require_text (snap_repository s)
       ''merge train dry-run snapshot requires repository'') (\<lambda>repo.
     andThen (require_text (snap_base_branch s)
       ''merge train dry-run snapshot requires base_branch'') (\<lambda>branch.
     Inr (s\<lparr>snap_repository := repo, snap_base_branch := branch,
            snap_base_sha := py_strip (snap_base_sha s)\<rparr>)))"

subsection \<open>Queue entries\<close>

record queue_entry =
  qe_number :: nat
  qe_url :: string
  qe_title :: string
  qe_created_at :: string
  qe_head_sha :: string
  qe_labels :: "string list"
  qe_actor_role :: string
  qe_mergeable :: mergeable_state
  qe_requires_individual_landing :: bool
  qe_owner_review_required :: bool
  qe_client_test_notes_error :: string
  qe_required_checks_status :: check_status
  qe_required_checks_observation_error :: string
  qe_branch_update_required :: bool
  qe_eligible :: bool
  qe_ineligible_reasons :: "string list"
  qe_deferred_reasons :: "string list"

definition labeler_of :: "string \<Rightarrow> label_actor list \<Rightarrow> label_actor option" where
  "labeler_of label actors = find (\<lambda>a. la_label a = label) actors"

definition enqueue_label_refusal ::
  "repository_policy \<Rightarrow> string list \<Rightarrow> label_actor list \<Rightarrow> string" where
  "enqueue_label_refusal rp labels label_actors =
     (let enq = enqueue_label rp in
      if enq \<notin> set labels then ''missing '' @ enq @ '' label''
      else (case labeler_of enq label_actors of
          None \<Rightarrow> enq @ '' label ignored: could not read who applied it''
        | Some labeler \<Rightarrow> (case la_actor_id labeler of
            None \<Rightarrow> enq @ '' label ignored: could not read who applied it''
          | Some i \<Rightarrow>
            if truthy (la_on_behalf_via_app labeler)
            then enq @ '' label ignored: applied by the '' @ la_on_behalf_via_app labeler
                 @ '' GitHub App acting as '' @ la_actor_login labeler
                 @ '', which is not allowed to enqueue''
            else if trusted_automation rp i then ''''
            else if role_allowed rp (la_actor_role labeler) then ''''
            else enq @ '' label ignored: applied by ''
                 @ (if truthy (la_actor_login labeler) then la_actor_login labeler
                    else ''user id '' @ str_nat i)
                 @ '' ('' @ la_actor_role labeler @ ''), who is not allowed to enqueue'')))"

definition is_trusted_automation :: "repository_policy \<Rightarrow> pull_request \<Rightarrow> bool" where
  "is_trusted_automation rp pr =
     (case pr_actor_id pr of None \<Rightarrow> False | Some i \<Rightarrow> trusted_automation rp i)"

definition is_dependency_update :: "repository_policy \<Rightarrow> pull_request \<Rightarrow> bool" where
  "is_dependency_update rp pr =
     (case pr_actor_id pr of None \<Rightarrow> False | Some i \<Rightarrow> dependency_bot (enqueue rp) i \<noteq> None)"

definition entry_actor_role :: "repository_policy \<Rightarrow> pull_request \<Rightarrow> string" where
  "entry_actor_role rp pr =
     (if is_trusted_automation rp pr then ''trusted_automation'' else pr_actor_role pr)"

definition label_refusal_of :: "repository_policy \<Rightarrow> pull_request \<Rightarrow> string" where
  "label_refusal_of rp pr = enqueue_label_refusal rp (pr_labels pr) (pr_label_actors pr)"

definition handoff_refusal_of :: "repository_policy \<Rightarrow> pull_request \<Rightarrow> string" where
  "handoff_refusal_of rp pr = ready_handoff_refusal rp (pr_ready_handoff pr) (pr_head_sha pr)"

definition has_ready_handoff :: "repository_policy \<Rightarrow> pull_request \<Rightarrow> bool" where
  "has_ready_handoff rp pr \<longleftrightarrow> handoff_refusal_of rp pr = ''''"

definition carries_label :: "string \<Rightarrow> string list \<Rightarrow> bool" where
  "carries_label label labels \<longleftrightarrow> (\<exists>l \<in> set labels. py_casefold l = py_casefold label)"

text \<open>The reasons in the order \<open>_build_queue_entry\<close> appends them, up to the enqueue decision.\<close>

definition state_reasons :: "repository_policy \<Rightarrow> pull_request \<Rightarrow> bool \<Rightarrow> bool \<Rightarrow> string list" where
  "state_reasons rp pr skip_blocked allow_closed =
     (if pr_state_of pr \<noteq> PR_open \<and> \<not> allow_closed then [''pull request is not open''] else [])
   @ (if pr_is_draft pr then [''draft pull request''] else [])
   @ (if (skip_blocked \<or> pr_ready_handoff pr \<noteq> None) \<and> carries_label (blocked_label rp) (pr_labels pr)
      then [''held by '' @ blocked_label rp @ '' label''] else [])"

definition recovery_reasons :: "repository_policy \<Rightarrow> pull_request \<Rightarrow> string list" where
  "recovery_reasons rp pr =
     (if pr_recovery_ready_unavailable pr then [''recovery Ready evidence is unavailable''] else [])
   @ (if pr_recovery_ready_comment_floor pr \<noteq> 0
         \<and> (\<not> has_ready_handoff rp pr
            \<or> (case pr_ready_handoff pr of None \<Rightarrow> False
               | Some h \<Rightarrow> (case ho_comment_id h of None \<Rightarrow> 0 | Some c \<Rightarrow> c)
                           \<le> pr_recovery_ready_comment_floor pr))
      then [''recovered hold requires a fresh checked Ready handoff''] else [])"

definition dependency_head_reasons ::
  "repository_policy \<Rightarrow> pull_request \<Rightarrow> bool \<Rightarrow> bool \<Rightarrow> string list" where
  "dependency_head_reasons rp pr skip_blocked allow_unknown =
     (if skip_blocked \<and> pr_state_of pr = PR_open \<and> label_required (enqueue rp)
         \<and> is_dependency_update rp pr \<and> pr_dependency_update_class pr = Some Patch_or_minor
         \<and> truthy (label_refusal_of rp pr)
         \<and> (pr_required_checks_status pr = Checks_fail \<or> pr_mergeable pr = Conflicting
            \<or> (pr_mergeable pr = Mergeability_unknown \<and> \<not> allow_unknown))
      then [if truthy (pr_client_test_notes_error pr) then pr_client_test_notes_error pr
            else if pr_mergeable pr = Conflicting then DEPENDENCY_HEAD_CONFLICTS
            else if pr_mergeable pr = Mergeability_unknown then DEPENDENCY_HEAD_MERGEABILITY_UNKNOWN
            else DEPENDENCY_HEAD_CHECKS_FAILED]
      else [])"

definition enqueue_reasons :: "repository_policy \<Rightarrow> pull_request \<Rightarrow> bool \<Rightarrow> string list" where
  "enqueue_reasons rp pr allow_unknown =
     (if label_required (enqueue rp) \<and> truthy (label_refusal_of rp pr) then
        if has_ready_handoff rp pr then
          (if pr_required_checks_status pr \<noteq> Checks_pass
           then [''current-head required checks are '' @ check_status_str (pr_required_checks_status pr)
                 @ (if truthy (pr_required_checks_observation_error pr)
                    then ''; '' @ pr_required_checks_observation_error pr else '''')]
           else [])
        @ (if pr_mergeable pr \<noteq> Mergeable
              \<and> \<not> (pr_mergeable pr = Mergeability_unknown \<and> allow_unknown)
           then [''current-head mergeability is '' @ mergeable_str (pr_mergeable pr)] else [])
        @ (if truthy (pr_client_test_notes_error pr) then [pr_client_test_notes_error pr] else [])
        else if \<not> is_dependency_update rp pr then
          label_refusal_of rp pr
            # (if pr_ready_handoff pr \<noteq> None then [handoff_refusal_of rp pr] else [])
        else if pr_dependency_update_class pr \<noteq> Some Patch_or_minor
        then [''dependency update needs agent review'']
        else []
      else [])"

definition preview_reasons :: "pull_request \<Rightarrow> string list \<Rightarrow> string list" where
  "preview_reasons pr reasons =
     (if truthy (pr_preview_hold pr) \<and> pr_state_of pr = PR_open
         \<and> (\<forall>r \<in> set reasons. r \<notin> DEPENDENCY_HEAD_HOLD_REASONS)
      then [pr_preview_hold pr] else [])"

definition actor_reasons :: "repository_policy \<Rightarrow> pull_request \<Rightarrow> string list" where
  "actor_reasons rp pr =
     (if \<not> is_trusted_automation rp pr \<and> \<not> role_allowed rp (entry_actor_role rp pr)
         \<and> \<not> (entry_actor_role rp pr = ''unknown'' \<and> \<not> has_ready_handoff rp pr
              \<and> label_required (enqueue rp) \<and> enqueue_label rp \<notin> set (pr_labels pr)
              \<and> pr_dependency_update_class pr \<noteq> Some Patch_or_minor)
      then [''actor role is not allowed to enqueue''] else [])"

definition conversation_reasons :: "pull_request \<Rightarrow> string list" where
  "conversation_reasons pr =
     (case pr_review_conversations pr of None \<Rightarrow> [] | Some c \<Rightarrow> [review_conversations_reason c])"

definition ineligible_reasons ::
  "repository_policy \<Rightarrow> pull_request \<Rightarrow> bool \<Rightarrow> bool \<Rightarrow> bool \<Rightarrow> string list" where
  "ineligible_reasons rp pr skip_blocked allow_unknown allow_closed =
     (let before_preview = state_reasons rp pr skip_blocked allow_closed
            @ recovery_reasons rp pr
            @ dependency_head_reasons rp pr skip_blocked allow_unknown
            @ enqueue_reasons rp pr allow_unknown
      in before_preview @ preview_reasons pr before_preview
         @ actor_reasons rp pr @ conversation_reasons pr)"

definition build_queue_entry ::
  "repository_policy \<Rightarrow> pull_request \<Rightarrow> bool \<Rightarrow> bool \<Rightarrow> bool \<Rightarrow> queue_entry" where
  "build_queue_entry rp pr skip_blocked allow_unknown allow_closed =
     (let reasons = ineligible_reasons rp pr skip_blocked allow_unknown allow_closed in
      \<lparr>qe_number = pr_number pr, qe_url = pr_url pr, qe_title = pr_title pr,
       qe_created_at = pr_created_at pr, qe_head_sha = pr_head_sha pr, qe_labels = pr_labels pr,
       qe_actor_role = entry_actor_role rp pr, qe_mergeable = pr_mergeable pr,
       qe_requires_individual_landing = pr_requires_individual_landing pr,
       qe_owner_review_required = pr_owner_review_required pr,
       qe_client_test_notes_error = pr_client_test_notes_error pr,
       qe_required_checks_status = pr_required_checks_status pr,
       qe_required_checks_observation_error = pr_required_checks_observation_error pr,
       qe_branch_update_required = pr_branch_update_required pr,
       qe_eligible = (reasons = []), qe_ineligible_reasons = reasons, qe_deferred_reasons = []\<rparr>)"

definition targets_merge_train_base :: "pull_request \<Rightarrow> string \<Rightarrow> bool" where
  "targets_merge_train_base pr base_branch \<longleftrightarrow> pr_base_ref pr = '''' \<or> pr_base_ref pr = base_branch"

definition queue_key :: "pull_request \<Rightarrow> string \<times> nat" where
  "queue_key pr = (pr_created_at pr, pr_number pr)"

type_synonym planned_heads = "(nat \<times> string) set"

definition build_queue_entries ::
  "train_policy \<Rightarrow> train_snapshot \<Rightarrow> bool \<Rightarrow> planned_heads \<Rightarrow> planned_heads \<Rightarrow> queue_entry list res" where
  "build_queue_entries policy snapshot batch_landing planned_dependency planned_handoff =
     andThen (find_repository_policy policy (snap_repository snapshot) (snap_base_branch snapshot))
       (\<lambda>rp. Inr (map (\<lambda>pr. build_queue_entry rp pr batch_landing
               ((pr_number pr, pr_head_sha pr) \<in> planned_dependency \<union> planned_handoff) False)
            (sort_key queue_key
              (filter (\<lambda>pr. targets_merge_train_base pr (snap_base_branch snapshot))
                 (pull_requests snapshot)))))"

end
