(* ===== verification/Mt_Stack.thy ===== *)
theory Mt_Stack
  imports Mt_Queue
begin

section \<open>Stacked pull requests\<close>

text \<open>
  The discovery of a stack (\<open>discover_merge_train_stack\<close> of \<open>control_plane/merge_train.py\<close>): from a
  root pull request, follow the pull requests whose base is the head of the one before, as long as
  there is exactly one and it is ready for the train. The loop of the source is \<open>stack_walk\<close>; it
  stops because every turn adds a pull request number of the snapshot to \<open>seen\<close>.
\<close>

subsection \<open>Definitions\<close>

datatype stack_status = Ready_for_collapse | Not_stacked | Stack_unsupported

record stack_entry =
  se_number :: nat
  se_head_sha :: string
  se_head_ref :: string
  se_base_sha :: string
  se_base_ref :: string

record stack_discovery =
  sd_status :: stack_status
  sd_repository :: string
  sd_base_branch :: string
  sd_root_number :: nat
  sd_stack_order :: "nat list"
  sd_entries :: "stack_entry list"
  sd_unsupported_reasons :: "string list"

definition stack_entry_of :: "pull_request \<Rightarrow> stack_entry" where
  "stack_entry_of pr = \<lparr>se_number = pr_number pr, se_head_sha = pr_head_sha pr,
     se_head_ref = pr_head_ref pr, se_base_sha = pr_base_sha pr, se_base_ref = pr_base_ref pr\<rparr>"

definition unsupported_stack_result :: "train_snapshot \<Rightarrow> nat \<Rightarrow> string list \<Rightarrow> stack_discovery" where
  "unsupported_stack_result snapshot root reasons =
     \<lparr>sd_status = Stack_unsupported, sd_repository = snap_repository snapshot,
      sd_base_branch = snap_base_branch snapshot, sd_root_number = root, sd_stack_order = [],
      sd_entries = [], sd_unsupported_reasons = reasons\<rparr>"

definition stack_children :: "train_snapshot \<Rightarrow> string \<Rightarrow> pull_request list" where
  "stack_children snapshot ref =
     sort_key queue_key (filter (\<lambda>p. pr_base_ref p \<noteq> '''' \<and> pr_base_ref p = ref) (pull_requests snapshot))"

definition pr_mention :: "pull_request \<Rightarrow> string \<Rightarrow> string" where
  "pr_mention pr what = ''pull request #'' @ str_nat (pr_number pr) @ what"

definition stack_pull_request_reasons :: "train_snapshot \<Rightarrow> pull_request \<Rightarrow> string list" where
  "stack_pull_request_reasons snapshot pr =
     (if pr_state_of pr \<noteq> PR_open then [pr_mention pr '' is not open''] else [])
   @ (if \<not> truthy (pr_head_ref pr) then [pr_mention pr '' is missing head ref''] else [])
   @ (if \<not> truthy (pr_base_ref pr) then [pr_mention pr '' is missing base ref''] else [])
   @ (if \<not> truthy (pr_head_repository pr) \<or> \<not> truthy (pr_base_repository pr)
      then [pr_mention pr '' is missing repository identity''] else [])
   @ (if py_casefold (pr_head_repository pr) \<noteq> py_casefold (snap_repository snapshot)
      then [pr_mention pr '' is not from the train repository''] else [])
   @ (if py_casefold (pr_base_repository pr) \<noteq> py_casefold (snap_repository snapshot)
      then [pr_mention pr '' does not target the train repository''] else [])
   @ (if pr_head_ref pr = pr_base_ref pr
      then [pr_mention pr '' has identical head and base refs''] else [])"

definition stack_child_readiness_reasons ::
  "repository_policy \<Rightarrow> pull_request \<Rightarrow> bool \<Rightarrow> string list" where
  "stack_child_readiness_reasons rp pr recovered_merge =
     map (\<lambda>reason. ''stacked pull request #'' @ str_nat (pr_number pr)
             @ '' is not ready for the train: '' @ reason)
       (qe_ineligible_reasons (build_queue_entry rp pr True recovered_merge recovered_merge))"

definition stack_child_refusals ::
  "repository_policy \<Rightarrow> train_snapshot \<Rightarrow> pull_request \<Rightarrow> string list" where
  "stack_child_refusals rp snapshot child =
     (let reasons = stack_pull_request_reasons snapshot child
      in if reasons \<noteq> [] then reasons else stack_child_readiness_reasons rp child False)"

definition unseen_children :: "train_snapshot \<Rightarrow> nat set \<Rightarrow> string \<Rightarrow> pull_request list" where
  "unseen_children snapshot seen ref = filter (\<lambda>c. pr_number c \<notin> seen) (stack_children snapshot ref)"

lemma unseen_children_fewer:
  assumes "unseen_children snapshot seen ref = child # rest"
  shows "card (pr_number ` set (pull_requests snapshot) - insert (pr_number child) seen)
       < card (pr_number ` set (pull_requests snapshot) - seen)"
proof -
  have "child \<in> set (unseen_children snapshot seen ref)" by (simp add: assms)
  then have "pr_number child \<in> pr_number ` set (pull_requests snapshot) - seen"
    by (auto simp: unseen_children_def stack_children_def)
  then show ?thesis by (intro psubset_card_mono) auto
qed

function stack_walk ::
  "repository_policy \<Rightarrow> train_snapshot \<Rightarrow> pull_request list \<Rightarrow> nat set \<Rightarrow> string
     \<Rightarrow> string list + pull_request list" where
  "stack_walk rp snapshot chain seen ref =
     (if ref = '''' then Inr chain
      else (case unseen_children snapshot seen ref of
         [] \<Rightarrow> Inr chain
       | [child] \<Rightarrow>
           (let reasons = stack_child_refusals rp snapshot child
            in if reasons \<noteq> [] then Inl reasons
               else stack_walk rp snapshot (chain @ [child]) (insert (pr_number child) seen)
                      (pr_head_ref child))
       | _ \<Rightarrow> Inl [''branch '' @ ref @ '' has multiple stacked child pull requests'']))"
  by pat_completeness auto
termination
  by (relation "measure (\<lambda>(rp, snapshot, chain, seen, ref).
        card (pr_number ` set (pull_requests snapshot) - seen))")
     (auto simp: unseen_children_fewer)

declare stack_walk.simps [simp del]

definition find_by_number :: "train_snapshot \<Rightarrow> nat \<Rightarrow> pull_request option" where
  "find_by_number snapshot n = find (\<lambda>p. pr_number p = n) (rev (pull_requests snapshot))"

definition discover_with_policy ::
  "repository_policy \<Rightarrow> train_snapshot \<Rightarrow> nat \<Rightarrow> stack_discovery" where
  "discover_with_policy rp snapshot root_number =
     (case find_by_number snapshot root_number of
        None \<Rightarrow> unsupported_stack_result snapshot root_number
                  [''root pull request was not present in the snapshot'']
      | Some root \<Rightarrow>
          (let reasons = stack_pull_request_reasons snapshot root
                 @ (if pr_base_ref root \<noteq> snap_base_branch snapshot
                    then [''root pull request does not target base branch''] else [])
           in if reasons \<noteq> [] then unsupported_stack_result snapshot root_number reasons
           else (case stack_walk rp snapshot [root] {pr_number root} (pr_head_ref root) of
               Inl reasons \<Rightarrow> unsupported_stack_result snapshot root_number reasons
             | Inr walked \<Rightarrow>
                 (let chain = (if list_ex pr_requires_individual_landing walked then [root] else walked)
                  in \<lparr>sd_status = (if length chain = 1 then Not_stacked else Ready_for_collapse),
                      sd_repository = snap_repository snapshot,
                      sd_base_branch = snap_base_branch snapshot, sd_root_number = root_number,
                      sd_stack_order = map pr_number chain, sd_entries = map stack_entry_of chain,
                      sd_unsupported_reasons = []\<rparr>))))"

definition discover_merge_train_stack ::
  "train_policy \<Rightarrow> train_snapshot \<Rightarrow> nat \<Rightarrow> stack_discovery res" where
  "discover_merge_train_stack policy snapshot root_number =
     andThen (find_repository_policy policy (snap_repository snapshot) (snap_base_branch snapshot))
       (\<lambda>rp. Inr (discover_with_policy rp snapshot root_number))"

subsection \<open>The walk builds a chain\<close>

text \<open>
  The invariant of the loop: distinct numbers, all of them \<open>seen\<close>, each member based on the head of
  the one before, the reference followed is the last head, and every member but the first is ready.
\<close>

definition linked :: "pull_request list \<Rightarrow> bool" where
  "linked chain \<longleftrightarrow>
     (\<forall>i. Suc i < length chain \<longrightarrow> pr_base_ref (chain ! Suc i) = pr_head_ref (chain ! i))"

definition walk_inv ::
  "repository_policy \<Rightarrow> train_snapshot \<Rightarrow> pull_request list \<Rightarrow> nat set \<Rightarrow> bool" where
  "walk_inv rp snapshot chain seen \<longleftrightarrow>
     chain \<noteq> [] \<and> distinct (map pr_number chain) \<and> pr_number ` set chain = seen \<and> linked chain
     \<and> set (tl chain) \<subseteq> set (pull_requests snapshot)
     \<and> (\<forall>c \<in> set (tl chain). stack_child_refusals rp snapshot c = [])"

lemma linked_snoc:
  "linked chain \<Longrightarrow> chain \<noteq> [] \<Longrightarrow> pr_base_ref c = pr_head_ref (last chain) \<Longrightarrow> linked (chain @ [c])"
  by (auto simp: linked_def nth_append last_conv_nth less_Suc_eq)
     (metis One_nat_def Suc_lessI diff_Suc_1 length_greater_0_conv)

lemma unseen_childrenD:
  "c \<in> set (unseen_children snapshot seen ref) \<Longrightarrow>
     c \<in> set (pull_requests snapshot) \<and> pr_base_ref c = ref \<and> pr_number c \<notin> seen"
  by (auto simp: unseen_children_def stack_children_def)

lemma walk_inv_step:
  assumes "walk_inv rp snapshot chain seen" "pr_head_ref (last chain) = ref"
    and "unseen_children snapshot seen ref = [child]" "stack_child_refusals rp snapshot child = []"
  shows "walk_inv rp snapshot (chain @ [child]) (insert (pr_number child) seen)"
proof -
  have "child \<in> set (pull_requests snapshot)" "pr_base_ref child = ref" "pr_number child \<notin> seen"
    using unseen_childrenD [of child snapshot seen ref] assms(3) by auto
  with assms show ?thesis by (auto simp: walk_inv_def linked_snoc)
qed

lemma stack_walk_inv:
  assumes "stack_walk rp snapshot chain seen ref = Inr walked"
    and "walk_inv rp snapshot chain seen" "pr_head_ref (last chain) = ref"
  shows "walk_inv rp snapshot walked (pr_number ` set walked) \<and> prefix chain walked"
  using assms
proof (induction rp snapshot chain seen ref rule: stack_walk.induct)
  case (1 rp snapshot chain seen ref)
  show ?case
  proof (cases "ref = '''' \<or> unseen_children snapshot seen ref = []")
    case True
    with "1.prems" have "walked = chain"
      by (auto simp: stack_walk.simps [of rp snapshot chain seen ref] split: if_splits)
    with "1.prems"(2) show ?thesis by (auto simp: walk_inv_def)
  next
    case False
    then obtain child rest where ch: "unseen_children snapshot seen ref = child # rest"
      by (cases "unseen_children snapshot seen ref") auto
    from "1.prems"(1) False ch have single: "rest = []"
      and ready: "stack_child_refusals rp snapshot child = []"
      and step: "stack_walk rp snapshot (chain @ [child]) (insert (pr_number child) seen)
                   (pr_head_ref child) = Inr walked"
      by (auto simp: stack_walk.simps [of rp snapshot chain] Let_def split: list.splits if_splits)
    from "1.IH" [OF _ _ _ refl _ step] False ch single ready
      walk_inv_step [OF "1.prems"(2,3)] show ?thesis
      by (auto simp: prefix_def)
  qed
qed

end
