(* ===== verification/Mt_Plan.thy ===== *)
theory Mt_Plan
  imports Mt_Stack
begin

section \<open>The dry-run plan\<close>

text \<open>
  \<open>build_merge_train_dry_run_result\<close> of \<open>control_plane/merge_train.py\<close>, one definition per step:
  hold the stacks that cannot collapse, hold the Client features that are not ready, defer the
  engineering heads that are not ready, take a batch in queue order, and choose the next action.
  A missing key of \<open>paths_by_number\<close> would raise; the model keeps that branch as a \<open>KeyError\<close>.
\<close>

subsection \<open>The next action\<close>

datatype dry_run_action = Act_idle | Act_block | Act_merge | Act_update_branch | Act_wait_for_checks

definition next_action_for_selected_pr ::
  "repository_policy \<Rightarrow> queue_entry option \<Rightarrow> bool \<Rightarrow> dry_run_action \<times> string" where
  "next_action_for_selected_pr rp selected skip_branch_update =
     (case selected of
        None \<Rightarrow> (Act_idle, ''No eligible pull requests are queued.'')
      | Some e \<Rightarrow>
        (let diagnostic = (if truthy (qe_required_checks_observation_error e)
               then '' Check evidence: '' @ qe_required_checks_observation_error e @ ''.'' else '''')
         in if truthy (qe_client_test_notes_error e)
         then (Act_block, ''Pull request #'' @ str_nat (qe_number e) @ '': '' @ qe_client_test_notes_error e)
         else if qe_mergeable e = Conflicting
         then (Act_block, ''Add '' @ blocked_label rp @ ''; pull request has merge conflicts.'')
         else if qe_required_checks_status e = Checks_fail
         then (if qe_owner_review_required e
               then (Act_block, ''Current-head review or required checks failed on pull request #''
                       @ str_nat (qe_number e) @ ''.'' @ diagnostic)
               else (Act_block, ''Add '' @ blocked_label rp @ ''; required checks failed.'' @ diagnostic))
         else if qe_branch_update_required e \<and> \<not> skip_branch_update
         then (Act_update_branch, ''Refresh the pull request against the current base branch.'')
         else if qe_owner_review_required e \<and> qe_required_checks_status e \<noteq> Checks_pass
         then (Act_wait_for_checks,
               ''Wait for current-head Client review and required checks on pull request #''
                 @ str_nat (qe_number e) @ ''.'' @ diagnostic)
         else if qe_mergeable e = Mergeability_unknown
                 \<or> qe_required_checks_status e \<in> {Checks_pending, Checks_unknown}
         then (Act_wait_for_checks,
               ''Wait for mergeability and required checks on the head SHA.'' @ diagnostic)
         else (Act_merge, ''Merge with '' @ merge_method_str (merge_method_of rp)
                 @ '' after confirming current head checks.'')))"

subsection \<open>Holding and deferring entries\<close>

definition mark_ineligible :: "string list \<Rightarrow> queue_entry \<Rightarrow> queue_entry" where
  "mark_ineligible reasons e =
     e\<lparr>qe_eligible := False, qe_ineligible_reasons := qe_ineligible_reasons e @ reasons\<rparr>"

definition stack_refusal ::
  "repository_policy \<Rightarrow> train_snapshot \<Rightarrow> queue_entry \<Rightarrow> string list option" where
  "stack_refusal rp snapshot e =
     (let child_bases = set (map pr_base_ref (filter
             (\<lambda>p. pr_base_ref p \<noteq> snap_base_branch snapshot) (pull_requests snapshot)));
          stacked_roots = set (map pr_number (filter
             (\<lambda>p. pr_head_ref p \<in> child_bases) (pull_requests snapshot)))
      in if \<not> qe_eligible e \<or> qe_number e \<notin> stacked_roots
            \<or> qe_required_checks_status e = Checks_fail \<or> qe_mergeable e = Conflicting
         then None
         else (let discovery = discover_with_policy rp snapshot (qe_number e)
               in if sd_status discovery = Stack_unsupported
                  then Some (sd_unsupported_reasons discovery) else None))"

text \<open>
  \<open>refusals\<close> of the source is a dict by number, so an entry sharing its number with a refused one is
  refused too; the last refusal of a number wins.
\<close>

definition stack_refusals ::
  "repository_policy \<Rightarrow> train_snapshot \<Rightarrow> queue_entry list \<Rightarrow> (nat \<rightharpoonup> string list)" where
  "stack_refusals rp snapshot queue =
     map_of (rev (List.map_filter
       (\<lambda>e. map_option (\<lambda>reasons. (qe_number e, reasons)) (stack_refusal rp snapshot e)) queue))"

definition defer_unsupported_stacks ::
  "repository_policy \<Rightarrow> train_snapshot \<Rightarrow> queue_entry list \<Rightarrow> queue_entry list" where
  "defer_unsupported_stacks rp snapshot queue =
     (let refusals = stack_refusals rp snapshot queue in
      if (\<forall>e \<in> set queue. refusals (qe_number e) = None)
         \<or> \<not> (\<exists>e \<in> set queue. qe_eligible e \<and> refusals (qe_number e) = None)
      then queue
      else map (\<lambda>e. case refusals (qe_number e) of
             None \<Rightarrow> e
           | Some reasons \<Rightarrow> (mark_ineligible reasons e)\<lparr>qe_deferred_reasons := reasons\<rparr>) queue)"

definition eligible_entries :: "queue_entry list \<Rightarrow> queue_entry list" where
  "eligible_entries queue = filter qe_eligible queue"

definition hold_unready_client_features :: "planned_heads \<Rightarrow> queue_entry list \<Rightarrow> queue_entry list" where
  "hold_unready_client_features planned_dependency queue =
     (if \<exists>e \<in> set (eligible_entries queue).
           (qe_owner_review_required e \<or> (qe_number e, qe_head_sha e) \<in> planned_dependency)
           \<and> qe_required_checks_status e = Checks_pass \<and> qe_mergeable e \<noteq> Conflicting
      then map (\<lambda>e. if qe_eligible e \<and> qe_owner_review_required e
               \<and> (qe_required_checks_status e \<noteq> Checks_pass \<or> qe_mergeable e = Conflicting)
             then mark_ineligible [''Client feature is not ready on its current head''] e else e) queue
      else queue)"

definition defer_unready_engineering_heads :: "queue_entry list \<Rightarrow> queue_entry list" where
  "defer_unready_engineering_heads queue =
     (if \<exists>e \<in> set (eligible_entries queue). qe_required_checks_status e = Checks_pass
           \<and> qe_mergeable e = Mergeable \<and> qe_client_test_notes_error e = ''''
      then map (\<lambda>e. if qe_eligible e \<and> \<not> qe_owner_review_required e
               \<and> qe_client_test_notes_error e = '''' \<and> qe_required_checks_status e \<noteq> Checks_fail
               \<and> qe_mergeable e \<noteq> Conflicting
               \<and> (qe_required_checks_status e \<in> {Checks_pending, Checks_unknown}
                  \<or> qe_mergeable e = Mergeability_unknown)
             then mark_ineligible [''Engineering head '' @ qe_head_sha e @ '' deferred: checks ''
                    @ check_status_str (qe_required_checks_status e) @ '', mergeability ''
                    @ mergeable_str (qe_mergeable e)] e
             else e) queue
      else queue)"

subsection \<open>Taking a batch\<close>

definition path_area :: "string \<Rightarrow> string" where
  "path_area path =
     (if CHR ''/'' \<in> set path then takeWhile (\<lambda>c. c \<noteq> CHR ''/'') path else ''.'')"

definition paths_by_number :: "train_snapshot \<Rightarrow> nat \<rightharpoonup> string list" where
  "paths_by_number snapshot = map_of (rev (map (\<lambda>p. (pr_number p, pr_changed_paths p))
     (filter (\<lambda>p. targets_merge_train_base p (snap_base_branch snapshot)) (pull_requests snapshot))))"

definition dependency_numbers :: "repository_policy \<Rightarrow> train_snapshot \<Rightarrow> nat set" where
  "dependency_numbers rp snapshot = set (map pr_number (filter
     (\<lambda>p. case pr_actor_id p of None \<Rightarrow> False | Some i \<Rightarrow> i \<in> dependency_identity_ids (enqueue rp))
     (pull_requests snapshot)))"

definition batch_limit :: "repository_policy \<Rightarrow> nat option \<Rightarrow> nat option" where
  "batch_limit rp existing_candidate_size =
     (case (max_batch_size rp, existing_candidate_size) of
        (Some n, Some k) \<Rightarrow> Some (max n k) | (limit, _) \<Rightarrow> limit)"

fun take_batch ::
  "nat option \<Rightarrow> nat set \<Rightarrow> (nat \<rightharpoonup> string list) \<Rightarrow> bool \<Rightarrow> queue_entry list \<Rightarrow> string set
     \<Rightarrow> queue_entry list \<Rightarrow> (queue_entry list \<times> string) res" where
  "take_batch limit deps paths group_areas batch areas [] = Inr (batch, '''')"
| "take_batch limit deps paths group_areas batch areas (e # es) =
     (if limit = Some (length batch)
      then Inr (batch, ''waiting for the next candidate: maximum batch size reached'')
      else if qe_number e \<in> deps
      then Inr (if batch = [] then [e] else batch,
                ''waiting for the next candidate: dependency update isolation'')
      else if qe_requires_individual_landing e
      then Inr (if batch = [] then [e] else batch,
                ''waiting for the next candidate: individual landing boundary'')
      else (case paths (qe_number e) of
          None \<Rightarrow> Inl (KeyError (str_nat (qe_number e)))
        | Some ps \<Rightarrow>
          (let entry_areas = path_area ` set ps in
           if group_areas \<and> batch \<noteq> [] \<and> areas \<noteq> {} \<and> entry_areas \<noteq> {} \<and> areas \<inter> entry_areas = {}
           then Inr (batch, ''waiting for the next candidate: different changed-file area'')
           else take_batch limit deps paths group_areas (batch @ [e]) (areas \<union> entry_areas) es)))"

definition defer_outside_batch :: "nat set \<Rightarrow> string \<Rightarrow> queue_entry list \<Rightarrow> queue_entry list" where
  "defer_outside_batch admitted_numbers reason queue =
     map (\<lambda>e. if qe_eligible e \<and> qe_number e \<notin> admitted_numbers
              then e\<lparr>qe_deferred_reasons := [reason]\<rparr> else e) queue"

subsection \<open>The result\<close>

record dry_run_result =
  dr_repository :: string
  dr_base_branch :: string
  dr_policy_key :: string
  dr_merge_method :: merge_method
  dr_failure_policy :: failure_policy
  dr_enqueue_label :: string
  dr_blocked_label :: string
  dr_queue_order :: "nat list"
  dr_queue :: "queue_entry list"
  dr_selected_pr :: "queue_entry option"
  dr_intended_next_action :: dry_run_action
  dr_next_action_detail :: string

record plan_options =
  opt_batch_landing :: bool
  opt_new_candidate :: bool
  opt_existing_candidate_size :: "nat option"
  opt_planned_dependency :: planned_heads
  opt_planned_handoff :: planned_heads

text \<open>The queue after its holds, before a batch is taken.\<close>

definition held_queue ::
  "repository_policy \<Rightarrow> train_snapshot \<Rightarrow> plan_options \<Rightarrow> queue_entry list \<Rightarrow> queue_entry list" where
  "held_queue rp snapshot opts queue =
     (let queue = (if opt_batch_landing opts \<and> opt_new_candidate opts
                   then defer_unsupported_stacks rp snapshot queue else queue)
      in if \<not> opt_batch_landing opts then queue
         else (let queue = hold_unready_client_features (opt_planned_dependency opts) queue
               in if opt_new_candidate opts then defer_unready_engineering_heads queue else queue))"

text \<open>The eligible entries taken, and the queue with the deferred ones marked.\<close>

definition batch_of ::
  "repository_policy \<Rightarrow> train_snapshot \<Rightarrow> plan_options \<Rightarrow> queue_entry list
     \<Rightarrow> (queue_entry list \<times> queue_entry list) res" where
  "batch_of rp snapshot opts queue =
     (if \<not> opt_batch_landing opts then Inr (eligible_entries queue, queue)
      else andThen (take_batch (batch_limit rp (opt_existing_candidate_size opts))
                     (dependency_numbers rp snapshot) (paths_by_number snapshot)
                     (opt_new_candidate opts
                      \<and> \<not> list_ex qe_owner_review_required (eligible_entries queue))
                     [] {} (eligible_entries queue))
        (\<lambda>(batch, reason). Inr (batch, if opt_new_candidate opts
             then defer_outside_batch (qe_number ` set batch) reason queue else queue)))"

definition waits_for_review :: "queue_entry \<Rightarrow> bool" where
  "waits_for_review e \<longleftrightarrow> truthy (qe_client_test_notes_error e)
     \<or> (qe_owner_review_required e \<and> qe_required_checks_status e \<noteq> Checks_pass)"

definition skips_branch_update :: "repository_policy \<Rightarrow> bool \<Rightarrow> queue_entry list \<Rightarrow> bool" where
  "skips_branch_update rp batch_landing entries \<longleftrightarrow> batch_landing
     \<and> merge_method_of rp = Method_merge \<and> entries \<noteq> []
     \<and> \<not> list_ex qe_requires_individual_landing entries"

definition first_entry :: "queue_entry list \<Rightarrow> queue_entry option" where
  "first_entry entries = (case entries of [] \<Rightarrow> None | e # _ \<Rightarrow> Some e)"

definition choose_action ::
  "repository_policy \<Rightarrow> bool \<Rightarrow> queue_entry list \<Rightarrow> queue_entry option \<times> dry_run_action \<times> string" where
  "choose_action rp batch_landing entries =
     (let (action, detail) = next_action_for_selected_pr rp (first_entry entries)
            (skips_branch_update rp batch_landing entries)
      in if batch_landing \<and> action = Act_merge
         then (case find waits_for_review entries of
             None \<Rightarrow> (first_entry entries, action, detail)
           | Some waiting \<Rightarrow> (Some waiting, next_action_for_selected_pr rp (Some waiting) True))
         else (first_entry entries, action, detail))"

definition build_dry_run_result ::
  "train_policy \<Rightarrow> train_snapshot \<Rightarrow> plan_options \<Rightarrow> dry_run_result res" where
  "build_dry_run_result policy snapshot opts =
     andThen (find_repository_policy policy (snap_repository snapshot) (snap_base_branch snapshot)) (\<lambda>rp.
     andThen (build_queue_entries policy snapshot (opt_batch_landing opts)
                (opt_planned_dependency opts) (opt_planned_handoff opts)) (\<lambda>queue.
     andThen (batch_of rp snapshot opts (held_queue rp snapshot opts queue)) (\<lambda>(entries, queue).
     let (selected, action, detail) = choose_action rp (opt_batch_landing opts) entries
     in Inr \<lparr>dr_repository = snap_repository snapshot, dr_base_branch = snap_base_branch snapshot,
             dr_policy_key = policy_key rp, dr_merge_method = merge_method_of rp,
             dr_failure_policy = failure_policy_of rp, dr_enqueue_label = enqueue_label rp,
             dr_blocked_label = blocked_label rp, dr_queue_order = map qe_number entries,
             dr_queue = queue, dr_selected_pr = selected, dr_intended_next_action = action,
             dr_next_action_detail = detail\<rparr>)))"

definition snapshot_of :: "train_snapshot \<Rightarrow> nat list \<Rightarrow> train_snapshot" where
  "snapshot_of snapshot numbers =
     snapshot\<lparr>pull_requests := filter (\<lambda>p. pr_number p \<in> set numbers) (pull_requests snapshot)\<rparr>"

end
