(* ===== verification/Mt_Queue_Safety.thy ===== *)
theory Mt_Queue_Safety
  imports Mt_Queue
begin

section \<open>Who the queue admits\<close>

text \<open>
  The eligibility of a queue entry, which the code computes as "no reason was appended", against a
  reference definition that says who is admitted: by a trusted enqueue label, by a ready handoff of
  the current head, or as an automatically admitted dependency update.
\<close>

subsection \<open>Reference definitions\<close>

definition label_admits :: "repository_policy \<Rightarrow> string list \<Rightarrow> label_actor list \<Rightarrow> bool" where
  "label_admits rp labels label_actors \<longleftrightarrow>
     enqueue_label rp \<in> set labels
     \<and> (\<exists>labeler i. labeler_of (enqueue_label rp) label_actors = Some labeler
          \<and> la_actor_id labeler = Some i \<and> la_on_behalf_via_app labeler = ''''
          \<and> (trusted_automation rp i \<or> role_allowed rp (la_actor_role labeler)))"

definition head_clean :: "pull_request \<Rightarrow> bool \<Rightarrow> bool" where
  "head_clean pr allow_unknown \<longleftrightarrow> pr_required_checks_status pr \<noteq> Checks_fail
     \<and> (pr_mergeable pr = Mergeable \<or> (pr_mergeable pr = Mergeability_unknown \<and> allow_unknown))"

definition admitted_by_handoff :: "repository_policy \<Rightarrow> pull_request \<Rightarrow> bool \<Rightarrow> bool" where
  "admitted_by_handoff rp pr allow_unknown \<longleftrightarrow>
     handoff_admits rp (pr_ready_handoff pr) (pr_head_sha pr)
     \<and> pr_required_checks_status pr = Checks_pass \<and> head_clean pr allow_unknown
     \<and> pr_client_test_notes_error pr = ''''"

definition admitted_as_dependency :: "repository_policy \<Rightarrow> pull_request \<Rightarrow> bool \<Rightarrow> bool \<Rightarrow> bool" where
  "admitted_as_dependency rp pr skip_blocked allow_unknown \<longleftrightarrow>
     \<not> handoff_admits rp (pr_ready_handoff pr) (pr_head_sha pr)
     \<and> is_dependency_update rp pr \<and> pr_dependency_update_class pr = Some Patch_or_minor
     \<and> (skip_blocked \<and> pr_state_of pr = PR_open \<longrightarrow> head_clean pr allow_unknown)"

definition recovery_satisfied :: "repository_policy \<Rightarrow> pull_request \<Rightarrow> bool" where
  "recovery_satisfied rp pr \<longleftrightarrow> \<not> pr_recovery_ready_unavailable pr
     \<and> (pr_recovery_ready_comment_floor pr \<noteq> 0 \<longrightarrow>
         (\<exists>h c. pr_ready_handoff pr = Some h \<and> ho_comment_id h = Some c
            \<and> pr_recovery_ready_comment_floor pr < c
            \<and> handoff_admits rp (Some h) (pr_head_sha pr)))"

definition admissible :: "repository_policy \<Rightarrow> pull_request \<Rightarrow> bool \<Rightarrow> bool \<Rightarrow> bool \<Rightarrow> bool" where
  "admissible rp pr skip_blocked allow_unknown allow_closed \<longleftrightarrow>
     (pr_state_of pr = PR_open \<or> allow_closed)
     \<and> \<not> pr_is_draft pr
     \<and> \<not> ((skip_blocked \<or> pr_ready_handoff pr \<noteq> None) \<and> carries_label (blocked_label rp) (pr_labels pr))
     \<and> recovery_satisfied rp pr
     \<and> (label_required (enqueue rp) \<longrightarrow>
          label_admits rp (pr_labels pr) (pr_label_actors pr)
          \<or> admitted_by_handoff rp pr allow_unknown
          \<or> admitted_as_dependency rp pr skip_blocked allow_unknown)
     \<and> (pr_state_of pr = PR_open \<longrightarrow> pr_preview_hold pr = '''')
     \<and> (is_trusted_automation rp pr \<or> role_allowed rp (pr_actor_role pr))
     \<and> pr_review_conversations pr = None"

subsection \<open>Lemmas\<close>

lemma enqueue_label_refusal_empty_iff:
  "enqueue_label_refusal rp labels actors = '''' \<longleftrightarrow> label_admits rp labels actors"
  by (cases "labeler_of (enqueue_label rp) actors")
     (auto simp: enqueue_label_refusal_def label_admits_def Let_def split: option.split)

lemma label_refusal_of_iff:
  "label_refusal_of rp pr = '''' \<longleftrightarrow> label_admits rp (pr_labels pr) (pr_label_actors pr)"
  by (simp add: label_refusal_of_def enqueue_label_refusal_empty_iff)

lemma label_missing_refused: "enqueue_label rp \<notin> set (pr_labels pr) \<Longrightarrow> label_refusal_of rp pr \<noteq> ''''"
  by (simp add: label_refusal_of_iff label_admits_def)

lemma has_ready_handoff_iff:
  "has_ready_handoff rp pr \<longleftrightarrow> handoff_admits rp (pr_ready_handoff pr) (pr_head_sha pr)"
  by (simp add: has_ready_handoff_def handoff_refusal_of_def ready_handoff_refusal_iff)

lemma state_reasons_Nil_iff:
  "state_reasons rp pr sb ac = [] \<longleftrightarrow> (pr_state_of pr = PR_open \<or> ac) \<and> \<not> pr_is_draft pr
     \<and> \<not> ((sb \<or> pr_ready_handoff pr \<noteq> None) \<and> carries_label (blocked_label rp) (pr_labels pr))"
  by (auto simp: state_reasons_def)

lemma recovery_reasons_Nil_iff: "recovery_reasons rp pr = [] \<longleftrightarrow> recovery_satisfied rp pr"
  by (cases "pr_ready_handoff pr")
     (auto simp: recovery_reasons_def recovery_satisfied_def has_ready_handoff_iff
        handoff_admits_def not_le split: option.splits)

lemma enqueue_and_dependency_Nil_iff:
  "dependency_head_reasons rp pr sb au = [] \<and> enqueue_reasons rp pr au = [] \<longleftrightarrow>
     (label_required (enqueue rp) \<longrightarrow>
        label_admits rp (pr_labels pr) (pr_label_actors pr)
        \<or> admitted_by_handoff rp pr au \<or> admitted_as_dependency rp pr sb au)"
proof (cases "label_required (enqueue rp) \<and> label_refusal_of rp pr \<noteq> ''''")
  case False
  then show ?thesis
    by (auto simp: dependency_head_reasons_def enqueue_reasons_def label_refusal_of_iff)
next
  case True
  then have "\<not> label_admits rp (pr_labels pr) (pr_label_actors pr)"
    by (simp add: label_refusal_of_iff)
  with True show ?thesis
    by (cases "pr_mergeable pr"; cases "pr_required_checks_status pr")
       (auto simp: dependency_head_reasons_def enqueue_reasons_def admitted_by_handoff_def
          admitted_as_dependency_def head_clean_def has_ready_handoff_iff)
qed

text \<open>
  The exception for an unknown actor role never admits: without the label and without a handoff,
  and not a patch or minor update, the enqueue step has already appended a reason.
\<close>

lemma actor_exception_refused:
  assumes "enqueue_reasons rp pr au = []" and "\<not> has_ready_handoff rp pr"
    and "label_required (enqueue rp)" and "enqueue_label rp \<notin> set (pr_labels pr)"
  shows "pr_dependency_update_class pr = Some Patch_or_minor"
  using assms label_missing_refused [of rp pr]
  by (auto simp: enqueue_reasons_def split: if_splits)

lemma actor_reasons_Nil_iff:
  assumes "enqueue_reasons rp pr au = []"
  shows "actor_reasons rp pr = [] \<longleftrightarrow> is_trusted_automation rp pr \<or> role_allowed rp (pr_actor_role pr)"
  using actor_exception_refused [OF assms]
  by (auto simp: actor_reasons_def entry_actor_role_def)

lemma ineligible_reasons_Nil_iff:
  "ineligible_reasons rp pr sb au ac = [] \<longleftrightarrow> admissible rp pr sb au ac"
proof (cases "state_reasons rp pr sb ac = [] \<and> recovery_reasons rp pr = []
    \<and> dependency_head_reasons rp pr sb au = [] \<and> enqueue_reasons rp pr au = []")
  case False
  moreover from this have "ineligible_reasons rp pr sb au ac \<noteq> []"
    by (auto simp: ineligible_reasons_def Let_def)
  ultimately show ?thesis
    using enqueue_and_dependency_Nil_iff [of rp pr sb au]
    by (auto simp: admissible_def state_reasons_Nil_iff recovery_reasons_Nil_iff)
next
  case True
  then have "ineligible_reasons rp pr sb au ac = [] \<longleftrightarrow>
      (pr_state_of pr = PR_open \<longrightarrow> pr_preview_hold pr = '''')
      \<and> (is_trusted_automation rp pr \<or> role_allowed rp (pr_actor_role pr))
      \<and> pr_review_conversations pr = None"
    using actor_reasons_Nil_iff [of rp pr au]
    by (auto simp: ineligible_reasons_def Let_def preview_reasons_def conversation_reasons_def
        split: option.splits)
  with True enqueue_and_dependency_Nil_iff [of rp pr sb au] show ?thesis
    by (auto simp: admissible_def state_reasons_Nil_iff recovery_reasons_Nil_iff)
qed

lemma build_queue_entry_simps [simp]:
  "qe_number (build_queue_entry rp pr sb au ac) = pr_number pr"
  "qe_head_sha (build_queue_entry rp pr sb au ac) = pr_head_sha pr"
  "qe_created_at (build_queue_entry rp pr sb au ac) = pr_created_at pr"
  "qe_mergeable (build_queue_entry rp pr sb au ac) = pr_mergeable pr"
  "qe_labels (build_queue_entry rp pr sb au ac) = pr_labels pr"
  "qe_required_checks_status (build_queue_entry rp pr sb au ac) = pr_required_checks_status pr"
  "qe_owner_review_required (build_queue_entry rp pr sb au ac) = pr_owner_review_required pr"
  "qe_requires_individual_landing (build_queue_entry rp pr sb au ac) = pr_requires_individual_landing pr"
  "qe_client_test_notes_error (build_queue_entry rp pr sb au ac) = pr_client_test_notes_error pr"
  "qe_branch_update_required (build_queue_entry rp pr sb au ac) = pr_branch_update_required pr"
  "qe_ineligible_reasons (build_queue_entry rp pr sb au ac) = ineligible_reasons rp pr sb au ac"
  "qe_eligible (build_queue_entry rp pr sb au ac) \<longleftrightarrow> ineligible_reasons rp pr sb au ac = []"
  by (simp_all add: build_queue_entry_def Let_def)

subsection \<open>Properties\<close>

text \<open>
  The enqueue label admits a pull request exactly when the label is on it and the actor read as
  the one who applied it has a known id, did not act through a GitHub App, and is trusted automation
  or has an allowed role. Nobody else's label admits anything.
\<close>

theorem enqueue_label_admits_only_allowed_labelers:
  "enqueue_label_refusal rp labels actors = '''' \<longleftrightarrow> label_admits rp labels actors"
  by (rule enqueue_label_refusal_empty_iff)

text \<open>
  A ready handoff is not refused exactly when it is ready (or a wait its Client accepted), names
  exactly the current head, and was written by an actor who may enqueue.
\<close>

theorem ready_handoff_admits_only_current_head:
  "ready_handoff_refusal rp handoff head_sha = '''' \<longleftrightarrow> handoff_admits rp handoff head_sha"
  by (rule ready_handoff_refusal_iff)

text \<open>
  C17. An entry of the queue is eligible exactly when its pull request is admissible: open, not a
  draft, not held, with no unresolved conversation or preview hold, its author allowed, and, where
  the policy requires the label, admitted by a trusted label, by a passing and mergeable ready
  handoff of its current head, or as a patch or minor dependency update.
\<close>

theorem queue_entry_eligible_iff_admissible:
  "qe_eligible (build_queue_entry rp pr skip_blocked allow_unknown allow_closed) \<longleftrightarrow>
     admissible rp pr skip_blocked allow_unknown allow_closed"
  by (simp add: ineligible_reasons_Nil_iff)

end
