(* ===== verification/Mt_Plan_Steps.thy ===== *)
theory Mt_Plan_Steps
  imports Mt_Plan Mt_Queue_Safety
begin

section \<open>The steps of the dry-run plan\<close>

text \<open>
  What the steps of the plan keep: the holds change no pull request's identity and make nothing
  eligible, a batch is a prefix of the eligible entries within its limit, and only an entry that
  passed every check is merged.
\<close>

subsection \<open>Steps that only mark entries\<close>

text \<open>
  Each hold maps the queue entry by entry. \<open>narrows f\<close>: the entry keeps its pull request and its
  evidence, and is eligible only if it was.
\<close>

definition same_pull_request :: "queue_entry \<Rightarrow> queue_entry \<Rightarrow> bool" where
  "same_pull_request e e' \<longleftrightarrow> qe_number e' = qe_number e \<and> qe_head_sha e' = qe_head_sha e
     \<and> qe_created_at e' = qe_created_at e \<and> qe_mergeable e' = qe_mergeable e
     \<and> qe_required_checks_status e' = qe_required_checks_status e
     \<and> qe_owner_review_required e' = qe_owner_review_required e
     \<and> qe_requires_individual_landing e' = qe_requires_individual_landing e
     \<and> qe_client_test_notes_error e' = qe_client_test_notes_error e
     \<and> qe_branch_update_required e' = qe_branch_update_required e"

definition narrowed :: "queue_entry \<Rightarrow> queue_entry \<Rightarrow> bool" where
  "narrowed e e' \<longleftrightarrow> same_pull_request e e' \<and> (qe_eligible e' \<longrightarrow> qe_eligible e)"

lemma narrowed_refl [simp]: "narrowed e e"
  by (simp add: narrowed_def same_pull_request_def)

lemma narrowed_trans: "narrowed a b \<Longrightarrow> narrowed b c \<Longrightarrow> narrowed a c"
  by (auto simp: narrowed_def same_pull_request_def)

lemma narrowed_mark [simp]: "narrowed e (mark_ineligible rs e)"
  "narrowed e ((mark_ineligible rs e)\<lparr>qe_deferred_reasons := ds\<rparr>)"
  by (simp_all add: narrowed_def same_pull_request_def mark_ineligible_def)

abbreviation narrows :: "queue_entry list \<Rightarrow> queue_entry list \<Rightarrow> bool" where
  "narrows \<equiv> list_all2 narrowed"

lemma narrows_refl [simp]: "narrows q q"
  by (simp add: list_all2_refl)

lemma narrows_trans: "narrows p q \<Longrightarrow> narrows q r \<Longrightarrow> narrows p r"
  by (rule list_all2_trans [of narrowed narrowed narrowed]) (auto intro: narrowed_trans)

lemma narrows_map: "(\<And>e. e \<in> set q \<Longrightarrow> narrowed e (f e)) \<Longrightarrow> narrows q (map f q)"
  by (simp add: list_all2_conv_all_nth)

lemma narrows_numbers: "narrows p q \<Longrightarrow> map qe_number q = map qe_number p"
  by (auto simp: list_all2_conv_all_nth narrowed_def same_pull_request_def intro!: nth_equalityI)

lemma defer_unsupported_stacks_narrows: "narrows queue (defer_unsupported_stacks rp snapshot queue)"
  by (auto simp: defer_unsupported_stacks_def Let_def intro!: narrows_map split: option.split)

lemma hold_unready_client_features_narrows: "narrows queue (hold_unready_client_features heads queue)"
  by (auto simp: hold_unready_client_features_def intro!: narrows_map)

lemma defer_unready_engineering_heads_narrows: "narrows queue (defer_unready_engineering_heads queue)"
  by (auto simp: defer_unready_engineering_heads_def intro!: narrows_map)

lemma held_queue_narrows: "narrows queue (held_queue rp snapshot opts queue)"
proof -
  have "narrows q (defer_unready_engineering_heads (hold_unready_client_features heads q))" for heads q
    by (rule narrows_trans [OF hold_unready_client_features_narrows
          defer_unready_engineering_heads_narrows])
  then show ?thesis
    by (auto simp: held_queue_def Let_def defer_unsupported_stacks_narrows
        hold_unready_client_features_narrows
        intro: narrows_trans [OF defer_unsupported_stacks_narrows])
qed

subsection \<open>The holds leave something eligible\<close>

lemma eligible_entries_map_Nil_iff:
  "eligible_entries (map f q) = [] \<longleftrightarrow> (\<forall>e \<in> set q. \<not> qe_eligible (f e))"
  by (auto simp: eligible_entries_def filter_empty_conv)

lemma eligible_entries_Nil_iff: "eligible_entries q = [] \<longleftrightarrow> (\<forall>e \<in> set q. \<not> qe_eligible e)"
  by (auto simp: eligible_entries_def filter_empty_conv)

lemma narrows_eligible_Nil: "narrows p q \<Longrightarrow> eligible_entries p = [] \<Longrightarrow> eligible_entries q = []"
  by (fastforce simp: eligible_entries_Nil_iff list_all2_conv_all_nth narrowed_def in_set_conv_nth)

lemma mark_ineligible_eligible [simp]: "\<not> qe_eligible (mark_ineligible rs e)"
  by (simp add: mark_ineligible_def)

lemma defer_unsupported_stacks_keeps:
  assumes "eligible_entries queue \<noteq> []"
  shows "eligible_entries (defer_unsupported_stacks rp snapshot queue) \<noteq> []"
proof (cases "\<exists>e \<in> set queue. qe_eligible e
    \<and> stack_refusals rp snapshot queue (qe_number e) = None")
  case True
  then obtain e where "e \<in> set queue" "qe_eligible e"
    "stack_refusals rp snapshot queue (qe_number e) = None" by blast
  with assms show ?thesis
    by (auto simp: defer_unsupported_stacks_def Let_def eligible_entries_map_Nil_iff
        intro!: bexI [of _ e])
next
  case False
  with assms show ?thesis by (simp only: defer_unsupported_stacks_def Let_def if_True simp_thms)
qed

lemma hold_unready_client_features_keeps:
  assumes "eligible_entries queue \<noteq> []"
  shows "eligible_entries (hold_unready_client_features heads queue) \<noteq> []"
proof (cases "\<exists>e \<in> set (eligible_entries queue).
    (qe_owner_review_required e \<or> (qe_number e, qe_head_sha e) \<in> heads)
    \<and> qe_required_checks_status e = Checks_pass \<and> qe_mergeable e \<noteq> Conflicting")
  case True
  then obtain e where "e \<in> set queue" "qe_eligible e" "qe_required_checks_status e = Checks_pass"
    "qe_mergeable e \<noteq> Conflicting" by (auto simp: eligible_entries_def)
  with True show ?thesis
    by (auto simp: hold_unready_client_features_def eligible_entries_map_Nil_iff intro!: bexI [of _ e])
next
  case False
  show ?thesis using assms unfolding hold_unready_client_features_def if_not_P [OF False] .
qed

lemma defer_unready_engineering_heads_keeps:
  assumes "eligible_entries queue \<noteq> []"
  shows "eligible_entries (defer_unready_engineering_heads queue) \<noteq> []"
proof (cases "\<exists>e \<in> set (eligible_entries queue). qe_required_checks_status e = Checks_pass
    \<and> qe_mergeable e = Mergeable \<and> qe_client_test_notes_error e = ''''")
  case True
  then obtain e where "e \<in> set queue" "qe_eligible e" "qe_required_checks_status e = Checks_pass"
    "qe_mergeable e = Mergeable" by (auto simp: eligible_entries_def)
  with True show ?thesis
    by (auto simp: defer_unready_engineering_heads_def eligible_entries_map_Nil_iff
        intro!: bexI [of _ e])
next
  case False
  show ?thesis using assms unfolding defer_unready_engineering_heads_def if_not_P [OF False] .
qed

lemma held_queue_eligible_Nil_iff:
  "eligible_entries (held_queue rp snapshot opts queue) = [] \<longleftrightarrow> eligible_entries queue = []"
proof
  assume "eligible_entries queue = []"
  then show "eligible_entries (held_queue rp snapshot opts queue) = []"
    by (rule narrows_eligible_Nil [OF held_queue_narrows])
next
  have hold: "eligible_entries (hold_unready_client_features h q) = [] \<Longrightarrow> eligible_entries q = []"
    and heads: "eligible_entries (defer_unready_engineering_heads q) = [] \<Longrightarrow> eligible_entries q = []"
    and stacks: "eligible_entries (defer_unsupported_stacks rp snapshot q) = [] \<Longrightarrow> eligible_entries q = []"
    for h q
    using hold_unready_client_features_keeps defer_unready_engineering_heads_keeps
      defer_unsupported_stacks_keeps by blast+
  assume "eligible_entries (held_queue rp snapshot opts queue) = []"
  then show "eligible_entries queue = []"
    by (auto simp: held_queue_def Let_def split: if_splits dest!: hold heads dest: stacks)
qed

subsection \<open>The batch\<close>

definition isolated :: "nat set \<Rightarrow> queue_entry \<Rightarrow> bool" where
  "isolated deps e \<longleftrightarrow> qe_number e \<in> deps \<or> qe_requires_individual_landing e"

lemma take_batch_total:
  assumes "\<And>e. e \<in> set es \<Longrightarrow> paths (qe_number e) \<noteq> None"
  shows "\<exists>r. take_batch limit deps paths grp batch areas es = Inr r"
  using assms
proof (induction es arbitrary: batch areas)
  case Nil
  then show ?case by simp
next
  case (Cons e es)
  then obtain ps where "paths (qe_number e) = Some ps" by fastforce
  with Cons show ?case by (simp add: Let_def)
qed

lemma take_batch_prefix:
  "take_batch limit deps paths grp batch areas es = Inr (b, reason) \<Longrightarrow>
     \<exists>taken. b = batch @ taken \<and> prefix taken es"
proof (induction es arbitrary: batch areas)
  case Nil
  then show ?case by simp
next
  case (Cons e es)
  consider "b = batch" | "batch = []" "b = [e]"
    | areas' where "take_batch limit deps paths grp (batch @ [e]) areas' es = Inr (b, reason)"
    using Cons.prems by (auto simp: Let_def split: if_splits option.splits)
  then show ?case
  proof cases
    case 3
    from Cons.IH [OF this] show ?thesis by auto
  qed auto
qed

lemma take_batch_bounded:
  "take_batch (Some n) deps paths grp batch areas es = Inr (b, reason) \<Longrightarrow>
     length batch \<le> n \<Longrightarrow> length b \<le> n"
proof (induction es arbitrary: batch areas)
  case Nil
  then show ?case by simp
next
  case (Cons e es)
  consider "b = batch" | "batch = []" "b = [e]" "n \<noteq> 0"
    | areas' where "length batch \<noteq> n"
        "take_batch (Some n) deps paths grp (batch @ [e]) areas' es = Inr (b, reason)"
    using Cons.prems by (auto simp: Let_def split: if_splits option.splits)
  then show ?case
  proof cases
    case 3
    with Cons.prems(2) Cons.IH [OF 3(2)] show ?thesis by simp
  qed (use Cons.prems in auto)
qed

lemma take_batch_isolates:
  "take_batch limit deps paths grp batch areas es = Inr (b, reason) \<Longrightarrow>
     \<forall>e \<in> set batch. \<not> isolated deps e \<Longrightarrow> (\<forall>e \<in> set b. \<not> isolated deps e) \<or> length b = 1"
proof (induction es arbitrary: batch areas)
  case Nil
  then show ?case by simp
next
  case (Cons e es)
  consider "b = batch" | "batch = []" "b = [e]"
    | areas' where "\<not> isolated deps e"
        "take_batch limit deps paths grp (batch @ [e]) areas' es = Inr (b, reason)"
    using Cons.prems by (auto simp: Let_def isolated_def split: if_splits option.splits)
  then show ?case
  proof cases
    case 3
    with Cons.prems(2) Cons.IH [OF 3(2)] show ?thesis by simp
  qed (use Cons.prems in auto)
qed

lemma take_batch_nonempty:
  assumes "take_batch limit deps paths grp [] areas es = Inr (b, reason)" "es \<noteq> []" "limit \<noteq> Some 0"
  shows "b \<noteq> []"
proof (cases es)
  case (Cons e es')
  consider "b = [e]" | areas' where "take_batch limit deps paths grp [e] areas' es' = Inr (b, reason)"
    using assms Cons by (auto simp: Let_def split: if_splits option.splits)
  then show ?thesis by cases (auto dest: take_batch_prefix)
qed (use assms in simp)

text \<open>A queue without the batch's stops is taken whole.\<close>

lemma take_batch_all:
  assumes "\<forall>e \<in> set es. \<not> isolated deps e \<and> paths (qe_number e) \<noteq> None"
    and "limit = None \<or> (\<exists>n. limit = Some n \<and> length batch + length es \<le> n)"
  shows "\<exists>areas'. take_batch limit deps paths False batch areas es = Inr (batch @ es, '''')"
  using assms
  by (induction es arbitrary: batch areas) (auto simp: isolated_def Let_def split: option.split)

subsection \<open>The next action\<close>

definition ready_to_merge :: "queue_entry \<Rightarrow> bool" where
  "ready_to_merge e \<longleftrightarrow> qe_client_test_notes_error e = '''' \<and> qe_mergeable e = Mergeable
     \<and> qe_required_checks_status e = Checks_pass"

lemmas action_only = option.case Let_def if_distrib [of fst] fst_conv

lemma next_action_merge_iff:
  "fst (next_action_for_selected_pr rp selected skip) = Act_merge \<longleftrightarrow>
     (\<exists>e. selected = Some e \<and> ready_to_merge e \<and> (qe_branch_update_required e \<longrightarrow> skip))"
proof (cases selected)
  case (Some e)
  then show ?thesis
    unfolding next_action_for_selected_pr_def ready_to_merge_def by (simp only: action_only)
      (cases "qe_mergeable e"; cases "qe_required_checks_status e"; auto)
qed (simp add: next_action_for_selected_pr_def)

lemma next_action_idle_iff:
  "fst (next_action_for_selected_pr rp selected skip) = Act_idle \<longleftrightarrow> selected = None"
  unfolding next_action_for_selected_pr_def by (cases selected; simp only: action_only) auto

lemma waiting_entry_not_merged:
  assumes "waits_for_review e"
  shows "fst (next_action_for_selected_pr rp (Some e) skip) \<noteq> Act_merge"
proof
  assume "fst (next_action_for_selected_pr rp (Some e) skip) = Act_merge"
  then have "ready_to_merge e" by (simp add: next_action_merge_iff)
  with assms show False by (simp add: waits_for_review_def ready_to_merge_def)
qed

text \<open>
  The two outcomes of the choice: the first entry with its own action, or, when that would be a
  merge, an entry of the batch that still waits for its review.
\<close>

lemma choose_action_cases:
  assumes "choose_action rp bl entries = (selected, action, detail)"
  obtains (first) "selected = first_entry entries"
      "next_action_for_selected_pr rp (first_entry entries) (skips_branch_update rp bl entries)
         = (action, detail)"
      "bl \<and> action = Act_merge \<longrightarrow> (\<forall>x \<in> set entries. \<not> waits_for_review x)"
  | (waiting) e where "selected = Some e" "e \<in> set entries" "waits_for_review e"
      "next_action_for_selected_pr rp (Some e) True = (action, detail)"
proof -
  obtain a d where na: "next_action_for_selected_pr rp (first_entry entries)
      (skips_branch_update rp bl entries) = (a, d)" by fastforce
  show ?thesis
  proof (cases "bl \<and> a = Act_merge")
    case False
    with assms na first show ?thesis by (auto simp: choose_action_def)
  next
    case True
    show ?thesis
    proof (cases "find waits_for_review entries")
      case None
      with True assms na have "selected = first_entry entries" "action = a" "detail = d"
        by (simp_all add: choose_action_def)
      with None na first show ?thesis by (simp add: find_None_iff)
    next
      case (Some e)
      from find_SomeD [OF this] True Some assms na waiting [of e] show ?thesis
        by (auto simp: choose_action_def)
    qed
  qed
qed

lemma first_entry_cases: "first_entry entries = None \<longleftrightarrow> entries = []"
  "first_entry entries = Some e \<longleftrightarrow> (\<exists>es. entries = e # es)"
  by (cases entries; simp add: first_entry_def)+

lemma choose_action_selected:
  assumes "choose_action rp bl entries = (selected, action, detail)"
  shows "case selected of None \<Rightarrow> entries = [] | Some e \<Rightarrow> e \<in> set entries"
  using assms by (cases rule: choose_action_cases) (auto simp: first_entry_def split: list.splits)

lemma choose_action_idle:
  assumes "choose_action rp bl entries = (selected, action, detail)"
  shows "action = Act_idle \<longleftrightarrow> entries = []"
  using assms
proof (cases rule: choose_action_cases)
  case first
  then show ?thesis
    using next_action_idle_iff [of rp "first_entry entries" "skips_branch_update rp bl entries"]
    by (simp add: first_entry_cases)
next
  case (waiting e)
  then show ?thesis using next_action_idle_iff [of rp "Some e" True] by (cases entries) simp_all
qed

lemma choose_action_merge:
  assumes "choose_action rp bl entries = (selected, Act_merge, detail)"
  obtains e es where "entries = e # es" "selected = Some e" "ready_to_merge e"
    "bl \<longrightarrow> (\<forall>x \<in> set entries. \<not> waits_for_review x)"
    "qe_branch_update_required e \<longrightarrow> skips_branch_update rp bl entries"
  using assms
proof (cases rule: choose_action_cases)
  case first
  then show ?thesis
    using next_action_merge_iff [of rp "first_entry entries" "skips_branch_update rp bl entries"] that
    by (auto simp: first_entry_cases)
next
  case (waiting e)
  then show ?thesis using waiting_entry_not_merged [of e rp True] by simp
qed

end
