(* ===== verification/Mt_Examples.thy ===== *)
theory Mt_Examples
  imports Mt_Plan
begin

section \<open>Concrete inputs\<close>

text \<open>
  A policy, a snapshot and the options of a batch plan, at which the properties with hypotheses are
  instantiated: two ready pull requests by a repository owner, one dependency update by a trusted
  bot, one draft.
\<close>

definition ex_repository_policy :: repository_policy where
  "ex_repository_policy = \<lparr>rp_repository = ''o/r'', rp_base_branch = ''main'',
     enqueue_label = ''train'', blocked_label = ''hold'', stack_child_disposition_label = '''',
     merge_method_of = Method_merge, max_batch_size = Some 2, engineering_review_mode = Advisory,
     failure_policy_of = Pause_train,
     enqueue = \<lparr>label_required = True, allowed_actor_roles = [Repo_owner],
       trusted_automation_ids = [9], dependency_update_ids = [],
       dependency_update_bots = [\<lparr>bot_user_id = 9, bot_metadata_format = Dependabot_trailer,
         bot_allowed_update_types = [Update_minor, Update_patch]\<rparr>]\<rparr>,
     merge_identity_of = \<lparr>identity_kind_of = Github_app_identity, identity_name = ''train''\<rparr>,
     service_authz_of = \<lparr>authz_action = ''a'', authz_product = ''p'', authz_context = ''c''\<rparr>,
     config_authority_events_enabled = False,
     github_token = \<lparr>env_var = '''', runtime_context = '''', github_app = None\<rparr>,
     scheduler = \<lparr>sched_enabled = True, sched_runner_mode = Controller_mode, sched_mutate = True,
       sched_mutation_authorized = True\<rparr>,
     provider_expectation_of = None\<rparr>"

definition ex_policy :: train_policy where
  "ex_policy = \<lparr>schema_version = 1, policies = [ex_repository_policy]\<rparr>"

definition ex_pull_request :: "nat \<Rightarrow> string \<Rightarrow> string \<Rightarrow> pull_request" where
  "ex_pull_request n created head = \<lparr>pr_number = n, pr_url = '''', pr_title = '''',
     pr_state_of = PR_open, pr_is_draft = False, pr_created_at = created, pr_labels = [''train''],
     pr_label_actors = [\<lparr>la_label = ''train'', la_actor_id = Some 1, la_actor_login = ''owner'',
       la_actor_role = ''repo_owner'', la_on_behalf_via_app = ''''\<rparr>],
     pr_ready_handoff = None, pr_recovery_ready_comment_floor = 0,
     pr_recovery_ready_unavailable = False, pr_changed_paths = [''src/a.py''],
     pr_actor_id = Some 1, pr_actor_role = ''repo_owner'', pr_head_sha = head,
     pr_head_ref = ''f'' @ head, pr_head_repository = ''o/r'', pr_base_sha = ''b'',
     pr_base_ref = ''main'', pr_base_repository = ''o/r'', pr_mergeable = Mergeable,
     pr_requires_individual_landing = False, pr_owner_review_required = False,
     pr_client_test_notes_error = '''', pr_required_checks_status = Checks_pass,
     pr_required_checks_observation_error = '''', pr_branch_update_required = False,
     pr_dependency_update_class = None, pr_preview_hold = '''', pr_review_conversations = None\<rparr>"

definition ex_dependency_update :: pull_request where
  "ex_dependency_update = (ex_pull_request 3 ''2026-01-03'' ''h3'')\<lparr>pr_actor_id := Some 9,
     pr_actor_role := ''none'', pr_labels := [], pr_label_actors := [],
     pr_dependency_update_class := Some Patch_or_minor\<rparr>"

definition ex_snapshot :: train_snapshot where
  "ex_snapshot = \<lparr>snap_repository = ''o/r'', snap_base_branch = ''main'', snap_base_sha = ''b'',
     pull_requests = [ex_dependency_update, ex_pull_request 2 ''2026-01-02'' ''h2'',
       (ex_pull_request 4 ''2026-01-01'' ''h4'')\<lparr>pr_is_draft := True\<rparr>,
       ex_pull_request 1 ''2026-01-01'' ''h1'']\<rparr>"

definition ex_options :: plan_options where
  "ex_options = \<lparr>opt_batch_landing = True, opt_new_candidate = True,
     opt_existing_candidate_size = None, opt_planned_dependency = {}, opt_planned_handoff = {}\<rparr>"

lemma ex_find_policy:
  "find_repository_policy ex_policy (snap_repository ex_snapshot) (snap_base_branch ex_snapshot)
     = Inr ex_repository_policy"
  by code_simp

lemma ex_plan_facts:
  "map_sum (\<lambda>_. ()) (\<lambda>r. (dr_queue_order r, dr_intended_next_action r, map_option qe_number (dr_selected_pr r)))
     (build_dry_run_result ex_policy ex_snapshot ex_options) = Inr ([1, 2], Act_merge, Some 1)"
  by code_simp

lemma ex_plan_exists:
  obtains r where "build_dry_run_result ex_policy ex_snapshot ex_options = Inr r"
    "dr_queue_order r = [1, 2]" "dr_intended_next_action r = Act_merge"
  using ex_plan_facts by (cases "build_dry_run_result ex_policy ex_snapshot ex_options") auto

end
