(* ===== verification/Mt_Plan_Safety.thy ===== *)
theory Mt_Plan_Safety
  imports Mt_Plan_Steps Mt_Queue_Safety Mt_Examples "HOL-Library.Multiset"
begin

section \<open>Properties of the dry-run plan\<close>

text \<open>
  The whole of \<open>build_merge_train_dry_run_result\<close>: it fails only where the policy lookup fails, its
  queue is every pull request of the base in age order, its batch is the front of the eligible
  entries within the limit and the isolation rules, and it asks for a merge only of a ready head.
\<close>

subsection \<open>The queue a plan starts from\<close>

definition base_pull_requests :: "train_snapshot \<Rightarrow> pull_request list" where
  "base_pull_requests snapshot = sort_key queue_key
     (filter (\<lambda>pr. targets_merge_train_base pr (snap_base_branch snapshot)) (pull_requests snapshot))"

definition plan_allow_unknown :: "plan_options \<Rightarrow> pull_request \<Rightarrow> bool" where
  "plan_allow_unknown opts pr \<longleftrightarrow>
     (pr_number pr, pr_head_sha pr) \<in> opt_planned_dependency opts \<union> opt_planned_handoff opts"

definition first_queue :: "repository_policy \<Rightarrow> train_snapshot \<Rightarrow> plan_options \<Rightarrow> queue_entry list" where
  "first_queue rp snapshot opts = map (\<lambda>pr. build_queue_entry rp pr (opt_batch_landing opts)
     (plan_allow_unknown opts pr) False) (base_pull_requests snapshot)"

lemma build_queue_entries_eq:
  "build_queue_entries policy snapshot (opt_batch_landing opts) (opt_planned_dependency opts)
     (opt_planned_handoff opts) =
   andThen (find_repository_policy policy (snap_repository snapshot) (snap_base_branch snapshot))
     (\<lambda>rp. Inr (first_queue rp snapshot opts))"
  by (simp add: build_queue_entries_def first_queue_def base_pull_requests_def plan_allow_unknown_def)

definition plan_queue :: "repository_policy \<Rightarrow> train_snapshot \<Rightarrow> plan_options \<Rightarrow> queue_entry list" where
  "plan_queue rp snapshot opts = held_queue rp snapshot opts (first_queue rp snapshot opts)"

lemma plan_queue_narrows:
  "list_all2 (\<lambda>pr e. narrowed (build_queue_entry rp pr (opt_batch_landing opts)
       (plan_allow_unknown opts pr) False) e)
     (base_pull_requests snapshot) (plan_queue rp snapshot opts)"
  using held_queue_narrows [of "first_queue rp snapshot opts" rp snapshot opts]
  by (simp add: plan_queue_def first_queue_def list_all2_map1)

lemma plan_queue_member:
  assumes "e \<in> set (plan_queue rp snapshot opts)"
  obtains pr where "pr \<in> set (base_pull_requests snapshot)"
    "narrowed (build_queue_entry rp pr (opt_batch_landing opts) (plan_allow_unknown opts pr) False) e"
proof -
  from assms obtain i where "i < length (plan_queue rp snapshot opts)"
    "e = plan_queue rp snapshot opts ! i" by (auto simp: in_set_conv_nth)
  with plan_queue_narrows [of rp opts snapshot] that [of "base_pull_requests snapshot ! i"]
  show ?thesis by (simp add: list_all2_conv_all_nth)
qed

lemma plan_queue_numbers:
  "map (\<lambda>e. (qe_created_at e, qe_number e)) (plan_queue rp snapshot opts)
     = map queue_key (base_pull_requests snapshot)"
  using plan_queue_narrows [of rp opts snapshot]
  by (auto simp: list_all2_conv_all_nth narrowed_def same_pull_request_def queue_key_def
      intro!: nth_equalityI)

lemma paths_by_number_known:
  "e \<in> set (plan_queue rp snapshot opts) \<Longrightarrow> paths_by_number snapshot (qe_number e) \<noteq> None"
  by (elim plan_queue_member)
     (simp add: paths_by_number_def base_pull_requests_def narrowed_def same_pull_request_def
       map_of_eq_None_iff image_image image_iff, blast)

subsection \<open>The batch of a plan\<close>

definition batch_stops :: "repository_policy \<Rightarrow> train_snapshot \<Rightarrow> plan_options \<Rightarrow> queue_entry list \<Rightarrow> bool" where
  "batch_stops rp snapshot opts entries \<longleftrightarrow> opt_batch_landing opts \<longrightarrow>
     (\<forall>e \<in> set entries. \<not> isolated (dependency_numbers rp snapshot) e) \<or> length entries = 1"

lemma eligible_entries_deferred [simp]:
  "map qe_number (eligible_entries (defer_outside_batch ns reason q)) = map qe_number (eligible_entries q)"
  by (induction q) (auto simp: defer_outside_batch_def eligible_entries_def)

lemma deferred_pairs [simp]:
  "map (\<lambda>e. (qe_created_at e, qe_number e)) (defer_outside_batch ns reason q)
     = map (\<lambda>e. (qe_created_at e, qe_number e)) q"
  by (induction q) (auto simp: defer_outside_batch_def)

lemma batch_of_total:
  assumes "\<And>e. e \<in> set q \<Longrightarrow> paths_by_number snapshot (qe_number e) \<noteq> None"
  shows "\<exists>r. batch_of rp snapshot opts q = Inr r"
proof (cases "opt_batch_landing opts")
  case True
  have "\<exists>r. take_batch limit deps (paths_by_number snapshot) grp [] {} (eligible_entries q) = Inr r"
    for limit deps grp
    by (rule take_batch_total) (use assms in \<open>simp add: eligible_entries_def\<close>)
  then obtain r where "take_batch (batch_limit rp (opt_existing_candidate_size opts))
      (dependency_numbers rp snapshot) (paths_by_number snapshot)
      (opt_new_candidate opts \<and> \<not> list_ex qe_owner_review_required (eligible_entries q))
      [] {} (eligible_entries q) = Inr r" by blast
  with True show ?thesis by (cases r) (simp add: batch_of_def)
qed (simp add: batch_of_def)

lemma batch_of_cases:
  assumes "batch_of rp snapshot opts q = Inr (entries, q')"
  obtains (single) "\<not> opt_batch_landing opts" "entries = eligible_entries q" "q' = q"
  | (batch) reason where "opt_batch_landing opts"
      "take_batch (batch_limit rp (opt_existing_candidate_size opts)) (dependency_numbers rp snapshot)
         (paths_by_number snapshot)
         (opt_new_candidate opts \<and> \<not> list_ex qe_owner_review_required (eligible_entries q))
         [] {} (eligible_entries q) = Inr (entries, reason)"
      "q' = (if opt_new_candidate opts
             then defer_outside_batch (qe_number ` set entries) reason q else q)"
proof (cases "opt_batch_landing opts")
  case False
  with assms have "entries = eligible_entries q" "q' = q" by (auto simp: batch_of_def)
  with False show ?thesis by (rule single)
next
  case True
  with assms obtain reason where
    "take_batch (batch_limit rp (opt_existing_candidate_size opts)) (dependency_numbers rp snapshot)
       (paths_by_number snapshot)
       (opt_new_candidate opts \<and> \<not> list_ex qe_owner_review_required (eligible_entries q))
       [] {} (eligible_entries q) = Inr (entries, reason)"
    "q' = (if opt_new_candidate opts
           then defer_outside_batch (qe_number ` set entries) reason q else q)"
    by (auto simp: batch_of_def)
  with True show ?thesis by (rule batch)
qed

lemma batch_of_prefix:
  "batch_of rp snapshot opts q = Inr (entries, q') \<Longrightarrow> prefix entries (eligible_entries q)"
  by (erule batch_of_cases) (auto dest: take_batch_prefix)

lemma batch_of_bounded:
  assumes "batch_of rp snapshot opts q = Inr (entries, q')" "opt_batch_landing opts"
    and "batch_limit rp (opt_existing_candidate_size opts) = Some n"
  shows "length entries \<le> n"
  using assms by (elim batch_of_cases) (auto dest: take_batch_bounded)

lemma batch_of_stops:
  "batch_of rp snapshot opts q = Inr (entries, q') \<Longrightarrow> batch_stops rp snapshot opts entries"
  by (erule batch_of_cases) (auto simp: batch_stops_def dest: take_batch_isolates)

lemma batch_of_nonempty:
  assumes "batch_of rp snapshot opts q = Inr (entries, q')" "eligible_entries q \<noteq> []"
    and "max_batch_size rp \<noteq> Some 0"
  shows "entries \<noteq> []"
proof -
  have "batch_limit rp k \<noteq> Some 0" for k
    using assms(3) by (auto simp: batch_limit_def split: option.splits)
  with assms(1,2) show ?thesis
    by (elim batch_of_cases) (auto dest: take_batch_nonempty)
qed

lemma batch_of_queue:
  assumes "batch_of rp snapshot opts q = Inr (entries, q')"
  shows "map qe_number (eligible_entries q') = map qe_number (eligible_entries q)"
    and "map (\<lambda>e. (qe_created_at e, qe_number e)) q' = map (\<lambda>e. (qe_created_at e, qe_number e)) q"
  using assms by (auto elim!: batch_of_cases)

subsection \<open>The shape of a plan\<close>

lemma build_dry_run_result_cases:
  assumes "build_dry_run_result policy snapshot opts = Inr r"
  obtains rp entries queue where
    "find_repository_policy policy (snap_repository snapshot) (snap_base_branch snapshot) = Inr rp"
    "batch_of rp snapshot opts (plan_queue rp snapshot opts) = Inr (entries, queue)"
    "choose_action rp (opt_batch_landing opts) entries
       = (dr_selected_pr r, dr_intended_next_action r, dr_next_action_detail r)"
    "dr_queue_order r = map qe_number entries" "dr_queue r = queue"
proof -
  from assms obtain rp entries queue where
    rp: "find_repository_policy policy (snap_repository snapshot) (snap_base_branch snapshot) = Inr rp"
    and b: "batch_of rp snapshot opts (plan_queue rp snapshot opts) = Inr (entries, queue)"
    by (auto simp: build_dry_run_result_def build_queue_entries_eq plan_queue_def)
  obtain selected action detail where
    ch: "choose_action rp (opt_batch_landing opts) entries = (selected, action, detail)"
    by (rule prod_cases3)
  from assms rp b ch that [OF rp b] show ?thesis
    by (auto simp: build_dry_run_result_def build_queue_entries_eq plan_queue_def)
qed

lemma eligible_entry_admissible:
  assumes "e \<in> set (eligible_entries (plan_queue rp snapshot opts))"
  obtains pr where "pr \<in> set (base_pull_requests snapshot)"
    "same_pull_request (build_queue_entry rp pr (opt_batch_landing opts)
       (plan_allow_unknown opts pr) False) e"
    "admissible rp pr (opt_batch_landing opts) (plan_allow_unknown opts pr) False"
proof -
  from assms have e: "e \<in> set (plan_queue rp snapshot opts)" "qe_eligible e"
    by (auto simp: eligible_entries_def)
  from plan_queue_member [OF e(1)] e(2) that show ?thesis
    by (auto simp: narrowed_def ineligible_reasons_Nil_iff)
qed

lemma plan_queue_eligible_Nil_iff:
  "eligible_entries (plan_queue rp snapshot opts) = [] \<longleftrightarrow>
     (\<forall>pr \<in> set (base_pull_requests snapshot).
        \<not> admissible rp pr (opt_batch_landing opts) (plan_allow_unknown opts pr) False)"
  by (simp add: plan_queue_def held_queue_eligible_Nil_iff first_queue_def
      eligible_entries_map_Nil_iff ineligible_reasons_Nil_iff)

subsection \<open>Properties\<close>

text \<open>
  C38. Planning fails exactly where no policy is found for the snapshot's repository and branch, with
  that error. In particular the lookup of an entry's changed paths never raises a key error.
\<close>

theorem plan_fails_only_without_policy:
  "build_dry_run_result policy snapshot opts = Inl err \<longleftrightarrow>
     find_repository_policy policy (snap_repository snapshot) (snap_base_branch snapshot) = Inl err"
proof (cases "find_repository_policy policy (snap_repository snapshot) (snap_base_branch snapshot)")
  case (Inl e)
  then show ?thesis by (simp add: build_dry_run_result_def)
next
  case (Inr rp)
  obtain entries queue where
    b: "batch_of rp snapshot opts (plan_queue rp snapshot opts) = Inr (entries, queue)"
    using batch_of_total [of "plan_queue rp snapshot opts" snapshot rp opts] paths_by_number_known
    by fastforce
  obtain selected action detail where
    "choose_action rp (opt_batch_landing opts) entries = (selected, action, detail)"
    by (rule prod_cases3)
  with Inr b show ?thesis
    by (simp add: build_dry_run_result_def build_queue_entries_eq plan_queue_def)
qed

text \<open>
  C37. The queue of a plan holds every pull request of the snapshot that targets the base branch, each
  as often as the snapshot has it, ordered by creation time and then by number.
\<close>

theorem plan_queue_complete_and_sorted:
  assumes "build_dry_run_result policy snapshot opts = Inr r"
  shows "mset (map (\<lambda>e. (qe_created_at e, qe_number e)) (dr_queue r))
       = image_mset queue_key {#p \<in># mset (pull_requests snapshot).
           targets_merge_train_base p (snap_base_branch snapshot)#}
     \<and> sorted (map (\<lambda>e. (qe_created_at e, qe_number e)) (dr_queue r))"
proof -
  from assms obtain rp entries where
    "batch_of rp snapshot opts (plan_queue rp snapshot opts) = Inr (entries, dr_queue r)"
    by (elim build_dry_run_result_cases) auto
  then have "map (\<lambda>e. (qe_created_at e, qe_number e)) (dr_queue r)
      = map queue_key (base_pull_requests snapshot)"
    by (simp only: batch_of_queue plan_queue_numbers)
  then show ?thesis by (simp only: base_pull_requests_def) simp
qed

theorem plan_queue_complete_and_sorted_witness:
  "\<exists>r. build_dry_run_result ex_policy ex_snapshot ex_options = Inr r
     \<and> sorted (map (\<lambda>e. (qe_created_at e, qe_number e)) (dr_queue r))"
  using plan_queue_complete_and_sorted [of ex_policy ex_snapshot ex_options] ex_plan_exists by metis

text \<open>
  C36. The numbers a plan takes are the front of the eligible entries of its queue, without a gap;
  a plan without batch landing takes all of them.
\<close>

theorem plan_order_is_front_of_eligible_queue:
  assumes "build_dry_run_result policy snapshot opts = Inr r"
  shows "prefix (dr_queue_order r) (map qe_number (filter qe_eligible (dr_queue r)))
     \<and> (opt_batch_landing opts \<or> dr_queue_order r = map qe_number (filter qe_eligible (dr_queue r)))"
proof -
  from assms obtain rp entries where
    b: "batch_of rp snapshot opts (plan_queue rp snapshot opts) = Inr (entries, dr_queue r)"
    and o: "dr_queue_order r = map qe_number entries"
    by (elim build_dry_run_result_cases) auto
  have "opt_batch_landing opts \<or> entries = eligible_entries (plan_queue rp snapshot opts)"
    using b by (auto elim: batch_of_cases)
  with o batch_of_queue(1) [OF b] batch_of_prefix [OF b] show ?thesis
    by (auto simp: map_mono_prefix simp flip: eligible_entries_def)
qed

theorem plan_order_is_front_of_eligible_queue_witness:
  "\<exists>r. build_dry_run_result ex_policy ex_snapshot ex_options = Inr r
     \<and> prefix (dr_queue_order r) (map qe_number (filter qe_eligible (dr_queue r)))"
  using plan_order_is_front_of_eligible_queue [of ex_policy ex_snapshot ex_options] ex_plan_exists
  by metis

text \<open>
  C34. A batch never exceeds the policy's maximum; an existing candidate keeps the size it has.
\<close>

theorem plan_respects_batch_size:
  assumes "build_dry_run_result policy snapshot opts = Inr r" and "opt_batch_landing opts"
    and "find_repository_policy policy (snap_repository snapshot) (snap_base_branch snapshot) = Inr rp"
    and "max_batch_size rp = Some n"
  shows "length (dr_queue_order r)
     \<le> (case opt_existing_candidate_size opts of None \<Rightarrow> n | Some k \<Rightarrow> max n k)"
proof -
  have "batch_limit rp (opt_existing_candidate_size opts)
      = Some (case opt_existing_candidate_size opts of None \<Rightarrow> n | Some k \<Rightarrow> max n k)"
    using assms(4) by (simp add: batch_limit_def split: option.split)
  with assms(1-3) batch_of_bounded show ?thesis by (elim build_dry_run_result_cases) auto
qed

theorem plan_respects_batch_size_witness:
  "\<exists>r. build_dry_run_result ex_policy ex_snapshot ex_options = Inr r \<and> length (dr_queue_order r) \<le> 2"
proof -
  have limits: "opt_batch_landing ex_options" "max_batch_size ex_repository_policy = Some 2"
    "opt_existing_candidate_size ex_options = None"
    by (simp_all add: ex_options_def ex_repository_policy_def)
  from plan_respects_batch_size [OF _ limits(1) ex_find_policy limits(2)] limits(3) show ?thesis
    by (metis ex_plan_exists option.simps(4))
qed

text \<open>
  C25. In a batch of more than one pull request there is no dependency update and none that must land
  on its own.
\<close>

theorem plan_isolates_dependency_updates:
  assumes "build_dry_run_result policy snapshot opts = Inr r" and "opt_batch_landing opts"
    and "find_repository_policy policy (snap_repository snapshot) (snap_base_branch snapshot) = Inr rp"
    and "length (dr_queue_order r) \<noteq> 1" and "pr \<in> set (pull_requests snapshot)"
    and "pr_number pr \<in> set (dr_queue_order r)"
    and "distinct (map pr_number (pull_requests snapshot))"
  shows "\<not> pr_requires_individual_landing pr
     \<and> (case pr_actor_id pr of None \<Rightarrow> True
        | Some i \<Rightarrow> i \<notin> dependency_identity_ids (enqueue rp))"
proof -
  from assms obtain entries queue where
    b: "batch_of rp snapshot opts (plan_queue rp snapshot opts) = Inr (entries, queue)"
    and o: "dr_queue_order r = map qe_number entries"
    by (elim build_dry_run_result_cases) auto
  from batch_of_stops [OF b] assms(2,4) o have
    stops: "\<forall>e \<in> set entries. \<not> isolated (dependency_numbers rp snapshot) e"
    by (auto simp: batch_stops_def)
  from assms(6) o obtain e where e: "e \<in> set entries" "qe_number e = pr_number pr" by auto
  from e(1) batch_of_prefix [OF b] have "e \<in> set (eligible_entries (plan_queue rp snapshot opts))"
    by (auto dest: set_mono_prefix)
  then obtain pr' where "pr' \<in> set (pull_requests snapshot)"
    and same: "pr_number pr' = qe_number e"
      "qe_requires_individual_landing e = pr_requires_individual_landing pr'"
    by (elim eligible_entry_admissible) (auto simp: same_pull_request_def base_pull_requests_def)
  with e assms(5,7) have "pr' = pr" by (metis distinct_map inj_onD)
  with stops e same assms(5) show ?thesis
    by (auto simp: isolated_def dependency_numbers_def split: option.splits)
qed

theorem plan_isolates_dependency_updates_witness:
  "\<not> pr_requires_individual_landing (ex_pull_request 1 ''2026-01-01'' ''h1'')
   \<and> (1::nat) \<notin> dependency_identity_ids (enqueue ex_repository_policy)"
proof -
  obtain r where r: "build_dry_run_result ex_policy ex_snapshot ex_options = Inr r"
    and o: "dr_queue_order r = [1, 2]" by (rule ex_plan_exists)
  have opts: "opt_batch_landing ex_options" by (simp add: ex_options_def)
  have "length (dr_queue_order r) \<noteq> 1" by (simp add: o)
  moreover have "ex_pull_request 1 ''2026-01-01'' ''h1'' \<in> set (pull_requests ex_snapshot)"
    by (simp add: ex_snapshot_def)
  moreover have "pr_number (ex_pull_request 1 ''2026-01-01'' ''h1'') \<in> set (dr_queue_order r)"
    by (simp add: o ex_pull_request_def)
  moreover have "distinct (map pr_number (pull_requests ex_snapshot))"
    by (simp add: ex_snapshot_def ex_dependency_update_def ex_pull_request_def)
  ultimately have "\<not> pr_requires_individual_landing (ex_pull_request 1 ''2026-01-01'' ''h1'')
     \<and> (case pr_actor_id (ex_pull_request 1 ''2026-01-01'' ''h1'') of None \<Rightarrow> True
        | Some i \<Rightarrow> i \<notin> dependency_identity_ids (enqueue ex_repository_policy))"
    by (rule plan_isolates_dependency_updates [OF r opts ex_find_policy])
  then show ?thesis by (simp add: ex_pull_request_def)
qed

text \<open>
  C8. A plan asks for a merge only of a pull request that is in the snapshot at that head, targets
  the base, is admissible, mergeable, and has passed its required checks and its client test notes;
  a branch update is skipped only in a batch plan that merges with merge commits.
\<close>

theorem plan_merges_only_ready_heads:
  assumes "build_dry_run_result policy snapshot opts = Inr r"
    and "find_repository_policy policy (snap_repository snapshot) (snap_base_branch snapshot) = Inr rp"
    and "dr_intended_next_action r = Act_merge"
  shows "\<exists>e pr. dr_selected_pr r = Some e \<and> hd (dr_queue_order r) = qe_number e
     \<and> pr \<in> set (pull_requests snapshot)
     \<and> targets_merge_train_base pr (snap_base_branch snapshot)
     \<and> qe_number e = pr_number pr \<and> qe_head_sha e = pr_head_sha pr
     \<and> admissible rp pr (opt_batch_landing opts) (plan_allow_unknown opts pr) False
     \<and> pr_mergeable pr = Mergeable \<and> pr_required_checks_status pr = Checks_pass
     \<and> pr_client_test_notes_error pr = ''''
     \<and> (pr_branch_update_required pr \<longrightarrow> opt_batch_landing opts \<and> merge_method_of rp = Method_merge)"
proof -
  from assms obtain entries where
    b: "batch_of rp snapshot opts (plan_queue rp snapshot opts) = Inr (entries, dr_queue r)"
    and c: "choose_action rp (opt_batch_landing opts) entries
       = (dr_selected_pr r, Act_merge, dr_next_action_detail r)"
    and o: "dr_queue_order r = map qe_number entries"
    by (elim build_dry_run_result_cases) auto
  from c obtain e es where e: "entries = e # es" "dr_selected_pr r = Some e" "ready_to_merge e"
    "qe_branch_update_required e \<longrightarrow> skips_branch_update rp (opt_batch_landing opts) entries"
    by (rule choose_action_merge)
  have "e \<in> set (eligible_entries (plan_queue rp snapshot opts))"
    using e(1) batch_of_prefix [OF b] by (auto dest: set_mono_prefix)
  then obtain pr where "pr \<in> set (base_pull_requests snapshot)"
    "same_pull_request (build_queue_entry rp pr (opt_batch_landing opts)
       (plan_allow_unknown opts pr) False) e"
    "admissible rp pr (opt_batch_landing opts) (plan_allow_unknown opts pr) False"
    by (rule eligible_entry_admissible)
  with e o show ?thesis
    by (intro exI [of _ e] exI [of _ pr])
      (simp add: same_pull_request_def base_pull_requests_def ready_to_merge_def
        skips_branch_update_def)
qed

theorem plan_merges_only_ready_heads_witness:
  "\<exists>r pr. build_dry_run_result ex_policy ex_snapshot ex_options = Inr r
     \<and> pr \<in> set (pull_requests ex_snapshot) \<and> pr_required_checks_status pr = Checks_pass
     \<and> hd (dr_queue_order r) = pr_number pr"
proof -
  obtain r where r: "build_dry_run_result ex_policy ex_snapshot ex_options = Inr r"
    and a: "dr_intended_next_action r = Act_merge" by (rule ex_plan_exists)
  from plan_merges_only_ready_heads [OF r ex_find_policy a] r show ?thesis by metis
qed

text \<open>
  C35. A plan idles exactly when no pull request of the base is admissible: the holds, deferrals and
  batch stops never leave the train idle while something could move.
\<close>

theorem plan_idle_iff_nothing_admissible:
  assumes "build_dry_run_result policy snapshot opts = Inr r"
    and "find_repository_policy policy (snap_repository snapshot) (snap_base_branch snapshot) = Inr rp"
    and "max_batch_size rp \<noteq> Some 0"
  shows "dr_intended_next_action r = Act_idle \<longleftrightarrow>
     (\<forall>pr \<in> set (pull_requests snapshot). targets_merge_train_base pr (snap_base_branch snapshot)
        \<longrightarrow> \<not> admissible rp pr (opt_batch_landing opts) (plan_allow_unknown opts pr) False)"
proof -
  from assms(1,2) obtain entries where
    b: "batch_of rp snapshot opts (plan_queue rp snapshot opts) = Inr (entries, dr_queue r)"
    and c: "choose_action rp (opt_batch_landing opts) entries
       = (dr_selected_pr r, dr_intended_next_action r, dr_next_action_detail r)"
    by (elim build_dry_run_result_cases) auto
  have "entries = [] \<longleftrightarrow> eligible_entries (plan_queue rp snapshot opts) = []"
    using batch_of_prefix [OF b] batch_of_nonempty [OF b _ assms(3)] by auto
  with choose_action_idle [OF c] show ?thesis
    by (auto simp: plan_queue_eligible_Nil_iff base_pull_requests_def)
qed

theorem plan_idle_iff_nothing_admissible_witness:
  "\<exists>pr \<in> set (pull_requests ex_snapshot). admissible ex_repository_policy pr True False False"
proof -
  obtain r where r: "build_dry_run_result ex_policy ex_snapshot ex_options = Inr r"
    and a: "dr_intended_next_action r = Act_merge" by (rule ex_plan_exists)
  have "max_batch_size ex_repository_policy \<noteq> Some 0" by (simp add: ex_repository_policy_def)
  from plan_idle_iff_nothing_admissible [OF r ex_find_policy this] a show ?thesis
    by (auto simp: ex_options_def plan_allow_unknown_def)
qed

end
