(* ===== verification/Py_Json.thy ===== *)
theory Py_Json
  imports Prelude
begin

section \<open>JSON values\<close>

text \<open>
  The \<open>dict[str, object]\<close> values the records carry (step payloads, results) and the operations of
  Python's \<open>dict\<close> the sources use on them. An object is its list of items in insertion order.
\<close>

datatype json =
    JNull
  | JBool bool
  | JInt int
  | JStr string
  | JArr "json list"
  | JObj "(string \<times> json) list"

type_synonym json_object = "(string \<times> json) list"

text \<open>\<open>bool(value)\<close>.\<close>

fun json_truthy :: "json \<Rightarrow> bool" where
  "json_truthy JNull = False"
| "json_truthy (JBool b) = b"
| "json_truthy (JInt i) = (i \<noteq> 0)"
| "json_truthy (JStr s) = (s \<noteq> [])"
| "json_truthy (JArr xs) = (xs \<noteq> [])"
| "json_truthy (JObj kvs) = (kvs \<noteq> [])"

definition dict_get :: "string \<Rightarrow> json_object \<Rightarrow> json" where
  "dict_get k d = (case map_of d k of None \<Rightarrow> JNull | Some v \<Rightarrow> v)"

text \<open>Assignment keeps the position of a key that is there, a new key goes last.\<close>

fun dict_set :: "string \<Rightarrow> json \<Rightarrow> json_object \<Rightarrow> json_object" where
  "dict_set k v [] = [(k, v)]"
| "dict_set k v ((k', v') # d) = (if k' = k then (k, v) # d else (k', v') # dict_set k v d)"

text \<open>\<open>{key: value, **d}\<close>.\<close>

definition dict_after :: "string \<Rightarrow> json \<Rightarrow> json_object \<Rightarrow> json_object" where
  "dict_after k v d = foldl (\<lambda>acc (k', v'). dict_set k' v' acc) [(k, v)] d"

lemma map_of_dict_set: "map_of (dict_set k v d) = (map_of d)(k \<mapsto> v)"
  by (induction k v d rule: dict_set.induct) auto

lemma dict_after_keeps:
  assumes "distinct (map fst d)"
  shows "map_of (dict_after k v d) k' =
    (case map_of d k' of Some v' \<Rightarrow> Some v' | None \<Rightarrow> if k' = k then Some v else None)"
proof -
  have "map_of (foldl (\<lambda>acc (k', v'). dict_set k' v' acc) acc d) k'
      = (case map_of d k' of Some v' \<Rightarrow> Some v' | None \<Rightarrow> map_of acc k')" for acc
    using assms
    by (induction d arbitrary: acc)
      (auto simp: map_of_dict_set image_iff split: option.splits dest: map_of_SomeD)
  then show ?thesis by (simp add: dict_after_def split: option.split)
qed

end
