(* ===== verification/Py_Time.thy ===== *)
theory Py_Time
  imports Prelude
begin

section \<open>Timestamps\<close>

text \<open>
  The records carry times as strings such as \<open>2026-01-31T09:05:00Z\<close> and the stores compare those
  strings. This theory models the calendar behind them (\<open>datetime\<close> of the standard library, the
  proleptic Gregorian calendar in UTC, at the resolution of a second that
  \<open>control_plane/timestamps.py\<close> keeps): an instant is the number of seconds since
  0001-01-01T00:00:00, and \<open>utc_timestamp\<close> is its string. The two results the stores rest on: the
  order of the strings is the order of the instants, and reading a written timestamp gives the
  instant back.

  Bounds: years up to 9999, the last that \<open>datetime\<close> has. \<open>strftime\<close> leaves a year below 1000
  unpadded on some platforms; the model pads it as \<open>isoformat\<close> does.
\<close>

subsection \<open>Calendar\<close>

definition leap_year :: "nat \<Rightarrow> bool" where
  "leap_year y \<longleftrightarrow> y mod 4 = 0 \<and> (y mod 100 \<noteq> 0 \<or> y mod 400 = 0)"

definition year_days :: "nat \<Rightarrow> nat" where
  "year_days y = (if leap_year y then 366 else 365)"

definition month_days :: "nat \<Rightarrow> nat \<Rightarrow> nat" where
  "month_days y m = (if m = 2 then if leap_year y then 29 else 28
     else if m = 4 \<or> m = 6 \<or> m = 9 \<or> m = 11 then 30 else 31)"

text \<open>Days before year \<open>Suc k\<close> (as \<open>datetime\<close> counts them), and days of a year before month \<open>Suc k\<close>.\<close>

definition days_to_year :: "nat \<Rightarrow> nat" where
  "days_to_year k = k * 365 + k div 4 - k div 100 + k div 400"

fun days_to_month :: "nat \<Rightarrow> nat \<Rightarrow> nat" where
  "days_to_month y 0 = 0"
| "days_to_month y (Suc k) = days_to_month y k + month_days y (Suc k)"

lemma year_days_pos [simp]: "0 < year_days y"
  by (simp add: year_days_def)

lemma month_days_pos [simp]: "0 < month_days y m"
  by (simp add: month_days_def)

lemma month_days_less: "month_days y m < 100"
  by (simp add: month_days_def)

lemma days_to_month_year: "days_to_month y 12 = year_days y"
  by (simp add: eval_nat_numeral month_days_def year_days_def)

text \<open>Which part of a partition an offset falls into, by counting from part \<open>k\<close>.\<close>

function find_year :: "nat \<Rightarrow> nat \<Rightarrow> nat \<times> nat" where
  "find_year k r = (if r < year_days (Suc k) then (k, r) else find_year (Suc k) (r - year_days (Suc k)))"
  by pat_completeness auto
termination
  by (relation "measure snd") (auto, metis diff_less leI less_le_trans year_days_pos)

function find_month :: "nat \<Rightarrow> nat \<Rightarrow> nat \<Rightarrow> nat \<times> nat" where
  "find_month y k r = (if r < month_days y (Suc k) then (k, r)
     else find_month y (Suc k) (r - month_days y (Suc k)))"
  by pat_completeness auto
termination
  by (relation "measure (snd \<circ> snd)") (auto, metis diff_less leI less_le_trans month_days_pos)

declare find_year.simps [simp del] find_month.simps [simp del]

text \<open>A 400-year cycle has 146097 days, so the search starts at the cycle of the day.\<close>

definition date_of :: "nat \<Rightarrow> nat \<times> nat \<times> nat" where
  "date_of day =
     (let (y, r) = find_year (400 * (day div 146097)) (day mod 146097);
          (m, d) = find_month (Suc y) 0 r
      in (Suc y, Suc m, Suc d))"

definition day_of :: "nat \<times> nat \<times> nat \<Rightarrow> nat" where
  "day_of ymd = (case ymd of (y, m, d) \<Rightarrow> days_to_year (y - 1) + days_to_month y (m - 1) + (d - 1))"

subsection \<open>Strings\<close>

definition pad2 :: "nat \<Rightarrow> string" where
  "pad2 n = [digit_char (n div 10 mod 10), digit_char (n mod 10)]"

definition pad4 :: "nat \<Rightarrow> string" where
  "pad4 n = pad2 (n div 100) @ pad2 (n mod 100)"

definition utc_timestamp :: "nat \<Rightarrow> string" where
  "utc_timestamp t =
     (let (y, m, d) = date_of (t div 86400); s = t mod 86400
      in pad4 y @ ''-'' @ pad2 m @ ''-'' @ pad2 d @ ''T''
         @ pad2 (s div 3600) @ '':'' @ pad2 (s div 60 mod 60) @ '':''
         @ pad2 (s mod 60) @ ''Z'')"

definition last_instant :: nat where
  "last_instant = 315537897599"

definition digit_value :: "char \<Rightarrow> nat option" where
  "digit_value c = (let n = of_char c in if 48 \<le> n \<and> n \<le> 57 then Some (n - 48) else None)"

fun read_nat :: "nat \<Rightarrow> string \<Rightarrow> nat option" where
  "read_nat acc [] = Some acc"
| "read_nat acc (c # cs) = (case digit_value c of None \<Rightarrow> None | Some d \<Rightarrow> read_nat (10 * acc + d) cs)"

definition read_field :: "string \<Rightarrow> nat \<Rightarrow> nat \<Rightarrow> nat option" where
  "read_field s from width = read_nat 0 (take width (drop from s))"

text \<open>
  \<open>datetime.fromisoformat\<close> on a timestamp of the form \<open>YYYY-MM-DDTHH:MM:SSZ\<close>; the other formats it
  accepts do not occur where the model uses it, and read as None.
\<close>

definition parse_timestamp :: "string \<Rightarrow> nat option" where
  "parse_timestamp s =
     (if length s = 20 \<and> s ! 4 = CHR ''-'' \<and> s ! 7 = CHR ''-'' \<and> s ! 10 = CHR ''T''
         \<and> s ! 13 = CHR '':'' \<and> s ! 16 = CHR '':'' \<and> s ! 19 = CHR ''Z''
      then (case (read_field s 0 4, read_field s 5 2, read_field s 8 2,
                  read_field s 11 2, read_field s 14 2, read_field s 17 2) of
          (Some y, Some m, Some d, Some h, Some mi, Some sec) \<Rightarrow>
            if 1 \<le> y \<and> 1 \<le> m \<and> m \<le> 12 \<and> 1 \<le> d \<and> d \<le> month_days y m
               \<and> h < 24 \<and> mi < 60 \<and> sec < 60
            then Some (day_of (y, m, d) * 86400 + h * 3600 + mi * 60 + sec) else None
        | _ \<Rightarrow> None)
      else None)"

subsection \<open>The calendar partitions the days\<close>

lemma days_to_year_eq: "days_to_year k + k div 100 = k * 365 + k div 4 + k div 400"
proof -
  have "k div 100 \<le> k * 365" by (rule order_trans [OF div_le_dividend]) simp
  then show ?thesis by (simp add: days_to_year_def)
qed

lemma days_to_year_Suc [simp]: "days_to_year (Suc k) = days_to_year k + year_days (Suc k)"
proof -
  have "Suc k mod 100 mod 4 = Suc k mod 4" "Suc k mod 400 mod 100 = Suc k mod 100"
    by (rule mod_mod_cancel, simp)+
  then have "Suc k mod 100 = 0 \<Longrightarrow> Suc k mod 4 = 0" "Suc k mod 400 = 0 \<Longrightarrow> Suc k mod 100 = 0"
    by auto
  with days_to_year_eq [of k] days_to_year_eq [of "Suc k"] show ?thesis
    by (cases "Suc k mod 400 = 0"; cases "Suc k mod 100 = 0"; cases "Suc k mod 4 = 0")
      (simp_all add: year_days_def leap_year_def div_Suc)
qed

lemma days_to_year_0 [simp]: "days_to_year 0 = 0"
  by (simp add: days_to_year_def)

lemma days_to_year_cycle: "days_to_year (400 * c) = 146097 * c"
  by (simp add: days_to_year_def)

lemma days_to_year_mono: "j \<le> k \<Longrightarrow> days_to_year j \<le> days_to_year k"
  by (rule lift_Suc_mono_le) auto

lemma days_to_month_mono: "j \<le> k \<Longrightarrow> days_to_month y j \<le> days_to_month y k"
  by (rule lift_Suc_mono_le [of "days_to_month y"]) auto

lemma find_year_sound:
  "find_year k r = (k', r') \<Longrightarrow> days_to_year k + r = days_to_year k' + r' \<and> r' < year_days (Suc k')"
proof (induction k r rule: find_year.induct)
  case (1 k r)
  then show ?case by (subst (asm) (2) find_year.simps) (auto split: if_splits)
qed

lemma find_month_sound:
  "find_month y k r = (k', r') \<Longrightarrow>
     days_to_month y k + r = days_to_month y k' + r' \<and> r' < month_days y (Suc k')"
proof (induction y k r rule: find_month.induct)
  case (1 y k r)
  then show ?case by (subst (asm) (2) find_month.simps) (auto split: if_splits)
qed

text \<open>What \<open>date_of\<close> returns: the day, the bounds of the fields.\<close>

lemma date_of_sound:
  assumes "date_of day = (y, m, d)"
  shows "day = days_to_year (y - 1) + days_to_month y (m - 1) + (d - 1)"
    and "1 \<le> y" "1 \<le> m" "m \<le> 12" "1 \<le> d" "d \<le> month_days y m"
    and "days_to_month y (m - 1) + (d - 1) < year_days y"
proof -
  obtain k r where y: "find_year (400 * (day div 146097)) (day mod 146097) = (k, r)" by fastforce
  obtain j q where m: "find_month (Suc k) 0 r = (j, q)" by fastforce
  from assms y m have eq: "y = Suc k" "m = Suc j" "d = Suc q" by (auto simp: date_of_def)
  from find_year_sound [OF y] days_to_year_cycle [of "day div 146097"]
  have day: "day = days_to_year k + r" "r < year_days (Suc k)" by auto
  from find_month_sound [OF m] have r: "r = days_to_month (Suc k) j + q"
    "q < month_days (Suc k) (Suc j)" by auto
  have "j < 12"
  proof (rule ccontr)
    assume "\<not> j < 12"
    then have "year_days (Suc k) \<le> days_to_month (Suc k) j"
      using days_to_month_mono [of 12 j "Suc k"] by (simp add: days_to_month_year)
    with day r show False by simp
  qed
  with day r show "day = days_to_year (y - 1) + days_to_month y (m - 1) + (d - 1)"
    "1 \<le> y" "1 \<le> m" "m \<le> 12" "1 \<le> d" "d \<le> month_days y m"
    "days_to_month y (m - 1) + (d - 1) < year_days y"
    by (simp_all add: eq)
qed

lemma date_of_day_of: "day_of (date_of day) = day"
  using date_of_sound(1) by (auto simp: day_of_def split: prod.split)

text \<open>An earlier day has a lexicographically smaller date.\<close>

lemma date_of_mono:
  assumes "day < day'"
  shows "date_of day < date_of day'"
proof -
  obtain y m d y' m' d' where dates: "date_of day = (y, m, d)" "date_of day' = (y', m', d')"
    by (metis prod_cases3)
  note D = date_of_sound [OF dates(1)] and D' = date_of_sound [OF dates(2)]
  have "\<not> y' < y"
  proof
    assume "y' < y"
    with D'(2) days_to_year_mono [of "Suc (y' - 1)" "y - 1"]
    have "days_to_year (y' - 1) + year_days (Suc (y' - 1)) \<le> days_to_year (y - 1)"
      unfolding days_to_year_Suc by simp
    then have "days_to_year (y' - 1) + year_days y' \<le> days_to_year (y - 1)" using D'(2) by simp
    with D(1) D'(1,7) assms show False by simp
  qed
  moreover have "\<not> m' < m" if "y = y'"
  proof
    assume "m' < m"
    with D'(3) days_to_month_mono [of "Suc (m' - 1)" "m - 1" y]
    have "days_to_month y (m' - 1) + month_days y (Suc (m' - 1)) \<le> days_to_month y (m - 1)"
      unfolding days_to_month.simps by simp
    then have "days_to_month y (m' - 1) + month_days y m' \<le> days_to_month y (m - 1)"
      using D'(3) by simp
    moreover have "d' - 1 < month_days y m'" using D'(5,6) that by simp
    moreover have "day' = days_to_year (y - 1) + days_to_month y (m' - 1) + (d' - 1)"
      using D'(1) that by simp
    ultimately show False using D(1) assms by linarith
  qed
  moreover have "\<not> d' \<le> d" if "y = y'" "m = m'"
    using D(1,5) D'(1,5) assms that by auto
  ultimately show ?thesis by (force simp: dates less_prod_def')
qed

subsection \<open>Strings of the same layout\<close>

text \<open>Two strings that start with parts of the same length compare part by part.\<close>

lemma less_append_eq_length:
  "length xs = length ys \<Longrightarrow> xs @ us < ys @ vs \<longleftrightarrow> xs < ys \<or> xs = ys \<and> us < (vs :: string)"
  by (induction xs ys rule: list_induct2) auto

lemma digit_char_less: "d < 10 \<Longrightarrow> e < 10 \<Longrightarrow> digit_char d < digit_char e \<longleftrightarrow> d < e"
  by (simp add: digit_char_def less_char_def)

lemma digit_char_eq: "d < 10 \<Longrightarrow> e < 10 \<Longrightarrow> digit_char d = digit_char e \<longleftrightarrow> d = e"
  using digit_char_less [of d e] digit_char_less [of e d] by force

lemma length_pad2 [simp]: "length (pad2 n) = 2" and length_pad4 [simp]: "length (pad4 n) = 4"
  by (simp_all add: pad2_def pad4_def)

lemma div_mod_less_iff:
  "m div k < n div k \<or> m div k = n div k \<and> m mod k < n mod k \<longleftrightarrow> m < (n :: nat)"
proof (cases "m div k" "n div k" rule: linorder_cases)
  case less
  then show ?thesis by (meson div_le_mono leD leI)
next
  case equal
  with div_mult_mod_eq [of m k] div_mult_mod_eq [of n k] show ?thesis
    by (metis less_irrefl nat_add_left_cancel_less)
next
  case greater
  then have "n < m" by (meson div_le_mono leD leI)
  with greater show ?thesis by simp
qed

lemma pad2_less:
  assumes "m < 100" "n < 100"
  shows "pad2 m < pad2 n \<longleftrightarrow> m < n"
proof -
  have "m div 10 mod 10 = m div 10" "n div 10 mod 10 = n div 10" using assms by simp_all
  then show ?thesis
    using div_mod_less_iff [of m 10 n] assms by (simp add: pad2_def digit_char_less digit_char_eq)
qed

lemma pad2_eq: "m < 100 \<Longrightarrow> n < 100 \<Longrightarrow> pad2 m = pad2 n \<longleftrightarrow> m = n"
  using pad2_less [of m n] pad2_less [of n m] by force

lemma pad4_less: "m < 10000 \<Longrightarrow> n < 10000 \<Longrightarrow> pad4 m < pad4 n \<longleftrightarrow> m < n"
  using div_mod_less_iff [of m 100 n]
  by (simp add: pad4_def less_append_eq_length pad2_less pad2_eq div_less_iff_less_mult)

lemma pad4_eq: "m < 10000 \<Longrightarrow> n < 10000 \<Longrightarrow> pad4 m = pad4 n \<longleftrightarrow> m = n"
  using pad4_less [of m n] pad4_less [of n m] by force

subsection \<open>The order of timestamps is the order of instants\<close>

lemma date_of_year_bound:
  assumes "date_of day = (y, m, d)" "day \<le> 3652058"
  shows "y \<le> 9999"
proof (rule ccontr)
  assume "\<not> y \<le> 9999"
  then have "days_to_year 9999 \<le> days_to_year (y - 1)" by (intro days_to_year_mono) simp
  moreover have "days_to_year 9999 = 3652059" by (simp add: days_to_year_def)
  ultimately show False using date_of_sound(1) [OF assms(1)] assms(2) by simp
qed

lemma instant_day_bound: "t \<le> last_instant \<Longrightarrow> t div 86400 \<le> 3652058"
  by (simp add: last_instant_def)

definition clock_of :: "nat \<Rightarrow> string" where
  "clock_of s = pad2 (s div 3600) @ '':'' @ pad2 (s div 60 mod 60) @ '':'' @ pad2 (s mod 60) @ ''Z''"

definition date_string :: "nat \<times> nat \<times> nat \<Rightarrow> string" where
  "date_string ymd = (case ymd of (y, m, d) \<Rightarrow> pad4 y @ ''-'' @ pad2 m @ ''-'' @ pad2 d)"

lemma utc_timestamp_split:
  "utc_timestamp t = date_string (date_of (t div 86400)) @ ''T'' @ clock_of (t mod 86400)"
  by (simp add: utc_timestamp_def date_string_def clock_of_def Let_def split: prod.split)

lemma length_clock_of [simp]: "length (clock_of s) = 9"
  by (simp add: clock_of_def)

lemma length_date_string [simp]: "length (date_string ymd) = 10"
  by (simp add: date_string_def split: prod.split)

lemma clock_of_mono:
  assumes "s < s'" "s' < 86400"
  shows "clock_of s < clock_of s'"
proof -
  have b: "s div 3600 < 100" "s' div 3600 < 100" "s mod 60 < 100" "s' mod 60 < 100"
    "s div 60 mod 60 < 100" "s' div 60 mod 60 < 100"
    using assms by (auto simp: div_less_iff_less_mult intro: less_trans [OF mod_less_divisor])
  have h: "n div 3600 = n div 60 div 60" for n :: nat by (simp add: div_mult2_eq [symmetric])
  have "s div 60 < s' div 60 \<or> s div 60 = s' div 60 \<and> s mod 60 < s' mod 60"
    using assms(1) by (simp add: div_mod_less_iff)
  moreover have "s div 60 < s' div 60 \<longleftrightarrow> s div 3600 < s' div 3600
      \<or> s div 3600 = s' div 3600 \<and> s div 60 mod 60 < s' div 60 mod 60"
    unfolding h by (rule div_mod_less_iff [symmetric])
  moreover have "s div 60 = s' div 60 \<Longrightarrow> s div 3600 = s' div 3600
      \<and> s div 60 mod 60 = s' div 60 mod 60" by (simp add: h)
  ultimately show ?thesis
    using b by (auto simp: clock_of_def less_append_eq_length pad2_less pad2_eq)
qed

lemma date_string_mono:
  assumes "date_of day < date_of day'" "day \<le> 3652058" "day' \<le> 3652058"
  shows "date_string (date_of day) < date_string (date_of day')"
proof -
  obtain y m d y' m' d' where dates: "date_of day = (y, m, d)" "date_of day' = (y', m', d')"
    by (metis prod_cases3)
  note D = date_of_sound [OF dates(1)] and D' = date_of_sound [OF dates(2)]
  have "y < 10000" "y' < 10000" using date_of_year_bound dates assms(2,3) by fastforce+
  moreover have "m < 100" "m' < 100" "d < 100" "d' < 100"
    using D(4,6) D'(4,6) month_days_less le_less_trans by fastforce+
  ultimately show ?thesis using assms(1)
    by (auto simp: dates date_string_def less_append_eq_length pad4_less pad4_eq pad2_less pad2_eq
        less_prod_def')
qed

lemma utc_timestamp_mono:
  assumes "t < t'" "t' \<le> last_instant"
  shows "utc_timestamp t < utc_timestamp t'"
proof -
  have days: "t div 86400 \<le> 3652058" "t' div 86400 \<le> 3652058"
    using assms instant_day_bound [of t] instant_day_bound [of t'] by simp_all
  consider "t div 86400 < t' div 86400"
    | "t div 86400 = t' div 86400" "t mod 86400 < t' mod 86400"
    using assms(1) div_mod_less_iff [of t 86400 t'] by blast
  then show ?thesis
  proof cases
    case 1
    then show ?thesis
      using date_string_mono [OF date_of_mono days]
      by (simp add: utc_timestamp_split less_append_eq_length)
  next
    case 2
    then show ?thesis
      using clock_of_mono [of "t mod 86400" "t' mod 86400"]
      by (simp add: utc_timestamp_split less_append_eq_length)
  qed
qed

lemma utc_timestamp_less_iff:
  "t \<le> last_instant \<Longrightarrow> t' \<le> last_instant \<Longrightarrow> utc_timestamp t < utc_timestamp t' \<longleftrightarrow> t < t'"
  by (metis utc_timestamp_mono less_asym linorder_neqE_nat)

lemma utc_timestamp_le_iff:
  "t \<le> last_instant \<Longrightarrow> t' \<le> last_instant \<Longrightarrow> utc_timestamp t \<le> utc_timestamp t' \<longleftrightarrow> t \<le> t'"
  by (metis utc_timestamp_less_iff leD leI)

lemma utc_timestamp_inj:
  "t \<le> last_instant \<Longrightarrow> t' \<le> last_instant \<Longrightarrow> utc_timestamp t = utc_timestamp t' \<longleftrightarrow> t = t'"
  by (metis utc_timestamp_mono less_irrefl linorder_neqE_nat)

lemma length_utc_timestamp [simp]: "length (utc_timestamp t) = 20"
  by (simp add: utc_timestamp_split)

subsection \<open>Reading a timestamp back\<close>

lemma digit_value_digit_char: "d < 10 \<Longrightarrow> digit_value (digit_char d) = Some d"
  by (simp add: digit_value_def digit_char_def)

lemma read_pad2:
  assumes "n < 100"
  shows "read_nat acc (pad2 n) = Some (100 * acc + n)"
proof -
  have "n div 10 mod 10 = n div 10" "n = 10 * (n div 10) + n mod 10" using assms by simp_all
  then show ?thesis by (simp add: pad2_def digit_value_digit_char)
qed

lemma read_nat_append:
  "read_nat acc (xs @ ys) = (case read_nat acc xs of None \<Rightarrow> None | Some n \<Rightarrow> read_nat n ys)"
  by (induction xs arbitrary: acc) (auto split: option.split)

lemma read_pad4: "n < 10000 \<Longrightarrow> read_nat 0 (pad4 n) = Some n"
  by (simp add: pad4_def read_nat_append read_pad2 div_less_iff_less_mult)

lemma fields_of_timestamp:
  assumes "length ys = 4" "length ms = 2" "length ds = 2" "length hs = 2" "length mis = 2"
    "length ss = 2"
    and "s = ys @ ''-'' @ ms @ ''-'' @ ds @ ''T'' @ hs @ '':'' @ mis @ '':'' @ ss @ ''Z''"
  shows "length s = 20" "s ! 4 = CHR ''-''" "s ! 7 = CHR ''-''" "s ! 10 = CHR ''T''"
    "s ! 13 = CHR '':''" "s ! 16 = CHR '':''" "s ! 19 = CHR ''Z''"
    "read_field s 0 4 = read_nat 0 ys" "read_field s 5 2 = read_nat 0 ms"
    "read_field s 8 2 = read_nat 0 ds" "read_field s 11 2 = read_nat 0 hs"
    "read_field s 14 2 = read_nat 0 mis" "read_field s 17 2 = read_nat 0 ss"
  using assms by (simp_all add: nth_append read_field_def)

lemma parse_utc_timestamp:
  assumes "t \<le> last_instant"
  shows "parse_timestamp (utc_timestamp t) = Some t"
proof -
  define s where "s = t mod 86400"
  obtain y m d where date: "date_of (t div 86400) = (y, m, d)" by (metis prod_cases3)
  note D = date_of_sound [OF date]
  have y: "y < 10000" using date_of_year_bound [OF date instant_day_bound [OF assms]] by simp
  have m: "m < 100" "d < 100" using D(4,6) month_days_less [of y m] by simp_all
  have sb: "s < 86400" by (simp add: s_def)
  then have h: "s div 3600 < 24" "s div 60 mod 60 < 60" "s mod 60 < 60"
    by (simp_all add: div_less_iff_less_mult)
  have layout: "utc_timestamp t = pad4 y @ ''-'' @ pad2 m @ ''-'' @ pad2 d @ ''T''
      @ pad2 (s div 3600) @ '':'' @ pad2 (s div 60 mod 60) @ '':'' @ pad2 (s mod 60) @ ''Z''"
    by (simp add: utc_timestamp_def date s_def Let_def)
  have "s = s div 3600 * 3600 + s div 60 mod 60 * 60 + s mod 60"
  proof -
    have "s div 3600 * 60 + s div 60 mod 60 = s div 60"
      using div_mult_mod_eq [of "s div 60" 60] by (simp add: div_mult2_eq [symmetric])
    moreover have "s div 60 * 60 + s mod 60 = s" by (rule div_mult_mod_eq)
    ultimately show ?thesis by linarith
  qed
  moreover have "t = t div 86400 * 86400 + s" by (simp add: s_def)
  moreover have "day_of (y, m, d) = t div 86400" using D(1) by (simp add: day_of_def)
  ultimately have sum: "t = day_of (y, m, d) * 86400 + s div 3600 * 3600
      + s div 60 mod 60 * 60 + s mod 60" by simp
  have two: "s div 3600 < 100" "s div 60 mod 60 < 100" "s mod 60 < 100" using h by simp_all
  show ?thesis
    unfolding parse_timestamp_def using D(2-6)
    by (simp add: fields_of_timestamp [OF length_pad4 length_pad2 length_pad2 length_pad2
          length_pad2 length_pad2 layout] read_pad4 [OF y] read_pad2 m two h sum [symmetric])
qed

end
