(* ===== verification/Mt_Controller_State.thy ===== *)
theory Mt_Controller_State
  imports Py_Json Py_Time
begin

section \<open>The controller's durable state\<close>

text \<open>
  \<open>control_plane/contracts/merge_train_controller_state.py\<close>: the record that holds the controller's
  lease and its interrupted work, its validator, its key, and the details written when work is
  resumed. The model config of pydantic (\<open>extra="forbid"\<close>, lengths) is not modelled.
\<close>

subsection \<open>Records\<close>

datatype controller_status = Cs_idle | Cs_running | Cs_reconcile_required

datatype reconciliation_status = Rec_clean | Rec_adopted | Rec_required

datatype observed_check_status = Oc_not_observed | Oc_unknown | Oc_pending | Oc_pass | Oc_fail

datatype next_actor = Actor_controller | Actor_provider | Actor_repository_agent

record controller_last_result =
  lr_repository :: string
  lr_base_branch :: string
  lr_policy_key :: string
  lr_policy_sha256 :: string
  lr_pass_started_at :: string
  lr_observed_at :: string
  lr_trace_id :: string
  lr_action :: string
  lr_reason_code :: string
  lr_record_id :: string
  lr_source_failed_record_id :: string
  lr_candidate_batch_id :: string
  lr_recovery_kind :: string
  lr_candidate_sha :: string
  lr_observed_candidate_sha :: string
  lr_base_sha :: string
  lr_candidate_checks_status :: observed_check_status
  lr_base_checks_status :: observed_check_status
  lr_check_retry_of :: string
  lr_infrastructure_retry_of :: string
  lr_batch_body_retry_of :: string
  lr_reconciliation_required :: bool
  lr_semantic_progress_at :: string
  lr_next_actor :: next_actor
  lr_next_observation :: string

record job_binding =
  jb_request_id :: string
  jb_scope_sha256 :: string
  jb_binding_revision :: nat

record controller_state =
  cs_ordinary_job_binding :: "job_binding option"
  cs_controller_key :: string
  cs_repository :: string
  cs_base_branch :: string
  cs_policy_key :: string
  cs_policy_sha256 :: string
  cs_status :: controller_status
  cs_updated_at :: string
  cs_lease_owner :: string
  cs_lease_acquired_at :: string
  cs_lease_expires_at :: string
  cs_heartbeat_at :: string
  cs_active_action :: string
  cs_active_phase :: string
  cs_active_record_id :: string
  cs_active_pull_request_number :: "nat option"
  cs_step_payload :: json_object
  cs_last_owner :: string
  cs_last_action :: string
  cs_last_phase :: string
  cs_last_record_id :: string
  cs_last_pull_request_number :: "nat option"
  cs_last_transition_at :: string
  cs_reconciliation_status :: reconciliation_status
  cs_reconciliation_detail :: string
  cs_last_result :: "controller_last_result option"
  cs_semantic_progress_key :: string

subsection \<open>Validation\<close>

definition required_text :: "string \<Rightarrow> string \<Rightarrow> string res" where
  "required_text value message =
     (let normalized = py_strip value in
      if normalized = '''' then Inl (ValueError message) else Inr normalized)"

definition normalize_controller_repository :: "string \<Rightarrow> string res" where
  "normalize_controller_repository repository =
     andThen (required_text repository ''merge train controller state requires repository'') (\<lambda>r.
     if CHR ''/'' \<in> set (py_lower r) then Inr (py_lower r)
     else Inl (ValueError ''merge train controller state repository must be owner/name''))"

definition controller_key_of :: "string \<Rightarrow> string \<Rightarrow> string" where
  "controller_key_of repository base_branch =
     ''merge-train-controller:'' @ replace_char (CHR ''/'') '':'' repository @ '':'' @ base_branch"

definition build_controller_key :: "string \<Rightarrow> string \<Rightarrow> string res" where
  "build_controller_key repository base_branch =
     andThen (normalize_controller_repository repository) (\<lambda>repo.
     andThen (required_text base_branch ''merge train controller key requires base_branch'') (\<lambda>branch.
     Inr (controller_key_of repo branch)))"

definition strip_controller_fields :: "controller_state \<Rightarrow> controller_state" where
  "strip_controller_fields r = r\<lparr>
     cs_lease_owner := py_strip (cs_lease_owner r),
     cs_lease_acquired_at := py_strip (cs_lease_acquired_at r),
     cs_lease_expires_at := py_strip (cs_lease_expires_at r),
     cs_heartbeat_at := py_strip (cs_heartbeat_at r),
     cs_active_action := py_strip (cs_active_action r),
     cs_active_phase := py_strip (cs_active_phase r),
     cs_active_record_id := py_strip (cs_active_record_id r),
     cs_last_owner := py_strip (cs_last_owner r),
     cs_last_action := py_strip (cs_last_action r),
     cs_last_phase := py_strip (cs_last_phase r),
     cs_last_record_id := py_strip (cs_last_record_id r),
     cs_last_transition_at := py_strip (cs_last_transition_at r),
     cs_reconciliation_detail := py_strip (cs_reconciliation_detail r)\<rparr>"

text \<open>The checks on the status, on the stripped record.\<close>

definition check_controller_status :: "controller_state \<Rightarrow> unit res" where
  "check_controller_status r =
     andThen
       (if cs_status r = Cs_running then
          andThen (ensure (truthy (cs_lease_owner r))
            (ValueError ''running merge train controller state requires lease_owner'')) (\<lambda>_.
          andThen (ensure (truthy (cs_lease_acquired_at r))
            (ValueError ''running merge train controller state requires lease_acquired_at'')) (\<lambda>_.
          andThen (ensure (truthy (cs_lease_expires_at r))
            (ValueError ''running merge train controller state requires lease_expires_at'')) (\<lambda>_.
          andThen (ensure (truthy (cs_heartbeat_at r))
            (ValueError ''running merge train controller state requires heartbeat_at'')) (\<lambda>_.
          ensure (truthy (cs_active_action r) = truthy (cs_active_phase r))
            (ValueError ''running merge train controller state requires action and phase together'')))))
        else ensure (\<not> (truthy (cs_lease_owner r) \<or> truthy (cs_lease_acquired_at r)
               \<or> truthy (cs_lease_expires_at r) \<or> truthy (cs_heartbeat_at r)))
             (ValueError ''inactive merge train controller state cannot retain a lease'')) (\<lambda>_.
     if cs_status r = Cs_reconcile_required then
       andThen (ensure (truthy (cs_active_action r) \<and> truthy (cs_active_phase r))
         (ValueError ''reconcile-required merge train controller state requires active phase'')) (\<lambda>_.
       ensure (cs_reconciliation_status r = Rec_required)
         (ValueError ''reconcile-required merge train controller state requires reconciliation status''))
     else Inr ())"

definition validate_controller_state :: "controller_state \<Rightarrow> controller_state res" where
  "validate_controller_state r =
     andThen (required_text (cs_controller_key r)
       ''merge train controller state requires controller_key'') (\<lambda>key.
     andThen (required_text (cs_repository r)
       ''merge train controller state requires repository'') (\<lambda>stored.
     andThen (normalize_controller_repository stored) (\<lambda>repo.
     andThen (required_text (cs_base_branch r)
       ''merge train controller state requires base_branch'') (\<lambda>branch.
     andThen (required_text (cs_policy_key r)
       ''merge train controller state requires policy_key'') (\<lambda>pkey.
     andThen (required_text (cs_policy_sha256 r)
       ''merge train controller state requires policy_sha256'') (\<lambda>psha.
     andThen (required_text (cs_updated_at r)
       ''merge train controller state requires updated_at'') (\<lambda>updated.
     let historical = controller_key_of stored branch;
         r1 = (strip_controller_fields r)\<lparr>cs_controller_key := key,
                cs_repository := (if key \<noteq> controller_key_of repo branch then stored else repo),
                cs_base_branch := branch, cs_policy_key := pkey, cs_policy_sha256 := psha,
                cs_updated_at := updated\<rparr>
     in
     andThen (ensure (key = controller_key_of repo branch \<or> key = historical)
       (ValueError ''merge train controller state controller_key does not match scope'')) (\<lambda>_.
     andThen (check_controller_status r1) (\<lambda>_. Inr r1)))))))))"

definition build_controller_state ::
  "string \<Rightarrow> string \<Rightarrow> string \<Rightarrow> string \<Rightarrow> string \<Rightarrow> controller_state res" where
  "build_controller_state repository base_branch policy_key policy_sha256 updated_at =
     andThen (build_controller_key repository base_branch) (\<lambda>key.
     validate_controller_state \<lparr>cs_ordinary_job_binding = None, cs_controller_key = key,
       cs_repository = repository, cs_base_branch = base_branch, cs_policy_key = policy_key,
       cs_policy_sha256 = policy_sha256, cs_status = Cs_idle, cs_updated_at = updated_at,
       cs_lease_owner = '''', cs_lease_acquired_at = '''', cs_lease_expires_at = '''',
       cs_heartbeat_at = '''', cs_active_action = '''', cs_active_phase = '''',
       cs_active_record_id = '''', cs_active_pull_request_number = None, cs_step_payload = [],
       cs_last_owner = '''', cs_last_action = '''', cs_last_phase = '''', cs_last_record_id = '''',
       cs_last_pull_request_number = None, cs_last_transition_at = '''',
       cs_reconciliation_status = Rec_clean, cs_reconciliation_detail = '''',
       cs_last_result = None, cs_semantic_progress_key = ''''\<rparr>)"

definition require_canonical_controller_state :: "controller_state \<Rightarrow> controller_state res" where
  "require_canonical_controller_state r =
     andThen (validate_controller_state r) (\<lambda>v.
     andThen (build_controller_key (cs_repository v) (cs_base_branch v)) (\<lambda>key.
     if cs_controller_key v \<noteq> key
     then Inl (ValueError ''Historical merge controller identities are read-only.'')
     else Inr v))"

definition retains_activity :: "controller_state \<Rightarrow> bool" where
  "retains_activity r \<longleftrightarrow> cs_status r \<noteq> Cs_idle \<or> cs_ordinary_job_binding r \<noteq> None
     \<or> truthy (cs_lease_owner r) \<or> truthy (cs_lease_acquired_at r) \<or> truthy (cs_lease_expires_at r)
     \<or> truthy (cs_heartbeat_at r) \<or> truthy (cs_active_action r) \<or> truthy (cs_active_phase r)
     \<or> truthy (cs_active_record_id r) \<or> cs_step_payload r \<noteq> []
     \<or> truthy (cs_reconciliation_detail r) \<or> cs_active_pull_request_number r \<noteq> None
     \<or> cs_reconciliation_status r \<noteq> Rec_clean"

definition controller_alias_reconciliation_detail :: "controller_state list \<Rightarrow> string" where
  "controller_alias_reconciliation_detail records =
     (if \<exists>r \<in> set records. retains_activity r
      then ''Retained controller activity requires reconciliation before this train can continue.''
      else '''')"

definition controller_resume_detail :: "controller_state \<Rightarrow> string" where
  "controller_resume_detail r =
     (if prefix ''resuming:'' (cs_reconciliation_detail r) then cs_reconciliation_detail r
      else (let detail = ''resuming:'' @ cs_active_action r @ '':'' @ cs_active_phase r in
            if truthy (cs_reconciliation_detail r)
            then detail @ ''; previous:'' @ cs_reconciliation_detail r else detail))"

subsection \<open>Facts\<close>

text \<open>What a valid record keeps: a lease exactly while running, and the work it stopped in.\<close>

definition lease_consistent :: "controller_state \<Rightarrow> bool" where
  "lease_consistent r \<longleftrightarrow>
     (if cs_status r = Cs_running
      then cs_lease_owner r \<noteq> '''' \<and> cs_lease_acquired_at r \<noteq> '''' \<and> cs_lease_expires_at r \<noteq> ''''
           \<and> cs_heartbeat_at r \<noteq> '''' \<and> (cs_active_action r = '''') = (cs_active_phase r = '''')
      else cs_lease_owner r = '''' \<and> cs_lease_acquired_at r = '''' \<and> cs_lease_expires_at r = ''''
           \<and> cs_heartbeat_at r = '''')
     \<and> (cs_status r = Cs_reconcile_required \<longrightarrow> cs_active_action r \<noteq> '''' \<and> cs_active_phase r \<noteq> ''''
           \<and> cs_reconciliation_status r = Rec_required)"

lemma required_text_Inr [simp]: "required_text v m = Inr w \<longleftrightarrow> w = py_strip v \<and> w \<noteq> []"
  by (auto simp: required_text_def Let_def)

lemma check_controller_status_Inr: "check_controller_status r = Inr u \<longleftrightarrow> lease_consistent r"
  by (auto simp: check_controller_status_def lease_consistent_def)

end
