(* ===== verification/Mt_Lease_Store.thy ===== *)
theory Mt_Lease_Store
  imports Mt_Controller_State "HOL-Library.AList"
begin

section \<open>The controller's lease in the record store\<close>

text \<open>
  The controller states of \<open>FilesystemRecordStore\<close> (\<open>control_plane/storage/filesystem.py\<close>) and the
  lease operations on them, with the lease context of \<open>merge_train_controller_run_once.py\<close>. The
  store is the list of its files by controller key; a file's name is the SHA-256 digest of that key,
  which the model replaces by the key itself. Each operation runs under the store's exclusive lock
  for the key, so it is one function from the store to its result and the store after it; where it
  raises, the store is unchanged. The clock is the number of seconds the operation reads once.
\<close>

subsection \<open>Leases end\<close>

definition lease_expires_at :: "string \<Rightarrow> int \<Rightarrow> string res" where
  "lease_expires_at observed_at lease_seconds =
     (if lease_seconds < 1 \<or> lease_seconds > 86400
      then Inl (ValueError ''Merge train controller lease_seconds must be between 1 and 86400.'')
      else (case parse_timestamp observed_at of
          None \<Rightarrow> Inl (ValueError ''Invalid isoformat string'')
        | Some t \<Rightarrow>
          if t + nat lease_seconds > last_instant then Inl (OverflowError ''date value out of range'')
          else Inr (utc_timestamp (t + nat lease_seconds))))"

subsection \<open>Reading and listing\<close>

type_synonym controller_store = "(string \<times> controller_state) list"

definition read_controller_state :: "controller_store \<Rightarrow> string \<Rightarrow> controller_state res option" where
  "read_controller_state store key = map_option validate_controller_state (map_of store key)"

definition write_controller_state_locked ::
  "string \<Rightarrow> controller_state \<Rightarrow> controller_store \<Rightarrow> controller_store" where
  "write_controller_state_locked key record store = AList.update key record store"

definition list_controller_states ::
  "controller_store \<Rightarrow> string \<Rightarrow> string \<Rightarrow> controller_status option \<Rightarrow> nat option
     \<Rightarrow> controller_state list res" where
  "list_controller_states store repository base_branch status limit =
     andThen (mapM (\<lambda>(_, r). validate_controller_state r) store) (\<lambda>records.
     let chosen = filter (\<lambda>r. (repository = '''' \<or> cs_repository r = py_lower repository)
             \<and> (base_branch = '''' \<or> cs_base_branch r = base_branch)
             \<and> (case status of None \<Rightarrow> True | Some s \<Rightarrow> cs_status r = s)) records;
         ordered = rev (sort_key (\<lambda>r. (cs_updated_at r, cs_controller_key r)) (rev chosen))
     in Inr (case limit of None \<Rightarrow> ordered | Some n \<Rightarrow> take n ordered))"

definition list_controller_state_aliases ::
  "controller_store \<Rightarrow> string \<Rightarrow> string \<Rightarrow> controller_state list res" where
  "list_controller_state_aliases store repository base_branch =
     andThen (list_controller_states store '''' '''' None None) (\<lambda>records.
     Inr (filter (\<lambda>r. py_lower (cs_repository r) = py_lower repository
            \<and> cs_repository r \<noteq> py_lower repository \<and> cs_base_branch r = base_branch) records))"

definition require_inert_controller_aliases :: "controller_store \<Rightarrow> string \<Rightarrow> string \<Rightarrow> unit res" where
  "require_inert_controller_aliases store repository base_branch =
     andThen (list_controller_state_aliases store repository base_branch) (\<lambda>records.
     let detail = controller_alias_reconciliation_detail records in
     if truthy detail then Inl (ReconciliationRequired detail) else Inr ())"

subsection \<open>Acquiring\<close>

record lease_request =
  lq_repository :: string
  lq_base_branch :: string
  lq_policy_key :: string
  lq_policy_sha256 :: string
  lq_lease_owner :: string
  lq_lease_seconds :: int
  lq_initial_active_action :: string
  lq_initial_active_phase :: string
  lq_adoptable_active_actions :: "string list"

definition adoptable_actions :: "lease_request \<Rightarrow> string list" where
  "adoptable_actions q = dedup (filter truthy (map py_strip (lq_adoptable_active_actions q)))"

definition lease_is_live :: "controller_state \<Rightarrow> string \<Rightarrow> bool" where
  "lease_is_live r observed_at \<longleftrightarrow> cs_status r = Cs_running \<and> truthy (cs_lease_expires_at r)
     \<and> cs_lease_expires_at r > observed_at"

definition has_unfinished_work :: "controller_state \<Rightarrow> bool" where
  "has_unfinished_work r \<longleftrightarrow> cs_status r = Cs_reconcile_required
     \<or> (truthy (cs_active_action r) \<and> truthy (cs_active_phase r))"

definition leased_controller_state ::
  "lease_request \<Rightarrow> string \<Rightarrow> string \<Rightarrow> controller_state \<Rightarrow> controller_state" where
  "leased_controller_state q observed_at expires current =
     (let adopting = has_unfinished_work current in
      current\<lparr>cs_policy_key := lq_policy_key q, cs_policy_sha256 := lq_policy_sha256 q,
        cs_status := Cs_running, cs_updated_at := observed_at, cs_lease_owner := lq_lease_owner q,
        cs_lease_acquired_at := observed_at, cs_lease_expires_at := expires,
        cs_heartbeat_at := observed_at,
        cs_active_action := (if truthy (cs_active_action current) then cs_active_action current
                             else py_strip (lq_initial_active_action q)),
        cs_active_phase := (if truthy (cs_active_phase current) then cs_active_phase current
                            else py_strip (lq_initial_active_phase q)),
        cs_reconciliation_status := (if adopting then Rec_adopted else Rec_clean),
        cs_reconciliation_detail := (if adopting then controller_resume_detail current else '''')\<rparr>)"

definition acquire_controller_state ::
  "lease_request \<Rightarrow> string \<Rightarrow> controller_store \<Rightarrow> (controller_state \<times> controller_store) res" where
  "acquire_controller_state q observed_at store =
     andThen (ensure (truthy (py_strip (lq_initial_active_action q))
                      \<and> truthy (py_strip (lq_initial_active_phase q)))
       (ValueError ''merge train controller acquisition requires initial action and phase'')) (\<lambda>_.
     andThen (ensure (py_strip (lq_initial_active_action q) \<in> set (adoptable_actions q))
       (ValueError ''initial controller action must be adoptable by the acquiring controller'')) (\<lambda>_.
     andThen (build_controller_key (lq_repository q) (lq_base_branch q)) (\<lambda>key.
     andThen (require_inert_controller_aliases store (lq_repository q) (lq_base_branch q)) (\<lambda>_.
     andThen (case read_controller_state store key of
         Some stored \<Rightarrow> stored
       | None \<Rightarrow> build_controller_state (lq_repository q) (lq_base_branch q) (lq_policy_key q)
                  (lq_policy_sha256 q) observed_at) (\<lambda>current.
     andThen (ensure (\<not> lease_is_live current observed_at)
       (LeaseHeld ''merge train controller lease is held by another owner'')) (\<lambda>_.
     andThen (ensure (\<not> (has_unfinished_work current
                         \<and> cs_active_action current \<notin> set (adoptable_actions q)))
       (AdoptionRejected ''merge train controller state belongs to a different active action'')) (\<lambda>_.
     andThen (lease_expires_at observed_at (lq_lease_seconds q)) (\<lambda>expires.
     andThen (validate_controller_state (leased_controller_state q observed_at expires current))
       (\<lambda>leased. Inr (leased, write_controller_state_locked key leased store))))))))))"

subsection \<open>Writing under the lease\<close>

text \<open>The record as it is persisted: a running one renews its lease.\<close>

definition persisted_controller_state ::
  "controller_state \<Rightarrow> int \<Rightarrow> string \<Rightarrow> controller_state res" where
  "persisted_controller_state record lease_seconds observed_at =
     (if cs_status record = Cs_running
      then andThen (lease_expires_at observed_at lease_seconds) (\<lambda>expires.
           Inr (record\<lparr>cs_updated_at := observed_at, cs_heartbeat_at := observed_at,
                  cs_lease_expires_at := expires\<rparr>))
      else Inr (record\<lparr>cs_updated_at := observed_at, cs_last_transition_at := observed_at\<rparr>))"

definition cas_controller_state ::
  "controller_state \<Rightarrow> string \<Rightarrow> string \<Rightarrow> int \<Rightarrow> string \<Rightarrow> controller_store
     \<Rightarrow> (controller_state \<times> controller_store) res" where
  "cas_controller_state record expected_lease_owner expected_lease_acquired_at lease_seconds
       observed_at store =
     andThen (require_canonical_controller_state record) (\<lambda>record.
     andThen (require_inert_controller_aliases store (cs_repository record) (cs_base_branch record))
       (\<lambda>_.
     andThen (case read_controller_state store (cs_controller_key record) of
         Some stored \<Rightarrow> stored
       | None \<Rightarrow> Inl (LeaseLost ''merge train controller state is missing'')) (\<lambda>current.
     andThen (ensure (cs_lease_owner current = expected_lease_owner)
       (LeaseLost ''merge train controller lease owner changed'')) (\<lambda>_.
     andThen (ensure (cs_lease_acquired_at current = expected_lease_acquired_at)
       (LeaseLost ''merge train controller lease token changed'')) (\<lambda>_.
     andThen (ensure (\<not> (\<not> truthy (cs_lease_expires_at current)
                         \<or> cs_lease_expires_at current \<le> observed_at))
       (LeaseLost ''merge train controller lease expired'')) (\<lambda>_.
     andThen (persisted_controller_state record lease_seconds observed_at) (\<lambda>persisted.
     andThen (validate_controller_state persisted) (\<lambda>persisted.
     Inr (persisted, write_controller_state_locked (cs_controller_key record) persisted store)))))))))"

text \<open>The unfenced write, used to import records; no session of the controller calls it.\<close>

definition write_controller_state ::
  "controller_state \<Rightarrow> controller_store \<Rightarrow> controller_store res" where
  "write_controller_state record store =
     andThen (require_canonical_controller_state record) (\<lambda>record.
     andThen (require_inert_controller_aliases store (cs_repository record) (cs_base_branch record))
       (\<lambda>_. Inr (write_controller_state_locked (cs_controller_key record) record store)))"

subsection \<open>The lease context\<close>

text \<open>
  The keyword arguments a checkpoint passes: None where an argument is absent. \<open>lc_has_store\<close> is false
  for the read-only context.
\<close>

record checkpoint_updates =
  up_active_action :: "string option"
  up_active_phase :: "string option"
  up_active_record_id :: "string option"
  up_active_pull_request_number :: "nat option option"
  up_step_payload :: "json_object option"
  up_ordinary_job_binding :: "job_binding option option"

record lease_context =
  lc_record :: controller_state
  lc_lease_seconds :: int
  lc_has_store :: bool

definition DEFAULT_LEASE_SECONDS :: int where
  "DEFAULT_LEASE_SECONDS = 300"

definition updated :: "'a option \<Rightarrow> 'a \<Rightarrow> 'a" where
  "updated change current = (case change of None \<Rightarrow> current | Some v \<Rightarrow> v)"

definition apply_checkpoint :: "checkpoint_updates \<Rightarrow> controller_state \<Rightarrow> controller_state" where
  "apply_checkpoint u r = r\<lparr>cs_active_action := updated (up_active_action u) (cs_active_action r),
     cs_active_phase := updated (up_active_phase u) (cs_active_phase r),
     cs_active_record_id := updated (up_active_record_id u) (cs_active_record_id r),
     cs_active_pull_request_number :=
       updated (up_active_pull_request_number u) (cs_active_pull_request_number r),
     cs_step_payload := updated (up_step_payload u) (cs_step_payload r),
     cs_ordinary_job_binding := updated (up_ordinary_job_binding u) (cs_ordinary_job_binding r)\<rparr>"

definition update_controller_state ::
  "controller_state \<Rightarrow> string \<Rightarrow> string \<Rightarrow> int \<Rightarrow> checkpoint_updates \<Rightarrow> string \<Rightarrow> controller_store
     \<Rightarrow> (controller_state \<times> controller_store) res" where
  "update_controller_state current owner acquired_at lease_seconds u observed_at store =
     cas_controller_state (apply_checkpoint u current) owner acquired_at lease_seconds observed_at store"

definition released_controller_state ::
  "controller_state \<Rightarrow> string \<Rightarrow> reconciliation_status \<Rightarrow> string \<Rightarrow> bool \<Rightarrow> controller_state" where
  "released_controller_state current owner rec_status rec_detail clear = current\<lparr>
     cs_status := (if rec_status = Rec_clean then Cs_idle else Cs_reconcile_required),
     cs_lease_owner := '''', cs_lease_acquired_at := '''', cs_lease_expires_at := '''',
     cs_heartbeat_at := '''',
     cs_active_action := (if clear then '''' else cs_active_action current),
     cs_active_phase := (if clear then '''' else cs_active_phase current),
     cs_active_record_id := (if clear then '''' else cs_active_record_id current),
     cs_active_pull_request_number := (if clear then None else cs_active_pull_request_number current),
     cs_step_payload := (if clear then [] else cs_step_payload current),
     cs_last_owner := owner, cs_last_action := cs_active_action current,
     cs_last_phase := cs_active_phase current, cs_last_record_id := cs_active_record_id current,
     cs_last_pull_request_number := cs_active_pull_request_number current,
     cs_last_transition_at := cs_updated_at current,
     cs_reconciliation_status := rec_status, cs_reconciliation_detail := rec_detail\<rparr>"

definition release_controller_lease ::
  "controller_state \<Rightarrow> string \<Rightarrow> string \<Rightarrow> int \<Rightarrow> reconciliation_status \<Rightarrow> string \<Rightarrow> bool \<Rightarrow> string
     \<Rightarrow> controller_store \<Rightarrow> (controller_state \<times> controller_store) res" where
  "release_controller_lease current owner acquired_at lease_seconds rec_status rec_detail clear
       observed_at store =
     cas_controller_state (released_controller_state current owner rec_status rec_detail clear)
       owner acquired_at lease_seconds observed_at store"

text \<open>A retired candidate that still needs its ref deleted is carried through every new payload.\<close>

definition keep_pending_retirements :: "lease_context \<Rightarrow> checkpoint_updates \<Rightarrow> checkpoint_updates" where
  "keep_pending_retirements lc u =
     (let pending = dict_get ''retired_candidate_record_ids'' (cs_step_payload (lc_record lc)) in
      case up_step_payload u of
        Some payload \<Rightarrow>
          if json_truthy pending
          then u\<lparr>up_step_payload := Some (dict_after ''retired_candidate_record_ids'' pending payload)\<rparr>
          else u
      | None \<Rightarrow> u)"

definition lease_checkpoint ::
  "checkpoint_updates \<Rightarrow> string \<Rightarrow> lease_context \<Rightarrow> controller_store \<Rightarrow> (lease_context \<times> controller_store) res" where
  "lease_checkpoint u observed_at lc store =
     (if \<not> lc_has_store lc
      then Inl (RuntimeError ''read-only merge train controller cannot checkpoint'')
      else andThen (update_controller_state (lc_record lc) (cs_lease_owner (lc_record lc))
             (cs_lease_acquired_at (lc_record lc)) (lc_lease_seconds lc)
             (keep_pending_retirements lc u) observed_at store)
           (\<lambda>(r, store). Inr (lc\<lparr>lc_record := r\<rparr>, store)))"

definition lease_release ::
  "reconciliation_status \<Rightarrow> string \<Rightarrow> bool \<Rightarrow> string \<Rightarrow> lease_context \<Rightarrow> controller_store
     \<Rightarrow> (lease_context \<times> controller_store) res" where
  "lease_release rec_status rec_detail clear observed_at lc store =
     (if \<not> lc_has_store lc then Inr (lc, store)
      else andThen (release_controller_lease (lc_record lc) (cs_lease_owner (lc_record lc))
             (cs_lease_acquired_at (lc_record lc)) (lc_lease_seconds lc) rec_status rec_detail clear
             observed_at store)
           (\<lambda>(r, store). Inr (lc\<lparr>lc_record := r\<rparr>, store)))"

text \<open>\<open>record_result\<close> changes only the context's own copy, until the next fenced write.\<close>

definition lease_record_result ::
  "controller_last_result \<times> string \<Rightarrow> lease_context \<Rightarrow> lease_context" where
  "lease_record_result note lc = (if lc_has_store lc
     then lc\<lparr>lc_record := (lc_record lc)\<lparr>cs_last_result := Some (fst note),
            cs_semantic_progress_key := snd note\<rparr>\<rparr> else lc)"

definition lease_read_current :: "lease_context \<Rightarrow> controller_store \<Rightarrow> controller_state res" where
  "lease_read_current lc store =
     (if \<not> lc_has_store lc then Inr (lc_record lc)
      else andThen (list_controller_states store (cs_repository (lc_record lc))
             (cs_base_branch (lc_record lc)) None (Some 1)) (\<lambda>records.
        case records of [] \<Rightarrow> Inl (LeaseLost ''Persisted merge train controller state is missing.'')
        | r # _ \<Rightarrow> Inr r))"

text \<open>A session opens its context on the record it acquired, at the second its clock shows.\<close>

definition open_controller_lease ::
  "nat \<Rightarrow> lease_request \<Rightarrow> controller_store \<Rightarrow> (lease_context \<times> controller_store) res" where
  "open_controller_lease now q store =
     andThen (acquire_controller_state q (utc_timestamp now) store) (\<lambda>(r, store).
     Inr (\<lparr>lc_record = r, lc_lease_seconds = DEFAULT_LEASE_SECONDS, lc_has_store = True\<rparr>, store))"

datatype lease_write =
    Checkpoint checkpoint_updates
  | Release reconciliation_status string bool

definition write_controller_lease ::
  "nat \<Rightarrow> lease_write \<Rightarrow> lease_context \<Rightarrow> controller_store \<Rightarrow> (lease_context \<times> controller_store) res" where
  "write_controller_lease now w lc store =
     (case w of Checkpoint u \<Rightarrow> lease_checkpoint u (utc_timestamp now) lc store
      | Release s d clear \<Rightarrow> lease_release s d clear (utc_timestamp now) lc store)"

definition controller_lease_owner :: "string \<Rightarrow> string res" where
  "controller_lease_owner trace_id =
     (let normalized = py_strip trace_id in
      if normalized = '''' then Inl (ValueError ''merge train controller lease owner requires trace_id'')
      else Inr (''merge-train-controller:'' @ normalized))"

end
