(* ===== verification/Lease_Protocol.thy ===== *)
theory Lease_Protocol
  imports Prelude
begin

section \<open>Leases with fencing tokens\<close>

text \<open>
  The interface the merge-train controller expects of its record store: \<open>acquire\<close> takes the lease of
  a key unless a live one is there, \<open>update\<close> writes only under the caller's own credential while the
  lease lives, and either keeps the lease or gives it up. \<open>lease_step\<close> is any interleaving of
  sessions over such a store. The locale states the store's laws; inside it, what follows for every
  interleaving: no two sessions hold the same key, and a session that lost its lease never gets it
  back.
\<close>

inductive lease_step ::
  "(nat \<Rightarrow> 'q \<Rightarrow> 'st \<Rightarrow> ('h \<times> 'st) res) \<Rightarrow> (nat \<Rightarrow> 'u \<Rightarrow> 'h \<Rightarrow> 'st \<Rightarrow> ('h \<times> 'st) res) \<Rightarrow> ('n \<Rightarrow> 'h \<Rightarrow> 'h)
     \<Rightarrow> nat \<Rightarrow> nat \<times> 'st \<times> 'h list \<Rightarrow> nat \<times> 'st \<times> 'h list \<Rightarrow> bool"
  for acquire update annotate bound where
  tick: "now \<le> now' \<Longrightarrow> now' \<le> bound \<Longrightarrow>
    lease_step acquire update annotate bound (now, st, hs) (now', st, hs)"
| acquired: "acquire now q st = Inr (h, st') \<Longrightarrow>
    lease_step acquire update annotate bound (now, st, hs) (now, st', hs @ [h])"
| updated: "i < length hs \<Longrightarrow> update now u (hs ! i) st = Inr (h, st') \<Longrightarrow>
    lease_step acquire update annotate bound (now, st, hs) (now, st', hs[i := h])"
| annotated: "i < length hs \<Longrightarrow>
    lease_step acquire update annotate bound (now, st, hs) (now, st, hs[i := annotate n (hs ! i)])"

inductive_cases lease_stepE:
  "lease_step acquire update annotate bound (now, st, hs) w'"

inductive lease_run ::
  "(nat \<Rightarrow> 'q \<Rightarrow> 'st \<Rightarrow> ('h \<times> 'st) res) \<Rightarrow> (nat \<Rightarrow> 'u \<Rightarrow> 'h \<Rightarrow> 'st \<Rightarrow> ('h \<times> 'st) res) \<Rightarrow> ('n \<Rightarrow> 'h \<Rightarrow> 'h)
     \<Rightarrow> nat \<Rightarrow> nat \<times> 'st \<times> 'h list \<Rightarrow> nat \<times> 'st \<times> 'h list \<Rightarrow> bool"
  for acquire update annotate bound where
  run_refl: "lease_run acquire update annotate bound w w"
| run_step: "lease_run acquire update annotate bound w w' \<Longrightarrow> lease_step acquire update annotate bound w' w'' \<Longrightarrow>
    lease_run acquire update annotate bound w w''"

locale lease_store =
  fixes acquire :: "nat \<Rightarrow> 'q \<Rightarrow> 'st \<Rightarrow> ('h \<times> 'st) res"
    and update :: "nat \<Rightarrow> 'u \<Rightarrow> 'h \<Rightarrow> 'st \<Rightarrow> ('h \<times> 'st) res"
    and annotate :: "'n \<Rightarrow> 'h \<Rightarrow> 'h"
    and stamp :: "nat \<Rightarrow> 't"
    and bound :: nat
    and good :: "'st \<Rightarrow> bool"
    and good_handle :: "'h \<Rightarrow> bool"
    and key :: "'h \<Rightarrow> 'k"
    and credential :: "'h \<Rightarrow> ('o \<times> 't) option"
    and lease :: "'st \<Rightarrow> 'k \<Rightarrow> ('o \<times> 't) option"
    and live :: "nat \<Rightarrow> 'st \<Rightarrow> 'k \<Rightarrow> bool"
  assumes stamp_inj: "now \<le> bound \<Longrightarrow> now' \<le> bound \<Longrightarrow> stamp now = stamp now' \<Longrightarrow> now = now'"
    and live_earlier: "live now' st k \<Longrightarrow> now \<le> now' \<Longrightarrow> now' \<le> bound \<Longrightarrow> live now st k"
    and acquire_free: "good st \<Longrightarrow> acquire now q st = Inr (h, st') \<Longrightarrow> now \<le> bound \<Longrightarrow>
      \<not> live now st (key h)"
    and acquire_takes: "good st \<Longrightarrow> acquire now q st = Inr (h, st') \<Longrightarrow> now \<le> bound \<Longrightarrow>
      good st' \<and> good_handle h \<and> live now st' (key h) \<and> lease st' (key h) = credential h
      \<and> (\<exists>ow. credential h = Some (ow, stamp now))"
    and acquire_elsewhere: "good st \<Longrightarrow> acquire now q st = Inr (h, st') \<Longrightarrow> k \<noteq> key h \<Longrightarrow>
      lease st' k = lease st k \<and> live n st' k = live n st k"
    and update_holds: "good st \<Longrightarrow> good_handle h \<Longrightarrow> update now u h st = Inr (h', st') \<Longrightarrow>
      now \<le> bound \<Longrightarrow>
      credential h \<noteq> None \<and> lease st (key h) = credential h \<and> live now st (key h)"
    and update_keeps: "good st \<Longrightarrow> good_handle h \<Longrightarrow> update now u h st = Inr (h', st') \<Longrightarrow>
      now \<le> bound \<Longrightarrow> good st' \<and> good_handle h' \<and> key h' = key h
      \<and> (credential h' = None \<and> lease st' (key h) = None
         \<or> credential h' = credential h \<and> lease st' (key h) = credential h \<and> live now st' (key h))"
    and update_elsewhere: "good st \<Longrightarrow> good_handle h \<Longrightarrow> update now u h st = Inr (h', st') \<Longrightarrow>
      now \<le> bound \<Longrightarrow> k \<noteq> key h \<Longrightarrow> lease st' k = lease st k \<and> live n st' k = live n st k"
    and annotate_keeps: "good_handle h \<Longrightarrow>
      good_handle (annotate x h) \<and> key (annotate x h) = key h \<and> credential (annotate x h) = credential h"
begin

definition holds :: "nat \<times> 'st \<times> 'h list \<Rightarrow> nat \<Rightarrow> bool" where
  "holds w i = (case w of (now, st, hs) \<Rightarrow> i < length hs \<and> credential (hs ! i) \<noteq> None
     \<and> lease st (key (hs ! i)) = credential (hs ! i) \<and> live now st (key (hs ! i)))"

text \<open>
  The invariant: tokens are stamps of the past, the credential of a key's lease belongs to one
  session only, and a session that acquired in the current second still holds its lease.
\<close>

definition matches :: "'st \<Rightarrow> 'h \<Rightarrow> bool" where
  "matches st h \<longleftrightarrow> credential h \<noteq> None \<and> lease st (key h) = credential h"

definition fenced :: "nat \<times> 'st \<times> 'h list \<Rightarrow> bool" where
  "fenced w = (case w of (now, st, hs) \<Rightarrow> now \<le> bound \<and> good st \<and> (\<forall>h \<in> set hs. good_handle h)
     \<and> (\<forall>h \<in> set hs. \<forall>ow tok. credential h = Some (ow, tok) \<longrightarrow> (\<exists>t \<le> now. tok = stamp t))
     \<and> (\<forall>i < length hs. \<forall>j < length hs. key (hs ! i) = key (hs ! j)
          \<longrightarrow> matches st (hs ! i) \<longrightarrow> matches st (hs ! j) \<longrightarrow> i = j)
     \<and> (\<forall>i < length hs. \<forall>ow. credential (hs ! i) = Some (ow, stamp now)
          \<longrightarrow> matches st (hs ! i) \<and> live now st (key (hs ! i))))"

lemma fenced_start: "now \<le> bound \<Longrightarrow> good st \<Longrightarrow> fenced (now, st, [])"
  by (simp add: fenced_def)




lemma fencedD:
  assumes "fenced (now, st, hs)"
  shows "now \<le> bound" "good st" "h \<in> set hs \<Longrightarrow> good_handle h"
    "h \<in> set hs \<Longrightarrow> credential h = Some (ow, tok) \<Longrightarrow> \<exists>t \<le> now. tok = stamp t"
    "i < length hs \<Longrightarrow> j < length hs \<Longrightarrow> key (hs ! i) = key (hs ! j) \<Longrightarrow> matches st (hs ! i)
       \<Longrightarrow> matches st (hs ! j) \<Longrightarrow> i = j"
    "i < length hs \<Longrightarrow> credential (hs ! i) = Some (ow, stamp now) \<Longrightarrow>
       matches st (hs ! i) \<and> live now st (key (hs ! i))"
  using assms by (simp_all add: fenced_def)

lemma fenced_tick:
  assumes inv: "fenced (now, st, hs)" and "now \<le> now'" "now' \<le> bound"
  shows "fenced (now', st, hs)"
proof (cases "now' = now")
  case False
  note I = fencedD [OF inv]
  have past: "credential (hs ! i) \<noteq> Some (ow, stamp now')" if "i < length hs" for i ow
  proof
    assume "credential (hs ! i) = Some (ow, stamp now')"
    with I(4) that obtain t where "t \<le> now" "stamp now' = stamp t" by (meson nth_mem)
    with stamp_inj [of now' t] assms False show False by simp
  qed
  show ?thesis unfolding fenced_def prod.case
  proof (intro conjI allI impI ballI)
    show "\<exists>t\<le>now'. tok = stamp t" if "h \<in> set hs" "credential h = Some (ow, tok)" for h ow tok
      using I(4) [OF that] assms(2) le_trans by blast
  qed (use I past assms in auto)
qed (use inv in simp)

text \<open>After a successful acquisition no older session carries the new token.\<close>

lemma fenced_acquired:
  assumes inv: "fenced (now, st, hs)" and acq: "acquire now q st = Inr (h, st')"
  shows "fenced (now, st', hs @ [h])"
proof -
  note I = fencedD [OF inv]
  note takes = acquire_takes [OF I(2) acq I(1)]
  obtain ow where new: "credential h = Some (ow, stamp now)" using takes by blast
  have other: "key g \<noteq> key h \<Longrightarrow> matches st' g = matches st g \<and> live n st' (key g) = live n st (key g)" for g n
    using acquire_elsewhere [OF I(2) acq] by (simp add: matches_def)
  have old: "credential g \<noteq> Some (ow', stamp now)" if "g \<in> set hs" "key g = key h" for g ow'
  proof
    assume "credential g = Some (ow', stamp now)"
    with that I(6) have "live now st (key h)" by (metis in_set_conv_nth)
    with acquire_free [OF I(2) acq I(1)] show False by simp
  qed
  have stale: "\<not> matches st' g" if "g \<in> set hs" "key g = key h" for g
    using old [OF that, of ow] takes new that by (auto simp: matches_def)
  show ?thesis unfolding fenced_def prod.case
  proof (intro conjI allI impI ballI)
    show "now \<le> bound" "good st'" using I(1) takes by simp_all
    show "good_handle g" if "g \<in> set (hs @ [h])" for g using that I(3) takes by auto
    show "\<exists>t\<le>now. tok = stamp t" if "g \<in> set (hs @ [h])" "credential g = Some (ow', tok)" for g ow' tok
      using that I(4) new by auto
    show "i = j" if "i < length (hs @ [h])" "j < length (hs @ [h])"
      "key ((hs @ [h]) ! i) = key ((hs @ [h]) ! j)" "matches st' ((hs @ [h]) ! i)"
      "matches st' ((hs @ [h]) ! j)" for i j
      using that stale other I(5) by (auto simp: nth_append less_Suc_eq split: if_splits) (metis nth_mem)+
    show "matches st' ((hs @ [h]) ! i)" "live now st' (key ((hs @ [h]) ! i))"
      if "i < length (hs @ [h])" "credential ((hs @ [h]) ! i) = Some (ow', stamp now)" for i ow'
      using that takes new old other I(6) by (auto simp: nth_append less_Suc_eq matches_def) (metis nth_mem)+
  qed
qed

lemma fenced_updated:
  assumes inv: "fenced (now, st, hs)" and i: "i < length hs"
    and upd: "update now u (hs ! i) st = Inr (h, st')"
  shows "fenced (now, st', hs[i := h])"
proof -
  note I = fencedD [OF inv]
  have good: "good_handle (hs ! i)" using i I(3) by simp
  note before = update_holds [OF I(2) good upd I(1)] and after = update_keeps [OF I(2) good upd I(1)]
  have own: "matches st (hs ! i)" using before by (simp add: matches_def)
  have other: "key g \<noteq> key h \<Longrightarrow> matches st' g = matches st g \<and> live n st' (key g) = live n st (key g)" for g n
    using update_elsewhere [OF I(2) good upd I(1)] after by (simp add: matches_def)
  have lone: "\<not> matches st (hs ! j)" if "j < length hs" "j \<noteq> i" "key (hs ! j) = key h" for j
    using I(5) [OF that(1) i] own after that by auto
  then have stale: "\<not> matches st' (hs ! j)" if "j < length hs" "j \<noteq> i" "key (hs ! j) = key h" for j
    using that after before unfolding matches_def by (metis (no_types, lifting))
  show ?thesis unfolding fenced_def prod.case
  proof (intro conjI allI impI ballI)
    show "now \<le> bound" "good st'" using I(1) after by simp_all
    show "good_handle g" if "g \<in> set (hs[i := h])" for g
      using that I(3) after by (metis insert_iff set_update_subset_insert subsetD)
    show "\<exists>t\<le>now. tok = stamp t" if g: "g \<in> set (hs[i := h])" "credential g = Some (ow, tok)" for g ow tok
    proof (cases "g \<in> set hs")
      case True
      with g I(4) show ?thesis by blast
    next
      case False
      with g have "g = h" using set_update_subset_insert [of hs i h] by blast
      with g after have "credential (hs ! i) = Some (ow, tok)" by auto
      with i I(4) show ?thesis by (meson nth_mem)
    qed
    show "j = k" if "j < length (hs[i := h])" "k < length (hs[i := h])"
      "key (hs[i := h] ! j) = key (hs[i := h] ! k)" "matches st' (hs[i := h] ! j)"
      "matches st' (hs[i := h] ! k)" for j k
      using that stale other I(5) by (cases "j = i"; cases "k = i") (auto, metis)
    show "matches st' (hs[i := h] ! j)" "live now st' (key (hs[i := h] ! j))"
      if j: "j < length (hs[i := h])" "credential (hs[i := h] ! j) = Some (ow, stamp now)" for j ow
    proof -
      have "matches st' (hs[i := h] ! j) \<and> live now st' (key (hs[i := h] ! j))"
      proof (cases "j = i")
        case True
        with j i have "credential h = Some (ow, stamp now)" by simp
        with after have "lease st' (key h) = credential h" "live now st' (key h)" by auto
        with \<open>credential h = _\<close> True i show ?thesis by (simp add: matches_def)
      next
        case False
        with j I(6) [of j ow] have "matches st (hs ! j)" "live now st (key (hs ! j))" by simp_all
        moreover from this(1) False j lone have "key (hs ! j) \<noteq> key h" by auto
        ultimately show ?thesis using False other by simp
      qed
      then show "matches st' (hs[i := h] ! j)" "live now st' (key (hs[i := h] ! j))" by simp_all
    qed
  qed
qed

lemma fenced_annotated:
  assumes inv: "fenced (now, st, hs)" and i: "i < length hs"
  shows "fenced (now, st, hs[i := annotate x (hs ! i)])"
proof -
  note I = fencedD [OF inv]
  note keep = annotate_keeps [OF I(3) [OF nth_mem [OF i]], of x]
  have same: "j < length hs \<Longrightarrow> good_handle (hs[i := annotate x (hs ! i)] ! j)
      \<and> key (hs[i := annotate x (hs ! i)] ! j) = key (hs ! j)
      \<and> credential (hs[i := annotate x (hs ! i)] ! j) = credential (hs ! j)" for j
    using keep I(3) by (cases "j = i") auto
  show ?thesis unfolding fenced_def prod.case matches_def
    using I same by (auto simp: in_set_conv_nth matches_def) (metis+)?
qed

lemma fenced_step: "lease_step acquire update annotate bound w w' \<Longrightarrow> fenced w \<Longrightarrow> fenced w'"
  by (cases rule: lease_step.cases)
    (auto intro: fenced_tick fenced_acquired fenced_updated fenced_annotated)

lemma fenced_run: "lease_run acquire update annotate bound w w' \<Longrightarrow> fenced w \<Longrightarrow> fenced w'"
  by (induction rule: lease_run.induct) (auto dest: fenced_step)

subsection \<open>What follows for every interleaving\<close>

lemma holds_matches:
  "holds (now, st, hs) i \<longleftrightarrow> i < length hs \<and> matches st (hs ! i) \<and> live now st (key (hs ! i))"
  by (auto simp: holds_def matches_def)

lemma holder_unique:
  assumes "fenced (now, st, hs)" "holds (now, st, hs) i" "holds (now, st, hs) j"
    and "key (hs ! i) = key (hs ! j)"
  shows "i = j"
  using assms fencedD(5) [OF assms(1)] by (auto simp: holds_matches)

text \<open>A successful write is made by the holder.\<close>

lemma update_by_holder:
  assumes "fenced (now, st, hs)" "i < length hs" "update now u (hs ! i) st = Inr r"
  shows "holds (now, st, hs) i"
proof -
  obtain h st' where r: "r = (h, st')" by fastforce
  have "good st" "good_handle (hs ! i)" using assms(2) fencedD(2,3) [OF assms(1)] by auto
  with update_holds [of st "hs ! i" now u h st'] fencedD(1) [OF assms(1)] assms(2,3) r show ?thesis
    by (auto simp: holds_def)
qed

text \<open>A session that does not hold its lease does not hold it after any step.\<close>

lemma lost_step:
  assumes inv: "fenced w" and lost: "\<not> holds w i" and i: "i < length (snd (snd w))"
    and step: "lease_step acquire update annotate bound w w'"
  shows "\<not> holds w' i \<and> i < length (snd (snd w'))"
  using step
proof (cases rule: lease_step.cases)
  case (tick now now' st hs)
  with lost i live_earlier show ?thesis by (auto simp: holds_matches)
next
  case (acquired now q st h st' hs)
  note I = fencedD [OF inv [unfolded acquired(1)]]
  have ih: "i < length hs" using i acquired(1) by simp
  have "\<not> holds (now, st', hs @ [h]) i"
  proof
    assume h': "holds (now, st', hs @ [h]) i"
    with ih have m: "matches st' (hs ! i)" "live now st' (key (hs ! i))"
      by (auto simp: holds_matches nth_append)
    show False
    proof (cases "key (hs ! i) = key h")
      case True
      have "fenced (now, st', hs @ [h])"
        using fenced_acquired inv acquired by blast
      moreover have "holds (now, st', hs @ [h]) (length hs)"
        using acquire_takes [OF I(2) acquired(3) I(1)] by (auto simp: holds_matches matches_def)
      ultimately show False using holder_unique [OF _ h'] True ih by (auto simp: nth_append)
    next
      case False
      with m acquire_elsewhere [OF I(2) acquired(3)] have "holds (now, st, hs) i"
        using ih by (auto simp: holds_matches matches_def)
      with lost acquired(1) show False by simp
    qed
  qed
  with acquired ih show ?thesis by simp
next
  case (updated k hs now u st h st')
  note I = fencedD [OF inv [unfolded updated(1)]]
  have ih: "i < length hs" using i updated(1) by simp
  have good: "good_handle (hs ! k)" using updated(3) I(3) by simp
  have hk: "holds (now, st, hs) k"
    using update_by_holder inv updated by blast
  with lost updated(1) have ik: "i \<noteq> k" by auto
  have "\<not> holds (now, st', hs[k := h]) i"
  proof (cases "key (hs ! i) = key (hs ! k)")
    case False
    with ik lost ih updated(1) update_elsewhere [OF I(2) good updated(4) I(1)] show ?thesis
      by (auto simp: holds_matches matches_def)
  next
    case True
    then have "\<not> matches st (hs ! i)"
      using I(5) [OF ih updated(3) True] hk ik by (auto simp: holds_matches)
    then have "\<not> matches st' (hs ! i)"
      using True update_keeps [OF I(2) good updated(4) I(1)] update_holds [OF I(2) good updated(4) I(1)]
      unfolding matches_def by (metis (no_types, lifting))
    then show ?thesis using ik by (auto simp: holds_matches)
  qed
  with updated ih show ?thesis by simp
next
  case (annotated k hs now st x)
  note I = fencedD [OF inv [unfolded annotated(1)]]
  have ih: "i < length hs" using i annotated(1) by simp
  have "good_handle (hs ! k)" using annotated(3) I(3) by simp
  with ih lost annotated(1) annotate_keeps [of "hs ! k" x] show ?thesis
    by (cases "i = k") (auto simp: annotated(2) holds_matches matches_def)
qed

lemma lost_run:
  assumes "lease_run acquire update annotate bound w w'" "fenced w" "\<not> holds w i"
    and "i < length (snd (snd w))"
  shows "\<not> holds w' i \<and> i < length (snd (snd w'))"
  using assms by (induction rule: lease_run.induct) (auto dest: lost_step fenced_run)

text \<open>So its writes are refused for good.\<close>

lemma lost_session_never_writes:
  assumes "lease_run acquire update annotate bound w (now, st, hs)" "fenced w" "\<not> holds w i"
    and "i < length (snd (snd w))"
  shows "\<exists>e. update now u (hs ! i) st = Inl e"
proof (cases "update now u (hs ! i) st")
  case (Inr r)
  have "i < length hs" "\<not> holds (now, st, hs) i" using lost_run [OF assms] by auto
  with update_by_holder [OF fenced_run [OF assms(1,2)] _ Inr] show ?thesis by blast
qed blast

end

end
