(* ===== verification/Mt_Lease_Safety.thy ===== *)
theory Mt_Lease_Safety
  imports Mt_Lease_Store Lease_Protocol
begin

section \<open>The lease of the merge-train controller\<close>

text \<open>
  The store of \<open>Mt_Lease_Store\<close> provides the interface \<open>lease_store\<close>: the interpretation below
  discharges its laws on the code's operations. The properties at the end are its consequences,
  written over the model's definitions: one writer per train, a lost lease stays lost, and work that
  was interrupted is kept.
\<close>

subsection \<open>Stripped strings\<close>

lemma controller_key_stripped:
  assumes "py_strip branch \<noteq> []"
  shows "py_strip (controller_key_of repo (py_strip branch)) = controller_key_of repo (py_strip branch)"
proof (rule py_strip_id)
  show "\<not> py_space (last (controller_key_of repo (py_strip branch)))"
    using last_py_strip [OF assms] assms by (simp add: controller_key_of_def)
qed (simp_all add: controller_key_of_def py_space_def)

lemma digit_char_no_space [simp]: "\<not> py_space (digit_char (n mod 10))"
proof -
  have "48 + n mod 10 < 256" by (rule less_trans [of _ 58]) simp_all
  then have "of_char (digit_char (n mod 10)) = 48 + n mod 10" by (simp add: digit_char_def)
  moreover have "n mod 10 < 10" by simp
  ultimately show ?thesis by (auto simp: py_space_def Let_def simp del: mod_less_divisor)
qed

lemma utc_timestamp_stripped [simp]: "py_strip (utc_timestamp t) = utc_timestamp t"
proof (rule py_strip_id)
  show "\<not> py_space (hd (utc_timestamp t))"
    by (simp add: utc_timestamp_split date_string_def pad4_def pad2_def split: prod.split)
qed (simp_all add: utc_timestamp_split clock_of_def py_space_def)

lemma utc_timestamp_nonempty [simp]: "utc_timestamp t \<noteq> []"
  using length_utc_timestamp [of t] by force

subsection \<open>Valid records\<close>

definition valid_state :: "controller_state \<Rightarrow> bool" where
  "valid_state r \<longleftrightarrow> validate_controller_state r = Inr r"

definition stripped_state :: "controller_state \<Rightarrow> bool" where
  "stripped_state r \<longleftrightarrow> strip_controller_fields r = r
     \<and> py_strip (cs_controller_key r) = cs_controller_key r \<and> cs_controller_key r \<noteq> []
     \<and> py_strip (cs_repository r) = cs_repository r \<and> cs_repository r \<noteq> []
     \<and> py_strip (cs_base_branch r) = cs_base_branch r \<and> cs_base_branch r \<noteq> []
     \<and> py_strip (cs_policy_key r) = cs_policy_key r \<and> cs_policy_key r \<noteq> []
     \<and> py_strip (cs_policy_sha256 r) = cs_policy_sha256 r \<and> cs_policy_sha256 r \<noteq> []
     \<and> py_strip (cs_updated_at r) = cs_updated_at r \<and> cs_updated_at r \<noteq> []"

definition scoped_state :: "controller_state \<Rightarrow> bool" where
  "scoped_state r \<longleftrightarrow> CHR ''/'' \<in> set (py_lower (cs_repository r))
     \<and> (if cs_controller_key r = controller_key_of (py_lower (cs_repository r)) (cs_base_branch r)
        then py_lower (cs_repository r) = cs_repository r
        else cs_controller_key r = controller_key_of (cs_repository r) (cs_base_branch r))"

lemma strip_fields_idem [simp]: "strip_controller_fields (strip_controller_fields r) = strip_controller_fields r"
  by (simp add: strip_controller_fields_def)

lemma strip_fields_iff: "strip_controller_fields r = r \<longleftrightarrow>
     py_strip (cs_lease_owner r) = cs_lease_owner r
     \<and> py_strip (cs_lease_acquired_at r) = cs_lease_acquired_at r
     \<and> py_strip (cs_lease_expires_at r) = cs_lease_expires_at r
     \<and> py_strip (cs_heartbeat_at r) = cs_heartbeat_at r
     \<and> py_strip (cs_active_action r) = cs_active_action r
     \<and> py_strip (cs_active_phase r) = cs_active_phase r
     \<and> py_strip (cs_active_record_id r) = cs_active_record_id r
     \<and> py_strip (cs_last_owner r) = cs_last_owner r
     \<and> py_strip (cs_last_action r) = cs_last_action r
     \<and> py_strip (cs_last_phase r) = cs_last_phase r
     \<and> py_strip (cs_last_record_id r) = cs_last_record_id r
     \<and> py_strip (cs_last_transition_at r) = cs_last_transition_at r
     \<and> py_strip (cs_reconciliation_detail r) = cs_reconciliation_detail r"
  by (cases r) (auto simp: strip_controller_fields_def)

lemma normalize_repository_Inr [simp]:
  "normalize_controller_repository s = Inr w \<longleftrightarrow>
     w = py_lower (py_strip s) \<and> w \<noteq> [] \<and> CHR ''/'' \<in> set w"
  by (auto simp: normalize_controller_repository_def)

lemma validated_state:
  assumes "validate_controller_state r = Inr v"
  shows "stripped_state v" "scoped_state v" "lease_consistent v"
    and "cs_controller_key v = py_strip (cs_controller_key r)"
    and "cs_base_branch v = py_strip (cs_base_branch r)"
    and "cs_status v = cs_status r" "cs_lease_owner v = py_strip (cs_lease_owner r)"
    and "cs_lease_acquired_at v = py_strip (cs_lease_acquired_at r)"
    and "cs_lease_expires_at v = py_strip (cs_lease_expires_at r)"
  using assms
  by (auto simp: validate_controller_state_def Let_def stripped_state_def scoped_state_def
      strip_controller_fields_def check_controller_status_Inr py_strip_lower
      controller_key_stripped split: if_splits)

lemma validated_work:
  assumes "validate_controller_state r = Inr v"
  shows "cs_active_action v = py_strip (cs_active_action r)"
    "cs_active_phase v = py_strip (cs_active_phase r)"
    "cs_active_record_id v = py_strip (cs_active_record_id r)"
    "cs_active_pull_request_number v = cs_active_pull_request_number r"
    "cs_step_payload v = cs_step_payload r" "cs_reconciliation_status v = cs_reconciliation_status r"
    "cs_ordinary_job_binding v = cs_ordinary_job_binding r"
  using assms by (auto simp: validate_controller_state_def Let_def strip_controller_fields_def)

lemma valid_state_iff: "valid_state r \<longleftrightarrow> stripped_state r \<and> scoped_state r \<and> lease_consistent r"
proof
  assume "valid_state r"
  then show "stripped_state r \<and> scoped_state r \<and> lease_consistent r"
    by (auto simp: valid_state_def dest: validated_state)
next
  assume r: "stripped_state r \<and> scoped_state r \<and> lease_consistent r"
  then have "(strip_controller_fields r)\<lparr>cs_controller_key := cs_controller_key r,
      cs_repository := cs_repository r, cs_base_branch := cs_base_branch r,
      cs_policy_key := cs_policy_key r, cs_policy_sha256 := cs_policy_sha256 r,
      cs_updated_at := cs_updated_at r\<rparr> = r" by (simp add: stripped_state_def)
  with r show "valid_state r"
    by (auto simp: valid_state_def validate_controller_state_def Let_def stripped_state_def
        scoped_state_def check_controller_status_Inr split: if_splits)
qed

lemma validate_valid: "validate_controller_state r = Inr v \<Longrightarrow> valid_state v"
  by (simp add: valid_state_iff validated_state)

lemma valid_annotated:
  "valid_state r \<Longrightarrow> valid_state (r\<lparr>cs_last_result := a, cs_semantic_progress_key := b\<rparr>)"
  by (simp add: valid_state_iff stripped_state_def scoped_state_def lease_consistent_def
      strip_fields_iff)

subsection \<open>The store as a lease store\<close>

definition good_store :: "controller_store \<Rightarrow> bool" where
  "good_store st \<longleftrightarrow> (\<forall>k r. map_of st k = Some r \<longrightarrow> valid_state r \<and> cs_controller_key r = k)"

definition good_context :: "lease_context \<Rightarrow> bool" where
  "good_context lc \<longleftrightarrow> lc_has_store lc \<and> valid_state (lc_record lc)"

definition context_key :: "lease_context \<Rightarrow> string" where
  "context_key lc = cs_controller_key (lc_record lc)"

definition state_credential :: "controller_state \<Rightarrow> (string \<times> string) option" where
  "state_credential r =
     (if cs_status r = Cs_running then Some (cs_lease_owner r, cs_lease_acquired_at r) else None)"

definition stored_lease :: "controller_store \<Rightarrow> string \<Rightarrow> (string \<times> string) option" where
  "stored_lease st k = (case map_of st k of None \<Rightarrow> None | Some r \<Rightarrow> state_credential r)"

definition stored_live :: "nat \<Rightarrow> controller_store \<Rightarrow> string \<Rightarrow> bool" where
  "stored_live now st k =
     (case map_of st k of None \<Rightarrow> False | Some r \<Rightarrow> lease_is_live r (utc_timestamp now))"

lemma lease_expires_at_Inr:
  assumes "lease_expires_at (utc_timestamp now) secs = Inr e" "now \<le> last_instant"
  shows "utc_timestamp now < e" "e \<noteq> []" "py_strip e = e"
proof -
  from assms have "e = utc_timestamp (now + nat secs)" "now + nat secs \<le> last_instant" "1 \<le> secs"
    by (auto simp: lease_expires_at_def parse_utc_timestamp split: if_splits)
  then show "utc_timestamp now < e" "e \<noteq> []" "py_strip e = e"
    by (auto intro: utc_timestamp_mono)
qed

lemma build_controller_key_Inr:
  "build_controller_key repo branch = Inr k \<longleftrightarrow> CHR ''/'' \<in> set (py_lower (py_strip repo))
     \<and> py_strip branch \<noteq> [] \<and> k = controller_key_of (py_lower (py_strip repo)) (py_strip branch)"
  by (cases "py_strip repo = []") (auto simp: build_controller_key_def py_lower_def)

lemma built_state_key:
  assumes "build_controller_state repo branch pk ps at = Inr v" "build_controller_key repo branch = Inr k"
  shows "valid_state v" "cs_controller_key v = k"
  using assms validate_valid validated_state(4) controller_key_stripped
  by (fastforce simp: build_controller_state_def build_controller_key_Inr)+

lemma good_store_update:
  "good_store st \<Longrightarrow> valid_state r \<Longrightarrow> cs_controller_key r = k \<Longrightarrow>
     good_store (write_controller_state_locked k r st)"
  by (auto simp: good_store_def write_controller_state_locked_def update_conv' split: if_splits)

lemma read_good:
  "good_store st \<Longrightarrow> read_controller_state st k = Some c \<Longrightarrow>
     \<exists>r. map_of st k = Some r \<and> c = Inr r \<and> valid_state r \<and> cs_controller_key r = k"
  by (auto simp: read_controller_state_def good_store_def valid_state_def)

text \<open>What an acquisition did, when it succeeded.\<close>

lemma acquire_controller_stateE:
  assumes "acquire_controller_state q at st = Inr (leased, st')" "good_store st"
  obtains k current expires where
    "build_controller_key (lq_repository q) (lq_base_branch q) = Inr k"
    "map_of st k = Some current \<or> map_of st k = None \<and> build_controller_state (lq_repository q)
       (lq_base_branch q) (lq_policy_key q) (lq_policy_sha256 q) at = Inr current"
    "valid_state current" "cs_controller_key current = k"
    "\<not> lease_is_live current at"
    "\<not> (has_unfinished_work current \<and> cs_active_action current \<notin> set (adoptable_actions q))"
    "lease_expires_at at (lq_lease_seconds q) = Inr expires"
    "validate_controller_state (leased_controller_state q at expires current) = Inr leased"
    "st' = write_controller_state_locked k leased st"
proof -
  from assms(1) obtain k current expires where k: "build_controller_key (lq_repository q) (lq_base_branch q) = Inr k"
    and c: "(case read_controller_state st k of Some stored \<Rightarrow> stored
       | None \<Rightarrow> build_controller_state (lq_repository q) (lq_base_branch q) (lq_policy_key q)
           (lq_policy_sha256 q) at) = Inr current"
    and rest: "\<not> lease_is_live current at"
    "\<not> (has_unfinished_work current \<and> cs_active_action current \<notin> set (adoptable_actions q))"
    "lease_expires_at at (lq_lease_seconds q) = Inr expires"
    "validate_controller_state (leased_controller_state q at expires current) = Inr leased"
    "st' = write_controller_state_locked k leased st"
    unfolding acquire_controller_state_def by auto
  show ?thesis
  proof (cases "read_controller_state st k")
    case None
    with c k built_state_key that [OF k _ _ _ rest] show ?thesis
      by (auto simp: read_controller_state_def)
  next
    case (Some stored)
    with c read_good [OF assms(2) Some] that [OF k _ _ _ rest] show ?thesis by auto
  qed
qed

text \<open>What a compare-and-set did, when it succeeded.\<close>

lemma cas_controller_stateE:
  assumes "cas_controller_state r ow tok secs at st = Inr (p, st')" "good_store st"
  obtains v current persisted where
    "require_canonical_controller_state r = Inr v"
    "map_of st (cs_controller_key v) = Some current" "valid_state current"
    "cs_lease_owner current = ow" "cs_lease_acquired_at current = tok"
    "cs_lease_expires_at current \<noteq> []" "at < cs_lease_expires_at current"
    "persisted_controller_state v secs at = Inr persisted"
    "validate_controller_state persisted = Inr p"
    "st' = write_controller_state_locked (cs_controller_key v) p st"
proof -
  from assms(1) obtain v current persisted where v: "require_canonical_controller_state r = Inr v"
    and c: "(case read_controller_state st (cs_controller_key v) of Some stored \<Rightarrow> stored
       | None \<Rightarrow> Inl (LeaseLost ''merge train controller state is missing'')) = Inr current"
    and lease: "cs_lease_owner current = ow" "cs_lease_acquired_at current = tok"
    "\<not> (cs_lease_expires_at current = [] \<or> cs_lease_expires_at current \<le> at)"
    and rest: "persisted_controller_state v secs at = Inr persisted"
    "validate_controller_state persisted = Inr p"
    "st' = write_controller_state_locked (cs_controller_key v) p st"
    unfolding cas_controller_state_def andThen_eq_Inr ensure_eq_Inr by blast
  from c obtain stored where "read_controller_state st (cs_controller_key v) = Some stored"
    "stored = Inr current" by (auto split: option.splits)
  then have "map_of st (cs_controller_key v) = Some current" "valid_state current"
    using read_good [OF assms(2)] by auto
  moreover have "cs_lease_expires_at current \<noteq> []" "at < cs_lease_expires_at current"
    using lease(3) by (simp_all add: not_le)
  ultimately show ?thesis using that v lease(1,2) rest by blast
qed

text \<open>A context's write, spelled out for a good context on a good store.\<close>

lemma canonical_valid:
  assumes "require_canonical_controller_state r = Inr v"
  shows "validate_controller_state r = Inr v" "valid_state v"
  using assms validate_valid by (auto simp: require_canonical_controller_state_def split: if_splits)

definition write_of :: "lease_write \<Rightarrow> lease_context \<Rightarrow> controller_state" where
  "write_of w lc = (case w of
     Checkpoint u \<Rightarrow> apply_checkpoint (keep_pending_retirements lc u) (lc_record lc)
   | Release s d clear \<Rightarrow> released_controller_state (lc_record lc) (cs_lease_owner (lc_record lc)) s d clear)"

lemma write_controller_lease_eq:
  "lc_has_store lc \<Longrightarrow> write_controller_lease now w lc st =
     andThen (cas_controller_state (write_of w lc) (cs_lease_owner (lc_record lc))
       (cs_lease_acquired_at (lc_record lc)) (lc_lease_seconds lc) (utc_timestamp now) st)
       (\<lambda>(r, st). Inr (lc\<lparr>lc_record := r\<rparr>, st))"
  by (simp add: write_controller_lease_def write_of_def lease_checkpoint_def lease_release_def
      update_controller_state_def release_controller_lease_def split: lease_write.split)

lemma write_of_fields:
  "cs_controller_key (write_of w lc) = cs_controller_key (lc_record lc)"
  "cs_status (write_of w lc) = Cs_running \<Longrightarrow> cs_status (lc_record lc) = Cs_running
     \<and> cs_lease_owner (write_of w lc) = cs_lease_owner (lc_record lc)
     \<and> cs_lease_acquired_at (write_of w lc) = cs_lease_acquired_at (lc_record lc)"
  by (auto simp: write_of_def apply_checkpoint_def released_controller_state_def
      split: lease_write.splits if_splits)

text \<open>The facts of a successful write that the laws of the interface need.\<close>

lemma write_controller_leaseE:
  assumes "write_controller_lease now w lc st = Inr (lc', st')" "good_store st" "good_context lc"
    and "now \<le> last_instant"
  obtains current p where
    "map_of st (context_key lc) = Some current" "cs_status current = Cs_running"
    "state_credential current = state_credential (lc_record lc)"
    "state_credential (lc_record lc) \<noteq> None" "lease_is_live current (utc_timestamp now)"
    "lc' = lc\<lparr>lc_record := p\<rparr>" "valid_state p" "cs_controller_key p = context_key lc"
    "st' = write_controller_state_locked (context_key lc) p st"
    "state_credential p = None \<or> state_credential p = state_credential (lc_record lc)
       \<and> lease_is_live p (utc_timestamp now)"
proof -
  let ?r = "lc_record lc"
  have r: "lc_has_store lc" "valid_state ?r" using assms(3) by (simp_all add: good_context_def)
  then have stripped: "stripped_state ?r" and consistent: "lease_consistent ?r"
    by (simp_all add: valid_state_iff)
  from assms(1) r(1) obtain p where cas: "cas_controller_state (write_of w lc) (cs_lease_owner ?r)
      (cs_lease_acquired_at ?r) (lc_lease_seconds lc) (utc_timestamp now) st = Inr (p, st')"
    and lc': "lc' = lc\<lparr>lc_record := p\<rparr>"
    by (auto simp: write_controller_lease_eq)
  from cas assms(2) obtain v current persisted where
    v: "require_canonical_controller_state (write_of w lc) = Inr v"
    and cur: "map_of st (cs_controller_key v) = Some current" "valid_state current"
    "cs_lease_owner current = cs_lease_owner ?r"
    "cs_lease_acquired_at current = cs_lease_acquired_at ?r"
    "cs_lease_expires_at current \<noteq> []" "utc_timestamp now < cs_lease_expires_at current"
    and per: "persisted_controller_state v (lc_lease_seconds lc) (utc_timestamp now) = Inr persisted"
    and p: "validate_controller_state persisted = Inr p"
    and st': "st' = write_controller_state_locked (cs_controller_key v) p st"
    by (rule cas_controller_stateE)
  note vv = canonical_valid [OF v]
  have key: "cs_controller_key v = context_key lc"
    using validated_state(4) [OF vv(1)] stripped
    by (simp add: write_of_fields stripped_state_def context_key_def)
  have running: "cs_status current = Cs_running"
    using cur(2,5) by (auto simp: valid_state_iff lease_consistent_def split: if_splits)
  then have "cs_lease_owner ?r \<noteq> []"
    using cur(2,3) by (auto simp: valid_state_iff lease_consistent_def)
  then have r_running: "cs_status ?r = Cs_running"
    using consistent by (auto simp: lease_consistent_def split: if_splits)
  have vp: "valid_state p" by (rule validate_valid [OF p])
  have pk: "cs_controller_key p = context_key lc"
    using validated_state(4) [OF p] per key vv(2)
    by (auto simp: persisted_controller_state_def valid_state_iff stripped_state_def split: if_splits)
  have cred: "state_credential p = None \<or> state_credential p = state_credential ?r
       \<and> lease_is_live p (utc_timestamp now)"
  proof (cases "cs_status v = Cs_running")
    case False
    with per validated_state(6) [OF p] show ?thesis
      by (auto simp: persisted_controller_state_def state_credential_def)
  next
    case True
    with per obtain e where e: "lease_expires_at (utc_timestamp now) (lc_lease_seconds lc) = Inr e"
      "persisted = v\<lparr>cs_updated_at := utc_timestamp now, cs_heartbeat_at := utc_timestamp now,
         cs_lease_expires_at := e\<rparr>"
      by (auto simp: persisted_controller_state_def)
    have w: "cs_status (write_of w lc) = Cs_running" using validated_state(6) [OF vv(1)] True by simp
    note same = write_of_fields(2) [OF w]
    have "cs_lease_owner v = cs_lease_owner ?r" "cs_lease_acquired_at v = cs_lease_acquired_at ?r"
      using validated_state(7,8) [OF vv(1)] same stripped
      by (simp_all add: stripped_state_def strip_fields_iff)
    with validated_state(6-9) [OF p] e lease_expires_at_Inr [OF e(1) assms(4)] True vv(2) stripped r_running
    show ?thesis
      by (auto simp: state_credential_def lease_is_live_def stripped_state_def strip_fields_iff)
  qed
  show ?thesis
  proof (rule that)
    show "map_of st (context_key lc) = Some current" using cur(1) key by simp
    show "lease_is_live current (utc_timestamp now)"
      using cur(5,6) running by (simp add: lease_is_live_def)
    show "state_credential current = state_credential ?r"
      using running r_running cur(3,4) by (simp add: state_credential_def)
  qed (use running r_running lc' vp pk st' key cred in \<open>simp_all add: state_credential_def\<close>)
qed

lemma stored_after_write:
  "stored_lease (write_controller_state_locked k r st) k = state_credential r"
  "stored_live n (write_controller_state_locked k r st) k = lease_is_live r (utc_timestamp n)"
  "k' \<noteq> k \<Longrightarrow> stored_lease (write_controller_state_locked k r st) k' = stored_lease st k'"
  "k' \<noteq> k \<Longrightarrow> stored_live n (write_controller_state_locked k r st) k' = stored_live n st k'"
  by (simp_all add: stored_lease_def stored_live_def write_controller_state_locked_def update_conv')

lemma open_controller_leaseE:
  assumes "open_controller_lease now q st = Inr (lc, st')" "good_store st"
  obtains k current leased where
    "lc = \<lparr>lc_record = leased, lc_lease_seconds = DEFAULT_LEASE_SECONDS, lc_has_store = True\<rparr>"
    "context_key lc = k" "map_of st k = Some current \<or> map_of st k = None"
    "\<not> stored_live now st k" "valid_state leased"
    "st' = write_controller_state_locked k leased st"
    "cs_status leased = Cs_running" "cs_lease_acquired_at leased = utc_timestamp now"
    "now \<le> last_instant \<Longrightarrow> lease_is_live leased (utc_timestamp now)"
proof -
  from assms(1) obtain leased where
    acq: "acquire_controller_state q (utc_timestamp now) st = Inr (leased, st')"
    and lc: "lc = \<lparr>lc_record = leased, lc_lease_seconds = DEFAULT_LEASE_SECONDS, lc_has_store = True\<rparr>"
    by (auto simp: open_controller_lease_def)
  from acq assms(2) obtain k current expires where A:
    "map_of st k = Some current \<or> map_of st k = None \<and> build_controller_state (lq_repository q)
       (lq_base_branch q) (lq_policy_key q) (lq_policy_sha256 q) (utc_timestamp now) = Inr current"
    "valid_state current" "cs_controller_key current = k"
    "\<not> lease_is_live current (utc_timestamp now)"
    "lease_expires_at (utc_timestamp now) (lq_lease_seconds q) = Inr expires"
    "validate_controller_state (leased_controller_state q (utc_timestamp now) expires current) = Inr leased"
    "st' = write_controller_state_locked k leased st"
    by (rule acquire_controller_stateE) blast
  note V = validated_state [OF A(6)]
  have "cs_controller_key leased = k"
    using V(4) A(2,3) by (auto simp: leased_controller_state_def Let_def valid_state_iff stripped_state_def)
  moreover have "cs_status leased = Cs_running" "cs_lease_acquired_at leased = utc_timestamp now"
    "cs_lease_expires_at leased = py_strip expires"
    using V(6,8,9) by (simp_all add: leased_controller_state_def Let_def)
  moreover have "\<not> stored_live now st k" using A(1,4) by (auto simp: stored_live_def)
  moreover have "now \<le> last_instant \<Longrightarrow> lease_is_live leased (utc_timestamp now)"
    using calculation(2,4) lease_expires_at_Inr [OF A(5)] by (simp add: lease_is_live_def)
  ultimately show ?thesis
    using that [of leased k current] lc A(1,7) validate_valid [OF A(6)] by (auto simp: context_key_def)
qed

interpretation fs: lease_store open_controller_lease write_controller_lease lease_record_result
  utc_timestamp last_instant good_store good_context context_key
  "\<lambda>lc. state_credential (lc_record lc)" stored_lease stored_live
proof (unfold_locales, goal_cases)
  case (1 now now')
  then show ?case by (simp add: utc_timestamp_inj)
next
  case (2 now' st k now)
  then show ?case
    using utc_timestamp_le_iff [of now now'] by (auto simp: stored_live_def lease_is_live_def split: option.splits)
next
  case (3 st now q h st')
  then show ?case by (elim open_controller_leaseE) auto
next
  case (4 st now q h st')
  then show ?case
    by (elim open_controller_leaseE)
      (auto simp: stored_after_write good_store_update good_context_def context_key_def state_credential_def)
next
  case (5 st now q h st' k n)
  then show ?case by (elim open_controller_leaseE) (auto simp: stored_after_write)
next
  case (6 st h now u h' st')
  then show ?case by (elim write_controller_leaseE) (auto simp: stored_lease_def stored_live_def)
next
  case (7 st h now u h' st')
  then show ?case
    by (elim write_controller_leaseE)
      (auto simp: stored_after_write good_store_update good_context_def context_key_def state_credential_def)
next
  case (8 st h now u h' st' k n)
  then show ?case by (elim write_controller_leaseE) (auto simp: stored_after_write)
next
  case (9 h x)
  then show ?case
    by (auto simp: lease_record_result_def good_context_def context_key_def state_credential_def valid_annotated)
qed

end
