(* ===== verification/Mt_Lease_Properties.thy ===== *)
theory Mt_Lease_Properties
  imports Mt_Lease_Safety
begin

section \<open>Properties of the controller's lease\<close>

text \<open>
  What the lease promises, over every interleaving of sessions (\<open>controller_run\<close>): one writer per
  train, a session that lost its lease is fenced for good, a lease lasts exactly its seconds, and
  interrupted work is handed on. Sessions run on a store with any content that the validators
  accept, leases of earlier processes included; the clock never goes back.
\<close>

subsection \<open>Runs\<close>

text \<open>
  A step is a tick of the clock, a successful acquisition, a successful fenced write of one session,
  or a session noting a result in its own copy. An operation that raises changes nothing.
\<close>

abbreviation controller_run ::
  "nat \<times> controller_store \<times> lease_context list \<Rightarrow> nat \<times> controller_store \<times> lease_context list \<Rightarrow> bool" where
  "controller_run \<equiv> lease_run open_controller_lease write_controller_lease lease_record_result last_instant"

definition ex_instant :: nat where
  "ex_instant = 63113904000"

definition ex_lease_request :: "string \<Rightarrow> lease_request" where
  "ex_lease_request trace = \<lparr>lq_repository = ''o/r'', lq_base_branch = ''main'',
     lq_policy_key = ''o/r:main'', lq_policy_sha256 = ''p'',
     lq_lease_owner = ''merge-train-controller:'' @ trace, lq_lease_seconds = 300,
     lq_initial_active_action = ''land_batch'', lq_initial_active_phase = ''start'',
     lq_adoptable_active_actions = [''land_batch'', ''plan_candidate'']\<rparr>"

definition ex_checkpoint :: lease_write where
  "ex_checkpoint = Checkpoint \<lparr>up_active_action = None, up_active_phase = Some ''merging'',
     up_active_record_id = None, up_active_pull_request_number = None, up_step_payload = None,
     up_ordinary_job_binding = None\<rparr>"

text \<open>The first session opens, its lease lapses, a second session takes over its work.\<close>

definition ex_state :: "string \<Rightarrow> string \<Rightarrow> string \<Rightarrow> reconciliation_status \<Rightarrow> string \<Rightarrow> controller_state" where
  "ex_state trace at expires rec detail = \<lparr>cs_ordinary_job_binding = None,
     cs_controller_key = ''merge-train-controller:o:r:main'', cs_repository = ''o/r'',
     cs_base_branch = ''main'', cs_policy_key = ''o/r:main'', cs_policy_sha256 = ''p'',
     cs_status = Cs_running, cs_updated_at = at,
     cs_lease_owner = ''merge-train-controller:'' @ trace, cs_lease_acquired_at = at,
     cs_lease_expires_at = expires, cs_heartbeat_at = at, cs_active_action = ''land_batch'',
     cs_active_phase = ''start'', cs_active_record_id = '''', cs_active_pull_request_number = None,
     cs_step_payload = [], cs_last_owner = '''', cs_last_action = '''', cs_last_phase = '''',
     cs_last_record_id = '''', cs_last_pull_request_number = None, cs_last_transition_at = '''',
     cs_reconciliation_status = rec, cs_reconciliation_detail = detail, cs_last_result = None,
     cs_semantic_progress_key = ''''\<rparr>"

definition ex_context :: "controller_state \<Rightarrow> lease_context" where
  "ex_context r = \<lparr>lc_record = r, lc_lease_seconds = 300, lc_has_store = True\<rparr>"

definition ex_state_a :: controller_state where
  "ex_state_a = ex_state ''a'' ''2001-01-01T00:00:00Z'' ''2001-01-01T00:05:00Z'' Rec_clean ''''"

definition ex_state_b :: controller_state where
  "ex_state_b = ex_state ''b'' ''2001-01-01T00:06:40Z'' ''2001-01-01T00:11:40Z'' Rec_adopted
     ''resuming:land_batch:start''"

abbreviation ex_store :: "controller_state \<Rightarrow> controller_store" where
  "ex_store r \<equiv> [(''merge-train-controller:o:r:main'', r)]"

lemma ex_first: "open_controller_lease ex_instant (ex_lease_request ''a'') []
    = Inr (ex_context ex_state_a, ex_store ex_state_a)"
  by code_simp

lemma ex_second: "open_controller_lease (ex_instant + 400) (ex_lease_request ''b'') (ex_store ex_state_a)
    = Inr (ex_context ex_state_b, ex_store ex_state_b)"
  by code_simp

lemma ex_clock: "ex_instant \<le> ex_instant + 400" "ex_instant + 400 \<le> last_instant" "ex_instant \<le> last_instant"
  by (simp_all add: ex_instant_def last_instant_def)

lemma ex_store_start: "good_store []"
  by (simp add: good_store_def)

lemma ex_run: "controller_run (ex_instant, [], []) (ex_instant + 400, ex_store ex_state_a, [ex_context ex_state_a])"
proof -
  have "controller_run (ex_instant, [], []) (ex_instant, ex_store ex_state_a, [] @ [ex_context ex_state_a])"
    by (rule run_step [OF run_refl acquired [where q = "ex_lease_request ''a''"]]) (rule ex_first)
  then have "controller_run (ex_instant, [], []) (ex_instant + 400, ex_store ex_state_a, [] @ [ex_context ex_state_a])"
    by (rule run_step) (rule tick [OF ex_clock(1,2)])
  then show ?thesis by simp
qed

lemma ex_run_second: "controller_run (ex_instant, [], [])
    (ex_instant + 400, ex_store ex_state_b, [ex_context ex_state_a, ex_context ex_state_b])"
proof -
  have "controller_run (ex_instant, [], []) (ex_instant + 400, ex_store ex_state_b,
      [ex_context ex_state_a] @ [ex_context ex_state_b])"
    by (rule run_step [OF ex_run acquired [where q = "ex_lease_request ''b''"]]) (rule ex_second)
  then show ?thesis by simp
qed

subsection \<open>Properties\<close>

text \<open>
  C10. Whatever the sessions do, at any moment the store accepts the writes of at most one session of
  a train: if two sessions on the same controller key can both write, they are the same session.
\<close>

theorem one_session_writes:
  assumes "good_store st0" and "now0 \<le> last_instant"
    and "controller_run (now0, st0, []) (now, st, sessions)"
    and "i < length sessions" and "j < length sessions"
    and "context_key (sessions ! i) = context_key (sessions ! j)"
    and "write_controller_lease now w (sessions ! i) st = Inr r"
    and "write_controller_lease now w' (sessions ! j) st = Inr r'"
  shows "i = j"
proof -
  have "fs.fenced (now, st, sessions)"
    using fs.fenced_run [OF assms(3)] fs.fenced_start [OF assms(2,1)] .
  from fs.holder_unique [OF this fs.update_by_holder [OF this assms(4,7)]
      fs.update_by_holder [OF this assms(5,8)] assms(6)] show ?thesis .
qed

theorem one_session_writes_witness:
  "isl (write_controller_lease (ex_instant + 400) ex_checkpoint
     ([ex_context ex_state_a, ex_context ex_state_b] ! 0) (ex_store ex_state_b))"
proof (rule ccontr)
  let ?w = "\<lambda>i. write_controller_lease (ex_instant + 400) ex_checkpoint
      ([ex_context ex_state_a, ex_context ex_state_b] ! i) (ex_store ex_state_b)"
  assume zero: "\<not> isl (?w 0)"
  have one: "\<not> isl (?w 1)" by code_simp
  have "context_key ([ex_context ex_state_a, ex_context ex_state_b] ! 0)
      = context_key ([ex_context ex_state_a, ex_context ex_state_b] ! 1)" by code_simp
  from one_session_writes [OF ex_store_start ex_clock(3) ex_run_second _ _ this
      sum.collapse(2) [OF zero, symmetric] sum.collapse(2) [OF one, symmetric]]
  show False by simp
qed

text \<open>
  C23. When a session takes the lease of a train, every older session of that train is fenced: whatever
  happens afterwards, each of its writes is refused.
\<close>

theorem taken_over_session_is_fenced:
  assumes "good_store st0" and "now0 \<le> last_instant"
    and "controller_run (now0, st0, []) (now, st, sessions)"
    and "open_controller_lease now q st = Inr (lc, st')"
    and "i < length sessions" and "context_key (sessions ! i) = context_key lc"
    and "controller_run (now, st', sessions @ [lc]) (later, st'', sessions')"
  shows "\<exists>e. write_controller_lease later w (sessions' ! i) st'' = Inl e"
proof -
  have inv: "fs.fenced (now, st, sessions)"
    using fs.fenced_run [OF assms(3)] fs.fenced_start [OF assms(2,1)] .
  note F = fs.fencedD [OF inv]
  have inv': "fs.fenced (now, st', sessions @ [lc])" by (rule fs.fenced_acquired [OF inv assms(4)])
  have "fs.holds (now, st', sessions @ [lc]) (length sessions)"
    using fs.acquire_takes [OF F(2) assms(4) F(1)] by (auto simp: fs.holds_def)
  with fs.holder_unique [OF inv', of "length sessions" i] assms(5,6)
  have "\<not> fs.holds (now, st', sessions @ [lc]) i" by (auto simp: nth_append)
  with fs.lost_session_never_writes [OF assms(7) inv'] assms(5) show ?thesis by simp
qed

theorem taken_over_session_is_fenced_witness:
  "\<exists>e. write_controller_lease (ex_instant + 400) ex_checkpoint (ex_context ex_state_a) (ex_store ex_state_b) = Inl e"
proof -
  have "context_key ([ex_context ex_state_a] ! 0) = context_key (ex_context ex_state_b)" by code_simp
  from taken_over_session_is_fenced [OF ex_store_start ex_clock(3) ex_run ex_second _ this run_refl]
  show ?thesis by simp
qed

text \<open>
  A lease holds for exactly its seconds: after an acquisition, and until someone writes, the key
  counts as held at a later instant exactly when fewer than the requested seconds have passed.
\<close>

theorem lease_lasts_its_seconds:
  assumes "open_controller_lease now q st = Inr (lc, st')" and "good_store st"
    and "now + 86400 \<le> last_instant" and "later \<le> last_instant"
  shows "stored_live later st' (context_key lc) \<longleftrightarrow> later < now + nat (lq_lease_seconds q)"
proof -
  from assms(1) obtain leased where
    acq: "acquire_controller_state q (utc_timestamp now) st = Inr (leased, st')"
    and lc: "lc_record lc = leased"
    by (auto simp: open_controller_lease_def)
  from acq assms(2) obtain k current expires where A: "valid_state current" "cs_controller_key current = k"
    "lease_expires_at (utc_timestamp now) (lq_lease_seconds q) = Inr expires"
    "validate_controller_state (leased_controller_state q (utc_timestamp now) expires current) = Inr leased"
    "st' = write_controller_state_locked k leased st"
    by (rule acquire_controller_stateE) blast
  note V = validated_state [OF A(4)]
  have e: "expires = utc_timestamp (now + nat (lq_lease_seconds q))"
    "now + nat (lq_lease_seconds q) \<le> last_instant"
    using A(3) assms(3) by (auto simp: lease_expires_at_def parse_utc_timestamp split: if_splits)
  have "cs_controller_key leased = k"
    using V(4) A(1,2) by (auto simp: leased_controller_state_def Let_def valid_state_iff stripped_state_def)
  moreover have "lease_is_live leased (utc_timestamp later) \<longleftrightarrow> utc_timestamp later < expires"
    using V(6,9) e by (simp add: lease_is_live_def leased_controller_state_def Let_def)
  ultimately show ?thesis
    using A(5) lc e utc_timestamp_less_iff [OF assms(4) e(2)] by (simp add: stored_after_write context_key_def)
qed

theorem lease_lasts_its_seconds_witness:
  "stored_live (ex_instant + 299) (ex_store ex_state_a) (context_key (ex_context ex_state_a))
   \<and> \<not> stored_live (ex_instant + 300) (ex_store ex_state_a) (context_key (ex_context ex_state_a))"
proof -
  have "ex_instant + 86400 \<le> last_instant" "ex_instant + 299 \<le> last_instant"
    "ex_instant + 300 \<le> last_instant" by (simp_all add: ex_instant_def last_instant_def)
  from lease_lasts_its_seconds [OF ex_first ex_store_start this(1,2)]
    lease_lasts_its_seconds [OF ex_first ex_store_start this(1,3)]
  show ?thesis by (simp add: ex_lease_request_def)
qed

text \<open>
  C39. Work that a crash or a failure left unfinished is handed on: whoever acquires the lease next
  takes over its action, phase, record, pull request and payload unchanged, marks it adopted, and
  must be a controller that can resume that action.
\<close>

theorem adoption_keeps_interrupted_work:
  assumes "acquire_controller_state q at st = Inr (leased, st')" and "good_store st"
    and "build_controller_key (lq_repository q) (lq_base_branch q) = Inr k"
    and "map_of st k = Some current" and "has_unfinished_work current"
  shows "cs_active_action leased = cs_active_action current
     \<and> cs_active_phase leased = cs_active_phase current
     \<and> cs_active_record_id leased = cs_active_record_id current
     \<and> cs_active_pull_request_number leased = cs_active_pull_request_number current
     \<and> cs_step_payload leased = cs_step_payload current
     \<and> cs_ordinary_job_binding leased = cs_ordinary_job_binding current
     \<and> cs_reconciliation_status leased = Rec_adopted
     \<and> cs_active_action current \<in> set (adoptable_actions q)"
proof -
  from assms(1,2) obtain current' expires where A: "map_of st k = Some current'"
    "valid_state current'"
    "\<not> (has_unfinished_work current' \<and> cs_active_action current' \<notin> set (adoptable_actions q))"
    "validate_controller_state (leased_controller_state q at expires current') = Inr leased"
    using assms(3,4) by (elim acquire_controller_stateE) auto
  have [simp]: "current' = current" using A(1) assms(4) by simp
  have work: "cs_active_action current \<noteq> []" "cs_active_phase current \<noteq> []"
    using assms(5) A(2) by (auto simp: has_unfinished_work_def valid_state_iff lease_consistent_def)
  have "stripped_state current" using A(2) by (simp add: valid_state_iff)
  with validated_work [OF A(4)] A(3) work assms(5) show ?thesis
    by (simp add: leased_controller_state_def Let_def stripped_state_def strip_fields_iff)
qed

theorem adoption_keeps_interrupted_work_witness:
  "cs_active_phase ex_state_b = cs_active_phase ex_state_a
   \<and> cs_reconciliation_status ex_state_b = Rec_adopted"
proof -
  have acq: "acquire_controller_state (ex_lease_request ''b'') (utc_timestamp (ex_instant + 400))
      (ex_store ex_state_a) = Inr (ex_state_b, ex_store ex_state_b)"
    using ex_second by (auto simp: open_controller_lease_def ex_context_def)
  have good: "good_store (ex_store ex_state_a)"
    using fs.fencedD(2) [OF fs.fenced_run [OF ex_run fs.fenced_start [OF ex_clock(3) ex_store_start]]] .
  have key: "build_controller_key (lq_repository (ex_lease_request ''b''))
      (lq_base_branch (ex_lease_request ''b'')) = Inr ''merge-train-controller:o:r:main''" by code_simp
  have "map_of (ex_store ex_state_a) ''merge-train-controller:o:r:main'' = Some ex_state_a"
    "has_unfinished_work ex_state_a"
    by (simp_all add: has_unfinished_work_def ex_state_a_def ex_state_def)
  from adoption_keeps_interrupted_work [OF acq good key this] show ?thesis by simp
qed

text \<open>
  C40. Every record the sessions leave in the store is valid: under its own key, with a complete
  lease while it runs and no trace of one otherwise, and with the interrupted work named when it
  requires reconciliation.
\<close>

theorem stored_states_stay_valid:
  assumes "good_store st0" and "now0 \<le> last_instant"
    and "controller_run (now0, st0, []) (now, st, sessions)" and "map_of st k = Some r"
  shows "validate_controller_state r = Inr r \<and> cs_controller_key r = k \<and> lease_consistent r"
proof -
  have "good_store st"
    using fs.fencedD(2) [OF fs.fenced_run [OF assms(3) fs.fenced_start [OF assms(2,1)]]] .
  with assms(4) have "valid_state r" "cs_controller_key r = k" by (auto simp: good_store_def)
  then show ?thesis by (simp add: valid_state_iff) (simp add: valid_state_def flip: valid_state_iff)
qed

theorem stored_states_stay_valid_witness: "lease_consistent ex_state_b"
proof -
  have "map_of (ex_store ex_state_b) ''merge-train-controller:o:r:main'' = Some ex_state_b" by simp
  from stored_states_stay_valid [OF ex_store_start ex_clock(3) ex_run_second this] show ?thesis by simp
qed

text \<open>
  The stores compare times as strings; on the timestamps they write that is the order of the
  instants.
\<close>

theorem timestamp_order_is_time_order:
  assumes "t \<le> last_instant" and "t' \<le> last_instant"
  shows "(utc_timestamp t < utc_timestamp t' \<longleftrightarrow> t < t') \<and> (utc_timestamp t = utc_timestamp t' \<longleftrightarrow> t = t')"
  using assms by (simp add: utc_timestamp_less_iff utc_timestamp_inj)

theorem timestamp_order_is_time_order_witness:
  "utc_timestamp (63113904000 - 1) < utc_timestamp 63113904000"
  using timestamp_order_is_time_order [of "63113904000 - 1" 63113904000] by (simp add: last_instant_def)

text \<open>A written timestamp is read back as its instant, on every date up to the year 9999.\<close>

theorem timestamp_read_back:
  assumes "t \<le> last_instant"
  shows "parse_timestamp (utc_timestamp t) = Some t"
  by (rule parse_utc_timestamp [OF assms])

theorem timestamp_read_back_witness:
  "parse_timestamp (utc_timestamp 63113904000) = Some 63113904000"
  using timestamp_read_back [of 63113904000] by (simp add: last_instant_def)

text \<open>
  Giving up a lease: after a clean release the train is idle and remembers no work; after a
  release for reconciliation that keeps the work, the record names the interrupted action and waits
  for it. Either way the lease fields are empty and the next acquisition is not refused as held.
\<close>

theorem release_outcome:
  assumes "write_controller_lease now (Release rec_status detail clear) lc st = Inr (lc', st')"
    and "good_store st" and "good_context lc" and "now \<le> last_instant"
  shows "\<exists>r. map_of st' (context_key lc) = Some r \<and> lease_consistent r
     \<and> cs_status r = (if rec_status = Rec_clean then Cs_idle else Cs_reconcile_required)
     \<and> cs_reconciliation_status r = rec_status
     \<and> cs_active_action r = (if clear then '''' else cs_active_action (lc_record lc))
     \<and> cs_active_phase r = (if clear then '''' else cs_active_phase (lc_record lc))
     \<and> cs_step_payload r = (if clear then [] else cs_step_payload (lc_record lc))
     \<and> \<not> stored_live now st' (context_key lc)"
proof -
  let ?r = "lc_record lc"
  let ?w = "released_controller_state ?r (cs_lease_owner ?r) rec_status detail clear"
  have lc: "lc_has_store lc" "valid_state ?r" using assms(3) by (simp_all add: good_context_def)
  from assms(1) lc(1) obtain p where cas: "cas_controller_state ?w (cs_lease_owner ?r)
      (cs_lease_acquired_at ?r) (lc_lease_seconds lc) (utc_timestamp now) st = Inr (p, st')"
    by (auto simp: write_controller_lease_eq write_of_def)
  from assms(1-4) obtain p' where p': "lc' = lc\<lparr>lc_record := p'\<rparr>" "valid_state p'"
    "st' = write_controller_state_locked (context_key lc) p' st"
    by (rule write_controller_leaseE)
  have "lc' = lc\<lparr>lc_record := p\<rparr>"
    using assms(1) cas lc(1) by (auto simp: write_controller_lease_eq write_of_def)
  with p'(1) have "lc_record (lc\<lparr>lc_record := p'\<rparr>) = lc_record (lc\<lparr>lc_record := p\<rparr>)" by simp
  then have eq: "p' = p" by simp
  from cas assms(2) obtain v persisted where v: "require_canonical_controller_state ?w = Inr v"
    and per: "persisted_controller_state v (lc_lease_seconds lc) (utc_timestamp now) = Inr persisted"
    and p: "validate_controller_state persisted = Inr p"
    by (rule cas_controller_stateE)
  note V = validated_state(6) [OF canonical_valid(1) [OF v]] validated_work [OF canonical_valid(1) [OF v]]
  have "persisted = v\<lparr>cs_updated_at := utc_timestamp now, cs_last_transition_at := utc_timestamp now\<rparr>"
    using per V(1) by (simp add: persisted_controller_state_def released_controller_state_def split: if_splits)
  with V validated_state(6) [OF p] validated_work [OF p] lc(2)
  have fields: "cs_status p = (if rec_status = Rec_clean then Cs_idle else Cs_reconcile_required)"
    "cs_reconciliation_status p = rec_status"
    "cs_active_action p = (if clear then '''' else cs_active_action ?r)"
    "cs_active_phase p = (if clear then '''' else cs_active_phase ?r)"
    "cs_step_payload p = (if clear then [] else cs_step_payload ?r)"
    by (simp_all add: released_controller_state_def valid_state_iff stripped_state_def strip_fields_iff)
  have "map_of st' (context_key lc) = Some p"
    using p'(3) eq by (simp add: write_controller_state_locked_def update_conv')
  moreover have "\<not> stored_live now st' (context_key lc)"
    using fields(1) p'(3) eq by (simp add: stored_after_write lease_is_live_def)
  moreover have "lease_consistent p" using p'(2) eq by (simp add: valid_state_iff)
  ultimately show ?thesis using fields by auto
qed

definition ex_released :: "lease_context \<times> controller_store" where
  "ex_released = projr (write_controller_lease ex_instant (Release Rec_required ''retryable:x'' False)
     (ex_context ex_state_a) (ex_store ex_state_a))"

theorem release_outcome_witness:
  "\<exists>r. map_of (snd ex_released) ''merge-train-controller:o:r:main'' = Some r
     \<and> cs_status r = Cs_reconcile_required \<and> cs_active_action r = ''land_batch''"
proof -
  have "\<not> isl (write_controller_lease ex_instant (Release Rec_required ''retryable:x'' False)
      (ex_context ex_state_a) (ex_store ex_state_a))" by code_simp
  then have rel: "write_controller_lease ex_instant (Release Rec_required ''retryable:x'' False)
      (ex_context ex_state_a) (ex_store ex_state_a) = Inr (fst ex_released, snd ex_released)"
    by (simp add: ex_released_def)
  note F = fs.fenced_run [OF ex_run fs.fenced_start [OF ex_clock(3) ex_store_start]]
  have good: "good_store (ex_store ex_state_a)" "good_context (ex_context ex_state_a)"
    using fs.fencedD(2,3) [OF F] by simp_all
  from release_outcome [OF rel good ex_clock(3)] show ?thesis
    by (auto simp: ex_context_def context_key_def ex_state_a_def ex_state_def)
qed

end
