(* ===== verification/Canonical_Json.thy ===== *)
theory Canonical_Json
  imports Py_Json Sha256
begin

section \<open>Canonical JSON and digests\<close>

text \<open>
  \<open>control_plane/contracts/canonical_json.py\<close>: the compact JSON text with sorted keys
  (\<open>json.dumps(payload, sort_keys=True, separators=(",", ":"))\<close>, which escapes everything outside
  printable ASCII), the validation of public canonical JSON, and the SHA-256 digests of the text.
\<close>

subsection \<open>Text\<close>

definition hex4 :: "nat \<Rightarrow> string" where
  "hex4 n = hex_of 4 n"

definition escape_char :: "char \<Rightarrow> string" where
  "escape_char c = (let n = (of_char c :: nat) in
     if n = 34 then [CHR 0x5C, CHR 0x22]
     else if n = 92 then [CHR 0x5C, CHR 0x5C]
     else if n = 10 then [CHR 0x5C] @ ''n''
     else if n = 13 then [CHR 0x5C] @ ''r''
     else if n = 9 then [CHR 0x5C] @ ''t''
     else if n = 12 then [CHR 0x5C] @ ''f''
     else if n = 8 then [CHR 0x5C] @ ''b''
     else if 32 \<le> n \<and> n \<le> 126 then [c]
     else [CHR 0x5C] @ ''u'' @ hex4 n)"

definition json_string :: "string \<Rightarrow> string" where
  "json_string s = [CHR 0x22] @ concat (map escape_char s) @ [CHR 0x22]"

definition json_int :: "int \<Rightarrow> string" where
  "json_int i = (if i < 0 then ''-'' @ str_nat (nat (- i)) else str_nat (nat i))"

fun dumps :: "json \<Rightarrow> string" where
  "dumps JNull = ''null''"
| "dumps (JBool b) = (if b then ''true'' else ''false'')"
| "dumps (JInt i) = json_int i"
| "dumps (JStr s) = json_string s"
| "dumps (JArr xs) = ''['' @ str_join '','' (map dumps xs) @ '']''"
| "dumps (JObj kvs) = ''{'' @ str_join '','' (map snd (sort_key fst
     (map (\<lambda>(k, v). (k, json_string k @ '':'' @ dumps v)) kvs))) @ ''}''"

subsection \<open>Validation\<close>

definition CANONICAL_INTEGER_MIN :: int where
  "CANONICAL_INTEGER_MIN = - (2 ^ 63)"

definition CANONICAL_INTEGER_MAX :: int where
  "CANONICAL_INTEGER_MAX = 2 ^ 63 - 1"

text \<open>
  Floats, byte strings and keys that are not strings do not occur among the values of \<open>json\<close>; what
  is left of the check is the range of the integers. The location in the message is not modelled.
\<close>

fun validate_canonical_json :: "json \<Rightarrow> unit res" where
  "validate_canonical_json (JInt i) =
     (if CANONICAL_INTEGER_MIN \<le> i \<and> i \<le> CANONICAL_INTEGER_MAX then Inr ()
      else Inl (ValueError ''canonical JSON integer must fit signed 64-bit range''))"
| "validate_canonical_json (JArr xs) =
     andThen (mapM validate_canonical_json xs) (\<lambda>_. Inr ())"
| "validate_canonical_json (JObj kvs) =
     andThen (mapM (\<lambda>(_, v). validate_canonical_json v) kvs) (\<lambda>_. Inr ())"
| "validate_canonical_json _ = Inr ()"

definition canonical_json_bytes :: "json \<Rightarrow> string res" where
  "canonical_json_bytes payload =
     andThen (validate_canonical_json payload) (\<lambda>_. Inr (dumps payload))"

subsection \<open>Digests\<close>

definition compact_sorted_json_sha256 :: "json \<Rightarrow> string" where
  "compact_sorted_json_sha256 payload = sha256_hexdigest (dumps payload)"

definition canonical_json_sha256 :: "json \<Rightarrow> string res" where
  "canonical_json_sha256 payload =
     andThen (canonical_json_bytes payload) (\<lambda>bytes. Inr (sha256_hexdigest bytes))"

lemma length_digest [simp]: "length (compact_sorted_json_sha256 p) = 64"
  by (simp add: compact_sorted_json_sha256_def)


text \<open>A digest is not changed by the normalisation the validators apply to it.\<close>

lemma lower_hex_plain: "lower_hex c \<Longrightarrow> \<not> py_space c \<and> lower_char c = c"
  by (auto simp: lower_hex_def py_space_def lower_char_def Let_def)

lemma digest_lower_hex: "c \<in> set (compact_sorted_json_sha256 p) \<Longrightarrow> lower_hex c"
  by (simp add: compact_sorted_json_sha256_def sha256_hexdigest_lower_hex)

lemma digest_nonempty [simp]: "compact_sorted_json_sha256 p \<noteq> []"
  using length_digest [of p] by (metis list.size(3) zero_neq_numeral)

lemma py_strip_digest [simp]: "py_strip (compact_sorted_json_sha256 p) = compact_sorted_json_sha256 p"
proof (rule py_strip_id)
  show "\<not> py_space (hd (compact_sorted_json_sha256 p))" "\<not> py_space (last (compact_sorted_json_sha256 p))"
    using lower_hex_plain digest_lower_hex [OF hd_in_set [OF digest_nonempty]]
      digest_lower_hex [OF last_in_set [OF digest_nonempty]] by blast+
qed simp

lemma py_lower_digest [simp]: "py_lower (compact_sorted_json_sha256 p) = compact_sorted_json_sha256 p"
  unfolding py_lower_def by (intro map_idI) (simp add: lower_hex_plain digest_lower_hex)

end
