(* ===== verification/Mt_Provenance.thy ===== *)
theory Mt_Provenance
  imports Canonical_Json Mt_Controller_State
begin

section \<open>Structural provenance of a batch candidate\<close>

text \<open>
  \<open>control_plane/contracts/merge_train_structural_provenance.py\<close>: which commits a candidate was
  merged from. One record per model, one \<open>validate_\<close> function per validator, the digests over the
  canonical JSON of the dumped model. Sets of subjects are lists sorted by product and system.
\<close>

subsection \<open>Field helpers\<close>

definition required_token :: "string \<Rightarrow> string \<Rightarrow> string res" where
  "required_token value field_name =
     (let normalized = py_strip value in
      if normalized = '''' then Inl (ValueError (field_name @ '' must be non-empty'')) else Inr normalized)"

lemma required_token_Inr: "required_token s m = Inr t \<longleftrightarrow> t = py_strip s \<and> py_strip s \<noteq> []"
  by (auto simp: required_token_def Let_def)

definition owner_name_shape :: "string \<Rightarrow> bool" where
  "owner_name_shape s \<longleftrightarrow> length (filter (\<lambda>c. c = CHR ''/'') s) = 1
     \<and> takeWhile (\<lambda>c. c \<noteq> CHR ''/'') s \<noteq> [] \<and> tl (dropWhile (\<lambda>c. c \<noteq> CHR ''/'') s) \<noteq> []"

definition normalize_provenance_repository :: "string \<Rightarrow> string res" where
  "normalize_provenance_repository value =
     andThen (required_token value ''repository'') (\<lambda>t.
     if owner_name_shape (py_lower t) then Inr (py_lower t)
     else Inl (ValueError ''repository must use owner/name''))"

fun split_on :: "char \<Rightarrow> string \<Rightarrow> string list" where
  "split_on sep [] = [[]]"
| "split_on sep (c # cs) =
     (if c = sep then [] # split_on sep cs
      else (case split_on sep cs of [] \<Rightarrow> [[c]] | w # ws \<Rightarrow> (c # w) # ws))"

text \<open>\<open>while normalized.startswith("./"): normalized = normalized[2:]\<close>\<close>

fun drop_dot_slash :: "string \<Rightarrow> string" where
  "drop_dot_slash (a # b # cs) =
     (if a = CHR ''.'' \<and> b = CHR ''/'' then drop_dot_slash cs else a # b # cs)"
| "drop_dot_slash s = s"

definition normalize_changed_path :: "string \<Rightarrow> string res" where
  "normalize_changed_path value =
     andThen (required_token value ''changed_path'') (\<lambda>t.
     let normalized = drop_dot_slash (replace_char (CHR 0x5C) ''/'' t) in
     if prefix ''/'' normalized
        \<or> (\<exists>part \<in> set (split_on (CHR ''/'') normalized). part \<in> {'''', ''.'', ''..''})
     then Inl (ValueError ''changed_path must be a normalized repository-relative path'')
     else Inr normalized)"

definition required_sha256 :: "string \<Rightarrow> string \<Rightarrow> string res" where
  "required_sha256 value field_name =
     andThen (required_token value field_name) (\<lambda>t.
     let normalized = py_lower t in
     if length normalized \<noteq> 64 \<or> \<not> list_all lower_hex normalized
     then Inl (ValueError (field_name @ '' must be a SHA-256 digest'')) else Inr normalized)"

subsection \<open>Subjects, entries, steps\<close>

record structural_subject =
  su_product :: string
  su_system :: string

definition subject_key :: "structural_subject \<Rightarrow> string \<times> string" where
  "subject_key s = (su_product s, su_system s)"

text \<open>\<open>sorted(set(subjects), key=...)\<close>: the key determines the subject.\<close>

definition normalize_subjects :: "structural_subject list \<Rightarrow> structural_subject list" where
  "normalize_subjects ss = sort_key subject_key (dedup ss)"

definition validate_subject :: "structural_subject \<Rightarrow> structural_subject res" where
  "validate_subject s =
     andThen (required_token (su_product s) ''product'') (\<lambda>p.
     andThen (required_token (su_system s) ''system'') (\<lambda>y.
     Inr (s\<lparr>su_product := p, su_system := y\<rparr>)))"

datatype impact_status = Impact_known | Impact_unknown

record entry_binding =
  eb_position :: nat
  eb_pull_request_number :: nat
  eb_head_sha :: string
  eb_head_tree_sha :: string
  eb_impact_status :: impact_status
  eb_affected_subjects :: "structural_subject list"

definition validate_entry_binding :: "entry_binding \<Rightarrow> entry_binding res" where
  "validate_entry_binding b =
     andThen (required_token (eb_head_sha b) ''head_sha'') (\<lambda>head.
     andThen (required_token (eb_head_tree_sha b) ''head_tree_sha'') (\<lambda>tree.
     let subjects = normalize_subjects (eb_affected_subjects b) in
     andThen (ensure (\<not> (eb_impact_status b = Impact_unknown \<and> subjects \<noteq> []))
       (ValueError ''Unknown structural impact cannot carry affected subjects'')) (\<lambda>_.
     Inr (b\<lparr>eb_head_sha := head, eb_head_tree_sha := tree, eb_affected_subjects := subjects\<rparr>))))"

datatype step_kind = Merge_commit | No_op_already_contained

record rolling_step =
  rs_position :: nat
  rs_pull_request_number :: nat
  rs_parent_sha :: string
  rs_parent_tree_sha :: string
  rs_head_sha :: string
  rs_head_tree_sha :: string
  rs_result_sha :: string
  rs_result_tree_sha :: string
  rs_kind :: step_kind

definition validate_rolling_step :: "rolling_step \<Rightarrow> rolling_step res" where
  "validate_rolling_step s =
     andThen (required_token (rs_parent_sha s) ''parent_sha'') (\<lambda>parent.
     andThen (required_token (rs_parent_tree_sha s) ''parent_tree_sha'') (\<lambda>parent_tree.
     andThen (required_token (rs_head_sha s) ''head_sha'') (\<lambda>head.
     andThen (required_token (rs_head_tree_sha s) ''head_tree_sha'') (\<lambda>head_tree.
     andThen (required_token (rs_result_sha s) ''result_sha'') (\<lambda>result.
     andThen (required_token (rs_result_tree_sha s) ''result_tree_sha'') (\<lambda>result_tree.
     andThen (if rs_kind s = No_op_already_contained
        then ensure (result = parent \<and> result_tree = parent_tree)
          (ValueError ''Already-contained rolling steps must preserve parent identity'')
        else ensure (result \<noteq> parent)
          (ValueError ''Merge-commit rolling steps must advance the candidate SHA'')) (\<lambda>_.
     Inr (s\<lparr>rs_parent_sha := parent, rs_parent_tree_sha := parent_tree, rs_head_sha := head,
            rs_head_tree_sha := head_tree, rs_result_sha := result,
            rs_result_tree_sha := result_tree\<rparr>))))))))"

record stack_root_proof =
  rp_collapse_record_id :: string
  rp_collapse_id :: string
  rp_root_pull_request_number :: nat
  rp_original_root_head_sha :: string
  rp_collapsed_root_head_sha :: string
  rp_collapsed_root_tree_sha :: string

definition validate_stack_root_proof :: "stack_root_proof \<Rightarrow> stack_root_proof res" where
  "validate_stack_root_proof p =
     andThen (required_token (rp_collapse_record_id p) ''collapse_record_id'') (\<lambda>rid.
     andThen (required_token (rp_collapse_id p) ''collapse_id'') (\<lambda>cid.
     andThen (required_token (rp_original_root_head_sha p) ''original_root_head_sha'') (\<lambda>orig.
     andThen (required_token (rp_collapsed_root_head_sha p) ''collapsed_root_head_sha'') (\<lambda>coll.
     Inr (p\<lparr>rp_collapse_record_id := rid, rp_collapse_id := cid, rp_original_root_head_sha := orig,
            rp_collapsed_root_head_sha := coll,
            rp_collapsed_root_tree_sha := py_strip (rp_collapsed_root_tree_sha p)\<rparr>)))))"

subsection \<open>Provenance\<close>

record structural_provenance =
  sp_schema_version :: nat
  sp_repository :: string
  sp_base_branch :: string
  sp_base_sha :: string
  sp_base_tree_sha :: string
  sp_policy_key :: string
  sp_policy_sha256 :: string
  sp_entries :: "entry_binding list"
  sp_steps :: "rolling_step list"
  sp_candidate_sha :: string
  sp_candidate_tree_sha :: string
  sp_stack_collapse_root :: "stack_root_proof option"
  sp_provenance_sha256 :: string
  sp_candidate_sha256 :: string

definition provenance_complete :: "structural_provenance \<Rightarrow> bool" where
  "provenance_complete p \<longleftrightarrow> length (sp_steps p) = length (sp_entries p)"

text \<open>The dumps the digests are taken over.\<close>

definition json_nat :: "nat \<Rightarrow> json" where
  "json_nat n = JInt (int n)"

fun impact_json :: "impact_status \<Rightarrow> json" where
  "impact_json Impact_known = JStr ''known''"
| "impact_json Impact_unknown = JStr ''unknown''"

fun step_kind_json :: "step_kind \<Rightarrow> json" where
  "step_kind_json Merge_commit = JStr ''merge_commit''"
| "step_kind_json No_op_already_contained = JStr ''no_op_already_contained''"

definition subject_json :: "structural_subject \<Rightarrow> json" where
  "subject_json s = JObj [(''product'', JStr (su_product s)), (''system'', JStr (su_system s))]"

definition entry_binding_json :: "entry_binding \<Rightarrow> json" where
  "entry_binding_json b = JObj [
     (''position'', json_nat (eb_position b)),
     (''pull_request_number'', json_nat (eb_pull_request_number b)),
     (''head_sha'', JStr (eb_head_sha b)), (''head_tree_sha'', JStr (eb_head_tree_sha b)),
     (''impact_status'', impact_json (eb_impact_status b)),
     (''affected_subjects'', JArr (map subject_json (eb_affected_subjects b)))]"

definition rolling_step_json :: "rolling_step \<Rightarrow> json" where
  "rolling_step_json s = JObj [
     (''position'', json_nat (rs_position s)),
     (''pull_request_number'', json_nat (rs_pull_request_number s)),
     (''parent_sha'', JStr (rs_parent_sha s)), (''parent_tree_sha'', JStr (rs_parent_tree_sha s)),
     (''head_sha'', JStr (rs_head_sha s)), (''head_tree_sha'', JStr (rs_head_tree_sha s)),
     (''result_sha'', JStr (rs_result_sha s)), (''result_tree_sha'', JStr (rs_result_tree_sha s)),
     (''kind'', step_kind_json (rs_kind s))]"

definition stack_root_json :: "stack_root_proof option \<Rightarrow> json" where
  "stack_root_json r = (case r of None \<Rightarrow> JNull | Some p \<Rightarrow> JObj [
     (''collapse_record_id'', JStr (rp_collapse_record_id p)),
     (''collapse_id'', JStr (rp_collapse_id p)),
     (''root_pull_request_number'', json_nat (rp_root_pull_request_number p)),
     (''original_root_head_sha'', JStr (rp_original_root_head_sha p)),
     (''collapsed_root_head_sha'', JStr (rp_collapsed_root_head_sha p)),
     (''collapsed_root_tree_sha'', JStr (rp_collapsed_root_tree_sha p))])"

definition structural_provenance_sha256 :: "structural_provenance \<Rightarrow> string" where
  "structural_provenance_sha256 p = compact_sorted_json_sha256 (JObj [
     (''schema_version'', json_nat (sp_schema_version p)),
     (''repository'', JStr (sp_repository p)), (''base_branch'', JStr (sp_base_branch p)),
     (''base_sha'', JStr (sp_base_sha p)), (''base_tree_sha'', JStr (sp_base_tree_sha p)),
     (''policy_key'', JStr (sp_policy_key p)), (''policy_sha256'', JStr (sp_policy_sha256 p)),
     (''entries'', JArr (map entry_binding_json (sp_entries p))),
     (''steps'', JArr (map rolling_step_json (sp_steps p))),
     (''candidate_sha'', JStr (sp_candidate_sha p)),
     (''candidate_tree_sha'', JStr (sp_candidate_tree_sha p)),
     (''stack_collapse_root'', stack_root_json (sp_stack_collapse_root p))])"

definition structural_candidate_sha256 :: "structural_provenance \<Rightarrow> string" where
  "structural_candidate_sha256 p = compact_sorted_json_sha256 (JObj [
     (''schema_version'', JInt 1),
     (''repository'', JStr (sp_repository p)), (''base_branch'', JStr (sp_base_branch p)),
     (''base_sha'', JStr (sp_base_sha p)), (''base_tree_sha'', JStr (sp_base_tree_sha p)),
     (''policy_key'', JStr (sp_policy_key p)), (''policy_sha256'', JStr (sp_policy_sha256 p)),
     (''entries'', JArr (map entry_binding_json (sp_entries p))),
     (''candidate_sha'', JStr (sp_candidate_sha p)),
     (''candidate_tree_sha'', JStr (sp_candidate_tree_sha p)),
     (''stack_collapse_root'', stack_root_json (sp_stack_collapse_root p)),
     (''provenance_sha256'', JStr (structural_provenance_sha256 p))])"

text \<open>The walk along the steps: each matches its entry and starts where the one before ended.\<close>

fun walk_rolling_chain ::
  "string \<times> string \<Rightarrow> (entry_binding \<times> rolling_step) list \<Rightarrow> (string \<times> string) res" where
  "walk_rolling_chain previous [] = Inr previous"
| "walk_rolling_chain previous ((e, s) # rest) =
     (if (rs_position s, rs_pull_request_number s, rs_head_sha s, rs_head_tree_sha s)
         \<noteq> (eb_position e, eb_pull_request_number e, eb_head_sha e, eb_head_tree_sha e)
      then Inl (ValueError ''Structural provenance step does not match its entry binding'')
      else if rs_parent_sha s \<noteq> fst previous \<or> rs_parent_tree_sha s \<noteq> snd previous
      then Inl (ValueError ''Structural provenance rolling chain is broken'')
      else walk_rolling_chain (rs_result_sha s, rs_result_tree_sha s) rest)"

definition check_stack_root :: "structural_provenance \<Rightarrow> unit res" where
  "check_stack_root p = (case sp_stack_collapse_root p of None \<Rightarrow> Inr ()
     | Some root \<Rightarrow>
       (case find (\<lambda>e. eb_pull_request_number e = rp_root_pull_request_number root) (sp_entries p) of
          None \<Rightarrow> Inl (ValueError ''Structural provenance stack root does not match an entry'')
        | Some e \<Rightarrow>
          if eb_head_sha e \<noteq> rp_collapsed_root_head_sha root
          then Inl (ValueError ''Structural provenance stack root does not match an entry'')
          else if truthy (rp_collapsed_root_tree_sha root)
                  \<and> eb_head_tree_sha e \<noteq> rp_collapsed_root_tree_sha root
          then Inl (ValueError ''Structural provenance stack root tree does not match entry'')
          else Inr ()))"

definition provenance_tokens :: "structural_provenance \<Rightarrow> structural_provenance res" where
  "provenance_tokens p =
     andThen (normalize_provenance_repository (sp_repository p)) (\<lambda>repo.
     andThen (required_token (sp_base_branch p) ''base_branch'') (\<lambda>branch.
     andThen (required_token (sp_base_sha p) ''base_sha'') (\<lambda>base.
     andThen (required_token (sp_base_tree_sha p) ''base_tree_sha'') (\<lambda>base_tree.
     andThen (required_token (sp_policy_key p) ''policy_key'') (\<lambda>key.
     andThen (required_token (sp_policy_sha256 p) ''policy_sha256'') (\<lambda>psha.
     andThen (required_token (sp_candidate_sha p) ''candidate_sha'') (\<lambda>cand.
     andThen (required_token (sp_candidate_tree_sha p) ''candidate_tree_sha'') (\<lambda>cand_tree.
     Inr (p\<lparr>sp_repository := repo, sp_base_branch := branch, sp_base_sha := base,
            sp_base_tree_sha := base_tree, sp_policy_key := key, sp_policy_sha256 := psha,
            sp_candidate_sha := cand, sp_candidate_tree_sha := cand_tree\<rparr>)))))))))"

definition check_digest :: "string \<Rightarrow> string \<Rightarrow> string \<Rightarrow> unit res" where
  "check_digest given expected message =
     ensure (given = '''' \<or> py_lower (py_strip given) = expected) (ValueError message)"

definition validate_structural_provenance ::
  "structural_provenance \<Rightarrow> structural_provenance res" where
  "validate_structural_provenance p =
     andThen (provenance_tokens p) (\<lambda>p.
     andThen (ensure (sp_entries p \<noteq> [] \<and> sp_steps p \<noteq> [])
       (ValueError ''Structural provenance requires entries and rolling steps'')) (\<lambda>_.
     andThen (ensure (map eb_position (sp_entries p) = [1..<Suc (length (sp_entries p))])
       (ValueError ''Structural provenance entry positions must be contiguous'')) (\<lambda>_.
     andThen (ensure (length (sp_steps p) \<le> length (sp_entries p))
       (ValueError ''Structural provenance cannot contain more steps than entries'')) (\<lambda>_.
     andThen (ensure (map rs_position (sp_steps p) = [1..<Suc (length (sp_steps p))])
       (ValueError ''Structural provenance rolling positions must be contiguous'')) (\<lambda>_.
     andThen (walk_rolling_chain (sp_base_sha p, sp_base_tree_sha p)
                (zip (sp_entries p) (sp_steps p))) (\<lambda>terminal.
     andThen (ensure (terminal = (sp_candidate_sha p, sp_candidate_tree_sha p))
       (ValueError ''Structural provenance terminal identity does not match candidate'')) (\<lambda>_.
     andThen (check_stack_root p) (\<lambda>_.
     let digest = structural_provenance_sha256 p in
     andThen (check_digest (sp_provenance_sha256 p) digest
       ''Structural provenance digest does not match payload'') (\<lambda>_.
     let p = p\<lparr>sp_provenance_sha256 := digest\<rparr>; candidate_digest = structural_candidate_sha256 p in
     andThen (check_digest (sp_candidate_sha256 p) candidate_digest
       ''Structural candidate digest does not match payload'') (\<lambda>_.
     Inr (p\<lparr>sp_candidate_sha256 := candidate_digest\<rparr>)))))))))))"

end
