(* ===== verification/Mt_Evaluation_Input.thy ===== *)
theory Mt_Evaluation_Input
  imports Mt_Provenance
begin

section \<open>Inputs and results of the structural evaluation\<close>

text \<open>
  The second half of \<open>control_plane/contracts/merge_train_structural_provenance.py\<close>: the observed
  queue entries, the fingerprints of reviewed and current deltas, the owner's review of a combined
  candidate, the evaluation input, and the result with its reason codes (as their strings).
\<close>

subsection \<open>Fingerprints\<close>

datatype change_impact_model = Legacy_v1 | V2

record delta_fingerprint =
  df_head_sha :: string
  df_head_tree_sha :: string
  df_changed_paths :: "string list"
  df_affected_subjects :: "structural_subject list"
  df_change_impact_model :: "change_impact_model option"
  df_change_impact_policy_digest :: "string option"
  df_fingerprint_sha256 :: string

fun impact_model_json :: "change_impact_model \<Rightarrow> json" where
  "impact_model_json Legacy_v1 = JStr ''legacy_v1''"
| "impact_model_json V2 = JStr ''v2''"

text \<open>The two optional fields are left out of the dump where they are None.\<close>

definition fingerprint_items :: "delta_fingerprint \<Rightarrow> json_object" where
  "fingerprint_items f = [(''head_sha'', JStr (df_head_sha f)),
     (''head_tree_sha'', JStr (df_head_tree_sha f)),
     (''changed_paths'', JArr (map JStr (df_changed_paths f))),
     (''affected_subjects'', JArr (map subject_json (df_affected_subjects f)))]
   @ (case df_change_impact_model f of None \<Rightarrow> []
      | Some m \<Rightarrow> [(''change_impact_model'', impact_model_json m)])
   @ (case df_change_impact_policy_digest f of None \<Rightarrow> []
      | Some d \<Rightarrow> [(''change_impact_policy_digest'', JStr d)])"

definition delta_fingerprint_sha256 :: "delta_fingerprint \<Rightarrow> string" where
  "delta_fingerprint_sha256 f = compact_sorted_json_sha256 (JObj (fingerprint_items f))"

definition fingerprint_json :: "delta_fingerprint option \<Rightarrow> json" where
  "fingerprint_json f = (case f of None \<Rightarrow> JNull | Some f \<Rightarrow>
     JObj (fingerprint_items f @ [(''fingerprint_sha256'', JStr (df_fingerprint_sha256 f))]))"

definition validate_delta_fingerprint :: "delta_fingerprint \<Rightarrow> delta_fingerprint res" where
  "validate_delta_fingerprint f =
     andThen (required_token (df_head_sha f) ''head_sha'') (\<lambda>head.
     andThen (required_token (df_head_tree_sha f) ''head_tree_sha'') (\<lambda>tree.
     andThen (mapM normalize_changed_path (df_changed_paths f)) (\<lambda>paths.
     let f = f\<lparr>df_head_sha := head, df_head_tree_sha := tree, df_changed_paths := sort (dedup paths),
            df_affected_subjects := normalize_subjects (df_affected_subjects f)\<rparr> in
     andThen (ensure ((df_change_impact_model f = None) = (df_change_impact_policy_digest f = None))
       (ValueError ''Structural change-impact model and policy digest must be attested together'')) (\<lambda>_.
     andThen (case df_change_impact_policy_digest f of None \<Rightarrow> Inr f
       | Some d \<Rightarrow> andThen (required_sha256 d ''change_impact_policy_digest'') (\<lambda>d.
           Inr (f\<lparr>df_change_impact_policy_digest := Some d\<rparr>))) (\<lambda>f.
     let digest = delta_fingerprint_sha256 f in
     andThen (check_digest (df_fingerprint_sha256 f) digest
       ''Structural delta fingerprint digest does not match payload'') (\<lambda>_.
     Inr (f\<lparr>df_fingerprint_sha256 := digest\<rparr>)))))))"

subsection \<open>Observations\<close>

record entry_observation =
  eo_position :: nat
  eo_pull_request_number :: nat
  eo_head_sha :: string
  eo_head_tree_sha :: string
  eo_reviewed_delta :: "delta_fingerprint option"
  eo_current_delta :: "delta_fingerprint option"

definition entry_observation_json :: "entry_observation \<Rightarrow> json" where
  "entry_observation_json o' = JObj [
     (''position'', json_nat (eo_position o')),
     (''pull_request_number'', json_nat (eo_pull_request_number o')),
     (''head_sha'', JStr (eo_head_sha o')), (''head_tree_sha'', JStr (eo_head_tree_sha o')),
     (''reviewed_delta'', fingerprint_json (eo_reviewed_delta o')),
     (''current_delta'', fingerprint_json (eo_current_delta o'))]"

definition validate_entry_observation :: "entry_observation \<Rightarrow> entry_observation res" where
  "validate_entry_observation o' =
     andThen (required_token (eo_head_sha o') ''head_sha'') (\<lambda>head.
     andThen (required_token (eo_head_tree_sha o') ''head_tree_sha'') (\<lambda>tree.
     andThen (ensure (case eo_current_delta o' of None \<Rightarrow> True
         | Some d \<Rightarrow> df_head_sha d = head \<and> df_head_tree_sha d = tree)
       (ValueError ''Current structural delta must bind the observed exact head and tree'')) (\<lambda>_.
     Inr (o'\<lparr>eo_head_sha := head, eo_head_tree_sha := tree\<rparr>))))"

definition validate_observation_positions :: "entry_observation list \<Rightarrow> unit res" where
  "validate_observation_positions entries =
     andThen (ensure (entries \<noteq> [])
       (ValueError ''Structural evaluation requires queue entries'')) (\<lambda>_.
     andThen (ensure (map eo_position entries = [1..<Suc (length entries)])
       (ValueError ''Structural evaluation queue positions must be contiguous'')) (\<lambda>_.
     ensure (distinct (map eo_pull_request_number entries))
       (ValueError ''Structural evaluation queue pull requests must be unique'')))"

subsection \<open>The owner's review of a combined candidate\<close>

record owner_evidence_binding =
  oe_event_id :: string
  oe_binding_sha256 :: string

definition validate_owner_evidence_binding ::
  "owner_evidence_binding \<Rightarrow> owner_evidence_binding res" where
  "validate_owner_evidence_binding b =
     andThen (required_token (oe_event_id b) ''event_id'') (\<lambda>event.
     andThen (required_sha256 (oe_binding_sha256 b) ''binding_sha256'') (\<lambda>sha.
     Inr (b\<lparr>oe_event_id := event, oe_binding_sha256 := sha\<rparr>)))"

record combined_owner_review =
  cr_evidence_bindings :: "owner_evidence_binding list"
  cr_candidate_sha256 :: string
  cr_landing_plan_sha256 :: string
  cr_policy_key :: string
  cr_policy_sha256 :: string
  cr_entries :: "entry_observation list"
  cr_entries_sha256 :: string
  cr_review_sha256 :: string

definition evaluation_entries_sha256 :: "entry_observation list \<Rightarrow> string" where
  "evaluation_entries_sha256 entries = compact_sorted_json_sha256 (JObj [
     (''schema_version'', JInt 1), (''entries'', JArr (map entry_observation_json entries))])"

definition combined_owner_review_sha256 :: "combined_owner_review \<Rightarrow> string" where
  "combined_owner_review_sha256 r = compact_sorted_json_sha256 (JObj [
     (''authoritative'', JBool False), (''authorizes_merge'', JBool False),
     (''evidence_bindings'', JArr (map (\<lambda>b. JObj [(''event_id'', JStr (oe_event_id b)),
        (''binding_sha256'', JStr (oe_binding_sha256 b))]) (cr_evidence_bindings r))),
     (''candidate_sha256'', JStr (cr_candidate_sha256 r)),
     (''landing_plan_sha256'', JStr (cr_landing_plan_sha256 r)),
     (''policy_key'', JStr (cr_policy_key r)), (''policy_sha256'', JStr (cr_policy_sha256 r)),
     (''entries'', JArr (map entry_observation_json (cr_entries r))),
     (''entries_sha256'', JStr (cr_entries_sha256 r))])"

definition validate_combined_owner_review ::
  "combined_owner_review \<Rightarrow> combined_owner_review res" where
  "validate_combined_owner_review r =
     andThen (required_token (cr_candidate_sha256 r) ''candidate_sha256'') (\<lambda>cand.
     andThen (required_token (cr_landing_plan_sha256 r) ''landing_plan_sha256'') (\<lambda>plan.
     andThen (required_token (cr_policy_key r) ''policy_key'') (\<lambda>key.
     andThen (required_token (cr_policy_sha256 r) ''policy_sha256'') (\<lambda>sha.
     let r = r\<lparr>cr_candidate_sha256 := cand, cr_landing_plan_sha256 := plan, cr_policy_key := key,
            cr_policy_sha256 := sha\<rparr> in
     andThen (ensure (cr_evidence_bindings r \<noteq> [])
       (ValueError ''Combined-candidate Owner evidence requires exact L1 event bindings'')) (\<lambda>_.
     andThen (ensure (distinct (map oe_event_id (cr_evidence_bindings r)))
       (ValueError ''Combined-candidate Owner evidence event IDs must be unique'')) (\<lambda>_.
     andThen (validate_observation_positions (cr_entries r)) (\<lambda>_.
     andThen (ensure (\<forall>e \<in> set (cr_entries r). eo_reviewed_delta e \<noteq> None \<and> eo_current_delta e \<noteq> None)
       (ValueError ''Combined-candidate Owner evidence requires complete delta entries'')) (\<lambda>_.
     let entries_digest = evaluation_entries_sha256 (cr_entries r) in
     andThen (check_digest (cr_entries_sha256 r) entries_digest
       ''Combined-candidate Owner entry digest does not match payload'') (\<lambda>_.
     let r = r\<lparr>cr_entries_sha256 := entries_digest\<rparr>; digest = combined_owner_review_sha256 r in
     andThen (check_digest (cr_review_sha256 r) digest
       ''Combined-candidate Owner evidence digest does not match payload'') (\<lambda>_.
     Inr (r\<lparr>cr_review_sha256 := digest\<rparr>)))))))))))"

subsection \<open>The evaluation input and its result\<close>

record structural_evaluation =
  ev_repository :: string
  ev_base_branch :: string
  ev_target_pull_request_number :: nat
  ev_target_queue_position :: nat
  ev_observed_base_sha :: string
  ev_observed_base_tree_sha :: string
  ev_policy_key :: string
  ev_policy_sha256 :: string
  ev_active_candidate_sha256 :: string
  ev_active_landing_plan_sha256 :: string
  ev_entries :: "entry_observation list"
  ev_combined_owner_review :: "combined_owner_review option"

definition validate_structural_evaluation ::
  "structural_evaluation \<Rightarrow> structural_evaluation res" where
  "validate_structural_evaluation e =
     andThen (normalize_provenance_repository (ev_repository e)) (\<lambda>repo.
     andThen (required_token (ev_base_branch e) ''base_branch'') (\<lambda>branch.
     andThen (required_token (ev_observed_base_sha e) ''observed_base_sha'') (\<lambda>base.
     andThen (required_token (ev_observed_base_tree_sha e) ''observed_base_tree_sha'') (\<lambda>tree.
     andThen (required_token (ev_policy_key e) ''policy_key'') (\<lambda>key.
     andThen (required_token (ev_policy_sha256 e) ''policy_sha256'') (\<lambda>sha.
     andThen (required_token (ev_active_candidate_sha256 e) ''active_candidate_sha256'') (\<lambda>cand.
     andThen (required_token (ev_active_landing_plan_sha256 e) ''active_landing_plan_sha256'') (\<lambda>plan.
     andThen (validate_observation_positions (ev_entries e)) (\<lambda>_.
     Inr (e\<lparr>ev_repository := repo, ev_base_branch := branch, ev_observed_base_sha := base,
            ev_observed_base_tree_sha := tree, ev_policy_key := key, ev_policy_sha256 := sha,
            ev_active_candidate_sha256 := cand, ev_active_landing_plan_sha256 := plan\<rparr>))))))))))"

datatype structural_status = St_exact | St_recorded_rolling | St_mismatch | St_unknown

record structural_result =
  sr_status :: structural_status
  sr_reason_codes :: "string list"
  sr_effective_base_sha :: string
  sr_effective_base_tree_sha :: string
  sr_candidate_sha256 :: string
  sr_landing_plan_sha256 :: string
  sr_provenance_sha256 :: string

definition validate_structural_result :: "structural_result \<Rightarrow> structural_result res" where
  "validate_structural_result r =
     andThen (ensure (sr_reason_codes r \<noteq> [])
       (ValueError ''Structural candidate result requires reason codes'')) (\<lambda>_.
     Inr (r\<lparr>sr_reason_codes := sort (dedup (sr_reason_codes r)),
            sr_effective_base_sha := py_strip (sr_effective_base_sha r),
            sr_effective_base_tree_sha := py_strip (sr_effective_base_tree_sha r),
            sr_candidate_sha256 := py_strip (sr_candidate_sha256 r),
            sr_landing_plan_sha256 := py_strip (sr_landing_plan_sha256 r),
            sr_provenance_sha256 := py_strip (sr_provenance_sha256 r)\<rparr>))"

end
