(* ===== verification/Effects.thy ===== *)
theory Effects
  imports Prelude
begin

section \<open>Code with effects\<close>

text \<open>
  Code that calls a provider, a store or a callback. The world \<open>'w\<close> is whatever lies behind the
  calls; an effect that happened stays in the world where the code raises later, so the result is a
  pair of the returned value or error and the world after it. \<open>runs_to\<close> is the weakest
  precondition: what holds of result and world after running in a given world.
\<close>

type_synonym ('w, 'a) eff = "'w \<Rightarrow> 'a res \<times> 'w"

definition give :: "'a \<Rightarrow> ('w, 'a) eff" where
  "give x w = (Inr x, w)"

definition raise :: "py_error \<Rightarrow> ('w, 'a) eff" where
  "raise e w = (Inl e, w)"

definition lift_res :: "'a res \<Rightarrow> ('w, 'a) eff" where
  "lift_res r w = (r, w)"

definition andDo :: "('w, 'a) eff \<Rightarrow> ('a \<Rightarrow> ('w, 'b) eff) \<Rightarrow> ('w, 'b) eff" where
  "andDo m f w = (case m w of (Inl e, w') \<Rightarrow> (Inl e, w') | (Inr x, w') \<Rightarrow> f x w')"

text \<open>\<open>if cond: raise e\<close> before the rest.\<close>

definition requireE :: "bool \<Rightarrow> py_error \<Rightarrow> ('w, unit) eff" where
  "requireE p e = (if p then give () else raise e)"

lemma andDo_cong [fundef_cong]:
  "m = m' \<Longrightarrow> w = w' \<Longrightarrow> (\<And>x v. m' w' = (Inr x, v) \<Longrightarrow> f x v = g x v) \<Longrightarrow> andDo m f w = andDo m' g w'"
  by (auto simp: andDo_def split: prod.splits sum.splits)

subsection \<open>Weakest preconditions\<close>

definition runs_to :: "('w, 'a) eff \<Rightarrow> ('a res \<Rightarrow> 'w \<Rightarrow> bool) \<Rightarrow> 'w \<Rightarrow> bool" where
  "runs_to m Q w = (case m w of (r, w') \<Rightarrow> Q r w')"

named_theorems wp \<open>weakest preconditions of the effectful constructs\<close>

lemma runs_to_give [wp]: "runs_to (give x) Q w \<longleftrightarrow> Q (Inr x) w"
  by (simp add: runs_to_def give_def)

lemma runs_to_raise [wp]: "runs_to (raise e) Q w \<longleftrightarrow> Q (Inl e) w"
  by (simp add: runs_to_def raise_def)

lemma runs_to_lift [wp]: "runs_to (lift_res r) Q w \<longleftrightarrow> Q r w"
  by (simp add: runs_to_def lift_res_def)

lemma runs_to_andDo [wp]:
  "runs_to (andDo m f) Q w \<longleftrightarrow>
     runs_to m (\<lambda>r w'. case r of Inl e \<Rightarrow> Q (Inl e) w' | Inr x \<Rightarrow> runs_to (f x) Q w') w"
  by (auto simp: runs_to_def andDo_def split: prod.splits sum.splits)

lemma runs_to_requireE [wp]:
  "runs_to (requireE p e) Q w \<longleftrightarrow> (if p then Q (Inr ()) w else Q (Inl e) w)"
  by (simp add: requireE_def wp)

lemma runs_to_if [wp]:
  "runs_to (if b then m else m') Q w \<longleftrightarrow> (if b then runs_to m Q w else runs_to m' Q w)"
  by simp

lemma runs_toD: "runs_to m Q w \<Longrightarrow> m w = (r, w') \<Longrightarrow> Q r w'"
  by (simp add: runs_to_def)

lemma runs_toI: "(\<And>r w'. m w = (r, w') \<Longrightarrow> Q r w') \<Longrightarrow> runs_to m Q w"
  by (cases "m w") (simp add: runs_to_def)

lemma runs_to_mono:
  "runs_to m P w \<Longrightarrow> (\<And>r w'. P r w' \<Longrightarrow> Q r w') \<Longrightarrow> runs_to m Q w"
  by (auto simp: runs_to_def split: prod.splits)

lemma andDoI:
  assumes "runs_to m P w" and "\<And>e w'. P (Inl e) w' \<Longrightarrow> Q (Inl e) w'"
    and "\<And>x w'. P (Inr x) w' \<Longrightarrow> runs_to (f x) Q w'"
  shows "runs_to (andDo m f) Q w"
proof -
  have "runs_to m (\<lambda>r w'. case r of Inl e \<Rightarrow> Q (Inl e) w' | Inr x \<Rightarrow> runs_to (f x) Q w') w"
    using assms(2,3) by (intro runs_to_mono [OF assms(1)]) (auto split: sum.split)
  then show ?thesis by (simp add: runs_to_andDo)
qed

subsection \<open>Logged calls\<close>

text \<open>A call whose outcome is put in front of a log beside the world.\<close>

definition logged :: "('a res \<Rightarrow> 'e) \<Rightarrow> ('w, 'a) eff \<Rightarrow> ('w \<times> 'e list, 'a) eff" where
  "logged event m s = (case s of (w, log) \<Rightarrow> case m w of (r, w') \<Rightarrow> (r, (w', event r # log)))"

lemma runs_to_logged [wp]:
  "runs_to (logged event m) Q (w, log) \<longleftrightarrow> runs_to m (\<lambda>r w'. Q r (w', event r # log)) w"
  by (simp add: runs_to_def logged_def split: prod.split)

text \<open>Nothing is known of what a provider answers.\<close>

lemma runs_to_any: "(\<And>r w'. Q r w') \<Longrightarrow> runs_to m Q w"
  by (auto simp: runs_to_def split: prod.split)

lemma logged_anyI: "(\<And>r w'. Q r (w', event r # log)) \<Longrightarrow> runs_to (logged event m) Q (w, log)"
  by (simp add: wp runs_to_any)

end
