(* ===== verification/Mt_Collapse.thy ===== *)
theory Mt_Collapse
  imports Effects Canonical_Json Mt_Controller_State Mt_Stack
begin

section \<open>Stack collapse\<close>

text \<open>
  \<open>control_plane/contracts/merge_train_stack_collapse.py\<close>: a stack of pull requests is collapsed by
  merging each child's head into the branch of its parent, from the leaf to the root; after the root
  has landed the children are closed. The plan is the durable progress of both: every step writes a
  checkpoint, and a run that was cut off continues from the last one.

  The providers (git host, comments) and the store behind \<open>checkpoint\<close> are parameters: operations on
  a world \<open>'w\<close>, any of which may raise.
\<close>

subsection \<open>Records and validators\<close>

datatype collapse_status =
  Col_planned | Col_collapsing | Col_waiting_for_root_checks | Col_ready_for_train
  | Col_blocked | Col_stale

datatype collapse_run_status = Run_planned | Run_mutated | Run_blocked | Run_stale

datatype disposition_status = Dp_planned | Dp_closed | Dp_preserved | Dp_blocked | Dp_stale

datatype collapse_record_status = Cr_active | Cr_superseded

datatype preserved_state = Pres_none | Pres_open | Pres_closed

record collapse_entry =
  ce_pull_request_number :: nat
  ce_position :: nat
  ce_head_sha :: string
  ce_head_ref :: string
  ce_base_sha :: string
  ce_base_ref :: string

definition validate_collapse_entry :: "collapse_entry \<Rightarrow> collapse_entry res" where
  "validate_collapse_entry e =
     andThen (required_text (ce_head_sha e) ''merge train stack collapse entry requires head_sha'') (\<lambda>sha.
     andThen (required_text (ce_head_ref e) ''merge train stack collapse entry requires head_ref'') (\<lambda>ref.
     andThen (required_text (ce_base_ref e) ''merge train stack collapse entry requires base_ref'') (\<lambda>base.
     Inr (e\<lparr>ce_head_sha := sha, ce_head_ref := ref, ce_base_sha := py_strip (ce_base_sha e),
            ce_base_ref := base\<rparr>))))"

record collapse_mutation =
  cm_child :: nat
  cm_parent :: nat
  cm_child_head_sha :: string
  cm_expected_parent_head_sha :: string
  cm_parent_head_ref :: string
  cm_status :: collapse_run_status
  cm_merge_commit_sha :: string
  cm_expected_merge_tree_sha :: string
  cm_detail :: string

definition validate_collapse_mutation :: "collapse_mutation \<Rightarrow> collapse_mutation res" where
  "validate_collapse_mutation m =
     andThen (required_text (cm_child_head_sha m)
       ''merge train stack collapse mutation requires child_head_sha'') (\<lambda>child.
     andThen (required_text (cm_expected_parent_head_sha m)
       ''merge train stack collapse mutation requires expected_parent_head_sha'') (\<lambda>parent.
     andThen (required_text (cm_parent_head_ref m)
       ''merge train stack collapse mutation requires parent_head_ref'') (\<lambda>ref.
     Inr (m\<lparr>cm_child_head_sha := child, cm_expected_parent_head_sha := parent,
            cm_parent_head_ref := ref,
            cm_expected_merge_tree_sha := py_strip (cm_expected_merge_tree_sha m),
            cm_merge_commit_sha := py_strip (cm_merge_commit_sha m),
            cm_detail := py_strip (cm_detail m)\<rparr>))))"

record child_disposition =
  cd_pull_request_number :: nat
  cd_expected_head_sha :: string
  cd_status :: disposition_status
  cd_preserved_head_sha :: string
  cd_preserved_state :: preserved_state
  cd_comment_url :: string
  cd_detail :: string

definition validate_child_disposition :: "child_disposition \<Rightarrow> child_disposition res" where
  "validate_child_disposition d =
     andThen (required_text (cd_expected_head_sha d)
       ''merge train stack child disposition requires expected_head_sha'') (\<lambda>sha.
     let preserved = py_strip (cd_preserved_head_sha d) in
     andThen
       (if cd_status d = Dp_preserved then
          andThen (ensure (truthy preserved \<and> preserved \<noteq> sha)
            (ValueError ''preserved child disposition requires a different observed head'')) (\<lambda>_.
          ensure (cd_preserved_state d \<noteq> Pres_none)
            (ValueError ''preserved child disposition requires the observed PR state''))
        else ensure (\<not> (truthy preserved \<or> cd_preserved_state d \<noteq> Pres_none))
            (ValueError ''only preserved child disposition may record preservation evidence'')) (\<lambda>_.
     Inr (d\<lparr>cd_expected_head_sha := sha, cd_comment_url := py_strip (cd_comment_url d),
            cd_detail := py_strip (cd_detail d), cd_preserved_head_sha := preserved\<rparr>)))"

definition disposition_completed :: "child_disposition \<Rightarrow> bool" where
  "disposition_completed d \<longleftrightarrow> cd_status d = Dp_closed \<or> cd_status d = Dp_preserved"

record collapse_plan =
  cp_collapse_id :: string
  cp_repository :: string
  cp_base_branch :: string
  cp_root_number :: nat
  cp_root_initial_head_sha :: string
  cp_root_head_ref :: string
  cp_policy_key :: string
  cp_policy_sha256 :: string
  cp_status :: collapse_status
  cp_entries :: "collapse_entry list"
  cp_mutations :: "collapse_mutation list"
  cp_child_dispositions :: "child_disposition list"
  cp_created_at :: string
  cp_updated_at :: string

definition normalize_collapse_repository :: "string \<Rightarrow> string res" where
  "normalize_collapse_repository repository =
     andThen (required_text repository ''merge train stack collapse requires repository'') (\<lambda>r.
     if CHR ''/'' \<notin> set r
     then Inl (ValueError ''merge train stack collapse repository must be owner/name'') else Inr r)"

definition normalize_collapse_entries :: "collapse_entry list \<Rightarrow> collapse_entry list res" where
  "normalize_collapse_entries entries =
     andThen (ensure (2 \<le> length entries)
       (ValueError ''merge train stack collapse plan requires at least two entries'')) (\<lambda>_.
     andThen (ensure (map ce_position entries = [1..<Suc (length entries)])
       (ValueError ''merge train stack collapse entry positions must be contiguous'')) (\<lambda>_.
     andThen (ensure (distinct (map ce_pull_request_number entries))
       (ValueError ''merge train stack collapse PR numbers must be unique'')) (\<lambda>_.
     Inr entries)))"

text \<open>Child and parent of each layer, from the leaf to the root.\<close>

definition layer_pairs :: "collapse_entry list \<Rightarrow> (nat \<times> nat) list" where
  "layer_pairs entries = rev (map (\<lambda>(parent, child).
     (ce_pull_request_number child, ce_pull_request_number parent)) (zip entries (tl entries)))"

definition mutation_pairs :: "collapse_mutation list \<Rightarrow> (nat \<times> nat) list" where
  "mutation_pairs ms = map (\<lambda>m. (cm_child m, cm_parent m)) ms"

definition normalize_collapse_mutations ::
  "collapse_entry list \<Rightarrow> collapse_mutation list \<Rightarrow> collapse_mutation list res" where
  "normalize_collapse_mutations entries ms =
     (if length ms \<noteq> length entries - 1
      then Inl (ValueError ''merge train stack collapse mutations must connect each stack layer'')
      else if mutation_pairs ms \<noteq> layer_pairs entries
      then (if mutation_pairs ms = rev (layer_pairs entries) then Inr (rev ms)
            else Inl (ValueError ''merge train stack collapse mutations must connect adjacent stack layers''))
      else Inr ms)"

text \<open>\<open>current_head_shas\<close>: the head each pull request has, as far as the run knows.\<close>

type_synonym head_shas = "(nat \<times> string) list"

definition entry_head_shas :: "collapse_entry list \<Rightarrow> head_shas" where
  "entry_head_shas entries = rev (map (\<lambda>e. (ce_pull_request_number e, ce_head_sha e)) entries)"

definition head_of :: "head_shas \<Rightarrow> nat \<Rightarrow> string res" where
  "head_of heads n = (case map_of heads n of None \<Rightarrow> Inl (KeyError (str_nat n)) | Some sha \<Rightarrow> Inr sha)"

definition progressed_heads :: "head_shas \<Rightarrow> collapse_mutation list \<Rightarrow> head_shas" where
  "progressed_heads heads ms = foldl (\<lambda>h m.
     if cm_status m = Run_mutated \<and> truthy (cm_merge_commit_sha m)
     then (cm_parent m, cm_merge_commit_sha m) # h else h) heads ms"

definition planned_disposition :: "nat \<Rightarrow> string \<Rightarrow> child_disposition res" where
  "planned_disposition n sha = validate_child_disposition \<lparr>cd_pull_request_number = n,
     cd_expected_head_sha = sha, cd_status = Dp_planned, cd_preserved_head_sha = '''',
     cd_preserved_state = Pres_none, cd_comment_url = '''', cd_detail = ''''\<rparr>"

definition normalize_child_dispositions ::
  "collapse_entry list \<Rightarrow> collapse_mutation list \<Rightarrow> child_disposition list \<Rightarrow> child_disposition list res" where
  "normalize_child_dispositions entries ms ds =
     andThen (if ds = [] then
         (let heads = progressed_heads (entry_head_shas entries) ms in
          mapM (\<lambda>e. andThen (head_of heads (ce_pull_request_number e))
                  (planned_disposition (ce_pull_request_number e))) (tl entries))
       else Inr ds) (\<lambda>ds.
     andThen (ensure (map cd_pull_request_number ds = map ce_pull_request_number (tl entries))
       (ValueError ''merge train stack child dispositions must match stack child order'')) (\<lambda>_.
     Inr ds))"

definition validate_collapse_plan :: "collapse_plan \<Rightarrow> collapse_plan res" where
  "validate_collapse_plan p =
     andThen (required_text (cp_collapse_id p) ''merge train stack collapse plan requires collapse_id'') (\<lambda>cid.
     andThen (normalize_collapse_repository (cp_repository p)) (\<lambda>repo.
     andThen (required_text (cp_base_branch p) ''merge train stack collapse plan requires base_branch'') (\<lambda>branch.
     andThen (required_text (cp_root_initial_head_sha p)
       ''merge train stack collapse plan requires root_initial_head_sha'') (\<lambda>sha.
     andThen (required_text (cp_root_head_ref p) ''merge train stack collapse plan requires root_head_ref'') (\<lambda>ref.
     andThen (required_text (cp_policy_key p) ''merge train stack collapse plan requires policy_key'') (\<lambda>key.
     andThen (required_text (cp_policy_sha256 p) ''merge train stack collapse plan requires policy_sha256'') (\<lambda>psha.
     andThen (required_text (cp_created_at p) ''merge train stack collapse plan requires created_at'') (\<lambda>created.
     andThen (required_text (cp_updated_at p) ''merge train stack collapse plan requires updated_at'') (\<lambda>upd.
     andThen (normalize_collapse_entries (cp_entries p)) (\<lambda>entries.
     andThen (normalize_collapse_mutations entries (cp_mutations p)) (\<lambda>ms.
     andThen (normalize_child_dispositions entries ms (cp_child_dispositions p)) (\<lambda>ds.
     Inr (p\<lparr>cp_collapse_id := cid, cp_repository := py_lower repo, cp_base_branch := branch,
            cp_root_initial_head_sha := sha, cp_root_head_ref := ref, cp_policy_key := key,
            cp_policy_sha256 := psha, cp_created_at := created, cp_updated_at := upd,
            cp_entries := entries, cp_mutations := ms, cp_child_dispositions := ds\<rparr>)))))))))))))"

record collapse_record =
  cl_ordinary_job_binding :: "job_binding option"
  cl_schema_version :: nat
  cl_record_id :: string
  cl_status :: collapse_record_status
  cl_source :: string
  cl_updated_at :: string
  cl_plan :: collapse_plan

definition validate_collapse_record :: "collapse_record \<Rightarrow> collapse_record res" where
  "validate_collapse_record r =
     andThen (required_text (cl_record_id r)
       ''merge train stack collapse plan record requires record_id'') (\<lambda>rid.
     andThen (required_text (cl_source r)
       ''merge train stack collapse plan record requires source'') (\<lambda>src.
     andThen (required_text (cl_updated_at r)
       ''merge train stack collapse plan record requires updated_at'') (\<lambda>upd.
     Inr (r\<lparr>cl_record_id := rid, cl_source := src, cl_updated_at := upd\<rparr>))))"


subsection \<open>Executing the plan\<close>

text \<open>The identity of one merge of a child head into the branch of its parent, and its effect.\<close>

record merge_key =
  mk_repository :: string
  mk_collapse_id :: string
  mk_child :: nat
  mk_parent :: nat
  mk_child_head_sha :: string
  mk_expected_parent_head_sha :: string
  mk_parent_head_ref :: string

record stack_child_merge_effect =
  mf_key :: merge_key
  mf_base_branch :: string
  mf_expected_merge_tree_sha :: string

text \<open>
  The parameters of a run. \<open>ec_execute_merge\<close> is the semantic executor, where one is given; without
  it the branch client merges.
\<close>

record 'w collapse_client =
  ec_find_merge :: "merge_key \<Rightarrow> string \<Rightarrow> ('w, string) eff"
  ec_plan_tree :: "merge_key \<Rightarrow> string \<Rightarrow> ('w, string) eff"
  ec_merge :: "stack_child_merge_effect \<Rightarrow> ('w, string) eff"
  ec_execute_merge :: "(stack_child_merge_effect \<Rightarrow> ('w, string) eff) option"
  ec_ready_reasons :: "nat \<Rightarrow> ('w, string list) eff"
  ec_recovered_ready_reasons :: "(nat \<Rightarrow> ('w, string list) eff) option"
  ec_checkpoint :: "collapse_plan \<Rightarrow> ('w, unit) eff"

definition collapse_plan_with_progress ::
  "collapse_plan \<Rightarrow> collapse_mutation list \<Rightarrow> head_shas \<Rightarrow> collapse_status \<Rightarrow> string \<Rightarrow> collapse_plan res" where
  "collapse_plan_with_progress plan ms heads status updated_at =
     andThen (mapM (\<lambda>d. andThen (head_of heads (cd_pull_request_number d))
                (\<lambda>sha. Inr (d\<lparr>cd_expected_head_sha := sha\<rparr>))) (cp_child_dispositions plan)) (\<lambda>ds.
     Inr (plan\<lparr>cp_status := status, cp_mutations := ms, cp_child_dispositions := ds,
            cp_updated_at := updated_at\<rparr>))"

definition merge_key_of :: "collapse_plan \<Rightarrow> collapse_mutation \<Rightarrow> string \<Rightarrow> string \<Rightarrow> merge_key" where
  "merge_key_of plan m child_sha parent_sha = \<lparr>mk_repository = cp_repository plan,
     mk_collapse_id = cp_collapse_id plan, mk_child = cm_child m, mk_parent = cm_parent m,
     mk_child_head_sha = child_sha, mk_expected_parent_head_sha = parent_sha,
     mk_parent_head_ref = cm_parent_head_ref m\<rparr>"

definition require_child_ready ::
  "(nat \<Rightarrow> ('w, string list) eff) \<Rightarrow> nat \<Rightarrow> ('w, unit) eff" where
  "require_child_ready check n =
     andDo (check n) (\<lambda>reasons. requireE (reasons = []) (ChildNotReady reasons))"

text \<open>Writing the intended tree into the plan before the merge, where it is not there yet.\<close>

definition intend_merge ::
  "'w collapse_client \<Rightarrow> collapse_plan \<Rightarrow> collapse_mutation list \<Rightarrow> collapse_mutation
     \<Rightarrow> collapse_mutation list \<Rightarrow> head_shas \<Rightarrow> string \<Rightarrow> string \<Rightarrow> string \<Rightarrow> ('w, collapse_mutation) eff" where
  "intend_merge client plan done m rest heads child_sha parent_sha updated_at =
     (if truthy (cm_expected_merge_tree_sha m) then give m
      else andDo (ec_plan_tree client (merge_key_of plan m child_sha parent_sha) (cp_base_branch plan))
        (\<lambda>tree. andDo (lift_res (required_text tree ''planned stack merge requires expected tree''))
        (\<lambda>tree. let m = m\<lparr>cm_child_head_sha := child_sha, cm_expected_parent_head_sha := parent_sha,
                       cm_expected_merge_tree_sha := tree\<rparr>
         in andDo (lift_res (collapse_plan_with_progress plan (done @ m # rest) heads Col_collapsing updated_at))
        (\<lambda>p. andDo (ec_checkpoint client p)
        (\<lambda>_. andDo (require_child_ready (ec_ready_reasons client) (cm_child m))
        (\<lambda>_. give m))))))"

definition perform_merge :: "'w collapse_client \<Rightarrow> stack_child_merge_effect \<Rightarrow> ('w, string) eff" where
  "perform_merge client effect = (case ec_execute_merge client of
      None \<Rightarrow> ec_merge client effect | Some execute \<Rightarrow> execute effect)"

text \<open>One mutation that is not done yet: the returned one is.\<close>

definition execute_mutation ::
  "'w collapse_client \<Rightarrow> collapse_plan \<Rightarrow> collapse_mutation list \<Rightarrow> collapse_mutation
     \<Rightarrow> collapse_mutation list \<Rightarrow> head_shas \<Rightarrow> string \<Rightarrow> ('w, collapse_mutation) eff" where
  "execute_mutation client plan done m rest heads updated_at =
     andDo (lift_res (head_of heads (cm_child m))) (\<lambda>child_sha.
     andDo (lift_res (head_of heads (cm_parent m))) (\<lambda>parent_sha.
     andDo (lift_res (collapse_plan_with_progress plan (done @ m # rest) heads Col_collapsing updated_at)) (\<lambda>p.
     andDo (ec_checkpoint client p) (\<lambda>_.
     andDo (requireE (cm_parent_head_ref m \<noteq> cp_base_branch plan)
       (ValueError ''stack collapse cannot mutate the protected base branch'')) (\<lambda>_.
     andDo (requireE (\<not> (truthy (cm_expected_merge_tree_sha m)
                \<and> (cm_child_head_sha m \<noteq> child_sha \<or> cm_expected_parent_head_sha m \<noteq> parent_sha)))
       (ValueError ''saved stack merge inputs no longer match collapse progress'')) (\<lambda>_.
     andDo (ec_find_merge client (merge_key_of plan m child_sha parent_sha)
              (cm_expected_merge_tree_sha m)) (\<lambda>found.
     andDo (require_child_ready
              (case ec_recovered_ready_reasons client of
                 None \<Rightarrow> ec_ready_reasons client
               | Some recovered \<Rightarrow> if truthy found then recovered else ec_ready_reasons client)
              (cm_child m)) (\<lambda>_.
     andDo (if truthy found then give (m, found)
        else andDo (intend_merge client plan done m rest heads child_sha parent_sha updated_at) (\<lambda>m.
             andDo (perform_merge client \<lparr>mf_key = merge_key_of plan m child_sha parent_sha,
                       mf_base_branch = cp_base_branch plan,
                       mf_expected_merge_tree_sha = cm_expected_merge_tree_sha m\<rparr>)
               (\<lambda>sha. give (m, sha)))) (\<lambda>(m, sha).
     give (m\<lparr>cm_child_head_sha := child_sha, cm_expected_parent_head_sha := parent_sha,
             cm_status := Run_mutated, cm_merge_commit_sha := sha,
             cm_detail := ''child head merged into parent feature branch''\<rparr>))))))))))"

fun execute_mutations ::
  "'w collapse_client \<Rightarrow> collapse_plan \<Rightarrow> collapse_mutation list \<Rightarrow> collapse_mutation list
     \<Rightarrow> head_shas \<Rightarrow> string \<Rightarrow> ('w, collapse_mutation list \<times> head_shas) eff" where
  "execute_mutations client plan done [] heads updated_at = give (done, heads)"
| "execute_mutations client plan done (m # rest) heads updated_at =
     (if cm_status m = Run_mutated then
        andDo (lift_res (required_text (cm_merge_commit_sha m)
                 ''mutated stack collapse entry requires merge_commit_sha'')) (\<lambda>sha.
        execute_mutations client plan (done @ [m]) rest ((cm_parent m, sha) # heads) updated_at)
      else
        andDo (execute_mutation client plan done m rest heads updated_at) (\<lambda>m.
        let done = done @ [m]; heads = (cm_parent m, cm_merge_commit_sha m) # heads in
        andDo (lift_res (collapse_plan_with_progress plan (done @ rest) heads Col_collapsing updated_at)) (\<lambda>p.
        andDo (ec_checkpoint client p) (\<lambda>_.
        execute_mutations client plan done rest heads updated_at))))"

definition execute_stack_collapse_plan ::
  "'w collapse_client \<Rightarrow> collapse_plan \<Rightarrow> string \<Rightarrow> ('w, collapse_plan) eff" where
  "execute_stack_collapse_plan client plan updated_at =
     andDo (requireE (cp_status plan = Col_planned \<or> cp_status plan = Col_collapsing)
       (ValueError ''merge train stack collapse plan is not executable'')) (\<lambda>_.
     andDo (execute_mutations client plan [] (cp_mutations plan) (entry_head_shas (cp_entries plan))
              updated_at) (\<lambda>(ms, heads).
     lift_res (collapse_plan_with_progress plan ms heads Col_waiting_for_root_checks updated_at)))"


subsection \<open>Closing the children after the root has landed\<close>

record 'w disposition_client =
  dc_find_comment :: "string \<Rightarrow> nat \<Rightarrow> string \<Rightarrow> ('w, string) eff"
  dc_has_label :: "string \<Rightarrow> nat \<Rightarrow> string \<Rightarrow> ('w, bool) eff"
  dc_is_closed :: "string \<Rightarrow> nat \<Rightarrow> string \<Rightarrow> ('w, bool) eff"
  dc_comment :: "string \<Rightarrow> nat \<Rightarrow> string \<Rightarrow> ('w, string) eff"
  dc_add_label :: "string \<Rightarrow> nat \<Rightarrow> string \<Rightarrow> ('w, unit) eff"
  dc_close :: "string \<Rightarrow> nat \<Rightarrow> string \<Rightarrow> ('w, unit) eff"

text \<open>
  The three effects as the semantic executor takes them, each with its lineage: repository, base
  branch and collapse id of the plan.
\<close>

datatype child_effect =
    CommentEffect "string \<times> string \<times> string" nat string
  | LabelEffect "string \<times> string \<times> string" nat string
  | CloseEffect "string \<times> string \<times> string" nat string

text \<open>The executor answers a comment with its URL; the other answers are not used.\<close>

type_synonym 'w child_executor = "child_effect \<Rightarrow> ('w, string) eff"

definition effect_lineage :: "collapse_plan \<Rightarrow> string \<times> string \<times> string" where
  "effect_lineage plan = (cp_repository plan, cp_base_branch plan, cp_collapse_id plan)"

definition child_comment_body :: "nat \<Rightarrow> string \<Rightarrow> string" where
  "child_comment_body root sha =
     ''Launchplane landed this stacked PR through root PR #'' @ str_nat root @ ''.''
     @ [CHR 10, CHR 10] @ ''The root PR was merged by the merge train at '' @ [CHR 0x60] @ sha
     @ [CHR 0x60] @ ''. Closing this child PR keeps the stack state aligned with the landed root.''"

definition unitE :: "('w, 'a) eff \<Rightarrow> ('w, unit) eff" where
  "unitE m = andDo m (\<lambda>_. give ())"

definition close_stack_child ::
  "'w disposition_client \<Rightarrow> 'w child_executor option \<Rightarrow> collapse_plan \<Rightarrow> string \<Rightarrow> string
     \<Rightarrow> child_disposition \<Rightarrow> ('w, child_disposition) eff" where
  "close_stack_child client executor plan root_sha label d =
     (let repo = cp_repository plan; n = cd_pull_request_number d;
          body = child_comment_body (cp_root_number plan) root_sha in
      andDo (dc_is_closed client repo n (cd_expected_head_sha d)) (\<lambda>closed.
      andDo (dc_find_comment client repo n body) (\<lambda>url.
      andDo (if truthy url then give url
             else (case executor of None \<Rightarrow> dc_comment client repo n body
                   | Some ex \<Rightarrow> ex (CommentEffect (effect_lineage plan) n body))) (\<lambda>url.
      andDo (dc_has_label client repo n label) (\<lambda>labelled.
      andDo (if labelled then give ()
             else (case executor of None \<Rightarrow> dc_add_label client repo n label
                   | Some ex \<Rightarrow> unitE (ex (LabelEffect (effect_lineage plan) n label)))) (\<lambda>_.
      andDo (if closed then give ()
             else (case executor of None \<Rightarrow> dc_close client repo n (cd_expected_head_sha d)
                   | Some ex \<Rightarrow> unitE (ex (CloseEffect (effect_lineage plan) n (cd_expected_head_sha d)))))
        (\<lambda>_.
      give (d\<lparr>cd_status := Dp_closed, cd_comment_url := url,
              cd_detail := ''child PR closed after root landed''\<rparr>))))))))"

definition checkpointE :: "(collapse_plan \<Rightarrow> ('w, unit) eff) option \<Rightarrow> collapse_plan \<Rightarrow> ('w, unit) eff" where
  "checkpointE checkpoint p = (case checkpoint of None \<Rightarrow> give () | Some c \<Rightarrow> c p)"

fun close_stack_children ::
  "'w disposition_client \<Rightarrow> 'w child_executor option \<Rightarrow> (collapse_plan \<Rightarrow> ('w, unit) eff) option
     \<Rightarrow> collapse_plan \<Rightarrow> string \<Rightarrow> string \<Rightarrow> string \<Rightarrow> child_disposition list \<Rightarrow> child_disposition list
     \<Rightarrow> ('w, child_disposition list) eff" where
  "close_stack_children client executor checkpoint plan root_sha label updated_at done [] = give done"
| "close_stack_children client executor checkpoint plan root_sha label updated_at done (d # rest) =
     (if disposition_completed d
      then close_stack_children client executor checkpoint plan root_sha label updated_at (done @ [d]) rest
      else
        andDo (close_stack_child client executor plan root_sha label d) (\<lambda>d.
        let done = done @ [d] in
        andDo (checkpointE checkpoint (plan\<lparr>cp_status := Col_waiting_for_root_checks,
                 cp_child_dispositions := done @ rest, cp_updated_at := updated_at\<rparr>)) (\<lambda>_.
        close_stack_children client executor checkpoint plan root_sha label updated_at done rest)))"

definition reconcile_stack_children ::
  "'w disposition_client \<Rightarrow> 'w child_executor option \<Rightarrow> (collapse_plan \<Rightarrow> ('w, unit) eff) option
     \<Rightarrow> collapse_plan \<Rightarrow> string \<Rightarrow> string \<Rightarrow> string \<Rightarrow> ('w, collapse_plan) eff" where
  "reconcile_stack_children client executor checkpoint plan root_merge_commit_sha label updated_at =
     andDo (requireE (cp_status plan = Col_waiting_for_root_checks)
       (ValueError ''merge train stack collapse plan is not ready for child disposition'')) (\<lambda>_.
     andDo (lift_res (required_text root_merge_commit_sha
       ''merge train stack child disposition requires root_merge_commit_sha'')) (\<lambda>root_sha.
     andDo (lift_res (required_text label ''merge train stack child disposition requires label'')) (\<lambda>label.
     andDo (if \<exists>d \<in> set (cp_child_dispositions plan). cd_status d = Dp_preserved
            then checkpointE checkpoint plan else give ()) (\<lambda>_.
     andDo (close_stack_children client executor checkpoint plan root_sha label updated_at []
              (cp_child_dispositions plan)) (\<lambda>ds.
     give (plan\<lparr>cp_status := Col_ready_for_train, cp_child_dispositions := ds,
             cp_updated_at := updated_at\<rparr>))))))"

subsection \<open>Building plans and records\<close>

definition build_stack_collapse_id ::
  "string \<Rightarrow> string \<Rightarrow> nat \<Rightarrow> string list \<Rightarrow> string res" where
  "build_stack_collapse_id repository base_branch root shas =
     andThen (normalize_collapse_repository repository) (\<lambda>repo.
     andThen (required_text base_branch ''merge train stack collapse id requires base_branch'') (\<lambda>branch.
     andThen (mapM (\<lambda>sha. required_text sha ''merge train stack collapse id requires head sha'') shas) (\<lambda>shas.
     let digest = take 16 (compact_sorted_json_sha256 (JObj [
           (''entry_head_shas'', JArr (map JStr shas)), (''root_pull_request_number'', JInt (int root))]))
     in Inr (''merge-train-stack-collapse-'' @ replace_char (CHR ''/'') ''-'' repo @ ''-''
          @ replace_char (CHR ''/'') ''-'' branch @ ''-'' @ digest))))"

definition planned_mutation :: "collapse_entry \<times> collapse_entry \<Rightarrow> collapse_mutation res" where
  "planned_mutation pair = (case pair of (parent, child) \<Rightarrow> validate_collapse_mutation
     \<lparr>cm_child = ce_pull_request_number child, cm_parent = ce_pull_request_number parent,
      cm_child_head_sha = ce_head_sha child, cm_expected_parent_head_sha = ce_head_sha parent,
      cm_parent_head_ref = ce_head_ref parent, cm_status = Run_planned, cm_merge_commit_sha = '''',
      cm_expected_merge_tree_sha = '''', cm_detail = ''''\<rparr>)"

definition collapse_entry_of :: "nat \<times> stack_entry \<Rightarrow> collapse_entry res" where
  "collapse_entry_of pe = (case pe of (position, e) \<Rightarrow> validate_collapse_entry
     \<lparr>ce_pull_request_number = se_number e, ce_position = position, ce_head_sha = se_head_sha e,
      ce_head_ref = se_head_ref e, ce_base_sha = se_base_sha e, ce_base_ref = se_base_ref e\<rparr>)"

definition build_stack_collapse_plan ::
  "stack_discovery \<Rightarrow> string \<Rightarrow> string \<Rightarrow> string \<Rightarrow> collapse_plan res" where
  "build_stack_collapse_plan discovery pkey policy_sha256 created_at =
     andThen (ensure (sd_status discovery = Ready_for_collapse)
       (ValueError ''merge train stack collapse plan requires a discovered stack'')) (\<lambda>_.
     andThen (mapM collapse_entry_of (zip [1..<Suc (length (sd_entries discovery))] (sd_entries discovery)))
       (\<lambda>entries.
     andThen (ensure (entries \<noteq> [])
       (ValueError ''merge train stack collapse plan requires entries'')) (\<lambda>_.
     andThen (mapM planned_mutation (rev (zip entries (tl entries)))) (\<lambda>ms.
     andThen (mapM (\<lambda>e. planned_disposition (ce_pull_request_number e) (ce_head_sha e)) (tl entries)) (\<lambda>ds.
     andThen (build_stack_collapse_id (sd_repository discovery) (sd_base_branch discovery)
                (sd_root_number discovery) (map ce_head_sha entries)) (\<lambda>cid.
     validate_collapse_plan \<lparr>cp_collapse_id = cid, cp_repository = sd_repository discovery,
       cp_base_branch = sd_base_branch discovery, cp_root_number = sd_root_number discovery,
       cp_root_initial_head_sha = ce_head_sha (hd entries), cp_root_head_ref = ce_head_ref (hd entries),
       cp_policy_key = pkey, cp_policy_sha256 = policy_sha256, cp_status = Col_planned,
       cp_entries = entries, cp_mutations = ms, cp_child_dispositions = ds,
       cp_created_at = created_at, cp_updated_at = created_at\<rparr>))))))"


text \<open>
  \<open>_canonical_utc_timestamp\<close>: a timestamp that does not read as one is kept as it is. (Of the
  formats \<open>fromisoformat\<close> reads, the model has the one the records carry.)
\<close>

definition compact_utc_timestamp :: "nat \<Rightarrow> string" where
  "compact_utc_timestamp t = filter (\<lambda>c. c \<noteq> CHR ''-'' \<and> c \<noteq> CHR '':'') (utc_timestamp t)"

definition canonical_utc_timestamp :: "string \<Rightarrow> string \<Rightarrow> string res" where
  "canonical_utc_timestamp timestamp message =
     andThen (required_text timestamp message) (\<lambda>t.
     Inr (case parse_timestamp t of None \<Rightarrow> t | Some instant \<Rightarrow> compact_utc_timestamp instant))"

fun collapse_status_json :: "collapse_status \<Rightarrow> json" where
  "collapse_status_json Col_planned = JStr ''planned''"
| "collapse_status_json Col_collapsing = JStr ''collapsing''"
| "collapse_status_json Col_waiting_for_root_checks = JStr ''waiting_for_root_checks''"
| "collapse_status_json Col_ready_for_train = JStr ''ready_for_train''"
| "collapse_status_json Col_blocked = JStr ''blocked''"
| "collapse_status_json Col_stale = JStr ''stale''"

fun collapse_run_status_json :: "collapse_run_status \<Rightarrow> json" where
  "collapse_run_status_json Run_planned = JStr ''planned''"
| "collapse_run_status_json Run_mutated = JStr ''mutated''"
| "collapse_run_status_json Run_blocked = JStr ''blocked''"
| "collapse_run_status_json Run_stale = JStr ''stale''"

fun disposition_status_json :: "disposition_status \<Rightarrow> json" where
  "disposition_status_json Dp_planned = JStr ''planned''"
| "disposition_status_json Dp_closed = JStr ''closed''"
| "disposition_status_json Dp_preserved = JStr ''preserved''"
| "disposition_status_json Dp_blocked = JStr ''blocked''"
| "disposition_status_json Dp_stale = JStr ''stale''"

definition collapse_entry_json :: "collapse_entry \<Rightarrow> json" where
  "collapse_entry_json e = JObj [
     (''pull_request_number'', JInt (int (ce_pull_request_number e))),
     (''position'', JInt (int (ce_position e))), (''head_sha'', JStr (ce_head_sha e)),
     (''head_ref'', JStr (ce_head_ref e)), (''base_sha'', JStr (ce_base_sha e)),
     (''base_ref'', JStr (ce_base_ref e))]"

text \<open>Fields declared \<open>exclude_if\<close> are left out of the dump where they are empty.\<close>

definition present :: "string \<Rightarrow> string \<Rightarrow> json_object" where
  "present key v = (if v = '''' then [] else [(key, JStr v)])"

definition collapse_mutation_json :: "collapse_mutation \<Rightarrow> json" where
  "collapse_mutation_json m = JObj ([
     (''child_pull_request_number'', JInt (int (cm_child m))),
     (''parent_pull_request_number'', JInt (int (cm_parent m))),
     (''child_head_sha'', JStr (cm_child_head_sha m)),
     (''expected_parent_head_sha'', JStr (cm_expected_parent_head_sha m)),
     (''parent_head_ref'', JStr (cm_parent_head_ref m)),
     (''status'', collapse_run_status_json (cm_status m)),
     (''merge_commit_sha'', JStr (cm_merge_commit_sha m))]
   @ present ''expected_merge_tree_sha'' (cm_expected_merge_tree_sha m)
   @ [(''detail'', JStr (cm_detail m))])"

definition child_disposition_json :: "child_disposition \<Rightarrow> json" where
  "child_disposition_json d = JObj ([
     (''pull_request_number'', JInt (int (cd_pull_request_number d))),
     (''expected_head_sha'', JStr (cd_expected_head_sha d)),
     (''status'', disposition_status_json (cd_status d))]
   @ present ''preserved_head_sha'' (cd_preserved_head_sha d)
   @ present ''preserved_state'' (case cd_preserved_state d of Pres_none \<Rightarrow> ''''
       | Pres_open \<Rightarrow> ''open'' | Pres_closed \<Rightarrow> ''closed'')
   @ [(''comment_url'', JStr (cd_comment_url d)), (''detail'', JStr (cd_detail d))])"

definition collapse_plan_json :: "collapse_plan \<Rightarrow> json" where
  "collapse_plan_json p = JObj [
     (''collapse_id'', JStr (cp_collapse_id p)), (''repository'', JStr (cp_repository p)),
     (''base_branch'', JStr (cp_base_branch p)),
     (''root_pull_request_number'', JInt (int (cp_root_number p))),
     (''root_initial_head_sha'', JStr (cp_root_initial_head_sha p)),
     (''root_head_ref'', JStr (cp_root_head_ref p)), (''policy_key'', JStr (cp_policy_key p)),
     (''policy_sha256'', JStr (cp_policy_sha256 p)), (''intent_source'', JStr ''root_ready_to_merge''),
     (''status'', collapse_status_json (cp_status p)),
     (''entries'', JArr (map collapse_entry_json (cp_entries p))),
     (''mutations'', JArr (map collapse_mutation_json (cp_mutations p))),
     (''child_dispositions'', JArr (map child_disposition_json (cp_child_dispositions p))),
     (''created_at'', JStr (cp_created_at p)), (''updated_at'', JStr (cp_updated_at p))]"

definition job_binding_json :: "job_binding \<Rightarrow> json" where
  "job_binding_json b = JObj [(''request_id'', JStr (jb_request_id b)),
     (''scope_sha256'', JStr (jb_scope_sha256 b)),
     (''binding_revision'', JInt (int (jb_binding_revision b)))]"

definition job_binding_item :: "job_binding option \<Rightarrow> json_object" where
  "job_binding_item b = (case b of None \<Rightarrow> [] | Some b \<Rightarrow> [(''ordinary_job_binding'', job_binding_json b)])"

definition collapse_record_payload :: "collapse_record \<Rightarrow> string \<Rightarrow> json" where
  "collapse_record_payload r updated_at = JObj (job_binding_item (cl_ordinary_job_binding r)
   @ [(''schema_version'', JInt (int (cl_schema_version r))),
      (''status'', JStr (case cl_status r of Cr_active \<Rightarrow> ''active'' | Cr_superseded \<Rightarrow> ''superseded'')),
      (''source'', JStr (cl_source r)), (''updated_at'', JStr updated_at),
      (''plan'', collapse_plan_json (cl_plan r))])"

definition build_collapse_record_id :: "collapse_record \<Rightarrow> string res" where
  "build_collapse_record_id r =
     andThen (canonical_utc_timestamp (cl_updated_at r)
       ''merge train stack collapse timestamp is required'') (\<lambda>updated_at.
     Inr (''merge-train-stack-collapse-plan-''
        @ filter (\<lambda>c. c \<noteq> CHR ''-'' \<and> c \<noteq> CHR '':'') updated_at @ ''-''
        @ take 16 (compact_sorted_json_sha256 (collapse_record_payload r updated_at))))"

definition build_collapse_record ::
  "collapse_plan \<Rightarrow> string \<Rightarrow> string \<Rightarrow> job_binding option \<Rightarrow> collapse_record res" where
  "build_collapse_record plan source updated_at binding =
     andThen (validate_collapse_record \<lparr>cl_ordinary_job_binding = binding, cl_schema_version = 1,
       cl_record_id = ''pending'', cl_status = Cr_active, cl_source = source,
       cl_updated_at = updated_at, cl_plan = plan\<rparr>) (\<lambda>r.
     andThen (build_collapse_record_id r) (\<lambda>rid. Inr (r\<lparr>cl_record_id := rid\<rparr>)))"

end
