(* ===== verification/Mt_Collapse_Safety.thy ===== *)
theory Mt_Collapse_Safety
  imports Mt_Collapse
begin

section \<open>Safety of the stack collapse\<close>

text \<open>
  What a run of the collapse does to the providers, whatever they answer and wherever it is cut off:
  the client is wrapped so that every call is logged with its outcome, newest first, and the
  properties are about the logs of any sequence of runs.
\<close>

subsection \<open>Logged runs\<close>

datatype collapse_event =
    Saved collapse_plan "unit res"
  | Looked merge_key string "string res"
  | Checked nat "string list res"
  | TreePlanned merge_key "string res"
  | Merging stack_child_merge_effect "string res"

definition logged_client ::
  "'w collapse_client \<Rightarrow> ('w \<times> collapse_event list) collapse_client" where
  "logged_client c = \<lparr>
     ec_find_merge = (\<lambda>k tree. logged (Looked k tree) (ec_find_merge c k tree)),
     ec_plan_tree = (\<lambda>k base. logged (TreePlanned k) (ec_plan_tree c k base)),
     ec_merge = (\<lambda>e. logged (Merging e) (ec_merge c e)),
     ec_execute_merge = map_option (\<lambda>f e. logged (Merging e) (f e)) (ec_execute_merge c),
     ec_ready_reasons = (\<lambda>n. logged (Checked n) (ec_ready_reasons c n)),
     ec_recovered_ready_reasons =
       map_option (\<lambda>f n. logged (Checked n) (f n)) (ec_recovered_ready_reasons c),
     ec_checkpoint = (\<lambda>p. logged (Saved p) (ec_checkpoint c p))\<rparr>"

lemma logged_client_sel [simp]:
  "ec_find_merge (logged_client c) k tree = logged (Looked k tree) (ec_find_merge c k tree)"
  "ec_plan_tree (logged_client c) k base = logged (TreePlanned k) (ec_plan_tree c k base)"
  "ec_ready_reasons (logged_client c) n = logged (Checked n) (ec_ready_reasons c n)"
  "ec_checkpoint (logged_client c) p = logged (Saved p) (ec_checkpoint c p)"
  by (simp_all add: logged_client_def)

subsection \<open>What allows a merge\<close>

text \<open>The last lookup of the key found no merge, and no merge was tried since.\<close>

fun found_absent :: "merge_key \<Rightarrow> collapse_event list \<Rightarrow> bool" where
  "found_absent k (Looked k' tree r # log) = (if k' = k then r = Inr '''' else found_absent k log)"
| "found_absent k (Merging e r # log) = False"
| "found_absent k (e # log) = found_absent k log"
| "found_absent k [] = False"

text \<open>The plan saved last holds the merge: its heads, its branch and its expected tree.\<close>

definition plan_intends :: "stack_child_merge_effect \<Rightarrow> collapse_plan \<Rightarrow> bool" where
  "plan_intends e p \<longleftrightarrow> (\<exists>m \<in> set (cp_mutations p).
     cm_status m \<noteq> Run_mutated
     \<and> merge_key_of p m (cm_child_head_sha m) (cm_expected_parent_head_sha m) = mf_key e
     \<and> cm_expected_merge_tree_sha m = mf_expected_merge_tree_sha e)"

fun intent_saved :: "stack_child_merge_effect \<Rightarrow> collapse_event list \<Rightarrow> bool" where
  "intent_saved e (Saved p r # log) = (r = Inr () \<and> plan_intends e p)"
| "intent_saved e (ev # log) = intent_saved e log"
| "intent_saved e [] = False"

definition merge_allowed :: "stack_child_merge_effect \<Rightarrow> collapse_event list \<Rightarrow> bool" where
  "merge_allowed e log \<longleftrightarrow>
     mk_parent_head_ref (mf_key e) \<noteq> mf_base_branch e \<and> mf_expected_merge_tree_sha e \<noteq> ''''
     \<and> (\<exists>rest. log = Checked (mk_child (mf_key e)) (Inr []) # rest)
     \<and> found_absent (mf_key e) log \<and> intent_saved e log"

fun safe_log :: "collapse_event list \<Rightarrow> bool" where
  "safe_log (Merging e r # log) = (merge_allowed e log \<and> safe_log log)"
| "safe_log (ev # log) = safe_log log"
| "safe_log [] = True"

text \<open>Runs that follow each other: a crash, a new controller, any plan, any time.\<close>

definition collapse_runs ::
  "'w collapse_client \<Rightarrow> (collapse_plan \<times> string) list \<Rightarrow> 'w \<times> collapse_event list \<Rightarrow> 'w \<times> collapse_event list" where
  "collapse_runs c runs s =
     foldl (\<lambda>s (plan, at). snd (execute_stack_collapse_plan (logged_client c) plan at s)) s runs"

lemma plan_with_progressD:
  assumes "collapse_plan_with_progress plan ms heads st at = Inr p"
  shows "cp_mutations p = ms" "cp_repository p = cp_repository plan"
    "cp_collapse_id p = cp_collapse_id plan" "cp_status p = st" "cp_entries p = cp_entries plan"
    "cp_base_branch p = cp_base_branch plan" 
  using assms by (auto simp: collapse_plan_with_progress_def)

lemma intends_own_merge:
  assumes "collapse_plan_with_progress plan (done @ m # rest) heads st at = Inr p"
    and "cm_status m \<noteq> Run_mutated" and "cm_child_head_sha m = child" "cm_expected_parent_head_sha m = parent"
  shows "plan_intends \<lparr>mf_key = merge_key_of plan m child parent, mf_base_branch = base,
           mf_expected_merge_tree_sha = cm_expected_merge_tree_sha m\<rparr> p"
  using assms(2-) plan_with_progressD [OF assms(1)]
  by (auto simp: plan_intends_def merge_key_of_def)

lemma merge_key_updated [simp]:
  "merge_key_of plan (m\<lparr>cm_child_head_sha := a, cm_expected_parent_head_sha := b,
     cm_expected_merge_tree_sha := t\<rparr>) x y = merge_key_of plan m x y"
  "mk_child (merge_key_of plan m x y) = cm_child m"
  "mk_parent_head_ref (merge_key_of plan m x y) = cm_parent_head_ref m"
  by (simp_all add: merge_key_of_def)

lemma execute_mutation_safe:
  assumes "safe_log log" and "cm_status m \<noteq> Run_mutated"
  shows "runs_to (execute_mutation (logged_client c) plan done m rest heads at)
           (\<lambda>r (w', log'). safe_log log') (w, log)"
proof -
  have A: "plan_intends \<lparr>mf_key = merge_key_of plan m child parent, mf_base_branch = base,
           mf_expected_merge_tree_sha = t\<rparr> p"
    if "collapse_plan_with_progress plan
         (done @ m\<lparr>cm_child_head_sha := child, cm_expected_parent_head_sha := parent,
            cm_expected_merge_tree_sha := t\<rparr> # rest) heads st at = Inr p" for child parent base p st t
    using intends_own_merge [OF that _ refl refl] assms(2) by simp
  have B: "plan_intends \<lparr>mf_key = merge_key_of plan m (cm_child_head_sha m) (cm_expected_parent_head_sha m),
           mf_base_branch = base, mf_expected_merge_tree_sha = cm_expected_merge_tree_sha m\<rparr> p"
    if "collapse_plan_with_progress plan (done @ m # rest) heads st at = Inr p" for base p st
    using intends_own_merge [OF that assms(2) refl refl] .
  show ?thesis
  by (cases "ec_recovered_ready_reasons c"; cases "ec_execute_merge c")
     (auto simp: execute_mutation_def intend_merge_def require_child_ready_def perform_merge_def
     logged_client_def wp assms merge_allowed_def Let_def split: sum.split intro!: runs_to_any intro: A B)
qed

lemma execute_mutations_safe:
  "safe_log log \<Longrightarrow>
     runs_to (execute_mutations (logged_client c) plan prev ms heads at) (\<lambda>r (w', log'). safe_log log') (w, log)"
proof (induction ms arbitrary: w log prev heads)
  case Nil
  then show ?case by (simp add: wp)
next
  case (Cons m rest)
  show ?case
  proof (cases "cm_status m = Run_mutated")
    case True
    with Cons show ?thesis by (simp add: wp split: sum.split)
  next
    case False
    note mono = runs_to_mono [OF execute_mutation_safe [OF Cons.prems False]]
    note saved = runs_to_any [where m = "ec_checkpoint c p" for p]
    from False show ?thesis
      by (simp add: wp) (rule mono, auto simp: wp Let_def split: sum.split intro!: saved Cons.IH)
  qed
qed

lemma collapse_run_safe:
  assumes "safe_log log"
  shows "runs_to (execute_stack_collapse_plan (logged_client c) plan at) (\<lambda>r (w', log'). safe_log log') (w, log)"
proof -
  note mono = runs_to_mono [OF execute_mutations_safe [OF assms]]
  show ?thesis
    by (auto simp: execute_stack_collapse_plan_def wp assms split: sum.split intro!: mono)
qed

lemma collapse_runs_safe: "safe_log (snd s) \<Longrightarrow> safe_log (snd (collapse_runs c runs s))"
proof (induction runs arbitrary: s)
  case (Cons run runs)
  then show ?case
    using collapse_run_safe [of "snd s" c "fst run" "snd run" "fst s"]
    by (cases s; cases run)
       (auto simp: collapse_runs_def runs_to_def split: prod.splits)
qed (simp add: collapse_runs_def)

subsection \<open>One merge per key\<close>

text \<open>
  \<open>took i\<close>: the attempt at position \<open>i\<close> (oldest first) took effect at the provider, whether or not
  its answer arrived. Lookups are truthful if they never miss a merge that took effect.
\<close>

fun truthful_from :: "(nat \<Rightarrow> bool) \<Rightarrow> merge_key list \<Rightarrow> nat \<Rightarrow> collapse_event list \<Rightarrow> bool" where
  "truthful_from took merged n [] = True"
| "truthful_from took merged n (Merging e r # evs) =
     truthful_from took (if took n then mf_key e # merged else merged) (Suc n) evs"
| "truthful_from took merged n (Looked k tree r # evs) =
     (\<not> (r = Inr '''' \<and> k \<in> set merged) \<and> truthful_from took merged (Suc n) evs)"
| "truthful_from took merged n (ev # evs) = truthful_from took merged (Suc n) evs"

abbreviation truthful_lookups :: "(nat \<Rightarrow> bool) \<Rightarrow> collapse_event list \<Rightarrow> bool" where
  "truthful_lookups took events \<equiv> truthful_from took [] 0 events"

lemma truthful_knows:
  "truthful_from took merged n evs \<Longrightarrow> k \<in> set merged \<Longrightarrow> j < length evs \<Longrightarrow> evs ! j \<noteq> Looked k tree (Inr '''')"
proof (induction took merged n evs arbitrary: j rule: truthful_from.induct)
  case (2 took merged n e r evs)
  then show ?case by (cases j) auto
qed (auto simp: nth_Cons split: nat.splits)

lemma truthful_lookupsD:
  assumes "truthful_from took merged n evs" "i < j" "j < length evs"
    "evs ! i = Merging e r" "evs ! j = Looked (mf_key e) tree (Inr '''')"
  shows "\<not> took (n + i)"
  using assms
proof (induction took merged n evs arbitrary: i j rule: truthful_from.induct)
  case (2 took merged n e' r' evs)
  show ?case
  proof (cases i)
    case 0
    with "2.prems" truthful_knows [of took "mf_key e # merged" "Suc n" evs "mf_key e" "j - 1" tree]
    show ?thesis by (cases j) auto
  next
    case (Suc i')
    with "2.prems" "2.IH" [of i' "j - 1"] show ?thesis by (cases j) auto
  qed
qed (auto simp: nth_Cons split: nat.splits)

definition merging_of :: "merge_key \<Rightarrow> collapse_event \<Rightarrow> bool" where
  "merging_of k ev = (case ev of Merging e r \<Rightarrow> mf_key e = k | _ \<Rightarrow> False)"

lemma found_absentD:
  assumes "found_absent k log"
  shows "\<exists>i < length log. (\<exists>tree. log ! i = Looked k tree (Inr '''')) \<and> (\<forall>j < i. \<not> merging_of k (log ! j))"
  using assms
proof (induction k log rule: found_absent.induct)
  case (1 k k' tree r log)
  show ?case
  proof (cases "k' = k")
    case True
    with 1 show ?thesis by (intro exI [of _ 0]) simp
  next
    case False
    with 1 obtain i where "i < length log" "\<exists>tree. log ! i = Looked k tree (Inr '''')"
      "\<forall>j < i. \<not> merging_of k (log ! j)" by auto
    then show ?thesis
      by (intro exI [of _ "Suc i"]) (auto simp: merging_of_def less_Suc_eq_0_disj)
  qed
qed (force simp: merging_of_def less_Suc_eq_0_disj intro: exI [of _ "Suc _"])+


lemma safe_log_allowed:
  "safe_log (newer @ Merging e r # older) \<Longrightarrow> merge_allowed e older"
  by (induction newer rule: safe_log.induct) auto

lemma merge_attempt_is_first:
  assumes "safe_log log" and "truthful_lookups took (rev log)"
    and "j < length log" and "i < j" and "rev log ! i = Merging e r" and "rev log ! j = Merging e' r'"
    and "mf_key e = mf_key e'"
  shows "\<not> took i"
proof -
  define events where "events = rev log"
  have j: "j < length events" "events ! j = Merging e' r'" using assms by (simp_all add: events_def)
  have "events = take j events @ Merging e' r' # drop (Suc j) events"
    using id_take_nth_drop [OF j(1)] j(2) by simp
  then have "log = rev (drop (Suc j) events) @ Merging e' r' # rev (take j events)"
    by (metis append.assoc append_Cons append_Nil events_def rev.simps(2) rev_append rev_rev_ident)
  with assms(1) have "found_absent (mf_key e') (rev (take j events))"
    using safe_log_allowed by (metis merge_allowed_def)
  then obtain a where "a < length (rev (take j events))"
    "\<exists>tree. rev (take j events) ! a = Looked (mf_key e') tree (Inr '''')"
    "\<forall>b < a. \<not> merging_of (mf_key e') (rev (take j events) ! b)"
    using found_absentD by blast
  with j(1) obtain tree where a: "a < j" "events ! (j - Suc a) = Looked (mf_key e') tree (Inr '''')"
    and none: "\<forall>b < a. \<not> merging_of (mf_key e') (events ! (j - Suc b))"
    by (auto simp: rev_nth min_def)
  have "i < j - Suc a"
  proof (rule ccontr)
    assume "\<not> i < j - Suc a"
    moreover have "i \<noteq> j - Suc a" using a(2) assms(5) by (auto simp: events_def)
    ultimately have "j - Suc i < a" "j - Suc (j - Suc i) = i" using assms(4) a(1) by auto
    with none have "\<not> merging_of (mf_key e') (events ! i)" by metis
    with assms(5,7) show False by (simp add: events_def merging_of_def)
  qed
  moreover have "j - Suc a < length events" using j(1) by simp
  ultimately show ?thesis
    using truthful_lookupsD [OF assms(2), of i "j - Suc a" e r tree] assms(5,7) a(2) by (simp add: events_def)
qed

subsection \<open>The saved plan is a chain\<close>

text \<open>
  Plans as the validator leaves them, whose mutations are done in order: each done one merged the
  head its child had by then into the head its parent had by then.
\<close>

fun chain_progress :: "head_shas \<Rightarrow> collapse_mutation list \<Rightarrow> bool" where
  "chain_progress heads [] = True"
| "chain_progress heads (m # ms) =
     (if cm_status m = Run_mutated
      then head_of heads (cm_child m) = Inr (cm_child_head_sha m)
         \<and> head_of heads (cm_parent m) = Inr (cm_expected_parent_head_sha m)
         \<and> cm_merge_commit_sha m = py_strip (cm_merge_commit_sha m) \<and> cm_merge_commit_sha m \<noteq> ''''
         \<and> chain_progress ((cm_parent m, cm_merge_commit_sha m) # heads) ms
      else \<forall>m \<in> set ms. cm_status m \<noteq> Run_mutated)"

definition collapse_chain :: "collapse_plan \<Rightarrow> bool" where
  "collapse_chain p \<longleftrightarrow> mutation_pairs (cp_mutations p) = layer_pairs (cp_entries p)
     \<and> distinct (map ce_pull_request_number (cp_entries p))
     \<and> map cd_pull_request_number (cp_child_dispositions p)
         = map ce_pull_request_number (tl (cp_entries p))
     \<and> chain_progress (entry_head_shas (cp_entries p)) (cp_mutations p)"


text \<open>The providers answer a merge with a commit's SHA, without white space around it.\<close>

definition sha_token :: "string res \<Rightarrow> bool" where
  "sha_token r = (case r of Inl _ \<Rightarrow> True | Inr s \<Rightarrow> s \<noteq> '''' \<and> py_strip s = s)"

definition answers_shas :: "'w collapse_client \<Rightarrow> bool" where
  "answers_shas c \<longleftrightarrow>
     (\<forall>e w. sha_token (fst (perform_merge c e w)))
     \<and> (\<forall>k t w. sha_token (fst (ec_find_merge c k t w)) \<or> fst (ec_find_merge c k t w) = Inr '''')"

definition saved_chains :: "collapse_event list \<Rightarrow> bool" where
  "saved_chains log \<longleftrightarrow> (\<forall>ev \<in> set log. case ev of Saved p r \<Rightarrow> collapse_chain p | _ \<Rightarrow> True)"

lemma saved_chains_simps [simp]:
  "saved_chains []"
  "saved_chains (Saved p r # log) \<longleftrightarrow> collapse_chain p \<and> saved_chains log"
  "saved_chains (Looked k t f # log) = saved_chains log"
  "saved_chains (Checked n rs # log) = saved_chains log"
  "saved_chains (TreePlanned k r' # log) = saved_chains log"
  "saved_chains (Merging e r' # log) = saved_chains log"
  by (auto simp: saved_chains_def)

text \<open>The shape a run keeps, and the chain of its mutations.\<close>

definition chain_of :: "collapse_plan \<Rightarrow> collapse_mutation list \<Rightarrow> bool" where
  "chain_of plan ms \<longleftrightarrow> mutation_pairs ms = layer_pairs (cp_entries plan)
     \<and> distinct (map ce_pull_request_number (cp_entries plan))
     \<and> map cd_pull_request_number (cp_child_dispositions plan)
         = map ce_pull_request_number (tl (cp_entries plan))
     \<and> chain_progress (entry_head_shas (cp_entries plan)) ms"

lemma with_progress_chain:
  assumes "collapse_plan_with_progress plan ms heads st at = Inr p"
  shows "collapse_chain p \<longleftrightarrow> chain_of plan ms"
proof -
  from assms obtain ds where ds: "mapM (\<lambda>d. andThen (head_of heads (cd_pull_request_number d))
      (\<lambda>sha. Inr (d\<lparr>cd_expected_head_sha := sha\<rparr>))) (cp_child_dispositions plan) = Inr ds"
    and p: "cp_child_dispositions p = ds" by (auto simp: collapse_plan_with_progress_def)
  have "map cd_pull_request_number ds = map cd_pull_request_number (cp_child_dispositions plan)"
    using mapM_map [OF ds, of cd_pull_request_number cd_pull_request_number] by force
  then show ?thesis using plan_with_progressD [OF assms] p
    by (simp add: collapse_chain_def chain_of_def)
qed

definition heads_after :: "head_shas \<Rightarrow> collapse_mutation list \<Rightarrow> head_shas" where
  "heads_after heads ms = foldl (\<lambda>h m. (cm_parent m, cm_merge_commit_sha m) # h) heads ms"

lemma heads_after_simps [simp]:
  "heads_after heads [] = heads"
  "heads_after heads (ms @ [m]) = (cm_parent m, cm_merge_commit_sha m) # heads_after heads ms"
  by (simp_all add: heads_after_def)

lemma heads_after_Cons: "heads_after heads (m # ms) = heads_after ((cm_parent m, cm_merge_commit_sha m) # heads) ms"
  by (simp add: heads_after_def)

lemma chain_progress_append:
  "\<forall>m \<in> set prev. cm_status m = Run_mutated \<Longrightarrow>
     chain_progress heads (prev @ ms) \<longleftrightarrow> chain_progress heads prev \<and> chain_progress (heads_after heads prev) ms"
  by (induction prev arbitrary: heads) (auto simp: heads_after_Cons)

lemma chain_of_intended:
  assumes "chain_of plan (prev @ m # rest)" "cm_status m \<noteq> Run_mutated" "cm_status m' \<noteq> Run_mutated"
    and "cm_child m' = cm_child m" "cm_parent m' = cm_parent m" "\<forall>m \<in> set prev. cm_status m = Run_mutated"
  shows "chain_of plan (prev @ m' # rest)"
  using assms by (auto simp: chain_of_def mutation_pairs_def chain_progress_append)

lemma chain_of_mutated:
  assumes "chain_of plan (prev @ m # rest)" "cm_status m \<noteq> Run_mutated" "cm_status m' = Run_mutated"
    and "cm_child m' = cm_child m" "cm_parent m' = cm_parent m" "\<forall>m \<in> set prev. cm_status m = Run_mutated"
    and "heads = heads_after (entry_head_shas (cp_entries plan)) prev"
    and "head_of heads (cm_child m) = Inr (cm_child_head_sha m')"
    and "head_of heads (cm_parent m) = Inr (cm_expected_parent_head_sha m')"
    and "sha_token (Inr (cm_merge_commit_sha m'))"
  shows "chain_of plan (prev @ m' # rest)"
proof -
  have "chain_progress h rest" if "\<forall>m \<in> set rest. cm_status m \<noteq> Run_mutated" for h
    using that by (cases rest) auto
  with assms show ?thesis
    by (auto simp: chain_of_def mutation_pairs_def chain_progress_append sha_token_def)
qed


text \<open>The steps of one mutation, each keeping the saved plans chains.\<close>

abbreviation keeps :: "('a res \<Rightarrow> bool) \<Rightarrow> 'a res \<Rightarrow> 'w \<times> collapse_event list \<Rightarrow> bool" where
  "keeps P r s \<equiv> saved_chains (snd s) \<and> P r"

lemma keeps_find:
  assumes "answers_shas c" "saved_chains (snd s)"
  shows "runs_to (ec_find_merge (logged_client c) k t) (keeps (\<lambda>r. sha_token r \<or> r = Inr '''')) s"
  using assms by (cases s) (auto simp: runs_to_def logged_def answers_shas_def split: prod.split, metis fst_conv)

lemma keeps_merge:
  assumes "answers_shas c" "saved_chains (snd s)"
  shows "runs_to (perform_merge (logged_client c) e) (keeps sha_token) s"
proof -
  obtain w log where s: "s = (w, log)" by (cases s)
  have "perform_merge (logged_client c) e = logged (Merging e) (perform_merge c e)"
    by (auto simp: perform_merge_def logged_client_def split: option.split)
  with assms s show ?thesis
    by (auto simp: runs_to_def logged_def answers_shas_def split: prod.split) (metis fst_conv)
qed

lemma keeps_ready:
  assumes "saved_chains (snd s)"
  shows "runs_to (require_child_ready (case ec_recovered_ready_reasons (logged_client c) of
            None \<Rightarrow> ec_ready_reasons (logged_client c)
          | Some f \<Rightarrow> if b then f else ec_ready_reasons (logged_client c)) n) (keeps (\<lambda>_. True)) s"
    "runs_to (require_child_ready (ec_ready_reasons (logged_client c)) n) (keeps (\<lambda>_. True)) s"
  using assms by (cases s; auto simp: require_child_ready_def logged_client_def wp
      split: option.split sum.split intro!: runs_to_any)+

lemma keeps_checkpoint:
  assumes "saved_chains (snd s)" "collapse_chain p"
  shows "runs_to (ec_checkpoint (logged_client c) p) (keeps (\<lambda>_. True)) s"
  using assms by (cases s) (auto simp: wp intro!: runs_to_any)

lemma keeps_res: "saved_chains (snd s) \<Longrightarrow> runs_to (lift_res r) (keeps (\<lambda>r'. r' = r)) s"
  by (simp add: wp)

lemma keeps_require: "saved_chains (snd s) \<Longrightarrow> runs_to (requireE p e) (keeps (\<lambda>_. True)) s"
  by (simp add: wp)

lemma keeps_intend:
  assumes "saved_chains (snd s)" "chain_of plan (prev @ m # rest)" "cm_status m \<noteq> Run_mutated"
    "\<forall>m \<in> set prev. cm_status m = Run_mutated"
  shows "runs_to (intend_merge (logged_client c) plan prev m rest heads child parent at)
     (keeps (\<lambda>r. \<forall>m'. r = Inr m' \<longrightarrow> cm_child m' = cm_child m \<and> cm_parent m' = cm_parent m)) s"
proof -
  let ?m = "\<lambda>t. m\<lparr>cm_child_head_sha := child, cm_expected_parent_head_sha := parent,
            cm_expected_merge_tree_sha := t\<rparr>"
  have A: "collapse_chain p"
    if "collapse_plan_with_progress plan (prev @ ?m t # rest) hs st at = Inr p" for p hs st t
    using with_progress_chain [OF that] chain_of_intended [OF assms(2,3) _ _ _ assms(4)] assms(3) by simp
  obtain w log where s: "s = (w, log)" by (cases s)
  note ready = runs_to_mono [OF keeps_ready(2)]
  show ?thesis
    using assms(1,3) unfolding s
    by (auto simp: intend_merge_def wp Let_def split: sum.split
        intro!: runs_to_any [where m = "ec_plan_tree c k b" for k b]
          runs_to_any [where m = "ec_checkpoint c p" for p] ready intro: A)
qed

lemma execute_mutation_chain:
  assumes c: "answers_shas c" and log: "saved_chains (snd s)"
    and plan: "chain_of plan (prev @ m # rest)" "cm_status m \<noteq> Run_mutated"
      "\<forall>m \<in> set prev. cm_status m = Run_mutated"
      "heads = heads_after (entry_head_shas (cp_entries plan)) prev"
  shows "runs_to (execute_mutation (logged_client c) plan prev m rest heads at)
           (keeps (\<lambda>r. \<forall>m'. r = Inr m' \<longrightarrow> cm_status m' = Run_mutated \<and> chain_of plan (prev @ m' # rest))) s"
proof -
  let ?final = "keeps (\<lambda>r. \<forall>m'. r = Inr m' \<longrightarrow> cm_status m' = Run_mutated \<and> chain_of plan (prev @ m' # rest))"
  have saved: "collapse_chain p"
    if "Inr p = collapse_plan_with_progress plan (prev @ m # rest) heads Col_collapsing at" for p
    using with_progress_chain [OF that [symmetric]] plan(1) by simp
  have finish: "chain_of plan (prev @ m'\<lparr>cm_child_head_sha := a, cm_expected_parent_head_sha := b,
        cm_status := Run_mutated, cm_merge_commit_sha := sha, cm_detail := d\<rparr> # rest)"
    if "Inr a = head_of heads (cm_child m)" "Inr b = head_of heads (cm_parent m)" "sha_token (Inr sha)"
      "cm_child m' = cm_child m" "cm_parent m' = cm_parent m" for a b m' sha d
    using that by (intro chain_of_mutated [OF plan(1,2) _ _ _ plan(3,4)]) simp_all
  have merge: "runs_to (if truthy found then give (m, found)
      else andDo (intend_merge (logged_client c) plan prev m rest heads a b at) (\<lambda>m.
           andDo (perform_merge (logged_client c) (effect m)) (\<lambda>sha. give (m, sha))))
      (keeps (\<lambda>r. \<forall>m' sha. r = Inr (m', sha) \<longrightarrow>
         cm_child m' = cm_child m \<and> cm_parent m' = cm_parent m \<and> sha_token (Inr sha))) s"
    if "saved_chains (snd s)" "sha_token (Inr found) \<or> found = ''''" for found a b s effect
  proof (cases "found = ''''")
    case True
    then show ?thesis
      apply simp
      apply (rule andDoI [OF keeps_intend [OF that(1) plan(1-3)]], simp)
      apply (rule andDoI [OF keeps_merge [OF c]], simp, simp)
      by (simp add: wp)
  qed (use that in \<open>simp add: wp\<close>)
  have fin: "runs_to (case x of (m', sha) \<Rightarrow> give (m'\<lparr>cm_child_head_sha := a,
        cm_expected_parent_head_sha := b, cm_status := Run_mutated, cm_merge_commit_sha := sha,
        cm_detail := d\<rparr>)) ?final s"
    if "saved_chains (snd s)" "\<forall>m' sha. Inr x = (Inr (m', sha) :: _ res) \<longrightarrow>
         cm_child m' = cm_child m \<and> cm_parent m' = cm_parent m \<and> sha_token (Inr sha)"
      "Inr a = head_of heads (cm_child m)" "Inr b = head_of heads (cm_parent m)" for x a b d s
    using that by (cases x) (simp add: wp finish)
  show ?thesis
    unfolding execute_mutation_def
    apply (rule andDoI [OF keeps_res [OF log]], simp)
    apply (rule andDoI [OF keeps_res], simp, simp)
    apply (rule andDoI [OF keeps_res], simp, simp)
    apply (rule andDoI [OF keeps_checkpoint], simp, simp add: saved, simp)
    apply (rule andDoI [OF keeps_require], simp, simp)
    apply (rule andDoI [OF keeps_require], simp, simp)
    apply (rule andDoI [OF keeps_find [OF c]], simp, simp)
    apply (rule andDoI [OF keeps_ready(1)], simp, simp)
    apply (rule andDoI [OF merge], simp, simp, simp)
    apply (rule fin; blast)
    done
qed


lemma chain_progress_heads:
  assumes "chain_progress heads prev" "\<forall>m \<in> set prev. cm_status m = Run_mutated" "m \<in> set prev"
  shows "cm_merge_commit_sha m \<noteq> ''''" "py_strip (cm_merge_commit_sha m) = cm_merge_commit_sha m"
  using assms by (induction prev arbitrary: heads) auto

lemma execute_mutations_chain:
  assumes "answers_shas c" "saved_chains (snd s)" "chain_of plan (prev @ ms)"
    "\<forall>m \<in> set prev. cm_status m = Run_mutated"
  shows "runs_to (execute_mutations (logged_client c) plan prev ms
             (heads_after (entry_head_shas (cp_entries plan)) prev) at)
       (keeps (\<lambda>r. \<forall>ms' heads'. r = Inr (ms', heads') \<longrightarrow>
          chain_of plan ms' \<and> (\<forall>m \<in> set ms'. cm_status m = Run_mutated))) s"
  using assms(2-)
proof (induction ms arbitrary: prev s)
  case Nil
  then show ?case by (simp add: wp)
next
  case (Cons m rest)
  let ?heads = "heads_after (entry_head_shas (cp_entries plan))"
  show ?case
  proof (cases "cm_status m = Run_mutated")
    case True
    from Cons.prems True have "chain_progress (?heads prev) (m # rest)"
      by (simp add: chain_of_def chain_progress_append del: chain_progress.simps)
    with True have "required_text (cm_merge_commit_sha m) msg = Inr (cm_merge_commit_sha m)" for msg
      by simp
    with True Cons.IH [of s "prev @ [m]"] Cons.prems show ?thesis
      by (simp add: wp del: required_text_Inr)
  next
    case False
    note step = execute_mutation_chain [OF assms(1) Cons.prems(1,2) False Cons.prems(3) refl]
    have "runs_to (andDo (lift_res (collapse_plan_with_progress plan (prev @ m' # rest)
             ((cm_parent m', cm_merge_commit_sha m') # ?heads prev) Col_collapsing at))
           (\<lambda>p. andDo (ec_checkpoint (logged_client c) p) (\<lambda>_.
             execute_mutations (logged_client c) plan (prev @ [m']) rest
               ((cm_parent m', cm_merge_commit_sha m') # ?heads prev) at)))
        (keeps (\<lambda>r. \<forall>ms' heads'. r = Inr (ms', heads') \<longrightarrow>
          chain_of plan ms' \<and> (\<forall>m \<in> set ms'. cm_status m = Run_mutated))) s'"
      if "saved_chains (snd s')" "cm_status m' = Run_mutated" "chain_of plan (prev @ m' # rest)" for m' s'
    proof (rule andDoI [OF keeps_res [OF that(1)]], simp, rule andDoI [OF keeps_checkpoint])
      show "runs_to (execute_mutations (logged_client c) plan (prev @ [m']) rest
               ((cm_parent m', cm_merge_commit_sha m') # ?heads prev) at)
        (keeps (\<lambda>r. \<forall>ms' heads'. r = Inr (ms', heads') \<longrightarrow>
          chain_of plan ms' \<and> (\<forall>m \<in> set ms'. cm_status m = Run_mutated))) s''"
        if "keeps (\<lambda>_. True) (Inr x) s''" for x s'' 
        using Cons.IH [of s'' "prev @ [m']"] that \<open>chain_of plan (prev @ m' # rest)\<close>
          \<open>cm_status m' = Run_mutated\<close> Cons.prems(3) by auto
    qed (use that(3) with_progress_chain in force)+
    with False show ?thesis
      by (auto simp: Let_def intro!: andDoI [OF step])
  qed
qed


lemma collapse_run_chain:
  assumes "answers_shas c" "saved_chains (snd s)" "collapse_chain plan"
  shows "runs_to (execute_stack_collapse_plan (logged_client c) plan at)
       (keeps (\<lambda>r. \<forall>p. r = Inr p \<longrightarrow> collapse_chain p \<and> cp_status p = Col_waiting_for_root_checks
          \<and> cp_entries p = cp_entries plan
          \<and> (\<forall>m \<in> set (cp_mutations p). cm_status m = Run_mutated))) s"
proof -
  have chain: "chain_of plan ([] @ cp_mutations plan)"
    using assms(3) by (simp add: chain_of_def collapse_chain_def)
  have step: "runs_to (execute_mutations (logged_client c) plan [] (cp_mutations plan)
             (entry_head_shas (cp_entries plan)) at)
       (keeps (\<lambda>r. \<forall>ms' heads'. r = Inr (ms', heads') \<longrightarrow>
          chain_of plan ms' \<and> (\<forall>m \<in> set ms'. cm_status m = Run_mutated))) s'"
    if "saved_chains (snd s')" for s'
    using execute_mutations_chain [OF assms(1) that chain] by simp
  have final: "collapse_chain p \<and> cp_status p = st \<and> cp_entries p = cp_entries plan
      \<and> (\<forall>m \<in> set (cp_mutations p). cm_status m = Run_mutated)"
    if "collapse_plan_with_progress plan ms heads st at = Inr p" "chain_of plan ms"
      "\<forall>m \<in> set ms. cm_status m = Run_mutated" for ms heads p st
    using with_progress_chain [OF that(1)] plan_with_progressD [OF that(1)] that(2,3) by simp
  show ?thesis
    unfolding execute_stack_collapse_plan_def
    apply (rule andDoI [OF keeps_require [OF assms(2)]], simp)
    apply (rule andDoI [OF step], simp, simp)
    apply (clarsimp simp: wp final)
    done
qed

text \<open>The chain of a plan whose mutations are all done, written out.\<close>

lemma layer_pairs_nth:
  "i < length entries - 1 \<Longrightarrow> layer_pairs entries ! i =
     (ce_pull_request_number (entries ! (length entries - 1 - i)),
      ce_pull_request_number (entries ! (length entries - 2 - i)))"
  by (simp add: layer_pairs_def rev_nth nth_tl Suc_diff_Suc numeral_2_eq_2)

lemma length_layer_pairs [simp]: "length (layer_pairs entries) = length entries - 1"
  by (simp add: layer_pairs_def)


lemma chain_progress_nth:
  assumes "chain_progress heads ms" "\<forall>m \<in> set ms. cm_status m = Run_mutated" "i < length ms"
  shows "head_of (heads_after heads (take i ms)) (cm_child (ms ! i)) = Inr (cm_child_head_sha (ms ! i))
    \<and> head_of (heads_after heads (take i ms)) (cm_parent (ms ! i)) = Inr (cm_expected_parent_head_sha (ms ! i))"
  using assms
proof (induction ms arbitrary: heads i)
  case (Cons m ms)
  then show ?case by (cases i) (auto simp: heads_after_Cons)
qed simp

lemma heads_after_eq: "heads_after heads ms = rev (map (\<lambda>m. (cm_parent m, cm_merge_commit_sha m)) ms) @ heads"
  by (induction ms arbitrary: heads) (auto simp: heads_after_Cons)

lemma entry_head_nth:
  assumes "distinct (map ce_pull_request_number entries)" "i < length entries"
  shows "head_of (entry_head_shas entries) (ce_pull_request_number (entries ! i)) = Inr (ce_head_sha (entries ! i))"
proof -
  have "map_of (map (\<lambda>e. (ce_pull_request_number e, ce_head_sha e)) (rev entries))
      (ce_pull_request_number (entries ! i)) = Some (ce_head_sha (entries ! i))"
    using assms by (intro map_of_is_SomeI) (auto simp: rev_map [symmetric] comp_def)
  then show ?thesis by (simp add: head_of_def entry_head_shas_def rev_map)
qed

text \<open>What a finished collapse did: leaf to root, each head merged into its parent's head.\<close>

definition collapsed_in_order :: "collapse_plan \<Rightarrow> bool" where
  "collapsed_in_order p \<longleftrightarrow> (let ms = cp_mutations p; es = cp_entries p; n = length es in
     length ms = n - 1
     \<and> list_all (\<lambda>i. cm_status (ms ! i) = Run_mutated
         \<and> cm_child (ms ! i) = ce_pull_request_number (es ! (n - 1 - i))
         \<and> cm_parent (ms ! i) = ce_pull_request_number (es ! (n - 2 - i))
         \<and> cm_expected_parent_head_sha (ms ! i) = ce_head_sha (es ! (n - 2 - i))
         \<and> cm_child_head_sha (ms ! i) = (case i of 0 \<Rightarrow> ce_head_sha (es ! (n - 1))
              | Suc j \<Rightarrow> cm_merge_commit_sha (ms ! j))) [0..<n - 1])"

lemma collapse_chain_in_order:
  assumes chain: "collapse_chain p" and all_done: "\<forall>m \<in> set (cp_mutations p). cm_status m = Run_mutated"
  shows "collapsed_in_order p"
proof -
  define ms where "ms = cp_mutations p"
  define es where "es = cp_entries p"
  define n where "n = length es"
  have pairs: "mutation_pairs ms = layer_pairs es" and dist: "distinct (map ce_pull_request_number es)"
    and prog: "chain_progress (entry_head_shas es) ms"
    using chain by (simp_all add: collapse_chain_def ms_def es_def)
  have len: "length ms = n - 1" using arg_cong [OF pairs, of length] by (simp add: mutation_pairs_def n_def)
  have nums: "cm_child (ms ! i) = ce_pull_request_number (es ! (n - 1 - i))"
    "cm_parent (ms ! i) = ce_pull_request_number (es ! (n - 2 - i))" if "i < n - 1" for i
    using arg_cong [OF pairs, of "\<lambda>xs. xs ! i"] that len layer_pairs_nth [of i es]
    by (simp_all add: mutation_pairs_def n_def)
  note prog_nth = chain_progress_nth [OF prog all_done [folded ms_def]]
  have parent: "cm_expected_parent_head_sha (ms ! i) = ce_head_sha (es ! (n - 2 - i))" if i: "i < n - 1" for i
  proof -
    have "cm_parent (ms ! i) \<noteq> cm_parent (ms ! j)" if "j < i" for j
      using that i nums(2) [of i] nums(2) [of j] dist
      by (auto simp: nth_eq_iff_index_eq distinct_map inj_on_eq_iff n_def)
    then have "cm_parent (ms ! i) \<notin> cm_parent ` set (take i ms)"
      using len i by (force simp: in_set_conv_nth)
    then have "map_of (heads_after (entry_head_shas es) (take i ms)) (cm_parent (ms ! i))
        = map_of (entry_head_shas es) (cm_parent (ms ! i))"
      by (auto simp: heads_after_eq map_add_def split: option.split dest!: map_of_SomeD)
    then have "head_of (entry_head_shas es) (cm_parent (ms ! i)) = Inr (cm_expected_parent_head_sha (ms ! i))"
      using prog_nth [of i] i len by (simp add: head_of_def)
    then show ?thesis using entry_head_nth [OF dist, of "n - 2 - i"] nums(2) [OF i] i by (simp add: n_def)
  qed
  have first: "cm_child_head_sha (ms ! 0) = ce_head_sha (es ! (n - 1))" if "0 < n - 1"
    using prog_nth [of 0] nums(1) [OF that] entry_head_nth [OF dist, of "n - 1"] that len by (simp add: n_def)
  have rest: "cm_child_head_sha (ms ! Suc j) = cm_merge_commit_sha (ms ! j)" if "Suc j < n - 1" for j
  proof -
    have "take (Suc j) ms = take j ms @ [ms ! j]" using that len by (simp add: take_Suc_conv_app_nth)
    moreover have "cm_parent (ms ! j) = cm_child (ms ! Suc j)"
      using nums that by (simp add: numeral_2_eq_2)
    ultimately show ?thesis using prog_nth [of "Suc j"] that len by (simp add: head_of_def)
  qed
  show ?thesis
    unfolding collapsed_in_order_def Let_def ms_def [symmetric] es_def [symmetric] n_def [symmetric]
    using len nums parent first rest all_done [folded ms_def]
    by (auto simp: list_all_iff split: nat.split)
qed

end
