(* ===== verification/Mt_Collapse_Children.thy ===== *)
theory Mt_Collapse_Children
  imports Mt_Collapse_Safety
begin

section \<open>Closing the children of a landed stack\<close>

text \<open>
  What \<open>reconcile_stack_children\<close> does to the pull requests, for any provider: the client and the
  executor are wrapped so that every call that looks at or changes a child is logged with its arguments
  and its answer, newest first.
\<close>

datatype child_event =
    AskedClosed nat string "bool res"
  | FoundComment nat string "string res"
  | Commented nat string "string res"
  | AskedLabel nat string "bool res"
  | Labelled nat string "unit res"
  | ClosedChild nat string "unit res"

fun child_of :: "child_event \<Rightarrow> nat" where
  "child_of (AskedClosed n sha r) = n"
| "child_of (FoundComment n body u) = n"
| "child_of (Commented n body u) = n"
| "child_of (AskedLabel n label r) = n"
| "child_of (Labelled n label r) = n"
| "child_of (ClosedChild n sha r) = n"

definition logged_children :: "'w disposition_client \<Rightarrow> ('w \<times> child_event list) disposition_client" where
  "logged_children c = \<lparr>
     dc_find_comment = (\<lambda>repo n body. logged (FoundComment n body) (dc_find_comment c repo n body)),
     dc_has_label = (\<lambda>repo n label. logged (AskedLabel n label) (dc_has_label c repo n label)),
     dc_is_closed = (\<lambda>repo n sha. logged (AskedClosed n sha) (dc_is_closed c repo n sha)),
     dc_comment = (\<lambda>repo n body. logged (Commented n body) (dc_comment c repo n body)),
     dc_add_label = (\<lambda>repo n label. logged (Labelled n label) (dc_add_label c repo n label)),
     dc_close = (\<lambda>repo n sha. logged (ClosedChild n sha) (dc_close c repo n sha))\<rparr>"

abbreviation answered :: "'a res \<Rightarrow> unit res" where
  "answered r \<equiv> map_sum id (\<lambda>_. ()) r"

fun logged_executor :: "'w child_executor \<Rightarrow> ('w \<times> child_event list) child_executor" where
  "logged_executor ex (CommentEffect l n body) = logged (Commented n body) (ex (CommentEffect l n body))"
| "logged_executor ex (LabelEffect l n label) = logged (\<lambda>r. Labelled n label (answered r)) (ex (LabelEffect l n label))"
| "logged_executor ex (CloseEffect l n sha) = logged (\<lambda>r. ClosedChild n sha (answered r)) (ex (CloseEffect l n sha))"

definition logged_checkpoint ::
  "(collapse_plan \<Rightarrow> ('w, unit) eff) option \<Rightarrow> (collapse_plan \<Rightarrow> ('w \<times> child_event list, unit) eff) option" where
  "logged_checkpoint cp = map_option (\<lambda>f p s. case f p (fst s) of (r, w) \<Rightarrow> (r, (w, snd s))) cp"

text \<open>
  A child carries the comment when it was found or a call that writes it succeeded, and the label
  likewise. It is closed only after that, and after it was seen open at the same head. It is known to
  be closed when it was seen closed or a call that closes it succeeded.
\<close>

definition noticed :: "string \<Rightarrow> string \<Rightarrow> nat \<Rightarrow> child_event list \<Rightarrow> bool" where
  "noticed body label n log \<longleftrightarrow>
     (\<exists>u. Commented n body (Inr u) \<in> set log \<or> FoundComment n body (Inr u) \<in> set log \<and> u \<noteq> '''')
     \<and> (AskedLabel n label (Inr True) \<in> set log \<or> Labelled n label (Inr ()) \<in> set log)"

fun closes_last :: "string \<Rightarrow> string \<Rightarrow> child_event list \<Rightarrow> bool" where
  "closes_last body label (ClosedChild n sha r # log) =
     (noticed body label n log \<and> AskedClosed n sha (Inr False) \<in> set log \<and> closes_last body label log)"
| "closes_last body label (ev # log) = closes_last body label log"
| "closes_last body label [] = True"

definition closed_on_record :: "string \<Rightarrow> string \<Rightarrow> child_event list \<Rightarrow> child_disposition \<Rightarrow> bool" where
  "closed_on_record body label log d \<longleftrightarrow> disposition_completed d
     \<or> noticed body label (cd_pull_request_number d) log
       \<and> (AskedClosed (cd_pull_request_number d) (cd_expected_head_sha d) (Inr True) \<in> set log
          \<or> ClosedChild (cd_pull_request_number d) (cd_expected_head_sha d) (Inr ()) \<in> set log)"

lemma completed_on_record: "disposition_completed d \<Longrightarrow> closed_on_record body label log d"
  by (simp add: closed_on_record_def)

lemma closed_on_record_grows:
  "closed_on_record body label log d \<Longrightarrow> set log \<subseteq> set log' \<Longrightarrow> closed_on_record body label log' d"
  by (auto simp: closed_on_record_def noticed_def)

abbreviation only_children :: "nat set \<Rightarrow> child_event list \<Rightarrow> bool" where
  "only_children ns log \<equiv> child_of ` set log \<subseteq> ns"

lemma logged_children_sel [simp]:
  "dc_find_comment (logged_children c) repo n body = logged (FoundComment n body) (dc_find_comment c repo n body)"
  "dc_has_label (logged_children c) repo n label = logged (AskedLabel n label) (dc_has_label c repo n label)"
  "dc_is_closed (logged_children c) repo n sha = logged (AskedClosed n sha) (dc_is_closed c repo n sha)"
  "dc_comment (logged_children c) repo n body = logged (Commented n body) (dc_comment c repo n body)"
  "dc_add_label (logged_children c) repo n label = logged (Labelled n label) (dc_add_label c repo n label)"
  "dc_close (logged_children c) repo n sha = logged (ClosedChild n sha) (dc_close c repo n sha)"
  by (simp_all add: logged_children_def)

lemma checkpointE_logged:
  assumes "\<And>r w. Q r (w, log)"
  shows "runs_to (checkpointE (logged_checkpoint cp) p) Q (w, log)"
  using assms
  by (auto simp: checkpointE_def logged_checkpoint_def runs_to_def give_def split: option.split prod.split)

lemma close_child_safe:
  fixes plan root label
  defines "body \<equiv> child_comment_body (cp_root_number plan) root"
  assumes "closes_last body label log" "only_children ns log" "cd_pull_request_number d \<in> ns"
  shows "runs_to (close_stack_child (logged_children c) (map_option logged_executor ex) plan root label d)
     (\<lambda>r (w', log'). closes_last body label log' \<and> only_children ns log' \<and> set log \<subseteq> set log'
        \<and> (\<forall>d'. r = Inr d' \<longrightarrow> cd_status d' = Dp_closed
              \<and> cd_pull_request_number d' = cd_pull_request_number d
              \<and> closed_on_record body label log' d)) (w, log)"
  using assms(2-4) unfolding body_def
  by (cases ex)
     (auto simp: close_stack_child_def Let_def unitE_def wp noticed_def closed_on_record_def
        split: sum.split intro!: runs_to_any)

text \<open>What becomes of a disposition: a completed one stays as it is, another one is closed.\<close>

definition disposed :: "child_disposition \<Rightarrow> child_disposition \<Rightarrow> bool" where
  "disposed d d' \<longleftrightarrow> (if disposition_completed d then d' = d
     else cd_status d' = Dp_closed \<and> cd_pull_request_number d' = cd_pull_request_number d)"

lemma close_children_safe:
  fixes plan root label
  defines "body \<equiv> child_comment_body (cp_root_number plan) root"
  assumes "closes_last body label log" "only_children ns log" "list_all2 disposed old prev"
    "list_all (closed_on_record body label log) old"
    "\<forall>d \<in> set ds. \<not> disposition_completed d \<longrightarrow> cd_pull_request_number d \<in> ns"
  shows "runs_to (close_stack_children (logged_children c) (map_option logged_executor ex)
        (logged_checkpoint cp) plan root label at prev ds)
     (\<lambda>r (w', log'). closes_last body label log' \<and> only_children ns log'
        \<and> (\<forall>ds'. r = Inr ds' \<longrightarrow> list_all2 disposed (old @ ds) ds'
              \<and> list_all (closed_on_record body label log') (old @ ds))) (w, log)"
  using assms(2-)
proof (induction ds arbitrary: w log prev old)
  case Nil
  then show ?case by (simp add: wp)
next
  case (Cons d ds)
  show ?case
  proof (cases "disposition_completed d")
    case True
    have "list_all2 disposed (old @ [d]) (prev @ [d])"
      by (rule list_all2_appendI [OF Cons.prems(3)]) (simp add: disposed_def True)
    moreover have "list_all (closed_on_record body label log) (old @ [d])"
      using Cons.prems(4) True by (simp add: completed_on_record)
    ultimately show ?thesis
      using True Cons.prems Cons.IH [of log "old @ [d]" "prev @ [d]" w] by simp
  next
    case False
    with Cons.prems have n: "cd_pull_request_number d \<in> ns" by simp
    note mono = runs_to_mono [OF close_child_safe [OF Cons.prems(1,2) [unfolded body_def] n, folded body_def]]
    have others: "runs_to (close_stack_children (logged_children c) (map_option logged_executor ex)
        (logged_checkpoint cp) plan root label at (prev @ [d']) ds)
       (\<lambda>r (w', log'). closes_last body label log' \<and> only_children ns log'
          \<and> (\<forall>ds'. r = Inr ds' \<longrightarrow> list_all2 disposed (old @ d # ds) ds'
                \<and> list_all (closed_on_record body label log') (old @ d # ds))) (w', log')"
      if "closes_last body label log'" "only_children ns log'" "set log \<subseteq> set log'"
        "cd_status d' = Dp_closed" "cd_pull_request_number d' = cd_pull_request_number d"
        "closed_on_record body label log' d" for d' w' log'
    proof -
      have "list_all2 disposed (old @ [d]) (prev @ [d'])"
        by (rule list_all2_appendI [OF Cons.prems(3)]) (simp add: disposed_def False that(4,5))
      moreover have "list_all (closed_on_record body label log') (old @ [d])"
        using Cons.prems(4) closed_on_record_grows [OF _ that(3)] that(6) by (simp add: list_all_iff)
      ultimately show ?thesis
        using Cons.IH [OF that(1,2), of "old @ [d]" "prev @ [d']" w'] Cons.prems(5) by simp
    qed
    from False show ?thesis
      apply (simp add: wp)
      apply (rule mono)
      apply (clarsimp simp: wp Let_def split: sum.split)
      apply (rule checkpointE_logged)
      apply (auto simp: others [simplified] split: sum.split)
      done
  qed
qed

end
