(* ===== verification/Mt_Collapse_Properties.thy ===== *)
theory Mt_Collapse_Properties
  imports Mt_Collapse_Children
begin

section \<open>Properties of the stack collapse\<close>

text \<open>
  The providers may answer anything and may fail at any call. A host that keeps the merges it did is
  the concrete provider of the witnesses.
\<close>

subsection \<open>A host for the witnesses\<close>

type_synonym ex_host = "merge_key list"

definition ex_sha :: "merge_key \<Rightarrow> ex_host \<Rightarrow> string" where
  "ex_sha k w = ''m'' @ str_nat (length (takeWhile (\<lambda>k'. k' \<noteq> k) (rev w)))"

definition ex_find :: "merge_key \<Rightarrow> ex_host \<Rightarrow> string" where
  "ex_find k w = (if k \<in> set w then ex_sha k w else '''')"

definition ex_collapse_client :: "ex_host collapse_client" where
  "ex_collapse_client = \<lparr>
     ec_find_merge = (\<lambda>k t w. (Inr (ex_find k w), w)),
     ec_plan_tree = (\<lambda>k base w. (Inr ''tree'', w)),
     ec_merge = (\<lambda>e w. (Inr (ex_sha (mf_key e) w), mf_key e # w)),
     ec_execute_merge = None,
     ec_ready_reasons = (\<lambda>n w. (Inr [], w)),
     ec_recovered_ready_reasons = None,
     ec_checkpoint = (\<lambda>p w. (Inr (), w))\<rparr>"

lemma ex_client_answers: "answers_shas ex_collapse_client"
proof -
  have digit: "\<not> py_space (digit_char (n mod 10))" for n
    using mod_less_divisor [of 10 n] by (auto simp: py_space_def digit_char_def Let_def simp del: mod_less_divisor)
  have "py_strip (''m'' @ str_nat n) = ''m'' @ str_nat n" for n
    by (rule py_strip_id) (simp_all add: digit, simp add: py_space_def)
  then show ?thesis
    by (simp add: answers_shas_def sha_token_def ex_collapse_client_def perform_merge_def ex_sha_def ex_find_def)
qed

text \<open>A provider whose first merge fails before anything happened.\<close>

definition ex_flaky_client :: "(bool \<times> ex_host) collapse_client" where
  "ex_flaky_client = \<lparr>
     ec_find_merge = (\<lambda>k t w. (Inr (ex_find k (snd w)), w)),
     ec_plan_tree = (\<lambda>k base w. (Inr ''tree'', w)),
     ec_merge = (\<lambda>e w. if fst w then (Inr (ex_sha (mf_key e) (snd w)), (True, mf_key e # snd w))
        else (Inl (ProviderError ''bad gateway''), (True, snd w))),
     ec_execute_merge = None,
     ec_ready_reasons = (\<lambda>n w. (Inr [], w)),
     ec_recovered_ready_reasons = None,
     ec_checkpoint = (\<lambda>p w. (Inr (), w))\<rparr>"

definition ex_stack_entry :: "nat \<Rightarrow> string \<Rightarrow> string \<Rightarrow> string \<Rightarrow> collapse_entry" where
  "ex_stack_entry n head ref base = \<lparr>ce_pull_request_number = n, ce_position = n, ce_head_sha = head,
     ce_head_ref = ref, ce_base_sha = '''', ce_base_ref = base\<rparr>"

definition ex_mutation :: "nat \<Rightarrow> nat \<Rightarrow> string \<Rightarrow> string \<Rightarrow> string \<Rightarrow> collapse_mutation" where
  "ex_mutation child parent child_sha parent_sha ref = \<lparr>cm_child = child, cm_parent = parent,
     cm_child_head_sha = child_sha, cm_expected_parent_head_sha = parent_sha, cm_parent_head_ref = ref,
     cm_status = Run_planned, cm_merge_commit_sha = '''', cm_expected_merge_tree_sha = '''', cm_detail = ''''\<rparr>"

definition ex_disposition :: "nat \<Rightarrow> string \<Rightarrow> child_disposition" where
  "ex_disposition n sha = \<lparr>cd_pull_request_number = n, cd_expected_head_sha = sha, cd_status = Dp_planned,
     cd_preserved_head_sha = '''', cd_preserved_state = Pres_none, cd_comment_url = '''', cd_detail = ''''\<rparr>"

definition ex_collapse_plan :: collapse_plan where
  "ex_collapse_plan = \<lparr>cp_collapse_id = ''c'', cp_repository = ''o/r'', cp_base_branch = ''main'',
     cp_root_number = 1, cp_root_initial_head_sha = ''h1'', cp_root_head_ref = ''one'',
     cp_policy_key = ''o/r:main'', cp_policy_sha256 = ''p'', cp_status = Col_planned,
     cp_entries = [ex_stack_entry 1 ''h1'' ''one'' ''main'', ex_stack_entry 2 ''h2'' ''two'' ''one'',
       ex_stack_entry 3 ''h3'' ''three'' ''two''],
     cp_mutations = [ex_mutation 3 2 ''h3'' ''h2'' ''two'', ex_mutation 2 1 ''h2'' ''h1'' ''one''],
     cp_child_dispositions = [ex_disposition 2 ''h2'', ex_disposition 3 ''h3''],
     cp_created_at = ''2001-01-01T00:00:00Z'', cp_updated_at = ''2001-01-01T00:00:00Z''\<rparr>"

subsection \<open>Built plans\<close>

lemma mutation_pairs_rev: "mutation_pairs (rev ms) = rev (mutation_pairs ms)"
  by (simp add: mutation_pairs_def rev_map)

lemma normalized_mutations:
  "normalize_collapse_mutations es ms = Inr ms' \<Longrightarrow> mutation_pairs ms' = layer_pairs es \<and> set ms' = set ms"
  by (auto simp: normalize_collapse_mutations_def mutation_pairs_rev split: if_splits)

lemma normalized_dispositions:
  "normalize_child_dispositions es ms ds = Inr ds' \<Longrightarrow>
     map cd_pull_request_number ds' = map ce_pull_request_number (tl es)"
  by (auto simp: normalize_child_dispositions_def)

lemma validated_collapse_plan:
  assumes "validate_collapse_plan q = Inr p"
  shows "mutation_pairs (cp_mutations p) = layer_pairs (cp_entries p)"
    and "distinct (map ce_pull_request_number (cp_entries p))"
    and "map cd_pull_request_number (cp_child_dispositions p) = map ce_pull_request_number (tl (cp_entries p))"
    and "set (cp_mutations p) = set (cp_mutations q)" and "cp_entries p = cp_entries q"
    and "cp_status p = cp_status q"
proof -
  from assms obtain entries ms ds where "normalize_collapse_entries (cp_entries q) = Inr entries"
    "normalize_collapse_mutations entries (cp_mutations q) = Inr ms"
    "normalize_child_dispositions entries ms (cp_child_dispositions q) = Inr ds"
    "cp_entries p = entries" "cp_mutations p = ms" "cp_child_dispositions p = ds" "cp_status p = cp_status q"
    by (auto simp: validate_collapse_plan_def)
  then show "mutation_pairs (cp_mutations p) = layer_pairs (cp_entries p)"
    "distinct (map ce_pull_request_number (cp_entries p))"
    "map cd_pull_request_number (cp_child_dispositions p) = map ce_pull_request_number (tl (cp_entries p))"
    "set (cp_mutations p) = set (cp_mutations q)" "cp_entries p = cp_entries q" "cp_status p = cp_status q"
    using normalized_mutations normalized_dispositions
    by (auto simp: normalize_collapse_entries_def)
qed

lemma unstarted_chain: "\<forall>m \<in> set ms. cm_status m = Run_planned \<Longrightarrow> chain_progress heads ms"
  by (cases ms) auto

lemma planned_mutations_planned:
  assumes "mapM planned_mutation pairs = Inr ms"
  shows "\<forall>m \<in> set ms. cm_status m = Run_planned"
proof -
  have "map cm_status ms = map (\<lambda>_. Run_planned) pairs"
    by (rule mapM_map [OF assms])
       (auto simp: planned_mutation_def validate_collapse_mutation_def split: prod.splits)
  then show ?thesis by (metis (no_types, lifting) image_iff in_set_conv_nth length_map nth_map)
qed

subsection \<open>Properties\<close>

text \<open>
  C30. A plan built for a discovered stack is a chain that has not started: its mutations are the
  layers of the stack from the leaf to the root, over distinct pull requests.
\<close>

theorem built_collapse_plan_is_chain:
  assumes "build_stack_collapse_plan discovery pkey sha at = Inr p"
  shows "collapse_chain p \<and> cp_status p = Col_planned
     \<and> (\<forall>m \<in> set (cp_mutations p). cm_status m = Run_planned)
     \<and> map ce_pull_request_number (cp_entries p) = map se_number (sd_entries discovery)"
proof -
  from assms obtain entries ms q where
    entries: "mapM collapse_entry_of (zip [1..<Suc (length (sd_entries discovery))] (sd_entries discovery)) = Inr entries"
    and ms: "mapM planned_mutation (rev (zip entries (tl entries))) = Inr ms"
    and p: "validate_collapse_plan q = Inr p"
    and q: "cp_entries q = entries" "cp_mutations q = ms" "cp_status q = Col_planned"
    by (auto simp: build_stack_collapse_plan_def)
  note V = validated_collapse_plan [OF p, unfolded q]
  have planned: "\<forall>m \<in> set (cp_mutations p). cm_status m = Run_planned"
    using planned_mutations_planned [OF ms] V(4) by simp
  have "map ce_pull_request_number entries
      = map (se_number \<circ> snd) (zip [1..<Suc (length (sd_entries discovery))] (sd_entries discovery))"
    by (rule mapM_map [OF entries])
       (auto simp: collapse_entry_of_def validate_collapse_entry_def split: prod.splits)
  then have "map ce_pull_request_number entries = map se_number (sd_entries discovery)"
    by (simp flip: map_map del: upt_Suc)
  with V planned unstarted_chain [OF planned] show ?thesis by (simp add: collapse_chain_def)
qed

definition ex_discovery :: stack_discovery where
  "ex_discovery = \<lparr>sd_status = Ready_for_collapse, sd_repository = ''o/r'', sd_base_branch = ''main'',
     sd_root_number = 1, sd_stack_order = [1, 2],
     sd_entries = [\<lparr>se_number = 1, se_head_sha = ''h1'', se_head_ref = ''one'', se_base_sha = '''', se_base_ref = ''main''\<rparr>,
       \<lparr>se_number = 2, se_head_sha = ''h2'', se_head_ref = ''two'', se_base_sha = '''', se_base_ref = ''one''\<rparr>],
     sd_unsupported_reasons = []\<rparr>"

lemma ex_strip [simp]:
  "py_strip ''h1'' = ''h1''" "py_strip ''h2'' = ''h2''" "py_strip ''one'' = ''one''" "py_strip ''two'' = ''two''"
  "py_strip ''main'' = ''main''" "py_strip ''o/r'' = ''o/r''" "py_strip ''k'' = ''k''"
  by code_simp+

theorem built_collapse_plan_is_chain_witness:
  "\<exists>p. build_stack_collapse_plan ex_discovery ''k'' ''k'' ''k'' = Inr p \<and> collapse_chain p"
proof -
  obtain cid where "build_stack_collapse_id ''o/r'' ''main'' 1 [''h1'', ''h2''] = Inr cid" "py_strip cid \<noteq> ''''"
    by (simp add: build_stack_collapse_id_def normalize_collapse_repository_def py_strip_eq_Nil py_space_def)
  then have "\<exists>p. build_stack_collapse_plan ex_discovery ''k'' ''k'' ''k'' = Inr p"
    by (simp add: build_stack_collapse_plan_def ex_discovery_def collapse_entry_of_def validate_collapse_entry_def
        planned_mutation_def validate_collapse_mutation_def planned_disposition_def
        validate_child_disposition_def validate_collapse_plan_def normalize_collapse_entries_def
        normalize_collapse_mutations_def normalize_child_dispositions_def mutation_pairs_def layer_pairs_def
        normalize_collapse_repository_def upt_rec)
  then show ?thesis using built_collapse_plan_is_chain by blast
qed

text \<open>
  C9. A child is merged only where the run just found it ready, found that the same merge is not
  there yet, and has already saved the merge's heads, branch and expected tree in the plan; never
  into the protected base branch. This holds of every attempt in any sequence of runs, whatever the
  providers answer and at whatever call a run is cut off.
\<close>

theorem collapse_merges_only_as_recorded:
  "safe_log (snd (collapse_runs c runs (w, [])))"
  by (rule collapse_runs_safe) simp

text \<open>
  C22. Where lookups never miss a merge that took effect, no merge is made twice: when a merge is
  attempted again, by the same run or by a later one, no earlier attempt took effect.
\<close>

theorem collapse_merges_once:
  assumes "snd (collapse_runs c runs (w, [])) = log" and "truthful_lookups took (rev log)"
    and "j < length log" and "i < j" and "rev log ! i = Merging e r" and "rev log ! j = Merging e' r'"
    and "mf_key e = mf_key e'"
  shows "\<not> took i"
proof -
  have "safe_log log" using collapse_runs_safe [of "(w, [])" c runs] assms(1) by simp
  from merge_attempt_is_first [OF this assms(2-)] show ?thesis .
qed

definition ex_two_runs :: "collapse_event list" where
  "ex_two_runs = snd (collapse_runs ex_flaky_client [(ex_collapse_plan, ''t''), (ex_collapse_plan, ''u'')]
     ((False, []), []))"

definition ex_key :: merge_key where
  "ex_key = merge_key_of ex_collapse_plan (ex_mutation 3 2 ''h3'' ''h2'' ''two'') ''h3'' ''h2''"

definition ex_effect :: stack_child_merge_effect where
  "ex_effect = \<lparr>mf_key = ex_key, mf_base_branch = ''main'', mf_expected_merge_tree_sha = ''tree''\<rparr>"

text \<open>The first merge failed; the second run tried again, and that attempt, the 14th event, took effect.\<close>

theorem collapse_merges_once_witness:
  "rev ex_two_runs ! 6 = Merging ex_effect (Inl (ProviderError ''bad gateway''))
   \<and> rev ex_two_runs ! 13 = Merging ex_effect (Inr ''m0'') \<and> \<not> (\<lambda>i. i = (13::nat)) 6"
proof -
  have "truthful_lookups (\<lambda>i. i = 13) (rev ex_two_runs)" "13 < length ex_two_runs"
    "rev ex_two_runs ! 6 = Merging ex_effect (Inl (ProviderError ''bad gateway''))"
    "rev ex_two_runs ! 13 = Merging ex_effect (Inr ''m0'')" by code_simp+
  from collapse_merges_once [OF ex_two_runs_def [symmetric] this(1,2) _ this(3,4) refl] this(3,4)
  show ?thesis by simp
qed

text \<open>
  C15. A run that starts from a chain saves only chains, so that whatever it saved last can be resumed,
  and a run that returns has merged every head, from the leaf to the root, into the head of its
  parent: each merge starts from the commit the merge before it made.
\<close>

theorem collapse_merges_leaf_to_root:
  assumes "answers_shas c" and "collapse_chain plan"
    and "execute_stack_collapse_plan (logged_client c) plan at (w, []) = (r, (w', log))"
  shows "saved_chains log
     \<and> (case r of Inl e \<Rightarrow> True | Inr p \<Rightarrow> collapsed_in_order p \<and> cp_entries p = cp_entries plan
           \<and> cp_status p = Col_waiting_for_root_checks)"
proof -
  have "saved_chains (snd (w, [] :: collapse_event list))" by simp
  from runs_toD [OF collapse_run_chain [OF assms(1) this assms(2)] assms(3)]
  show ?thesis by (auto simp: collapse_chain_in_order split: sum.split)
qed

theorem collapse_merges_leaf_to_root_witness:
  "\<exists>p s. execute_stack_collapse_plan (logged_client ex_collapse_client) ex_collapse_plan ''t'' ([], []) = (Inr p, s)
     \<and> collapsed_in_order p"
proof -
  have chain: "collapse_chain ex_collapse_plan" by code_simp
  have "\<not> isl (fst (execute_stack_collapse_plan (logged_client ex_collapse_client) ex_collapse_plan ''t'' ([], [])))"
    by code_simp
  then obtain p w log where run: "execute_stack_collapse_plan (logged_client ex_collapse_client)
      ex_collapse_plan ''t'' ([], []) = (Inr p, (w, log))"
    by (metis isl_def prod.collapse sum.exhaust_sel sum.collapse(2))
  with collapse_merges_leaf_to_root [OF ex_client_answers chain run] show ?thesis by auto
qed


text \<open>
  C19. After the root has landed, only children still to be disposed of are touched. A child is closed
  only after it was seen open at the same head, and after it carries the comment for this root and the
  label: each was found there, or the call that writes it succeeded. Where the run returns, every child
  is disposed of: those that were closed or preserved before are unchanged, and every other one carries
  comment and label and was seen closed or closed by a call that succeeded.
\<close>

theorem children_closed_after_notice:
  assumes "reconcile_stack_children (logged_children c) (map_option logged_executor ex)
      (logged_checkpoint cp) plan root_sha label at (w, []) = (r, (w', log))"
  shows "closes_last (child_comment_body (cp_root_number plan) (py_strip root_sha)) (py_strip label) log
     \<and> only_children {cd_pull_request_number d | d. d \<in> set (cp_child_dispositions plan) \<and> \<not> disposition_completed d} log
     \<and> (case r of Inl e \<Rightarrow> True
        | Inr p \<Rightarrow> list_all2 disposed (cp_child_dispositions plan) (cp_child_dispositions p)
           \<and> list_all (closed_on_record (child_comment_body (cp_root_number plan) (py_strip root_sha))
                (py_strip label) log) (cp_child_dispositions plan)
           \<and> list_all disposition_completed (cp_child_dispositions p) \<and> cp_status p = Col_ready_for_train)"
    (is "?safe log \<and> ?only log \<and> ?done log r")
proof -
  let ?ns = "{cd_pull_request_number d | d. d \<in> set (cp_child_dispositions plan) \<and> \<not> disposition_completed d}"
  let ?body = "child_comment_body (cp_root_number plan) (py_strip root_sha)" and ?label = "py_strip label"
  have all_done: "list_all disposition_completed ds'" if "list_all2 disposed ds ds'" for ds ds'
    using that by (auto simp: list_all2_conv_all_nth list_all_length disposed_def disposition_completed_def
        split: if_splits)
  have step: "runs_to (close_stack_children (logged_children c) (map_option logged_executor ex)
        (logged_checkpoint cp) plan (py_strip root_sha) ?label at [] (cp_child_dispositions plan))
     (\<lambda>r (w', log'). closes_last ?body ?label log' \<and> only_children ?ns log'
        \<and> (\<forall>ds'. r = Inr ds' \<longrightarrow> list_all2 disposed (cp_child_dispositions plan) ds'
              \<and> list_all (closed_on_record ?body ?label log') (cp_child_dispositions plan))) (w, [])" for w
    using close_children_safe [of plan "py_strip root_sha" ?label "[]" ?ns "[]" "[]" "cp_child_dispositions plan" c ex cp at w]
    by auto
  have "runs_to (reconcile_stack_children (logged_children c) (map_option logged_executor ex)
      (logged_checkpoint cp) plan root_sha label at) (\<lambda>r (w', log). ?safe log \<and> ?only log \<and> ?done log r) (w, [])"
    by (auto simp: reconcile_stack_children_def wp all_done required_text_def Let_def split: sum.split
        intro!: checkpointE_logged runs_to_mono [OF step])
  from runs_toD [OF this assms] show ?thesis by simp
qed


definition ex_child_client :: "unit disposition_client" where
  "ex_child_client = \<lparr>dc_find_comment = (\<lambda>repo n body w. (Inr '''', w)),
     dc_has_label = (\<lambda>repo n label w. (Inr False, w)), dc_is_closed = (\<lambda>repo n sha w. (Inr (n = 3), w)),
     dc_comment = (\<lambda>repo n body w. (Inr ''url'', w)), dc_add_label = (\<lambda>repo n label w. (Inr (), w)),
     dc_close = (\<lambda>repo n sha w. (Inr (), w))\<rparr>"

definition ex_landed_plan :: collapse_plan where
  "ex_landed_plan = ex_collapse_plan\<lparr>cp_status := Col_waiting_for_root_checks\<rparr>"

theorem children_closed_after_notice_witness:
  "\<exists>p log. reconcile_stack_children (logged_children ex_child_client) None None ex_landed_plan ''m1'' ''stacked'' ''t''
       ((), []) = (Inr p, ((), log))
     \<and> closes_last (child_comment_body (cp_root_number ex_landed_plan) ''m1'') ''stacked'' log
     \<and> list_all disposition_completed (cp_child_dispositions p)"
proof -
  let ?run = "reconcile_stack_children (logged_children ex_child_client) (map_option logged_executor None)
      (logged_checkpoint None) ex_landed_plan ''m1'' ''stacked'' ''t'' ((), [])"
  have ok: "\<not> isl (fst ?run)" by code_simp
  obtain r u log where run: "?run = (r, (u, log))" by (cases ?run) auto
  with ok obtain p where "r = Inr p" by (cases r) simp_all
  with run have "?run = (Inr p, ((), log))" by simp
  moreover have "py_strip ''m1'' = ''m1''" "py_strip ''stacked'' = ''stacked''" by code_simp+
  ultimately show ?thesis
    using children_closed_after_notice [of ex_child_client None None ex_landed_plan "''m1''" "''stacked''" "''t''"]
    by (auto simp: logged_checkpoint_def)
qed

end
