(* ===== verification/Progress_Records.thy ===== *)
theory Progress_Records
  imports Prelude
begin

section \<open>The record that shows how far work has come\<close>

text \<open>
  The stores keep every record a batch, a landing plan or a stack collapse ever wrote. Which one is
  its state is decided by two maxima: the group (batch, plan, collapse) with the newest stamp, and in
  it the record with the highest rank. The sources have this function three times, with three ranks;
  here it is written once, over the functions that read group, stamp and rank of a record, and the
  locale states what its callers rely on.
\<close>

subsection \<open>Definitions\<close>

text \<open>The stamp of a record is its update time and its id.\<close>

type_synonym stamp = "string \<times> string"

definition newest_stamp :: "('r \<Rightarrow> stamp) \<Rightarrow> 'r list \<Rightarrow> stamp" where
  "newest_stamp stamp rs = foldr (\<lambda>r s. max (stamp r) s) rs ('''', '''')"

text \<open>\<open>max(set of groups, key=(newest stamp of the group, group))\<close>\<close>

definition latest_group :: "('r \<Rightarrow> string) \<Rightarrow> ('r \<Rightarrow> stamp) \<Rightarrow> 'r list \<Rightarrow> string option" where
  "latest_group grp stamp rs =
     max_by (\<lambda>g. (newest_stamp stamp (filter (\<lambda>r. grp r = g) rs), g)) (dedup (map grp rs))"

definition latest_progress ::
  "('r \<Rightarrow> string) \<Rightarrow> ('r \<Rightarrow> stamp) \<Rightarrow> ('r \<Rightarrow> 'k::linorder) \<Rightarrow> 'r list \<Rightarrow> 'r option" where
  "latest_progress grp stamp rank rs = (case latest_group grp stamp rs of None \<Rightarrow> None
     | Some g \<Rightarrow> max_by rank (filter (\<lambda>r. grp r = g) rs))"

subsection \<open>Facts on maxima\<close>

lemma max_by_eq_None [simp]: "max_by k xs = None \<longleftrightarrow> xs = []"
  by (cases xs) (auto split: option.split)

lemma max_by_Some: "xs \<noteq> [] \<Longrightarrow> \<exists>x. max_by k xs = Some x"
  using max_by_eq_None [of k xs] by (cases "max_by k xs") blast+

lemma max_by_member: "max_by k xs = Some x \<Longrightarrow> x \<in> set xs"
  by (induction xs arbitrary: x) (auto split: option.splits if_splits)

lemma max_by_max: "max_by k xs = Some x \<Longrightarrow> y \<in> set xs \<Longrightarrow> k y \<le> k x"
proof (induction xs arbitrary: x)
  case (Cons a xs)
  show ?case
  proof (cases "max_by k xs")
    case None
    with Cons.prems show ?thesis by simp
  next
    case (Some b)
    with Cons show ?thesis by (fastforce split: if_splits)
  qed
qed simp

lemma max_by_snoc_less:
  assumes "max_by k xs = Some x" "k y \<le> k x"
  shows "max_by k (xs @ [y]) = Some x"
  using assms
proof (induction xs arbitrary: x)
  case (Cons a xs)
  show ?case
  proof (cases xs)
    case Nil
    with Cons.prems show ?thesis by (auto simp: leD)
  next
    case (Cons a' xs')
    then obtain b where b: "max_by k xs = Some b" using max_by_Some [of xs k] by auto
    show ?thesis
    proof (cases "k a < k b")
      case True
      with b Cons.prems Cons.IH [of b] show ?thesis by simp
    next
      case False
      with b Cons.prems have x: "x = a" by simp
      obtain c where c: "max_by k (xs @ [y]) = Some c" using max_by_Some [of "xs @ [y]" k] by auto
      have "c \<in> set xs \<or> c = y" using max_by_member [OF c] by auto
      with False b max_by_max [OF b] Cons.prems x have "\<not> k a < k c" by fastforce
      with c x show ?thesis by simp
    qed
  qed
qed simp

lemma newest_stamp_ge: "r \<in> set rs \<Longrightarrow> stamp r \<le> newest_stamp stamp rs"
  by (induction rs) (auto simp: newest_stamp_def max.coboundedI2)

lemma newest_stamp_mono: "set rs \<subseteq> set rs' \<Longrightarrow> newest_stamp stamp rs \<le> newest_stamp stamp rs'"
proof (induction rs)
  case Nil
  have "('''', '''') \<le> s" for s :: stamp by (cases s) (auto simp: less_eq_prod_def)
  then show ?case by (simp add: newest_stamp_def)
next
  case (Cons r rs)
  then show ?case using newest_stamp_ge [of r rs' stamp] by (auto simp: newest_stamp_def)
qed


lemma newest_stamp_attained: "rs \<noteq> [] \<Longrightarrow> \<exists>r \<in> set rs. newest_stamp stamp rs \<le> stamp r"
proof (induction rs)
  case (Cons r rs)
  have "('''', '''') \<le> stamp r" by (cases "stamp r") (auto simp: less_eq_prod_def)
  with Cons show ?case
    by (cases rs) (auto simp: newest_stamp_def max_def intro: order_trans)
qed simp

text \<open>Raising the key of the maximum, and no other, keeps it the maximum.\<close>

lemma max_by_raise:
  assumes "max_by k xs = Some x" and up: "k x \<le> k' x" and same: "\<And>y. y \<noteq> x \<Longrightarrow> k' y = k y"
  shows "max_by k' xs = Some x"
  using assms(1)
proof (induction xs)
  case (Cons a xs)
  show ?case
  proof (cases "max_by k xs")
    case None
    with Cons.prems show ?thesis by simp
  next
    case (Some b)
    show ?thesis
    proof (cases "k a < k b")
      case True
      with Some Cons have "b = x" "max_by k' xs = Some x" by auto
      moreover have "k' a < k' x \<or> a = x" using up same [of a] True \<open>b = x\<close> by fastforce
      ultimately show ?thesis using True by auto
    next
      case False
      with Some Cons.prems have "a = x" by simp
      have "xs \<noteq> []" using Some by auto
      then obtain c where c: "max_by k' xs = Some c" using max_by_Some [of xs k'] by auto
      have "c \<in> set xs" by (rule max_by_member [OF c])
      then have "\<not> k' x < k' c"
        using max_by_max [OF Some, of c] False up same [of c] \<open>a = x\<close> by (cases "c = x") auto
      with c \<open>a = x\<close> show ?thesis by simp
    qed
  qed
qed simp

lemma filter_dedup: "filter P (dedup xs) = dedup (filter P xs)"
proof (induction xs)
  case (Cons a xs)
  have "filter P (filter (\<lambda>y. y \<noteq> a) (dedup xs)) = filter (\<lambda>y. y \<noteq> a) (filter P (dedup xs))"
    by (simp add: conj_commute)
  also have "\<dots> = filter (\<lambda>y. y \<noteq> a) (dedup (filter P xs))" by (simp only: Cons.IH)
  finally have swap: "filter P (filter (\<lambda>y. y \<noteq> a) (dedup xs)) = filter (\<lambda>y. y \<noteq> a) (dedup (filter P xs))" .
  show ?case
  proof (cases "P a")
    case True
    with swap show ?thesis by (simp del: filter_filter)
  next
    case False
    then have "filter (\<lambda>y. y \<noteq> a) (dedup (filter P xs)) = dedup (filter P xs)"
      by (auto simp: filter_id_conv)
    with False swap show ?thesis by (simp del: filter_filter)
  qed
qed simp

lemma dedup_snoc: "x \<in> set xs \<Longrightarrow> dedup (xs @ [x]) = dedup xs"
proof (induction xs)
  case (Cons a xs)
  show ?case
  proof (cases "x \<in> set xs")
    case True
    with Cons.IH show ?thesis by simp
  next
    case False
    with Cons.prems have "x = a" by simp
    then show ?thesis by (simp add: filter_dedup)
  qed
qed simp

lemma dedup_map_snoc: "g \<in> f ` set rs \<Longrightarrow> f q = g \<Longrightarrow> dedup (map f (rs @ [q])) = dedup (map f rs)"
  by (simp add: dedup_snoc)

lemma max_by_filter:
  assumes "max_by k xs = Some x" "P x"
  shows "max_by k (filter P xs) = Some x"
  using assms(1)
proof (induction xs)
  case (Cons a xs)
  show ?case
  proof (cases "max_by k xs")
    case None
    with Cons.prems assms(2) show ?thesis by simp
  next
    case (Some b)
    show ?thesis
    proof (cases "k a < k b")
      case True
      with Some Cons show ?thesis by simp
    next
      case False
      with Some Cons.prems have x: "x = a" by simp
      have "\<not> k a < k c" if "max_by k (filter P xs) = Some c" for c
        using max_by_max [OF Some, of c] max_by_member [OF that] False by fastforce
      with x assms(2) show ?thesis by (auto split: option.split)
    qed
  qed
qed simp

lemma max_by_cong: "(\<And>x. x \<in> set xs \<Longrightarrow> k x = k' x) \<Longrightarrow> max_by k xs = max_by k' xs"
proof (induction xs)
  case (Cons a xs)
  then have "max_by k xs = max_by k' xs" by simp
  with Cons.prems show ?case by (auto split: option.split dest: max_by_member)
qed simp

subsection \<open>What the callers rely on\<close>

locale progress_view =
  fixes latest :: "'r list \<Rightarrow> 'r option" and grp :: "'r \<Rightarrow> string" and stamp :: "'r \<Rightarrow> stamp"
    and rank :: "'r \<Rightarrow> 'k::linorder"
  assumes latest_none: "latest rs = None \<longleftrightarrow> rs = []"
    and latest_member: "latest rs = Some r \<Longrightarrow> r \<in> set rs"
    and latest_highest: "latest rs = Some r \<Longrightarrow> q \<in> set rs \<Longrightarrow> grp q = grp r \<Longrightarrow> rank q \<le> rank r"
    and latest_newest: "latest rs = Some r \<Longrightarrow> q \<in> set rs \<Longrightarrow> \<exists>q' \<in> set rs. grp q' = grp r \<and> stamp q \<le> stamp q'"
    and late_write: "latest rs = Some r \<Longrightarrow> grp q = grp r \<Longrightarrow> rank q \<le> rank r \<Longrightarrow> latest (rs @ [q]) = Some r"
    and latest_restrict: "latest rs = Some r \<Longrightarrow> P r \<Longrightarrow>
      (\<And>p q. p \<in> set rs \<Longrightarrow> q \<in> set rs \<Longrightarrow> grp p = grp q \<Longrightarrow> P p = P q) \<Longrightarrow> latest (filter P rs) = Some r"
begin

text \<open>Progress never goes back: records of the same group that do not exceed it change nothing.\<close>

lemma late_writes:
  "latest rs = Some r \<Longrightarrow> \<forall>q \<in> set qs. grp q = grp r \<and> rank q \<le> rank r \<Longrightarrow> latest (rs @ qs) = Some r"
proof (induction qs arbitrary: rs)
  case (Cons q qs)
  from Cons.IH [of "rs @ [q]"] late_write [OF Cons.prems(1), of q] Cons.prems(2) show ?case by simp
qed simp

text \<open>A record of a new group that is newer than all others is the one that counts.\<close>

lemma newest_group:
  assumes "latest rs = Some r" "q \<in> set rs" "\<And>p. p \<in> set rs \<Longrightarrow> grp p \<noteq> grp q \<Longrightarrow> stamp p < stamp q"
  shows "grp r = grp q"
proof (rule ccontr)
  assume "grp r \<noteq> grp q"
  moreover obtain p where "p \<in> set rs" "grp p = grp r" "stamp q \<le> stamp p"
    using latest_newest [OF assms(1,2)] by auto
  ultimately show False using assms(3) [of p] by auto
qed

lemma fresh_write:
  assumes "\<And>p. p \<in> set rs \<Longrightarrow> grp p \<noteq> grp q \<and> stamp p < stamp q"
  shows "latest (rs @ [q]) = Some q"
proof -
  obtain r where r: "latest (rs @ [q]) = Some r" using latest_none [of "rs @ [q]"] by auto
  have "grp r = grp q" by (rule newest_group [OF r]) (use assms in auto)
  with latest_member [OF r] assms have "r = q" by auto
  with r show ?thesis by simp
qed

end

text \<open>The function of the sources has this interface, whatever it reads.\<close>

lemma latest_group_restrict:
  assumes "latest_group grp stamp rs = Some g" and "r \<in> set rs" "grp r = g" "P r"
    and whole: "\<And>p q. p \<in> set rs \<Longrightarrow> q \<in> set rs \<Longrightarrow> grp p = grp q \<Longrightarrow> P p = P q"
  shows "latest_group grp stamp (filter P rs) = Some g"
    and "filter (\<lambda>r. grp r = g) (filter P rs) = filter (\<lambda>r. grp r = g) rs"
proof -
  let ?P = "\<lambda>g. \<exists>p \<in> set rs. grp p = g \<and> P p"
  have kept: "P p \<longleftrightarrow> ?P (grp p)" if "p \<in> set rs" for p using whole that by blast
  have same: "filter (\<lambda>r. grp r = g') (filter P rs) = filter (\<lambda>r. grp r = g') rs" if "?P g'" for g'
    using kept that by (auto simp: filter_filter intro!: filter_cong)
  have "map grp (filter P rs) = filter ?P (map grp rs)"
    using kept by (auto simp: filter_map intro!: arg_cong [of _ _ "map grp"] filter_cong)
  then have groups: "dedup (map grp (filter P rs)) = filter ?P (dedup (map grp rs))"
    by (simp only: filter_dedup)
  have here: "?P g" using assms by blast
  have "max_by (\<lambda>g. (newest_stamp stamp (filter (\<lambda>r. grp r = g) rs), g)) (filter ?P (dedup (map grp rs))) = Some g"
    using max_by_filter [OF assms(1) [unfolded latest_group_def], of ?P] here by blast
  then show "latest_group grp stamp (filter P rs) = Some g"
    unfolding latest_group_def groups by (subst max_by_cong) (use same in auto)
  show "filter (\<lambda>r. grp r = g) (filter P rs) = filter (\<lambda>r. grp r = g) rs" by (rule same [OF here])
qed

lemma latest_group_member: "latest_group grp stamp rs = Some g \<Longrightarrow> g \<in> grp ` set rs"
  by (auto simp: latest_group_def dest: max_by_member)

lemma latest_progress_group:
  assumes "latest_progress grp stamp rank rs = Some r"
  shows "latest_group grp stamp rs = Some (grp r)" "r \<in> set rs"
  using assms by (auto simp: latest_progress_def dest: max_by_member split: option.splits)

lemma latest_group_late:
  assumes "latest_group grp stamp rs = Some g" "grp q = g"
  shows "latest_group grp stamp (rs @ [q]) = Some g"
proof -
  let ?k = "\<lambda>rs g. (newest_stamp stamp (filter (\<lambda>r. grp r = g) rs), g)"
  have groups: "dedup (map grp (rs @ [q])) = dedup (map grp rs)"
    using latest_group_member [OF assms(1)] assms(2) by (intro dedup_map_snoc) auto
  have old: "max_by (?k rs) (dedup (map grp rs)) = Some g" using assms(1) by (simp add: latest_group_def)
  have "?k rs g \<le> ?k (rs @ [q]) g"
    using newest_stamp_mono [of "filter (\<lambda>r. grp r = g) rs" "filter (\<lambda>r. grp r = g) (rs @ [q])" stamp]
    by (auto simp: less_eq_prod_def less_le)
  moreover have "?k (rs @ [q]) g' = ?k rs g'" if "g' \<noteq> g" for g' using that assms(2) by auto
  ultimately have "max_by (?k (rs @ [q])) (dedup (map grp rs)) = Some g"
    by (rule max_by_raise [OF old])
  then show ?thesis unfolding latest_group_def groups .
qed

lemma latest_progress_view:
  "progress_view (latest_progress grp stamp rank) grp stamp rank"
proof
  fix rs r q
  show "latest_progress grp stamp rank rs = None \<longleftrightarrow> rs = []"
  proof (cases rs)
    case (Cons a as)
    then have "dedup (map grp rs) \<noteq> []" by simp
    then obtain g where g: "latest_group grp stamp rs = Some g"
      unfolding latest_group_def using max_by_Some by blast
    from latest_group_member [OF g] have "filter (\<lambda>r. grp r = g) rs \<noteq> []"
      by (auto simp: filter_empty_conv)
    then have "latest_progress grp stamp rank rs \<noteq> None"
      by (simp only: latest_progress_def g option.case max_by_eq_None not_False_eq_True)
    then show ?thesis using Cons by blast
  qed (simp add: latest_progress_def latest_group_def)
  assume l: "latest_progress grp stamp rank rs = Some r"
  note G = latest_progress_group [OF l]
  show "r \<in> set rs" by (rule G(2))
  have top: "max_by rank (filter (\<lambda>r'. grp r' = grp r) rs) = Some r"
    using l G(1) by (simp add: latest_progress_def)
  show "rank q \<le> rank r" if "q \<in> set rs" "grp q = grp r" using max_by_max [OF top] that by simp
  show "latest_progress grp stamp rank (rs @ [q]) = Some r" if "grp q = grp r" "rank q \<le> rank r"
    using latest_group_late [OF G(1) that(1)] max_by_snoc_less [OF top that(2)] that(1)
    by (simp add: latest_progress_def)
  show "latest_progress grp stamp rank (filter P rs) = Some r"
    if "P r" "\<And>p q. p \<in> set rs \<Longrightarrow> q \<in> set rs \<Longrightarrow> grp p = grp q \<Longrightarrow> P p = P q" for P
  proof -
    have "latest_group grp stamp (filter P rs) = Some (grp r)"
      "filter (\<lambda>r'. grp r' = grp r) (filter P rs) = filter (\<lambda>r'. grp r' = grp r) rs"
      by (rule latest_group_restrict [where r = r and P = P, OF G refl that]; assumption)+
    then show ?thesis unfolding latest_progress_def by (simp only: option.case top)
  qed
  show "\<exists>q' \<in> set rs. grp q' = grp r \<and> stamp q \<le> stamp q'" if q: "q \<in> set rs"
  proof -
    let ?s = "\<lambda>g. newest_stamp stamp (filter (\<lambda>r. grp r = g) rs)"
    have "(?s (grp q), grp q) \<le> (?s (grp r), grp r)"
      using max_by_max [OF G(1) [unfolded latest_group_def]] q by simp
    then have "?s (grp q) \<le> ?s (grp r)" by (auto simp: less_eq_prod_def less_le)
    moreover have "stamp q \<le> ?s (grp q)" using q by (intro newest_stamp_ge) simp
    moreover have "filter (\<lambda>r'. grp r' = grp r) rs \<noteq> []" using G(2) by (auto simp: filter_empty_conv)
    from newest_stamp_attained [OF this, of stamp]
    obtain q' where "q' \<in> set rs" "grp q' = grp r" "?s (grp r) \<le> stamp q'" by auto
    ultimately show ?thesis by (auto intro: order_trans)
  qed
qed

end
