(* ===== verification/Mt_Historical.thy ===== *)
theory Mt_Historical
  imports Mt_Provenance
begin

section \<open>Historical completion\<close>

text \<open>
  \<open>control_plane/contracts/merge_train_historical_completion.py\<close>: the evidence that a batch the train
  never landed is nevertheless merged, as the host shows it. It is an observation and authorizes
  nothing. The literal fields with one value (classification, authority state, effect attempted) are
  not stored.
\<close>

definition historical_text :: "string \<Rightarrow> string \<Rightarrow> string res" where
  "historical_text value field_name =
     (if py_strip value = '''' then Inl (ValueError (field_name @ '' is required'')) else Inr (py_strip value))"

text \<open>Positions count from one without a gap, and no pull request occurs twice.\<close>

definition check_ordered_entries :: "nat list \<Rightarrow> nat list \<Rightarrow> string \<Rightarrow> unit res" where
  "check_ordered_entries positions numbers what =
     andThen (ensure (positions = [1..<Suc (length positions)])
       (ValueError (what @ '' positions must be ordered without gaps''))) (\<lambda>_.
     ensure (distinct numbers) (ValueError (what @ '' pull requests must be unique'')))"

definition check_entry_count :: "'a list \<Rightarrow> unit res" where
  "check_entry_count xs = ensure (1 \<le> length xs \<and> length xs \<le> 25)
     (ValueError ''entries must hold between 1 and 25 items'')"

subsection \<open>The selector of a disposition\<close>

record historical_entry_selector =
  hs_position :: nat
  hs_pull_request_number :: nat
  hs_expected_head_sha :: string
  hs_expected_head_tree_sha :: string

definition validate_entry_selector :: "historical_entry_selector \<Rightarrow> historical_entry_selector res" where
  "validate_entry_selector s =
     andThen (historical_text (hs_expected_head_sha s) ''expected_head_sha'') (\<lambda>sha.
     andThen (historical_text (hs_expected_head_tree_sha s) ''expected_head_tree_sha'') (\<lambda>tree.
     Inr (s\<lparr>hs_expected_head_sha := sha, hs_expected_head_tree_sha := tree\<rparr>)))"

record historical_selector =
  hl_expected_active_record_id :: string
  hl_expected_effect_sha :: string
  hl_expected_policy_sha256 :: string
  hl_expected_landing_plan_id :: string
  hl_expected_entries :: "historical_entry_selector list"

definition validate_historical_selector :: "historical_selector \<Rightarrow> historical_selector res" where
  "validate_historical_selector s =
     andThen (historical_text (hl_expected_active_record_id s) ''expected_active_record_id'') (\<lambda>rid.
     andThen (historical_text (hl_expected_effect_sha s) ''expected_effect_sha'') (\<lambda>eff.
     andThen (historical_text (hl_expected_policy_sha256 s) ''expected_policy_sha256'') (\<lambda>psha.
     andThen (historical_text (hl_expected_landing_plan_id s) ''expected_landing_plan_id'') (\<lambda>pid.
     andThen (check_entry_count (hl_expected_entries s)) (\<lambda>_.
     andThen (check_ordered_entries (map hs_position (hl_expected_entries s))
       (map hs_pull_request_number (hl_expected_entries s)) ''expected_entries'') (\<lambda>_.
     Inr (s\<lparr>hl_expected_active_record_id := rid, hl_expected_effect_sha := eff,
            hl_expected_policy_sha256 := psha, hl_expected_landing_plan_id := pid\<rparr>)))))))"

subsection \<open>Evidence\<close>

record historical_entry =
  he_pull_request_number :: nat
  he_position :: nat
  he_expected_head_sha :: string
  he_expected_head_tree_sha :: string
  he_expected_base_sha :: string
  he_expected_parent_tree_sha :: string
  he_expected_result_tree_sha :: string
  he_observed_head_sha :: string
  he_observed_head_tree_sha :: string
  he_observed_merge_commit_sha :: string
  he_observed_merge_commit_tree_sha :: string
  he_observed_parent_sha :: string
  he_observed_parent_tree_sha :: string
  he_base_contains_merge_commit :: bool

definition validate_historical_entry :: "historical_entry \<Rightarrow> historical_entry res" where
  "validate_historical_entry e =
     andThen (historical_text (he_expected_head_sha e) ''expected_head_sha'') (\<lambda>a.
     andThen (historical_text (he_expected_head_tree_sha e) ''expected_head_tree_sha'') (\<lambda>b.
     andThen (historical_text (he_expected_base_sha e) ''expected_base_sha'') (\<lambda>c.
     andThen (historical_text (he_expected_parent_tree_sha e) ''expected_parent_tree_sha'') (\<lambda>d.
     andThen (historical_text (he_expected_result_tree_sha e) ''expected_result_tree_sha'') (\<lambda>f.
     andThen (historical_text (he_observed_head_sha e) ''observed_head_sha'') (\<lambda>g.
     andThen (historical_text (he_observed_head_tree_sha e) ''observed_head_tree_sha'') (\<lambda>h.
     andThen (historical_text (he_observed_merge_commit_sha e) ''observed_merge_commit_sha'') (\<lambda>i.
     andThen (historical_text (he_observed_merge_commit_tree_sha e) ''observed_merge_commit_tree_sha'') (\<lambda>j.
     andThen (historical_text (he_observed_parent_sha e) ''observed_parent_sha'') (\<lambda>k.
     andThen (historical_text (he_observed_parent_tree_sha e) ''observed_parent_tree_sha'') (\<lambda>l.
     Inr (e\<lparr>he_expected_head_sha := a, he_expected_head_tree_sha := b, he_expected_base_sha := c,
            he_expected_parent_tree_sha := d, he_expected_result_tree_sha := f, he_observed_head_sha := g,
            he_observed_head_tree_sha := h, he_observed_merge_commit_sha := i,
            he_observed_merge_commit_tree_sha := j, he_observed_parent_sha := k,
            he_observed_parent_tree_sha := l\<rparr>))))))))))))"

record historical_provider_evidence =
  hp_observed_at :: string
  hp_observed_base_sha :: string
  hp_observed_base_tree_sha :: string
  hp_final_observed_base_sha :: string
  hp_entries :: "historical_entry list"

definition validate_provider_evidence ::
  "historical_provider_evidence \<Rightarrow> historical_provider_evidence res" where
  "validate_provider_evidence p =
     andThen (historical_text (hp_observed_at p) ''observed_at'') (\<lambda>at.
     andThen (historical_text (hp_observed_base_sha p) ''observed_base_sha'') (\<lambda>base.
     andThen (historical_text (hp_observed_base_tree_sha p) ''observed_base_tree_sha'') (\<lambda>tree.
     andThen (historical_text (hp_final_observed_base_sha p) ''final_observed_base_sha'') (\<lambda>final.
     andThen (check_entry_count (hp_entries p)) (\<lambda>_.
     andThen (check_ordered_entries (map he_position (hp_entries p))
       (map he_pull_request_number (hp_entries p)) ''entries'') (\<lambda>_.
     Inr (p\<lparr>hp_observed_at := at, hp_observed_base_sha := base, hp_observed_base_tree_sha := tree,
            hp_final_observed_base_sha := final\<rparr>)))))))"

record disposition_authorization =
  ha_actor_scope :: string
  ha_idempotency_key :: string
  ha_recorded_at :: string
  ha_action :: string
  ha_product :: string
  ha_context :: string
  ha_authz_policy_record_id :: string
  ha_authz_policy_revision :: nat
  ha_authz_policy_sha256 :: string
  ha_merge_policy_record_id :: string
  ha_merge_policy_sha256 :: string

definition validate_disposition_authorization ::
  "disposition_authorization \<Rightarrow> disposition_authorization res" where
  "validate_disposition_authorization a =
     andThen (historical_text (ha_actor_scope a) ''actor_scope'') (\<lambda>scope.
     andThen (historical_text (ha_idempotency_key a) ''idempotency_key'') (\<lambda>key.
     andThen (historical_text (ha_recorded_at a) ''recorded_at'') (\<lambda>at.
     andThen (historical_text (ha_action a) ''action'') (\<lambda>act.
     andThen (historical_text (ha_product a) ''product'') (\<lambda>product.
     andThen (historical_text (ha_context a) ''context'') (\<lambda>ctxt.
     andThen (historical_text (ha_authz_policy_record_id a) ''authz_policy_record_id'') (\<lambda>rid.
     andThen (ensure (1 \<le> ha_authz_policy_revision a)
       (ValueError ''authz_policy_revision must be positive'')) (\<lambda>_.
     andThen (historical_text (ha_authz_policy_sha256 a) ''authz_policy_sha256'') (\<lambda>asha.
     andThen (historical_text (ha_merge_policy_record_id a) ''merge_policy_record_id'') (\<lambda>mid.
     andThen (historical_text (ha_merge_policy_sha256 a) ''merge_policy_sha256'') (\<lambda>msha.
     Inr (a\<lparr>ha_actor_scope := scope, ha_idempotency_key := key, ha_recorded_at := at, ha_action := act,
            ha_product := product, ha_context := ctxt, ha_authz_policy_record_id := rid,
            ha_authz_policy_sha256 := asha, ha_merge_policy_record_id := mid,
            ha_merge_policy_sha256 := msha\<rparr>))))))))))))"

record historical_completion =
  hc_schema_version :: nat
  hc_source_landing_plan_record_id :: string
  hc_source_landing_plan_sha256 :: string
  hc_controller_key :: string
  hc_repository :: string
  hc_base_branch :: string
  hc_landing_plan_id :: string
  hc_batch_id :: string
  hc_candidate_sha :: string
  hc_candidate_sha256 :: string
  hc_policy_key :: string
  hc_policy_sha256 :: string
  hc_trace_id :: string
  hc_provider_evidence :: historical_provider_evidence
  hc_disposition_authorization :: "disposition_authorization option"

definition historical_completion_texts :: "historical_completion \<Rightarrow> historical_completion res" where
  "historical_completion_texts c =
     andThen (historical_text (hc_source_landing_plan_record_id c) ''source_landing_plan_record_id'') (\<lambda>a.
     andThen (historical_text (hc_source_landing_plan_sha256 c) ''source_landing_plan_sha256'') (\<lambda>b.
     andThen (historical_text (hc_controller_key c) ''controller_key'') (\<lambda>d.
     andThen (historical_text (hc_repository c) ''repository'') (\<lambda>e.
     andThen (historical_text (hc_base_branch c) ''base_branch'') (\<lambda>f.
     andThen (historical_text (hc_landing_plan_id c) ''landing_plan_id'') (\<lambda>g.
     andThen (historical_text (hc_batch_id c) ''batch_id'') (\<lambda>h.
     andThen (historical_text (hc_candidate_sha c) ''candidate_sha'') (\<lambda>i.
     andThen (historical_text (hc_candidate_sha256 c) ''candidate_sha256'') (\<lambda>j.
     andThen (historical_text (hc_policy_key c) ''policy_key'') (\<lambda>k.
     andThen (historical_text (hc_policy_sha256 c) ''policy_sha256'') (\<lambda>l.
     andThen (historical_text (hc_trace_id c) ''trace_id'') (\<lambda>m.
     Inr (c\<lparr>hc_source_landing_plan_record_id := a, hc_source_landing_plan_sha256 := b,
            hc_controller_key := d, hc_repository := e, hc_base_branch := f, hc_landing_plan_id := g,
            hc_batch_id := h, hc_candidate_sha := i, hc_candidate_sha256 := j, hc_policy_key := k,
            hc_policy_sha256 := l, hc_trace_id := m\<rparr>)))))))))))))"

definition validate_historical_completion :: "historical_completion \<Rightarrow> historical_completion res" where
  "validate_historical_completion c =
     andThen (ensure (hc_schema_version c = 1 \<or> hc_schema_version c = 2)
       (ValueError ''schema_version must be 1 or 2'')) (\<lambda>_.
     andThen (historical_completion_texts c) (\<lambda>c.
     andThen (ensure ((hc_schema_version c = 2) = (hc_disposition_authorization c \<noteq> None))
       (ValueError ''historical evidence schema2 requires disposition authorization'')) (\<lambda>_.
     andThen (ensure (case hc_disposition_authorization c of None \<Rightarrow> True
         | Some a \<Rightarrow> ha_merge_policy_sha256 a = hc_policy_sha256 c)
       (ValueError ''disposition authorization must match the selected plan policy'')) (\<lambda>_.
     Inr c))))"


subsection \<open>Dump\<close>

definition historical_entry_json :: "historical_entry \<Rightarrow> json" where
  "historical_entry_json e = JObj [
     (''pull_request_number'', json_nat (he_pull_request_number e)), (''position'', json_nat (he_position e)),
     (''expected_head_sha'', JStr (he_expected_head_sha e)),
     (''expected_head_tree_sha'', JStr (he_expected_head_tree_sha e)),
     (''expected_base_sha'', JStr (he_expected_base_sha e)),
     (''expected_parent_tree_sha'', JStr (he_expected_parent_tree_sha e)),
     (''expected_result_tree_sha'', JStr (he_expected_result_tree_sha e)),
     (''observed_head_sha'', JStr (he_observed_head_sha e)),
     (''observed_head_tree_sha'', JStr (he_observed_head_tree_sha e)),
     (''observed_merge_commit_sha'', JStr (he_observed_merge_commit_sha e)),
     (''observed_merge_commit_tree_sha'', JStr (he_observed_merge_commit_tree_sha e)),
     (''observed_parent_sha'', JStr (he_observed_parent_sha e)),
     (''observed_parent_tree_sha'', JStr (he_observed_parent_tree_sha e)),
     (''base_contains_merge_commit'', JBool (he_base_contains_merge_commit e))]"

definition provider_evidence_json :: "historical_provider_evidence \<Rightarrow> json" where
  "provider_evidence_json p = JObj [(''observed_at'', JStr (hp_observed_at p)),
     (''observed_base_sha'', JStr (hp_observed_base_sha p)),
     (''observed_base_tree_sha'', JStr (hp_observed_base_tree_sha p)),
     (''final_observed_base_sha'', JStr (hp_final_observed_base_sha p)),
     (''entries'', JArr (map historical_entry_json (hp_entries p))),
     (''provider_effect_attempted'', JBool False)]"

definition disposition_authorization_json :: "disposition_authorization \<Rightarrow> json" where
  "disposition_authorization_json a = JObj [(''actor_scope'', JStr (ha_actor_scope a)),
     (''idempotency_key'', JStr (ha_idempotency_key a)), (''recorded_at'', JStr (ha_recorded_at a)),
     (''action'', JStr (ha_action a)), (''product'', JStr (ha_product a)), (''context'', JStr (ha_context a)),
     (''authz_policy_record_id'', JStr (ha_authz_policy_record_id a)),
     (''authz_policy_revision'', json_nat (ha_authz_policy_revision a)),
     (''authz_policy_sha256'', JStr (ha_authz_policy_sha256 a)),
     (''merge_policy_record_id'', JStr (ha_merge_policy_record_id a)),
     (''merge_policy_sha256'', JStr (ha_merge_policy_sha256 a))]"

definition historical_completion_json :: "historical_completion \<Rightarrow> json" where
  "historical_completion_json c = JObj ([
     (''schema_version'', json_nat (hc_schema_version c)),
     (''classification'', JStr ''observed_merged_without_admission''),
     (''authority_state'', JStr ''observation_only''),
     (''source_landing_plan_record_id'', JStr (hc_source_landing_plan_record_id c)),
     (''source_landing_plan_sha256'', JStr (hc_source_landing_plan_sha256 c)),
     (''controller_key'', JStr (hc_controller_key c)), (''repository'', JStr (hc_repository c)),
     (''base_branch'', JStr (hc_base_branch c)), (''landing_plan_id'', JStr (hc_landing_plan_id c)),
     (''batch_id'', JStr (hc_batch_id c)), (''candidate_sha'', JStr (hc_candidate_sha c)),
     (''candidate_sha256'', JStr (hc_candidate_sha256 c)), (''policy_key'', JStr (hc_policy_key c)),
     (''policy_sha256'', JStr (hc_policy_sha256 c)), (''trace_id'', JStr (hc_trace_id c)),
     (''provider_evidence'', provider_evidence_json (hc_provider_evidence c))]
   @ (case hc_disposition_authorization c of None \<Rightarrow> []
      | Some a \<Rightarrow> [(''disposition_authorization'', disposition_authorization_json a)]))"

end
