(* ===== verification/Mt_Batch.thy ===== *)
theory Mt_Batch
  imports Mt_Historical Mt_Collapse Mt_Plan
begin

section \<open>Batch candidates and landing plans\<close>

text \<open>
  \<open>control_plane/contracts/merge_train_batch.py\<close>: the candidate a train builds from its queue, the plan
  by which a passed candidate lands, and the durable records of both, with their validators, builders,
  ids and digests. Constraints of single fields that pydantic checks (positive numbers, patterns,
  lengths) are in the types or not modelled. A builder that validates a dump again runs the validators
  of the nested models a second time; the model runs the outer ones, the nested values have passed.
\<close>

subsection \<open>Statuses\<close>

datatype candidate_status =
  Cand_planned | Cand_building | Cand_ready_for_checks | Cand_passed | Cand_failed | Cand_stale | Cand_blocked

datatype batch_record_status = Br_active | Br_superseded

datatype landing_status = Land_planned | Land_merging | Land_merged | Land_blocked | Land_stale | Land_skipped

datatype held_out_reason = Held_entry_conflict | Held_failure_isolation | Held_dependency_not_ready

datatype candidate_checks = Cc_unknown | Cc_pending | Cc_pass | Cc_fail

fun candidate_status_str :: "candidate_status \<Rightarrow> string" where
  "candidate_status_str Cand_planned = ''planned''"
| "candidate_status_str Cand_building = ''building''"
| "candidate_status_str Cand_ready_for_checks = ''ready_for_checks''"
| "candidate_status_str Cand_passed = ''passed''"
| "candidate_status_str Cand_failed = ''failed''"
| "candidate_status_str Cand_stale = ''stale''"
| "candidate_status_str Cand_blocked = ''blocked''"

fun landing_status_str :: "landing_status \<Rightarrow> string" where
  "landing_status_str Land_planned = ''planned''"
| "landing_status_str Land_merging = ''merging''"
| "landing_status_str Land_merged = ''merged''"
| "landing_status_str Land_blocked = ''blocked''"
| "landing_status_str Land_stale = ''stale''"
| "landing_status_str Land_skipped = ''skipped''"

fun held_out_reason_str :: "held_out_reason \<Rightarrow> string" where
  "held_out_reason_str Held_entry_conflict = ''entry_conflict''"
| "held_out_reason_str Held_failure_isolation = ''failure_isolation''"
| "held_out_reason_str Held_dependency_not_ready = ''dependency_not_ready''"

fun candidate_checks_str :: "candidate_checks \<Rightarrow> string" where
  "candidate_checks_str Cc_unknown = ''unknown''"
| "candidate_checks_str Cc_pending = ''pending''"
| "candidate_checks_str Cc_pass = ''pass''"
| "candidate_checks_str Cc_fail = ''fail''"

subsection \<open>Entries\<close>

record batch_entry =
  be_pull_request_number :: nat
  be_position :: nat
  be_head_sha :: string
  be_head_tree_sha :: string
  be_impact_status :: impact_status
  be_affected_subjects :: "structural_subject list"
  be_title :: string
  be_url :: string

definition validate_batch_entry :: "batch_entry \<Rightarrow> batch_entry res" where
  "validate_batch_entry e =
     andThen (required_text (be_head_sha e) ''merge train batch entry requires head_sha'') (\<lambda>sha.
     let subjects = normalize_subjects (be_affected_subjects e) in
     andThen (ensure (\<not> (be_impact_status e = Impact_unknown \<and> subjects \<noteq> []))
       (ValueError ''unknown merge train batch impact cannot carry affected subjects'')) (\<lambda>_.
     Inr (e\<lparr>be_head_sha := sha, be_head_tree_sha := py_strip (be_head_tree_sha e),
            be_affected_subjects := subjects, be_title := py_strip (be_title e),
            be_url := py_strip (be_url e)\<rparr>)))"

record held_out_entry =
  ho_pull_request_number :: nat
  ho_head_sha :: string
  ho_reason :: held_out_reason
  ho_conflicts_with :: "nat list"
  ho_probe_base_sha :: string
  ho_conflicts_with_head_shas :: "string list"

definition validate_held_out_entry :: "held_out_entry \<Rightarrow> held_out_entry res" where
  "validate_held_out_entry h =
     andThen (required_text (ho_head_sha h) ''merge train held-out entry requires head_sha'') (\<lambda>sha.
     let probe = py_strip (ho_probe_base_sha h) in
     andThen (ensure (\<not> (truthy probe
           \<and> length (ho_conflicts_with h) \<noteq> length (ho_conflicts_with_head_shas h)))
       (ValueError ''conflict probe lineage requires every preceding head'')) (\<lambda>_.
     andThen (ensure (\<not> (ho_conflicts_with_head_shas h \<noteq> [] \<and> \<not> truthy probe))
       (ValueError ''conflict probe lineage requires its base'')) (\<lambda>_.
     andThen (ensure (\<not> (\<exists>head \<in> set (ho_conflicts_with_head_shas h). \<not> truthy (py_strip head)))
       (ValueError ''conflict probe lineage requires nonempty preceding heads'')) (\<lambda>_.
     andThen (ensure (\<not> (ho_reason h \<noteq> Held_entry_conflict
           \<and> (\<not> truthy probe \<or> ho_conflicts_with h \<noteq> [] \<or> ho_conflicts_with_head_shas h \<noteq> [])))
       (ValueError (held_out_reason_str (ho_reason h) @ '' hold requires its base and no conflict lineage''))) (\<lambda>_.
     Inr (h\<lparr>ho_head_sha := sha, ho_probe_base_sha := probe\<rparr>))))))"

subsection \<open>Candidates\<close>

record reused_check =
  rc_name :: string
  rc_app_id :: "nat option"
  rc_sources :: "string list"

record head_check_reuse =
  hr_pull_request_number :: nat
  hr_head_sha :: string
  hr_tree_sha :: string
  hr_base_sha :: string
  hr_candidate_sha :: string
  hr_observed_at :: string
  hr_required_checks :: "reused_check list"

record check_retry_evidence =
  re_candidate_sha :: string
  re_controller_pass_recorded_at :: string
  re_closed_batch_pull_request_number :: nat

record batch_candidate =
  ba_batch_id :: string
  ba_repository :: string
  ba_base_branch :: string
  ba_base_sha :: string
  ba_policy_key :: string
  ba_policy_sha256 :: string
  ba_candidate_ref :: string
  ba_candidate_sha :: string
  ba_candidate_tree_sha :: string
  ba_candidate_sha256 :: string
  ba_status :: candidate_status
  ba_entries :: "batch_entry list"
  ba_held_out :: "held_out_entry list"
  ba_batch_body_retry_of :: string
  ba_infrastructure_retry_of :: string
  ba_check_retry_of :: string
  ba_check_retry_evidence :: "check_retry_evidence option"
  ba_check_rerun_attempts :: "(nat \<times> nat) list"
  ba_check_rerun_requested_at :: string
  ba_stack_collapse_root :: "stack_root_proof option"
  ba_structural_provenance :: "structural_provenance option"
  ba_required_checks_status :: candidate_checks
  ba_required_checks_observation_error :: string
  ba_head_check_reuse :: "head_check_reuse option"
  ba_created_at :: string
  ba_updated_at :: string

definition normalize_batch_repository :: "string \<Rightarrow> string res" where
  "normalize_batch_repository repository =
     andThen (required_text repository ''merge train batch requires repository'') (\<lambda>r.
     if owner_name_shape (py_lower r) then Inr (py_lower r)
     else Inl (ValueError ''merge train batch repository must be owner/name''))"

definition normalize_batch_entries :: "batch_entry list \<Rightarrow> batch_entry list res" where
  "normalize_batch_entries entries =
     andThen (ensure (entries \<noteq> []) (ValueError ''merge train batch candidate requires entries'')) (\<lambda>_.
     andThen (ensure (map be_position entries = [1..<Suc (length entries)])
       (ValueError ''merge train batch candidate positions must be contiguous'')) (\<lambda>_.
     andThen (ensure (distinct (map be_pull_request_number entries))
       (ValueError ''merge train batch candidate PR numbers must be unique'')) (\<lambda>_.
     Inr entries)))"

definition check_head_reuse :: "batch_candidate \<Rightarrow> unit res" where
  "check_head_reuse c = (case ba_head_check_reuse c of None \<Rightarrow> Inr ()
     | Some reuse \<Rightarrow>
       andThen (ensure (case ba_entries c of
           [e] \<Rightarrow> (hr_pull_request_number reuse, hr_head_sha reuse, hr_tree_sha reuse, hr_base_sha reuse,
                   hr_candidate_sha reuse)
                = (be_pull_request_number e, be_head_sha e, be_head_tree_sha e, ba_base_sha c,
                   ba_candidate_sha c) \<and> hr_tree_sha reuse = ba_candidate_tree_sha c
         | _ \<Rightarrow> False)
         (ValueError ''head-check reuse must bind the exact single-entry candidate tree'')) (\<lambda>_.
       ensure (\<not> (\<exists>check \<in> set (hr_required_checks reuse).
             \<not> truthy (py_strip (rc_name check)) \<or> rc_sources check = []))
         (ValueError ''head-check reuse requires passing check sources'')))"

definition entry_identity ::
  "batch_entry \<Rightarrow> nat \<times> nat \<times> string \<times> string \<times> impact_status \<times> structural_subject list" where
  "entry_identity e = (be_position e, be_pull_request_number e, be_head_sha e, be_head_tree_sha e,
     be_impact_status e, be_affected_subjects e)"

definition binding_identity ::
  "entry_binding \<Rightarrow> nat \<times> nat \<times> string \<times> string \<times> impact_status \<times> structural_subject list" where
  "binding_identity b = (eb_position b, eb_pull_request_number b, eb_head_sha b, eb_head_tree_sha b,
     eb_impact_status b, eb_affected_subjects b)"

text \<open>The candidate's digest is the one of its provenance, where it has one.\<close>

definition bind_provenance :: "batch_candidate \<Rightarrow> batch_candidate res" where
  "bind_provenance c = (case ba_structural_provenance c of None \<Rightarrow> Inr c
     | Some p \<Rightarrow>
       andThen (ensure (\<not> (\<not> provenance_complete p
             \<and> \<not> (ba_status c = Cand_planned \<or> ba_status c = Cand_building)))
         (ValueError ''completed batch candidate requires complete structural provenance'')) (\<lambda>_.
       andThen (ensure (py_casefold (sp_repository p) = py_casefold (ba_repository c)
             \<and> sp_base_branch p = ba_base_branch c \<and> sp_base_sha p = ba_base_sha c
             \<and> sp_policy_key p = ba_policy_key c \<and> sp_policy_sha256 p = ba_policy_sha256 c
             \<and> sp_candidate_sha p = ba_candidate_sha c \<and> sp_candidate_tree_sha p = ba_candidate_tree_sha c
             \<and> sp_stack_collapse_root p = ba_stack_collapse_root c)
         (ValueError ''batch candidate identity does not match structural provenance'')) (\<lambda>_.
       andThen (ensure (map binding_identity (sp_entries p) = map entry_identity (ba_entries c))
         (ValueError ''batch candidate entries do not match structural provenance'')) (\<lambda>_.
       andThen (ensure (\<not> (truthy (ba_candidate_sha256 c) \<and> ba_candidate_sha256 c \<noteq> sp_candidate_sha256 p))
         (ValueError ''batch candidate digest does not match structural provenance'')) (\<lambda>_.
       Inr (c\<lparr>ba_candidate_sha256 := sp_candidate_sha256 p\<rparr>))))))"

definition validate_batch_candidate :: "batch_candidate \<Rightarrow> batch_candidate res" where
  "validate_batch_candidate c =
     andThen (required_text (ba_batch_id c) ''merge train batch candidate requires batch_id'') (\<lambda>bid.
     andThen (normalize_batch_repository (ba_repository c)) (\<lambda>repo.
     andThen (required_text (ba_base_branch c) ''merge train batch candidate requires base_branch'') (\<lambda>branch.
     andThen (required_text (ba_base_sha c) ''merge train batch candidate requires base_sha'') (\<lambda>base.
     andThen (required_text (ba_policy_key c) ''merge train batch candidate requires policy_key'') (\<lambda>pkey.
     andThen (required_text (ba_policy_sha256 c) ''merge train batch candidate requires policy_sha256'') (\<lambda>psha.
     andThen (required_text (ba_candidate_ref c) ''merge train batch candidate requires candidate_ref'') (\<lambda>ref.
     andThen (required_text (ba_created_at c) ''merge train batch candidate requires created_at'') (\<lambda>created.
     andThen (required_text (ba_updated_at c) ''merge train batch candidate requires updated_at'') (\<lambda>upd.
     andThen (normalize_batch_entries (ba_entries c)) (\<lambda>entries.
     let c = c\<lparr>ba_batch_id := bid, ba_repository := repo, ba_base_branch := branch, ba_base_sha := base,
            ba_policy_key := pkey, ba_policy_sha256 := psha, ba_candidate_ref := ref,
            ba_candidate_sha := py_strip (ba_candidate_sha c),
            ba_candidate_tree_sha := py_strip (ba_candidate_tree_sha c),
            ba_candidate_sha256 := py_lower (py_strip (ba_candidate_sha256 c)),
            ba_created_at := created, ba_updated_at := upd, ba_entries := entries\<rparr> in
     andThen (check_head_reuse c) (\<lambda>_. bind_provenance c)))))))))))"


subsection \<open>Landing plans\<close>

record landing_entry =
  le_pull_request_number :: nat
  le_position :: nat
  le_expected_head_sha :: string
  le_expected_head_tree_sha :: string
  le_expected_base_sha :: string
  le_merge_method :: merge_method
  le_status :: landing_status
  le_recorded_candidate_parent_sha :: string
  le_recorded_candidate_parent_tree_sha :: string
  le_recorded_candidate_result_sha :: string
  le_recorded_candidate_result_tree_sha :: string
  le_recorded_rolling_base_sha :: string
  le_recorded_rolling_base_tree_sha :: string
  le_landed_head_sha :: string
  le_landed_head_tree_sha :: string
  le_merge_commit_sha :: string
  le_merge_commit_tree_sha :: string

definition strip_landing_entry :: "landing_entry \<Rightarrow> landing_entry" where
  "strip_landing_entry e = e\<lparr>
     le_expected_head_tree_sha := py_strip (le_expected_head_tree_sha e),
     le_recorded_candidate_parent_sha := py_strip (le_recorded_candidate_parent_sha e),
     le_recorded_candidate_parent_tree_sha := py_strip (le_recorded_candidate_parent_tree_sha e),
     le_recorded_candidate_result_sha := py_strip (le_recorded_candidate_result_sha e),
     le_recorded_candidate_result_tree_sha := py_strip (le_recorded_candidate_result_tree_sha e),
     le_recorded_rolling_base_sha := py_strip (le_recorded_rolling_base_sha e),
     le_recorded_rolling_base_tree_sha := py_strip (le_recorded_rolling_base_tree_sha e),
     le_landed_head_sha := py_strip (le_landed_head_sha e),
     le_landed_head_tree_sha := py_strip (le_landed_head_tree_sha e),
     le_merge_commit_sha := py_strip (le_merge_commit_sha e),
     le_merge_commit_tree_sha := py_strip (le_merge_commit_tree_sha e)\<rparr>"

definition landing_evidence :: "landing_entry \<Rightarrow> string list" where
  "landing_evidence e = [le_recorded_rolling_base_sha e, le_recorded_rolling_base_tree_sha e,
     le_landed_head_sha e, le_landed_head_tree_sha e, le_merge_commit_sha e, le_merge_commit_tree_sha e]"

definition check_skipped_entry :: "landing_entry \<Rightarrow> unit res" where
  "check_skipped_entry e =
     andThen (ensure (list_all truthy ([le_recorded_candidate_parent_sha e,
           le_recorded_candidate_parent_tree_sha e, le_recorded_candidate_result_sha e,
           le_recorded_candidate_result_tree_sha e] @ landing_evidence e))
       (ValueError ''skipped batch landing entry requires complete Git evidence'')) (\<lambda>_.
     andThen (ensure (le_merge_commit_sha e = le_recorded_rolling_base_sha e
           \<and> le_merge_commit_tree_sha e = le_recorded_rolling_base_tree_sha e)
       (ValueError ''skipped batch landing entry must preserve its rolling parent'')) (\<lambda>_.
     ensure (le_recorded_candidate_parent_sha e = le_recorded_candidate_result_sha e
           \<and> le_recorded_candidate_parent_tree_sha e = le_recorded_candidate_result_tree_sha e)
       (ValueError ''skipped batch landing entry requires a recorded candidate no-op'')))"

definition validate_landing_entry :: "landing_entry \<Rightarrow> landing_entry res" where
  "validate_landing_entry e =
     andThen (required_text (le_expected_head_sha e)
       ''merge train batch landing entry requires expected_head_sha'') (\<lambda>head.
     andThen (required_text (le_expected_base_sha e)
       ''merge train batch landing entry requires expected_base_sha'') (\<lambda>base.
     let e = (strip_landing_entry e)\<lparr>le_expected_head_sha := head, le_expected_base_sha := base\<rparr> in
     andThen (if le_status e = Land_skipped then check_skipped_entry e else Inr ()) (\<lambda>_. Inr e)))"

record landing_plan =
  lp_plan_id :: string
  lp_batch_id :: string
  lp_repository :: string
  lp_base_branch :: string
  lp_candidate_ref :: string
  lp_candidate_sha :: string
  lp_candidate_tree_sha :: string
  lp_candidate_sha256 :: string
  lp_structural_provenance_sha256 :: string
  lp_policy_key :: string
  lp_policy_sha256 :: string
  lp_entries :: "landing_entry list"
  lp_created_at :: string
  lp_landing_plan_sha256 :: string
  lp_candidate_pull_request_number :: "nat option"

text \<open>The part of an entry that the plan's digest covers, and the part that records its progress.\<close>

definition landing_entry_plan_items :: "landing_entry \<Rightarrow> json_object" where
  "landing_entry_plan_items e = [
     (''pull_request_number'', json_nat (le_pull_request_number e)),
     (''position'', json_nat (le_position e)),
     (''expected_head_sha'', JStr (le_expected_head_sha e)),
     (''expected_head_tree_sha'', JStr (le_expected_head_tree_sha e)),
     (''expected_base_sha'', JStr (le_expected_base_sha e)),
     (''merge_method'', JStr (merge_method_str (le_merge_method e))),
     (''recorded_candidate_parent_sha'', JStr (le_recorded_candidate_parent_sha e)),
     (''recorded_candidate_parent_tree_sha'', JStr (le_recorded_candidate_parent_tree_sha e)),
     (''recorded_candidate_result_sha'', JStr (le_recorded_candidate_result_sha e)),
     (''recorded_candidate_result_tree_sha'', JStr (le_recorded_candidate_result_tree_sha e))]"

definition landing_entry_progress_items :: "landing_entry \<Rightarrow> json_object" where
  "landing_entry_progress_items e = [
     (''status'', JStr (landing_status_str (le_status e))),
     (''recorded_rolling_base_sha'', JStr (le_recorded_rolling_base_sha e)),
     (''recorded_rolling_base_tree_sha'', JStr (le_recorded_rolling_base_tree_sha e)),
     (''landed_head_sha'', JStr (le_landed_head_sha e)),
     (''landed_head_tree_sha'', JStr (le_landed_head_tree_sha e)),
     (''merge_commit_sha'', JStr (le_merge_commit_sha e)),
     (''merge_commit_tree_sha'', JStr (le_merge_commit_tree_sha e))]"

definition landing_entry_json :: "landing_entry \<Rightarrow> json" where
  "landing_entry_json e = JObj (landing_entry_plan_items e @ landing_entry_progress_items e)"

definition candidate_number_item :: "landing_plan \<Rightarrow> json_object" where
  "candidate_number_item p = (case lp_candidate_pull_request_number p of None \<Rightarrow> []
     | Some n \<Rightarrow> [(''candidate_pull_request_number'', json_nat n)])"

definition landing_plan_items :: "landing_plan \<Rightarrow> json_object" where
  "landing_plan_items p = [
     (''batch_id'', JStr (lp_batch_id p)), (''repository'', JStr (lp_repository p)),
     (''base_branch'', JStr (lp_base_branch p)), (''candidate_ref'', JStr (lp_candidate_ref p)),
     (''candidate_sha'', JStr (lp_candidate_sha p)),
     (''candidate_tree_sha'', JStr (lp_candidate_tree_sha p)),
     (''candidate_sha256'', JStr (lp_candidate_sha256 p)),
     (''structural_provenance_sha256'', JStr (lp_structural_provenance_sha256 p)),
     (''policy_key'', JStr (lp_policy_key p)), (''policy_sha256'', JStr (lp_policy_sha256 p))]
   @ candidate_number_item p"

definition landing_plan_sha256 :: "landing_plan \<Rightarrow> string" where
  "landing_plan_sha256 p = compact_sorted_json_sha256 (JObj (landing_plan_items p
     @ [(''entries'', JArr (map (JObj \<circ> landing_entry_plan_items) (lp_entries p)))]))"

definition landing_plan_json_items :: "landing_plan \<Rightarrow> json_object" where
  "landing_plan_json_items p = landing_plan_items p
     @ [(''entries'', JArr (map landing_entry_json (lp_entries p))),
        (''created_at'', JStr (lp_created_at p)),
        (''landing_plan_sha256'', JStr (lp_landing_plan_sha256 p))]"

definition check_protected_landing :: "landing_plan \<Rightarrow> unit res" where
  "check_protected_landing p = (case lp_candidate_pull_request_number p of None \<Rightarrow> Inr ()
     | Some n \<Rightarrow>
       andThen (ensure (\<not> (\<exists>e \<in> set (lp_entries p). le_merge_method e \<noteq> Method_merge))
         (ValueError ''protected batch PR landing requires merge-method entries'')) (\<lambda>_.
       ensure (n \<notin> set (map le_pull_request_number (lp_entries p)))
         (ValueError ''batch PR must be distinct from its constituent pull requests'')))"

definition landing_plan_texts :: "landing_plan \<Rightarrow> landing_plan res" where
  "landing_plan_texts p =
     andThen (required_text (lp_plan_id p) ''merge train batch landing plan requires plan_id'') (\<lambda>pid.
     andThen (required_text (lp_batch_id p) ''merge train batch landing plan requires batch_id'') (\<lambda>bid.
     andThen (normalize_batch_repository (lp_repository p)) (\<lambda>repo.
     andThen (required_text (lp_base_branch p) ''merge train batch landing plan requires base_branch'') (\<lambda>branch.
     andThen (required_text (lp_candidate_ref p) ''merge train batch landing plan requires candidate_ref'') (\<lambda>ref.
     andThen (required_text (lp_candidate_sha p) ''merge train batch landing plan requires candidate_sha'') (\<lambda>sha.
     andThen (required_text (lp_policy_key p) ''merge train batch landing plan requires policy_key'') (\<lambda>pkey.
     andThen (required_text (lp_policy_sha256 p) ''merge train batch landing plan requires policy_sha256'') (\<lambda>psha.
     andThen (required_text (lp_created_at p) ''merge train batch landing plan requires created_at'') (\<lambda>created.
     Inr (p\<lparr>lp_plan_id := pid, lp_batch_id := bid, lp_repository := repo, lp_base_branch := branch,
            lp_candidate_ref := ref, lp_candidate_sha := sha,
            lp_candidate_tree_sha := py_strip (lp_candidate_tree_sha p),
            lp_candidate_sha256 := py_lower (py_strip (lp_candidate_sha256 p)),
            lp_structural_provenance_sha256 := py_lower (py_strip (lp_structural_provenance_sha256 p)),
            lp_policy_key := pkey, lp_policy_sha256 := psha, lp_created_at := created\<rparr>))))))))))"

definition validate_landing_plan :: "landing_plan \<Rightarrow> landing_plan res" where
  "validate_landing_plan p =
     andThen (landing_plan_texts p) (\<lambda>p.
     andThen (ensure (lp_entries p \<noteq> []) (ValueError ''merge train batch landing plan requires entries'')) (\<lambda>_.
     andThen (ensure (map le_position (lp_entries p) = [1..<Suc (length (lp_entries p))])
       (ValueError ''merge train batch landing plan positions must be contiguous'')) (\<lambda>_.
     andThen (check_protected_landing p) (\<lambda>_.
     andThen (check_digest (lp_landing_plan_sha256 p) (landing_plan_sha256 p)
       ''merge train batch landing plan digest does not match payload'') (\<lambda>_.
     Inr (p\<lparr>lp_landing_plan_sha256 := landing_plan_sha256 p\<rparr>))))))"


subsection \<open>Records\<close>

record block_intent =
  bi_label :: string
  bi_prior_label_event_id :: nat
  bi_applied_label_event_id :: "nat option"
  bi_writer_app_id :: "nat option"
  bi_applied_label_actor_id :: "nat option"
  bi_label_write_succeeded :: bool
  bi_source_failed_record_id :: string

record candidate_record =
  cn_ordinary_job_binding :: "job_binding option"
  cn_schema_version :: nat
  cn_record_id :: string
  cn_status :: batch_record_status
  cn_source :: string
  cn_updated_at :: string
  cn_candidate :: batch_candidate
  cn_block_intent :: "block_intent option"

definition validate_candidate_record :: "candidate_record \<Rightarrow> candidate_record res" where
  "validate_candidate_record r =
     andThen (required_text (cn_record_id r) ''merge train batch candidate record requires record_id'') (\<lambda>rid.
     andThen (required_text (cn_source r) ''merge train batch candidate record requires source'') (\<lambda>src.
     andThen (required_text (cn_updated_at r) ''merge train batch candidate record requires updated_at'') (\<lambda>upd.
     Inr (r\<lparr>cn_record_id := rid, cn_source := src, cn_updated_at := upd\<rparr>))))"

record landing_record =
  ln_ordinary_job_binding :: "job_binding option"
  ln_schema_version :: nat
  ln_record_id :: string
  ln_status :: batch_record_status
  ln_source :: string
  ln_updated_at :: string
  ln_landing_plan :: landing_plan
  ln_historical_completion :: "historical_completion option"

definition check_historical_identity :: "landing_record \<Rightarrow> historical_completion \<Rightarrow> unit res" where
  "check_historical_identity r h =
     (let p = ln_landing_plan r in
      andThen (build_controller_key (lp_repository p) (lp_base_branch p)) (\<lambda>key.
      ensure (hc_source_landing_plan_sha256 h = lp_landing_plan_sha256 p \<and> hc_controller_key h = key
          \<and> py_casefold (hc_repository h) = py_casefold (lp_repository p)
          \<and> hc_base_branch h = lp_base_branch p \<and> hc_landing_plan_id h = lp_plan_id p
          \<and> hc_batch_id h = lp_batch_id p \<and> hc_candidate_sha h = lp_candidate_sha p
          \<and> hc_candidate_sha256 h = lp_candidate_sha256 p \<and> hc_policy_key h = lp_policy_key p
          \<and> hc_policy_sha256 h = lp_policy_sha256 p)
        (ValueError ''historical completion identity does not match landing plan'')))"

definition check_historical_entry :: "landing_entry \<times> historical_entry \<Rightarrow> unit res" where
  "check_historical_entry pair = (case pair of (e, o') \<Rightarrow>
     andThen (ensure ((le_pull_request_number e, le_position e, le_expected_head_sha e,
           le_expected_head_tree_sha e, le_expected_base_sha e)
         = (he_pull_request_number o', he_position o', he_expected_head_sha o',
           he_expected_head_tree_sha o', he_expected_base_sha o'))
       (ValueError ''historical completion entry identity does not match landing plan'')) (\<lambda>_.
     andThen (ensure (he_observed_head_sha o' = he_expected_head_sha o'
           \<and> he_observed_head_tree_sha o' = he_expected_head_tree_sha o')
       (ValueError ''historical completion observed head does not match landing plan'')) (\<lambda>_.
     andThen (ensure (he_base_contains_merge_commit o')
       (ValueError ''historical completion requires observed merged base evidence'')) (\<lambda>_.
     andThen (ensure (\<not> (truthy (le_recorded_candidate_parent_tree_sha e)
           \<and> le_recorded_candidate_parent_tree_sha e \<noteq> he_expected_parent_tree_sha o'))
       (ValueError ''historical completion parent tree does not match landing plan'')) (\<lambda>_.
     ensure (\<not> (truthy (le_recorded_candidate_result_tree_sha e)
           \<and> le_recorded_candidate_result_tree_sha e \<noteq> he_expected_result_tree_sha o'))
       (ValueError ''historical completion result tree does not match landing plan''))))))"

definition check_historical_completion :: "landing_record \<Rightarrow> historical_completion \<Rightarrow> unit res" where
  "check_historical_completion r h =
     (let entries = lp_entries (ln_landing_plan r); observed = hp_entries (hc_provider_evidence h) in
      andThen (ensure (ln_schema_version r = 2)
        (ValueError ''historical completion requires merge train landing plan record schema_version 2'')) (\<lambda>_.
      andThen (ensure (ln_ordinary_job_binding r = None)
        (ValueError ''historical completion cannot be attached to an ordinary record'')) (\<lambda>_.
      andThen (ensure (hc_source_landing_plan_record_id h \<noteq> ln_record_id r)
        (ValueError ''historical completion source record must differ from new record'')) (\<lambda>_.
      andThen (check_historical_identity r h) (\<lambda>_.
      andThen (ensure (\<not> (\<exists>e \<in> set entries. le_status e \<noteq> Land_stale \<or> truthy (le_landed_head_sha e)
            \<or> truthy (le_landed_head_tree_sha e) \<or> truthy (le_merge_commit_sha e)
            \<or> truthy (le_merge_commit_tree_sha e)))
        (ValueError ''historical completion requires stale entries without landed merge evidence'')) (\<lambda>_.
      andThen (ensure (length observed = length entries)
        (ValueError ''historical completion entry count does not match landing plan'')) (\<lambda>_.
      andThen (mapM check_historical_entry (zip entries observed)) (\<lambda>_. Inr ()))))))))"

definition validate_landing_record :: "landing_record \<Rightarrow> landing_record res" where
  "validate_landing_record r =
     andThen (required_text (ln_record_id r) ''merge train batch landing plan record requires record_id'') (\<lambda>rid.
     andThen (required_text (ln_source r) ''merge train batch landing plan record requires source'') (\<lambda>src.
     andThen (required_text (ln_updated_at r) ''merge train batch landing plan record requires updated_at'') (\<lambda>upd.
     let r = r\<lparr>ln_record_id := rid, ln_source := src, ln_updated_at := upd\<rparr> in
     andThen (case ln_historical_completion r of None \<Rightarrow> Inr ()
       | Some h \<Rightarrow> check_historical_completion r h) (\<lambda>_. Inr r))))"

subsection \<open>Building candidates\<close>

definition build_batch_id :: "string \<Rightarrow> string \<Rightarrow> string \<Rightarrow> string list \<Rightarrow> string res" where
  "build_batch_id repository base_branch base_sha shas =
     andThen (normalize_batch_repository repository) (\<lambda>repo.
     andThen (required_text base_branch ''merge train batch id requires base_branch'') (\<lambda>branch.
     andThen (required_text base_sha ''merge train batch id requires base_sha'') (\<lambda>base.
     andThen (mapM (\<lambda>sha. required_text sha ''merge train batch id requires head sha'') shas) (\<lambda>shas.
     Inr (''merge-train-batch-'' @ replace_char (CHR ''/'') ''-'' repo @ ''-''
        @ replace_char (CHR ''/'') ''-'' branch @ ''-''
        @ take 16 (compact_sorted_json_sha256 (JObj [(''base_sha'', JStr base),
            (''entry_head_shas'', JArr (map JStr shas))])))))))"

definition build_candidate_ref :: "string \<Rightarrow> string \<Rightarrow> string \<Rightarrow> string res" where
  "build_candidate_ref repository base_branch batch_id =
     andThen (normalize_batch_repository repository) (\<lambda>repo.
     andThen (required_text base_branch ''merge train batch candidate ref requires base_branch'') (\<lambda>branch.
     andThen (required_text batch_id ''merge train batch candidate ref requires batch_id'') (\<lambda>bid.
     Inr (''refs/heads/launchplane/train/'' @ repo @ ''/''
        @ replace_char (CHR ''/'') ''-'' branch @ ''/'' @ bid))))"

definition build_ordinary_candidate_ref :: "job_binding \<Rightarrow> string \<Rightarrow> string" where
  "build_ordinary_candidate_ref binding batch_id =
     ''refs/heads/launchplane/train/ordinary/'' @ compact_sorted_json_sha256 (JObj [
        (''binding'', job_binding_json binding), (''batch_id'', JStr batch_id)])"

definition dependency_not_ready_holds :: "dry_run_result \<Rightarrow> string \<Rightarrow> held_out_entry list res" where
  "dependency_not_ready_holds result base_sha =
     mapM (\<lambda>e. validate_held_out_entry \<lparr>ho_pull_request_number = qe_number e, ho_head_sha = qe_head_sha e,
             ho_reason = Held_dependency_not_ready, ho_conflicts_with = [], ho_probe_base_sha = base_sha,
             ho_conflicts_with_head_shas = []\<rparr>)
       (filter (\<lambda>e. length (qe_ineligible_reasons e) = 1
               \<and> hd (qe_ineligible_reasons e) \<in> DEPENDENCY_HEAD_HOLD_REASONS) (dr_queue result))"

text \<open>The entries of the queue order; the later entry of a number would win in the source's dict.\<close>

definition batch_entry_of :: "dry_run_result \<Rightarrow> nat \<times> nat \<Rightarrow> batch_entry res" where
  "batch_entry_of result pn = (case pn of (position, n) \<Rightarrow>
     (case find (\<lambda>e. qe_number e = n) (rev (dr_queue result)) of
        None \<Rightarrow> Inl (KeyError (str_nat n))
      | Some e \<Rightarrow>
          if \<not> qe_eligible e
          then Inl (ValueError ''merge train batch candidate requires eligible queue entries'')
          else validate_batch_entry \<lparr>be_pull_request_number = qe_number e, be_position = position,
                 be_head_sha = qe_head_sha e, be_head_tree_sha = '''', be_impact_status = Impact_unknown,
                 be_affected_subjects = [], be_title = qe_title e, be_url = qe_url e\<rparr>))"

definition build_batch_candidate ::
  "dry_run_result \<Rightarrow> string \<Rightarrow> string \<Rightarrow> string \<Rightarrow> stack_root_proof option \<Rightarrow> job_binding option
     \<Rightarrow> held_out_entry list \<Rightarrow> batch_candidate res" where
  "build_batch_candidate result base_sha policy_sha256 created_at root binding held_out =
     andThen (ensure (dr_intended_next_action result = Act_merge \<or> dr_intended_next_action result = Act_idle)
       (ValueError ''merge train batch candidate requires a queue without blocking actions'')) (\<lambda>_.
     andThen (mapM (batch_entry_of result)
         (zip [1..<Suc (length (dr_queue_order result))] (dr_queue_order result))) (\<lambda>entries.
     andThen (ensure (entries \<noteq> [])
       (ValueError ''merge train batch candidate requires at least one eligible PR'')) (\<lambda>_.
     andThen (required_text base_sha ''merge train batch candidate builder requires base_sha'') (\<lambda>base.
     andThen (case binding of Some _ \<Rightarrow> Inr held_out
       | None \<Rightarrow> andThen (dependency_not_ready_holds result base) (\<lambda>holds.
           Inr (held_out @ filter (\<lambda>h. ho_pull_request_number h \<notin> set (map ho_pull_request_number held_out)) holds)))
       (\<lambda>held_out.
     andThen (build_batch_id (dr_repository result) (dr_base_branch result) base (map be_head_sha entries)) (\<lambda>bid.
     andThen (case binding of Some b \<Rightarrow> Inr (build_ordinary_candidate_ref b bid)
       | None \<Rightarrow> build_candidate_ref (dr_repository result) (dr_base_branch result) bid) (\<lambda>ref.
     validate_batch_candidate \<lparr>ba_batch_id = bid, ba_repository = dr_repository result,
       ba_base_branch = dr_base_branch result, ba_base_sha = base, ba_policy_key = dr_policy_key result,
       ba_policy_sha256 = policy_sha256, ba_candidate_ref = ref, ba_candidate_sha = '''',
       ba_candidate_tree_sha = '''', ba_candidate_sha256 = '''', ba_status = Cand_planned,
       ba_entries = entries, ba_held_out = held_out, ba_batch_body_retry_of = '''',
       ba_infrastructure_retry_of = '''', ba_check_retry_of = '''', ba_check_retry_evidence = None,
       ba_check_rerun_attempts = [], ba_check_rerun_requested_at = '''', ba_stack_collapse_root = root,
       ba_structural_provenance = None, ba_required_checks_status = Cc_unknown,
       ba_required_checks_observation_error = '''', ba_head_check_reuse = None,
       ba_created_at = created_at, ba_updated_at = created_at\<rparr>)))))))"


subsection \<open>Dumps and record ids\<close>

definition structural_provenance_json :: "structural_provenance \<Rightarrow> json" where
  "structural_provenance_json p = JObj [
     (''schema_version'', json_nat (sp_schema_version p)),
     (''repository'', JStr (sp_repository p)), (''base_branch'', JStr (sp_base_branch p)),
     (''base_sha'', JStr (sp_base_sha p)), (''base_tree_sha'', JStr (sp_base_tree_sha p)),
     (''policy_key'', JStr (sp_policy_key p)), (''policy_sha256'', JStr (sp_policy_sha256 p)),
     (''entries'', JArr (map entry_binding_json (sp_entries p))),
     (''steps'', JArr (map rolling_step_json (sp_steps p))),
     (''candidate_sha'', JStr (sp_candidate_sha p)),
     (''candidate_tree_sha'', JStr (sp_candidate_tree_sha p)),
     (''stack_collapse_root'', stack_root_json (sp_stack_collapse_root p)),
     (''provenance_sha256'', JStr (sp_provenance_sha256 p)),
     (''candidate_sha256'', JStr (sp_candidate_sha256 p))]"

definition batch_entry_json :: "batch_entry \<Rightarrow> json" where
  "batch_entry_json e = JObj [
     (''pull_request_number'', json_nat (be_pull_request_number e)),
     (''position'', json_nat (be_position e)), (''head_sha'', JStr (be_head_sha e)),
     (''head_tree_sha'', JStr (be_head_tree_sha e)), (''impact_status'', impact_json (be_impact_status e)),
     (''affected_subjects'', JArr (map subject_json (be_affected_subjects e))),
     (''title'', JStr (be_title e)), (''url'', JStr (be_url e))]"

definition held_out_json :: "held_out_entry \<Rightarrow> json" where
  "held_out_json h = JObj [
     (''pull_request_number'', json_nat (ho_pull_request_number h)), (''head_sha'', JStr (ho_head_sha h)),
     (''reason'', JStr (held_out_reason_str (ho_reason h))),
     (''conflicts_with'', JArr (map json_nat (ho_conflicts_with h))),
     (''probe_base_sha'', JStr (ho_probe_base_sha h)),
     (''conflicts_with_head_shas'', JArr (map JStr (ho_conflicts_with_head_shas h)))]"

definition optional_nat_json :: "nat option \<Rightarrow> json" where
  "optional_nat_json n = (case n of None \<Rightarrow> JNull | Some n \<Rightarrow> json_nat n)"

definition reused_check_json :: "reused_check \<Rightarrow> json" where
  "reused_check_json c = JObj [(''name'', JStr (rc_name c)), (''app_id'', optional_nat_json (rc_app_id c)),
     (''sources'', JArr (map JStr (rc_sources c)))]"

definition head_check_reuse_json :: "head_check_reuse \<Rightarrow> json" where
  "head_check_reuse_json r = JObj [
     (''pull_request_number'', json_nat (hr_pull_request_number r)), (''head_sha'', JStr (hr_head_sha r)),
     (''tree_sha'', JStr (hr_tree_sha r)), (''base_sha'', JStr (hr_base_sha r)),
     (''candidate_sha'', JStr (hr_candidate_sha r)), (''observed_at'', JStr (hr_observed_at r)),
     (''required_checks'', JArr (map reused_check_json (hr_required_checks r)))]"

definition check_retry_evidence_json :: "check_retry_evidence \<Rightarrow> json" where
  "check_retry_evidence_json e = JObj [(''candidate_sha'', JStr (re_candidate_sha e)),
     (''controller_pass_recorded_at'', JStr (re_controller_pass_recorded_at e)),
     (''required_checks_status'', JStr ''pass''),
     (''closed_batch_pull_request_number'', json_nat (re_closed_batch_pull_request_number e))]"

definition optional_item :: "string \<Rightarrow> ('a \<Rightarrow> json) \<Rightarrow> 'a option \<Rightarrow> json_object" where
  "optional_item key f v = (case v of None \<Rightarrow> [] | Some x \<Rightarrow> [(key, f x)])"

definition batch_candidate_json :: "batch_candidate \<Rightarrow> json" where
  "batch_candidate_json c = JObj ([
     (''batch_id'', JStr (ba_batch_id c)), (''repository'', JStr (ba_repository c)),
     (''base_branch'', JStr (ba_base_branch c)), (''base_sha'', JStr (ba_base_sha c)),
     (''policy_key'', JStr (ba_policy_key c)), (''policy_sha256'', JStr (ba_policy_sha256 c)),
     (''candidate_ref'', JStr (ba_candidate_ref c)), (''candidate_sha'', JStr (ba_candidate_sha c)),
     (''candidate_tree_sha'', JStr (ba_candidate_tree_sha c)),
     (''candidate_sha256'', JStr (ba_candidate_sha256 c)),
     (''status'', JStr (candidate_status_str (ba_status c))),
     (''entries'', JArr (map batch_entry_json (ba_entries c))),
     (''held_out'', JArr (map held_out_json (ba_held_out c)))]
   @ present ''batch_body_retry_of'' (ba_batch_body_retry_of c)
   @ present ''infrastructure_retry_of'' (ba_infrastructure_retry_of c)
   @ present ''check_retry_of'' (ba_check_retry_of c)
   @ optional_item ''check_retry_evidence'' check_retry_evidence_json (ba_check_retry_evidence c)
   @ (if ba_check_rerun_attempts c = [] then [] else [(''check_rerun_attempts'',
        JObj (map (\<lambda>(k, v). (str_nat k, json_nat v)) (ba_check_rerun_attempts c)))])
   @ present ''check_rerun_requested_at'' (ba_check_rerun_requested_at c)
   @ [(''stack_collapse_root'', stack_root_json (ba_stack_collapse_root c)),
      (''structural_provenance'', (case ba_structural_provenance c of None \<Rightarrow> JNull
         | Some p \<Rightarrow> structural_provenance_json p)),
      (''required_checks_status'', JStr (candidate_checks_str (ba_required_checks_status c)))]
   @ present ''required_checks_observation_error'' (ba_required_checks_observation_error c)
   @ optional_item ''head_check_reuse'' head_check_reuse_json (ba_head_check_reuse c)
   @ [(''created_at'', JStr (ba_created_at c)), (''updated_at'', JStr (ba_updated_at c))])"

definition block_intent_json :: "block_intent \<Rightarrow> json" where
  "block_intent_json b = JObj [(''label'', JStr (bi_label b)),
     (''prior_label_event_id'', json_nat (bi_prior_label_event_id b)),
     (''applied_label_event_id'', optional_nat_json (bi_applied_label_event_id b)),
     (''writer_app_id'', optional_nat_json (bi_writer_app_id b)),
     (''applied_label_actor_id'', optional_nat_json (bi_applied_label_actor_id b)),
     (''label_write_succeeded'', JBool (bi_label_write_succeeded b)),
     (''source_failed_record_id'', JStr (bi_source_failed_record_id b))]"

definition batch_record_status_str :: "batch_record_status \<Rightarrow> string" where
  "batch_record_status_str s = (case s of Br_active \<Rightarrow> ''active'' | Br_superseded \<Rightarrow> ''superseded'')"

definition compact_timestamp :: "string \<Rightarrow> string" where
  "compact_timestamp at = filter (\<lambda>c. c \<noteq> CHR ''-'' \<and> c \<noteq> CHR '':'') at"

definition build_candidate_record_id :: "candidate_record \<Rightarrow> string" where
  "build_candidate_record_id r =
     ''merge-train-batch-candidate-'' @ compact_timestamp (cn_updated_at r) @ ''-''
     @ take 16 (compact_sorted_json_sha256 (JObj (job_binding_item (cn_ordinary_job_binding r)
        @ [(''schema_version'', json_nat (cn_schema_version r)),
           (''status'', JStr (batch_record_status_str (cn_status r))),
           (''source'', JStr (cn_source r)), (''updated_at'', JStr (cn_updated_at r)),
           (''candidate'', batch_candidate_json (cn_candidate r))]
        @ optional_item ''block_intent'' block_intent_json (cn_block_intent r))))"

definition build_candidate_record ::
  "batch_candidate \<Rightarrow> string \<Rightarrow> string \<Rightarrow> job_binding option \<Rightarrow> block_intent option \<Rightarrow> candidate_record res" where
  "build_candidate_record candidate source updated_at binding intent =
     andThen (validate_candidate_record \<lparr>cn_ordinary_job_binding = binding, cn_schema_version = 1,
       cn_record_id = ''pending'', cn_status = Br_active, cn_source = source, cn_updated_at = updated_at,
       cn_candidate = candidate\<lparr>ba_required_checks_observation_error := ''''\<rparr>,
       cn_block_intent = intent\<rparr>) (\<lambda>r.
     andThen (validate_batch_candidate (cn_candidate r)) (\<lambda>c.
     validate_candidate_record (r\<lparr>cn_record_id := build_candidate_record_id r, cn_candidate := c\<rparr>)))"

subsection \<open>Building landing plans\<close>

definition build_landing_plan_id :: "landing_plan \<Rightarrow> string" where
  "build_landing_plan_id p = ''merge-train-landing-plan-'' @ lp_batch_id p @ ''-''
     @ take 16 (compact_sorted_json_sha256 (JObj (landing_plan_json_items p)))"

definition landing_entry_of ::
  "batch_candidate \<Rightarrow> merge_method \<Rightarrow> rolling_step list \<Rightarrow> batch_entry \<Rightarrow> landing_entry res" where
  "landing_entry_of candidate m steps e =
     andThen (if steps = [] then Inr None
              else (case find (\<lambda>s. rs_position s = be_position e) (rev steps) of
                  None \<Rightarrow> Inl (KeyError (str_nat (be_position e))) | Some s \<Rightarrow> Inr (Some s))) (\<lambda>step.
     let recorded = (\<lambda>f. case step of None \<Rightarrow> '''' | Some s \<Rightarrow> f s) in
     validate_landing_entry \<lparr>le_pull_request_number = be_pull_request_number e, le_position = be_position e,
       le_expected_head_sha = be_head_sha e, le_expected_head_tree_sha = be_head_tree_sha e,
       le_expected_base_sha = ba_base_sha candidate, le_merge_method = m, le_status = Land_planned,
       le_recorded_candidate_parent_sha = recorded rs_parent_sha,
       le_recorded_candidate_parent_tree_sha = recorded rs_parent_tree_sha,
       le_recorded_candidate_result_sha = recorded rs_result_sha,
       le_recorded_candidate_result_tree_sha = recorded rs_result_tree_sha,
       le_recorded_rolling_base_sha = '''', le_recorded_rolling_base_tree_sha = '''',
       le_landed_head_sha = '''', le_landed_head_tree_sha = '''', le_merge_commit_sha = '''',
       le_merge_commit_tree_sha = ''''\<rparr>)"

definition build_landing_plan ::
  "batch_candidate \<Rightarrow> merge_method \<Rightarrow> string \<Rightarrow> nat option \<Rightarrow> landing_plan res" where
  "build_landing_plan candidate m created_at candidate_number =
     andThen (ensure (ba_status candidate = Cand_passed)
       (ValueError ''merge train batch landing plan requires passed candidate'')) (\<lambda>_.
     andThen (ensure (truthy (ba_candidate_sha candidate))
       (ValueError ''merge train batch landing plan requires candidate_sha'')) (\<lambda>_.
     let steps = (case ba_structural_provenance candidate of None \<Rightarrow> []
                  | Some p \<Rightarrow> if provenance_complete p then sp_steps p else []) in
     andThen (mapM (landing_entry_of candidate m steps) (ba_entries candidate)) (\<lambda>entries.
     andThen (validate_landing_plan \<lparr>lp_plan_id = ''pending'', lp_batch_id = ba_batch_id candidate,
       lp_repository = ba_repository candidate, lp_base_branch = ba_base_branch candidate,
       lp_candidate_ref = ba_candidate_ref candidate, lp_candidate_sha = ba_candidate_sha candidate,
       lp_candidate_tree_sha = ba_candidate_tree_sha candidate,
       lp_candidate_sha256 = ba_candidate_sha256 candidate,
       lp_structural_provenance_sha256 = (case ba_structural_provenance candidate of None \<Rightarrow> ''''
          | Some p \<Rightarrow> sp_provenance_sha256 p),
       lp_policy_key = ba_policy_key candidate, lp_policy_sha256 = ba_policy_sha256 candidate,
       lp_entries = entries, lp_created_at = created_at, lp_landing_plan_sha256 = '''',
       lp_candidate_pull_request_number = candidate_number\<rparr>) (\<lambda>p.
     validate_landing_plan (p\<lparr>lp_plan_id := build_landing_plan_id p\<rparr>)))))"


definition build_landing_record_id :: "landing_record \<Rightarrow> string" where
  "build_landing_record_id r =
     ''merge-train-batch-landing-plan-'' @ compact_timestamp (ln_updated_at r) @ ''-''
     @ take 16 (compact_sorted_json_sha256 (JObj (job_binding_item (ln_ordinary_job_binding r)
        @ [(''schema_version'', json_nat (ln_schema_version r)),
           (''status'', JStr (batch_record_status_str (ln_status r))),
           (''source'', JStr (ln_source r)), (''updated_at'', JStr (ln_updated_at r)),
           (''landing_plan'', JObj ((''plan_id'', JStr (lp_plan_id (ln_landing_plan r)))
              # landing_plan_json_items (ln_landing_plan r)))]
        @ optional_item ''historical_completion'' historical_completion_json (ln_historical_completion r))))"

definition build_landing_record ::
  "landing_plan \<Rightarrow> string \<Rightarrow> string \<Rightarrow> job_binding option \<Rightarrow> landing_record res" where
  "build_landing_record plan source updated_at binding =
     andThen (validate_landing_record \<lparr>ln_ordinary_job_binding = binding, ln_schema_version = 1,
       ln_record_id = ''pending'', ln_status = Br_active, ln_source = source, ln_updated_at = updated_at,
       ln_landing_plan = plan, ln_historical_completion = None\<rparr>) (\<lambda>r.
     andThen (validate_landing_plan (ln_landing_plan r)) (\<lambda>p.
     validate_landing_record (r\<lparr>ln_record_id := build_landing_record_id r, ln_landing_plan := p\<rparr>)))"

end
