(* ===== verification/Mt_Controller.thy ===== *)
theory Mt_Controller
  imports Progress_Records Mt_Batch
begin

section \<open>What the controller does next\<close>

text \<open>
  \<open>control_plane/workflows/merge_train_controller.py\<close>: from the candidate, landing and collapse records
  of a train, the next action of its controller. The three progress functions are instances of
  \<open>latest_progress\<close>, and each is an interpretation of the interface its callers rely on.
\<close>

subsection \<open>Progress of candidates, landings and collapses\<close>

fun candidate_rank :: "candidate_status \<Rightarrow> nat" where
  "candidate_rank Cand_planned = 0"
| "candidate_rank Cand_building = 1"
| "candidate_rank Cand_ready_for_checks = 2"
| "candidate_rank Cand_passed = 3"
| "candidate_rank Cand_failed = 4"
| "candidate_rank Cand_stale = 4"
| "candidate_rank Cand_blocked = 4"

definition candidate_group :: "candidate_record \<Rightarrow> string" where
  "candidate_group r = ba_batch_id (cn_candidate r)"

definition candidate_stamp :: "candidate_record \<Rightarrow> stamp" where
  "candidate_stamp r = (cn_updated_at r, cn_record_id r)"

definition candidate_progress :: "candidate_record \<Rightarrow> nat \<times> stamp" where
  "candidate_progress r = (candidate_rank (ba_status (cn_candidate r)), candidate_stamp r)"

definition latest_candidate_progress :: "candidate_record list \<Rightarrow> candidate_record option" where
  "latest_candidate_progress = latest_progress candidate_group candidate_stamp candidate_progress"

fun landing_entry_rank :: "landing_status \<Rightarrow> nat" where
  "landing_entry_rank Land_planned = 0"
| "landing_entry_rank Land_merging = 1"
| "landing_entry_rank Land_merged = 2"
| "landing_entry_rank Land_blocked = 3"
| "landing_entry_rank Land_stale = 3"
| "landing_entry_rank Land_skipped = 3"

definition landing_group :: "landing_record \<Rightarrow> string" where
  "landing_group r = lp_plan_id (ln_landing_plan r)"

definition landing_stamp :: "landing_record \<Rightarrow> stamp" where
  "landing_stamp r = (ln_updated_at r, ln_record_id r)"

text \<open>The maximum is over the entries of a validated plan, which are never empty.\<close>

definition landing_progress :: "landing_record \<Rightarrow> nat \<times> nat \<times> stamp" where
  "landing_progress r = (let entries = lp_entries (ln_landing_plan r) in
     (foldr max (map (landing_entry_rank \<circ> le_status) entries) 0,
      length (filter (\<lambda>e. le_status e = Land_merged) entries), landing_stamp r))"

definition latest_landing_progress :: "landing_record list \<Rightarrow> landing_record option" where
  "latest_landing_progress = latest_progress landing_group landing_stamp landing_progress"

fun collapse_rank :: "collapse_status \<Rightarrow> nat" where
  "collapse_rank Col_planned = 0"
| "collapse_rank Col_collapsing = 1"
| "collapse_rank Col_waiting_for_root_checks = 2"
| "collapse_rank Col_ready_for_train = 3"
| "collapse_rank Col_blocked = 4"
| "collapse_rank Col_stale = 4"

definition collapse_group :: "collapse_record \<Rightarrow> string" where
  "collapse_group r = cp_collapse_id (cl_plan r)"

definition collapse_stamp :: "collapse_record \<Rightarrow> stamp" where
  "collapse_stamp r = (cl_updated_at r, cl_record_id r)"

definition collapse_progress :: "collapse_record \<Rightarrow> nat \<times> nat \<times> nat \<times> nat \<times> stamp" where
  "collapse_progress r = (let p = cl_plan r in
     (collapse_rank (cp_status p),
      length (filter (\<lambda>m. cm_status m = Run_mutated) (cp_mutations p)),
      length (filter (\<lambda>m. truthy (cm_expected_merge_tree_sha m)) (cp_mutations p)),
      length (filter disposition_completed (cp_child_dispositions p)), collapse_stamp r))"

definition latest_collapse_progress :: "collapse_record list \<Rightarrow> collapse_record option" where
  "latest_collapse_progress = latest_progress collapse_group collapse_stamp collapse_progress"

interpretation candidates: progress_view latest_candidate_progress candidate_group candidate_stamp candidate_progress
  unfolding latest_candidate_progress_def by (rule latest_progress_view)

interpretation landings: progress_view latest_landing_progress landing_group landing_stamp landing_progress
  unfolding latest_landing_progress_def by (rule latest_progress_view)

interpretation collapses: progress_view latest_collapse_progress collapse_group collapse_stamp collapse_progress
  unfolding latest_collapse_progress_def by (rule latest_progress_view)

subsection \<open>The records that call for an action\<close>

definition latest_candidate_record :: "candidate_record list \<Rightarrow> candidate_record option" where
  "latest_candidate_record records = (case latest_candidate_progress records of None \<Rightarrow> None
     | Some r \<Rightarrow> if ba_status (cn_candidate r) = Cand_passed then None else Some r)"

definition latest_passed_candidate_record :: "candidate_record list \<Rightarrow> candidate_record option" where
  "latest_passed_candidate_record records = (case latest_candidate_progress records of None \<Rightarrow> None
     | Some r \<Rightarrow> if ba_status (cn_candidate r) \<noteq> Cand_passed then None else Some r)"

definition ordinary_landing_terminal_success :: "landing_record \<Rightarrow> bool" where
  "ordinary_landing_terminal_success r \<longleftrightarrow> ln_ordinary_job_binding r \<noteq> None
     \<and> lp_entries (ln_landing_plan r) \<noteq> []
     \<and> (\<forall>e \<in> set (lp_entries (ln_landing_plan r)). le_status e = Land_merged \<or> le_status e = Land_skipped)"

definition latest_landing_record :: "landing_record list \<Rightarrow> landing_record option" where
  "latest_landing_record records = (case latest_landing_progress records of None \<Rightarrow> None
     | Some r \<Rightarrow>
       if \<not> (\<exists>e \<in> set (lp_entries (ln_landing_plan r)). le_status e = Land_planned \<or> le_status e = Land_merging)
          \<and> \<not> ordinary_landing_terminal_success r
       then None else Some r)"

definition landing_completed_status :: "landing_record \<Rightarrow> landing_status \<Rightarrow> bool" where
  "landing_completed_status r s = (if ln_ordinary_job_binding r \<noteq> None
     then s = Land_merged \<or> s = Land_skipped else s = Land_merged \<or> s = Land_stale)"

definition of_candidate :: "string \<Rightarrow> string \<Rightarrow> landing_record \<Rightarrow> bool" where
  "of_candidate batch_id candidate_sha r \<longleftrightarrow> lp_batch_id (ln_landing_plan r) = batch_id
     \<and> lp_candidate_sha (ln_landing_plan r) = candidate_sha"

definition latest_completed_landing_record ::
  "landing_record list \<Rightarrow> string \<Rightarrow> string \<Rightarrow> landing_record option" where
  "latest_completed_landing_record records batch_id candidate_sha =
     (case latest_landing_progress (filter (of_candidate batch_id candidate_sha) records) of None \<Rightarrow> None
      | Some r \<Rightarrow>
        if lp_entries (ln_landing_plan r) = [] then None
        else if \<exists>e \<in> set (lp_entries (ln_landing_plan r)). \<not> landing_completed_status r (le_status e) then None
        else Some r)"

definition latest_collapse_record :: "collapse_record list \<Rightarrow> collapse_status \<Rightarrow> collapse_record option" where
  "latest_collapse_record records status = (
     let ids = dedup (map collapse_group (filter (\<lambda>r. cl_status r = Cr_active) records)) in
     let latest = List.map_filter (\<lambda>cid.
           case latest_collapse_progress (filter (\<lambda>r. collapse_group r = cid) records) of None \<Rightarrow> None
           | Some r \<Rightarrow> if cl_status r = Cr_active \<and> cp_status (cl_plan r) = status then Some r else None) ids in
     max_by collapse_stamp latest)"

subsection \<open>The decision\<close>

datatype controller_action =
  Ca_idle | Ca_build_candidate | Ca_observe_candidate | Ca_candidate_failed | Ca_candidate_stopped
  | Ca_plan_landing | Ca_land_batch | Ca_batch_landed | Ca_wait_for_root_checks
  | Ca_execute_stack_collapse | Ca_admit_collapsed_root

record controller_decision =
  co_action :: controller_action
  co_reason :: string
  co_candidate_record_id :: string
  co_landing_plan_record_id :: string
  co_stack_collapse_plan_record_id :: string

definition decision :: "controller_action \<Rightarrow> string \<Rightarrow> controller_decision" where
  "decision action reason = \<lparr>co_action = action, co_reason = reason, co_candidate_record_id = '''',
     co_landing_plan_record_id = '''', co_stack_collapse_plan_record_id = ''''\<rparr>"

definition landing_decision :: "collapse_record list \<Rightarrow> landing_record \<Rightarrow> controller_decision" where
  "landing_decision collapse_records r =
     (let roots = map le_pull_request_number (lp_entries (ln_landing_plan r));
          waiting = latest_collapse_record
            (filter (\<lambda>c. cp_root_number (cl_plan c) \<in> set roots) collapse_records) Col_waiting_for_root_checks
      in (decision Ca_land_batch
            (if ordinary_landing_terminal_success r then ''active landing plan needs cleanup''
             else ''active landing plan has planned entries''))
         \<lparr>co_landing_plan_record_id := ln_record_id r,
          co_stack_collapse_plan_record_id := (case waiting of None \<Rightarrow> '''' | Some c \<Rightarrow> cl_record_id c)\<rparr>)"

definition candidate_decision :: "candidate_record \<Rightarrow> controller_decision" where
  "candidate_decision r = (let status = ba_status (cn_candidate r) in
     (if status = Cand_failed then decision Ca_candidate_failed ''latest active candidate failed''
      else if status = Cand_stale \<or> status = Cand_blocked
      then decision Ca_candidate_stopped (''latest active candidate is '' @ candidate_status_str status)
      else if status = Cand_planned \<or> status = Cand_building
      then decision Ca_build_candidate ''candidate branch needs build/update''
      else decision Ca_observe_candidate ''candidate branch is ready for check observation'')
     \<lparr>co_candidate_record_id := cn_record_id r\<rparr>)"

fun collapse_status_str :: "collapse_status \<Rightarrow> string" where
  "collapse_status_str Col_planned = ''planned''"
| "collapse_status_str Col_collapsing = ''collapsing''"
| "collapse_status_str Col_waiting_for_root_checks = ''waiting_for_root_checks''"
| "collapse_status_str Col_ready_for_train = ''ready_for_train''"
| "collapse_status_str Col_blocked = ''blocked''"
| "collapse_status_str Col_stale = ''stale''"

fun first_collapse_decision ::
  "collapse_record list \<Rightarrow> (collapse_status \<times> controller_action) list \<Rightarrow> controller_decision" where
  "first_collapse_decision records [] =
     decision Ca_idle ''no active merge train records require controller action''"
| "first_collapse_decision records ((status, action) # actions) =
     (case latest_collapse_record records status of
        None \<Rightarrow> first_collapse_decision records actions
      | Some r \<Rightarrow> (decision action (''saved collapse record is '' @ collapse_status_str status
            @ ''; live policy and readiness not evaluated''))
          \<lparr>co_stack_collapse_plan_record_id := cl_record_id r\<rparr>)"

definition collapse_actions :: "(collapse_status \<times> controller_action) list" where
  "collapse_actions = [(Col_collapsing, Ca_execute_stack_collapse), (Col_planned, Ca_execute_stack_collapse),
     (Col_waiting_for_root_checks, Ca_wait_for_root_checks)]"

definition needs_landing_plan :: "landing_record list \<Rightarrow> candidate_record \<Rightarrow> bool" where
  "needs_landing_plan landings r \<longleftrightarrow> latest_completed_landing_record landings
     (ba_batch_id (cn_candidate r)) (ba_candidate_sha (cn_candidate r)) = None"

definition decide_controller_action ::
  "candidate_record list \<Rightarrow> landing_record list \<Rightarrow> collapse_record list \<Rightarrow> controller_decision" where
  "decide_controller_action candidates landings collapses =
     (case latest_landing_record landings of Some r \<Rightarrow> landing_decision collapses r
      | None \<Rightarrow>
     (case latest_candidate_record candidates of Some r \<Rightarrow> candidate_decision r
      | None \<Rightarrow>
     (case latest_passed_candidate_record candidates of
        Some r \<Rightarrow> if needs_landing_plan landings r
          then (decision Ca_plan_landing ''latest passed candidate needs a landing plan'')
                 \<lparr>co_candidate_record_id := cn_record_id r\<rparr>
          else first_collapse_decision collapses collapse_actions
      | None \<Rightarrow> first_collapse_decision collapses collapse_actions)))"

end
