(* ===== verification/Canonical_Text.thy ===== *)
theory Canonical_Text
  imports Canonical_Json
begin

section \<open>The canonical text determines the value\<close>

text \<open>
  Two values of the same canonical text are the same value up to the order of the keys of their objects.
  So a digest of the text covers every field written into it: the text alone, before hashing, tells
  records apart that differ in one of these fields. The lemmas follow the text from left to right; each
  says that a part of the text ends in one place only, whatever stands behind it.
\<close>

subsection \<open>Strings\<close>

definition hex_value :: "char \<Rightarrow> nat" where
  "hex_value c = (let n = (of_char c :: nat) in if n < 97 then n - 48 else n - 87)"

lemma hex_value_digit [simp]: "d < 16 \<Longrightarrow> hex_value (hex_digit d) = d"
  by (auto simp: hex_value_def hex_digit_def Let_def)

definition of_hex :: "string \<Rightarrow> nat" where
  "of_hex s = foldl (\<lambda>n c. 16 * n + hex_value c) 0 s"

lemma of_hex_hex_of [simp]: "n < 16 ^ w \<Longrightarrow> of_hex (hex_of w n) = n"
proof (induction w arbitrary: n)
  case (Suc w)
  then have "of_hex (hex_of w (n div 16)) = n div 16"
    by (intro Suc.IH) (simp add: less_mult_imp_div_less mult.commute)
  then show ?case by (simp add: of_hex_def)
qed (simp add: of_hex_def)

text \<open>An escaped character is a character of its own, or a backslash and what tells the rest.\<close>

definition unescape :: "string \<Rightarrow> char" where
  "unescape s = (if hd s \<noteq> CHR 0x5C then hd s else
     let c = s ! 1 in
     if c = CHR ''n'' then char_of (10::nat) else if c = CHR ''r'' then char_of (13::nat)
     else if c = CHR ''t'' then char_of (9::nat) else if c = CHR ''f'' then char_of (12::nat)
     else if c = CHR ''b'' then char_of (8::nat)
     else if c = CHR ''u'' then char_of (of_hex (take 4 (drop 2 s))) else c)"

lemma of_char_cong: "of_char c = (n::nat) \<longleftrightarrow> c = char_of n \<and> n < 256"
  by (metis char_of_char of_char_of mod_less nat_of_char_less_256)

lemma unescape_plain:
  "c \<noteq> CHR 0x5C \<Longrightarrow> unescape (c # r) = c"
  by (simp add: unescape_def)

definition short_escapes :: "(char \<times> char) set" where
  "short_escapes = {(CHR 0x22, CHR 0x22), (CHR 0x5C, CHR 0x5C), (CHR ''n'', char_of (10::nat)),
     (CHR ''r'', char_of (13::nat)), (CHR ''t'', char_of (9::nat)), (CHR ''f'', char_of (12::nat)),
     (CHR ''b'', char_of (8::nat))}"

lemma quote_codes: "CHR 0x22 = char_of (34::nat)" "CHR 0x5C = char_of (92::nat)"
  by code_simp+

lemma escape_char_shape:
  "escape_char c = [c] \<and> c \<noteq> CHR 0x22 \<and> c \<noteq> CHR 0x5C
   \<or> (\<exists>d. escape_char c = [CHR 0x5C, d] \<and> (d, c) \<in> short_escapes)
   \<or> escape_char c = CHR 0x5C # CHR ''u'' # hex4 (of_char c)"
  unfolding escape_char_def Let_def short_escapes_def by (auto simp: of_char_cong quote_codes split: if_split)

lemma escape_char_cases:
  obtains "escape_char c = [c]" and "c \<noteq> CHR 0x22" and "c \<noteq> CHR 0x5C"
  | d where "escape_char c = [CHR 0x5C, d]" and "(d, c) \<in> short_escapes"
  | "escape_char c = CHR 0x5C # CHR ''u'' # hex4 (of_char c)"
  using escape_char_shape [of c] by blast

lemma unescape_escape [simp]: "unescape (escape_char c @ r) = c"
proof (rule escape_char_cases [of c])
  assume "escape_char c = CHR 0x5C # CHR ''u'' # hex4 (of_char c)"
  moreover have "of_hex (hex4 (of_char c)) = of_char c"
    unfolding hex4_def by (rule of_hex_hex_of, rule less_trans [OF nat_of_char_less_256]) simp
  ultimately show ?thesis by (simp add: unescape_def hex4_def)
qed (auto simp: unescape_def short_escapes_def)

lemma escape_char_unique:
  assumes "escape_char c @ r = escape_char d @ r'"
  shows "c = d \<and> r = r'"
proof -
  from arg_cong [OF assms, of unescape] have "c = d" by (simp only: unescape_escape)
  with assms show ?thesis by simp
qed

lemma escape_char_no_quote [simp]: "escape_char c @ r \<noteq> CHR 0x22 # r'"
  by (rule escape_char_cases [of c]) auto

lemma escaped_unique:
  "concat (map escape_char s) @ CHR 0x22 # r = concat (map escape_char t) @ CHR 0x22 # r' \<Longrightarrow> s = t \<and> r = r'"
proof (induction s arbitrary: t)
  case Nil
  then show ?case by (cases t) (auto dest: sym)
next
  case (Cons c s)
  show ?case
  proof (cases t)
    case Nil
    with Cons.prems show ?thesis by simp
  next
    case t: (Cons d t')
    from Cons.prems have "escape_char c @ concat (map escape_char s) @ CHR 0x22 # r
        = escape_char d @ concat (map escape_char t') @ CHR 0x22 # r'"
      by (simp add: t)
    from escape_char_unique [OF this] Cons.IH show ?thesis by (simp add: t)
  qed
qed

lemma json_string_unique:
  "json_string s @ r = json_string t @ r' \<Longrightarrow> s = t \<and> r = r'"
  by (rule escaped_unique) (simp add: json_string_def)

subsection \<open>Numbers\<close>

text \<open>A value is followed by the end of the text, by a comma or by a closing bracket.\<close>

definition delim :: "string \<Rightarrow> bool" where
  "delim r \<longleftrightarrow> r = [] \<or> hd r \<in> set '',]}''"

lemma delim_simps [simp]: "delim []" "delim (c # r) \<longleftrightarrow> c \<in> set '',]}''"
  by (simp_all add: delim_def)

definition decimal :: "char \<Rightarrow> bool" where
  "decimal c \<longleftrightarrow> 48 \<le> (of_char c :: nat) \<and> (of_char c :: nat) \<le> 57"

lemma digit_char_decimal [simp]: "d < 10 \<Longrightarrow> decimal (digit_char d)"
  by (simp add: decimal_def digit_char_def)

definition of_decimal :: "string \<Rightarrow> nat" where
  "of_decimal s = foldl (\<lambda>n c. 10 * n + (of_char c - 48)) 0 s"

lemma str_nat_decimal: "list_all decimal (str_nat n)"
proof (induction n rule: str_nat.induct)
  case (1 n)
  then show ?case by (subst str_nat.simps) simp
qed

lemma of_decimal_str_nat [simp]: "of_decimal (str_nat n) = n"
proof (induction n rule: str_nat.induct)
  case (1 n)
  have "of_char (digit_char (n mod 10)) = 48 + n mod 10"
    by (simp add: digit_char_def)
  moreover have "of_decimal (str_nat (n div 10)) = n div 10" if "\<not> n < 10"
    by (rule 1) (rule that)
  ultimately show ?case by (subst str_nat.simps) (auto simp: of_decimal_def)
qed

lemma takeWhile_delim: "delim r \<Longrightarrow> takeWhile decimal r = []"
  by (cases r) (auto simp: decimal_def)

lemma str_nat_unique:
  assumes "str_nat m @ r = str_nat n @ r'" and "delim r" and "delim r'"
  shows "m = n \<and> r = r'"
proof -
  have until: "takeWhile decimal (str_nat k @ q) = str_nat k" if "delim q" for k q
    using str_nat_decimal [of k] takeWhile_delim [OF that]
    by (simp add: list_all_iff takeWhile_append2)
  from arg_cong [OF assms(1), of "takeWhile decimal"] have same: "str_nat m = str_nat n"
    by (simp only: until [OF assms(2)] until [OF assms(3)])
  from arg_cong [OF same, of of_decimal] have "m = n" by (simp only: of_decimal_str_nat)
  with assms(1) show ?thesis by simp
qed

lemma hd_str_nat: "decimal (hd (str_nat n))"
  using str_nat_decimal [of n] str_nat_nonempty [of n] by (cases "str_nat n") auto

lemma str_nat_no_minus [simp]: "str_nat n @ r \<noteq> CHR ''-'' # r'"
  using hd_str_nat [of n] str_nat_nonempty [of n] by (cases "str_nat n") (auto simp: decimal_def)

lemma json_int_unique:
  assumes "json_int i @ r = json_int j @ r'" and "delim r" and "delim r'"
  shows "i = j \<and> r = r'"
proof -
  consider "i < 0" "j < 0" | "i < 0" "\<not> j < 0" | "\<not> i < 0" "j < 0" | "\<not> i < 0" "\<not> j < 0" by blast
  then show ?thesis
  proof cases
    case 1
    with str_nat_unique [of "nat (- i)" r "nat (- j)" r'] assms show ?thesis
      by (simp add: json_int_def eq_nat_nat_iff)
  next
    case 2
    with assms(1) show ?thesis by (auto simp: json_int_def dest: sym)
  next
    case 3
    with assms(1) show ?thesis by (simp add: json_int_def)
  next
    case 4
    with str_nat_unique [of "nat i" r "nat j" r'] assms show ?thesis
      by (simp add: json_int_def eq_nat_nat_iff)
  qed
qed

subsection \<open>Lists of parts\<close>

text \<open>
  The parts of an array or of an object are separated by commas and closed by a bracket. \<open>prints f x\<close>: the
  text of \<open>x\<close> ends in one place before a delimiter and determines \<open>g x\<close>; \<open>starts f x\<close>: it does not
  start like a closing bracket.
\<close>

definition prints :: "('a \<Rightarrow> string) \<Rightarrow> ('a \<Rightarrow> 'b) \<Rightarrow> 'a \<Rightarrow> bool" where
  "prints f g x \<longleftrightarrow> (\<forall>y r r'. f x @ r = f y @ r' \<longrightarrow> delim r \<longrightarrow> delim r' \<longrightarrow> g x = g y \<and> r = r')"

lemma printsD: "prints f g x \<Longrightarrow> f x @ r = f y @ r' \<Longrightarrow> delim r \<Longrightarrow> delim r' \<Longrightarrow> g x = g y \<and> r = r'"
  unfolding prints_def by blast

definition starts :: "('a \<Rightarrow> string) \<Rightarrow> bool" where
  "starts f \<longleftrightarrow> (\<forall>x. f x \<noteq> [] \<and> \<not> delim (f x))"

lemma startsD:
  assumes "starts f" and "delim (c # r)"
  shows "f x @ q \<noteq> c # r"
proof -
  obtain d s where "f x = d # s" "\<not> delim (d # s)"
    using assms(1) unfolding starts_def by (metis neq_Nil_conv)
  with assms(2) show ?thesis by auto
qed

definition tail_text :: "('a \<Rightarrow> string) \<Rightarrow> 'a list \<Rightarrow> string" where
  "tail_text f xs = concat (map (\<lambda>x. CHR '','' # f x) xs)"

lemma str_join_Cons: "str_join '','' (map f (x # xs)) = f x @ tail_text f xs"
  by (induction xs arbitrary: x) (auto simp: tail_text_def)

lemma delim_tail [simp]: "e \<in> set '']}'' \<Longrightarrow> delim (tail_text f xs @ e # r)"
  by (cases xs) (auto simp: tail_text_def)

lemma tail_unique:
  assumes "tail_text f xs @ e # r = tail_text f ys @ e # r'" and "e \<in> set '']}''"
    and "\<And>x. x \<in> set xs \<Longrightarrow> prints f g x"
  shows "map g xs = map g ys \<and> r = r'"
  using assms(1,3)
proof (induction xs arbitrary: ys)
  case Nil
  with assms(2) show ?case by (cases ys) (auto simp: tail_text_def)
next
  case (Cons x xs)
  show ?case
  proof (cases ys)
    case Nil
    with Cons.prems(1) assms(2) show ?thesis by (auto simp: tail_text_def)
  next
    case ys: (Cons y ys')
    from Cons.prems(1) have "f x @ tail_text f xs @ e # r = f y @ tail_text f ys' @ e # r'"
      by (simp add: ys tail_text_def)
    from printsD [OF Cons.prems(2) this] assms(2)
    have "g x = g y" and "tail_text f xs @ e # r = tail_text f ys' @ e # r'" by simp_all
    with Cons.IH [OF this(2)] Cons.prems(2) show ?thesis by (simp add: ys)
  qed
qed

lemma join_starts:
  "starts f \<Longrightarrow> delim (e # r) \<Longrightarrow> str_join '','' (map f (x # xs)) @ q \<noteq> e # r"
  unfolding str_join_Cons append_assoc by (rule startsD)

lemma join_unique:
  assumes "str_join '','' (map f xs) @ e # r = str_join '','' (map f ys) @ e # r'" and "e \<in> set '']}''"
    and "starts f" and "\<And>x. x \<in> set xs \<Longrightarrow> prints f g x"
  shows "map g xs = map g ys \<and> r = r'"
proof (cases xs)
  case Nil
  have "ys = []"
  proof (rule ccontr)
    assume "ys \<noteq> []"
    then obtain y ys' where "ys = y # ys'" by (cases ys) auto
    with join_starts [OF assms(3), of e r y ys' "e # r'"] assms(1,2) Nil show False by simp
  qed
  with assms(1) Nil show ?thesis by simp
next
  case xs: (Cons x xs')
  show ?thesis
  proof (cases ys)
    case Nil
    with join_starts [OF assms(3), of e r' x xs' "e # r"] assms(1,2) xs show ?thesis by simp
  next
    case ys: (Cons y ys')
    from assms(1) have "f x @ tail_text f xs' @ e # r = f y @ tail_text f ys' @ e # r'"
      by (simp add: xs ys str_join_Cons del: list.map)
    from printsD [OF assms(4) this] assms(2)
    have "g x = g y" and "tail_text f xs' @ e # r = tail_text f ys' @ e # r'" by (simp_all add: xs)
    with tail_unique [OF this(2) assms(2), of g] assms(4) show ?thesis by (simp add: xs ys)
  qed
qed

subsection \<open>Values\<close>

fun canon :: "json \<Rightarrow> json" where
  "canon (JArr xs) = JArr (map canon xs)"
| "canon (JObj kvs) = JObj (sort_key fst (map (\<lambda>(k, v). (k, canon v)) kvs))"
| "canon j = j"

definition member_text :: "string \<times> json \<Rightarrow> string" where
  "member_text m = json_string (fst m) @ '':'' @ dumps (snd m)"

definition canon_member :: "string \<times> json \<Rightarrow> string \<times> json" where
  "canon_member m = (fst m, canon (snd m))"

lemma insort_key_map: "insort_key f (g x) (map g xs) = map g (insort_key (\<lambda>x. f (g x)) x xs)"
  by (induction xs) auto

lemma sort_key_map: "sort_key f (map g xs) = map g (sort_key (\<lambda>x. f (g x)) xs)"
  by (induction xs) (auto simp: insort_key_map)

lemma dumps_members: "dumps (JObj kvs) = ''{'' @ str_join '','' (map member_text (sort_key fst kvs)) @ ''}''"
proof -
  have "(\<lambda>(k, v). (k, json_string k @ '':'' @ dumps v)) = (\<lambda>m. (fst m, member_text m))"
    by (auto simp: member_text_def fun_eq_iff)
  then show ?thesis unfolding dumps.simps by (simp add: sort_key_map comp_def)
qed

lemma canon_members: "canon (JObj kvs) = JObj (map canon_member (sort_key fst kvs))"
proof -
  have "(\<lambda>(k, v). (k, canon v)) = canon_member"
    by (auto simp: canon_member_def fun_eq_iff)
  moreover have "(\<lambda>m. fst (canon_member m)) = fst"
    by (simp add: canon_member_def fun_eq_iff)
  ultimately show ?thesis unfolding canon.simps by (simp add: sort_key_map)
qed

declare dumps.simps(6) [simp del] canon.simps(2) [simp del]

lemma starts_dumps: "starts dumps"
proof -
  have "dumps x \<noteq> [] \<and> \<not> delim (dumps x)" for x
  proof (cases x)
    case (JInt i)
    with hd_str_nat [of "nat i"] show ?thesis
      by (auto simp: json_int_def delim_def decimal_def)
  qed (auto simp: dumps_members json_string_def)
  then show ?thesis by (simp add: starts_def)
qed

lemma starts_member: "starts member_text"
  by (simp add: starts_def member_text_def json_string_def)

text \<open>The first character of a text tells the kind of its value.\<close>

definition kind_char :: "json \<Rightarrow> char" where
  "kind_char j = (case j of JNull \<Rightarrow> CHR ''n'' | JBool b \<Rightarrow> if b then CHR ''t'' else CHR ''f''
     | JInt i \<Rightarrow> CHR ''0'' | JStr s \<Rightarrow> CHR 0x22 | JArr xs \<Rightarrow> CHR ''['' | JObj kvs \<Rightarrow> CHR ''{'')"

definition kind_of :: "char \<Rightarrow> char" where
  "kind_of c = (if decimal c \<or> c = CHR ''-'' then CHR ''0'' else c)"

lemma kind_of_text: "kind_of (hd (dumps j @ r)) = kind_char j"
proof (cases j)
  case (JInt i)
  have "kind_of (hd (str_nat n @ r)) = CHR ''0''" for n
    using hd_str_nat [of n] by (simp add: kind_of_def hd_append)
  moreover have "kind_of (CHR ''-'') = CHR ''0''" by (simp add: kind_of_def)
  ultimately show ?thesis by (simp add: JInt json_int_def kind_char_def)
qed (auto simp: dumps_members json_string_def kind_char_def kind_of_def decimal_def)

lemma same_kind:
  assumes "dumps x @ r = dumps y @ r'"
  shows "kind_char x = kind_char y"
  using arg_cong [OF assms, of "\<lambda>s. kind_of (hd s)"] by (simp only: kind_of_text)

lemma printsI:
  assumes "\<And>y r r'. kind_char x = kind_char y \<Longrightarrow> dumps x @ r = dumps y @ r' \<Longrightarrow> delim r \<Longrightarrow> delim r'
    \<Longrightarrow> canon x = canon y \<and> r = r'"
  shows "prints dumps canon x"
  unfolding prints_def
proof (intro allI impI)
  fix y r r'
  assume eq: "dumps x @ r = dumps y @ r'" and "delim r" "delim r'"
  with assms [OF same_kind [OF eq] eq] show "canon x = canon y \<and> r = r'" by blast
qed

lemma prints_member:
  assumes "prints dumps canon (snd m)"
  shows "prints member_text canon_member m"
  unfolding prints_def
proof (intro allI impI)
  fix m' r r'
  assume "member_text m @ r = member_text m' @ r'" and d: "delim r" "delim r'"
  then have "json_string (fst m) @ CHR '':'' # dumps (snd m) @ r
      = json_string (fst m') @ CHR '':'' # dumps (snd m') @ r'"
    by (simp add: member_text_def)
  from json_string_unique [OF this] printsD [OF assms _ d, of "snd m'"]
  show "canon_member m = canon_member m' \<and> r = r'" by (simp add: canon_member_def)
qed

lemma kind_charD:
  "kind_char JNull = kind_char y \<Longrightarrow> y = JNull"
  "kind_char (JBool b) = kind_char y \<Longrightarrow> y = JBool b"
  "kind_char (JInt i) = kind_char y \<Longrightarrow> \<exists>j. y = JInt j"
  "kind_char (JStr s) = kind_char y \<Longrightarrow> \<exists>t. y = JStr t"
  "kind_char (JArr xs) = kind_char y \<Longrightarrow> \<exists>ys. y = JArr ys"
  "kind_char (JObj kvs) = kind_char y \<Longrightarrow> \<exists>kvs'. y = JObj kvs'"
  by (simp_all add: kind_char_def split: json.splits if_splits)

lemma prints_atoms:
  "prints dumps canon JNull" "prints dumps canon (JBool b)" "prints dumps canon (JInt i)"
  "prints dumps canon (JStr s)"
proof -
  show "prints dumps canon JNull" "prints dumps canon (JBool b)"
    by (rule printsI, frule kind_charD, simp)+
  show "prints dumps canon (JInt i)"
    by (rule printsI, drule kind_charD(3)) (auto dest!: json_int_unique)
  show "prints dumps canon (JStr s)"
    by (rule printsI, drule kind_charD(4)) (auto dest!: json_string_unique)
qed

lemma dumps_unique: "prints dumps canon x"
proof (induction x)
  case (JArr xs)
  show ?case
  proof (rule printsI)
    fix y r r'
    assume kind: "kind_char (JArr xs) = kind_char y" and eq: "dumps (JArr xs) @ r = dumps y @ r'"
    obtain ys where y: "y = JArr ys" using kind_charD(5) [OF kind] by blast
    from eq have "str_join '','' (map dumps xs) @ CHR '']'' # r = str_join '','' (map dumps ys) @ CHR '']'' # r'"
      by (simp add: y)
    from join_unique [OF this _ starts_dumps JArr] show "canon (JArr xs) = canon y \<and> r = r'"
      by (simp add: y)
  qed
next
  case (JObj kvs)
  have parts: "m \<in> set (sort_key fst kvs) \<Longrightarrow> prints member_text canon_member m" for m
    by (rule prints_member) (auto intro: JObj snds.intros)
  show ?case
  proof (rule printsI)
    fix y r r'
    assume kind: "kind_char (JObj kvs) = kind_char y" and eq: "dumps (JObj kvs) @ r = dumps y @ r'"
    obtain kvs' where y: "y = JObj kvs'" using kind_charD(6) [OF kind] by blast
    from eq have "str_join '','' (map member_text (sort_key fst kvs)) @ CHR ''}'' # r
        = str_join '','' (map member_text (sort_key fst kvs')) @ CHR ''}'' # r'"
      by (simp add: y dumps_members)
    from join_unique [OF this _ starts_member parts] show "canon (JObj kvs) = canon y \<and> r = r'"
      by (simp add: y canon_members)
  qed
qed (rule prints_atoms)+

theorem same_text_same_value: "dumps x = dumps y \<Longrightarrow> canon x = canon y"
  using printsD [OF dumps_unique, of x "[]" y "[]"] by simp

text \<open>An object's text determines what is found under every key.\<close>

lemma map_of_sort_key: "distinct (map fst kvs) \<Longrightarrow> map_of (sort_key fst kvs) = map_of kvs"
proof -
  assume d: "distinct (map fst kvs)"
  then have "distinct (map fst (sort_key fst kvs))" by (simp add: distinct_map)
  with d show ?thesis by (subst map_of_inject_set) simp_all
qed

lemma same_value_same_members:
  assumes "canon (JObj kvs) = canon (JObj kvs')"
    and "distinct (map fst kvs)" and "distinct (map fst kvs')"
  shows "map_option canon (map_of kvs k) = map_option canon (map_of kvs' k)"
proof -
  have look: "map_of (map canon_member ms) k = map_option canon (map_of ms k)" for ms
    by (induction ms) (auto simp: canon_member_def)
  have "map canon_member (sort_key fst kvs) = map canon_member (sort_key fst kvs')"
    using assms(1) by (simp add: canon_members)
  from arg_cong [OF this, of "\<lambda>ms. map_of ms k"] show ?thesis
    by (simp add: look map_of_sort_key assms(2,3))
qed

end
