(* ===== verification/Mt_Batch_Properties.thy ===== *)
theory Mt_Batch_Properties
  imports Mt_Batch Mt_Plan_Safety Canonical_Text
begin

section \<open>From the queue to the landing plan\<close>

text \<open>
  A batch candidate holds the heads the dry run planned; its landing plan carries the chain of commits
  its provenance recorded; and the digest of the landing plan does not depend on how far the landing
  has come.
\<close>

subsection \<open>Validated texts stay as they are\<close>

lemma required_text_strips: "required_text s m = Inr t \<longleftrightarrow> t = py_strip s \<and> py_strip s \<noteq> []"
  by (auto simp: required_text_def Let_def)

lemma normalize_batch_repository_Inr:
  "normalize_batch_repository s = Inr t \<longleftrightarrow>
     t = py_lower (py_strip s) \<and> py_strip s \<noteq> [] \<and> owner_name_shape t"
  by (auto simp: normalize_batch_repository_def required_text_strips)

lemma normalize_provenance_repository_Inr:
  "normalize_provenance_repository s = Inr t \<longleftrightarrow>
     t = py_lower (py_strip s) \<and> py_strip s \<noteq> [] \<and> owner_name_shape t"
  by (auto simp: normalize_provenance_repository_def required_token_Inr)

lemmas validated_texts = required_text_strips required_token_Inr normalize_batch_repository_Inr
  normalize_provenance_repository_Inr py_strip_lower

lemma check_digest_own [simp]: "check_digest (compact_sorted_json_sha256 j) (compact_sorted_json_sha256 j) m = Inr ()"
  by (simp add: check_digest_def)

subsection \<open>The digest of a landing plan\<close>

lemma json_nat_inject [simp]: "json_nat a = json_nat b \<longleftrightarrow> a = b"
  by (simp add: json_nat_def)

text \<open>
  What a landing plan fixes before anything is landed, field by field. The status of an entry, the base it
  was landed on and the commits of its landing are its progress.
\<close>

definition same_planned_entry :: "landing_entry \<Rightarrow> landing_entry \<Rightarrow> bool" where
  "same_planned_entry e e' \<longleftrightarrow>
     le_pull_request_number e = le_pull_request_number e' \<and> le_position e = le_position e'
     \<and> le_expected_head_sha e = le_expected_head_sha e'
     \<and> le_expected_head_tree_sha e = le_expected_head_tree_sha e'
     \<and> le_expected_base_sha e = le_expected_base_sha e' \<and> le_merge_method e = le_merge_method e'
     \<and> le_recorded_candidate_parent_sha e = le_recorded_candidate_parent_sha e'
     \<and> le_recorded_candidate_parent_tree_sha e = le_recorded_candidate_parent_tree_sha e'
     \<and> le_recorded_candidate_result_sha e = le_recorded_candidate_result_sha e'
     \<and> le_recorded_candidate_result_tree_sha e = le_recorded_candidate_result_tree_sha e'"

definition same_plan :: "landing_plan \<Rightarrow> landing_plan \<Rightarrow> bool" where
  "same_plan p p' \<longleftrightarrow>
     lp_batch_id p = lp_batch_id p' \<and> lp_repository p = lp_repository p'
     \<and> lp_base_branch p = lp_base_branch p' \<and> lp_candidate_ref p = lp_candidate_ref p'
     \<and> lp_candidate_sha p = lp_candidate_sha p' \<and> lp_candidate_tree_sha p = lp_candidate_tree_sha p'
     \<and> lp_candidate_sha256 p = lp_candidate_sha256 p'
     \<and> lp_structural_provenance_sha256 p = lp_structural_provenance_sha256 p'
     \<and> lp_policy_key p = lp_policy_key p' \<and> lp_policy_sha256 p = lp_policy_sha256 p'
     \<and> lp_candidate_pull_request_number p = lp_candidate_pull_request_number p'
     \<and> list_all2 same_planned_entry (lp_entries p) (lp_entries p')"

lemma same_planned_items:
  "same_planned_entry e e' \<Longrightarrow> landing_entry_plan_items e = landing_entry_plan_items e'"
  by (simp add: same_planned_entry_def landing_entry_plan_items_def)

lemma same_planned_entries:
  assumes "list_all2 same_planned_entry es es'"
  shows "map (JObj \<circ> landing_entry_plan_items) es = map (JObj \<circ> landing_entry_plan_items) es'"
    and "map le_position es = map le_position es'"
    and "map le_pull_request_number es = map le_pull_request_number es'"
    and "map le_merge_method es = map le_merge_method es'" and "length es = length es'"
  using assms
  by (induction rule: list_all2_induct) (auto simp: same_planned_entry_def landing_entry_plan_items_def)

text \<open>The value whose canonical text the digest is of, and that the text determines all of the plan.\<close>

definition landing_plan_payload :: "landing_plan \<Rightarrow> json" where
  "landing_plan_payload p = JObj (landing_plan_items p
     @ [(''entries'', JArr (map (JObj \<circ> landing_entry_plan_items) (lp_entries p)))])"

lemma canon_json_nat [simp]: "canon (json_nat n) = json_nat n"
  by (simp add: json_nat_def)

lemma planned_entry_of_value:
  assumes "canon (JObj (landing_entry_plan_items e)) = canon (JObj (landing_entry_plan_items e'))"
  shows "same_planned_entry e e'"
proof -
  note at = same_value_same_members [OF assms, of "''pull_request_number''"]
    same_value_same_members [OF assms, of "''position''"]
    same_value_same_members [OF assms, of "''expected_head_sha''"]
    same_value_same_members [OF assms, of "''expected_head_tree_sha''"]
    same_value_same_members [OF assms, of "''expected_base_sha''"]
    same_value_same_members [OF assms, of "''merge_method''"]
    same_value_same_members [OF assms, of "''recorded_candidate_parent_sha''"]
    same_value_same_members [OF assms, of "''recorded_candidate_parent_tree_sha''"]
    same_value_same_members [OF assms, of "''recorded_candidate_result_sha''"]
    same_value_same_members [OF assms, of "''recorded_candidate_result_tree_sha''"]
  then show ?thesis
    by (simp add: same_planned_entry_def landing_entry_plan_items_def)
qed

lemma planned_entries_of_value:
  assumes "map (canon \<circ> JObj \<circ> landing_entry_plan_items) es
    = map (canon \<circ> JObj \<circ> landing_entry_plan_items) es'"
  shows "list_all2 same_planned_entry es es'"
  using assms unfolding list_eq_iff_nth_eq
  by (auto simp: list_all2_conv_all_nth intro: planned_entry_of_value)

lemma plan_items_keys: "distinct (map fst (landing_plan_items p @ [(''entries'', v)]))"
  by (simp add: landing_plan_items_def candidate_number_item_def split: option.split)

lemma same_plan_of_text:
  assumes "dumps (landing_plan_payload p) = dumps (landing_plan_payload p')"
  shows "same_plan p p'"
proof -
  have look: "map_option canon (map_of (landing_plan_items p
        @ [(''entries'', JArr (map (JObj \<circ> landing_entry_plan_items) (lp_entries p)))]) k)
      = map_option canon (map_of (landing_plan_items p'
        @ [(''entries'', JArr (map (JObj \<circ> landing_entry_plan_items) (lp_entries p')))]) k)" for k
    by (rule same_value_same_members [OF same_text_same_value plan_items_keys plan_items_keys])
      (use assms in \<open>simp add: landing_plan_payload_def\<close>)
  have "map (canon \<circ> JObj \<circ> landing_entry_plan_items) (lp_entries p)
      = map (canon \<circ> JObj \<circ> landing_entry_plan_items) (lp_entries p')"
    using look [of "''entries''"]
    by (simp add: landing_plan_items_def candidate_number_item_def comp_def split: option.splits)
  moreover have "lp_candidate_pull_request_number p = lp_candidate_pull_request_number p'"
    using look [of "''candidate_pull_request_number''"]
    by (simp add: landing_plan_items_def candidate_number_item_def split: option.splits)
  ultimately show ?thesis
    using look [of "''batch_id''"] look [of "''repository''"] look [of "''base_branch''"]
      look [of "''candidate_ref''"] look [of "''candidate_sha''"] look [of "''candidate_tree_sha''"]
      look [of "''candidate_sha256''"] look [of "''structural_provenance_sha256''"]
      look [of "''policy_key''"] look [of "''policy_sha256''"]
    by (simp add: same_plan_def landing_plan_items_def planned_entries_of_value)
qed

lemma same_plan_same_text:
  "same_plan p p' \<Longrightarrow> landing_plan_payload p = landing_plan_payload p'"
  using same_planned_entries(1) [of "lp_entries p" "lp_entries p'"]
  by (simp add: same_plan_def landing_plan_payload_def landing_plan_items_def candidate_number_item_def)

lemma digest_of_payload: "landing_plan_sha256 p = sha256_hexdigest (dumps (landing_plan_payload p))"
  by (simp add: landing_plan_sha256_def compact_sorted_json_sha256_def landing_plan_payload_def)

text \<open>The texts of a plan do not depend on its entries and digest.\<close>

lemma landing_plan_texts_update:
  assumes "landing_plan_texts p = Inr q"
  shows "landing_plan_texts (p\<lparr>lp_entries := es\<rparr>) = Inr (q\<lparr>lp_entries := es\<rparr>)"
    and "landing_plan_texts (p\<lparr>lp_landing_plan_sha256 := d\<rparr>) = Inr (q\<lparr>lp_landing_plan_sha256 := d\<rparr>)"
    and "landing_plan_texts q = Inr q" and "lp_entries q = lp_entries p"
  using assms by (auto simp: landing_plan_texts_def validated_texts)

lemma landing_plan_texts_renamed:
  "landing_plan_texts p = Inr q \<Longrightarrow> py_strip i \<noteq> [] \<Longrightarrow>
     landing_plan_texts (p\<lparr>lp_plan_id := i\<rparr>) = Inr (q\<lparr>lp_plan_id := py_strip i\<rparr>)"
  by (auto simp: landing_plan_texts_def validated_texts)

lemma digest_not_digested [simp]:
  "landing_plan_sha256 (p\<lparr>lp_landing_plan_sha256 := d\<rparr>) = landing_plan_sha256 p"
  "landing_plan_sha256 (p\<lparr>lp_plan_id := i\<rparr>) = landing_plan_sha256 p"
  "check_protected_landing (p\<lparr>lp_landing_plan_sha256 := d\<rparr>) = check_protected_landing p"
  by (simp_all add: landing_plan_sha256_def landing_plan_items_def candidate_number_item_def
      check_protected_landing_def split: option.split)

lemma validated_landing_plan:
  assumes "validate_landing_plan q = Inr p"
  shows "landing_plan_texts p = Inr p" and "lp_entries p \<noteq> []"
    and "map le_position (lp_entries p) = [1..<Suc (length (lp_entries p))]"
    and "check_protected_landing p = Inr ()" and "lp_landing_plan_sha256 p = landing_plan_sha256 p"
    and "lp_entries p = lp_entries q"
proof -
  from assms obtain t where t: "landing_plan_texts q = Inr t"
    and c: "lp_entries t \<noteq> []" "map le_position (lp_entries t) = [1..<Suc (length (lp_entries t))]"
      "check_protected_landing t = Inr ()"
    and p: "p = t\<lparr>lp_landing_plan_sha256 := landing_plan_sha256 t\<rparr>"
    by (auto simp: validate_landing_plan_def)
  note T = landing_plan_texts_update [OF t]
  show "landing_plan_texts p = Inr p" unfolding p by (rule landing_plan_texts_update(2) [OF T(3)])
  show "lp_entries p = lp_entries q" using T(4) by (simp add: p)
  show "lp_entries p \<noteq> []" "map le_position (lp_entries p) = [1..<Suc (length (lp_entries p))]"
    "check_protected_landing p = Inr ()" "lp_landing_plan_sha256 p = landing_plan_sha256 p"
    using c unfolding p by (simp_all del: upt_Suc)
qed

lemma validated_plan_again:
  assumes "validate_landing_plan q = Inr p"
  shows "validate_landing_plan p = Inr p"
  using validated_landing_plan [OF assms]
  by (simp add: validate_landing_plan_def landing_plan_sha256_def del: upt_Suc)

lemma progressed_plan_valid:
  assumes "validate_landing_plan q = Inr p" and "list_all2 same_planned_entry (lp_entries p) es"
  shows "validate_landing_plan (p\<lparr>lp_entries := es\<rparr>) = Inr (p\<lparr>lp_entries := es\<rparr>)"
proof -
  note V = validated_landing_plan [OF assms(1)] and E = same_planned_entries [OF assms(2)]
  let ?p = "p\<lparr>lp_entries := es\<rparr>"
  have digest: "landing_plan_sha256 ?p = landing_plan_sha256 p"
    using E(1) by (simp add: landing_plan_sha256_def landing_plan_items_def candidate_number_item_def comp_def)
  have texts: "landing_plan_texts ?p = Inr ?p"
    by (rule landing_plan_texts_update(1) [OF V(1)])
  have protected: "check_protected_landing ?p = Inr ()"
  proof -
    have "(\<exists>e \<in> set es. le_merge_method e \<noteq> Method_merge)
        = (\<exists>e \<in> set (lp_entries p). le_merge_method e \<noteq> Method_merge)"
      using arg_cong [OF E(4), of "\<lambda>ms. \<exists>m \<in> set ms. m \<noteq> Method_merge"] by auto
    moreover have "set (map le_pull_request_number es) = set (map le_pull_request_number (lp_entries p))"
      by (simp only: E(3))
    ultimately show ?thesis using V(4) by (auto simp: check_protected_landing_def split: option.splits)
  qed
  have "es \<noteq> []" "map le_position es = [1..<Suc (length es)]"
    using V(2,3) E(2,5) by (auto simp del: upt_Suc)
  moreover have "check_digest (lp_landing_plan_sha256 p) (landing_plan_sha256 p) m = Inr ()" for m
    unfolding V(5) by (simp add: landing_plan_sha256_def)
  ultimately show ?thesis
    using texts protected digest V(5) by (simp add: validate_landing_plan_def del: upt_Suc)
qed

text \<open>
  C24. The digest of a landing plan covers its plan and not its progress. A validated plan whose entries
  only got new statuses and commits is valid as it is, under the same digest. And the digest is the
  SHA-256 of a text that two plans have in common only when they agree in everything planned: the batch,
  the candidate and its digests, the policy, the batch pull request, and number, position, heads, base,
  method and recorded commits of every entry.
\<close>

theorem landing_progress_keeps_plan_digest:
  assumes "validate_landing_plan q = Inr p"
  shows "(list_all2 same_planned_entry (lp_entries p) es \<longrightarrow>
        validate_landing_plan (p\<lparr>lp_entries := es\<rparr>) = Inr (p\<lparr>lp_entries := es\<rparr>))
     \<and> lp_landing_plan_sha256 p = sha256_hexdigest (dumps (landing_plan_payload p))
     \<and> (dumps (landing_plan_payload p) = dumps (landing_plan_payload p') \<longleftrightarrow> same_plan p p')"
  using progressed_plan_valid [OF assms] validated_landing_plan(5) [OF assms] digest_of_payload [of p]
    same_plan_of_text [of p p'] same_plan_same_text [of p p'] by auto

subsection \<open>The chain of a provenance\<close>

definition step_parent :: "rolling_step \<Rightarrow> string \<times> string" where
  "step_parent s = (rs_parent_sha s, rs_parent_tree_sha s)"

definition step_result :: "rolling_step \<Rightarrow> string \<times> string" where
  "step_result s = (rs_result_sha s, rs_result_tree_sha s)"

definition step_head :: "rolling_step \<Rightarrow> nat \<times> nat \<times> string \<times> string" where
  "step_head s = (rs_position s, rs_pull_request_number s, rs_head_sha s, rs_head_tree_sha s)"

definition binding_head :: "entry_binding \<Rightarrow> nat \<times> nat \<times> string \<times> string" where
  "binding_head e = (eb_position e, eb_pull_request_number e, eb_head_sha e, eb_head_tree_sha e)"

lemma walk_rolling_chain_Inr:
  "walk_rolling_chain from pairs = Inr to \<longleftrightarrow>
     map (step_parent \<circ> snd) pairs = butlast (from # map (step_result \<circ> snd) pairs)
     \<and> last (from # map (step_result \<circ> snd) pairs) = to
     \<and> map (step_head \<circ> snd) pairs = map (binding_head \<circ> fst) pairs"
proof (induction "from" pairs rule: walk_rolling_chain.induct)
  case (2 previous e s rest)
  then show ?case
    by (cases previous) (auto simp: step_parent_def step_result_def step_head_def binding_head_def)
qed auto

lemma map_zip_fst: "length xs \<ge> length ys \<Longrightarrow> map (f \<circ> fst) (zip xs ys) = map f (take (length ys) xs)"
  by (simp add: map_fst_zip_take map_snd_zip_take min_def flip: map_map)

lemma map_zip_snd: "length xs \<ge> length ys \<Longrightarrow> map (f \<circ> snd) (zip xs ys) = map f ys"
  by (simp add: map_fst_zip_take map_snd_zip_take min_def flip: map_map)

definition chain_of :: "structural_provenance \<Rightarrow> bool" where
  "chain_of p \<longleftrightarrow>
     map step_parent (sp_steps p) = butlast ((sp_base_sha p, sp_base_tree_sha p) # map step_result (sp_steps p))
     \<and> last ((sp_base_sha p, sp_base_tree_sha p) # map step_result (sp_steps p))
         = (sp_candidate_sha p, sp_candidate_tree_sha p)
     \<and> map step_head (sp_steps p) = map binding_head (take (length (sp_steps p)) (sp_entries p))"

lemma provenance_tokens_again:
  assumes "provenance_tokens q = Inr p"
  shows "provenance_tokens (p\<lparr>sp_provenance_sha256 := d, sp_candidate_sha256 := d'\<rparr>)
     = Inr (p\<lparr>sp_provenance_sha256 := d, sp_candidate_sha256 := d'\<rparr>)"
  using assms by (auto simp: provenance_tokens_def validated_texts)

lemma stack_root_ignores_digests [simp]:
  "check_stack_root (p\<lparr>sp_provenance_sha256 := d, sp_candidate_sha256 := d'\<rparr>) = check_stack_root p"
  by (simp add: check_stack_root_def split: option.split)

lemma provenance_digests_again [simp]:
  "structural_provenance_sha256 (p\<lparr>sp_provenance_sha256 := d, sp_candidate_sha256 := d'\<rparr>)
     = structural_provenance_sha256 p"
  "structural_candidate_sha256 (p\<lparr>sp_provenance_sha256 := d, sp_candidate_sha256 := d'\<rparr>)
     = structural_candidate_sha256 p"
  "structural_candidate_sha256 (p\<lparr>sp_provenance_sha256 := d\<rparr>) = structural_candidate_sha256 p"
  "structural_provenance_sha256 (p\<lparr>sp_provenance_sha256 := d\<rparr>) = structural_provenance_sha256 p"
  by (simp_all add: structural_provenance_sha256_def structural_candidate_sha256_def)

lemma check_digest_provenance [simp]:
  "check_digest (structural_provenance_sha256 p) (structural_provenance_sha256 p) m = Inr ()"
  "check_digest (structural_candidate_sha256 p) (structural_candidate_sha256 p) m = Inr ()"
  by (simp_all add: structural_provenance_sha256_def structural_candidate_sha256_def)

lemma validated_provenance:
  assumes "validate_structural_provenance q = Inr p"
  obtains t where "provenance_tokens q = Inr t"
    and "p = t\<lparr>sp_provenance_sha256 := structural_provenance_sha256 t,
               sp_candidate_sha256 := structural_candidate_sha256 t\<rparr>"
    and "sp_entries t \<noteq> []" "sp_steps t \<noteq> []"
    and "map eb_position (sp_entries t) = [1..<Suc (length (sp_entries t))]"
    and "length (sp_steps t) \<le> length (sp_entries t)"
    and "map rs_position (sp_steps t) = [1..<Suc (length (sp_steps t))]"
    and "walk_rolling_chain (sp_base_sha t, sp_base_tree_sha t) (zip (sp_entries t) (sp_steps t))
           = Inr (sp_candidate_sha t, sp_candidate_tree_sha t)"
    and "check_stack_root t = Inr ()"
  using assms by (auto simp: validate_structural_provenance_def Let_def simp del: upt_Suc)

lemma validated_provenance_chain: "validate_structural_provenance q = Inr p \<Longrightarrow> chain_of p"
  by (erule validated_provenance) (simp add: chain_of_def walk_rolling_chain_Inr map_zip_snd map_zip_fst)

text \<open>
  C28. Validated provenance is a chain of merges: the first starts at the base, each of the others at
  the result of the one before, the last makes the candidate, and each merges the head of its entry.
  It is valid as it is, under the same digests.
\<close>

theorem validated_provenance_is_chain:
  assumes "validate_structural_provenance q = Inr p"
  shows "chain_of p \<and> validate_structural_provenance p = Inr p"
proof -
  from assms obtain t where t: "provenance_tokens q = Inr t"
    and p: "p = t\<lparr>sp_provenance_sha256 := structural_provenance_sha256 t,
               sp_candidate_sha256 := structural_candidate_sha256 t\<rparr>"
    and c: "sp_entries t \<noteq> []" "sp_steps t \<noteq> []"
      "map eb_position (sp_entries t) = [1..<Suc (length (sp_entries t))]"
      "length (sp_steps t) \<le> length (sp_entries t)"
      "map rs_position (sp_steps t) = [1..<Suc (length (sp_steps t))]"
      "walk_rolling_chain (sp_base_sha t, sp_base_tree_sha t) (zip (sp_entries t) (sp_steps t))
         = Inr (sp_candidate_sha t, sp_candidate_tree_sha t)"
      "check_stack_root t = Inr ()"
    by (rule validated_provenance)
  have "chain_of p" by (rule validated_provenance_chain [OF assms])
  moreover have "validate_structural_provenance p = Inr p"
    using c provenance_tokens_again [OF t]
    unfolding p by (simp add: validate_structural_provenance_def del: upt_Suc)
  ultimately show ?thesis ..
qed


subsection \<open>The chain of a landing plan\<close>

lemma mapM_nth: "mapM f xs = Inr ys \<Longrightarrow> i < length xs \<Longrightarrow> f (xs ! i) = Inr (ys ! i)"
  by (auto simp: mapM_Inr_iff list_all2_conv_all_nth)

lemma mapM_member: "mapM f xs = Inr ys \<Longrightarrow> y \<in> set ys \<Longrightarrow> \<exists>x \<in> set xs. f x = Inr y"
  by (induction xs arbitrary: ys) auto

lemma find_rev_member: "find P (rev xs) = Some x \<Longrightarrow> P x \<and> x \<in> set xs"
  by (metis (no_types, lifting) find_Some_iff nth_mem set_rev)

lemma find_numbered:
  assumes "map f xs = [1..<Suc (length xs)]" "i < length xs"
  shows "find (\<lambda>x. f x = Suc i) (rev xs) = Some (xs ! i)"
proof -
  have at: "f (xs ! j) = Suc j" if "j < length xs" for j
  proof -
    from that have "f (xs ! j) = map f xs ! j" by simp
    also have "\<dots> = Suc j" unfolding assms(1) using that by (simp del: upt_Suc)
    finally show ?thesis .
  qed
  have "find (\<lambda>x. f x = Suc i) (rev xs) \<noteq> None"
    using at [OF assms(2)] nth_mem [OF assms(2)] by (auto simp: find_None_iff)
  then obtain x where x: "find (\<lambda>x. f x = Suc i) (rev xs) = Some x" by blast
  then have "x \<in> set xs" "f x = Suc i" by (auto dest: find_rev_member)
  then obtain j where "j < length xs" "x = xs ! j" by (auto simp: in_set_conv_nth)
  with at [of j] \<open>f x = Suc i\<close> x show ?thesis by simp
qed

definition landing_parent :: "landing_entry \<Rightarrow> string \<times> string" where
  "landing_parent e = (le_recorded_candidate_parent_sha e, le_recorded_candidate_parent_tree_sha e)"

definition landing_result :: "landing_entry \<Rightarrow> string \<times> string" where
  "landing_result e = (le_recorded_candidate_result_sha e, le_recorded_candidate_result_tree_sha e)"

lemma validated_step_plain:
  "validate_rolling_step s = Inr s \<Longrightarrow>
     py_strip (rs_parent_sha s) = rs_parent_sha s \<and> py_strip (rs_parent_tree_sha s) = rs_parent_tree_sha s
     \<and> py_strip (rs_result_sha s) = rs_result_sha s \<and> py_strip (rs_result_tree_sha s) = rs_result_tree_sha s"
proof -
  assume "validate_rolling_step s = Inr s"
  then have "s\<lparr>rs_parent_sha := py_strip (rs_parent_sha s), rs_parent_tree_sha := py_strip (rs_parent_tree_sha s),
      rs_head_sha := py_strip (rs_head_sha s), rs_head_tree_sha := py_strip (rs_head_tree_sha s),
      rs_result_sha := py_strip (rs_result_sha s), rs_result_tree_sha := py_strip (rs_result_tree_sha s)\<rparr> = s"
    by (auto simp: validate_rolling_step_def validated_texts split: if_splits)
  from arg_cong [OF this, of rs_parent_sha] arg_cong [OF this, of rs_parent_tree_sha]
    arg_cong [OF this, of rs_result_sha] arg_cong [OF this, of rs_result_tree_sha]
  show ?thesis by simp
qed

lemma landing_entry_of_step:
  assumes "landing_entry_of c m steps e = Inr l" "steps \<noteq> []"
    and "find (\<lambda>s. rs_position s = be_position e) (rev steps) = Some s" "validate_rolling_step s = Inr s"
  shows "le_pull_request_number l = be_pull_request_number e" "le_expected_head_sha l = py_strip (be_head_sha e)"
    "landing_parent l = step_parent s" "landing_result l = step_result s" "le_status l = Land_planned"
  using assms validated_step_plain [OF assms(4)]
  by (auto simp: landing_entry_of_def validate_landing_entry_def strip_landing_entry_def landing_parent_def
      landing_result_def step_parent_def step_result_def required_text_strips)

lemma bind_provenance_Inr:
  "bind_provenance d = Inr c \<Longrightarrow> \<exists>sha. c = d\<lparr>ba_candidate_sha256 := sha\<rparr>"
  by (cases "ba_structural_provenance d")
    (auto simp: bind_provenance_def intro: exI [of _ "ba_candidate_sha256 d"])

lemma validated_candidate:
  assumes "validate_batch_candidate c = Inr c'"
  shows "ba_entries c' = ba_entries c" "ba_entries c' \<noteq> []"
    "map be_position (ba_entries c') = [1..<Suc (length (ba_entries c'))]"
    "distinct (map be_pull_request_number (ba_entries c'))"
    "ba_structural_provenance c' = ba_structural_provenance c" "ba_status c' = ba_status c"
    "ba_held_out c' = ba_held_out c"
  using assms by (auto simp: validate_batch_candidate_def normalize_batch_entries_def Let_def
      dest!: bind_provenance_Inr simp del: upt_Suc)

lemma bound_provenance:
  assumes "validate_batch_candidate c = Inr c'" "ba_structural_provenance c' = Some p"
  shows "map binding_identity (sp_entries p) = map entry_identity (ba_entries c')"
    "sp_candidate_sha p = ba_candidate_sha c'" "sp_candidate_tree_sha p = ba_candidate_tree_sha c'"
    "sp_base_sha p = ba_base_sha c'"
proof -
  from assms(1) obtain d where d: "bind_provenance d = Inr c'"
    by (auto simp: validate_batch_candidate_def Let_def)
  then have "ba_structural_provenance d = ba_structural_provenance c'"
    by (auto simp: bind_provenance_def split: option.splits)
  with d assms(2) show "map binding_identity (sp_entries p) = map entry_identity (ba_entries c')"
    "sp_candidate_sha p = ba_candidate_sha c'" "sp_candidate_tree_sha p = ba_candidate_tree_sha c'"
    "sp_base_sha p = ba_base_sha c'"
    by (auto simp: bind_provenance_def)
qed

lemma built_landing_plan:
  assumes "build_landing_plan c m at num = Inr lp"
  obtains entries where
    "mapM (landing_entry_of c m (case ba_structural_provenance c of None \<Rightarrow> []
        | Some p \<Rightarrow> if provenance_complete p then sp_steps p else [])) (ba_entries c) = Inr entries"
    "lp_entries lp = entries" "ba_status c = Cand_passed" "entries \<noteq> []"
    "lp_candidate_sha lp = py_strip (ba_candidate_sha c)"
    "lp_candidate_tree_sha lp = py_strip (ba_candidate_tree_sha c)"
proof -
  from assms obtain entries p q where e: "mapM (landing_entry_of c m (case ba_structural_provenance c of None \<Rightarrow> []
        | Some p \<Rightarrow> if provenance_complete p then sp_steps p else [])) (ba_entries c) = Inr entries"
    and q: "validate_landing_plan q = Inr p" "lp_entries q = entries"
      "lp_candidate_sha q = ba_candidate_sha c" "lp_candidate_tree_sha q = ba_candidate_tree_sha c"
    and lp: "validate_landing_plan (p\<lparr>lp_plan_id := build_landing_plan_id p\<rparr>) = Inr lp"
    and st: "ba_status c = Cand_passed"
    by (auto simp: build_landing_plan_def Let_def)
  have "lp_entries lp = entries" "entries \<noteq> []"
    using validated_landing_plan(2,6) [OF lp] validated_landing_plan(6) [OF q(1)] q(2) by auto
  moreover have "lp_candidate_sha lp = py_strip (ba_candidate_sha c)"
    "lp_candidate_tree_sha lp = py_strip (ba_candidate_tree_sha c)"
    using q(1,3,4) lp by (auto simp: validate_landing_plan_def landing_plan_texts_def validated_texts)
  ultimately show ?thesis using e st by (intro that) auto
qed


lemma complete_steps_positions:
  assumes "validate_structural_provenance q = Inr p"
  shows "map rs_position (sp_steps p) = [1..<Suc (length (sp_steps p))]"
    and "py_strip (sp_candidate_sha p) = sp_candidate_sha p"
    and "py_strip (sp_candidate_tree_sha p) = sp_candidate_tree_sha p" and "sp_steps p \<noteq> []"
  using assms by (rule validated_provenance, auto simp: provenance_tokens_def validated_texts simp del: upt_Suc)+

text \<open>
  C20. The landing plan of a passed candidate with complete provenance lands the candidate's entries
  in order, at their heads, and records for each the commits that provenance recorded: the first
  starts at the candidate's base, each of the others at the result of the one before, and the result
  of the last is the candidate.
\<close>

theorem landing_plan_carries_provenance:
  assumes "validate_batch_candidate c0 = Inr c" and "ba_structural_provenance c = Some p"
    and "validate_structural_provenance p0 = Inr p" and "provenance_complete p"
    and "list_all (\<lambda>s. validate_rolling_step s = Inr s) (sp_steps p)"
    and "build_landing_plan c m at num = Inr lp"
  shows "map le_pull_request_number (lp_entries lp) = map be_pull_request_number (ba_entries c)
     \<and> map le_expected_head_sha (lp_entries lp) = map (py_strip \<circ> be_head_sha) (ba_entries c)
     \<and> map landing_parent (lp_entries lp)
         = butlast ((ba_base_sha c, sp_base_tree_sha p) # map landing_result (lp_entries lp))
     \<and> last (map landing_result (lp_entries lp)) = (lp_candidate_sha lp, lp_candidate_tree_sha lp)"
proof -
  obtain entries where entries: "mapM (landing_entry_of c m (sp_steps p)) (ba_entries c) = Inr entries"
    and lp: "lp_entries lp = entries" "entries \<noteq> []"
      "lp_candidate_sha lp = py_strip (ba_candidate_sha c)" "lp_candidate_tree_sha lp = py_strip (ba_candidate_tree_sha c)"
    using built_landing_plan [OF assms(6)] assms(2,4) by auto
  note B = bound_provenance [OF assms(1,2)] and C = validated_candidate [OF assms(1)]
    and S = complete_steps_positions [OF assms(3)]
  have len: "length (sp_steps p) = length (ba_entries c)"
    using assms(4) arg_cong [OF B(1), of length] by (simp add: provenance_complete_def)
  have at: "le_pull_request_number (entries ! i) = be_pull_request_number (ba_entries c ! i)
      \<and> le_expected_head_sha (entries ! i) = py_strip (be_head_sha (ba_entries c ! i))
      \<and> landing_parent (entries ! i) = step_parent (sp_steps p ! i)
      \<and> landing_result (entries ! i) = step_result (sp_steps p ! i)" if i: "i < length (ba_entries c)" for i
  proof -
    have "be_position (ba_entries c ! i) = map be_position (ba_entries c) ! i" using i by simp
    then have pos: "be_position (ba_entries c ! i) = Suc i" unfolding C(3) using i by (simp del: upt_Suc)
    have "find (\<lambda>s. rs_position s = Suc i) (rev (sp_steps p)) = Some (sp_steps p ! i)"
      by (rule find_numbered [OF S(1)]) (simp add: len i)
    moreover have "validate_rolling_step (sp_steps p ! i) = Inr (sp_steps p ! i)"
      using assms(5) i len by (simp add: list_all_length)
    ultimately show ?thesis
      using landing_entry_of_step [OF mapM_nth [OF entries i] S(4)] by (simp add: pos)
  qed
  have n: "length entries = length (ba_entries c)" by (rule mapM_length [OF entries])
  have maps: "map landing_parent entries = map step_parent (sp_steps p)"
    "map landing_result entries = map step_result (sp_steps p)"
    "map le_pull_request_number entries = map be_pull_request_number (ba_entries c)"
    "map le_expected_head_sha entries = map (py_strip \<circ> be_head_sha) (ba_entries c)"
    using at n len by (auto simp: list_eq_iff_nth_eq)
  have "chain_of p" by (rule validated_provenance_chain [OF assms(3)])
  then show ?thesis
    using maps S B(2,3,4) lp by (simp add: chain_of_def split: if_splits)
qed

subsection \<open>The candidate of a dry run\<close>

lemma batch_of_kept:
  assumes "batch_of rp snapshot opts q = Inr (entries, q')" "e \<in> set q'" "qe_eligible e"
  shows "\<exists>e' \<in> set (eligible_entries q). qe_number e' = qe_number e \<and> qe_head_sha e' = qe_head_sha e"
  using assms by (elim batch_of_cases)
    (auto simp: eligible_entries_def defer_outside_batch_def split: if_splits)

lemma batch_entry_of_Inr:
  assumes "batch_entry_of r (position, n) = Inr b"
  shows "be_pull_request_number b = n"
    and "\<exists>e \<in> set (dr_queue r). qe_number e = n \<and> qe_eligible e \<and> be_head_sha b = py_strip (qe_head_sha e)"
  using assms by (auto simp: batch_entry_of_def validate_batch_entry_def required_text_strips Let_def
      dest: find_rev_member split: option.splits if_splits)

text \<open>
  C27. The candidate built from a dry run holds exactly the planned front of the queue, in its order,
  and each of its entries is a pull request of the snapshot that the policy admits, at the head the
  snapshot saw.
\<close>

theorem candidate_is_planned_queue:
  assumes "build_dry_run_result policy snapshot opts = Inr r"
    and "find_repository_policy policy (snap_repository snapshot) (snap_base_branch snapshot) = Inr rp"
    and "build_batch_candidate r base psha at root binding held = Inr c"
  shows "map be_pull_request_number (ba_entries c) = dr_queue_order r \<and> ba_status c = Cand_planned
     \<and> (\<forall>b \<in> set (ba_entries c). \<exists>pr \<in> set (pull_requests snapshot).
          pr_number pr = be_pull_request_number b \<and> py_strip (pr_head_sha pr) = be_head_sha b
          \<and> admissible rp pr (opt_batch_landing opts) (plan_allow_unknown opts pr) False)"
proof -
  from assms(3) obtain entries d where
    entries: "mapM (batch_entry_of r) (zip [1..<Suc (length (dr_queue_order r))] (dr_queue_order r)) = Inr entries"
    and d: "validate_batch_candidate d = Inr c" "ba_entries d = entries" "ba_status d = Cand_planned"
    by (auto simp: build_batch_candidate_def simp del: upt_Suc)
  from d validated_candidate [OF d(1)] have c: "ba_entries c = entries" "ba_status c = Cand_planned" by simp_all
  have "map be_pull_request_number entries
      = map (id \<circ> snd) (zip [1..<Suc (length (dr_queue_order r))] (dr_queue_order r))"
    by (rule mapM_map [OF entries]) (auto dest: batch_entry_of_Inr(1))
  then have order: "map be_pull_request_number entries = dr_queue_order r" by (simp add: map_zip_snd del: upt_Suc)
  moreover have "\<exists>pr \<in> set (pull_requests snapshot).
      pr_number pr = be_pull_request_number b \<and> py_strip (pr_head_sha pr) = be_head_sha b
      \<and> admissible rp pr (opt_batch_landing opts) (plan_allow_unknown opts pr) False"
    if "b \<in> set entries" for b
  proof -
    from mapM_member [OF entries that] obtain x where x: "batch_entry_of r x = Inr b" by blast
    obtain i n where "x = (i, n)" by (cases x)
    with x batch_entry_of_Inr [of r i n b] obtain e where e: "e \<in> set (dr_queue r)" "qe_eligible e"
      "qe_number e = be_pull_request_number b" "be_head_sha b = py_strip (qe_head_sha e)" by auto
    from assms(1) obtain rp' es where rp': "find_repository_policy policy (snap_repository snapshot)
        (snap_base_branch snapshot) = Inr rp'"
      and "batch_of rp' snapshot opts (plan_queue rp' snapshot opts) = Inr (es, dr_queue r)"
      by (rule build_dry_run_result_cases) auto
    from batch_of_kept [OF this(2) e(1,2)] obtain e' where
      "e' \<in> set (eligible_entries (plan_queue rp' snapshot opts))"
      "qe_number e' = qe_number e" "qe_head_sha e' = qe_head_sha e" by blast
    then show ?thesis using e rp' assms(2)
      by (elim eligible_entry_admissible) (auto simp: same_pull_request_def base_pull_requests_def)
  qed
  ultimately show ?thesis unfolding c by blast
qed


subsection \<open>Concrete inputs\<close>

definition ex_batch_entry :: "nat \<Rightarrow> nat \<Rightarrow> string \<Rightarrow> batch_entry" where
  "ex_batch_entry n position head = \<lparr>be_pull_request_number = n, be_position = position, be_head_sha = head,
     be_head_tree_sha = '''', be_impact_status = Impact_unknown, be_affected_subjects = [],
     be_title = '''', be_url = ''''\<rparr>"

lemma ex_batch_facts:
  "map_sum (\<lambda>_. ()) (\<lambda>r. (dr_repository r, dr_base_branch r, dr_policy_key r, dr_queue_order r,
        dr_intended_next_action r,
        mapM (batch_entry_of r) (zip [1..<Suc (length (dr_queue_order r))] (dr_queue_order r)),
        dependency_not_ready_holds r ''b''))
     (build_dry_run_result ex_policy ex_snapshot ex_options)
   = Inr (''o/r'', ''main'', ''o/r:main'', [1, 2], Act_merge, Inr [ex_batch_entry 1 1 ''h1'', ex_batch_entry 2 2 ''h2''], Inr [])"
  by code_simp

lemma text_starts: "\<not> py_space c \<Longrightarrow> py_strip (c # s) \<noteq> []"
  by (auto simp: py_strip_eq_Nil)

lemma ex_text [simp]: "py_strip ''b'' = ''b''" "py_strip ''o/r'' = ''o/r''" "py_strip ''main'' = ''main''"
  "py_strip ''o/r:main'' = ''o/r:main''" "py_lower ''o/r'' = ''o/r''" "py_strip ''h1'' = ''h1''"
  "py_strip ''h2'' = ''h2''" "owner_name_shape ''o/r''" "\<not> py_space (CHR ''m'')" "\<not> py_space (CHR ''r'')"
  by code_simp+

lemma ex_candidate_exists:
  obtains r c where "build_dry_run_result ex_policy ex_snapshot ex_options = Inr r"
    "build_batch_candidate r ''b'' ''b'' ''b'' None None [] = Inr c" "dr_queue_order r = [1, 2]"
proof -
  obtain r where r: "build_dry_run_result ex_policy ex_snapshot ex_options = Inr r"
    and f: "dr_repository r = ''o/r''" "dr_base_branch r = ''main''" "dr_policy_key r = ''o/r:main''"
      "dr_queue_order r = [1, 2]" "dr_intended_next_action r = Act_merge"
      "mapM (batch_entry_of r) (zip [1..<Suc (length (dr_queue_order r))] (dr_queue_order r))
         = Inr [ex_batch_entry 1 1 ''h1'', ex_batch_entry 2 2 ''h2'']"
      "dependency_not_ready_holds r ''b'' = Inr []"
    using ex_batch_facts by (cases "build_dry_run_result ex_policy ex_snapshot ex_options")
      (auto simp del: upt_Suc)
  obtain bid ref where "build_batch_id ''o/r'' ''main'' ''b'' [''h1'', ''h2''] = Inr bid" "py_strip bid \<noteq> []"
    by (simp add: build_batch_id_def validated_texts text_starts)
  moreover have "\<exists>ref. build_candidate_ref ''o/r'' ''main'' bid = Inr ref \<and> py_strip ref \<noteq> []"
    using calculation(2) by (simp add: build_candidate_ref_def validated_texts text_starts)
  then obtain ref where "build_candidate_ref ''o/r'' ''main'' bid = Inr ref" "py_strip ref \<noteq> []" by blast
  ultimately have "\<exists>c. build_batch_candidate r ''b'' ''b'' ''b'' None None [] = Inr c"
    unfolding build_batch_candidate_def f(6)
    by (simp add: f ex_batch_entry_def required_text_def validate_batch_candidate_def normalize_batch_entries_def
        normalize_batch_repository_def check_head_reuse_def bind_provenance_def Let_def upt_rec)
  with r f(4) that show ?thesis by blast
qed

theorem candidate_is_planned_queue_witness:
  "\<exists>r c. build_dry_run_result ex_policy ex_snapshot ex_options = Inr r
     \<and> build_batch_candidate r ''b'' ''b'' ''b'' None None [] = Inr c
     \<and> map be_pull_request_number (ba_entries c) = [1, 2]"
proof -
  obtain r c where r: "build_dry_run_result ex_policy ex_snapshot ex_options = Inr r"
    and c: "build_batch_candidate r ''b'' ''b'' ''b'' None None [] = Inr c" and o: "dr_queue_order r = [1, 2]"
    by (rule ex_candidate_exists)
  from candidate_is_planned_queue [OF r ex_find_policy c] o r c show ?thesis by auto
qed


definition ex_step :: "nat \<Rightarrow> string \<Rightarrow> string \<Rightarrow> string \<Rightarrow> rolling_step" where
  "ex_step n parent head result = \<lparr>rs_position = n, rs_pull_request_number = n, rs_parent_sha = parent,
     rs_parent_tree_sha = parent, rs_head_sha = head, rs_head_tree_sha = head, rs_result_sha = result,
     rs_result_tree_sha = result, rs_kind = Merge_commit\<rparr>"

definition ex_binding :: "nat \<Rightarrow> string \<Rightarrow> entry_binding" where
  "ex_binding n head = \<lparr>eb_position = n, eb_pull_request_number = n, eb_head_sha = head,
     eb_head_tree_sha = head, eb_impact_status = Impact_unknown, eb_affected_subjects = []\<rparr>"

definition ex_provenance :: structural_provenance where
  "ex_provenance = \<lparr>sp_schema_version = 1, sp_repository = ''o/r'', sp_base_branch = ''main'',
     sp_base_sha = ''b'', sp_base_tree_sha = ''b'', sp_policy_key = ''k'', sp_policy_sha256 = ''k'',
     sp_entries = [ex_binding 1 ''h1'', ex_binding 2 ''h2''],
     sp_steps = [ex_step 1 ''b'' ''h1'' ''c1'', ex_step 2 ''c1'' ''h2'' ''c2''],
     sp_candidate_sha = ''c2'', sp_candidate_tree_sha = ''c2'', sp_stack_collapse_root = None,
     sp_provenance_sha256 = '''', sp_candidate_sha256 = ''''\<rparr>"

definition ex_digested :: structural_provenance where
  "ex_digested = ex_provenance\<lparr>sp_provenance_sha256 := structural_provenance_sha256 ex_provenance,
     sp_candidate_sha256 := structural_candidate_sha256 ex_provenance\<rparr>"

lemma ex_text' [simp]: "py_strip ''c1'' = ''c1''" "py_strip ''c2'' = ''c2''" "py_strip ''k'' = ''k''"
  "py_strip ''refs'' = ''refs''" "py_casefold ''o/r'' = ''o/r''"
  by code_simp+

lemma ex_provenance_valid: "validate_structural_provenance ex_provenance = Inr ex_digested"
  by (simp add: validate_structural_provenance_def ex_digested_def ex_provenance_def provenance_tokens_def
      required_token_def normalize_provenance_repository_def ex_binding_def ex_step_def check_stack_root_def
      check_digest_def Let_def upt_rec)

theorem validated_provenance_is_chain_witness:
  "validate_structural_provenance ex_provenance = Inr ex_digested \<and> chain_of ex_digested"
  using validated_provenance_is_chain [OF ex_provenance_valid] ex_provenance_valid by simp

definition ex_train_candidate :: "candidate_status \<Rightarrow> batch_candidate" where
  "ex_train_candidate status = \<lparr>ba_batch_id = ''k'', ba_repository = ''o/r'', ba_base_branch = ''main'', ba_base_sha = ''b'',
     ba_policy_key = ''k'', ba_policy_sha256 = ''k'', ba_candidate_ref = ''refs'', ba_candidate_sha = ''c2'',
     ba_candidate_tree_sha = ''c2'', ba_candidate_sha256 = '''', ba_status = status,
     ba_entries = [(ex_batch_entry 1 1 ''h1'')\<lparr>be_head_tree_sha := ''h1''\<rparr>,
       (ex_batch_entry 2 2 ''h2'')\<lparr>be_head_tree_sha := ''h2''\<rparr>],
     ba_held_out = [], ba_batch_body_retry_of = '''', ba_infrastructure_retry_of = '''', ba_check_retry_of = '''',
     ba_check_retry_evidence = None, ba_check_rerun_attempts = [], ba_check_rerun_requested_at = '''',
     ba_stack_collapse_root = None, ba_structural_provenance = None,
     ba_required_checks_status = Cc_pass, ba_required_checks_observation_error = '''',
     ba_head_check_reuse = None, ba_created_at = ''k'', ba_updated_at = ''k''\<rparr>"

definition ex_candidate :: batch_candidate where
  "ex_candidate = (ex_train_candidate Cand_passed)\<lparr>ba_structural_provenance := Some ex_digested\<rparr>"

definition ex_bound_candidate :: batch_candidate where
  "ex_bound_candidate = ex_candidate\<lparr>ba_candidate_sha256 := sp_candidate_sha256 ex_digested\<rparr>"

lemma ex_digested_fields:
  "sp_repository ex_digested = ''o/r''" "sp_base_branch ex_digested = ''main''" "sp_base_sha ex_digested = ''b''"
  "sp_policy_key ex_digested = ''k''" "sp_policy_sha256 ex_digested = ''k''" "sp_candidate_sha ex_digested = ''c2''"
  "sp_candidate_tree_sha ex_digested = ''c2''" "sp_stack_collapse_root ex_digested = None"
  "sp_entries ex_digested = [ex_binding 1 ''h1'', ex_binding 2 ''h2'']"
  "sp_steps ex_digested = [ex_step 1 ''b'' ''h1'' ''c1'', ex_step 2 ''c1'' ''h2'' ''c2'']"
  "provenance_complete ex_digested"
  by (simp_all add: ex_digested_def ex_provenance_def provenance_complete_def)

lemma ex_candidate_valid: "validate_batch_candidate ex_candidate = Inr ex_bound_candidate"
  by (simp add: validate_batch_candidate_def ex_candidate_def ex_train_candidate_def ex_bound_candidate_def required_text_def
      normalize_batch_repository_def normalize_batch_entries_def check_head_reuse_def bind_provenance_def Let_def
      ex_digested_fields ex_binding_def ex_batch_entry_def binding_identity_def entry_identity_def upt_rec)

lemma renamed_plan_valid:
  assumes "validate_landing_plan q = Inr p" "py_strip i \<noteq> []"
  shows "\<exists>p'. validate_landing_plan (p\<lparr>lp_plan_id := i\<rparr>) = Inr p'"
proof -
  note V = validated_landing_plan [OF assms(1)]
  have "landing_plan_texts (p\<lparr>lp_plan_id := i\<rparr>) = Inr (p\<lparr>lp_plan_id := py_strip i\<rparr>)"
    by (rule landing_plan_texts_renamed [OF V(1) assms(2)])
  moreover have "check_protected_landing (p\<lparr>lp_plan_id := py_strip i\<rparr>) = Inr ()"
    using V(4) by (auto simp: check_protected_landing_def split: option.splits)
  moreover have "check_digest (landing_plan_sha256 p) (landing_plan_sha256 p) m = Inr ()" for m
    by (simp add: landing_plan_sha256_def)
  ultimately show ?thesis
    using V(2,3,5) by (simp add: validate_landing_plan_def del: upt_Suc)
qed

definition ex_landing_entry :: "nat \<Rightarrow> string \<Rightarrow> string \<Rightarrow> string \<Rightarrow> landing_entry" where
  "ex_landing_entry n parent head result = \<lparr>le_pull_request_number = n, le_position = n,
     le_expected_head_sha = head, le_expected_head_tree_sha = head, le_expected_base_sha = ''b'',
     le_merge_method = Method_merge, le_status = Land_planned, le_recorded_candidate_parent_sha = parent,
     le_recorded_candidate_parent_tree_sha = parent, le_recorded_candidate_result_sha = result,
     le_recorded_candidate_result_tree_sha = result, le_recorded_rolling_base_sha = '''',
     le_recorded_rolling_base_tree_sha = '''', le_landed_head_sha = '''', le_landed_head_tree_sha = '''',
     le_merge_commit_sha = '''', le_merge_commit_tree_sha = ''''\<rparr>"

definition ex_landing_entries :: "landing_entry list" where
  "ex_landing_entries = [ex_landing_entry 1 ''b'' ''h1'' ''c1'', ex_landing_entry 2 ''c1'' ''h2'' ''c2'']"

lemma ex_bound_fields:
  "ba_status ex_bound_candidate = Cand_passed" "ba_structural_provenance ex_bound_candidate = Some ex_digested"
  "ba_batch_id ex_bound_candidate = ''k''" "ba_repository ex_bound_candidate = ''o/r''"
  "ba_base_branch ex_bound_candidate = ''main''" "ba_candidate_ref ex_bound_candidate = ''refs''"
  "ba_candidate_sha ex_bound_candidate = ''c2''" "ba_candidate_tree_sha ex_bound_candidate = ''c2''"
  "ba_candidate_sha256 ex_bound_candidate = sp_candidate_sha256 ex_digested"
  "ba_policy_key ex_bound_candidate = ''k''" "ba_policy_sha256 ex_bound_candidate = ''k''"
  by (simp_all add: ex_bound_candidate_def ex_candidate_def ex_train_candidate_def)

lemma ex_entries_land:
  "mapM (landing_entry_of ex_bound_candidate Method_merge (sp_steps ex_digested)) (ba_entries ex_bound_candidate)
     = Inr ex_landing_entries"
  by (simp add: landing_entry_of_def validate_landing_entry_def required_text_def ex_bound_candidate_def
      ex_candidate_def ex_train_candidate_def ex_batch_entry_def ex_digested_fields ex_step_def strip_landing_entry_def Let_def
      ex_landing_entry_def ex_landing_entries_def)

definition ex_landing_plan :: landing_plan where
  "ex_landing_plan = \<lparr>lp_plan_id = ''k'', lp_batch_id = ''k'', lp_repository = ''o/r'', lp_base_branch = ''main'',
     lp_candidate_ref = ''refs'', lp_candidate_sha = ''c2'', lp_candidate_tree_sha = ''c2'',
     lp_candidate_sha256 = sp_candidate_sha256 ex_digested,
     lp_structural_provenance_sha256 = sp_provenance_sha256 ex_digested, lp_policy_key = ''k'',
     lp_policy_sha256 = ''k'', lp_entries = ex_landing_entries, lp_created_at = ''k'',
     lp_landing_plan_sha256 = '''', lp_candidate_pull_request_number = None\<rparr>"

lemma valid_plan_exists:
  assumes "landing_plan_texts q = Inr t" "lp_entries q \<noteq> []" "lp_landing_plan_sha256 q = ''''"
    "map le_position (lp_entries q) = [1..<Suc (length (lp_entries q))]" "lp_candidate_pull_request_number q = None"
  shows "\<exists>p. validate_landing_plan q = Inr p"
proof -
  have "lp_landing_plan_sha256 t = ''''" "lp_candidate_pull_request_number t = None" "lp_entries t = lp_entries q"
    using assms(1,3,5) by (auto simp: landing_plan_texts_def validated_texts)
  with assms show ?thesis
    by (simp add: validate_landing_plan_def check_protected_landing_def check_digest_def del: upt_Suc)
qed

lemma ex_landing_plan_texts: "\<exists>t. landing_plan_texts (ex_landing_plan\<lparr>lp_plan_id := ''pending''\<rparr>) = Inr t"
  by (simp add: landing_plan_texts_def ex_landing_plan_def required_text_def normalize_batch_repository_def
      py_strip_eq_Nil py_space_def)

lemma ex_plan_of_candidate:
  obtains lp where "build_landing_plan ex_bound_candidate Method_merge ''k'' None = Inr lp"
proof -
  let ?q = "ex_landing_plan\<lparr>lp_plan_id := ''pending''\<rparr>"
  obtain p where p: "validate_landing_plan ?q = Inr p"
    using valid_plan_exists [of ?q] ex_landing_plan_texts
    by (auto simp: ex_landing_plan_def ex_landing_entries_def ex_landing_entry_def upt_rec)
  have "py_strip (build_landing_plan_id p) \<noteq> []" by (simp add: build_landing_plan_id_def text_starts)
  from renamed_plan_valid [OF p this] obtain lp where
    lp: "validate_landing_plan (p\<lparr>lp_plan_id := build_landing_plan_id p\<rparr>) = Inr lp" by blast
  have "build_landing_plan ex_bound_candidate Method_merge ''k'' None = Inr lp"
    using p lp
    by (simp add: build_landing_plan_def ex_bound_fields ex_entries_land ex_digested_fields(11) Let_def
        ex_landing_plan_def)
  then show ?thesis by (rule that)
qed

theorem landing_plan_carries_provenance_witness:
  "\<exists>lp. build_landing_plan ex_bound_candidate Method_merge ''k'' None = Inr lp
     \<and> map le_pull_request_number (lp_entries lp) = [1, 2]
     \<and> last (map landing_result (lp_entries lp)) = (lp_candidate_sha lp, lp_candidate_tree_sha lp)"
proof -
  obtain lp where lp: "build_landing_plan ex_bound_candidate Method_merge ''k'' None = Inr lp"
    by (rule ex_plan_of_candidate)
  have "ba_structural_provenance ex_bound_candidate = Some ex_digested"
    "map be_pull_request_number (ba_entries ex_bound_candidate) = [1, 2]"
    by (simp_all add: ex_bound_candidate_def ex_candidate_def ex_train_candidate_def ex_batch_entry_def)
  moreover have "list_all (\<lambda>s. validate_rolling_step s = Inr s) (sp_steps ex_digested)"
    by (simp add: ex_digested_fields ex_step_def validate_rolling_step_def required_token_def)
  ultimately show ?thesis
    using landing_plan_carries_provenance [OF ex_candidate_valid _ ex_provenance_valid ex_digested_fields(11) _ lp] lp
    by simp
qed

theorem landing_progress_keeps_plan_digest_witness:
  "\<exists>q p. validate_landing_plan q = Inr p \<and> lp_entries p = ex_landing_entries
     \<and> validate_landing_plan (p\<lparr>lp_entries := map (\<lambda>e. e\<lparr>le_status := Land_merging\<rparr>) ex_landing_entries\<rparr>)
         = Inr (p\<lparr>lp_entries := map (\<lambda>e. e\<lparr>le_status := Land_merging\<rparr>) ex_landing_entries\<rparr>)
     \<and> dumps (landing_plan_payload p) \<noteq> dumps (landing_plan_payload (p\<lparr>lp_candidate_sha := ''other''\<rparr>))"
proof -
  let ?q = "ex_landing_plan\<lparr>lp_plan_id := ''pending''\<rparr>"
  obtain p where p: "validate_landing_plan ?q = Inr p"
    using valid_plan_exists [of ?q] ex_landing_plan_texts
    by (auto simp: ex_landing_plan_def ex_landing_entries_def ex_landing_entry_def upt_rec)
  then have "lp_entries p = ex_landing_entries \<and> lp_candidate_sha p = ''c2''"
    by (auto simp: validate_landing_plan_def landing_plan_texts_def validated_texts ex_landing_plan_def
        py_space_def)
  moreover from this have "list_all2 same_planned_entry (lp_entries p)
      (map (\<lambda>e. e\<lparr>le_status := Land_merging\<rparr>) ex_landing_entries)"
    by (simp add: list_all2_conv_all_nth same_planned_entry_def)
  moreover have "\<not> same_plan p (p\<lparr>lp_candidate_sha := ''other''\<rparr>)"
    using calculation(1) by (simp add: same_plan_def)
  ultimately show ?thesis
    using landing_progress_keeps_plan_digest [OF p, of _ "p\<lparr>lp_candidate_sha := ''other''\<rparr>"] p by blast
qed

end
