(* ===== verification/Mt_Controller_Properties.thy ===== *)
theory Mt_Controller_Properties
  imports Mt_Controller Mt_Batch_Properties
begin

section \<open>The controller's decisions\<close>

text \<open>
  What the decision depends on, in terms of the records in the stores: it does not change when records
  arrive late, it plans a landing for passed candidates only, and the plan it asked for is what it
  lands next.
\<close>

subsection \<open>Records that arrive late\<close>

text \<open>Records of the latest group that do not exceed its progress.\<close>

definition lagging :: "('r list \<Rightarrow> 'r option) \<Rightarrow> ('r \<Rightarrow> string) \<Rightarrow> ('r \<Rightarrow> 'k::linorder) \<Rightarrow> 'r list \<Rightarrow> 'r list \<Rightarrow> bool" where
  "lagging latest grp rank rs qs = (case latest rs of None \<Rightarrow> qs = []
     | Some r \<Rightarrow> list_all (\<lambda>q. grp q = grp r \<and> rank q \<le> rank r) qs)"

text \<open>A plan id belongs to one candidate.\<close>

definition plans_of_one_candidate :: "landing_record list \<Rightarrow> bool" where
  "plans_of_one_candidate ls \<longleftrightarrow> list_all (\<lambda>p. list_all (\<lambda>q. landing_group p = landing_group q \<longrightarrow>
     lp_batch_id (ln_landing_plan p) = lp_batch_id (ln_landing_plan q)
     \<and> lp_candidate_sha (ln_landing_plan p) = lp_candidate_sha (ln_landing_plan q)) ls) ls"

context progress_view
begin

lemma lagging_writes: "lagging latest grp rank rs qs \<Longrightarrow> latest (rs @ qs) = latest rs"
  by (auto simp: lagging_def list_all_iff late_writes split: option.splits)

text \<open>The same below a filter that takes groups as a whole.\<close>

lemma lagging_filter:
  assumes "lagging latest grp rank rs qs"
    and whole: "\<And>p q. p \<in> set (rs @ qs) \<Longrightarrow> q \<in> set (rs @ qs) \<Longrightarrow> grp p = grp q \<Longrightarrow> P p = P q"
  shows "latest (filter P (rs @ qs)) = latest (filter P rs)"
proof (cases "latest rs")
  case None
  with assms(1) show ?thesis by (simp add: lagging_def)
next
  case (Some r)
  with assms(1) have late: "\<forall>q \<in> set qs. grp q = grp r \<and> rank q \<le> rank r"
    by (simp add: lagging_def list_all_iff)
  have r: "r \<in> set rs" by (rule latest_member [OF Some])
  show ?thesis
  proof (cases "P r")
    case True
    have "latest (filter P rs) = Some r"
      by (rule latest_restrict [OF Some, where P = P]) (use True whole in auto)
    moreover from late have "\<forall>q \<in> set (filter P qs). grp q = grp r \<and> rank q \<le> rank r" by simp
    ultimately show ?thesis using late_writes by simp
  next
    case False
    have "\<not> P q" if "q \<in> set qs" for q
      using whole [of q r] late that r False by auto
    then have "filter P qs = []" by (simp add: filter_empty_conv)
    then show ?thesis by simp
  qed
qed

end

lemma one_candidate:
  assumes "plans_of_one_candidate ls" "p \<in> set ls" "q \<in> set ls" "landing_group p = landing_group q"
  shows "of_candidate b sha p = of_candidate b sha q"
proof -
  from assms have "lp_batch_id (ln_landing_plan p) = lp_batch_id (ln_landing_plan q)"
    "lp_candidate_sha (ln_landing_plan p) = lp_candidate_sha (ln_landing_plan q)"
    unfolding plans_of_one_candidate_def list_all_iff by blast+
  then show ?thesis by (simp add: of_candidate_def)
qed

lemma late_landings_complete:
  assumes "lagging latest_landing_progress landing_group landing_progress ls ps" "plans_of_one_candidate (ls @ ps)"
  shows "latest_completed_landing_record (ls @ ps) b sha = latest_completed_landing_record ls b sha"
proof -
  have "latest_landing_progress (filter (of_candidate b sha) (ls @ ps))
      = latest_landing_progress (filter (of_candidate b sha) ls)"
    by (rule landings.lagging_filter [OF assms(1) one_candidate [OF assms(2)]])
  then show ?thesis by (simp only: latest_completed_landing_record_def)
qed

text \<open>
  C18. The controller's decision does not go back: candidate and landing records that arrive late,
  of the batch and plan it looks at and with no more progress than it has seen, change nothing.
\<close>

theorem decision_ignores_late_records:
  assumes "lagging latest_candidate_progress candidate_group candidate_progress cs qs"
    and "lagging latest_landing_progress landing_group landing_progress ls ps"
    and "plans_of_one_candidate (ls @ ps)"
  shows "decide_controller_action (cs @ qs) (ls @ ps) ks = decide_controller_action cs ls ks"
proof -
  have "latest_landing_record (ls @ ps) = latest_landing_record ls"
    "latest_candidate_record (cs @ qs) = latest_candidate_record cs"
    "latest_passed_candidate_record (cs @ qs) = latest_passed_candidate_record cs"
    by (simp_all add: latest_landing_record_def latest_candidate_record_def latest_passed_candidate_record_def
        landings.lagging_writes [OF assms(2)] candidates.lagging_writes [OF assms(1)])
  moreover have "needs_landing_plan (ls @ ps) = needs_landing_plan ls"
    by (intro ext) (simp add: needs_landing_plan_def late_landings_complete [OF assms(2,3)])
  ultimately show ?thesis by (simp only: decide_controller_action_def)
qed

subsection \<open>Which candidate gets a landing plan\<close>

lemma first_collapse_actions:
  "co_action (first_collapse_decision ks collapse_actions) \<in> {Ca_idle, Ca_execute_stack_collapse, Ca_wait_for_root_checks}"
  by (auto simp: collapse_actions_def decision_def split: option.split)

lemma candidate_actions:
  "co_action (candidate_decision r) \<in> {Ca_candidate_failed, Ca_candidate_stopped, Ca_build_candidate, Ca_observe_candidate}"
  by (auto simp: candidate_decision_def decision_def Let_def)

lemma landing_actions: "co_action (landing_decision ks r) = Ca_land_batch"
  by (simp add: landing_decision_def decision_def Let_def)

lemma rank_of_passed: "candidate_rank s \<le> candidate_rank Cand_passed \<longleftrightarrow> s \<notin> {Cand_failed, Cand_stale, Cand_blocked}"
  by (cases s) auto

lemma planned_landing_candidate:
  assumes "co_action (decide_controller_action cs ls ks) = Ca_plan_landing"
  obtains c where "latest_candidate_progress cs = Some c" "ba_status (cn_candidate c) = Cand_passed"
    "needs_landing_plan ls c" "latest_landing_record ls = None"
    "co_candidate_record_id (decide_controller_action cs ls ks) = cn_record_id c"
proof (cases "latest_landing_record ls")
  case (Some l)
  with assms landing_actions [of ks l] have False by (simp add: decide_controller_action_def)
  then show ?thesis ..
next
  case no_landing: None
  show ?thesis
  proof (cases "latest_candidate_progress cs")
    case None
    with assms no_landing first_collapse_actions [of ks] have False
      by (auto simp: decide_controller_action_def latest_candidate_record_def latest_passed_candidate_record_def)
    then show ?thesis ..
  next
    case (Some c)
    show ?thesis
    proof (cases "ba_status (cn_candidate c) = Cand_passed \<and> needs_landing_plan ls c")
      case True
      with Some no_landing show ?thesis
        by (intro that [OF Some]) (simp_all add: decide_controller_action_def latest_candidate_record_def
            latest_passed_candidate_record_def decision_def)
    next
      case False
      with assms no_landing Some first_collapse_actions [of ks] candidate_actions [of c] have False
        by (auto simp: decide_controller_action_def latest_candidate_record_def
            latest_passed_candidate_record_def split: if_splits)
      then show ?thesis ..
    qed
  qed
qed

text \<open>
  C26. A landing is planned only for a passed candidate of the batch that was written last, no record
  of which has failed, gone stale or been blocked, and only while no landing of that candidate is
  complete.
\<close>

theorem landing_planned_for_passed_candidate:
  assumes "co_action (decide_controller_action cs ls ks) = Ca_plan_landing"
  shows "\<exists>c \<in> set cs. co_candidate_record_id (decide_controller_action cs ls ks) = cn_record_id c
     \<and> ba_status (cn_candidate c) = Cand_passed
     \<and> (\<forall>q \<in> set cs. candidate_group q = candidate_group c \<longrightarrow>
          ba_status (cn_candidate q) \<notin> {Cand_failed, Cand_stale, Cand_blocked})
     \<and> (\<forall>q \<in> set cs. \<exists>q' \<in> set cs. candidate_group q' = candidate_group c \<and> candidate_stamp q \<le> candidate_stamp q')
     \<and> (\<forall>l. latest_landing_progress (filter (of_candidate (candidate_group c) (ba_candidate_sha (cn_candidate c))) ls) = Some l
          \<longrightarrow> \<not> (\<forall>e \<in> set (lp_entries (ln_landing_plan l)). le_status e = Land_merged)
              \<or> lp_entries (ln_landing_plan l) = [])"
proof -
  from assms obtain c where c: "latest_candidate_progress cs = Some c"
    and passed: "ba_status (cn_candidate c) = Cand_passed" and need: "needs_landing_plan ls c"
    and id: "co_candidate_record_id (decide_controller_action cs ls ks) = cn_record_id c"
    by (rule planned_landing_candidate)
  have "ba_status (cn_candidate q) \<notin> {Cand_failed, Cand_stale, Cand_blocked}"
    if "q \<in> set cs" "candidate_group q = candidate_group c" for q
  proof -
    have "candidate_rank (ba_status (cn_candidate q)) \<le> candidate_rank (ba_status (cn_candidate c))"
      using candidates.latest_highest [OF c that] by (auto simp: candidate_progress_def less_eq_prod_def)
    then show ?thesis unfolding passed rank_of_passed .
  qed
  moreover have "\<not> (\<forall>e \<in> set (lp_entries (ln_landing_plan l)). le_status e = Land_merged)
      \<or> lp_entries (ln_landing_plan l) = []"
    if "latest_landing_progress (filter (of_candidate (candidate_group c) (ba_candidate_sha (cn_candidate c))) ls) = Some l" for l
    using need that by (auto simp: needs_landing_plan_def latest_completed_landing_record_def
        candidate_group_def landing_completed_status_def split: if_splits)
  ultimately show ?thesis
    using candidates.latest_member [OF c] id passed candidates.latest_newest [OF c] by blast
qed


subsection \<open>What is planned is landed\<close>

lemma landing_entry_planned: "landing_entry_of c m steps e = Inr l \<Longrightarrow> le_status l = Land_planned"
  by (auto simp: landing_entry_of_def validate_landing_entry_def strip_landing_entry_def Let_def split: if_splits)

lemma built_record_plan:
  assumes "build_landing_record p source at binding = Inr r"
  shows "lp_entries (ln_landing_plan r) = lp_entries p" "ln_ordinary_job_binding r = binding"
proof -
  from assms obtain p' where "validate_landing_plan p = Inr p'" "ln_landing_plan r = p'"
    "ln_ordinary_job_binding r = binding"
    by (auto simp: build_landing_record_def validate_landing_record_def Let_def)
  then show "lp_entries (ln_landing_plan r) = lp_entries p" "ln_ordinary_job_binding r = binding"
    using validated_landing_plan(6) by auto

qed

text \<open>
  C29. The landing plan that was planned is what the controller works on next: once its record is in
  the store, and no other record is newer or of the same plan, the controller lands that record.
\<close>

theorem planned_landing_is_landed_next:
  assumes "build_landing_plan c m at num = Inr p" and "build_landing_record p source upd binding = Inr r"
    and "list_all (\<lambda>l. landing_group l \<noteq> landing_group r \<and> landing_stamp l < landing_stamp r) ls"
  shows "co_action (decide_controller_action cs (ls @ [r]) ks) = Ca_land_batch
     \<and> co_landing_plan_record_id (decide_controller_action cs (ls @ [r]) ks) = ln_record_id r"
proof -
  from assms(1) obtain steps entries where "mapM (landing_entry_of c m steps) (ba_entries c) = Inr entries"
    and e: "lp_entries p = entries" "entries \<noteq> []" by (rule built_landing_plan)
  then have planned: "\<forall>e \<in> set entries. le_status e = Land_planned"
    using mapM_member landing_entry_planned by fast
  have "latest_landing_progress (ls @ [r]) = Some r"
    by (rule landings.fresh_write) (use assms(3) in \<open>auto simp: list_all_iff\<close>)
  then have "latest_landing_record (ls @ [r]) = Some r"
    using planned e built_record_plan(1) [OF assms(2)] by (cases entries) (auto simp: latest_landing_record_def)
  then show ?thesis by (simp add: decide_controller_action_def landing_decision_def decision_def Let_def)
qed

subsection \<open>Concrete inputs\<close>

definition ex_record :: "string \<Rightarrow> candidate_status \<Rightarrow> candidate_record" where
  "ex_record at status = \<lparr>cn_ordinary_job_binding = None, cn_schema_version = 1, cn_record_id = at,
     cn_status = Br_active, cn_source = ''k'', cn_updated_at = at, cn_candidate = ex_train_candidate status,
     cn_block_intent = None\<rparr>"

theorem decision_ignores_late_records_witness:
  "co_action (decide_controller_action [ex_record ''2'' Cand_passed, ex_record ''3'' Cand_building] [] []) = Ca_plan_landing"
proof -
  have late: "lagging latest_candidate_progress candidate_group candidate_progress
      [ex_record ''2'' Cand_passed] [ex_record ''3'' Cand_building]"
    "lagging latest_landing_progress landing_group landing_progress [] []" "plans_of_one_candidate ([] @ [])"
    by code_simp+
  have "co_action (decide_controller_action [ex_record ''2'' Cand_passed] [] []) = Ca_plan_landing" by code_simp
  then show ?thesis using decision_ignores_late_records [OF late] by simp
qed

theorem landing_planned_for_passed_candidate_witness:
  "\<exists>c \<in> set [ex_record ''2'' Cand_passed]. ba_status (cn_candidate c) = Cand_passed"
proof -
  have "co_action (decide_controller_action [ex_record ''2'' Cand_passed] [] []) = Ca_plan_landing" by code_simp
  from landing_planned_for_passed_candidate [OF this] show ?thesis by blast
qed

theorem planned_landing_is_landed_next_witness:
  "\<exists>lp r. build_landing_plan ex_bound_candidate Method_merge ''k'' None = Inr lp
     \<and> build_landing_record lp ''k'' ''k'' None = Inr r
     \<and> co_action (decide_controller_action [] [r] []) = Ca_land_batch"
proof -
  obtain lp where lp: "build_landing_plan ex_bound_candidate Method_merge ''k'' None = Inr lp"
    by (rule ex_plan_of_candidate)
  then obtain q where "validate_landing_plan q = Inr lp"
    by (auto simp: build_landing_plan_def Let_def)
  then have again: "validate_landing_plan lp = Inr lp" by (rule validated_plan_again)
  have pending: "py_strip ''pending'' \<noteq> []" by (rule text_starts) (simp add: py_space_def)
  have id: "py_strip (build_landing_record_id r) \<noteq> []" for r
    by (simp add: build_landing_record_id_def text_starts)
  obtain r where r: "build_landing_record lp ''k'' ''k'' None = Inr r"
    using again pending id by (simp add: build_landing_record_def validate_landing_record_def required_text_def Let_def)
  from planned_landing_is_landed_next [OF lp r, of "[]" "[]" "[]"] lp r show ?thesis by auto
qed

end
