(* ===== verification/Mt_Policy_Records.thy ===== *)
theory Mt_Policy_Records
  imports Canonical_Json Mt_Policy
begin

section \<open>Policy records, their digests and their bindings\<close>

text \<open>
  The second half of \<open>control_plane/contracts/merge_train_policy.py\<close>: how a policy is dumped and
  digested, what of it is authority, and which changes between two records touch it; and
  \<open>control_plane/merge_train_policy_binding.py\<close>: whether the digest a plan recorded still binds the
  current policy. The timestamp of a policy record is not modelled beyond its text.
\<close>

subsection \<open>Dumps\<close>

definition json_of_nat :: "nat \<Rightarrow> json" where
  "json_of_nat n = JInt (int n)"

fun update_format_str :: "update_format \<Rightarrow> string" where
  "update_format_str Dependabot_trailer = ''dependabot_trailer''"
| "update_format_str Renovate_metadata = ''renovate_metadata''"

fun failure_policy_str :: "failure_policy \<Rightarrow> string" where
  "failure_policy_str Pause_train = ''pause_train''"
| "failure_policy_str Continue_after_blocking_pr = ''continue_after_blocking_pr''"

fun identity_kind_str :: "identity_kind \<Rightarrow> string" where
  "identity_kind_str Github_actions_oidc = ''github_actions_oidc''"
| "identity_kind_str Github_app_identity = ''github_app''"
| "identity_kind_str Github_token_secret = ''github_token_secret''"

fun runner_mode_str :: "runner_mode \<Rightarrow> string" where
  "runner_mode_str Level1 = ''level1''"
| "runner_mode_str Controller_mode = ''controller''"

fun review_mode_str :: "review_mode \<Rightarrow> string" where
  "review_mode_str Advisory = ''advisory''"
| "review_mode_str Required = ''required''"

fun alerts_threshold_str :: "alerts_threshold \<Rightarrow> string" where
  "alerts_threshold_str Alerts_none = ''none''"
| "alerts_threshold_str Alerts_errors = ''errors''"
| "alerts_threshold_str Alerts_errors_and_warnings = ''errors_and_warnings''"
| "alerts_threshold_str Alerts_all = ''all''"

fun security_threshold_str :: "security_threshold \<Rightarrow> string" where
  "security_threshold_str Security_none = ''none''"
| "security_threshold_str Security_critical = ''critical''"
| "security_threshold_str Security_high_or_higher = ''high_or_higher''"
| "security_threshold_str Security_medium_or_higher = ''medium_or_higher''"
| "security_threshold_str Security_all = ''all''"

definition dependency_bot_json :: "dependency_bot_policy \<Rightarrow> json" where
  "dependency_bot_json b = JObj [(''github_user_id'', json_of_nat (bot_user_id b)),
     (''metadata_format'', JStr (update_format_str (bot_metadata_format b))),
     (''allowed_update_types'', JArr (map (JStr \<circ> update_type_str) (bot_allowed_update_types b)))]"

text \<open>An item that is left out of the dump where its value is the default.\<close>

definition unless_default :: "bool \<Rightarrow> string \<Rightarrow> json \<Rightarrow> json_object" where
  "unless_default absent key value = (if absent then [] else [(key, value)])"

definition enqueue_json :: "enqueue_policy \<Rightarrow> json" where
  "enqueue_json p = JObj ([
     (''label_required'', JBool (label_required p)),
     (''allowed_actor_roles'', JArr (map (JStr \<circ> actor_role_str) (allowed_actor_roles p)))]
   @ unless_default (trusted_automation_ids p = []) ''trusted_automation_github_user_ids''
       (JArr (map json_of_nat (trusted_automation_ids p)))
   @ unless_default (dependency_update_ids p = []) ''dependency_update_github_user_ids''
       (JArr (map json_of_nat (dependency_update_ids p)))
   @ unless_default (dependency_update_bots p = []) ''dependency_update_bots''
       (JArr (map dependency_bot_json (dependency_update_bots p))))"

definition identity_json :: "merge_identity \<Rightarrow> json" where
  "identity_json i = JObj [(''kind'', JStr (identity_kind_str (identity_kind_of i))),
     (''name'', JStr (identity_name i))]"

definition service_authz_json :: "service_authz \<Rightarrow> json" where
  "service_authz_json a = JObj [(''action'', JStr (authz_action a)), (''product'', JStr (authz_product a)),
     (''context'', JStr (authz_context a))]"

definition github_app_json :: "github_app_source \<Rightarrow> json" where
  "github_app_json a = JObj [(''app_id'', json_of_nat (app_id a)),
     (''repository_id'', json_of_nat (app_repository_id a)),
     (''private_key_context'', JStr (private_key_context a))]"

definition token_source_json :: "github_token_source \<Rightarrow> json" where
  "token_source_json t = JObj ([(''env_var'', JStr (env_var t))]
     @ unless_default (runtime_context t = '''') ''runtime_context'' (JStr (runtime_context t))
     @ (case github_app t of None \<Rightarrow> [] | Some a \<Rightarrow> [(''github_app'', github_app_json a)]))"

definition scheduler_json :: "scheduler_policy \<Rightarrow> json" where
  "scheduler_json s = JObj ([(''enabled'', JBool (sched_enabled s)),
     (''runner_mode'', JStr (runner_mode_str (sched_runner_mode s))), (''mutate'', JBool (sched_mutate s))]
     @ unless_default (\<not> sched_mutation_authorized s) ''mutation_authorized'' (JBool True))"

definition status_check_json :: "status_check_expectation \<Rightarrow> json" where
  "status_check_json c = JObj [(''context'', JStr (check_context c)), (''app_id'', json_of_nat (check_app_id c))]"

definition code_scanning_json :: "code_scanning_expectation \<Rightarrow> json" where
  "code_scanning_json c = JObj [(''tool'', JStr (scan_tool c)),
     (''alerts_threshold'', JStr (alerts_threshold_str (scan_alerts_threshold c))),
     (''security_alerts_threshold'', JStr (security_threshold_str (scan_security_threshold c)))]"

definition pull_request_expectation_json :: "pull_request_expectation \<Rightarrow> json" where
  "pull_request_expectation_json e = JObj [
     (''dismiss_stale_reviews_on_push'', JBool (pe_dismiss_stale_reviews_on_push e)),
     (''require_code_owner_review'', JBool (pe_require_code_owner_review e)),
     (''require_last_push_approval'', JBool (pe_require_last_push_approval e)),
     (''required_approving_review_count'', json_of_nat (pe_required_approving_review_count e)),
     (''required_review_thread_resolution'', JBool (pe_required_review_thread_resolution e))]"

definition provider_expectation_json :: "provider_expectation \<Rightarrow> json" where
  "provider_expectation_json x = JObj [
     (''required_status_checks'', JArr (map status_check_json (px_required_status_checks x))),
     (''strict_required_status_checks_policy'', JBool (px_strict_required_status_checks_policy x)),
     (''code_scanning_tools'', JArr (map code_scanning_json (px_code_scanning_tools x))),
     (''pull_request'', (case px_pull_request x of None \<Rightarrow> JNull
        | Some e \<Rightarrow> pull_request_expectation_json e)),
     (''allowed_merge_methods'', JArr (map (JStr \<circ> merge_method_str) (px_allowed_merge_methods x)))]"

definition provider_item :: "repository_policy \<Rightarrow> json_object" where
  "provider_item p = (case provider_expectation_of p of None \<Rightarrow> []
     | Some x \<Rightarrow> [(''provider_delivery_protection_expectation'', provider_expectation_json x)])"

definition batch_size_item :: "repository_policy \<Rightarrow> json_object" where
  "batch_size_item p = (case max_batch_size p of None \<Rightarrow> [] | Some n \<Rightarrow> [(''max_batch_size'', json_of_nat n)])"

definition repository_policy_json :: "repository_policy \<Rightarrow> json" where
  "repository_policy_json p = JObj ([
     (''repository'', JStr (rp_repository p)), (''base_branch'', JStr (rp_base_branch p)),
     (''enqueue_label'', JStr (enqueue_label p)), (''blocked_label'', JStr (blocked_label p)),
     (''stack_child_disposition_label'', JStr (stack_child_disposition_label p)),
     (''merge_method'', JStr (merge_method_str (merge_method_of p)))]
   @ batch_size_item p
   @ [(''engineering_review_mode'', JStr (review_mode_str (engineering_review_mode p))),
      (''failure_policy'', JStr (failure_policy_str (failure_policy_of p))),
      (''enqueue'', enqueue_json (enqueue p)),
      (''merge_identity'', identity_json (merge_identity_of p)),
      (''service_authz'', service_authz_json (service_authz_of p))]
   @ unless_default (\<not> config_authority_events_enabled p) ''config_authority_events_enabled'' (JBool True)
   @ [(''github_token'', token_source_json (github_token p)), (''scheduler'', scheduler_json (scheduler p))]
   @ provider_item p)"

subsection \<open>The digest of a policy\<close>

text \<open>What the digest leaves out, so that older policies keep theirs.\<close>

definition default_scheduler :: scheduler_policy where
  "default_scheduler = \<lparr>sched_enabled = False, sched_runner_mode = Controller_mode, sched_mutate = False,
     sched_mutation_authorized = False\<rparr>"

definition digested_policy_json :: "repository_policy \<Rightarrow> json" where
  "digested_policy_json p = JObj ([
     (''repository'', JStr (rp_repository p)), (''base_branch'', JStr (rp_base_branch p)),
     (''enqueue_label'', JStr (enqueue_label p)), (''blocked_label'', JStr (blocked_label p))]
   @ unless_default (stack_child_disposition_label p = '''') ''stack_child_disposition_label''
       (JStr (stack_child_disposition_label p))
   @ [(''merge_method'', JStr (merge_method_str (merge_method_of p)))]
   @ batch_size_item p
   @ unless_default (engineering_review_mode p = Advisory) ''engineering_review_mode''
       (JStr (review_mode_str (engineering_review_mode p)))
   @ [(''failure_policy'', JStr (failure_policy_str (failure_policy_of p))),
      (''enqueue'', enqueue_json (enqueue p)),
      (''merge_identity'', identity_json (merge_identity_of p)),
      (''service_authz'', service_authz_json (service_authz_of p))]
   @ unless_default (\<not> config_authority_events_enabled p) ''config_authority_events_enabled'' (JBool True)
   @ [(''github_token'', token_source_json (github_token p))]
   @ unless_default (scheduler p = default_scheduler) ''scheduler'' (scheduler_json (scheduler p))
   @ provider_item p)"

definition merge_train_policy_sha256 :: "train_policy \<Rightarrow> string" where
  "merge_train_policy_sha256 p = compact_sorted_json_sha256 (JObj [
     (''schema_version'', json_of_nat (schema_version p)),
     (''policies'', JArr (map digested_policy_json (policies p)))])"

datatype policy_record_status = Policy_active | Policy_superseded

record policy_record =
  pl_schema_version :: nat
  pl_record_id :: string
  pl_status :: policy_record_status
  pl_source :: string
  pl_updated_at :: string
  pl_policy_sha256 :: string
  pl_policy :: train_policy

text \<open>\<open>str.replace\<close> of a part longer than one character, from the left.\<close>

function replace_part :: "string \<Rightarrow> string \<Rightarrow> string \<Rightarrow> string" where
  "replace_part old new s =
     (if s = [] then [] else if old \<noteq> [] \<and> prefix old s
      then new @ replace_part old new (drop (length old) s) else hd s # replace_part old new (tl s))"
  by pat_completeness auto
termination
  by (relation "measure (\<lambda>(old, new, s). length s)") auto

declare replace_part.simps [simp del]

definition build_policy_record_id :: "string \<Rightarrow> string \<Rightarrow> string" where
  "build_policy_record_id updated_at sha = ''merge-train-policy-''
     @ replace_part ''+00:00'' ''Z'' (replace_char (CHR '':'') '''' (replace_char (CHR ''-'') '''' updated_at))
     @ ''-'' @ take 12 sha"

definition provider_expectation_projection :: "policy_record option \<Rightarrow> (string \<times> json) list" where
  "provider_expectation_projection r = (case r of None \<Rightarrow> []
     | Some r \<Rightarrow> if pl_status r \<noteq> Policy_active then []
        else List.map_filter (\<lambda>p. map_option (\<lambda>x. (policy_key p, provider_expectation_json x))
               (provider_expectation_of p)) (sort_key policy_key (policies (pl_policy r))))"

subsection \<open>Authority and execution\<close>

definition authority_projection :: "repository_policy \<Rightarrow> json" where
  "authority_projection p = JObj [
     (''repository'', JStr (py_casefold (rp_repository p))), (''base_branch'', JStr (rp_base_branch p)),
     (''enqueue_label'', JStr (enqueue_label p)), (''blocked_label'', JStr (blocked_label p)),
     (''merge_identity'', identity_json (merge_identity_of p)),
     (''github_token'', token_source_json (github_token p)),
     (''service_authz'', service_authz_json (service_authz_of p)),
     (''enqueue'', enqueue_json (enqueue p)),
     (''provider_delivery_protection_expectation'', (case provider_expectation_of p of None \<Rightarrow> JNull
        | Some x \<Rightarrow> provider_expectation_json x)),
     (''scheduler_mutation_authorized'', JBool (scheduler_mutation_authorized p))]"

definition repository_authority_sha256 :: "repository_policy \<Rightarrow> string" where
  "repository_authority_sha256 p = compact_sorted_json_sha256 (authority_projection p)"

definition repository_execution_sha256 :: "repository_policy \<Rightarrow> string" where
  "repository_execution_sha256 p = compact_sorted_json_sha256 (JObj [
     (''binding_version'', JInt 1), (''authority'', authority_projection p),
     (''merge_method'', JStr (merge_method_str (merge_method_of p))),
     (''failure_policy'', JStr (failure_policy_str (failure_policy_of p))),
     (''engineering_review_mode'', JStr (review_mode_str (engineering_review_mode p)))])"

subsection \<open>Changes\<close>

text \<open>The policy of a key in a dict built from the list: the last one.\<close>

definition policy_at :: "train_policy \<Rightarrow> string \<Rightarrow> repository_policy option" where
  "policy_at p key = find (\<lambda>q. policy_key q = key) (rev (policies p))"

definition policy_keys :: "train_policy \<Rightarrow> string set" where
  "policy_keys p = set (map policy_key (policies p))"

definition authority_changed :: "train_policy \<Rightarrow> train_policy \<Rightarrow> string \<Rightarrow> bool" where
  "authority_changed before after key = (case (policy_at before key, policy_at after key) of
       (Some old, Some new) \<Rightarrow> repository_authority_sha256 old \<noteq> repository_authority_sha256 new
     | _ \<Rightarrow> True)"

definition dump_changed :: "train_policy \<Rightarrow> train_policy \<Rightarrow> string \<Rightarrow> bool" where
  "dump_changed before after key = (case (policy_at before key, policy_at after key) of
       (Some old, Some new) \<Rightarrow> repository_policy_json old \<noteq> repository_policy_json new
     | _ \<Rightarrow> False)"

definition classify_policy_changes :: "policy_record \<Rightarrow> policy_record \<Rightarrow> string list \<times> string list" where
  "classify_policy_changes before after = (
     let old = pl_policy before; new = pl_policy after;
         keys = policy_keys old \<union> policy_keys new;
         authority = {k \<in> keys. authority_changed old new k};
         operational = {k \<in> keys. dump_changed old new k \<and> k \<notin> authority}
     in (sorted_list_of_set (if schema_version old \<noteq> schema_version new then keys else authority),
         sorted_list_of_set operational))"

subsection \<open>Bindings\<close>

text \<open>\<open>policy_key.rsplit(":", 1)\<close> into two parts.\<close>

definition split_policy_key :: "string \<Rightarrow> (string \<times> string) option" where
  "split_policy_key key = (if CHR '':'' \<in> set key
     then Some (rev (tl (dropWhile (\<lambda>c. c \<noteq> CHR '':'') (rev key))),
                rev (takeWhile (\<lambda>c. c \<noteq> CHR '':'') (rev key)))
     else None)"

text \<open>
  The records come from the reader of the store: \<open>None\<close> where it has no such reader or the reader
  raises. The result is the execution digest of each policy digest all of whose records agree.
\<close>

definition policy_projections ::
  "policy_record list \<Rightarrow> string \<Rightarrow> string \<Rightarrow> string list \<Rightarrow> (string \<times> string) list res" where
  "policy_projections records repository base_branch digests =
     mapM (\<lambda>r. andThen (find_repository_policy (pl_policy r) repository base_branch)
                (\<lambda>p. Inr (pl_policy_sha256 r, repository_execution_sha256 p)))
       (filter (\<lambda>r. pl_policy_sha256 r \<in> set digests) records)"

definition resolve_execution_bindings ::
  "policy_record list option \<Rightarrow> string \<Rightarrow> string list \<Rightarrow> string \<rightharpoonup> string" where
  "resolve_execution_bindings reader key digests = (case (reader, split_policy_key key) of
       (Some records, Some (repository, base_branch)) \<Rightarrow>
         (case policy_projections records repository base_branch digests of
            Inl _ \<Rightarrow> Map.empty
          | Inr projections \<Rightarrow> (\<lambda>digest.
              case dedup (map snd (filter (\<lambda>(d, _). d = digest) projections)) of
                [x] \<Rightarrow> if digest \<in> set digests then Some x else None | _ \<Rightarrow> None))
     | _ \<Rightarrow> Map.empty)"

definition policy_bindings_match ::
  "policy_record list option \<Rightarrow> string \<Rightarrow> string \<Rightarrow> string \<Rightarrow> bool" where
  "policy_bindings_match reader key recorded current \<longleftrightarrow> recorded = current
     \<or> (let projections = resolve_execution_bindings reader key [recorded, current] in
        projections recorded \<noteq> None \<and> projections recorded = projections current)"

end
