(* ===== verification/Mt_Policy_Properties.thy ===== *)
theory Mt_Policy_Properties
  imports Mt_Policy_Records Mt_Examples
begin

section \<open>What a policy's digests tell\<close>

text \<open>
  A dump determines the policy it was made from, so a policy that is neither an authority nor an
  operational change is unchanged; and a plan made under one policy digest stays bound under another
  exactly when both project to one execution digest.
\<close>

subsection \<open>Dumps determine their values\<close>

named_theorems dump_inject \<open>dumps are injective\<close>

lemma json_of_nat_inject [dump_inject]: "json_of_nat a = json_of_nat b \<longleftrightarrow> a = b"
  by (simp add: json_of_nat_def)

lemma map_dump_inject: "(\<And>a b. f a = f b \<longleftrightarrow> a = b) \<Longrightarrow> map f xs = map f ys \<longleftrightarrow> xs = ys"
  by (simp add: inj_map_eq_map inj_def)

lemma update_format_str_inject [dump_inject]: "update_format_str a = update_format_str b \<longleftrightarrow> a = b"
  by (cases a; cases b) simp_all

lemma failure_policy_str_inject [dump_inject]: "failure_policy_str a = failure_policy_str b \<longleftrightarrow> a = b"
  by (cases a; cases b) simp_all

lemma identity_kind_str_inject [dump_inject]: "identity_kind_str a = identity_kind_str b \<longleftrightarrow> a = b"
  by (cases a; cases b) simp_all

lemma runner_mode_str_inject [dump_inject]: "runner_mode_str a = runner_mode_str b \<longleftrightarrow> a = b"
  by (cases a; cases b) simp_all

lemma review_mode_str_inject [dump_inject]: "review_mode_str a = review_mode_str b \<longleftrightarrow> a = b"
  by (cases a; cases b) simp_all

lemma alerts_threshold_str_inject [dump_inject]: "alerts_threshold_str a = alerts_threshold_str b \<longleftrightarrow> a = b"
  by (cases a; cases b) simp_all

lemma security_threshold_str_inject [dump_inject]: "security_threshold_str a = security_threshold_str b \<longleftrightarrow> a = b"
  by (cases a; cases b) simp_all

lemma update_type_str_inject [dump_inject]: "update_type_str a = update_type_str b \<longleftrightarrow> a = b"
  by (cases a; cases b) simp_all

lemma actor_role_str_inject [dump_inject]: "actor_role_str a = actor_role_str b \<longleftrightarrow> a = b"
  by (cases a; cases b) simp_all

lemma dependency_bot_json_inject [dump_inject]: "dependency_bot_json a = dependency_bot_json b \<longleftrightarrow> a = b"
  by (cases a; cases b) (auto simp: dependency_bot_json_def dump_inject map_dump_inject)

lemma identity_json_inject [dump_inject]: "identity_json a = identity_json b \<longleftrightarrow> a = b"
  by (cases a; cases b) (auto simp: identity_json_def dump_inject)

lemma service_authz_json_inject [dump_inject]: "service_authz_json a = service_authz_json b \<longleftrightarrow> a = b"
  by (cases a; cases b) (auto simp: service_authz_json_def)

lemma github_app_json_inject [dump_inject]: "github_app_json a = github_app_json b \<longleftrightarrow> a = b"
  by (cases a; cases b) (auto simp: github_app_json_def dump_inject)

lemma token_source_json_inject [dump_inject]: "token_source_json a = token_source_json b \<longleftrightarrow> a = b"
  by (cases a; cases b) (auto simp: token_source_json_def unless_default_def dump_inject split: option.splits if_splits)

lemma scheduler_json_inject [dump_inject]: "scheduler_json a = scheduler_json b \<longleftrightarrow> a = b"
  by (cases a; cases b) (auto simp: scheduler_json_def unless_default_def dump_inject split: if_splits)

lemma enqueue_json_inject [dump_inject]: "enqueue_json a = enqueue_json b \<longleftrightarrow> a = b"
  by (cases a; cases b) (auto simp: enqueue_json_def unless_default_def dump_inject map_dump_inject split: if_splits)

lemma status_check_json_inject [dump_inject]: "status_check_json a = status_check_json b \<longleftrightarrow> a = b"
  by (cases a; cases b) (auto simp: status_check_json_def dump_inject)

lemma code_scanning_json_inject [dump_inject]: "code_scanning_json a = code_scanning_json b \<longleftrightarrow> a = b"
  by (cases a; cases b) (auto simp: code_scanning_json_def dump_inject)

lemma pull_request_expectation_json_inject [dump_inject]:
  "pull_request_expectation_json a = pull_request_expectation_json b \<longleftrightarrow> a = b"
  by (cases a; cases b) (auto simp: pull_request_expectation_json_def dump_inject)

lemma dumps_not_null [dump_inject]:
  "pull_request_expectation_json a \<noteq> JNull" "JNull \<noteq> pull_request_expectation_json a"
  "provider_expectation_json b \<noteq> JNull" "JNull \<noteq> provider_expectation_json b"
  by (simp_all add: pull_request_expectation_json_def provider_expectation_json_def)

lemma provider_expectation_json_inject [dump_inject]:
  "provider_expectation_json a = provider_expectation_json b \<longleftrightarrow> a = b"
  by (cases a; cases b)
    (auto simp: provider_expectation_json_def dump_inject map_dump_inject split: option.splits)

lemma repository_policy_json_inject [dump_inject]:
  assumes "repository_policy_json p = repository_policy_json q"
  shows "p = q"
proof -
  let ?items = "\<lambda>p. case repository_policy_json p of JObj kvs \<Rightarrow> map_of kvs | _ \<Rightarrow> Map.empty"
  have at: "?items p key = ?items q key" for key by (simp only: assms)
  note items = repository_policy_json_def batch_size_item_def provider_item_def unless_default_def
  have batch: "max_batch_size p = max_batch_size q"
    using at [of "''max_batch_size''"] by (auto simp: items dump_inject split: option.splits if_splits)
  have events: "config_authority_events_enabled p = config_authority_events_enabled q"
    using at [of "''config_authority_events_enabled''"] by (auto simp: items split: option.splits if_splits)
  have provider: "provider_expectation_of p = provider_expectation_of q"
    using at [of "''provider_delivery_protection_expectation''"]
    by (auto simp: items dump_inject split: option.splits if_splits)
  from assms show ?thesis
    by (cases p; cases q) (use batch events provider in \<open>auto simp: items dump_inject split: option.splits if_splits\<close>)
qed

subsection \<open>Changes between policy records\<close>

lemma policy_at_key: "policy_at p key = Some q \<Longrightarrow> policy_key q = key \<and> q \<in> set (policies p)"
  unfolding policy_at_def by (metis (mono_tags, lifting) find_SomeD set_rev)

lemma policy_at_None: "policy_at p key = None \<longleftrightarrow> key \<notin> policy_keys p"
  by (auto simp: policy_at_def policy_keys_def find_None_iff)

lemma finite_policy_keys [simp]: "finite (policy_keys p)"
  by (simp add: policy_keys_def)

text \<open>The policy of a key is there in both records, with the same authority digest.\<close>

definition kept_authority :: "train_policy \<Rightarrow> train_policy \<Rightarrow> string \<Rightarrow> bool" where
  "kept_authority before after key \<longleftrightarrow> (\<exists>old new. policy_at before key = Some old
     \<and> policy_at after key = Some new \<and> repository_authority_sha256 old = repository_authority_sha256 new)"

lemma kept_authority_unchanged:
  "key \<in> policy_keys before \<union> policy_keys after \<Longrightarrow>
     \<not> authority_changed before after key \<longleftrightarrow> kept_authority before after key"
  using policy_at_None [of before key] policy_at_None [of after key]
  by (auto simp: kept_authority_def authority_changed_def split: option.splits)

lemma dump_changed_at:
  "policy_at before key = Some old \<Longrightarrow> policy_at after key = Some new \<Longrightarrow>
     dump_changed before after key \<longleftrightarrow> old \<noteq> new"
  using repository_policy_json_inject [of old new] by (auto simp: dump_changed_def)

lemma classified_sets:
  assumes "classify_policy_changes before after = (authority, operational)"
  defines "keys \<equiv> policy_keys (pl_policy before) \<union> policy_keys (pl_policy after)"
  shows "set authority = (if schema_version (pl_policy before) \<noteq> schema_version (pl_policy after) then keys
      else {k \<in> keys. authority_changed (pl_policy before) (pl_policy after) k})"
    and "set operational = {k \<in> keys. dump_changed (pl_policy before) (pl_policy after) k
      \<and> \<not> authority_changed (pl_policy before) (pl_policy after) k}"
  using assms by (auto simp: classify_policy_changes_def Let_def)

text \<open>
  C21. The classification of a policy change is exact. An operational change is a policy that both records
  have under one key, that differs, and whose authority digest is the same. An authority change is a policy
  that only one record has, or whose authority digest differs; when the schema version differs, it is every
  policy of either record. A policy in neither list is the same before and after.
\<close>

theorem policy_changes_are_classified:
  assumes "classify_policy_changes before after = (authority, operational)"
  shows "(key \<in> set operational \<longleftrightarrow> (\<exists>old new. policy_at (pl_policy before) key = Some old
        \<and> policy_at (pl_policy after) key = Some new \<and> old \<noteq> new
        \<and> repository_authority_sha256 old = repository_authority_sha256 new))
     \<and> (key \<in> set authority \<longleftrightarrow>
        (policy_at (pl_policy before) key \<noteq> None \<or> policy_at (pl_policy after) key \<noteq> None)
        \<and> (schema_version (pl_policy before) \<noteq> schema_version (pl_policy after)
           \<or> \<not> kept_authority (pl_policy before) (pl_policy after) key))
     \<and> (key \<notin> set authority \<union> set operational \<longrightarrow>
        policy_at (pl_policy before) key = policy_at (pl_policy after) key)"
proof (cases "key \<in> policy_keys (pl_policy before) \<union> policy_keys (pl_policy after)")
  case False
  then have "policy_at (pl_policy before) key = None" "policy_at (pl_policy after) key = None"
    by (simp_all add: policy_at_None)
  with False show ?thesis by (simp add: classified_sets [OF assms])
next
  case True
  then have "policy_at (pl_policy before) key \<noteq> None \<or> policy_at (pl_policy after) key \<noteq> None"
    by (simp add: policy_at_None)
  moreover have "key \<in> set operational \<longleftrightarrow> (\<exists>old new. policy_at (pl_policy before) key = Some old
        \<and> policy_at (pl_policy after) key = Some new \<and> old \<noteq> new
        \<and> repository_authority_sha256 old = repository_authority_sha256 new)"
    using True kept_authority_unchanged [OF True] dump_changed_at
    by (auto simp: classified_sets [OF assms] kept_authority_def)
  moreover have "kept_authority (pl_policy before) (pl_policy after) key \<Longrightarrow> key \<notin> set operational \<Longrightarrow>
      policy_at (pl_policy before) key = policy_at (pl_policy after) key"
    using calculation(2) by (auto simp: kept_authority_def)
  ultimately show ?thesis
    using True kept_authority_unchanged [OF True] by (auto simp: classified_sets(1) [OF assms])
qed

subsection \<open>Plans that stay bound\<close>

text \<open>All records of a policy digest, and there are some, project the target to one execution digest.\<close>

definition agreed_execution :: "policy_record list \<Rightarrow> string \<Rightarrow> string \<Rightarrow> string \<Rightarrow> string \<Rightarrow> bool" where
  "agreed_execution records repository base_branch digest x \<longleftrightarrow>
     (let rs = filter (\<lambda>r. pl_policy_sha256 r = digest) records in rs \<noteq> []
      \<and> list_all (\<lambda>r. case find_repository_policy (pl_policy r) repository base_branch of
           Inl _ \<Rightarrow> False | Inr p \<Rightarrow> repository_execution_sha256 p = x) rs)"

lemma dedup_singleton: "dedup xs = [x] \<longleftrightarrow> xs \<noteq> [] \<and> set xs = {x}"
proof
  assume "dedup xs = [x]"
  then have "set (dedup xs) = {x}" "dedup xs \<noteq> []" by simp_all
  then show "xs \<noteq> [] \<and> set xs = {x}" by auto
next
  assume "xs \<noteq> [] \<and> set xs = {x}"
  then have "set (dedup xs) = {x}" "distinct (dedup xs)" by simp_all
  then show "dedup xs = [x]" by (metis distinct_card card.empty card_insert_disjoint empty_iff finite.emptyI
      length_Suc_conv length_0_conv list.set_intros(1) singletonD One_nat_def empty_set)
qed

lemma resolve_binding:
  "resolve_execution_bindings reader key [a, b] d = Some x \<longleftrightarrow>
     (\<exists>records repository base_branch projections. reader = Some records
        \<and> split_policy_key key = Some (repository, base_branch) \<and> d \<in> {a, b}
        \<and> policy_projections records repository base_branch [a, b] = Inr projections
        \<and> dedup (map snd (filter (\<lambda>(d', _). d' = d) projections)) = [x])"
  by (auto simp: resolve_execution_bindings_def split: option.splits sum.splits list.splits if_splits)

lemma mapM_tagged:
  "mapM (\<lambda>r. andThen (F r) (\<lambda>p. Inr (t r, e p))) rs = Inr ps \<longleftrightarrow>
     (\<forall>r \<in> set rs. \<exists>p. F r = Inr p) \<and> ps = map (\<lambda>r. (t r, e (projr (F r)))) rs"
  by (induction rs arbitrary: ps) auto

lemma policy_projections_Inr:
  "policy_projections records repository base_branch ds = Inr ps \<longleftrightarrow>
     (\<forall>r \<in> set records. pl_policy_sha256 r \<in> set ds \<longrightarrow>
        (\<exists>p. find_repository_policy (pl_policy r) repository base_branch = Inr p))
     \<and> ps = map (\<lambda>r. (pl_policy_sha256 r, repository_execution_sha256
          (projr (find_repository_policy (pl_policy r) repository base_branch))))
        (filter (\<lambda>r. pl_policy_sha256 r \<in> set ds) records)"
  unfolding policy_projections_def mapM_tagged by auto

lemma agree_set:
  "rs \<noteq> [] \<and> (\<forall>r \<in> set rs. case F r of Inl _ \<Rightarrow> False | Inr p \<Rightarrow> e p = x)
     \<longleftrightarrow> (\<forall>r \<in> set rs. \<exists>p. F r = Inr p) \<and> map (\<lambda>r. e (projr (F r))) rs \<noteq> []
       \<and> set (map (\<lambda>r. e (projr (F r))) rs) = {x}"
proof (intro iffI conjI ballI; elim conjE)
  assume "rs \<noteq> []" and all: "\<forall>r \<in> set rs. case F r of Inl _ \<Rightarrow> False | Inr p \<Rightarrow> e p = x"
  then have at: "\<exists>p. F r = Inr p \<and> e p = x" if "r \<in> set rs" for r
    using bspec [OF all that] by (cases "F r") auto
  then show "\<exists>p. F r = Inr p" if "r \<in> set rs" for r using that by blast
  show "map (\<lambda>r. e (projr (F r))) rs \<noteq> []" using \<open>rs \<noteq> []\<close> by simp
  have "e (projr (F r)) = x" if "r \<in> set rs" for r using at [OF that] by auto
  with \<open>rs \<noteq> []\<close> show "set (map (\<lambda>r. e (projr (F r))) rs) = {x}" by (cases rs) auto
next
  assume "map (\<lambda>r. e (projr (F r))) rs \<noteq> []"
  then show "rs \<noteq> []" by simp
next
  fix r assume "r \<in> set rs" "\<forall>r \<in> set rs. \<exists>p. F r = Inr p" and s: "set (map (\<lambda>r. e (projr (F r))) rs) = {x}"
  then obtain p where p: "F r = Inr p" by blast
  from \<open>r \<in> set rs\<close> have "e (projr (F r)) \<in> {x}" unfolding s [symmetric] by auto
  then show "case F r of Inl _ \<Rightarrow> False | Inr p \<Rightarrow> e p = x" by (simp add: p)
qed

lemma agreed_execution_iff:
  "agreed_execution records repository base_branch d x \<longleftrightarrow>
     (\<forall>r \<in> set records. pl_policy_sha256 r = d \<longrightarrow>
        (\<exists>p. find_repository_policy (pl_policy r) repository base_branch = Inr p))
     \<and> dedup (map (\<lambda>r. repository_execution_sha256 (projr (find_repository_policy (pl_policy r) repository base_branch)))
          (filter (\<lambda>r. pl_policy_sha256 r = d) records)) = [x]"
  unfolding agreed_execution_def dedup_singleton Let_def list_all_iff agree_set by auto

lemma resolve_agreed:
  "resolve_execution_bindings reader key [a, b] a = Some x \<and> resolve_execution_bindings reader key [a, b] b = Some x
     \<longleftrightarrow> (\<exists>records repository base_branch. reader = Some records
        \<and> split_policy_key key = Some (repository, base_branch)
        \<and> agreed_execution records repository base_branch a x \<and> agreed_execution records repository base_branch b x)"
  by (auto simp: resolve_binding policy_projections_Inr agreed_execution_iff filter_map comp_def
      filter_filter conj_commute cong: conj_cong)

text \<open>
  C31. A recorded policy digest still binds the current policy exactly when it is the same digest, or
  the store has records of both and every one of them projects the target of the policy key to one
  and the same execution digest; a missing reader, a malformed key and a target that a record does
  not have never bind.
\<close>

theorem policy_bindings_match_iff:
  "policy_bindings_match reader key recorded current \<longleftrightarrow> recorded = current
     \<or> (\<exists>records repository base_branch x. reader = Some records
          \<and> split_policy_key key = Some (repository, base_branch)
          \<and> agreed_execution records repository base_branch recorded x
          \<and> agreed_execution records repository base_branch current x)"
proof -
  have "policy_bindings_match reader key recorded current \<longleftrightarrow> recorded = current
     \<or> (\<exists>x. resolve_execution_bindings reader key [recorded, current] recorded = Some x
          \<and> resolve_execution_bindings reader key [recorded, current] current = Some x)"
    by (auto simp: policy_bindings_match_def Let_def)
  then show ?thesis unfolding resolve_agreed by blast
qed


subsection \<open>Operational changes\<close>

text \<open>Batch size, labels of collapsed children, events and schedules that stay as authorised.\<close>

definition operational_change :: "repository_policy \<Rightarrow> repository_policy \<Rightarrow> bool" where
  "operational_change p q \<longleftrightarrow>
     q = p\<lparr>max_batch_size := max_batch_size q,
           stack_child_disposition_label := stack_child_disposition_label q,
           config_authority_events_enabled := config_authority_events_enabled q, scheduler := scheduler q\<rparr>
     \<and> scheduler_mutation_authorized q = scheduler_mutation_authorized p"

lemma operational_execution: "operational_change p q \<Longrightarrow> repository_execution_sha256 q = repository_execution_sha256 p"
proof -
  assume "operational_change p q"
  then obtain n l c s where q: "q = p\<lparr>max_batch_size := n, stack_child_disposition_label := l,
      config_authority_events_enabled := c, scheduler := s\<rparr>"
    and "scheduler_mutation_authorized q = scheduler_mutation_authorized p"
    unfolding operational_change_def by blast
  then show ?thesis by (simp add: repository_execution_sha256_def authority_projection_def)
qed

lemma split_policy_key_of:
  "CHR '':'' \<notin> set (rp_base_branch p) \<Longrightarrow> split_policy_key (policy_key p) = Some (rp_repository p, rp_base_branch p)"
  by (simp add: split_policy_key_def policy_key_def takeWhile_append dropWhile_append)

text \<open>
  C32. A plan made under one policy stays bound when the policy's operational settings change: where
  every record of the two digests finds a policy for the target and all these policies differ by
  operational changes only, the digests bind each other.
\<close>

theorem operational_change_keeps_binding:
  assumes "CHR '':'' \<notin> set (rp_base_branch p)"
    and "\<And>r. r \<in> set records \<Longrightarrow> pl_policy_sha256 r \<in> {recorded, current} \<Longrightarrow>
      \<exists>q. find_repository_policy (pl_policy r) (rp_repository p) (rp_base_branch p) = Inr q \<and> operational_change p q"
    and "{recorded, current} \<subseteq> pl_policy_sha256 ` set records"
  shows "policy_bindings_match (Some records) (policy_key p) recorded current"
proof -
  let ?x = "repository_execution_sha256 p"
  have "agreed_execution records (rp_repository p) (rp_base_branch p) d ?x" if d: "d \<in> {recorded, current}" for d
  proof -
    have "case find_repository_policy (pl_policy r) (rp_repository p) (rp_base_branch p) of
        Inl _ \<Rightarrow> False | Inr q \<Rightarrow> repository_execution_sha256 q = ?x"
      if "r \<in> set records" "pl_policy_sha256 r = d" for r
      using assms(2) [OF that(1)] that(2) d operational_execution by fastforce
    moreover have "\<exists>r \<in> set records. pl_policy_sha256 r = d" using assms(3) d by auto
    ultimately show ?thesis by (auto simp: agreed_execution_def Let_def list_all_iff filter_empty_conv)
  qed
  with split_policy_key_of [OF assms(1)] have "\<exists>records' repository base_branch x. Some records = Some records'
      \<and> split_policy_key (policy_key p) = Some (repository, base_branch)
      \<and> agreed_execution records' repository base_branch recorded x
      \<and> agreed_execution records' repository base_branch current x" by blast
  then have "\<exists>x. resolve_execution_bindings (Some records) (policy_key p) [recorded, current] recorded = Some x
      \<and> resolve_execution_bindings (Some records) (policy_key p) [recorded, current] current = Some x"
    unfolding resolve_agreed by blast
  then show ?thesis by (auto simp: policy_bindings_match_def Let_def)
qed

definition ex_policy_record :: "string \<Rightarrow> nat option \<Rightarrow> policy_record" where
  "ex_policy_record digest limit = \<lparr>pl_schema_version = 1, pl_record_id = digest, pl_status = Policy_active,
     pl_source = ''k'', pl_updated_at = ''k'', pl_policy_sha256 = digest,
     pl_policy = ex_policy\<lparr>policies := [ex_repository_policy\<lparr>max_batch_size := limit\<rparr>]\<rparr>\<rparr>"

lemma ex_find_sized:
  "find_repository_policy (pl_policy (ex_policy_record d limit)) (rp_repository ex_repository_policy)
     (rp_base_branch ex_repository_policy) = Inr (ex_repository_policy\<lparr>max_batch_size := limit\<rparr>)"
  by (simp add: ex_policy_record_def ex_policy_def ex_repository_policy_def find_repository_policy_def
      normalize_required_value_def py_strip_def py_space_def)

theorem operational_change_keeps_binding_witness:
  "policy_bindings_match (Some [ex_policy_record ''d1'' (Some 2), ex_policy_record ''d2'' None])
     (policy_key ex_repository_policy) ''d1'' ''d2''"
proof (rule operational_change_keeps_binding)
  show "CHR '':'' \<notin> set (rp_base_branch ex_repository_policy)" by (simp add: ex_repository_policy_def)
  show "{''d1'', ''d2''} \<subseteq> pl_policy_sha256 ` set [ex_policy_record ''d1'' (Some 2), ex_policy_record ''d2'' None]"
    by (simp add: ex_policy_record_def)
  fix r assume "r \<in> set [ex_policy_record ''d1'' (Some 2), ex_policy_record ''d2'' None]"
  then obtain d limit where "r = ex_policy_record d limit" by auto
  moreover have "operational_change ex_repository_policy (ex_repository_policy\<lparr>max_batch_size := limit\<rparr>)"
    by (simp add: operational_change_def scheduler_mutation_authorized_def)
  ultimately show "\<exists>q. find_repository_policy (pl_policy r) (rp_repository ex_repository_policy)
      (rp_base_branch ex_repository_policy) = Inr q \<and> operational_change ex_repository_policy q"
    using ex_find_sized by blast
qed

theorem policy_changes_are_classified_witness:
  "\<exists>authority operational.
     classify_policy_changes (ex_policy_record ''d1'' (Some 2)) (ex_policy_record ''d2'' None) = (authority, operational)
     \<and> ''o/r:main'' \<in> set operational \<and> ''o/r:main'' \<notin> set authority"
proof -
  let ?b = "ex_policy_record ''d1'' (Some 2)" and ?a = "ex_policy_record ''d2'' None"
  let ?p = "\<lambda>limit. ex_repository_policy\<lparr>max_batch_size := limit\<rparr>"
  have key: "policy_key (?p limit) = ''o/r:main''" for limit by (simp add: policy_key_def ex_repository_policy_def)
  have at: "policy_at (pl_policy ?b) ''o/r:main'' = Some (?p (Some 2))"
      "policy_at (pl_policy ?a) ''o/r:main'' = Some (?p None)"
    and versions: "schema_version (pl_policy ?b) = schema_version (pl_policy ?a)"
    by (simp_all add: policy_at_def key ex_policy_record_def ex_policy_def)
  have same: "repository_authority_sha256 (?p (Some 2)) = repository_authority_sha256 (?p None)"
    by (simp add: repository_authority_sha256_def authority_projection_def scheduler_mutation_authorized_def)
  have differ: "?p (Some 2) \<noteq> ?p None" by (auto dest: arg_cong [of _ _ max_batch_size])
  obtain authority operational where c: "classify_policy_changes ?b ?a = (authority, operational)"
    by (cases "classify_policy_changes ?b ?a")
  with policy_changes_are_classified [OF c, of "''o/r:main''"] at versions same differ show ?thesis
    by (simp add: kept_authority_def)
qed

end
