(* ===== verification/Mt_Structural.thy ===== *)
theory Mt_Structural
  imports Mt_Evaluation_Input Mt_Batch Mt_Policy_Records
begin

section \<open>Structural evaluation of a landing\<close>

text \<open>
  \<open>control_plane/merge_train_structural_provenance.py\<close>: whether the commits a landing is about to merge
  are the ones its candidate was built and tested from. The checks return the status and reason of
  the result they stop at. The policy records that \<open>record_store\<close> lists are the argument \<open>reader\<close>.
\<close>

type_synonym verdict = "structural_status \<times> string"

abbreviation mismatch :: "string \<Rightarrow> verdict" where
  "mismatch reason \<equiv> (St_mismatch, reason)"

definition ordinary_candidate_is_exact_landing_dependency :: "candidate_record \<Rightarrow> landing_record \<Rightarrow> bool" where
  "ordinary_candidate_is_exact_landing_dependency cr lr = (
     let c = cn_candidate cr; lp = ln_landing_plan lr in
     case (ln_ordinary_job_binding lr, ba_structural_provenance c) of
       (Some binding, Some p) \<Rightarrow>
         ln_status lr = Br_active \<and> (cn_status cr = Br_active \<or> cn_status cr = Br_superseded)
         \<and> cn_ordinary_job_binding cr = Some binding \<and> ba_status c = Cand_passed
         \<and> provenance_complete p \<and> ba_stack_collapse_root c = None
         \<and> ba_candidate_ref c = build_ordinary_candidate_ref binding (ba_batch_id c)
         \<and> py_casefold (lp_repository lp) = py_casefold (ba_repository c)
         \<and> lp_base_branch lp = ba_base_branch c \<and> lp_batch_id lp = ba_batch_id c
         \<and> lp_candidate_ref lp = ba_candidate_ref c \<and> lp_candidate_sha lp = ba_candidate_sha c
         \<and> lp_candidate_tree_sha lp = ba_candidate_tree_sha c
         \<and> lp_candidate_sha256 lp = ba_candidate_sha256 c
         \<and> lp_structural_provenance_sha256 lp = sp_provenance_sha256 p
         \<and> lp_policy_key lp = ba_policy_key c \<and> lp_policy_sha256 lp = ba_policy_sha256 c
     | _ \<Rightarrow> False)"

subsection \<open>Results\<close>

definition structural_result_of ::
  "verdict \<Rightarrow> string \<Rightarrow> string \<Rightarrow> string \<Rightarrow> string \<Rightarrow> string \<Rightarrow> structural_result res" where
  "structural_result_of v base tree candidate plan provenance = validate_structural_result
     \<lparr>sr_status = fst v, sr_reason_codes = [snd v], sr_effective_base_sha = base,
      sr_effective_base_tree_sha = tree, sr_candidate_sha256 = candidate, sr_landing_plan_sha256 = plan,
      sr_provenance_sha256 = provenance\<rparr>"

definition provenance_sha_of :: "candidate_record \<Rightarrow> string" where
  "provenance_sha_of cr = (case ba_structural_provenance (cn_candidate cr) of None \<Rightarrow> ''''
     | Some p \<Rightarrow> sp_provenance_sha256 p)"

text \<open>\<open>_bound_result\<close> and \<open>_success_result\<close> fill in the same fields.\<close>

definition bound_result ::
  "structural_evaluation \<Rightarrow> candidate_record \<Rightarrow> landing_record \<Rightarrow> verdict \<Rightarrow> structural_result res" where
  "bound_result ev cr lr v = structural_result_of v (ev_observed_base_sha ev) (ev_observed_base_tree_sha ev)
     (ba_candidate_sha256 (cn_candidate cr)) (lp_landing_plan_sha256 (ln_landing_plan lr)) (provenance_sha_of cr)"

subsection \<open>The identities of candidate, plan and observation\<close>

definition common_identity_mismatch ::
  "structural_evaluation \<Rightarrow> batch_candidate \<Rightarrow> landing_plan \<Rightarrow> string option" where
  "common_identity_mismatch ev c lp = (case ba_structural_provenance c of
       None \<Rightarrow> Some ''structural_provenance_missing''
     | Some p \<Rightarrow>
       if py_casefold (ba_repository c) \<noteq> py_casefold (ev_repository ev)
          \<or> py_casefold (lp_repository lp) \<noteq> py_casefold (ev_repository ev)
       then Some ''structural_repository_mismatch''
       else if ba_base_branch c \<noteq> ev_base_branch ev \<or> lp_base_branch lp \<noteq> ev_base_branch ev
       then Some ''structural_base_branch_mismatch''
       else if ba_policy_key c \<noteq> ev_policy_key ev \<or> ba_policy_sha256 c \<noteq> ev_policy_sha256 ev
          \<or> lp_policy_key lp \<noteq> ev_policy_key ev \<or> lp_policy_sha256 lp \<noteq> ev_policy_sha256 ev
       then Some ''structural_policy_mismatch''
       else if \<not> truthy (ba_candidate_sha256 c) \<or> ba_candidate_sha256 c \<noteq> ev_active_candidate_sha256 ev
          \<or> lp_candidate_sha256 lp \<noteq> ba_candidate_sha256 c
       then Some ''structural_candidate_digest_mismatch''
       else if lp_landing_plan_sha256 lp \<noteq> ev_active_landing_plan_sha256 ev
       then Some ''structural_landing_plan_digest_mismatch''
       else if lp_structural_provenance_sha256 lp \<noteq> sp_provenance_sha256 p
       then Some ''structural_provenance_digest_mismatch''
       else if lp_candidate_sha lp \<noteq> ba_candidate_sha c then Some ''structural_candidate_sha_mismatch''
       else if lp_candidate_tree_sha lp \<noteq> ba_candidate_tree_sha c then Some ''structural_candidate_tree_mismatch''
       else if lp_batch_id lp \<noteq> ba_batch_id c \<or> lp_candidate_ref lp \<noteq> ba_candidate_ref c
       then Some ''structural_candidate_digest_mismatch''
       else None)"

fun queue_entries_mismatch :: "(entry_observation \<times> batch_entry) list \<Rightarrow> string option" where
  "queue_entries_mismatch [] = None"
| "queue_entries_mismatch ((current, recorded) # rest) =
     (if eo_position current \<noteq> be_position recorded
         \<or> eo_pull_request_number current \<noteq> be_pull_request_number recorded
      then Some ''structural_queue_drift''
      else if eo_head_sha current \<noteq> be_head_sha recorded then Some ''structural_head_sha_mismatch''
      else if eo_head_tree_sha current \<noteq> be_head_tree_sha recorded then Some ''structural_head_tree_mismatch''
      else queue_entries_mismatch rest)"

definition queue_identity_mismatch :: "entry_observation list \<Rightarrow> batch_candidate \<Rightarrow> string option" where
  "queue_identity_mismatch observed c =
     (if length observed \<noteq> length (ba_entries c) then Some ''structural_queue_drift''
      else queue_entries_mismatch (zip observed (ba_entries c)))"

text \<open>\<open>zip(..., strict=True)\<close> of three lists raises where they differ in length.\<close>

fun landing_steps_mismatch ::
  "batch_candidate \<Rightarrow> batch_entry list \<Rightarrow> landing_entry list \<Rightarrow> rolling_step list \<Rightarrow> verdict option res" where
  "landing_steps_mismatch c [] [] [] = Inr None"
| "landing_steps_mismatch c (e # es) (l # ls) (s # ss) =
     (if le_expected_head_sha l \<noteq> be_head_sha e then Inr (Some (mismatch ''structural_head_sha_mismatch''))
      else if le_expected_head_tree_sha l \<noteq> be_head_tree_sha e
      then Inr (Some (mismatch ''structural_head_tree_mismatch''))
      else if le_expected_base_sha l \<noteq> ba_base_sha c then Inr (Some (mismatch ''structural_base_sha_mismatch''))
      else if (le_recorded_candidate_parent_sha l, le_recorded_candidate_parent_tree_sha l,
               le_recorded_candidate_result_sha l, le_recorded_candidate_result_tree_sha l)
            \<noteq> (rs_parent_sha s, rs_parent_tree_sha s, rs_result_sha s, rs_result_tree_sha s)
      then Inr (Some (mismatch ''structural_rolling_chain_broken''))
      else landing_steps_mismatch c es ls ss)"
| "landing_steps_mismatch c _ _ _ = Inl (ValueError ''zip() arguments have different lengths'')"

definition landing_plan_shape :: "batch_candidate \<Rightarrow> landing_plan \<Rightarrow> verdict option res" where
  "landing_plan_shape c lp = (
     let es = ba_entries c; ls = lp_entries lp in
     if length ls < length es then Inr (Some (St_unknown, ''structural_landing_evidence_unavailable''))
     else if length ls > length es then Inr (Some (mismatch ''structural_position_mismatch''))
     else if map (\<lambda>l. (le_position l, le_pull_request_number l)) ls
          \<noteq> map (\<lambda>e. (be_position e, be_pull_request_number e)) es
     then Inr (Some (mismatch ''structural_position_mismatch''))
     else (case ba_structural_provenance c of
         None \<Rightarrow> Inr (Some (St_unknown, ''structural_provenance_missing''))
       | Some p \<Rightarrow> landing_steps_mismatch c es ls (sp_steps p)))"

subsection \<open>The collapsed root\<close>

text \<open>\<open>stack_collapse_expected_root_head_sha\<close> of \<open>control_plane/merge_train_stack_collapse.py\<close>\<close>

definition expected_root_head_sha :: "collapse_plan \<Rightarrow> string" where
  "expected_root_head_sha p = (case find (\<lambda>m. cm_parent m = cp_root_number p) (cp_mutations p) of
       None \<Rightarrow> cp_root_initial_head_sha p
     | Some m \<Rightarrow> if truthy (cm_merge_commit_sha m) then cm_merge_commit_sha m else cp_root_initial_head_sha p)"

datatype root_reason = No_stack_root | Root_unproven | Root_recorded

definition stack_root_reason ::
  "policy_record list option \<Rightarrow> structural_evaluation \<Rightarrow> batch_candidate \<Rightarrow> collapse_record option \<Rightarrow> root_reason" where
  "stack_root_reason reader ev c collapse = (
     case Option.bind (ba_structural_provenance c) sp_stack_collapse_root of
       None \<Rightarrow> No_stack_root
     | Some proof \<Rightarrow>
       (case collapse of None \<Rightarrow> Root_unproven
        | Some r \<Rightarrow>
          let plan = cl_plan r in
          if cl_status r \<noteq> Cr_active then Root_unproven
          else if cl_record_id r \<noteq> rp_collapse_record_id proof \<or> cp_collapse_id plan \<noteq> rp_collapse_id proof
             \<or> cp_root_number plan \<noteq> rp_root_pull_request_number proof
             \<or> cp_root_initial_head_sha plan \<noteq> rp_original_root_head_sha proof
             \<or> expected_root_head_sha plan \<noteq> rp_collapsed_root_head_sha proof
             \<or> py_casefold (cp_repository plan) \<noteq> py_casefold (ev_repository ev)
             \<or> cp_base_branch plan \<noteq> ev_base_branch ev \<or> cp_policy_key plan \<noteq> ev_policy_key ev
             \<or> \<not> policy_bindings_match reader (cp_policy_key plan) (cp_policy_sha256 plan) (ev_policy_sha256 ev)
             \<or> \<not> (cp_status plan = Col_waiting_for_root_checks \<or> cp_status plan = Col_ready_for_train)
          then Root_unproven else Root_recorded))"

subsection \<open>The rolling base\<close>

text \<open>One landed entry before the target: its verdict, or the parent of the next.\<close>

definition rolling_step_result ::
  "batch_candidate \<Rightarrow> structural_provenance \<Rightarrow> landing_plan \<Rightarrow> string \<times> string \<Rightarrow> nat
     \<Rightarrow> verdict + string \<times> string" where
  "rolling_step_result c p lp parent i = (
     if length (lp_entries lp) \<le> i \<or> length (ba_entries c) \<le> i \<or> length (sp_steps p) \<le> i
     then Inl (St_unknown, ''structural_landing_evidence_unavailable'')
     else
     let l = lp_entries lp ! i; e = ba_entries c ! i; s = sp_steps p ! i in
     if le_status l \<noteq> Land_merged \<and> le_status l \<noteq> Land_skipped
     then Inl (St_unknown, ''structural_prior_entry_not_landed'')
     else if \<not> list_all truthy (landing_evidence l)
     then Inl (St_unknown, ''structural_landing_evidence_unavailable'')
     else if le_landed_head_sha l \<noteq> be_head_sha e then Inl (mismatch ''structural_prior_entry_head_mismatch'')
     else if le_landed_head_tree_sha l \<noteq> be_head_tree_sha e
     then Inl (mismatch ''structural_prior_entry_tree_mismatch'')
     else if le_recorded_candidate_parent_sha l \<noteq> rs_parent_sha s
          \<or> le_recorded_candidate_parent_tree_sha l \<noteq> rs_parent_tree_sha s
          \<or> le_recorded_candidate_result_sha l \<noteq> rs_result_sha s
          \<or> le_recorded_candidate_result_tree_sha l \<noteq> rs_result_tree_sha s
     then Inl (mismatch ''structural_rolling_chain_broken'')
     else if le_recorded_rolling_base_sha l \<noteq> fst parent \<or> le_recorded_rolling_base_tree_sha l \<noteq> snd parent
     then Inl (mismatch ''structural_rolling_chain_broken'')
     else if le_status l = Land_skipped \<and> (rs_kind s \<noteq> No_op_already_contained
          \<or> le_merge_commit_sha l \<noteq> fst parent \<or> le_merge_commit_tree_sha l \<noteq> snd parent)
     then Inl (mismatch ''structural_rolling_chain_broken'')
     else if le_status l \<noteq> Land_skipped \<and> rs_kind s \<noteq> Merge_commit
     then Inl (mismatch ''structural_rolling_chain_broken'')
     else if le_merge_commit_tree_sha l \<noteq> rs_result_tree_sha s
     then Inl (mismatch ''structural_rolling_chain_broken'')
     else Inr (le_merge_commit_sha l, le_merge_commit_tree_sha l))"

fun rolling_base ::
  "batch_candidate \<Rightarrow> structural_provenance \<Rightarrow> landing_plan \<Rightarrow> string \<times> string \<Rightarrow> nat list
     \<Rightarrow> verdict + string \<times> string" where
  "rolling_base c p lp parent [] = Inr parent"
| "rolling_base c p lp parent (i # is) = (case rolling_step_result c p lp parent i of
       Inl v \<Rightarrow> Inl v | Inr parent' \<Rightarrow> rolling_base c p lp parent' is)"

definition rolling_base_result ::
  "structural_evaluation \<Rightarrow> batch_candidate \<Rightarrow> landing_plan \<Rightarrow> verdict option" where
  "rolling_base_result ev c lp = (case ba_structural_provenance c of
       None \<Rightarrow> Some (St_unknown, ''structural_provenance_missing'')
     | Some p \<Rightarrow>
       (case rolling_base c p lp (ba_base_sha c, sp_base_tree_sha p) [0..<ev_target_queue_position ev - 1] of
          Inl v \<Rightarrow> Some v
        | Inr parent \<Rightarrow>
          if ev_observed_base_sha ev \<noteq> fst parent then Some (mismatch ''structural_base_sha_mismatch'')
          else if ev_observed_base_tree_sha ev \<noteq> snd parent then Some (mismatch ''structural_base_tree_mismatch'')
          else None))"

subsection \<open>The evaluation\<close>

text \<open>The target, its stack root and its base, once the identities are known to agree.\<close>

definition target_verdict ::
  "policy_record list option \<Rightarrow> structural_evaluation \<Rightarrow> batch_candidate \<Rightarrow> structural_provenance
     \<Rightarrow> landing_plan \<Rightarrow> collapse_record option \<Rightarrow> verdict" where
  "target_verdict reader ev c p lp collapse = (
     case find (\<lambda>e. eo_position e = ev_target_queue_position ev) (ev_entries ev) of
       None \<Rightarrow> mismatch ''structural_entry_absent''
     | Some target \<Rightarrow>
       if eo_pull_request_number target \<noteq> ev_target_pull_request_number ev
       then mismatch ''structural_position_mismatch''
       else
       let root = stack_root_reason reader ev c collapse in
       if root = Root_unproven then mismatch ''structural_stack_root_unproven''
       else if ev_target_queue_position ev = 1 \<or> lp_candidate_pull_request_number lp \<noteq> None
       then (if ev_observed_base_sha ev \<noteq> ba_base_sha c then mismatch ''structural_base_sha_mismatch''
             else if ev_observed_base_tree_sha ev \<noteq> sp_base_tree_sha p then mismatch ''structural_base_tree_mismatch''
             else if root = Root_recorded then (St_recorded_rolling, ''structural_stack_root_recorded'')
             else (St_exact, if length (ba_entries c) = 1 then ''structural_single_entry_exact''
                             else ''structural_batch_entry_exact''))
       else (case rolling_base_result ev c lp of Some v \<Rightarrow> v
             | None \<Rightarrow> (St_recorded_rolling, ''structural_rolling_chain_recorded'')))"

definition evaluate_structural_candidate ::
  "policy_record list option \<Rightarrow> structural_evaluation \<Rightarrow> candidate_record option \<Rightarrow> landing_record option
     \<Rightarrow> collapse_record option \<Rightarrow> structural_result res" where
  "evaluate_structural_candidate reader ev candidate landing collapse = (
     case candidate of None \<Rightarrow> structural_result_of (St_unknown, ''structural_evidence_unavailable'') '''' '''' '''' '''' ''''
     | Some cr \<Rightarrow>
     if cn_status cr = Br_superseded
        \<and> (case landing of None \<Rightarrow> True | Some lr \<Rightarrow> \<not> ordinary_candidate_is_exact_landing_dependency cr lr)
     then structural_result_of (St_unknown, ''structural_record_superseded'') '''' '''' '''' '''' ''''
     else
     let c = cn_candidate cr in
     case ba_structural_provenance c of
       None \<Rightarrow> structural_result_of (St_unknown, ''structural_provenance_missing'') '''' '''' '''' '''' ''''
     | Some p \<Rightarrow>
     let unbound = (\<lambda>reason. structural_result_of (St_unknown, reason) '''' ''''
           (ba_candidate_sha256 c) '''' (sp_provenance_sha256 p)) in
     if ba_status c \<noteq> Cand_passed \<or> \<not> provenance_complete p then unbound ''structural_candidate_incomplete''
     else (case landing of None \<Rightarrow> unbound ''structural_landing_plan_missing''
     | Some lr \<Rightarrow>
     if ln_status lr = Br_superseded then unbound ''structural_landing_plan_superseded''
     else
     let lp = ln_landing_plan lr in
     andThen (landing_plan_shape c lp) (\<lambda>shape. case shape of Some v \<Rightarrow> bound_result ev cr lr v
     | None \<Rightarrow>
     let identified = (\<lambda>reason. structural_result_of (mismatch reason) '''' '''' (ba_candidate_sha256 c)
           (lp_landing_plan_sha256 lp) (sp_provenance_sha256 p)) in
     (case common_identity_mismatch ev c lp of Some reason \<Rightarrow> identified reason
     | None \<Rightarrow>
     (case queue_identity_mismatch (ev_entries ev) c of Some reason \<Rightarrow> identified reason
     | None \<Rightarrow> bound_result ev cr lr (target_verdict reader ev c p lp collapse))))))"

end
