(* ===== verification/Mt_Structural_Properties.thy ===== *)
theory Mt_Structural_Properties
  imports Mt_Structural Mt_Batch_Properties
begin

section \<open>What a successful structural evaluation establishes\<close>

text \<open>
  An evaluation that succeeds has matched the landing against the candidate that was tested. When the
  entries land one by one, the base it is about to merge onto has the tree that the candidate's own step
  started from, and all entries before the target have landed with the heads and the trees that were
  tested; when the batch lands as one pull request, the base is the one the candidate was built on.
\<close>

subsection \<open>Elimination of a successful evaluation\<close>

abbreviation succeeded :: "structural_status \<Rightarrow> bool" where
  "succeeded s \<equiv> s = St_exact \<or> s = St_recorded_rolling"

lemma structural_result_status: "structural_result_of v b t c l p = Inr r \<Longrightarrow> sr_status r = fst v"
  by (auto simp: structural_result_of_def validate_structural_result_def)

lemma landing_steps_verdict: "landing_steps_mismatch c es ls ss = Inr (Some v) \<Longrightarrow> \<not> succeeded (fst v)"
  by (induction c es ls ss rule: landing_steps_mismatch.induct) (auto split: if_splits)

lemma landing_shape_verdict: "landing_plan_shape c lp = Inr (Some v) \<Longrightarrow> \<not> succeeded (fst v)"
  by (auto simp: landing_plan_shape_def Let_def dest: landing_steps_verdict split: if_splits option.splits)

definition evaluation_passed ::
  "policy_record list option \<Rightarrow> structural_evaluation \<Rightarrow> candidate_record \<Rightarrow> landing_record \<Rightarrow> collapse_record option
     \<Rightarrow> structural_provenance \<Rightarrow> bool" where
  "evaluation_passed reader ev cr lr collapse p \<longleftrightarrow>
     (cn_status cr = Br_active \<or> ordinary_candidate_is_exact_landing_dependency cr lr)
     \<and> ba_structural_provenance (cn_candidate cr) = Some p
     \<and> ba_status (cn_candidate cr) = Cand_passed \<and> provenance_complete p \<and> ln_status lr = Br_active
     \<and> landing_plan_shape (cn_candidate cr) (ln_landing_plan lr) = Inr None
     \<and> common_identity_mismatch ev (cn_candidate cr) (ln_landing_plan lr) = None
     \<and> queue_identity_mismatch (ev_entries ev) (cn_candidate cr) = None
     \<and> succeeded (fst (target_verdict reader ev (cn_candidate cr) p (ln_landing_plan lr) collapse))"

lemma evaluation_success:
  assumes "evaluate_structural_candidate reader ev (Some cr) (Some lr) collapse = Inr r" "succeeded (sr_status r)"
  shows "\<exists>p. evaluation_passed reader ev cr lr collapse p"
proof -
  let ?c = "cn_candidate cr" and ?lp = "ln_landing_plan lr"
  note ev = assms(1) [unfolded evaluate_structural_candidate_def Let_def option.case]
  have active: "cn_status cr = Br_active \<or> ordinary_candidate_is_exact_landing_dependency cr lr"
  proof (rule ccontr)
    assume "\<not> ?thesis"
    then have "cn_status cr = Br_superseded" "\<not> ordinary_candidate_is_exact_landing_dependency cr lr"
      by (cases "cn_status cr"; simp)+
    with ev assms(2) show False by (auto dest!: structural_result_status)
  qed
  then have "\<not> (cn_status cr = Br_superseded \<and> \<not> ordinary_candidate_is_exact_landing_dependency cr lr)" by auto
  note ev = ev [unfolded if_not_P [OF this]]
  obtain p where p: "ba_structural_provenance ?c = Some p"
    using ev assms(2) by (cases "ba_structural_provenance ?c") (auto dest!: structural_result_status)
  note ev = ev [unfolded p option.case]
  have complete: "\<not> (ba_status ?c \<noteq> Cand_passed \<or> \<not> provenance_complete p)"
  proof (rule notI)
    assume "ba_status ?c \<noteq> Cand_passed \<or> \<not> provenance_complete p"
    from ev [unfolded if_P [OF this]] assms(2) show False by (auto dest!: structural_result_status)
  qed
  note ev = ev [unfolded if_not_P [OF this]]
  have plan: "ln_status lr \<noteq> Br_superseded"
  proof (rule notI)
    assume "ln_status lr = Br_superseded"
    from ev [unfolded if_P [OF this]] assms(2) show False by (auto dest!: structural_result_status)
  qed
  note ev = ev [unfolded if_not_P [OF plan]]
  then obtain shape where shape: "landing_plan_shape ?c ?lp = Inr shape" by auto
  have "shape = None"
  proof (cases shape)
    case (Some v)
    with ev shape assms(2) landing_shape_verdict [of ?c ?lp v] show ?thesis
      by (auto simp: bound_result_def dest!: structural_result_status)
  qed simp
  with shape have shape: "landing_plan_shape ?c ?lp = Inr None" by simp
  note ev = ev [unfolded shape andThen_Inr option.case]
  have common: "common_identity_mismatch ev ?c ?lp = None"
    using ev assms(2) by (cases "common_identity_mismatch ev ?c ?lp") (auto dest!: structural_result_status)
  note ev = ev [unfolded common option.case]
  have queue: "queue_identity_mismatch (ev_entries ev) ?c = None"
    using ev assms(2) by (cases "queue_identity_mismatch (ev_entries ev) ?c") (auto dest!: structural_result_status)
  have "sr_status r = fst (target_verdict reader ev ?c p ?lp collapse)"
    using ev [unfolded queue option.case] by (auto simp: bound_result_def dest!: structural_result_status)
  then have "evaluation_passed reader ev cr lr collapse p"
    using assms(2) active p complete plan shape common queue
    by (cases "ln_status lr") (auto simp: evaluation_passed_def)
  then show ?thesis ..
qed


subsection \<open>The rolling base of a landing\<close>

text \<open>A prior entry has landed: its tested head, and a commit with the tree its step was tested to.\<close>

definition landed_as_tested :: "batch_candidate \<Rightarrow> structural_provenance \<Rightarrow> landing_plan \<Rightarrow> nat \<Rightarrow> bool" where
  "landed_as_tested c p lp i \<longleftrightarrow> i < length (lp_entries lp) \<and> i < length (ba_entries c) \<and> i < length (sp_steps p)
     \<and> (let l = lp_entries lp ! i; e = ba_entries c ! i; s = sp_steps p ! i in
        (le_status l = Land_merged \<or> le_status l = Land_skipped)
        \<and> (le_landed_head_sha l, le_landed_head_tree_sha l) = (be_head_sha e, be_head_tree_sha e)
        \<and> le_merge_commit_tree_sha l = rs_result_tree_sha s)"

lemma rolling_step_landed:
  "rolling_step_result c p lp parent i = Inr parent' \<Longrightarrow>
     landed_as_tested c p lp i \<and> snd parent' = rs_result_tree_sha (sp_steps p ! i)"
  by (auto simp: rolling_step_result_def landed_as_tested_def Let_def split: if_splits)

lemma rolling_base_landed:
  "rolling_base c p lp parent is = Inr final \<Longrightarrow>
     (\<forall>i \<in> set is. landed_as_tested c p lp i)
     \<and> snd final = (if is = [] then snd parent else rs_result_tree_sha (sp_steps p ! last is))"
proof (induction c p lp parent "is" rule: rolling_base.induct)
  case (2 c p lp parent i "is")
  then obtain parent' where s: "rolling_step_result c p lp parent i = Inr parent'"
    and r: "rolling_base c p lp parent' is = Inr final" by (auto split: sum.splits)
  from "2.IH" [OF s r] rolling_step_landed [OF s] show ?case by auto
qed simp

lemma rolling_base_unsuccessful: "rolling_base c p lp parent is = Inl v \<Longrightarrow> \<not> succeeded (fst v)"
proof (induction c p lp parent "is" rule: rolling_base.induct)
  case (2 c p lp parent i "is")
  then show ?case by (auto simp: rolling_step_result_def Let_def split: sum.splits if_splits)
qed simp

lemma queue_entries_match:
  "queue_entries_mismatch (zip os es) = None \<Longrightarrow> length os = length es \<Longrightarrow>
     map (\<lambda>o'. (eo_position o', eo_pull_request_number o', eo_head_sha o', eo_head_tree_sha o')) os
   = map (\<lambda>e. (be_position e, be_pull_request_number e, be_head_sha e, be_head_tree_sha e)) es"
proof (induction os arbitrary: es)
  case (Cons o' os)
  then show ?case by (cases es) (auto split: if_splits)
qed simp

lemma map_eq_nth: "map f as = map g bs \<Longrightarrow> k < length as \<Longrightarrow> f (as ! k) = g (bs ! k)"
  by (metis length_map nth_map)

lemma chain_parent:
  assumes "chain_of p" "i < length (sp_steps p)"
  shows "step_parent (sp_steps p ! i)
     = (if i = 0 then (sp_base_sha p, sp_base_tree_sha p) else step_result (sp_steps p ! (i - 1)))"
proof -
  let ?all = "(sp_base_sha p, sp_base_tree_sha p) # map step_result (sp_steps p)"
  from assms have "step_parent (sp_steps p ! i) = butlast ?all ! i"
    unfolding chain_of_def by (metis nth_map)
  also have "\<dots> = ?all ! i" using assms(2) by (subst nth_butlast) auto
  finally show ?thesis using assms(2) by (auto simp: nth_Cons')
qed

text \<open>The position of the target, once the observed queue is the candidate's.\<close>

lemma target_position:
  assumes "evaluation_passed reader ev cr lr collapse p" "validate_batch_candidate c0 = Inr (cn_candidate cr)"
  obtains i where "i < length (ba_entries (cn_candidate cr))" "ev_target_queue_position ev = Suc i"
    "be_pull_request_number (ba_entries (cn_candidate cr) ! i) = ev_target_pull_request_number ev"
    "length (sp_steps p) = length (ba_entries (cn_candidate cr))"
proof -
  let ?c = "cn_candidate cr"
  note P = assms(1) [unfolded evaluation_passed_def]
  have q: "map (\<lambda>o'. (eo_position o', eo_pull_request_number o', eo_head_sha o', eo_head_tree_sha o')) (ev_entries ev)
      = map (\<lambda>e. (be_position e, be_pull_request_number e, be_head_sha e, be_head_tree_sha e)) (ba_entries ?c)"
    using P queue_entries_match by (auto simp: queue_identity_mismatch_def split: if_splits)
  from P obtain t where t: "find (\<lambda>e. eo_position e = ev_target_queue_position ev) (ev_entries ev) = Some t"
    and n: "eo_pull_request_number t = ev_target_pull_request_number ev"
    by (auto simp: target_verdict_def Let_def split: option.splits if_splits)
  from t have "t \<in> set (ev_entries ev)" "eo_position t = ev_target_queue_position ev"
    by (auto dest: find_SomeD)
  then obtain i where i: "i < length (ev_entries ev)" "t = ev_entries ev ! i" by (auto simp: in_set_conv_nth)
  have len: "length (ev_entries ev) = length (ba_entries ?c)" using arg_cong [OF q, of length] by simp
  have "be_position (ba_entries ?c ! i) = Suc i"
  proof -
    have "be_position (ba_entries ?c ! i) = map be_position (ba_entries ?c) ! i" using i len by simp
    then show ?thesis unfolding validated_candidate(3) [OF assms(2)] using i len by (simp del: upt_Suc)
  qed
  with map_eq_nth [OF q i(1)] i n \<open>eo_position t = _\<close>
  have "ev_target_queue_position ev = Suc i"
    "be_pull_request_number (ba_entries ?c ! i) = ev_target_pull_request_number ev" by auto
  moreover have "length (sp_steps p) = length (ba_entries ?c)"
    using P arg_cong [OF bound_provenance(1) [OF assms(2)], of p length] by (simp add: provenance_complete_def)
  ultimately show ?thesis using i len by (intro that) auto
qed

lemma step_of_entry:
  assumes "validate_batch_candidate c0 = Inr c" "ba_structural_provenance c = Some p" "chain_of p"
    and "provenance_complete p" "i < length (ba_entries c)"
  shows "rs_pull_request_number (sp_steps p ! i) = be_pull_request_number (ba_entries c ! i)"
    "rs_head_sha (sp_steps p ! i) = be_head_sha (ba_entries c ! i)"
    "rs_head_tree_sha (sp_steps p ! i) = be_head_tree_sha (ba_entries c ! i)"
proof -
  have b: "map binding_identity (sp_entries p) = map entry_identity (ba_entries c)"
    by (rule bound_provenance(1) [OF assms(1,2)])
  then have len: "length (sp_entries p) = length (ba_entries c)" by (metis length_map)
  have s: "map step_head (sp_steps p) = map binding_head (sp_entries p)"
    using assms(3,4) by (simp add: chain_of_def provenance_complete_def)
  have "step_head (sp_steps p ! i) = binding_head (sp_entries p ! i)"
    using map_eq_nth [OF s] assms(4,5) len by (simp add: provenance_complete_def)
  moreover have "binding_identity (sp_entries p ! i) = entry_identity (ba_entries c ! i)"
    using map_eq_nth [OF b] assms(5) len by simp
  ultimately show "rs_pull_request_number (sp_steps p ! i) = be_pull_request_number (ba_entries c ! i)"
    "rs_head_sha (sp_steps p ! i) = be_head_sha (ba_entries c ! i)"
    "rs_head_tree_sha (sp_steps p ! i) = be_head_tree_sha (ba_entries c ! i)"
    by (auto simp: step_head_def binding_head_def binding_identity_def entry_identity_def)
qed

text \<open>The base of the target: where its landing is about to merge, and what has landed before it.\<close>

definition tested_base ::
  "structural_evaluation \<Rightarrow> batch_candidate \<Rightarrow> structural_provenance \<Rightarrow> landing_plan \<Rightarrow> nat \<Rightarrow> bool" where
  "tested_base ev c p lp i \<longleftrightarrow> (case lp_candidate_pull_request_number lp of
     None \<Rightarrow> rs_parent_tree_sha (sp_steps p ! i) = ev_observed_base_tree_sha ev
       \<and> (\<forall>j < i. landed_as_tested c p lp j)
   | Some _ \<Rightarrow> ev_observed_base_sha ev = ba_base_sha c \<and> ev_observed_base_tree_sha ev = sp_base_tree_sha p)"

lemma success_tests_base:
  assumes P: "evaluation_passed reader ev cr lr collapse p" and chain: "chain_of p"
    and i: "ev_target_queue_position ev = Suc i" "i < length (sp_steps p)"
  shows "tested_base ev (cn_candidate cr) p (ln_landing_plan lr) i"
proof -
  let ?c = "cn_candidate cr" and ?lp = "ln_landing_plan lr"
  have p: "ba_structural_provenance ?c = Some p" and v: "succeeded (fst (target_verdict reader ev ?c p ?lp collapse))"
    using P by (simp_all add: evaluation_passed_def)
  have parent: "step_parent (sp_steps p ! i)
      = (if i = 0 then (sp_base_sha p, sp_base_tree_sha p) else step_result (sp_steps p ! (i - 1)))"
    by (rule chain_parent [OF chain i(2)])
  show ?thesis
  proof (cases "i = 0 \<or> lp_candidate_pull_request_number ?lp \<noteq> None")
    case True
    with v i have "ev_observed_base_sha ev = ba_base_sha ?c" "ev_observed_base_tree_sha ev = sp_base_tree_sha p"
      by (auto simp: target_verdict_def Let_def split: option.splits if_splits)
    with parent True show ?thesis by (auto simp: tested_base_def step_parent_def split: option.split)
  next
    case False
    with v i p have "rolling_base_result ev ?c ?lp = None \<or>
        (\<exists>v. rolling_base_result ev ?c ?lp = Some v \<and> succeeded (fst v))"
      by (auto simp: target_verdict_def Let_def split: option.splits if_splits)
    then obtain final where f: "rolling_base ?c p ?lp (ba_base_sha ?c, sp_base_tree_sha p) [0..<i] = Inr final"
      and "ev_observed_base_tree_sha ev = snd final"
      using p i(1)
      by (auto simp: rolling_base_result_def dest: rolling_base_unsuccessful split: sum.splits if_splits)
    moreover obtain k where "i = Suc k" using False by (cases i) auto
    ultimately show ?thesis using rolling_base_landed [OF f] parent False
      by (auto simp: tested_base_def step_parent_def step_result_def less_Suc_eq)
  qed
qed

lemma success_same_commit:
  "evaluation_passed reader ev cr lr collapse p \<Longrightarrow>
     lp_candidate_sha (ln_landing_plan lr) = ba_candidate_sha (cn_candidate cr)
     \<and> lp_candidate_tree_sha (ln_landing_plan lr) = ba_candidate_tree_sha (cn_candidate cr)"
  by (auto simp: evaluation_passed_def common_identity_mismatch_def split: option.splits if_splits)

text \<open>
  C14. A landing whose structural evaluation succeeds lands what was tested. The target is the pull request
  of its step in the candidate's provenance, and the plan is for the candidate's commit and tree. When the
  entries land one by one, the base the target merges onto has the tree its step started from, and every
  entry before it has landed with its tested head and the tree its own step was tested to. When the batch
  lands as one pull request, the base is, for every target, the commit and tree that the candidate was built
  and tested on.
\<close>

theorem structural_success_lands_what_was_tested:
  assumes "validate_batch_candidate c0 = Inr (cn_candidate cr)"
    and "ba_structural_provenance (cn_candidate cr) = Some p" and "validate_structural_provenance p0 = Inr p"
    and "evaluate_structural_candidate reader ev (Some cr) (Some lr) collapse = Inr r"
    and "sr_status r = St_exact \<or> sr_status r = St_recorded_rolling"
  shows "lp_candidate_sha (ln_landing_plan lr) = ba_candidate_sha (cn_candidate cr)
     \<and> lp_candidate_tree_sha (ln_landing_plan lr) = ba_candidate_tree_sha (cn_candidate cr)
     \<and> (\<exists>i < length (sp_steps p). ev_target_queue_position ev = Suc i
          \<and> rs_pull_request_number (sp_steps p ! i) = ev_target_pull_request_number ev
          \<and> (case lp_candidate_pull_request_number (ln_landing_plan lr) of
               None \<Rightarrow> rs_parent_tree_sha (sp_steps p ! i) = ev_observed_base_tree_sha ev
                 \<and> (\<forall>j < i. landed_as_tested (cn_candidate cr) p (ln_landing_plan lr) j)
             | Some _ \<Rightarrow> ev_observed_base_sha ev = ba_base_sha (cn_candidate cr)
                 \<and> ev_observed_base_tree_sha ev = sp_base_tree_sha p))"
proof -
  let ?c = "cn_candidate cr" and ?lp = "ln_landing_plan lr"
  from evaluation_success [OF assms(4,5)] assms(2) have P: "evaluation_passed reader ev cr lr collapse p"
    by (auto simp: evaluation_passed_def)
  have chain: "chain_of p" by (rule validated_provenance_chain [OF assms(3)])
  from P assms(1) obtain i where i: "i < length (ba_entries ?c)" "ev_target_queue_position ev = Suc i"
    "be_pull_request_number (ba_entries ?c ! i) = ev_target_pull_request_number ev"
    "length (sp_steps p) = length (ba_entries ?c)" by (rule target_position)
  have complete: "provenance_complete p" using P by (simp add: evaluation_passed_def)
  have "tested_base ev ?c p ?lp i" by (rule success_tests_base [OF P chain i(2)]) (simp add: i)
  with i step_of_entry [OF assms(1,2) chain complete i(1)] success_same_commit [OF P] show ?thesis
    unfolding tested_base_def by (intro conjI exI [of _ i]) simp_all
qed


subsection \<open>A concrete landing\<close>

text \<open>The first entry has landed by a commit of its own with the tested tree; the second is the target.\<close>

definition ex_landed_entries :: "landing_entry list" where
  "ex_landed_entries = [(ex_landing_entry 1 ''b'' ''h1'' ''c1'')\<lparr>le_status := Land_merged,
      le_recorded_rolling_base_sha := ''b'', le_recorded_rolling_base_tree_sha := ''b'',
      le_landed_head_sha := ''h1'', le_landed_head_tree_sha := ''h1'', le_merge_commit_sha := ''m1'',
      le_merge_commit_tree_sha := ''c1''\<rparr>, ex_landing_entry 2 ''c1'' ''h2'' ''c2'']"

definition ex_landing_record :: landing_record where
  "ex_landing_record = \<lparr>ln_ordinary_job_binding = None, ln_schema_version = 1, ln_record_id = ''k'',
     ln_status = Br_active, ln_source = ''k'', ln_updated_at = ''k'',
     ln_landing_plan = ex_landing_plan\<lparr>lp_entries := ex_landed_entries, lp_landing_plan_sha256 := ''d''\<rparr>,
     ln_historical_completion = None\<rparr>"

definition ex_evaluation :: structural_evaluation where
  "ex_evaluation = \<lparr>ev_repository = ''o/r'', ev_base_branch = ''main'', ev_target_pull_request_number = 2,
     ev_target_queue_position = 2, ev_observed_base_sha = ''m1'', ev_observed_base_tree_sha = ''c1'',
     ev_policy_key = ''k'', ev_policy_sha256 = ''k'',
     ev_active_candidate_sha256 = sp_candidate_sha256 ex_digested, ev_active_landing_plan_sha256 = ''d'',
     ev_entries = [\<lparr>eo_position = 1, eo_pull_request_number = 1, eo_head_sha = ''h1'', eo_head_tree_sha = ''h1'',
         eo_reviewed_delta = None, eo_current_delta = None\<rparr>,
       \<lparr>eo_position = 2, eo_pull_request_number = 2, eo_head_sha = ''h2'', eo_head_tree_sha = ''h2'',
         eo_reviewed_delta = None, eo_current_delta = None\<rparr>],
     ev_combined_owner_review = None\<rparr>"

definition ex_candidate_record :: candidate_record where
  "ex_candidate_record = \<lparr>cn_ordinary_job_binding = None, cn_schema_version = 1, cn_record_id = ''k'',
     cn_status = Br_active, cn_source = ''k'', cn_updated_at = ''k'', cn_candidate = ex_bound_candidate,
     cn_block_intent = None\<rparr>"

lemma ex_bound_entries:
  "ba_entries ex_bound_candidate = [(ex_batch_entry 1 1 ''h1'')\<lparr>be_head_tree_sha := ''h1''\<rparr>,
     (ex_batch_entry 2 2 ''h2'')\<lparr>be_head_tree_sha := ''h2''\<rparr>]" "ba_base_sha ex_bound_candidate = ''b''"
  by (simp_all add: ex_bound_candidate_def ex_candidate_def ex_train_candidate_def)

lemma ex_candidate_digest: "sp_candidate_sha256 ex_digested \<noteq> []"
  by (simp add: ex_digested_def structural_candidate_sha256_def)

lemma ex_shape: "landing_plan_shape ex_bound_candidate (ln_landing_plan ex_landing_record) = Inr None"
  by (simp add: landing_plan_shape_def ex_landing_record_def ex_landing_plan_def ex_landed_entries_def
      ex_landing_entry_def ex_bound_entries ex_bound_fields(2) ex_digested_fields ex_batch_entry_def ex_step_def)

lemma ex_common: "common_identity_mismatch ex_evaluation ex_bound_candidate (ln_landing_plan ex_landing_record) = None"
  by (simp add: common_identity_mismatch_def ex_bound_fields ex_evaluation_def ex_landing_record_def
      ex_landing_plan_def ex_candidate_digest)

lemma ex_queue: "queue_identity_mismatch (ev_entries ex_evaluation) ex_bound_candidate = None"
  by (simp add: queue_identity_mismatch_def ex_evaluation_def ex_bound_entries ex_batch_entry_def)

lemma ex_target: "target_verdict reader ex_evaluation ex_bound_candidate ex_digested (ln_landing_plan ex_landing_record) None
    = (St_recorded_rolling, ''structural_rolling_chain_recorded'')"
  by (simp add: target_verdict_def ex_evaluation_def stack_root_reason_def ex_bound_fields(2) ex_digested_fields
      ex_landing_record_def ex_landing_plan_def rolling_base_result_def rolling_step_result_def landing_evidence_def
      ex_landed_entries_def ex_landing_entry_def ex_bound_entries ex_batch_entry_def ex_step_def
      ex_digested_def ex_provenance_def Let_def upt_rec)

theorem structural_success_lands_what_was_tested_witness:
  "\<exists>r. evaluate_structural_candidate None ex_evaluation (Some ex_candidate_record) (Some ex_landing_record) None = Inr r
     \<and> (\<exists>i < length (sp_steps ex_digested). rs_pull_request_number (sp_steps ex_digested ! i) = 2
          \<and> rs_parent_tree_sha (sp_steps ex_digested ! i) = ''c1'')"
proof -
  have p: "ba_structural_provenance (cn_candidate ex_candidate_record) = Some ex_digested"
    and v: "validate_batch_candidate ex_candidate = Inr (cn_candidate ex_candidate_record)"
    using ex_candidate_valid
    by (simp_all add: ex_candidate_record_def ex_bound_fields)
  have "cn_status ex_candidate_record = Br_active" "cn_candidate ex_candidate_record = ex_bound_candidate"
    "ln_status ex_landing_record = Br_active"
    by (simp_all add: ex_candidate_record_def ex_landing_record_def)
  then obtain r where r: "evaluate_structural_candidate None ex_evaluation (Some ex_candidate_record)
      (Some ex_landing_record) None = Inr r" and s: "sr_status r = St_recorded_rolling"
    by (simp add: evaluate_structural_candidate_def Let_def ex_bound_fields ex_digested_fields(11) ex_shape ex_common
        ex_queue ex_target bound_result_def structural_result_of_def validate_structural_result_def)
  from structural_success_lands_what_was_tested [OF v p ex_provenance_valid r] s
  show ?thesis using r by (auto simp: ex_evaluation_def ex_landing_record_def ex_landing_plan_def)
qed

end
