(* ===== verification/Mt_Worker.thy ===== *)
theory Mt_Worker
  imports Effects Mt_Plan
begin

section \<open>The worker step\<close>

text \<open>
  \<open>run_merge_train_worker_step\<close> of \<open>control_plane/workflows/merge_train_worker.py\<close> and the
  intents of \<open>control_plane/merge_train.py\<close> that it applies: plan from a snapshot, then block the
  selected pull request, update its branch, wait for it or merge it. The label, branch and merge
  clients are parameters with effects on a world; a merge client may raise \<open>StaleHead\<close>, for
  \<open>MergeTrainGitHubStaleHeadError\<close>.
\<close>

record 'w worker_clients =
  wk_add_label :: "string \<Rightarrow> nat \<Rightarrow> string \<Rightarrow> ('w, unit) eff"
  wk_update_branch :: "string \<Rightarrow> nat \<Rightarrow> string \<Rightarrow> ('w, unit) eff"
  wk_merge :: "string \<Rightarrow> nat \<Rightarrow> string \<Rightarrow> merge_method \<Rightarrow> ('w, string) eff"

subsection \<open>Blocking\<close>

datatype block_status = Block_blocked | Block_skipped

record block_result =
  br_status :: block_status
  br_repository :: string
  br_base_branch :: string
  br_pull_request_number :: "nat option"
  br_blocked_label :: string
  br_train_should_continue :: bool
  br_detail :: string

definition apply_block_intent :: "dry_run_result \<Rightarrow> 'w worker_clients \<Rightarrow> ('w, block_result) eff" where
  "apply_block_intent r clients =
     (let skipped = \<lparr>br_status = Block_skipped, br_repository = dr_repository r,
            br_base_branch = dr_base_branch r, br_pull_request_number = None,
            br_blocked_label = dr_blocked_label r, br_train_should_continue = True,
            br_detail = ''Dry-run result does not require a block label.''\<rparr>
      in if dr_intended_next_action r \<noteq> Act_block then give skipped
      else (case dr_selected_pr r of None \<Rightarrow> give skipped
        | Some e \<Rightarrow>
          (let continue = (dr_failure_policy r = Continue_after_blocking_pr);
               blocked = (\<lambda>detail. \<lparr>br_status = Block_blocked, br_repository = dr_repository r,
                 br_base_branch = dr_base_branch r, br_pull_request_number = Some (qe_number e),
                 br_blocked_label = dr_blocked_label r, br_train_should_continue = continue,
                 br_detail = detail\<rparr>)
           in if carries_label (dr_blocked_label r) (qe_labels e)
              then give (blocked (''Pull request #'' @ str_nat (qe_number e) @ '' already has ''
                     @ dr_blocked_label r @ ''.''))
              else andDo (wk_add_label clients (dr_repository r) (qe_number e) (dr_blocked_label r)) (\<lambda>_.
                give (blocked (''Applied '' @ dr_blocked_label r @ '' to pull request #''
                  @ str_nat (qe_number e) @ ''.''))))))"

subsection \<open>Updating the branch\<close>

datatype update_status = Update_updated | Update_skipped

record branch_update_result =
  bu_status :: update_status
  bu_repository :: string
  bu_base_branch :: string
  bu_pull_request_number :: "nat option"
  bu_expected_head_sha :: string
  bu_reread_required :: bool
  bu_detail :: string

definition apply_branch_update_intent ::
  "dry_run_result \<Rightarrow> 'w worker_clients \<Rightarrow> ('w, branch_update_result) eff" where
  "apply_branch_update_intent r clients =
     (let skipped = \<lparr>bu_status = Update_skipped, bu_repository = dr_repository r,
            bu_base_branch = dr_base_branch r, bu_pull_request_number = None,
            bu_expected_head_sha = '''', bu_reread_required = False,
            bu_detail = ''Dry-run result does not require a branch update.''\<rparr>
      in if dr_intended_next_action r \<noteq> Act_update_branch then give skipped
      else (case dr_selected_pr r of None \<Rightarrow> give skipped
        | Some e \<Rightarrow>
          andDo (wk_update_branch clients (dr_repository r) (qe_number e) (qe_head_sha e)) (\<lambda>_.
          give \<lparr>bu_status = Update_updated, bu_repository = dr_repository r,
            bu_base_branch = dr_base_branch r, bu_pull_request_number = Some (qe_number e),
            bu_expected_head_sha = qe_head_sha e, bu_reread_required = True,
            bu_detail = ''Updated pull request branch; re-read mergeability and required checks before continuing.''\<rparr>)))"

subsection \<open>Waiting\<close>

datatype wait_status = Wait_waiting | Wait_skipped

record wait_result =
  wr_status :: wait_status
  wr_repository :: string
  wr_base_branch :: string
  wr_pull_request_number :: "nat option"
  wr_head_sha :: string
  wr_mergeable :: "mergeable_state option"
  wr_required_checks_status :: "check_status option"
  wr_poll_required :: bool
  wr_detail :: string

definition build_wait_result :: "dry_run_result \<Rightarrow> wait_result" where
  "build_wait_result r =
     (let skipped = \<lparr>wr_status = Wait_skipped, wr_repository = dr_repository r,
            wr_base_branch = dr_base_branch r, wr_pull_request_number = None, wr_head_sha = '''',
            wr_mergeable = None, wr_required_checks_status = None, wr_poll_required = False,
            wr_detail = ''Dry-run result does not require check polling.''\<rparr>
      in if dr_intended_next_action r \<noteq> Act_wait_for_checks then skipped
      else (case dr_selected_pr r of None \<Rightarrow> skipped
        | Some e \<Rightarrow>
          \<lparr>wr_status = Wait_waiting, wr_repository = dr_repository r,
           wr_base_branch = dr_base_branch r, wr_pull_request_number = Some (qe_number e),
           wr_head_sha = qe_head_sha e, wr_mergeable = Some (qe_mergeable e),
           wr_required_checks_status = Some (qe_required_checks_status e), wr_poll_required = True,
           wr_detail = dr_next_action_detail r\<rparr>))"

subsection \<open>Merging\<close>

datatype merge_status = Merge_merged | Merge_skipped

record merge_result =
  mr_status :: merge_status
  mr_repository :: string
  mr_base_branch :: string
  mr_pull_request_number :: "nat option"
  mr_head_sha :: string
  mr_merge_method :: "merge_method option"
  mr_merge_commit_sha :: string
  mr_reread_required :: bool
  mr_detail :: string

definition apply_merge_intent :: "dry_run_result \<Rightarrow> 'w worker_clients \<Rightarrow> ('w, merge_result) eff" where
  "apply_merge_intent r clients =
     (let skipped = \<lparr>mr_status = Merge_skipped, mr_repository = dr_repository r,
            mr_base_branch = dr_base_branch r, mr_pull_request_number = None, mr_head_sha = '''',
            mr_merge_method = None, mr_merge_commit_sha = '''', mr_reread_required = False,
            mr_detail = ''Dry-run result does not allow a merge.''\<rparr>
      in if dr_intended_next_action r \<noteq> Act_merge then give skipped
      else (case dr_selected_pr r of None \<Rightarrow> give skipped
        | Some e \<Rightarrow>
          andDo (wk_merge clients (dr_repository r) (qe_number e) (qe_head_sha e) (dr_merge_method r)) (\<lambda>sha.
          give \<lparr>mr_status = Merge_merged, mr_repository = dr_repository r,
            mr_base_branch = dr_base_branch r, mr_pull_request_number = Some (qe_number e),
            mr_head_sha = qe_head_sha e, mr_merge_method = Some (dr_merge_method r),
            mr_merge_commit_sha = sha, mr_reread_required = True,
            mr_detail = ''Merged pull request #'' @ str_nat (qe_number e)
              @ ''; re-read the merge train before selecting the next queued entry.''\<rparr>)))"

subsection \<open>One step\<close>

datatype worker_status = Worker_blocked | Worker_branch_updated | Worker_waiting | Worker_merged
  | Worker_idle | Worker_stale_head

record worker_result =
  ws_repository :: string
  ws_base_branch :: string
  ws_intended_next_action :: dry_run_action
  ws_selected_pr_number :: "nat option"
  ws_status :: worker_status
  ws_reread_required :: bool
  ws_poll_required :: bool
  ws_detail :: string
  ws_dry_run_result :: dry_run_result
  ws_block_result :: "block_result option"
  ws_branch_update_result :: "branch_update_result option"
  ws_wait_result :: "wait_result option"
  ws_merge_result :: "merge_result option"

definition worker_result_of ::
  "dry_run_result \<Rightarrow> worker_status \<Rightarrow> bool \<Rightarrow> bool \<Rightarrow> string \<Rightarrow> worker_result" where
  "worker_result_of r status reread poll detail =
     \<lparr>ws_repository = dr_repository r, ws_base_branch = dr_base_branch r,
      ws_intended_next_action = dr_intended_next_action r,
      ws_selected_pr_number = map_option qe_number (dr_selected_pr r),
      ws_status = status, ws_reread_required = reread, ws_poll_required = poll,
      ws_detail = detail, ws_dry_run_result = r, ws_block_result = None,
      ws_branch_update_result = None, ws_wait_result = None, ws_merge_result = None\<rparr>"

text \<open>The \<open>except MergeTrainGitHubStaleHeadError\<close> around the merge.\<close>

definition catch_stale_head ::
  "('w, 'a) eff \<Rightarrow> (string \<Rightarrow> 'a) \<Rightarrow> ('w, 'a) eff" where
  "catch_stale_head m handler w =
     (case m w of (Inl (StaleHead message), w') \<Rightarrow> (Inr (handler message), w') | other \<Rightarrow> other)"

definition merge_step :: "dry_run_result \<Rightarrow> 'w worker_clients \<Rightarrow> ('w, worker_result) eff" where
  "merge_step r clients = catch_stale_head
     (andDo (apply_merge_intent r clients) (\<lambda>merged.
        give ((worker_result_of r Worker_merged (mr_reread_required merged) False (mr_detail merged))
          \<lparr>ws_merge_result := Some merged\<rparr>)))
     (worker_result_of r Worker_stale_head True False)"

definition apply_plan :: "dry_run_result \<Rightarrow> 'w worker_clients \<Rightarrow> ('w, worker_result) eff" where
  "apply_plan r clients = (case dr_intended_next_action r of
      Act_block \<Rightarrow> andDo (apply_block_intent r clients) (\<lambda>b.
        give ((worker_result_of r Worker_blocked False False (br_detail b))\<lparr>ws_block_result := Some b\<rparr>))
    | Act_update_branch \<Rightarrow> andDo (apply_branch_update_intent r clients) (\<lambda>u.
        give ((worker_result_of r Worker_branch_updated (bu_reread_required u) False (bu_detail u))
          \<lparr>ws_branch_update_result := Some u\<rparr>))
    | Act_wait_for_checks \<Rightarrow> (let wait = build_wait_result r in
        give ((worker_result_of r Worker_waiting False (wr_poll_required wait) (wr_detail wait))
          \<lparr>ws_wait_result := Some wait\<rparr>))
    | Act_merge \<Rightarrow> merge_step r clients
    | Act_idle \<Rightarrow> give (worker_result_of r Worker_idle False False (dr_next_action_detail r)))"

text \<open>The worker plans one pull request at a time, without batches or planned heads.\<close>

definition worker_options :: plan_options where
  "worker_options = \<lparr>opt_batch_landing = False, opt_new_candidate = False,
     opt_existing_candidate_size = None, opt_planned_dependency = {}, opt_planned_handoff = {}\<rparr>"

definition run_worker_step ::
  "train_policy \<Rightarrow> train_snapshot \<Rightarrow> 'w worker_clients \<Rightarrow> ('w, worker_result) eff" where
  "run_worker_step policy snapshot clients =
     andDo (lift_res (build_dry_run_result policy snapshot worker_options))
       (\<lambda>r. apply_plan r clients)"

end
