(* ===== verification/Mt_Worker_Properties.thy ===== *)
theory Mt_Worker_Properties
  imports Mt_Worker Mt_Plan_Safety
begin

section \<open>What a worker step does\<close>

text \<open>
  The worker step against its abstract specification: the front of the train is the oldest
  admissible pull request of the base, its head decides the intent, and the step performs exactly
  that intent. The clients are wrapped so that every call is logged with its outcome.
\<close>

subsection \<open>The specification\<close>

definition train_front :: "repository_policy \<Rightarrow> train_snapshot \<Rightarrow> pull_request option" where
  "train_front rp snapshot =
     find (\<lambda>pr. admissible rp pr False False False) (base_pull_requests snapshot)"

datatype intent = Stay_idle | Block_head pull_request | Update_head pull_request
  | Await_head pull_request | Merge_head pull_request

definition head_intent :: "pull_request \<Rightarrow> intent" where
  "head_intent pr =
     (if pr_client_test_notes_error pr \<noteq> '''' \<or> pr_mergeable pr = Conflicting
         \<or> pr_required_checks_status pr = Checks_fail then Block_head pr
      else if pr_branch_update_required pr then Update_head pr
      else if pr_mergeable pr = Mergeable \<and> pr_required_checks_status pr = Checks_pass
      then Merge_head pr else Await_head pr)"

definition train_intent :: "repository_policy \<Rightarrow> train_snapshot \<Rightarrow> intent" where
  "train_intent rp snapshot =
     (case train_front rp snapshot of None \<Rightarrow> Stay_idle | Some pr \<Rightarrow> head_intent pr)"

subsection \<open>Logged clients\<close>

datatype worker_event =
    Label_added string nat string "unit res"
  | Branch_updated string nat string "unit res"
  | Merge_tried string nat string merge_method "string res"

definition logged_worker :: "'w worker_clients \<Rightarrow> ('w \<times> worker_event list) worker_clients" where
  "logged_worker c = \<lparr>
     wk_add_label = (\<lambda>repo n label. logged (Label_added repo n label) (wk_add_label c repo n label)),
     wk_update_branch = (\<lambda>repo n sha. logged (Branch_updated repo n sha) (wk_update_branch c repo n sha)),
     wk_merge = (\<lambda>repo n sha m. logged (Merge_tried repo n sha m) (wk_merge c repo n sha m))\<rparr>"

text \<open>
  What the step does and answers for each intent. A failed call is the only way to fail, and the one
  refusal the step answers itself is that of a merge whose head went stale.
\<close>

fun carried_out ::
  "repository_policy \<Rightarrow> string \<Rightarrow> intent \<Rightarrow> worker_event list \<Rightarrow> worker_result res \<Rightarrow> bool" where
  "carried_out rp repo Stay_idle log r \<longleftrightarrow>
     log = [] \<and> (\<exists>x. r = Inr x \<and> ws_status x = Worker_idle \<and> ws_selected_pr_number x = None)"
| "carried_out rp repo (Await_head pr) log r \<longleftrightarrow>
     log = [] \<and> (\<exists>x. r = Inr x \<and> ws_status x = Worker_waiting \<and> ws_poll_required x
       \<and> ws_selected_pr_number x = Some (pr_number pr))"
| "carried_out rp repo (Block_head pr) log r \<longleftrightarrow>
     (if carries_label (blocked_label rp) (pr_labels pr)
      then log = [] \<and> (\<exists>x. r = Inr x \<and> ws_status x = Worker_blocked)
      else \<exists>a. log = [Label_added repo (pr_number pr) (blocked_label rp) a]
        \<and> (case a of Inl e \<Rightarrow> r = Inl e | Inr _ \<Rightarrow> \<exists>x. r = Inr x \<and> ws_status x = Worker_blocked))"
| "carried_out rp repo (Update_head pr) log r \<longleftrightarrow>
     (\<exists>a. log = [Branch_updated repo (pr_number pr) (pr_head_sha pr) a]
        \<and> (case a of Inl e \<Rightarrow> r = Inl e
           | Inr _ \<Rightarrow> \<exists>x. r = Inr x \<and> ws_status x = Worker_branch_updated \<and> ws_reread_required x))"
| "carried_out rp repo (Merge_head pr) log r \<longleftrightarrow>
     (\<exists>a. log = [Merge_tried repo (pr_number pr) (pr_head_sha pr) (merge_method_of rp) a]
        \<and> (case a of
             Inl (StaleHead m) \<Rightarrow> \<exists>x. r = Inr x \<and> ws_status x = Worker_stale_head
               \<and> ws_reread_required x \<and> ws_merge_result x = None
           | Inl e \<Rightarrow> r = Inl e
           | Inr sha \<Rightarrow> \<exists>x m. r = Inr x \<and> ws_status x = Worker_merged \<and> ws_reread_required x
               \<and> ws_merge_result x = Some m \<and> mr_merge_commit_sha m = sha))"

lemma logged_worker_sel [simp]:
  "wk_add_label (logged_worker c) repo n label = logged (Label_added repo n label) (wk_add_label c repo n label)"
  "wk_update_branch (logged_worker c) repo n sha = logged (Branch_updated repo n sha) (wk_update_branch c repo n sha)"
  "wk_merge (logged_worker c) repo n sha m = logged (Merge_tried repo n sha m) (wk_merge c repo n sha m)"
  by (simp_all add: logged_worker_def)

subsection \<open>The plan of a worker\<close>

lemma worker_options_sel [simp]:
  "\<not> opt_batch_landing worker_options" "\<not> opt_new_candidate worker_options"
  "opt_planned_dependency worker_options = {}" "opt_planned_handoff worker_options = {}"
  by (simp_all add: worker_options_def)

definition worker_entry :: "repository_policy \<Rightarrow> pull_request \<Rightarrow> queue_entry" where
  "worker_entry rp pr = build_queue_entry rp pr False False False"

lemma worker_entry_eligible: "qe_eligible (worker_entry rp pr) \<longleftrightarrow> admissible rp pr False False False"
  by (simp add: worker_entry_def ineligible_reasons_Nil_iff build_queue_entry_def Let_def)

lemma first_worker_entry:
  "first_entry (eligible_entries (map (worker_entry rp) prs))
     = map_option (worker_entry rp) (find (\<lambda>pr. admissible rp pr False False False) prs)"
  by (induction prs) (auto simp: eligible_entries_def first_entry_def worker_entry_eligible)

lemma worker_plan:
  assumes "find_repository_policy policy (snap_repository snapshot) (snap_base_branch snapshot) = Inr rp"
  obtains r where "build_dry_run_result policy snapshot worker_options = Inr r"
    "dr_selected_pr r = map_option (worker_entry rp) (train_front rp snapshot)"
    "dr_intended_next_action r = fst (next_action_for_selected_pr rp (dr_selected_pr r) False)"
    "dr_repository r = snap_repository snapshot" "dr_blocked_label r = blocked_label rp"
    "dr_merge_method r = merge_method_of rp"
proof -
  have q: "build_queue_entries policy snapshot False {} {} = Inr (map (worker_entry rp) (base_pull_requests snapshot))"
    using build_queue_entries_eq [of policy snapshot worker_options] assms
    by (simp add: first_queue_def plan_allow_unknown_def worker_entry_def [abs_def])
  obtain a d where n: "next_action_for_selected_pr rp
      (map_option (worker_entry rp) (train_front rp snapshot)) False = (a, d)" by fastforce
  with assms q have "\<exists>r. build_dry_run_result policy snapshot worker_options = Inr r
    \<and> dr_selected_pr r = map_option (worker_entry rp) (train_front rp snapshot)
    \<and> dr_intended_next_action r = fst (next_action_for_selected_pr rp (dr_selected_pr r) False)
    \<and> dr_repository r = snap_repository snapshot \<and> dr_blocked_label r = blocked_label rp
    \<and> dr_merge_method r = merge_method_of rp"
    by (simp add: build_dry_run_result_def held_queue_def batch_of_def
      choose_action_def skips_branch_update_def first_worker_entry train_front_def)
  with that show ?thesis by blast
qed

fun intent_action :: "intent \<Rightarrow> dry_run_action" where
  "intent_action Stay_idle = Act_idle"
| "intent_action (Block_head pr) = Act_block"
| "intent_action (Update_head pr) = Act_update_branch"
| "intent_action (Await_head pr) = Act_wait_for_checks"
| "intent_action (Merge_head pr) = Act_merge"

lemma worker_entry_sel [simp]:
  "qe_number (worker_entry rp pr) = pr_number pr" "qe_head_sha (worker_entry rp pr) = pr_head_sha pr"
  "qe_labels (worker_entry rp pr) = pr_labels pr" "qe_mergeable (worker_entry rp pr) = pr_mergeable pr"
  "qe_client_test_notes_error (worker_entry rp pr) = pr_client_test_notes_error pr"
  "qe_required_checks_status (worker_entry rp pr) = pr_required_checks_status pr"
  "qe_branch_update_required (worker_entry rp pr) = pr_branch_update_required pr"
  by (simp_all add: worker_entry_def build_queue_entry_def Let_def)

lemma worker_action:
  "fst (next_action_for_selected_pr rp (Some (worker_entry rp pr)) False) = intent_action (head_intent pr)"
  unfolding next_action_for_selected_pr_def head_intent_def
  by (simp only: action_only)
    (cases "pr_mergeable pr"; cases "pr_required_checks_status pr"; simp)

lemma apply_plan_carries_out:
  assumes "dr_selected_pr r = map_option (worker_entry rp) (train_front rp snapshot)"
    and "dr_intended_next_action r = intent_action (train_intent rp snapshot)"
    and "dr_blocked_label r = blocked_label rp" and "dr_merge_method r = merge_method_of rp"
  shows "runs_to (apply_plan r (logged_worker c))
     (\<lambda>x (w', log). carried_out rp (dr_repository r) (train_intent rp snapshot) log x) (w, [])"
proof (cases "train_front rp snapshot")
  case None
  with assms show ?thesis
    by (simp add: train_intent_def apply_plan_def worker_result_of_def wp)
next
  case (Some pr)
  then have i: "train_intent rp snapshot = head_intent pr" by (simp add: train_intent_def)
  show ?thesis
  proof (cases "head_intent pr")
    case (Merge_head p)
    then have p: "p = pr" by (auto simp: head_intent_def split: if_splits)
    obtain a v where a: "wk_merge c (dr_repository r) (pr_number pr) (pr_head_sha pr) (merge_method_of rp) w = (a, v)"
      by fastforce
    note [simp] = apply_plan_def merge_step_def catch_stale_head_def apply_merge_intent_def
      runs_to_def logged_def andDo_def give_def worker_result_of_def
    show ?thesis
    proof (cases a)
      case (Inl e)
      then show ?thesis using assms Some i Merge_head p a by (cases e) auto
    next
      case (Inr sha)
      then show ?thesis using assms Some i Merge_head p a by auto
    qed
  qed (use assms Some i in \<open>auto simp: head_intent_def apply_plan_def apply_block_intent_def
      apply_branch_update_intent_def build_wait_result_def worker_result_of_def Let_def wp
      split: if_splits sum.split intro!: runs_to_any\<close>)
qed

subsection \<open>Properties\<close>

text \<open>
  C16. A worker step refines its specification: it performs exactly the intent that the head of the
  oldest admissible pull request decides, with at most one call that writes, on that pull request at
  that head, and it reports what the call answered. Nothing else is called, whatever the clients do.
\<close>

theorem worker_step_refines_intent:
  assumes "find_repository_policy policy (snap_repository snapshot) (snap_base_branch snapshot) = Inr rp"
    and "run_worker_step policy snapshot (logged_worker c) (w, []) = (r, (w', log))"
  shows "carried_out rp (snap_repository snapshot) (train_intent rp snapshot) log r"
proof -
  from assms(1) obtain p where p: "build_dry_run_result policy snapshot worker_options = Inr p"
    "dr_selected_pr p = map_option (worker_entry rp) (train_front rp snapshot)"
    "dr_intended_next_action p = fst (next_action_for_selected_pr rp (dr_selected_pr p) False)"
    "dr_repository p = snap_repository snapshot" "dr_blocked_label p = blocked_label rp"
    "dr_merge_method p = merge_method_of rp" by (rule worker_plan)
  then have "dr_intended_next_action p = intent_action (train_intent rp snapshot)"
    by (cases "train_front rp snapshot")
      (simp_all add: train_intent_def worker_action next_action_idle_iff)
  from apply_plan_carries_out [OF p(2) this p(5,6), of c w]
  have "runs_to (run_worker_step policy snapshot (logged_worker c))
     (\<lambda>x (w', log). carried_out rp (snap_repository snapshot) (train_intent rp snapshot) log x) (w, [])"
    by (simp add: run_worker_step_def p(1,4) wp)
  from runs_toD [OF this assms(2)] show ?thesis by simp
qed

text \<open>A merge host that answers one commit, and one whose heads have moved.\<close>

definition ex_clients :: "string res \<Rightarrow> nat worker_clients" where
  "ex_clients answer = \<lparr>wk_add_label = (\<lambda>_ _ _. give ()), wk_update_branch = (\<lambda>_ _ _. give ()),
     wk_merge = (\<lambda>_ _ _ _ w. (answer, Suc w))\<rparr>"

lemma carried_out_merge:
  assumes "carried_out rp repo (Merge_head pr) log r"
  obtains a where "log = [Merge_tried repo (pr_number pr) (pr_head_sha pr) (merge_method_of rp) a]"
    "\<And>x. r = Inr x \<Longrightarrow> ws_reread_required x"
proof -
  from assms obtain a where a: "log = [Merge_tried repo (pr_number pr) (pr_head_sha pr) (merge_method_of rp) a]"
    "carried_out rp repo (Merge_head pr) [Merge_tried repo (pr_number pr) (pr_head_sha pr) (merge_method_of rp) a] r"
    by auto
  show ?thesis
  proof (cases a)
    case (Inl e)
    with a that show ?thesis by (cases e) auto
  qed (use a that in auto)
qed

lemma ex_train_intent: "train_intent ex_repository_policy ex_snapshot = Merge_head (ex_pull_request 1 ''2026-01-01'' ''h1'')"
  unfolding train_intent_def train_front_def worker_entry_eligible [symmetric] by code_simp

theorem worker_step_refines_intent_witness:
  "\<exists>x a. fst (run_worker_step ex_policy ex_snapshot (logged_worker (ex_clients (Inl (StaleHead ''moved'')))) (0, [])) = Inr x
     \<and> snd (snd (run_worker_step ex_policy ex_snapshot (logged_worker (ex_clients (Inl (StaleHead ''moved'')))) (0, [])))
         = [Merge_tried ''o/r'' 1 ''h1'' Method_merge a] \<and> ws_reread_required x"
proof -
  let ?run = "run_worker_step ex_policy ex_snapshot (logged_worker (ex_clients (Inl (StaleHead ''moved'')))) (0, [])"
  obtain r w' log where run: "?run = (r, (w', log))" by (rule prod_cases3)
  have fine: "ok (fst ?run)" by code_simp
  from worker_step_refines_intent [OF ex_find_policy run] obtain a where
    "log = [Merge_tried (snap_repository ex_snapshot) 1 ''h1'' Method_merge a]"
    "\<And>x. r = Inr x \<Longrightarrow> ws_reread_required x"
    unfolding ex_train_intent
    by (elim carried_out_merge) (simp add: ex_pull_request_def ex_repository_policy_def)
  with fine run show ?thesis by (auto simp: ok_iff ex_snapshot_def)
qed

end
