(* ===== verification/Record_Fields.thy ===== *)
theory Record_Fields
  imports Mt_Evaluation_Input Py_Time
begin

section \<open>Fields of the admission records\<close>

text \<open>
  The field normalizers of \<open>control_plane/contracts/record_fields.py\<close> and the timestamps that the
  readiness and admission contracts normalize (\<open>_normalize_timestamp\<close> of
  \<open>control_plane/contracts/merge_readiness.py\<close>). An aware timestamp is the number of microseconds
  since the start of year 1 in UTC. Of the texts \<open>datetime.fromisoformat\<close> reads, the model has the
  extended format \<open>YYYY-MM-DD?HH:MM[:SS[.f]]\<close>, \<open>?\<close> any character, with an offset \<open>+HH:MM\<close>, \<open>-HH:MM\<close>
  or none; dates alone, ISO week dates, the formats without separators and offsets with seconds are
  refused like texts that are no timestamps.
\<close>

subsection \<open>Git SHAs and digests\<close>

definition git_sha_shape :: "string \<Rightarrow> bool" where
  "git_sha_shape s \<longleftrightarrow> (length s = 40 \<or> length s = 64) \<and> list_all lower_hex s"

definition normalize_git_sha :: "string \<Rightarrow> string \<Rightarrow> string res" where
  "normalize_git_sha value field_name =
     andThen (required_token value field_name) (\<lambda>t.
     if git_sha_shape (py_lower t) then Inr (py_lower t)
     else Inl (ValueError (field_name @ '' must be a Git SHA'')))"

definition normalize_optional_git_sha :: "string \<Rightarrow> string \<Rightarrow> string res" where
  "normalize_optional_git_sha value field_name =
     (let normalized = py_lower (py_strip value) in
      if truthy normalized \<and> \<not> git_sha_shape normalized
      then Inl (ValueError (field_name @ '' must be a Git SHA when present'')) else Inr normalized)"

definition normalize_sha256 :: "string \<Rightarrow> string \<Rightarrow> string res" where
  "normalize_sha256 value field_name =
     andThen (required_token value field_name) (\<lambda>t.
     let normalized = py_lower t in
     if length normalized = 64 \<and> list_all lower_hex normalized then Inr normalized
     else Inl (ValueError (field_name @ '' must be a lowercase SHA-256 digest'')))"

subsection \<open>Timestamps\<close>

datatype iso_time = Naive | Aware int

definition read_fraction :: "string \<Rightarrow> nat option" where
  "read_fraction ds = (if ds = [] \<or> \<not> list_all (\<lambda>c. digit_value c \<noteq> None) ds then None
     else read_nat 0 (take 6 (ds @ ''000000'')))"

text \<open>Microseconds of the day.\<close>

definition read_clock :: "string \<Rightarrow> nat option" where
  "read_clock s =
     (if length s < 5 \<or> s ! 2 \<noteq> CHR '':'' \<or> (5 < length s \<and> (length s < 8 \<or> s ! 5 \<noteq> CHR '':''))
         \<or> (8 < length s \<and> s ! 8 \<notin> {CHR ''.'', CHR '',''}) then None
      else (case (read_field s 0 2, read_field s 3 2,
                  if length s = 5 then Some 0 else read_field s 6 2,
                  if length s \<le> 8 then Some 0 else read_fraction (drop 9 s)) of
          (Some h, Some m, Some sec, Some us) \<Rightarrow>
            if h < 24 \<and> m < 60 \<and> sec < 60 then Some (((h * 60 + m) * 60 + sec) * 1000000 + us) else None
        | _ \<Rightarrow> None))"

text \<open>Minutes of the offset; the first sign after the date starts it.\<close>

definition read_offset :: "string \<Rightarrow> int option" where
  "read_offset s = (case s of
       [] \<Rightarrow> None
     | sign # rest \<Rightarrow>
       if length rest = 5 \<and> rest ! 2 = CHR '':'' then
         (case (read_field rest 0 2, read_field rest 3 2) of
            (Some h, Some m) \<Rightarrow> if h < 24 \<and> m < 60 then
              Some ((if sign = CHR ''-'' then - 1 else 1) * int (h * 60 + m)) else None
          | _ \<Rightarrow> None)
       else None)"

definition offset_sign :: "char \<Rightarrow> bool" where
  "offset_sign c \<longleftrightarrow> c = CHR ''+'' \<or> c = CHR ''-''"

definition read_iso :: "string \<Rightarrow> iso_time option" where
  "read_iso s =
     (if length s < 16 \<or> s ! 4 \<noteq> CHR ''-'' \<or> s ! 7 \<noteq> CHR ''-'' then None
      else (let clock = takeWhile (\<lambda>c. \<not> offset_sign c) (drop 11 s);
                offset = dropWhile (\<lambda>c. \<not> offset_sign c) (drop 11 s)
            in case (read_field s 0 4, read_field s 5 2, read_field s 8 2, read_clock clock) of
          (Some y, Some m, Some d, Some us) \<Rightarrow>
            if 1 \<le> y \<and> 1 \<le> m \<and> m \<le> 12 \<and> 1 \<le> d \<and> d \<le> month_days y m then
              if offset = [] then Some Naive
              else map_option (\<lambda>minutes. Aware (int (day_of (y, m, d) * 86400000000 + us) - minutes * 60000000))
                     (read_offset offset)
            else None
        | _ \<Rightarrow> None))"

definition last_micros :: int where
  "last_micros = int last_instant * 1000000 + 999999"

definition pad6 :: "nat \<Rightarrow> string" where
  "pad6 n = pad2 (n div 10000) @ pad2 (n div 100 mod 100) @ pad2 (n mod 100)"

definition micro_timestamp :: "nat \<Rightarrow> string" where
  "micro_timestamp t =
     (let s = t div 1000000 in
      date_string (date_of (s div 86400)) @ ''T'' @ butlast (clock_of (s mod 86400)) @ ''.''
        @ pad6 (t mod 1000000) @ ''Z'')"

definition read_zoned :: "string \<Rightarrow> iso_time option" where
  "read_zoned s = read_iso (replace_char (CHR ''Z'') ''+00:00'' s)"

definition timestamp_micros :: "string \<Rightarrow> string \<Rightarrow> nat res" where
  "timestamp_micros value field_name =
     andThen (required_token value field_name) (\<lambda>t. case read_zoned t of
         None \<Rightarrow> Inl (ValueError (field_name @ '' must be an ISO-8601 timestamp''))
       | Some Naive \<Rightarrow> Inl (ValueError (field_name @ '' must include a timezone''))
       | Some (Aware us) \<Rightarrow> if 0 \<le> us \<and> us \<le> last_micros then Inr (nat us)
           else Inl (OverflowError ''date value out of range''))"

definition normalize_timestamp :: "string \<Rightarrow> string \<Rightarrow> string res" where
  "normalize_timestamp value field_name =
     andThen (timestamp_micros value field_name) (\<lambda>us. Inr (micro_timestamp us))"

end
