(* ===== verification/Mt_Readiness.thy ===== *)
theory Mt_Readiness
  imports Record_Fields
begin

section \<open>Merge readiness\<close>

text \<open>
  \<open>control_plane/contracts/merge_readiness.py\<close>: the evidence about one merge, the facets that judge
  it and the result that aggregates them, with one \<open>validate_\<close> definition per validator. A reason
  code is the string the sources use. Lists that the sources keep sorted and without duplicates are
  sorted here as there.
\<close>

subsection \<open>States\<close>

datatype readiness_state =
    Rd_ready | Rd_blocked_owner_evidence | Rd_blocked_checks | Rd_blocked_engineering_review
  | Rd_blocked_policy | Rd_blocked_candidate_identity | Rd_unknown

fun readiness_state_str :: "readiness_state \<Rightarrow> string" where
  "readiness_state_str Rd_ready = ''ready''"
| "readiness_state_str Rd_blocked_owner_evidence = ''blocked_owner_evidence''"
| "readiness_state_str Rd_blocked_checks = ''blocked_checks''"
| "readiness_state_str Rd_blocked_engineering_review = ''blocked_engineering_review''"
| "readiness_state_str Rd_blocked_policy = ''blocked_policy''"
| "readiness_state_str Rd_blocked_candidate_identity = ''blocked_candidate_identity''"
| "readiness_state_str Rd_unknown = ''unknown''"

text \<open>The index in \<open>MERGE_READINESS_STATE_PRECEDENCE\<close>.\<close>

fun state_precedence :: "readiness_state \<Rightarrow> nat" where
  "state_precedence Rd_unknown = 0"
| "state_precedence Rd_blocked_candidate_identity = 1"
| "state_precedence Rd_blocked_policy = 2"
| "state_precedence Rd_blocked_engineering_review = 3"
| "state_precedence Rd_blocked_checks = 4"
| "state_precedence Rd_blocked_owner_evidence = 5"
| "state_precedence Rd_ready = 6"

definition readiness_worst_state :: "readiness_state list \<Rightarrow> readiness_state res" where
  "readiness_worst_state states =
     (if states = [] then Inl (ValueError ''Merge readiness aggregation requires at least one state'')
      else Inr (arg_min_list state_precedence states))"

definition sorted_set :: "'a::linorder list \<Rightarrow> 'a list" where
  "sorted_set xs = sort (remdups xs)"

definition normalize_reasons :: "string list \<Rightarrow> string list res" where
  "normalize_reasons reasons =
     (if reasons = [] then Inl (ValueError ''merge readiness facets require at least one reason code'')
      else Inr (sorted_set reasons))"

definition require_state :: "readiness_state set \<Rightarrow> string \<Rightarrow> readiness_state \<Rightarrow> unit res" where
  "require_state allowed facet s =
     ensure (s \<in> allowed) (ValueError (facet @ '' readiness facet uses an invalid canonical state''))"

definition optional_repository :: "string \<Rightarrow> string res" where
  "optional_repository value =
     (if truthy (py_strip value) then normalize_provenance_repository (py_strip value) else Inr '''')"

subsection \<open>The target\<close>

record readiness_target =
  rt_schema_version :: nat
  rt_repository :: string
  rt_pull_request_number :: nat
  rt_base_branch :: string
  rt_base_sha :: string
  rt_head_sha :: string
  rt_tree_sha :: string
  rt_expected_effect_sha :: string
  rt_queue_position :: nat

definition validate_readiness_target :: "readiness_target \<Rightarrow> readiness_target res" where
  "validate_readiness_target t =
     andThen (ensure (rt_schema_version t = 1)
       (ValueError ''Unsupported merge readiness target schema version.'')) (\<lambda>_.
     andThen (normalize_provenance_repository (rt_repository t)) (\<lambda>repo.
     andThen (required_token (rt_base_branch t) ''base_branch'') (\<lambda>branch.
     andThen (normalize_git_sha (rt_base_sha t) ''base_sha'') (\<lambda>base.
     andThen (normalize_git_sha (rt_head_sha t) ''pull_request_head_sha'') (\<lambda>head.
     andThen (normalize_git_sha (rt_tree_sha t) ''pull_request_tree_sha'') (\<lambda>tree.
     andThen (normalize_git_sha (rt_expected_effect_sha t) ''expected_effect_sha'') (\<lambda>effect.
     Inr (t\<lparr>rt_repository := repo, rt_base_branch := branch, rt_base_sha := base,
            rt_head_sha := head, rt_tree_sha := tree, rt_expected_effect_sha := effect\<rparr>))))))))"

subsection \<open>Evidence\<close>

record advisory_observation =
  ao_name :: string
  ao_state :: string
  ao_app_id :: "nat option"

definition validate_advisory_observation :: "advisory_observation \<Rightarrow> advisory_observation res" where
  "validate_advisory_observation o' =
     andThen (required_token (ao_name o') ''name'') (\<lambda>name.
     andThen (required_token (ao_state o') ''state'') (\<lambda>state.
     Inr (o'\<lparr>ao_name := name, ao_state := state\<rparr>)))"

definition observation_key :: "advisory_observation \<Rightarrow> string \<times> nat \<times> string" where
  "observation_key o' = (py_casefold (ao_name o'),
     (case ao_app_id o' of None \<Rightarrow> 0 | Some i \<Rightarrow> i), ao_state o')"

text \<open>\<open>is_launchplane_projected_check\<close> of \<open>control_plane/contracts/advisory_check_projection.py\<close>\<close>

definition projected_check_names :: "string list" where
  "projected_check_names = map py_casefold [''launchplane/engineering-review'',
     ''launchplane/owner-acceptance'', ''launchplane/owner-review'',
     ''launchplane/engineering-review-shadow'']"

definition is_projected_check :: "string \<Rightarrow> bool" where
  "is_projected_check name \<longleftrightarrow> py_casefold (py_strip name) \<in> set projected_check_names"

datatype technical_status = Tc_pass | Tc_pending | Tc_fail | Tc_unknown

definition normalize_required_checks :: "string list \<Rightarrow> string list res" where
  "normalize_required_checks checks =
     andThen (mapM (\<lambda>c. required_token c ''required_checks'') checks) (\<lambda>cs.
     andThen (ensure (\<not> list_ex is_projected_check cs)
       (ValueError ''Launchplane advisory checks cannot be required technical checks'')) (\<lambda>_.
     Inr (sorted_set cs)))"

definition normalize_observations :: "advisory_observation list \<Rightarrow> advisory_observation list res" where
  "normalize_observations os =
     andThen (ensure (list_all (is_projected_check \<circ> ao_name) os)
       (ValueError ''Advisory observations must use reserved Launchplane check names'')) (\<lambda>_.
     Inr (sort_key observation_key os))"

record technical_evidence =
  te_head_sha :: string
  te_status :: technical_status
  te_required_checks :: "string list"
  te_advisory_observations :: "advisory_observation list"

definition validate_technical_evidence :: "technical_evidence \<Rightarrow> technical_evidence res" where
  "validate_technical_evidence e =
     andThen (normalize_git_sha (te_head_sha e) ''head_sha'') (\<lambda>head.
     andThen (normalize_required_checks (te_required_checks e)) (\<lambda>checks.
     andThen (normalize_observations (te_advisory_observations e)) (\<lambda>os.
     Inr (e\<lparr>te_head_sha := head, te_required_checks := checks, te_advisory_observations := os\<rparr>))))"

record engineering_reference =
  er_run_id :: string
  er_head_sha :: string
  er_tree_sha :: string
  er_evidence_digest :: string

definition validate_engineering_reference :: "engineering_reference \<Rightarrow> engineering_reference res" where
  "validate_engineering_reference r =
     andThen (required_token (er_run_id r) ''run_id'') (\<lambda>run.
     andThen (normalize_git_sha (er_head_sha r) ''head_sha'') (\<lambda>head.
     andThen (normalize_git_sha (er_tree_sha r) ''tree_sha'') (\<lambda>tree.
     andThen (normalize_sha256 (er_evidence_digest r) ''evidence_digest'') (\<lambda>digest.
     Inr (r\<lparr>er_run_id := run, er_head_sha := head, er_tree_sha := tree, er_evidence_digest := digest\<rparr>)))))"

datatype policy_dimension =
    Dim_impact | Dim_technical_checks | Dim_engineering_review | Dim_ruleset | Dim_merge_train
  | Dim_authorization | Dim_admission_algorithm

fun policy_dimension_str :: "policy_dimension \<Rightarrow> string" where
  "policy_dimension_str Dim_impact = ''impact''"
| "policy_dimension_str Dim_technical_checks = ''technical_checks''"
| "policy_dimension_str Dim_engineering_review = ''engineering_review''"
| "policy_dimension_str Dim_ruleset = ''ruleset''"
| "policy_dimension_str Dim_merge_train = ''merge_train''"
| "policy_dimension_str Dim_authorization = ''authorization''"
| "policy_dimension_str Dim_admission_algorithm = ''admission_algorithm''"

record policy_fingerprint =
  fp_dimension :: policy_dimension
  fp_expected_sha256 :: string
  fp_current_sha256 :: "string option"

definition validate_policy_fingerprint :: "policy_fingerprint \<Rightarrow> policy_fingerprint res" where
  "validate_policy_fingerprint f =
     andThen (normalize_sha256 (fp_expected_sha256 f) ''expected_sha256'') (\<lambda>expected.
     andThen (case fp_current_sha256 f of None \<Rightarrow> Inr None
              | Some c \<Rightarrow> andThen (normalize_sha256 c ''current_sha256'') (\<lambda>c. Inr (Some c))) (\<lambda>current.
     Inr (f\<lparr>fp_expected_sha256 := expected, fp_current_sha256 := current\<rparr>)))"

record policy_fingerprints =
  pf_impact :: "policy_fingerprint option"
  pf_technical_checks :: policy_fingerprint
  pf_engineering_review :: policy_fingerprint
  pf_ruleset :: policy_fingerprint
  pf_merge_train :: policy_fingerprint
  pf_authorization :: policy_fingerprint
  pf_admission_algorithm :: policy_fingerprint

text \<open>The order of \<open>MERGE_READINESS_POLICY_DIMENSIONS\<close>.\<close>

definition policy_dimensions :: "policy_dimension list" where
  "policy_dimensions = [Dim_technical_checks, Dim_engineering_review, Dim_ruleset, Dim_merge_train,
     Dim_authorization, Dim_admission_algorithm]"

definition ordered_fingerprints :: "policy_fingerprints \<Rightarrow> policy_fingerprint list" where
  "ordered_fingerprints fs = [pf_technical_checks fs, pf_engineering_review fs, pf_ruleset fs,
     pf_merge_train fs, pf_authorization fs, pf_admission_algorithm fs]"

definition validate_policy_fingerprints :: "policy_fingerprints \<Rightarrow> policy_fingerprints res" where
  "validate_policy_fingerprints fs =
     andThen (ensure (case pf_impact fs of None \<Rightarrow> True | Some f \<Rightarrow> fp_dimension f = Dim_impact)
       (ValueError ''impact policy fingerprint uses the wrong dimension'')) (\<lambda>_.
     andThen (mapM (\<lambda>(d, f). ensure (fp_dimension f = d)
         (ValueError (policy_dimension_str d @ '' policy fingerprint uses the wrong dimension'')))
       (zip policy_dimensions (ordered_fingerprints fs))) (\<lambda>_.
     Inr fs))"

record candidate_evidence =
  cve_structural_status :: structural_status
  cve_record_id :: string
  cve_repository :: string
  cve_base_sha :: string
  cve_candidate_sha :: string
  cve_pull_request_number_of :: "nat option"
  cve_queue_position :: "nat option"
  cve_pull_request_head_sha :: string

definition validate_candidate_evidence :: "candidate_evidence \<Rightarrow> candidate_evidence res" where
  "validate_candidate_evidence e =
     andThen (optional_repository (cve_repository e)) (\<lambda>repo.
     andThen (normalize_optional_git_sha (cve_base_sha e) ''base_sha'') (\<lambda>base.
     andThen (normalize_optional_git_sha (cve_candidate_sha e) ''candidate_sha'') (\<lambda>candidate.
     andThen (normalize_optional_git_sha (cve_pull_request_head_sha e) ''pull_request_head_sha'') (\<lambda>head.
     Inr (e\<lparr>cve_record_id := py_strip (cve_record_id e), cve_repository := repo, cve_base_sha := base,
            cve_candidate_sha := candidate, cve_pull_request_head_sha := head\<rparr>)))))"

record fence_evidence =
  fe_controller_key :: string
  fe_controller_repository :: string
  fe_controller_base_branch :: string
  fe_controller_status :: string
  fe_expected_lease_owner :: string
  fe_observed_lease_owner :: string
  fe_lease_expires_at :: string
  fe_observed_effect_sha :: string

definition validate_fence_evidence :: "fence_evidence \<Rightarrow> fence_evidence res" where
  "validate_fence_evidence e =
     andThen (optional_repository (fe_controller_repository e)) (\<lambda>repo.
     andThen (required_token (fe_expected_lease_owner e) ''expected_lease_owner'') (\<lambda>owner.
     andThen (normalize_optional_git_sha (fe_observed_effect_sha e) ''observed_effect_sha'') (\<lambda>effect.
     andThen (let expires = py_strip (fe_lease_expires_at e) in
              if truthy expires then normalize_timestamp expires ''lease_expires_at'' else Inr expires) (\<lambda>expires.
     Inr (e\<lparr>fe_controller_key := py_strip (fe_controller_key e), fe_controller_repository := repo,
            fe_controller_base_branch := py_strip (fe_controller_base_branch e),
            fe_controller_status := py_strip (fe_controller_status e),
            fe_expected_lease_owner := owner,
            fe_observed_lease_owner := py_strip (fe_observed_lease_owner e),
            fe_lease_expires_at := expires, fe_observed_effect_sha := effect\<rparr>)))))"

subsection \<open>Facets\<close>

record owner_facet =
  of_product :: string
  of_system :: string
  of_action :: string
  of_environment :: string
  of_owner_status :: string
  of_owner_reason_code :: string
  of_binding_sha256 :: string
  of_event_id :: string
  of_state :: readiness_state
  of_reason_codes :: "string list"

definition optional_sha256 :: "string \<Rightarrow> string \<Rightarrow> string res" where
  "optional_sha256 value field_name =
     (let digest = py_lower (py_strip value) in
      if truthy digest then normalize_sha256 digest field_name else Inr digest)"

definition validate_owner_facet :: "owner_facet \<Rightarrow> owner_facet res" where
  "validate_owner_facet f =
     andThen (required_token (of_product f) ''product'') (\<lambda>product.
     andThen (required_token (of_system f) ''system'') (\<lambda>system.
     andThen (required_token (of_action f) ''action'') (\<lambda>action.
     andThen (required_token (of_environment f) ''environment'') (\<lambda>env.
     andThen (required_token (of_owner_status f) ''owner_status'') (\<lambda>status.
     andThen (required_token (of_owner_reason_code f) ''owner_reason_code'') (\<lambda>code.
     andThen (optional_sha256 (of_binding_sha256 f) ''binding_sha256'') (\<lambda>binding.
     andThen (require_state {Rd_ready, Rd_blocked_owner_evidence, Rd_unknown} ''Owner'' (of_state f)) (\<lambda>_.
     andThen (normalize_reasons (of_reason_codes f)) (\<lambda>reasons.
     Inr (f\<lparr>of_product := product, of_system := system, of_action := action, of_environment := env,
            of_owner_status := status, of_owner_reason_code := code, of_binding_sha256 := binding,
            of_event_id := py_strip (of_event_id f), of_reason_codes := reasons\<rparr>))))))))))"

definition owner_key :: "owner_facet \<Rightarrow> string \<times> string \<times> string \<times> string" where
  "owner_key f = (of_product f, of_system f, of_action f, of_environment f)"

record technical_facet =
  tf_evidence :: technical_evidence
  tf_state :: readiness_state
  tf_reason_codes :: "string list"

text \<open>
  The technical facet repeats the fields of its evidence and their validator; the model keeps the
  evidence as one field.
\<close>

definition validate_technical_facet :: "technical_facet \<Rightarrow> technical_facet res" where
  "validate_technical_facet f =
     andThen (validate_technical_evidence (tf_evidence f)) (\<lambda>e.
     andThen (require_state {Rd_ready, Rd_blocked_checks, Rd_unknown} ''Technical-check'' (tf_state f)) (\<lambda>_.
     andThen (normalize_reasons (tf_reason_codes f)) (\<lambda>reasons.
     Inr (f\<lparr>tf_evidence := e, tf_reason_codes := reasons\<rparr>))))"

record engineering_facet =
  ef_status :: string
  ef_decision_id :: string
  ef_decision_binding_sha256 :: string
  ef_head_sha :: string
  ef_tree_sha :: string
  ef_evidence :: "engineering_reference list"
  ef_state :: readiness_state
  ef_reason_codes :: "string list"

definition validate_engineering_facet :: "engineering_facet \<Rightarrow> engineering_facet res" where
  "validate_engineering_facet f =
     andThen (required_token (ef_status f) ''status'') (\<lambda>status.
     andThen (optional_sha256 (ef_decision_binding_sha256 f) ''decision_binding_sha256'') (\<lambda>binding.
     andThen (normalize_optional_git_sha (ef_head_sha f) ''head_sha'') (\<lambda>head.
     andThen (normalize_optional_git_sha (ef_tree_sha f) ''tree_sha'') (\<lambda>tree.
     andThen (require_state {Rd_ready, Rd_blocked_engineering_review, Rd_unknown}
       ''Engineering-review'' (ef_state f)) (\<lambda>_.
     andThen (normalize_reasons (ef_reason_codes f)) (\<lambda>reasons.
     Inr (f\<lparr>ef_status := status, ef_decision_id := py_strip (ef_decision_id f),
            ef_decision_binding_sha256 := binding, ef_head_sha := head, ef_tree_sha := tree,
            ef_evidence := sort_key er_run_id (ef_evidence f), ef_reason_codes := reasons\<rparr>)))))))"

record policy_facet =
  yf_fingerprints :: policy_fingerprints
  yf_state :: readiness_state
  yf_reason_codes :: "string list"

definition validate_policy_facet :: "policy_facet \<Rightarrow> policy_facet res" where
  "validate_policy_facet f =
     andThen (require_state {Rd_ready, Rd_blocked_policy, Rd_unknown} ''Policy'' (yf_state f)) (\<lambda>_.
     andThen (normalize_reasons (yf_reason_codes f)) (\<lambda>reasons.
     Inr (f\<lparr>yf_reason_codes := reasons\<rparr>)))"

record candidate_facet =
  cf_evidence :: candidate_evidence
  cf_state :: readiness_state
  cf_reason_codes :: "string list"

definition validate_candidate_facet :: "candidate_facet \<Rightarrow> candidate_facet res" where
  "validate_candidate_facet f =
     andThen (require_state {Rd_ready, Rd_blocked_candidate_identity, Rd_unknown} ''Candidate'' (cf_state f)) (\<lambda>_.
     andThen (normalize_reasons (cf_reason_codes f)) (\<lambda>reasons.
     Inr (f\<lparr>cf_reason_codes := reasons\<rparr>)))"

record fence_facet =
  ff_evidence :: fence_evidence
  ff_state :: readiness_state
  ff_reason_codes :: "string list"

definition validate_fence_facet :: "fence_facet \<Rightarrow> fence_facet res" where
  "validate_fence_facet f =
     andThen (require_state {Rd_ready, Rd_blocked_candidate_identity, Rd_unknown} ''Fence'' (ff_state f)) (\<lambda>_.
     andThen (normalize_reasons (ff_reason_codes f)) (\<lambda>reasons.
     Inr (f\<lparr>ff_reason_codes := reasons\<rparr>)))"

subsection \<open>The result\<close>

datatype authority_mode = Authority_required | Authority_advisory

record readiness_result =
  rr_schema_version :: nat
  rr_authorizes :: "string list"
  rr_engineering_review_authority :: authority_mode
  rr_target :: readiness_target
  rr_state :: readiness_state
  rr_reason_codes :: "string list"
  rr_owner_facets :: "owner_facet list"
  rr_technical_checks :: technical_facet
  rr_engineering_review :: engineering_facet
  rr_policy :: policy_facet
  rr_candidate :: candidate_facet
  rr_fence :: fence_facet
  rr_evaluated_at :: string
  rr_readiness_digest :: string

definition json_strs :: "string list \<Rightarrow> json" where
  "json_strs ss = JArr (map JStr ss)"

definition json_opt_nat :: "nat option \<Rightarrow> json" where
  "json_opt_nat o' = (case o' of None \<Rightarrow> JNull | Some n \<Rightarrow> json_nat n)"

definition json_state :: "readiness_state \<Rightarrow> json" where
  "json_state s = JStr (readiness_state_str s)"

fun structural_status_str :: "structural_status \<Rightarrow> string" where
  "structural_status_str St_exact = ''exact''"
| "structural_status_str St_recorded_rolling = ''recorded_rolling''"
| "structural_status_str St_mismatch = ''mismatch''"
| "structural_status_str St_unknown = ''unknown''"

fun technical_status_str :: "technical_status \<Rightarrow> string" where
  "technical_status_str Tc_pass = ''pass''"
| "technical_status_str Tc_pending = ''pending''"
| "technical_status_str Tc_fail = ''fail''"
| "technical_status_str Tc_unknown = ''unknown''"

definition readiness_target_json :: "readiness_target \<Rightarrow> json" where
  "readiness_target_json t = JObj [(''schema_version'', json_nat (rt_schema_version t)),
     (''repository'', JStr (rt_repository t)), (''pull_request_number'', json_nat (rt_pull_request_number t)),
     (''base_branch'', JStr (rt_base_branch t)), (''base_sha'', JStr (rt_base_sha t)),
     (''pull_request_head_sha'', JStr (rt_head_sha t)), (''pull_request_tree_sha'', JStr (rt_tree_sha t)),
     (''expected_effect_sha'', JStr (rt_expected_effect_sha t)),
     (''queue_position'', json_nat (rt_queue_position t))]"

definition owner_facet_json :: "owner_facet \<Rightarrow> json" where
  "owner_facet_json f = JObj [(''product'', JStr (of_product f)), (''system'', JStr (of_system f)),
     (''action'', JStr (of_action f)), (''environment'', JStr (of_environment f)),
     (''owner_status'', JStr (of_owner_status f)), (''owner_reason_code'', JStr (of_owner_reason_code f)),
     (''binding_sha256'', JStr (of_binding_sha256 f)), (''event_id'', JStr (of_event_id f)),
     (''state'', json_state (of_state f)), (''reason_codes'', json_strs (of_reason_codes f))]"

definition observation_json :: "advisory_observation \<Rightarrow> json" where
  "observation_json o' = JObj [(''name'', JStr (ao_name o')), (''state'', JStr (ao_state o')),
     (''app_id'', json_opt_nat (ao_app_id o'))]"

text \<open>The digest of the result leaves the observations out; the dump of an admission keeps them.\<close>

definition technical_facet_json :: "bool \<Rightarrow> technical_facet \<Rightarrow> json" where
  "technical_facet_json observations f = JObj (
     [(''head_sha'', JStr (te_head_sha (tf_evidence f))),
      (''status'', JStr (technical_status_str (te_status (tf_evidence f)))),
      (''required_checks'', json_strs (te_required_checks (tf_evidence f)))]
     @ (if observations then [(''advisory_observations'',
          JArr (map observation_json (te_advisory_observations (tf_evidence f))))] else [])
     @ [(''state'', json_state (tf_state f)), (''reason_codes'', json_strs (tf_reason_codes f))])"

definition engineering_reference_json :: "engineering_reference \<Rightarrow> json" where
  "engineering_reference_json r = JObj [(''run_id'', JStr (er_run_id r)),
     (''head_sha'', JStr (er_head_sha r)), (''tree_sha'', JStr (er_tree_sha r)),
     (''evidence_digest'', JStr (er_evidence_digest r))]"

definition engineering_facet_json :: "engineering_facet \<Rightarrow> json" where
  "engineering_facet_json f = JObj [(''status'', JStr (ef_status f)),
     (''decision_id'', JStr (ef_decision_id f)),
     (''decision_binding_sha256'', JStr (ef_decision_binding_sha256 f)),
     (''head_sha'', JStr (ef_head_sha f)), (''tree_sha'', JStr (ef_tree_sha f)),
     (''evidence'', JArr (map engineering_reference_json (ef_evidence f))),
     (''state'', json_state (ef_state f)), (''reason_codes'', json_strs (ef_reason_codes f))]"

definition policy_fingerprint_json :: "policy_fingerprint \<Rightarrow> json" where
  "policy_fingerprint_json f = JObj [(''dimension'', JStr (policy_dimension_str (fp_dimension f))),
     (''expected_sha256'', JStr (fp_expected_sha256 f)),
     (''current_sha256'', case fp_current_sha256 f of None \<Rightarrow> JNull | Some c \<Rightarrow> JStr c)]"

definition policy_facet_json :: "policy_facet \<Rightarrow> json" where
  "policy_facet_json f = JObj [
     (''fingerprints'', JObj ((''impact'', case pf_impact (yf_fingerprints f) of
          None \<Rightarrow> JNull | Some i \<Rightarrow> policy_fingerprint_json i)
        # zip (map policy_dimension_str policy_dimensions)
              (map policy_fingerprint_json (ordered_fingerprints (yf_fingerprints f))))),
     (''state'', json_state (yf_state f)), (''reason_codes'', json_strs (yf_reason_codes f))]"

definition candidate_evidence_json :: "candidate_evidence \<Rightarrow> json" where
  "candidate_evidence_json e = JObj [
     (''structural_status'', JStr (structural_status_str (cve_structural_status e))),
     (''record_id'', JStr (cve_record_id e)), (''repository'', JStr (cve_repository e)),
     (''base_sha'', JStr (cve_base_sha e)), (''candidate_sha'', JStr (cve_candidate_sha e)),
     (''pull_request_number'', json_opt_nat (cve_pull_request_number_of e)),
     (''queue_position'', json_opt_nat (cve_queue_position e)),
     (''pull_request_head_sha'', JStr (cve_pull_request_head_sha e))]"

definition candidate_facet_json :: "candidate_facet \<Rightarrow> json" where
  "candidate_facet_json f = JObj [(''evidence'', candidate_evidence_json (cf_evidence f)),
     (''state'', json_state (cf_state f)), (''reason_codes'', json_strs (cf_reason_codes f))]"

definition fence_evidence_json :: "fence_evidence \<Rightarrow> json" where
  "fence_evidence_json e = JObj [(''controller_key'', JStr (fe_controller_key e)),
     (''controller_repository'', JStr (fe_controller_repository e)),
     (''controller_base_branch'', JStr (fe_controller_base_branch e)),
     (''controller_status'', JStr (fe_controller_status e)),
     (''expected_lease_owner'', JStr (fe_expected_lease_owner e)),
     (''observed_lease_owner'', JStr (fe_observed_lease_owner e)),
     (''lease_expires_at'', JStr (fe_lease_expires_at e)),
     (''observed_effect_sha'', JStr (fe_observed_effect_sha e))]"

definition fence_facet_json :: "fence_facet \<Rightarrow> json" where
  "fence_facet_json f = JObj [(''evidence'', fence_evidence_json (ff_evidence f)),
     (''state'', json_state (ff_state f)), (''reason_codes'', json_strs (ff_reason_codes f))]"

definition authority_item :: "readiness_result \<Rightarrow> json_object" where
  "authority_item r = (case rr_engineering_review_authority r of Authority_required \<Rightarrow> []
     | Authority_advisory \<Rightarrow> [(''engineering_review_authority'', JStr ''advisory'')])"

definition readiness_items :: "bool \<Rightarrow> readiness_result \<Rightarrow> json_object" where
  "readiness_items observations r = [
     (''schema_version'', json_nat (rr_schema_version r)), (''mode'', JStr ''ephemeral''),
     (''authoritative'', JBool False), (''authorizes'', json_strs (rr_authorizes r)),
     (''target'', readiness_target_json (rr_target r)), (''state'', json_state (rr_state r)),
     (''reason_codes'', json_strs (rr_reason_codes r)),
     (''owner_facets'', JArr (map owner_facet_json (rr_owner_facets r))),
     (''technical_checks'', technical_facet_json observations (rr_technical_checks r)),
     (''engineering_review'', engineering_facet_json (rr_engineering_review r)),
     (''policy'', policy_facet_json (rr_policy r)), (''candidate'', candidate_facet_json (rr_candidate r)),
     (''fence'', fence_facet_json (rr_fence r))] @ authority_item r"

definition readiness_digest :: "readiness_result \<Rightarrow> string" where
  "readiness_digest r = compact_sorted_json_sha256 (JObj (readiness_items False r))"

definition facet_reasons :: "readiness_result \<Rightarrow> string list" where
  "facet_reasons r = concat (map of_reason_codes (rr_owner_facets r))
     @ tf_reason_codes (rr_technical_checks r) @ ef_reason_codes (rr_engineering_review r)
     @ yf_reason_codes (rr_policy r) @ cf_reason_codes (rr_candidate r) @ ff_reason_codes (rr_fence r)"

definition facet_states :: "readiness_result \<Rightarrow> readiness_state list" where
  "facet_states r = map of_state (rr_owner_facets r) @ [tf_state (rr_technical_checks r)]
     @ (case rr_engineering_review_authority r of Authority_advisory \<Rightarrow> []
        | Authority_required \<Rightarrow> [ef_state (rr_engineering_review r)])
     @ [yf_state (rr_policy r), cf_state (rr_candidate r), ff_state (rr_fence r)]"

definition check_readiness_digest :: "string \<Rightarrow> string \<Rightarrow> unit res" where
  "check_readiness_digest recorded expected =
     (if truthy recorded then
        andThen (normalize_sha256 recorded ''readiness_digest'') (\<lambda>d.
        ensure (d = expected) (ValueError ''Merge readiness digest does not match the deterministic payload''))
      else Inr ())"

definition validate_readiness_result :: "readiness_result \<Rightarrow> readiness_result res" where
  "validate_readiness_result r =
     andThen (ensure (rr_schema_version r = 1)
       (ValueError ''Unsupported merge readiness result schema version.'')) (\<lambda>_.
     andThen (ensure (rr_authorizes r = [])
       (ValueError ''Ephemeral merge readiness never authorizes an effect'')) (\<lambda>_.
     let owners = sort_key owner_key (rr_owner_facets r) in
     andThen (ensure (distinct (map owner_key owners))
       (ValueError ''Merge readiness Owner product facets must be unique'')) (\<lambda>_.
     let r = r\<lparr>rr_owner_facets := owners\<rparr> in
     andThen (normalize_reasons (rr_reason_codes r)) (\<lambda>reasons.
     andThen (ensure (reasons = sorted_set (facet_reasons r))
       (ValueError ''Merge readiness reason codes must retain every facet reason'')) (\<lambda>_.
     andThen (readiness_worst_state (facet_states r)) (\<lambda>expected.
     andThen (ensure (rr_state r = expected)
       (ValueError ''Merge readiness state does not match deterministic aggregation'')) (\<lambda>_.
     andThen (ensure (\<not> (rr_state r = Rd_ready \<and> list_ex (\<lambda>s. s \<noteq> Rd_ready) (facet_states r)))
       (ValueError ''Unknown or blocked merge readiness facets can never be ready'')) (\<lambda>_.
     andThen (normalize_timestamp (rr_evaluated_at r) ''evaluated_at'') (\<lambda>evaluated.
     let r = r\<lparr>rr_reason_codes := reasons, rr_evaluated_at := evaluated\<rparr> in
     andThen (check_readiness_digest (rr_readiness_digest r) (readiness_digest r)) (\<lambda>_.
     Inr (r\<lparr>rr_readiness_digest := readiness_digest r\<rparr>)))))))))))"

end
