(* ===== verification/Mt_Readiness_Evaluation.thy ===== *)
theory Mt_Readiness_Evaluation
  imports Mt_Readiness Mt_Batch Mt_Controller_State
begin

section \<open>Evaluation of merge readiness\<close>

text \<open>
  \<open>control_plane/merge_readiness.py\<close> and \<open>control_plane/github_required_checks.py\<close>: one facet builder
  per kind of evidence, the evaluator that composes them and the adapters that turn stored records
  and provider signals into evidence. Of the engineering decision, its runs and the tenant admission
  checks the model has the fields the adapters read.
\<close>

subsection \<open>Required checks\<close>

datatype check_state = Ck_pass | Ck_pending | Ck_fail | Ck_unavailable

datatype check_source = Commit_status | Check_run

record check_requirement =
  cr_name :: string
  cr_app_id :: "nat option"

record check_signal =
  sg_source :: check_source
  sg_name :: string
  sg_app_id :: "nat option"
  sg_state :: check_state

record check_verdict =
  cv_status :: check_state
  cv_missing :: "string list"
  cv_blocking :: "(check_requirement \<times> check_state) list"

definition matches_required_check :: "check_requirement \<Rightarrow> string \<Rightarrow> nat option \<Rightarrow> bool" where
  "matches_required_check r name app \<longleftrightarrow>
     py_casefold name = py_casefold (cr_name r) \<and> (cr_app_id r = None \<or> app = cr_app_id r)"

definition signals_of :: "check_requirement \<Rightarrow> check_signal list \<Rightarrow> check_signal list" where
  "signals_of r signals = filter (\<lambda>s. matches_required_check r (sg_name s) (sg_app_id s)) signals"

definition check_identity :: "check_requirement \<Rightarrow> string" where
  "check_identity r = (case cr_app_id r of None \<Rightarrow> cr_name r
     | Some i \<Rightarrow> cr_name r @ '' (app_id='' @ str_nat i @ '')'')"

text \<open>The states one requirement adds to the verdict.\<close>

definition requirement_states ::
  "check_signal list \<Rightarrow> check_signal list option \<Rightarrow> check_requirement \<Rightarrow> check_state list" where
  "requirement_states signals successful r =
     (let states = map sg_state (signals_of r signals) in
      if states = [] then [Ck_pending]
      else if list_all (\<lambda>s. s = Ck_pass) states
              \<and> (case successful of None \<Rightarrow> False | Some ss \<Rightarrow> signals_of r ss = [])
      then states @ [Ck_unavailable] else states)"

definition first_blocking :: "check_state list \<Rightarrow> check_state option" where
  "first_blocking states = find (\<lambda>s. s \<in> set states) [Ck_fail, Ck_pending, Ck_unavailable]"

definition evaluate_required_checks ::
  "check_requirement list \<Rightarrow> check_signal list \<Rightarrow> check_signal list option \<Rightarrow> check_verdict" where
  "evaluate_required_checks requirements signals successful =
     (if requirements = [] then \<lparr>cv_status = Ck_unavailable, cv_missing = [], cv_blocking = []\<rparr>
      else (let states = requirement_states signals successful in
        case first_blocking (concat (map states requirements)) of
          None \<Rightarrow> \<lparr>cv_status = Ck_pass, cv_missing = [], cv_blocking = []\<rparr>
        | Some s \<Rightarrow> \<lparr>cv_status = s,
            cv_missing = map check_identity (filter (\<lambda>r. signals_of r signals = []) requirements),
            cv_blocking = concat (map (\<lambda>r. case first_blocking (states r) of None \<Rightarrow> []
              | Some b \<Rightarrow> [(r, b)]) requirements)\<rparr>))"

definition commit_status_state :: "string \<Rightarrow> check_state" where
  "commit_status_state value = (let normalized = py_lower (py_strip value) in
     if normalized = ''success'' then Ck_pass
     else if normalized \<in> {''failure'', ''error''} then Ck_fail
     else if normalized = ''pending'' then Ck_pending else Ck_unavailable)"

subsection \<open>Aggregation of a facet\<close>

text \<open>Each builder collects pairs of a state and a reason.\<close>

type_synonym findings = "(readiness_state \<times> string) list"

definition finding_if :: "bool \<Rightarrow> readiness_state \<Rightarrow> string \<Rightarrow> findings" where
  "finding_if c s reason = (if c then [(s, reason)] else [])"

subsection \<open>Facets\<close>

fun technical_status_finding :: "technical_status \<Rightarrow> readiness_state \<times> string" where
  "technical_status_finding Tc_pass = (Rd_ready, ''checks_passed'')"
| "technical_status_finding Tc_pending = (Rd_blocked_checks, ''checks_pending'')"
| "technical_status_finding Tc_fail = (Rd_blocked_checks, ''checks_failed'')"
| "technical_status_finding Tc_unknown = (Rd_unknown, ''checks_unknown'')"

definition reuse_matches :: "readiness_target \<Rightarrow> technical_evidence \<Rightarrow> head_check_reuse option \<Rightarrow> bool" where
  "reuse_matches t e reuse \<longleftrightarrow> (case reuse of None \<Rightarrow> False
     | Some u \<Rightarrow>
       (hr_pull_request_number u, hr_head_sha u, hr_tree_sha u, hr_base_sha u, hr_candidate_sha u)
         = (rt_pull_request_number t, te_head_sha e, rt_tree_sha t, rt_base_sha t, rt_expected_effect_sha t)
       \<and> te_head_sha e = rt_head_sha t)"

definition technical_findings :: "readiness_target \<Rightarrow> technical_evidence \<Rightarrow> head_check_reuse option \<Rightarrow> findings" where
  "technical_findings t e reuse =
     technical_status_finding (te_status e)
     # finding_if (te_head_sha e \<noteq> rt_expected_effect_sha t \<and> \<not> reuse_matches t e reuse)
         Rd_blocked_checks ''checks_head_mismatch''"

definition technical_checks_facet ::
  "readiness_target \<Rightarrow> technical_evidence \<Rightarrow> head_check_reuse option \<Rightarrow> technical_facet res" where
  "technical_checks_facet t e reuse =
     (let found = technical_findings t e reuse in
      andThen (readiness_worst_state (map fst found)) (\<lambda>s.
      validate_technical_facet \<lparr>tf_evidence = e, tf_state = s, tf_reason_codes = map snd found\<rparr>))"

datatype review_status = Rv_approved | Rv_changes_requested | Rv_blocked | Rv_pending | Rv_unknown | Rv_stale

fun review_status_str :: "review_status \<Rightarrow> string" where
  "review_status_str Rv_approved = ''approved''"
| "review_status_str Rv_changes_requested = ''changes_requested''"
| "review_status_str Rv_blocked = ''blocked''"
| "review_status_str Rv_pending = ''pending''"
| "review_status_str Rv_unknown = ''unknown''"
| "review_status_str Rv_stale = ''stale''"

record review_decision =
  rd_decision_id :: string
  rd_decision_binding_sha256 :: string
  rd_status :: review_status
  rd_head_sha :: string
  rd_tree_sha :: string
  rd_qualifying_run_ids :: "string list"

fun review_status_finding :: "review_status \<Rightarrow> readiness_state \<times> string" where
  "review_status_finding Rv_approved = (Rd_ready, ''engineering_review_approved'')"
| "review_status_finding Rv_pending = (Rd_blocked_engineering_review, ''engineering_review_pending'')"
| "review_status_finding Rv_changes_requested =
     (Rd_blocked_engineering_review, ''engineering_review_changes_requested'')"
| "review_status_finding Rv_blocked = (Rd_blocked_engineering_review, ''engineering_review_blocked'')"
| "review_status_finding Rv_stale = (Rd_blocked_engineering_review, ''engineering_review_stale'')"
| "review_status_finding Rv_unknown = (Rd_unknown, ''engineering_review_unknown'')"

text \<open>A run id that occurs twice keeps its last reference, as in the dictionary of the source.\<close>

definition qualifying_evidence :: "review_decision \<Rightarrow> engineering_reference list \<Rightarrow> engineering_reference list" where
  "qualifying_evidence d evidence =
     (let by_id = map_of (rev (map (\<lambda>r. (er_run_id r, r)) evidence)) in
      List.map_filter by_id (rd_qualifying_run_ids d))"

definition review_findings :: "readiness_target \<Rightarrow> review_decision \<Rightarrow> engineering_reference list \<Rightarrow> findings" where
  "review_findings t d evidence =
     (let qualifying = qualifying_evidence d evidence in
      review_status_finding (rd_status d)
      # finding_if (rd_head_sha d \<noteq> rt_head_sha t)
          Rd_blocked_engineering_review ''engineering_review_head_mismatch''
      @ finding_if (rd_tree_sha d \<noteq> rt_tree_sha t)
          Rd_blocked_engineering_review ''engineering_review_tree_mismatch''
      @ finding_if (rd_status d = Rv_approved
            \<and> (length qualifying \<noteq> length (rd_qualifying_run_ids d)
               \<or> \<not> list_all (\<lambda>r. er_head_sha r = rt_head_sha t \<and> er_tree_sha r = rt_tree_sha t) qualifying))
          Rd_unknown ''engineering_review_evidence_missing'')"

definition engineering_review_facet ::
  "readiness_target \<Rightarrow> review_decision option \<Rightarrow> engineering_reference list \<Rightarrow> engineering_facet res" where
  "engineering_review_facet t decision evidence = (case decision of
       None \<Rightarrow> validate_engineering_facet \<lparr>ef_status = ''unknown'', ef_decision_id = '''',
         ef_decision_binding_sha256 = '''', ef_head_sha = '''', ef_tree_sha = '''', ef_evidence = [],
         ef_state = Rd_unknown,
         ef_reason_codes = [''engineering_review_unknown'', ''engineering_review_evidence_missing'']\<rparr>
     | Some d \<Rightarrow> (let found = review_findings t d evidence in
         andThen (readiness_worst_state (map fst found)) (\<lambda>s.
         validate_engineering_facet \<lparr>ef_status = review_status_str (rd_status d),
           ef_decision_id = rd_decision_id d,
           ef_decision_binding_sha256 = rd_decision_binding_sha256 d, ef_head_sha = rd_head_sha d,
           ef_tree_sha = rd_tree_sha d, ef_evidence = qualifying_evidence d evidence,
           ef_state = s, ef_reason_codes = map snd found\<rparr>)))"

text \<open>\<open>_POLICY_REASON_CODES\<close> has no entry for the \<open>impact\<close> dimension, so looking it up is a \<open>KeyError\<close>.\<close>

definition policy_reason :: "policy_dimension \<Rightarrow> string \<Rightarrow> string res" where
  "policy_reason d ending =
     (if d = Dim_impact then Inl (KeyError ''impact'')
      else Inr (''policy_'' @ policy_dimension_str d @ ending))"

definition fingerprint_reason :: "policy_fingerprint \<Rightarrow> (policy_dimension \<times> string) list res" where
  "fingerprint_reason f =
     andThen (policy_reason (fp_dimension f) ''_missing'') (\<lambda>missing.
     andThen (policy_reason (fp_dimension f) ''_drift'') (\<lambda>drift.
     Inr (case fp_current_sha256 f of
         None \<Rightarrow> [(fp_dimension f, missing)]
       | Some current \<Rightarrow> if current \<noteq> fp_expected_sha256 f then [(fp_dimension f, drift)] else [])))"

definition policy_facet_of :: "policy_fingerprints \<Rightarrow> policy_dimension list \<Rightarrow> policy_facet res" where
  "policy_facet_of fs advisory =
     andThen (mapM fingerprint_reason (ordered_fingerprints fs)) (\<lambda>found.
     let reasons = concat found; blocking = filter (\<lambda>(d, _). d \<notin> set advisory) reasons in
     validate_policy_facet \<lparr>yf_fingerprints = fs,
       yf_state = (if blocking = [] then Rd_ready else Rd_blocked_policy),
       yf_reason_codes = (if reasons = [] then [''policy_fingerprints_match''] else map snd reasons)\<rparr>)"

fun candidate_status_finding :: "structural_status \<Rightarrow> readiness_state \<times> string" where
  "candidate_status_finding St_exact = (Rd_ready, ''candidate_exact'')"
| "candidate_status_finding St_recorded_rolling = (Rd_ready, ''candidate_recorded_rolling'')"
| "candidate_status_finding St_mismatch = (Rd_blocked_candidate_identity, ''candidate_identity_mismatch'')"
| "candidate_status_finding St_unknown = (Rd_unknown, ''candidate_identity_unknown'')"

definition candidate_findings :: "readiness_target \<Rightarrow> candidate_evidence \<Rightarrow> findings" where
  "candidate_findings t e =
     candidate_status_finding (cve_structural_status e)
     # (if cve_record_id e = '''' then [(Rd_unknown, ''candidate_identity_unknown'')]
        else finding_if (cve_repository e \<noteq> rt_repository t \<or> cve_candidate_sha e \<noteq> rt_expected_effect_sha t)
               Rd_blocked_candidate_identity ''candidate_identity_mismatch''
             @ finding_if (cve_pull_request_number_of e \<noteq> Some (rt_pull_request_number t)
                   \<or> cve_queue_position e \<noteq> Some (rt_queue_position t))
               Rd_blocked_candidate_identity ''candidate_queue_mismatch''
             @ finding_if (cve_pull_request_head_sha e \<noteq> rt_head_sha t)
               Rd_blocked_candidate_identity ''candidate_head_mismatch''
             @ finding_if (cve_structural_status e = St_exact \<and> cve_base_sha e \<noteq> rt_base_sha t)
               Rd_blocked_candidate_identity ''candidate_base_mismatch'')"

definition candidate_facet_of :: "readiness_target \<Rightarrow> candidate_evidence \<Rightarrow> candidate_facet res" where
  "candidate_facet_of t e =
     (let found = candidate_findings t e in
      andThen (readiness_worst_state (map fst found)) (\<lambda>s.
      validate_candidate_facet \<lparr>cf_evidence = e, cf_state = s, cf_reason_codes = map snd found\<rparr>))"

definition parse_instant :: "string \<Rightarrow> nat res" where
  "parse_instant value = (case read_zoned (py_strip value) of
       None \<Rightarrow> Inl (ValueError ''Invalid isoformat string'')
     | Some Naive \<Rightarrow> Inl (ValueError ''Merge readiness timestamps require timezone'')
     | Some (Aware us) \<Rightarrow> if 0 \<le> us \<and> us \<le> last_micros then Inr (nat us)
         else Inl (OverflowError ''date value out of range''))"

definition lease_finding :: "fence_evidence \<Rightarrow> string \<Rightarrow> (readiness_state \<times> string) res" where
  "lease_finding e evaluated_at =
     (if fe_controller_status e \<noteq> ''running'' \<or> fe_observed_lease_owner e = ''''
      then Inr (Rd_blocked_candidate_identity, ''controller_lease_missing'')
      else if fe_observed_lease_owner e \<noteq> fe_expected_lease_owner e
      then Inr (Rd_blocked_candidate_identity, ''controller_lease_lost'')
      else if fe_lease_expires_at e = ''''
      then Inr (Rd_blocked_candidate_identity, ''controller_lease_missing'')
      else andThen (parse_instant (fe_lease_expires_at e)) (\<lambda>expires.
           andThen (parse_instant evaluated_at) (\<lambda>now.
           if expires \<le> now then Inr (Rd_blocked_candidate_identity, ''controller_lease_expired'')
           else Inr (Rd_ready, ''controller_lease_held''))))"

definition fence_findings :: "readiness_target \<Rightarrow> fence_evidence \<Rightarrow> string \<Rightarrow> findings res" where
  "fence_findings t e evaluated_at =
     andThen (lease_finding e evaluated_at) (\<lambda>lease.
     Inr (finding_if (truthy (fe_controller_repository e)
            \<and> (fe_controller_repository e \<noteq> rt_repository t
               \<or> fe_controller_base_branch e \<noteq> rt_base_branch t))
            Rd_blocked_candidate_identity ''controller_scope_mismatch''
          @ [lease,
             if fe_observed_effect_sha e \<noteq> rt_expected_effect_sha t
             then (Rd_blocked_candidate_identity, ''expected_sha_mismatch'')
             else (Rd_ready, ''expected_sha_match'')]))"

definition fence_facet_of :: "readiness_target \<Rightarrow> fence_evidence \<Rightarrow> string \<Rightarrow> fence_facet res" where
  "fence_facet_of t e evaluated_at =
     andThen (fence_findings t e evaluated_at) (\<lambda>found.
     andThen (readiness_worst_state (map fst found)) (\<lambda>s.
     validate_fence_facet \<lparr>ff_evidence = e, ff_state = s, ff_reason_codes = map snd found\<rparr>))"

subsection \<open>The evaluator\<close>

definition evaluate_merge_readiness ::
  "readiness_target \<Rightarrow> technical_evidence \<Rightarrow> review_decision option \<Rightarrow> engineering_reference list
   \<Rightarrow> policy_fingerprints \<Rightarrow> candidate_evidence \<Rightarrow> fence_evidence \<Rightarrow> string \<Rightarrow> head_check_reuse option
   \<Rightarrow> readiness_result res" where
  "evaluate_merge_readiness t checks decision evidence fingerprints candidate fence evaluated_at reuse =
     andThen (technical_checks_facet t checks reuse) (\<lambda>technical.
     andThen (engineering_review_facet t decision evidence) (\<lambda>engineering.
     andThen (policy_facet_of fingerprints [Dim_engineering_review]) (\<lambda>policy.
     andThen (candidate_facet_of t candidate) (\<lambda>cand.
     andThen (fence_facet_of t fence evaluated_at) (\<lambda>fenced.
     andThen (readiness_worst_state [tf_state technical, yf_state policy, cf_state cand, ff_state fenced]) (\<lambda>s.
     validate_readiness_result
       \<lparr>rr_schema_version = 1, rr_authorizes = [], rr_engineering_review_authority = Authority_advisory,
        rr_target = t, rr_state = s,
        rr_reason_codes = sorted_set (tf_reason_codes technical @ ef_reason_codes engineering
          @ yf_reason_codes policy @ cf_reason_codes cand @ ff_reason_codes fenced),
        rr_owner_facets = [], rr_technical_checks = technical, rr_engineering_review = engineering,
        rr_policy = policy, rr_candidate = cand, rr_fence = fenced,
        rr_evaluated_at = evaluated_at, rr_readiness_digest = ''''\<rparr>))))))"

subsection \<open>Evidence from stored records and provider signals\<close>

record review_run =
  run_id :: string
  run_completed :: bool
  run_head_sha :: string
  run_tree_sha :: string
  run_evidence_digest :: string

definition engineering_evidence_of ::
  "review_decision option \<Rightarrow> review_run list \<Rightarrow> engineering_reference list res" where
  "engineering_evidence_of decision runs = (case decision of
       None \<Rightarrow> Inr []
     | Some d \<Rightarrow>
       andThen (mapM (\<lambda>r. validate_engineering_reference \<lparr>er_run_id = run_id r,
           er_head_sha = run_head_sha r, er_tree_sha = run_tree_sha r,
           er_evidence_digest = run_evidence_digest r\<rparr>)
         (filter (\<lambda>r. run_id r \<in> set (rd_qualifying_run_ids d) \<and> run_completed r
            \<and> truthy (run_evidence_digest r)) runs)) (\<lambda>refs.
       Inr (sort_key er_run_id refs)))"

record admission_checks =
  ac_head_sha :: string
  ac_strict :: bool
  ac_base_up_to_date :: "bool option"
  ac_required_checks :: "check_requirement list"
  ac_signals :: "check_signal list"

definition required_check_identity :: "check_requirement \<Rightarrow> string" where
  "required_check_identity r = (case cr_app_id r of None \<Rightarrow> cr_name r
     | Some i \<Rightarrow> cr_name r @ ''@app:'' @ str_nat i)"

fun technical_status_of :: "check_state \<Rightarrow> technical_status" where
  "technical_status_of Ck_pass = Tc_pass"
| "technical_status_of Ck_pending = Tc_pending"
| "technical_status_of Ck_fail = Tc_fail"
| "technical_status_of Ck_unavailable = Tc_unknown"

definition required_technical_check_state ::
  "check_requirement list \<Rightarrow> check_signal list \<Rightarrow> bool \<Rightarrow> bool \<Rightarrow> technical_status" where
  "required_technical_check_state required signals strict base_up_to_date =
     (if required = [] then Tc_unknown
      else if strict \<and> \<not> base_up_to_date then Tc_fail
      else technical_status_of (cv_status (evaluate_required_checks required signals None)))"

fun check_state_str :: "check_state \<Rightarrow> string" where
  "check_state_str Ck_pass = ''pass''"
| "check_state_str Ck_pending = ''pending''"
| "check_state_str Ck_fail = ''fail''"
| "check_state_str Ck_unavailable = ''unavailable''"

definition technical_check_evidence ::
  "readiness_target \<Rightarrow> admission_checks option \<Rightarrow> structural_status \<Rightarrow> technical_evidence res" where
  "technical_check_evidence t checks structural = (case checks of
       None \<Rightarrow> validate_technical_evidence \<lparr>te_head_sha = rt_expected_effect_sha t,
         te_status = Tc_unknown, te_required_checks = [], te_advisory_observations = []\<rparr>
     | Some c \<Rightarrow>
       (let required = filter (\<lambda>r. \<not> is_projected_check (cr_name r)) (ac_required_checks c);
            signals = filter (\<lambda>s. \<not> is_projected_check (sg_name s)) (ac_signals c);
            projected = filter (\<lambda>s. is_projected_check (sg_name s)) (ac_signals c) in
        andThen (mapM (\<lambda>s. validate_advisory_observation \<lparr>ao_name = sg_name s,
            ao_state = check_state_str (sg_state s), ao_app_id = sg_app_id s\<rparr>) projected) (\<lambda>os.
        validate_technical_evidence \<lparr>te_head_sha = ac_head_sha c,
          te_status = required_technical_check_state required signals (ac_strict c)
            (ac_base_up_to_date c = Some True \<or> structural = St_recorded_rolling),
          te_required_checks = map required_check_identity required,
          te_advisory_observations = os\<rparr>)))"

definition candidate_evidence_of ::
  "readiness_target \<Rightarrow> candidate_record option \<Rightarrow> structural_status \<Rightarrow> candidate_evidence res" where
  "candidate_evidence_of t stored structural = validate_candidate_evidence (case stored of
       None \<Rightarrow> \<lparr>cve_structural_status = structural, cve_record_id = '''', cve_repository = '''',
         cve_base_sha = '''', cve_candidate_sha = '''', cve_pull_request_number_of = None,
         cve_queue_position = None, cve_pull_request_head_sha = ''''\<rparr>
     | Some r \<Rightarrow> (let c = cn_candidate r;
           entry = find (\<lambda>e. be_pull_request_number e = rt_pull_request_number t) (ba_entries c) in
         \<lparr>cve_structural_status = structural, cve_record_id = cn_record_id r,
          cve_repository = ba_repository c, cve_base_sha = ba_base_sha c,
          cve_candidate_sha = ba_candidate_sha c,
          cve_pull_request_number_of = map_option be_pull_request_number entry,
          cve_queue_position = map_option be_position entry,
          cve_pull_request_head_sha = (case entry of None \<Rightarrow> '''' | Some e \<Rightarrow> be_head_sha e)\<rparr>))"

fun controller_status_text :: "controller_status \<Rightarrow> string" where
  "controller_status_text Cs_idle = ''idle''"
| "controller_status_text Cs_running = ''running''"
| "controller_status_text Cs_reconcile_required = ''reconcile_required''"

definition fence_evidence_of :: "controller_state option \<Rightarrow> string \<Rightarrow> string \<Rightarrow> fence_evidence res" where
  "fence_evidence_of state expected_owner observed_effect = validate_fence_evidence (case state of
       None \<Rightarrow> \<lparr>fe_controller_key = '''', fe_controller_repository = '''',
         fe_controller_base_branch = '''', fe_controller_status = '''',
         fe_expected_lease_owner = expected_owner, fe_observed_lease_owner = '''',
         fe_lease_expires_at = '''', fe_observed_effect_sha = observed_effect\<rparr>
     | Some s \<Rightarrow> \<lparr>fe_controller_key = cs_controller_key s, fe_controller_repository = cs_repository s,
         fe_controller_base_branch = cs_base_branch s,
         fe_controller_status = controller_status_text (cs_status s),
         fe_expected_lease_owner = expected_owner, fe_observed_lease_owner = cs_lease_owner s,
         fe_lease_expires_at = cs_lease_expires_at s, fe_observed_effect_sha = observed_effect\<rparr>)"

definition reusable_head_checks ::
  "readiness_target \<Rightarrow> candidate_record option \<Rightarrow> structural_status \<Rightarrow> head_check_reuse option" where
  "reusable_head_checks t stored structural = (case stored of
       None \<Rightarrow> None
     | Some r \<Rightarrow> if structural \<in> {St_exact, St_recorded_rolling}
           \<and> ba_candidate_sha (cn_candidate r) = rt_expected_effect_sha t
           \<and> ba_candidate_tree_sha (cn_candidate r) = rt_tree_sha t
         then ba_head_check_reuse (cn_candidate r) else None)"

definition evaluate_merge_readiness_from_live_evidence ::
  "readiness_target \<Rightarrow> review_decision option \<Rightarrow> review_run list \<Rightarrow> admission_checks option
   \<Rightarrow> policy_fingerprints \<Rightarrow> candidate_record option \<Rightarrow> structural_status \<Rightarrow> controller_state option
   \<Rightarrow> string \<Rightarrow> string \<Rightarrow> string \<Rightarrow> readiness_result res" where
  "evaluate_merge_readiness_from_live_evidence t decision runs checks fingerprints stored structural
     state expected_owner observed_effect evaluated_at =
     andThen (technical_check_evidence t checks structural) (\<lambda>technical.
     andThen (engineering_evidence_of decision runs) (\<lambda>evidence.
     andThen (candidate_evidence_of t stored structural) (\<lambda>candidate.
     andThen (fence_evidence_of state expected_owner observed_effect) (\<lambda>fence.
     evaluate_merge_readiness t technical decision evidence fingerprints candidate fence evaluated_at
       (reusable_head_checks t stored structural)))))"

end
