(* ===== verification/Mt_Readiness_Properties.thy ===== *)
theory Mt_Readiness_Properties
  imports Mt_Readiness_Evaluation
begin

section \<open>When a merge is ready\<close>

text \<open>
  The state of a facet is the worst of the states it collects, so a facet is ready exactly when
  every one of them is. The lemmas of this theory spell that out per facet; the property composes
  them to the meaning of a ready result. The builders' states pass their validators unchanged.
\<close>

named_theorems facet_ready \<open>a facet is ready exactly when\<close>

subsection \<open>Aggregation\<close>

lemma precedence_le: "state_precedence s \<le> 6"
  by (cases s) auto

lemma precedence_ready: "state_precedence s = 6 \<longleftrightarrow> s = Rd_ready"
  by (cases s) auto

lemma worst_state_ready:
  assumes "readiness_worst_state states = Inr s"
  shows "s = Rd_ready \<longleftrightarrow> (\<forall>x \<in> set states. x = Rd_ready)"
proof -
  have ne: "states \<noteq> []" and s: "s = arg_min_list state_precedence states"
    using assms by (auto simp: readiness_worst_state_def split: if_splits)
  have worst: "state_precedence s = Min (state_precedence ` set states)"
    using f_arg_min_list_f [OF ne, of state_precedence] s by simp
  have "s \<in> set states" using arg_min_list_in [OF ne] s by simp
  moreover have "state_precedence s \<le> state_precedence x" if "x \<in> set states" for x
    using that by (simp add: worst)
  ultimately show ?thesis
    by (metis precedence_le precedence_ready le_antisym)
qed

lemma worst_state_total: "states \<noteq> [] \<Longrightarrow> \<exists>s. readiness_worst_state states = Inr s"
  by (simp add: readiness_worst_state_def)

lemma worst_state_mem: "readiness_worst_state states = Inr s \<Longrightarrow> s \<in> set states"
  by (auto simp: readiness_worst_state_def arg_min_list_in split: if_splits)

lemma worst_state_within: "states \<noteq> [] \<Longrightarrow> set states \<subseteq> A \<Longrightarrow> \<exists>s \<in> A. readiness_worst_state states = Inr s"
  using worst_state_mem worst_state_total by blast

lemma all_ready_finding_if [simp]:
  "(\<forall>f \<in> set (finding_if c s reason). fst f = Rd_ready) \<longleftrightarrow> c \<longrightarrow> s = Rd_ready"
  by (simp add: finding_if_def)

subsection \<open>Facets\<close>

lemma validate_technical_state: "validate_technical_facet f = Inr g \<Longrightarrow> tf_state g = tf_state f"
  by (auto simp: validate_technical_facet_def)

lemma validate_policy_state: "validate_policy_facet f = Inr g \<Longrightarrow> yf_state g = yf_state f"
  by (auto simp: validate_policy_facet_def)

lemma validate_candidate_state: "validate_candidate_facet f = Inr g \<Longrightarrow> cf_state g = cf_state f"
  by (auto simp: validate_candidate_facet_def)

lemma validate_fence_state: "validate_fence_facet f = Inr g \<Longrightarrow> ff_state g = ff_state f"
  by (auto simp: validate_fence_facet_def)

lemma technical_status_ready: "fst (technical_status_finding s) = Rd_ready \<longleftrightarrow> s = Tc_pass"
  by (cases s) auto

lemma candidate_status_ready:
  "fst (candidate_status_finding s) = Rd_ready \<longleftrightarrow> s = St_exact \<or> s = St_recorded_rolling"
  by (cases s) auto

lemma technical_facet_ready [facet_ready]:
  assumes "technical_checks_facet t e reuse = Inr f"
  shows "tf_state f = Rd_ready \<longleftrightarrow> te_status e = Tc_pass
    \<and> (te_head_sha e = rt_expected_effect_sha t \<or> reuse_matches t e reuse)"
proof -
  obtain s where s: "readiness_worst_state (map fst (technical_findings t e reuse)) = Inr s"
      "tf_state f = s"
    using assms by (auto simp: technical_checks_facet_def Let_def dest: validate_technical_state)
  show ?thesis
    using worst_state_ready [OF s(1)] s(2)
    by (auto simp: technical_findings_def technical_status_ready)
qed

definition fingerprint_current :: "policy_fingerprint \<Rightarrow> bool" where
  "fingerprint_current f \<longleftrightarrow> fp_current_sha256 f = Some (fp_expected_sha256 f)"

lemma fingerprint_reason_ok:
  "fingerprint_reason f = Inr rs \<Longrightarrow>
     (rs = [] \<longleftrightarrow> fingerprint_current f) \<and> (\<forall>r \<in> set rs. fst r = fp_dimension f)"
  by (auto simp: fingerprint_reason_def fingerprint_current_def split: option.splits if_splits)

lemma blocking_reasons_none:
  assumes "mapM fingerprint_reason fs = Inr found"
  shows "filter (\<lambda>(d, _). d \<notin> A) (concat found) = []
    \<longleftrightarrow> (\<forall>f \<in> set fs. fp_dimension f \<in> A \<or> fingerprint_current f)"
  using assms
proof (induction fs arbitrary: found)
  case Nil
  then show ?case by simp
next
  case (Cons f fs)
  then obtain rs rest where rs: "fingerprint_reason f = Inr rs" "mapM fingerprint_reason fs = Inr rest"
      "found = rs # rest" by auto
  have "filter (\<lambda>(d, _). d \<notin> A) rs = [] \<longleftrightarrow> fp_dimension f \<in> A \<or> fingerprint_current f"
    using fingerprint_reason_ok [OF rs(1)] by (cases rs) (auto simp: filter_empty_conv)
  with Cons.IH [OF rs(2)] show ?case by (simp add: rs(3))
qed

lemma policy_facet_ready [facet_ready]:
  assumes "policy_facet_of fs advisory = Inr f"
  shows "yf_state f = Rd_ready \<longleftrightarrow>
    (\<forall>p \<in> set (ordered_fingerprints fs). fp_dimension p \<in> set advisory \<or> fingerprint_current p)"
proof -
  obtain found where found: "mapM fingerprint_reason (ordered_fingerprints fs) = Inr found"
      "yf_state f = (if filter (\<lambda>(d, _). d \<notin> set advisory) (concat found) = [] then Rd_ready
         else Rd_blocked_policy)"
    using assms by (auto simp: policy_facet_of_def Let_def dest!: validate_policy_state)
  then show ?thesis by (simp add: blocking_reasons_none)
qed

text \<open>The candidate is the one the target names.\<close>

definition candidate_bound :: "readiness_target \<Rightarrow> candidate_evidence \<Rightarrow> bool" where
  "candidate_bound t e \<longleftrightarrow> cve_structural_status e \<in> {St_exact, St_recorded_rolling}
     \<and> cve_record_id e \<noteq> '''' \<and> cve_repository e = rt_repository t
     \<and> cve_candidate_sha e = rt_expected_effect_sha t
     \<and> cve_pull_request_number_of e = Some (rt_pull_request_number t)
     \<and> cve_queue_position e = Some (rt_queue_position t)
     \<and> cve_pull_request_head_sha e = rt_head_sha t
     \<and> (cve_structural_status e = St_exact \<longrightarrow> cve_base_sha e = rt_base_sha t)"

lemma candidate_facet_ready [facet_ready]:
  assumes "candidate_facet_of t e = Inr f"
  shows "cf_state f = Rd_ready \<longleftrightarrow> candidate_bound t e"
proof -
  obtain s where s: "readiness_worst_state (map fst (candidate_findings t e)) = Inr s" "cf_state f = s"
    using assms by (auto simp: candidate_facet_of_def Let_def dest: validate_candidate_state)
  show ?thesis
    using worst_state_ready [OF s(1)] s(2)
    by (auto simp: candidate_findings_def candidate_bound_def candidate_status_ready ball_Un)
qed

text \<open>The lease is held: running, by the expected owner, for the target's repository and branch,
  expiring strictly after the evaluation, and the effect observed is the one expected.\<close>

definition fence_held :: "readiness_target \<Rightarrow> fence_evidence \<Rightarrow> string \<Rightarrow> bool" where
  "fence_held t e evaluated_at \<longleftrightarrow> fe_controller_status e = ''running''
     \<and> fe_observed_lease_owner e \<noteq> '''' \<and> fe_observed_lease_owner e = fe_expected_lease_owner e
     \<and> (fe_controller_repository e = ''''
        \<or> fe_controller_repository e = rt_repository t
          \<and> fe_controller_base_branch e = rt_base_branch t)
     \<and> fe_lease_expires_at e \<noteq> ''''
     \<and> (case (parse_instant (fe_lease_expires_at e), parse_instant evaluated_at) of
          (Inr expires, Inr now) \<Rightarrow> now < expires | _ \<Rightarrow> False)
     \<and> fe_observed_effect_sha e = rt_expected_effect_sha t"

lemma lease_finding_ready:
  assumes "lease_finding e evaluated_at = Inr f"
  shows "fst f = Rd_ready \<longleftrightarrow> fe_controller_status e = ''running''
     \<and> fe_observed_lease_owner e \<noteq> '''' \<and> fe_observed_lease_owner e = fe_expected_lease_owner e
     \<and> fe_lease_expires_at e \<noteq> ''''
     \<and> (case (parse_instant (fe_lease_expires_at e), parse_instant evaluated_at) of
          (Inr expires, Inr now) \<Rightarrow> now < expires | _ \<Rightarrow> False)"
  using assms by (auto simp: lease_finding_def split: if_splits)

lemma fence_facet_ready [facet_ready]:
  assumes "fence_facet_of t e evaluated_at = Inr f"
  shows "ff_state f = Rd_ready \<longleftrightarrow> fence_held t e evaluated_at"
proof -
  obtain found s where found: "fence_findings t e evaluated_at = Inr found"
      and s: "readiness_worst_state (map fst found) = Inr s" "ff_state f = s"
    using assms by (auto simp: fence_facet_of_def dest: validate_fence_state)
  obtain lease where lease: "lease_finding e evaluated_at = Inr lease"
    using found by (auto simp: fence_findings_def)
  have "(\<forall>x \<in> set (map fst found). x = Rd_ready) \<longleftrightarrow> fst lease = Rd_ready
      \<and> (truthy (fe_controller_repository e) \<longrightarrow> fe_controller_repository e = rt_repository t
           \<and> fe_controller_base_branch e = rt_base_branch t)
      \<and> fe_observed_effect_sha e = rt_expected_effect_sha t"
    using found lease by (auto simp: fence_findings_def finding_if_def split: if_splits)
  then show ?thesis
    using worst_state_ready [OF s(1)] s(2) lease_finding_ready [OF lease]
    by (auto simp: fence_held_def)
qed

subsection \<open>The result\<close>

lemma validate_result_state: "validate_readiness_result r = Inr r' \<Longrightarrow> rr_state r' = rr_state r"
  by (auto simp: validate_readiness_result_def Let_def)

lemma ready_iff_facets:
  assumes "evaluate_merge_readiness t checks decision evidence fingerprints candidate fence evaluated_at reuse
    = Inr r"
  shows "rr_state r = Rd_ready \<longleftrightarrow>
    te_status checks = Tc_pass
    \<and> (te_head_sha checks = rt_expected_effect_sha t \<or> reuse_matches t checks reuse)
    \<and> (\<forall>p \<in> set (ordered_fingerprints fingerprints).
         fp_dimension p = Dim_engineering_review \<or> fingerprint_current p)
    \<and> candidate_bound t candidate \<and> fence_held t fence evaluated_at"
proof -
  obtain technical policy cand fenced s where facets:
      "technical_checks_facet t checks reuse = Inr technical"
      "policy_facet_of fingerprints [Dim_engineering_review] = Inr policy"
      "candidate_facet_of t candidate = Inr cand"
      "fence_facet_of t fence evaluated_at = Inr fenced"
    and s: "readiness_worst_state [tf_state technical, yf_state policy, cf_state cand, ff_state fenced] = Inr s"
      "rr_state r = s"
    using assms by (auto simp: evaluate_merge_readiness_def dest!: validate_result_state)
  show ?thesis
    using worst_state_ready [OF s(1)] s(2) technical_facet_ready [OF facets(1)]
      policy_facet_ready [OF facets(2)] candidate_facet_ready [OF facets(3)]
      fence_facet_ready [OF facets(4)]
    by simp
qed

subsection \<open>When the evaluator returns\<close>

lemma sorted_set_list: "sorted_set xs = sorted_list_of_set (set xs)"
  by (simp add: sorted_set_def sorted_list_of_set_sort_remdups)

lemma set_sorted_set [simp]: "set (sorted_set xs) = set xs"
  by (simp add: sorted_set_list)

lemma sorted_set_idem [simp]: "sorted_set (sorted_set xs) = sorted_set xs"
  by (simp add: sorted_set_list)

lemma sorted_set_eq_Nil [simp]: "sorted_set xs = [] \<longleftrightarrow> xs = []"
  by (simp add: sorted_set_list)

lemma normalize_reasons_Inr: "normalize_reasons rs = Inr rs' \<longleftrightarrow> rs \<noteq> [] \<and> rs' = sorted_set rs"
  by (auto simp: normalize_reasons_def)

lemma normalize_reasons_total: "rs \<noteq> [] \<Longrightarrow> normalize_reasons rs = Inr (sorted_set rs)"
  by (simp add: normalize_reasons_def)

lemma technical_facet_total:
  assumes "validate_technical_evidence e = Inr e'"
  shows "ok (technical_checks_facet t e reuse)"
proof -
  have "set (map fst (technical_findings t e reuse)) \<subseteq> {Rd_ready, Rd_blocked_checks, Rd_unknown}"
    by (cases "te_status e") (auto simp: technical_findings_def finding_if_def)
  moreover have ne: "technical_findings t e reuse \<noteq> []" by (simp add: technical_findings_def)
  ultimately obtain s where "readiness_worst_state (map fst (technical_findings t e reuse)) = Inr s"
      "s \<in> {Rd_ready, Rd_blocked_checks, Rd_unknown}"
    using worst_state_within by (metis map_is_Nil_conv)
  with ne assms show ?thesis
    by (simp add: technical_checks_facet_def validate_technical_facet_def require_state_def
      normalize_reasons_def ok_iff Let_def)
qed

text \<open>The decision's own identity fields are digests and SHAs, or empty.\<close>

definition decision_wellformed :: "review_decision \<Rightarrow> bool" where
  "decision_wellformed d \<longleftrightarrow> ok (optional_sha256 (rd_decision_binding_sha256 d) ''decision_binding_sha256'')
     \<and> ok (normalize_optional_git_sha (rd_head_sha d) ''head_sha'')
     \<and> ok (normalize_optional_git_sha (rd_tree_sha d) ''tree_sha'')"

lemma review_status_token: "ok (required_token (review_status_str s) ''status'')"
proof -
  have "\<forall>s \<in> set [Rv_approved, Rv_changes_requested, Rv_blocked, Rv_pending, Rv_unknown, Rv_stale].
      ok (required_token (review_status_str s) ''status'')" by code_simp
  then show ?thesis by (cases s) simp_all
qed

lemma engineering_facet_total:
  assumes "case decision of None \<Rightarrow> True | Some d \<Rightarrow> decision_wellformed d"
  shows "ok (engineering_review_facet t decision evidence)"
proof (cases decision)
  case None
  have "ok (required_token ''unknown'' ''status'')" using review_status_token [of Rv_unknown] by simp
  with None show ?thesis
    by (auto simp: engineering_review_facet_def validate_engineering_facet_def require_state_def
      normalize_reasons_def optional_sha256_def normalize_optional_git_sha_def ok_iff)
next
  case (Some d)
  have "set (map fst (review_findings t d evidence))
      \<subseteq> {Rd_ready, Rd_blocked_engineering_review, Rd_unknown}"
    by (cases "rd_status d") (auto simp: review_findings_def finding_if_def Let_def)
  moreover have ne: "review_findings t d evidence \<noteq> []" by (simp add: review_findings_def Let_def)
  ultimately obtain s where "readiness_worst_state (map fst (review_findings t d evidence)) = Inr s"
      "s \<in> {Rd_ready, Rd_blocked_engineering_review, Rd_unknown}"
    using worst_state_within by (metis map_is_Nil_conv)
  with ne assms Some review_status_token [of "rd_status d"] show ?thesis
    by (auto simp: engineering_review_facet_def validate_engineering_facet_def require_state_def
      normalize_reasons_def decision_wellformed_def ok_iff Let_def)
qed

lemma policy_facet_total:
  assumes "Dim_impact \<notin> fp_dimension ` set (ordered_fingerprints fs)"
  shows "ok (policy_facet_of fs advisory)"
proof -
  have "\<exists>found. mapM fingerprint_reason ps = Inr found" if "Dim_impact \<notin> fp_dimension ` set ps" for ps
    using that by (induction ps) (auto simp: fingerprint_reason_def policy_reason_def)
  from this [OF assms] obtain found where "mapM fingerprint_reason (ordered_fingerprints fs) = Inr found" ..
  then show ?thesis
    by (simp add: policy_facet_of_def Let_def validate_policy_facet_def require_state_def
      normalize_reasons_def ok_iff)
qed

lemma candidate_facet_total: "ok (candidate_facet_of t e)"
proof -
  have "set (map fst (candidate_findings t e)) \<subseteq> {Rd_ready, Rd_blocked_candidate_identity, Rd_unknown}"
    by (cases "cve_structural_status e") (auto simp: candidate_findings_def finding_if_def)
  moreover have ne: "candidate_findings t e \<noteq> []" by (simp add: candidate_findings_def)
  ultimately obtain s where "readiness_worst_state (map fst (candidate_findings t e)) = Inr s"
      "s \<in> {Rd_ready, Rd_blocked_candidate_identity, Rd_unknown}"
    using worst_state_within by (metis map_is_Nil_conv)
  with ne show ?thesis
    by (simp add: candidate_facet_of_def validate_candidate_facet_def require_state_def
      normalize_reasons_def ok_iff Let_def)
qed

lemma fence_facet_total:
  assumes "ok (parse_instant evaluated_at)"
    and "fe_lease_expires_at e = '''' \<or> ok (parse_instant (fe_lease_expires_at e))"
  shows "ok (fence_facet_of t e evaluated_at)"
proof -
  obtain lease where lease: "lease_finding e evaluated_at = Inr lease"
      "fst lease \<in> {Rd_ready, Rd_blocked_candidate_identity, Rd_unknown}"
  proof -
    have "\<exists>f. lease_finding e evaluated_at = Inr f
        \<and> fst f \<in> {Rd_ready, Rd_blocked_candidate_identity, Rd_unknown}"
    proof (cases "fe_lease_expires_at e = ''''")
      case True
      then show ?thesis by (simp add: lease_finding_def)
    next
      case False
      with assms obtain expires now where "parse_instant (fe_lease_expires_at e) = Inr expires"
          "parse_instant evaluated_at = Inr now" by (auto simp: ok_iff)
      then show ?thesis by (simp add: lease_finding_def)
    qed
    then show ?thesis using that by blast
  qed
  obtain found where found: "fence_findings t e evaluated_at = Inr found" "found \<noteq> []"
      "set (map fst found) \<subseteq> {Rd_ready, Rd_blocked_candidate_identity, Rd_unknown}"
  proof -
    let ?found = "finding_if (truthy (fe_controller_repository e)
            \<and> (fe_controller_repository e \<noteq> rt_repository t
               \<or> fe_controller_base_branch e \<noteq> rt_base_branch t))
            Rd_blocked_candidate_identity ''controller_scope_mismatch''
          @ [lease, if fe_observed_effect_sha e \<noteq> rt_expected_effect_sha t
             then (Rd_blocked_candidate_identity, ''expected_sha_mismatch'')
             else (Rd_ready, ''expected_sha_match'')]"
    have "set (map fst ?found) \<subseteq> {Rd_ready, Rd_blocked_candidate_identity, Rd_unknown}"
      using lease(2) by (auto simp: finding_if_def)
    with that [of ?found] lease(1) show ?thesis by (simp add: fence_findings_def)
  qed
  obtain s where s: "readiness_worst_state (map fst found) = Inr s"
    using worst_state_total [of "map fst found"] found(2) by auto
  with found worst_state_mem [OF s] show ?thesis
    by (auto simp: fence_facet_of_def validate_fence_facet_def require_state_def normalize_reasons_def ok_iff)
qed



lemma read_zoned_ok: "ok (timestamp_micros value field_name) \<Longrightarrow> ok (parse_instant value)"
  by (auto simp: timestamp_micros_def parse_instant_def required_token_Inr ok_iff
    split: option.splits iso_time.splits if_splits)

lemma normalize_timestamp_ok: "ok (normalize_timestamp value field_name) \<longleftrightarrow> ok (timestamp_micros value field_name)"
  by (cases "timestamp_micros value field_name") (simp_all add: normalize_timestamp_def)

lemma evaluate_readiness_total:
  assumes "validate_technical_evidence checks = Inr checks'"
    and "case decision of None \<Rightarrow> True | Some d \<Rightarrow> decision_wellformed d"
    and "Dim_impact \<notin> fp_dimension ` set (ordered_fingerprints fingerprints)"
    and "ok (normalize_timestamp evaluated_at ''evaluated_at'')"
    and "fe_lease_expires_at fence = '''' \<or> ok (parse_instant (fe_lease_expires_at fence))"
  shows "\<exists>r. evaluate_merge_readiness t checks decision evidence fingerprints candidate fence evaluated_at reuse
    = Inr r"
proof -
  have now: "ok (parse_instant evaluated_at)"
    using assms(4) by (intro read_zoned_ok [of _ "''evaluated_at''"]) (auto simp: normalize_timestamp_def ok_iff)
  obtain technical engineering policy cand fenced where facets:
      "technical_checks_facet t checks reuse = Inr technical"
      "engineering_review_facet t decision evidence = Inr engineering"
      "policy_facet_of fingerprints [Dim_engineering_review] = Inr policy"
      "candidate_facet_of t candidate = Inr cand"
      "fence_facet_of t fence evaluated_at = Inr fenced"
    using technical_facet_total [OF assms(1)] engineering_facet_total [OF assms(2)]
      policy_facet_total [OF assms(3)] candidate_facet_total fence_facet_total [OF now assms(5)]
    by (metis ok_iff)
  have "tf_reason_codes technical \<noteq> []"
    using facets(1) by (auto simp: technical_checks_facet_def Let_def validate_technical_facet_def
      normalize_reasons_Inr)
  moreover obtain s where s: "readiness_worst_state
      [tf_state technical, yf_state policy, cf_state cand, ff_state fenced] = Inr s"
    using worst_state_total by blast
  moreover obtain stamp where "normalize_timestamp evaluated_at ''evaluated_at'' = Inr stamp"
    using assms(4) by (auto simp: ok_iff)
  ultimately show ?thesis
    using facets worst_state_ready [OF s]
    by (simp add: evaluate_merge_readiness_def validate_readiness_result_def facet_reasons_def
      facet_states_def check_readiness_digest_def normalize_reasons_total Let_def ensure_def)
qed

subsection \<open>The property\<close>

text \<open>
  C7. The evaluator returns a result for well-formed evidence, and whenever it returns one, the result
  is ready exactly when the required checks passed on the commit that lands (or on the head, with
  recorded reuse for exactly this merge), every fingerprint except the advisory engineering review is
  the current one, the candidate is the one of the target with a proven structure, and the
  controller's lease is held by the expected owner, in scope, and unexpired. The engineering decision
  never changes the state.
\<close>

theorem ready_iff_evidence:
  shows "(ok (validate_technical_evidence checks)
      \<and> (case decision of None \<Rightarrow> True | Some d \<Rightarrow> decision_wellformed d)
      \<and> Dim_impact \<notin> fp_dimension ` set (ordered_fingerprints fingerprints)
      \<and> ok (normalize_timestamp evaluated_at ''evaluated_at'')
      \<and> (fe_lease_expires_at fence = '''' \<or> ok (parse_instant (fe_lease_expires_at fence)))
      \<longrightarrow> ok (evaluate_merge_readiness t checks decision evidence fingerprints candidate fence
            evaluated_at reuse))
    \<and> (\<forall>r. evaluate_merge_readiness t checks decision evidence fingerprints candidate fence
            evaluated_at reuse = Inr r \<longrightarrow>
        (rr_state r = Rd_ready \<longleftrightarrow>
          te_status checks = Tc_pass
          \<and> (te_head_sha checks = rt_expected_effect_sha t \<or> reuse_matches t checks reuse)
          \<and> (\<forall>p \<in> set (ordered_fingerprints fingerprints).
               fp_dimension p = Dim_engineering_review \<or> fingerprint_current p)
          \<and> candidate_bound t candidate \<and> fence_held t fence evaluated_at))"
  using evaluate_readiness_total [where checks = checks and decision = decision and t = t]
    ready_iff_facets [where checks = checks and decision = decision and t = t]
  by (auto simp: ok_iff)

subsection \<open>An example\<close>

definition rx_sha :: "char \<Rightarrow> string" where
  "rx_sha c = replicate 40 c"

definition rx_target :: readiness_target where
  "rx_target = \<lparr>rt_schema_version = 1, rt_repository = ''o/r'', rt_pull_request_number = 7,
     rt_base_branch = ''main'', rt_base_sha = rx_sha (CHR ''a''), rt_head_sha = rx_sha (CHR ''b''),
     rt_tree_sha = rx_sha (CHR ''c''), rt_expected_effect_sha = rx_sha (CHR ''d''), rt_queue_position = 1\<rparr>"

definition rx_checks :: technical_evidence where
  "rx_checks = \<lparr>te_head_sha = rx_sha (CHR ''d''), te_status = Tc_pass,
     te_required_checks = [''unit'', ''lint''], te_advisory_observations = []\<rparr>"

definition rx_fingerprint :: "policy_dimension \<Rightarrow> policy_fingerprint" where
  "rx_fingerprint d = \<lparr>fp_dimension = d, fp_expected_sha256 = replicate 64 (CHR ''e''),
     fp_current_sha256 = (if d = Dim_engineering_review then None else Some (replicate 64 (CHR ''e'')))\<rparr>"

definition rx_fingerprints :: policy_fingerprints where
  "rx_fingerprints = \<lparr>pf_impact = None, pf_technical_checks = rx_fingerprint Dim_technical_checks,
     pf_engineering_review = rx_fingerprint Dim_engineering_review, pf_ruleset = rx_fingerprint Dim_ruleset,
     pf_merge_train = rx_fingerprint Dim_merge_train, pf_authorization = rx_fingerprint Dim_authorization,
     pf_admission_algorithm = rx_fingerprint Dim_admission_algorithm\<rparr>"

definition rx_candidate :: candidate_evidence where
  "rx_candidate = \<lparr>cve_structural_status = St_recorded_rolling, cve_record_id = ''rec'',
     cve_repository = ''o/r'', cve_base_sha = rx_sha (CHR ''f''), cve_candidate_sha = rx_sha (CHR ''d''),
     cve_pull_request_number_of = Some 7, cve_queue_position = Some 1,
     cve_pull_request_head_sha = rx_sha (CHR ''b'')\<rparr>"

definition rx_fence :: fence_evidence where
  "rx_fence = \<lparr>fe_controller_key = ''k'', fe_controller_repository = ''o/r'',
     fe_controller_base_branch = ''main'', fe_controller_status = ''running'',
     fe_expected_lease_owner = ''me'', fe_observed_lease_owner = ''me'',
     fe_lease_expires_at = ''2026-01-01T00:10:00Z'', fe_observed_effect_sha = rx_sha (CHR ''d'')\<rparr>"

theorem ready_iff_evidence_witness:
  "\<exists>r. evaluate_merge_readiness rx_target rx_checks None [] rx_fingerprints rx_candidate rx_fence
      ''2026-01-01T00:09:59Z'' None = Inr r \<and> rr_state r = Rd_ready"
proof -
  have "ok (validate_technical_evidence rx_checks)" by code_simp
  moreover have "Dim_impact \<notin> fp_dimension ` set (ordered_fingerprints rx_fingerprints)" by code_simp
  moreover have "ok (normalize_timestamp ''2026-01-01T00:09:59Z'' ''evaluated_at'')"
    unfolding normalize_timestamp_ok by code_simp
  moreover have "ok (parse_instant (fe_lease_expires_at rx_fence))" by code_simp
  moreover have "te_status rx_checks = Tc_pass \<and> te_head_sha rx_checks = rt_expected_effect_sha rx_target
      \<and> list_all (\<lambda>p. fp_dimension p = Dim_engineering_review \<or> fingerprint_current p)
          (ordered_fingerprints rx_fingerprints)
      \<and> candidate_bound rx_target rx_candidate
      \<and> fence_held rx_target rx_fence ''2026-01-01T00:09:59Z''" by code_simp
  ultimately show ?thesis
    using ready_iff_evidence [of rx_checks None rx_fingerprints "''2026-01-01T00:09:59Z''" rx_fence
        rx_target "[]" rx_candidate None]
    by (auto simp: ok_iff list_all_iff)
qed

end
