(* ===== verification/Mt_Admission_Records.thy ===== *)
theory Mt_Admission_Records
  imports Mt_Readiness Mt_Batch Mt_Controller_State
begin

section \<open>Merge admissions and landing outcomes\<close>

text \<open>
  \<open>control_plane/contracts/merge_admission_record.py\<close>: the record that admits one attempt to land one
  pull request, the outcomes observed for it, their deterministic identities, and the checks that a
  store makes before it appends one. Both records are frozen; the model's validators return the
  normalized record with its computed identity, as the constructors do.
\<close>

subsection \<open>Admissions\<close>

record admission =
  ad_schema_version :: nat
  ad_admission_id :: string
  ad_binding_sha256 :: string
  ad_attempt_id :: string
  ad_attempt_sequence :: nat
  ad_source :: string
  ad_repository :: string
  ad_base_branch :: string
  ad_pull_request_number :: nat
  ad_queue_position :: nat
  ad_batch_id :: string
  ad_candidate_record_id :: string
  ad_landing_plan_record_id :: string
  ad_landing_plan_id :: string
  ad_merge_method :: merge_method
  ad_effective_base_sha :: string
  ad_effective_base_tree_sha :: string
  ad_head_sha :: string
  ad_head_tree_sha :: string
  ad_candidate_sha :: string
  ad_candidate_tree_sha :: string
  ad_expected_effect_sha :: string
  ad_candidate_sha256 :: string
  ad_structural_provenance_sha256 :: string
  ad_landing_plan_sha256 :: string
  ad_readiness :: readiness_result
  ad_structural_result :: structural_result
  ad_algorithm_version :: string
  ad_controller_key :: string
  ad_lease_owner :: string
  ad_lease_acquired_at :: string
  ad_lease_expires_at :: string
  ad_created_at :: string

definition normalize_admission_repository :: "string \<Rightarrow> string res" where
  "normalize_admission_repository value =
     andThen (required_token value ''repository'') (\<lambda>t.
     if owner_name_shape (py_lower t) then Inr (py_lower t)
     else Inl (ValueError ''repository must use owner/name''))"

definition build_merge_effect_attempt_id ::
  "string \<Rightarrow> string \<Rightarrow> string \<Rightarrow> string \<Rightarrow> nat \<Rightarrow> nat \<Rightarrow> nat \<Rightarrow> string \<Rightarrow> string res" where
  "build_merge_effect_attempt_id key owner acquired_at plan_id number position sequence effect_sha =
     andThen (ensure (1 \<le> number \<and> 1 \<le> position \<and> 1 \<le> sequence)
       (ValueError ''merge effect attempt identity requires positive numeric fields'')) (\<lambda>_.
     andThen (required_token key ''controller_key'') (\<lambda>key.
     andThen (required_token owner ''lease_owner'') (\<lambda>owner.
     andThen (normalize_timestamp acquired_at ''lease_acquired_at'') (\<lambda>acquired.
     andThen (required_token plan_id ''landing_plan_id'') (\<lambda>plan.
     andThen (normalize_git_sha effect_sha ''expected_effect_sha'') (\<lambda>effect.
     Inr (''merge-effect-attempt-'' @ take 24 (compact_sorted_json_sha256 (JObj [
       (''controller_key'', JStr key), (''lease_owner'', JStr owner),
       (''lease_acquired_at'', JStr acquired), (''landing_plan_id'', JStr plan),
       (''pull_request_number'', json_nat number), (''queue_position'', json_nat position),
       (''attempt_sequence'', json_nat sequence), (''expected_effect_sha'', JStr effect)])))))))))"

definition structural_result_json :: "structural_result \<Rightarrow> json" where
  "structural_result_json r = JObj [(''status'', JStr (structural_status_str (sr_status r))),
     (''reason_codes'', json_strs (sr_reason_codes r)),
     (''effective_base_sha'', JStr (sr_effective_base_sha r)),
     (''effective_base_tree_sha'', JStr (sr_effective_base_tree_sha r)),
     (''candidate_sha256'', JStr (sr_candidate_sha256 r)),
     (''landing_plan_sha256'', JStr (sr_landing_plan_sha256 r)),
     (''provenance_sha256'', JStr (sr_provenance_sha256 r))]"

text \<open>\<open>merge_admission_binding_sha256\<close>; a readiness with required review leaves the authority out.\<close>

definition merge_admission_binding_sha256 :: "admission \<Rightarrow> string" where
  "merge_admission_binding_sha256 a = compact_sorted_json_sha256 (JObj [
     (''schema_version'', json_nat (ad_schema_version a)),
     (''attempt_id'', JStr (ad_attempt_id a)), (''attempt_sequence'', json_nat (ad_attempt_sequence a)),
     (''decision'', JStr ''admitted''), (''source'', JStr (ad_source a)),
     (''repository'', JStr (ad_repository a)), (''base_branch'', JStr (ad_base_branch a)),
     (''pull_request_number'', json_nat (ad_pull_request_number a)),
     (''queue_position'', json_nat (ad_queue_position a)), (''batch_id'', JStr (ad_batch_id a)),
     (''candidate_record_id'', JStr (ad_candidate_record_id a)),
     (''landing_plan_record_id'', JStr (ad_landing_plan_record_id a)),
     (''landing_plan_id'', JStr (ad_landing_plan_id a)),
     (''merge_method'', JStr (merge_method_str (ad_merge_method a))),
     (''effective_base_sha'', JStr (ad_effective_base_sha a)),
     (''effective_base_tree_sha'', JStr (ad_effective_base_tree_sha a)),
     (''pull_request_head_sha'', JStr (ad_head_sha a)),
     (''pull_request_head_tree_sha'', JStr (ad_head_tree_sha a)),
     (''candidate_sha'', JStr (ad_candidate_sha a)),
     (''candidate_tree_sha'', JStr (ad_candidate_tree_sha a)),
     (''expected_effect_sha'', JStr (ad_expected_effect_sha a)),
     (''candidate_sha256'', JStr (ad_candidate_sha256 a)),
     (''structural_provenance_sha256'', JStr (ad_structural_provenance_sha256 a)),
     (''landing_plan_sha256'', JStr (ad_landing_plan_sha256 a)),
     (''readiness'', JObj (readiness_items True (ad_readiness a)
        @ [(''evaluated_at'', JStr (rr_evaluated_at (ad_readiness a))),
           (''readiness_digest'', JStr (rr_readiness_digest (ad_readiness a)))])),
     (''structural_result'', structural_result_json (ad_structural_result a)),
     (''admission_algorithm_version'', JStr (ad_algorithm_version a)),
     (''controller_key'', JStr (ad_controller_key a)), (''lease_owner'', JStr (ad_lease_owner a)),
     (''lease_acquired_at'', JStr (ad_lease_acquired_at a)),
     (''lease_expires_at'', JStr (ad_lease_expires_at a)),
     (''created_at'', JStr (ad_created_at a))])"

definition admission_tokens :: "admission \<Rightarrow> admission res" where
  "admission_tokens a =
     andThen (normalize_admission_repository (ad_repository a)) (\<lambda>repo.
     andThen (required_token (ad_attempt_id a) ''attempt_id'') (\<lambda>attempt.
     andThen (required_token (ad_source a) ''source'') (\<lambda>source.
     andThen (required_token (ad_base_branch a) ''base_branch'') (\<lambda>branch.
     andThen (required_token (ad_batch_id a) ''batch_id'') (\<lambda>batch.
     andThen (required_token (ad_candidate_record_id a) ''candidate_record_id'') (\<lambda>cand.
     andThen (required_token (ad_landing_plan_record_id a) ''landing_plan_record_id'') (\<lambda>plan_record.
     andThen (required_token (ad_landing_plan_id a) ''landing_plan_id'') (\<lambda>plan.
     andThen (required_token (ad_algorithm_version a) ''admission_algorithm_version'') (\<lambda>algorithm.
     andThen (required_token (ad_controller_key a) ''controller_key'') (\<lambda>key.
     andThen (required_token (ad_lease_owner a) ''lease_owner'') (\<lambda>owner.
     Inr (a\<lparr>ad_repository := repo, ad_attempt_id := attempt, ad_source := source,
            ad_base_branch := branch, ad_batch_id := batch, ad_candidate_record_id := cand,
            ad_landing_plan_record_id := plan_record, ad_landing_plan_id := plan,
            ad_algorithm_version := algorithm, ad_controller_key := key,
            ad_lease_owner := owner\<rparr>))))))))))))"

definition admission_shas :: "admission \<Rightarrow> admission res" where
  "admission_shas a =
     andThen (normalize_git_sha (ad_effective_base_sha a) ''effective_base_sha'') (\<lambda>base.
     andThen (normalize_git_sha (ad_effective_base_tree_sha a) ''effective_base_tree_sha'') (\<lambda>base_tree.
     andThen (normalize_git_sha (ad_head_sha a) ''pull_request_head_sha'') (\<lambda>head.
     andThen (normalize_git_sha (ad_head_tree_sha a) ''pull_request_head_tree_sha'') (\<lambda>head_tree.
     andThen (normalize_git_sha (ad_candidate_sha a) ''candidate_sha'') (\<lambda>cand.
     andThen (normalize_git_sha (ad_candidate_tree_sha a) ''candidate_tree_sha'') (\<lambda>cand_tree.
     andThen (normalize_git_sha (ad_expected_effect_sha a) ''expected_effect_sha'') (\<lambda>effect.
     andThen (normalize_sha256 (ad_candidate_sha256 a) ''candidate_sha256'') (\<lambda>cand_digest.
     andThen (normalize_sha256 (ad_structural_provenance_sha256 a) ''structural_provenance_sha256'') (\<lambda>prov.
     andThen (normalize_sha256 (ad_landing_plan_sha256 a) ''landing_plan_sha256'') (\<lambda>plan.
     andThen (normalize_timestamp (ad_lease_acquired_at a) ''lease_acquired_at'') (\<lambda>acquired.
     andThen (normalize_timestamp (ad_lease_expires_at a) ''lease_expires_at'') (\<lambda>expires.
     andThen (normalize_timestamp (ad_created_at a) ''created_at'') (\<lambda>created.
     Inr (a\<lparr>ad_effective_base_sha := base, ad_effective_base_tree_sha := base_tree,
            ad_head_sha := head, ad_head_tree_sha := head_tree, ad_candidate_sha := cand,
            ad_candidate_tree_sha := cand_tree, ad_expected_effect_sha := effect,
            ad_candidate_sha256 := cand_digest, ad_structural_provenance_sha256 := prov,
            ad_landing_plan_sha256 := plan, ad_lease_acquired_at := acquired,
            ad_lease_expires_at := expires, ad_created_at := created\<rparr>))))))))))))))"

text \<open>The admission is about the merge that was found ready.\<close>

definition admission_matches_target :: "admission \<Rightarrow> readiness_target \<Rightarrow> bool" where
  "admission_matches_target a t \<longleftrightarrow>
     py_casefold (rt_repository t) = py_casefold (ad_repository a)
     \<and> rt_base_branch t = ad_base_branch a \<and> rt_pull_request_number t = ad_pull_request_number a
     \<and> rt_queue_position t = ad_queue_position a \<and> rt_base_sha t = ad_effective_base_sha a
     \<and> rt_head_sha t = ad_head_sha a \<and> rt_tree_sha t = ad_head_tree_sha a
     \<and> rt_expected_effect_sha t = ad_expected_effect_sha a"

definition admission_matches_structure :: "admission \<Rightarrow> structural_result \<Rightarrow> bool" where
  "admission_matches_structure a s \<longleftrightarrow>
     sr_effective_base_sha s = ad_effective_base_sha a
     \<and> sr_effective_base_tree_sha s = ad_effective_base_tree_sha a
     \<and> sr_candidate_sha256 s = ad_candidate_sha256 a
     \<and> sr_landing_plan_sha256 s = ad_landing_plan_sha256 a
     \<and> sr_provenance_sha256 s = ad_structural_provenance_sha256 a"

definition check_admission_evidence :: "admission \<Rightarrow> unit res" where
  "check_admission_evidence a =
     (let r = ad_readiness a; s = ad_structural_result a; fence = ff_evidence (rr_fence r) in
     andThen (ensure (rr_state r = Rd_ready)
       (ValueError ''merge admission requires ready Level 2 evidence'')) (\<lambda>_.
     andThen (ensure (admission_matches_target a (rr_target r))
       (ValueError ''merge admission identity does not match Level 2 evidence'')) (\<lambda>_.
     andThen (ensure (sr_status s \<in> {St_exact, St_recorded_rolling})
       (ValueError ''merge admission requires exact structural provenance'')) (\<lambda>_.
     andThen (ensure (admission_matches_structure a s)
       (ValueError ''merge admission identity does not match structural evidence'')) (\<lambda>_.
     andThen (ensure (cve_candidate_sha (cf_evidence (rr_candidate r)) = ad_candidate_sha a)
       (ValueError ''merge admission candidate SHA does not match Level 2 evidence'')) (\<lambda>_.
     andThen (ensure (fe_controller_key fence = ad_controller_key a)
       (ValueError ''merge admission controller key does not match Level 2 evidence'')) (\<lambda>_.
     andThen (ensure (fe_observed_lease_owner fence = ad_lease_owner a)
       (ValueError ''merge admission lease owner does not match Level 2 evidence'')) (\<lambda>_.
     ensure (fe_lease_expires_at fence = ad_lease_expires_at a)
       (ValueError ''merge admission lease expiry does not match Level 2 evidence'')))))))))"

text \<open>A recorded digest or id must be the computed one.\<close>

definition check_recorded_binding :: "string \<Rightarrow> string \<Rightarrow> string \<Rightarrow> string \<Rightarrow> unit res" where
  "check_recorded_binding recorded expected field_name message =
     (let binding = py_lower (py_strip recorded) in
      if truthy binding then andThen (normalize_sha256 binding field_name) (\<lambda>b.
        ensure (b = expected) (ValueError message))
      else Inr ())"

definition check_recorded_id :: "string \<Rightarrow> string \<Rightarrow> string \<Rightarrow> unit res" where
  "check_recorded_id recorded expected message =
     ensure (py_strip recorded = '''' \<or> py_strip recorded = expected) (ValueError message)"

definition validate_admission :: "admission \<Rightarrow> admission res" where
  "validate_admission a =
     andThen (ensure (ad_schema_version a = 1 \<and> 1 \<le> ad_attempt_sequence a
         \<and> 1 \<le> ad_pull_request_number a \<and> 1 \<le> ad_queue_position a)
       (ValueError ''merge admission field constraints'')) (\<lambda>_.
     andThen (admission_tokens a) (\<lambda>a.
     andThen (admission_shas a) (\<lambda>a.
     andThen (check_admission_evidence a) (\<lambda>_.
     andThen (build_merge_effect_attempt_id (ad_controller_key a) (ad_lease_owner a)
        (ad_lease_acquired_at a) (ad_landing_plan_id a) (ad_pull_request_number a)
        (ad_queue_position a) (ad_attempt_sequence a) (ad_expected_effect_sha a)) (\<lambda>attempt.
     andThen (ensure (ad_attempt_id a = attempt)
       (ValueError ''merge admission attempt ID does not match its deterministic identity'')) (\<lambda>_.
     let binding = merge_admission_binding_sha256 a; expected_id = ''merge-admission-'' @ take 24 binding in
     andThen (check_recorded_binding (ad_binding_sha256 a) binding ''admission_binding_sha256''
       ''merge admission binding digest does not match payload'') (\<lambda>_.
     andThen (check_recorded_id (ad_admission_id a) expected_id
       ''merge admission id does not match payload'') (\<lambda>_.
     Inr (a\<lparr>ad_binding_sha256 := binding, ad_admission_id := expected_id\<rparr>)))))))))"

subsection \<open>Landing outcomes\<close>

datatype outcome_status = Out_landed | Out_rejected | Out_reconcile_required

fun outcome_status_str :: "outcome_status \<Rightarrow> string" where
  "outcome_status_str Out_landed = ''landed''"
| "outcome_status_str Out_rejected = ''rejected''"
| "outcome_status_str Out_reconcile_required = ''reconcile_required''"

datatype outcome_reason =
    Provider_and_git_confirmed | Already_contained_no_provider_effect | Provider_rejected
  | Dispatch_not_attempted | Batch_not_dispatched | Batch_reconciliation_confirmed_no_effect
  | Reconciliation_confirmed_no_effect | Provider_transport_ambiguous | Process_interrupted
  | Lease_lost_after_admission | Landing_evidence_incomplete | Landing_evidence_contradicted

fun outcome_reason_str :: "outcome_reason \<Rightarrow> string" where
  "outcome_reason_str Provider_and_git_confirmed = ''provider_and_git_confirmed''"
| "outcome_reason_str Already_contained_no_provider_effect = ''already_contained_no_provider_effect''"
| "outcome_reason_str Provider_rejected = ''provider_rejected''"
| "outcome_reason_str Dispatch_not_attempted = ''dispatch_not_attempted''"
| "outcome_reason_str Batch_not_dispatched = ''batch_not_dispatched''"
| "outcome_reason_str Batch_reconciliation_confirmed_no_effect =
     ''batch_reconciliation_confirmed_no_effect''"
| "outcome_reason_str Reconciliation_confirmed_no_effect = ''reconciliation_confirmed_no_effect''"
| "outcome_reason_str Provider_transport_ambiguous = ''provider_transport_ambiguous''"
| "outcome_reason_str Process_interrupted = ''process_interrupted''"
| "outcome_reason_str Lease_lost_after_admission = ''lease_lost_after_admission''"
| "outcome_reason_str Landing_evidence_incomplete = ''landing_evidence_incomplete''"
| "outcome_reason_str Landing_evidence_contradicted = ''landing_evidence_contradicted''"

datatype observed_pull_state = Obs_none | Obs_open | Obs_closed | Obs_merged

fun observed_pull_state_str :: "observed_pull_state \<Rightarrow> string" where
  "observed_pull_state_str Obs_none = ''''"
| "observed_pull_state_str Obs_open = ''open''"
| "observed_pull_state_str Obs_closed = ''closed''"
| "observed_pull_state_str Obs_merged = ''merged''"

text \<open>\<open>merged\<close> and \<open>base_contains_head\<close> of the evidence are the literal \<open>False\<close>.\<close>

record batch_no_effect =
  ne_pull_request_number :: nat
  ne_head_sha :: string
  ne_closed :: bool

definition validate_batch_no_effect :: "batch_no_effect \<Rightarrow> batch_no_effect res" where
  "validate_batch_no_effect e =
     andThen (ensure (0 < ne_pull_request_number e) (ValueError ''pull_request_number'')) (\<lambda>_.
     andThen (normalize_git_sha (ne_head_sha e) ''head_sha'') (\<lambda>head.
     Inr (e\<lparr>ne_head_sha := head\<rparr>)))"

record landing_outcome =
  oc_schema_version :: nat
  oc_outcome_id :: string
  oc_binding_sha256 :: string
  oc_admission_id :: string
  oc_admission_binding_sha256 :: string
  oc_attempt_id :: string
  oc_sequence :: nat
  oc_prior_outcome_id :: string
  oc_source :: string
  oc_repository :: string
  oc_base_branch :: string
  oc_pull_request_number :: nat
  oc_status :: outcome_status
  oc_reason :: outcome_reason
  oc_effect_attempted :: bool
  oc_conclusive_rejection :: bool
  oc_status_code :: "nat option"
  oc_request_id :: string
  oc_message :: string
  oc_pull_state :: observed_pull_state
  oc_head_sha :: string
  oc_head_tree_sha :: string
  oc_base_sha :: string
  oc_base_tree_sha :: string
  oc_merge_commit_sha :: string
  oc_merge_commit_tree_sha :: string
  oc_base_contains :: "bool option"
  oc_exact_landing :: bool
  oc_observed_at :: string
  oc_batch_no_effect :: "batch_no_effect option"

definition json_opt_bool :: "bool option \<Rightarrow> json" where
  "json_opt_bool b = (case b of None \<Rightarrow> JNull | Some b \<Rightarrow> JBool b)"

definition batch_no_effect_json :: "batch_no_effect \<Rightarrow> json" where
  "batch_no_effect_json e = JObj [(''pull_request_number'', json_nat (ne_pull_request_number e)),
     (''head_sha'', JStr (ne_head_sha e)),
     (''state'', JStr (if ne_closed e then ''closed'' else ''open'')),
     (''merged'', JBool False), (''base_contains_head'', JBool False)]"

definition merge_landing_outcome_binding_sha256 :: "landing_outcome \<Rightarrow> string" where
  "merge_landing_outcome_binding_sha256 r = compact_sorted_json_sha256 (JObj ([
     (''schema_version'', json_nat (oc_schema_version r)),
     (''admission_id'', JStr (oc_admission_id r)),
     (''admission_binding_sha256'', JStr (oc_admission_binding_sha256 r)),
     (''attempt_id'', JStr (oc_attempt_id r)),
     (''observation_sequence'', json_nat (oc_sequence r)),
     (''prior_outcome_id'', JStr (oc_prior_outcome_id r)), (''source'', JStr (oc_source r)),
     (''repository'', JStr (oc_repository r)), (''base_branch'', JStr (oc_base_branch r)),
     (''pull_request_number'', json_nat (oc_pull_request_number r)),
     (''status'', JStr (outcome_status_str (oc_status r))),
     (''reason'', JStr (outcome_reason_str (oc_reason r))),
     (''provider_effect_attempted'', JBool (oc_effect_attempted r)),
     (''provider_conclusive_rejection'', JBool (oc_conclusive_rejection r)),
     (''provider_status_code'', json_opt_nat (oc_status_code r)),
     (''provider_request_id'', JStr (oc_request_id r)), (''provider_message'', JStr (oc_message r)),
     (''observed_pull_request_state'', JStr (observed_pull_state_str (oc_pull_state r))),
     (''observed_pull_request_head_sha'', JStr (oc_head_sha r)),
     (''observed_pull_request_head_tree_sha'', JStr (oc_head_tree_sha r)),
     (''observed_base_sha'', JStr (oc_base_sha r)),
     (''observed_base_tree_sha'', JStr (oc_base_tree_sha r)),
     (''merge_commit_sha'', JStr (oc_merge_commit_sha r)),
     (''merge_commit_tree_sha'', JStr (oc_merge_commit_tree_sha r)),
     (''base_contains_merge_commit'', json_opt_bool (oc_base_contains r)),
     (''exact_landing_confirmed'', JBool (oc_exact_landing r)),
     (''observed_at'', JStr (oc_observed_at r))]
     @ optional_item ''batch_no_effect'' batch_no_effect_json (oc_batch_no_effect r)))"

definition normalize_outcome :: "landing_outcome \<Rightarrow> landing_outcome res" where
  "normalize_outcome r =
     andThen (normalize_admission_repository (oc_repository r)) (\<lambda>repo.
     andThen (required_token (oc_admission_id r) ''admission_id'') (\<lambda>admission.
     andThen (required_token (oc_attempt_id r) ''attempt_id'') (\<lambda>attempt.
     andThen (required_token (oc_source r) ''source'') (\<lambda>source.
     andThen (normalize_sha256 (oc_admission_binding_sha256 r) ''admission_binding_sha256'') (\<lambda>binding.
     andThen (required_token (oc_base_branch r) ''base_branch'') (\<lambda>branch.
     andThen (normalize_optional_git_sha (oc_head_sha r) ''observed_pull_request_head_sha'') (\<lambda>head.
     andThen (normalize_optional_git_sha (oc_head_tree_sha r) ''observed_pull_request_head_tree_sha'') (\<lambda>head_tree.
     andThen (normalize_optional_git_sha (oc_base_sha r) ''observed_base_sha'') (\<lambda>base.
     andThen (normalize_optional_git_sha (oc_base_tree_sha r) ''observed_base_tree_sha'') (\<lambda>base_tree.
     andThen (normalize_optional_git_sha (oc_merge_commit_sha r) ''merge_commit_sha'') (\<lambda>merge.
     andThen (normalize_optional_git_sha (oc_merge_commit_tree_sha r) ''merge_commit_tree_sha'') (\<lambda>merge_tree.
     andThen (normalize_timestamp (oc_observed_at r) ''observed_at'') (\<lambda>observed.
     Inr (r\<lparr>oc_repository := repo, oc_admission_id := admission, oc_attempt_id := attempt,
            oc_source := source, oc_admission_binding_sha256 := binding, oc_base_branch := branch,
            oc_prior_outcome_id := py_strip (oc_prior_outcome_id r),
            oc_request_id := py_strip (oc_request_id r), oc_message := py_strip (oc_message r),
            oc_head_sha := head, oc_head_tree_sha := head_tree, oc_base_sha := base,
            oc_base_tree_sha := base_tree, oc_merge_commit_sha := merge,
            oc_merge_commit_tree_sha := merge_tree, oc_observed_at := observed\<rparr>))))))))))))))"

definition check_landed_outcome :: "landing_outcome \<Rightarrow> unit res" where
  "check_landed_outcome r =
     andThen (ensure (\<not> oc_conclusive_rejection r)
       (ValueError ''landed outcome cannot carry provider rejection'')) (\<lambda>_.
     andThen (ensure (oc_exact_landing r \<and> oc_base_contains r = Some True)
       (ValueError ''landed outcome requires exact settled-state confirmation'')) (\<lambda>_.
     andThen (ensure (list_all truthy [oc_head_sha r, oc_head_tree_sha r, oc_base_sha r,
         oc_base_tree_sha r, oc_merge_commit_sha r, oc_merge_commit_tree_sha r])
       (ValueError ''landed outcome requires complete Git evidence'')) (\<lambda>_.
     if oc_reason r = Already_contained_no_provider_effect then
       ensure (\<not> oc_effect_attempted r \<and> oc_sequence r = 1 \<and> oc_status_code r = None
           \<and> \<not> truthy (oc_request_id r) \<and> \<not> truthy (oc_message r)
           \<and> oc_pull_state r \<in> {Obs_open, Obs_closed, Obs_merged}
           \<and> oc_merge_commit_sha r = oc_base_sha r \<and> oc_merge_commit_tree_sha r = oc_base_tree_sha r)
         (ValueError ''already-contained outcome requires exact zero-effect base evidence'')
     else ensure (oc_reason r = Provider_and_git_confirmed)
       (ValueError ''landed outcome reason is unsupported''))))"

definition zero_evidence :: "landing_outcome \<Rightarrow> bool" where
  "zero_evidence r \<longleftrightarrow> oc_sequence r = 1 \<and> \<not> oc_effect_attempted r \<and> \<not> oc_conclusive_rejection r
     \<and> oc_status_code r = None \<and> \<not> truthy (oc_request_id r) \<and> \<not> truthy (oc_message r)
     \<and> oc_pull_state r = Obs_none \<and> \<not> truthy (oc_head_sha r) \<and> \<not> truthy (oc_head_tree_sha r)
     \<and> \<not> truthy (oc_base_sha r) \<and> \<not> truthy (oc_base_tree_sha r) \<and> oc_base_contains r = None"

definition check_rejected_outcome :: "landing_outcome \<Rightarrow> unit res" where
  "check_rejected_outcome r =
     andThen (ensure (\<not> (oc_exact_landing r \<or> truthy (oc_merge_commit_sha r)
         \<or> truthy (oc_merge_commit_tree_sha r)))
       (ValueError ''rejected outcome cannot claim a landing'')) (\<lambda>_.
     if oc_reason r = Provider_rejected then
       andThen (ensure (oc_effect_attempted r \<and> oc_conclusive_rejection r)
         (ValueError ''provider rejection requires conclusive provider refusal'')) (\<lambda>_.
       ensure (oc_status_code r \<noteq> None) (ValueError ''provider rejection requires provider status code''))
     else if oc_reason r = Reconciliation_confirmed_no_effect then
       andThen (ensure (oc_effect_attempted r)
         (ValueError ''no-effect reconciliation requires a preceding provider attempt'')) (\<lambda>_.
       andThen (ensure (\<not> (oc_conclusive_rejection r \<or> oc_status_code r \<noteq> None))
         (ValueError ''no-effect reconciliation cannot claim provider rejection'')) (\<lambda>_.
       ensure (oc_pull_state r = Obs_open \<and> list_all truthy [oc_head_sha r, oc_head_tree_sha r,
           oc_base_sha r, oc_base_tree_sha r])
         (ValueError ''no-effect reconciliation requires exact open PR and base evidence'')))
     else if oc_reason r = Batch_reconciliation_confirmed_no_effect then
       ensure (oc_effect_attempted r \<and> \<not> oc_conclusive_rejection r \<and> oc_status_code r = None
           \<and> oc_batch_no_effect r \<noteq> None \<and> truthy (oc_base_sha r) \<and> truthy (oc_base_tree_sha r)
           \<and> oc_pull_state r = Obs_none \<and> \<not> truthy (oc_head_sha r) \<and> \<not> truthy (oc_head_tree_sha r))
         (ValueError ''batch no-effect reconciliation requires provider PR and base evidence'')
     else if oc_reason r \<in> {Dispatch_not_attempted, Batch_not_dispatched} then
       ensure (zero_evidence r)
         (ValueError ''dispatch-not-attempted outcome requires a first zero-evidence observation'')
     else Inl (ValueError ''rejected outcome requires conclusive no-effect evidence''))"

definition check_reconcile_outcome :: "landing_outcome \<Rightarrow> unit res" where
  "check_reconcile_outcome r =
     andThen (ensure (\<not> oc_conclusive_rejection r)
       (ValueError ''reconcile-required outcome cannot claim conclusive rejection'')) (\<lambda>_.
     andThen (ensure (\<not> oc_exact_landing r)
       (ValueError ''reconcile-required outcome cannot claim exact landing'')) (\<lambda>_.
     ensure (oc_reason r \<notin> {Provider_and_git_confirmed, Already_contained_no_provider_effect,
         Provider_rejected, Dispatch_not_attempted, Batch_not_dispatched,
         Batch_reconciliation_confirmed_no_effect})
       (ValueError ''reconcile-required outcome requires an ambiguity reason'')))"

definition check_outcome_status :: "landing_outcome \<Rightarrow> unit res" where
  "check_outcome_status r = (case oc_status r of
       Out_landed \<Rightarrow> check_landed_outcome r
     | Out_rejected \<Rightarrow> check_rejected_outcome r
     | Out_reconcile_required \<Rightarrow> check_reconcile_outcome r)"

definition validate_outcome :: "landing_outcome \<Rightarrow> landing_outcome res" where
  "validate_outcome r =
     andThen (ensure (oc_schema_version r = 1 \<and> 1 \<le> oc_sequence r \<and> 1 \<le> oc_pull_request_number r
         \<and> (case oc_status_code r of None \<Rightarrow> True | Some c \<Rightarrow> 100 \<le> c \<and> c \<le> 599))
       (ValueError ''merge landing outcome field constraints'')) (\<lambda>_.
     andThen (normalize_outcome r) (\<lambda>r.
     andThen (ensure (oc_sequence r = 1 \<longrightarrow> \<not> truthy (oc_prior_outcome_id r))
       (ValueError ''first landing outcome cannot reference a prior outcome'')) (\<lambda>_.
     andThen (ensure (1 < oc_sequence r \<longrightarrow> truthy (oc_prior_outcome_id r))
       (ValueError ''reconciled landing outcome requires a prior outcome'')) (\<lambda>_.
     andThen (ensure (oc_batch_no_effect r \<noteq> None
         \<longrightarrow> oc_reason r = Batch_reconciliation_confirmed_no_effect)
       (ValueError ''batch no-effect proof requires its reconciliation reason'')) (\<lambda>_.
     andThen (check_outcome_status r) (\<lambda>_.
     let binding = merge_landing_outcome_binding_sha256 r;
         expected_id = ''merge-landing-outcome-'' @ take 24 binding in
     andThen (check_recorded_binding (oc_binding_sha256 r) binding ''outcome_binding_sha256''
       ''landing outcome binding digest does not match payload'') (\<lambda>_.
     andThen (check_recorded_id (oc_outcome_id r) expected_id
       ''landing outcome id does not match payload'') (\<lambda>_.
     Inr (r\<lparr>oc_binding_sha256 := binding, oc_outcome_id := expected_id\<rparr>)))))))))"

subsection \<open>Checks against the admission and the prior outcome\<close>

definition outcome_identity_matches :: "admission \<Rightarrow> landing_outcome \<Rightarrow> bool" where
  "outcome_identity_matches a r \<longleftrightarrow> oc_admission_id r = ad_admission_id a
     \<and> oc_admission_binding_sha256 r = ad_binding_sha256 a \<and> oc_attempt_id r = ad_attempt_id a
     \<and> py_casefold (oc_repository r) = py_casefold (ad_repository a)
     \<and> oc_base_branch r = ad_base_branch a \<and> oc_pull_request_number r = ad_pull_request_number a"

definition observed_admitted_head :: "admission \<Rightarrow> landing_outcome \<Rightarrow> bool" where
  "observed_admitted_head a r \<longleftrightarrow> oc_head_sha r = ad_head_sha a \<and> oc_head_tree_sha r = ad_head_tree_sha a"

definition observed_admitted_base :: "admission \<Rightarrow> landing_outcome \<Rightarrow> bool" where
  "observed_admitted_base a r \<longleftrightarrow>
     oc_base_sha r = ad_effective_base_sha a \<and> oc_base_tree_sha r = ad_effective_base_tree_sha a"

definition validate_outcome_for_admission :: "admission \<Rightarrow> landing_outcome \<Rightarrow> unit res" where
  "validate_outcome_for_admission a r =
     andThen (ensure (outcome_identity_matches a r)
       (ValueError ''landing outcome does not match its merge admission'')) (\<lambda>_.
     andThen (ensure (oc_status r = Out_landed \<longrightarrow> observed_admitted_head a r)
       (ValueError ''landed outcome head identity does not match admission'')) (\<lambda>_.
     andThen (ensure (oc_reason r = Reconciliation_confirmed_no_effect \<longrightarrow>
         oc_pull_state r = Obs_open \<and> observed_admitted_head a r \<and> observed_admitted_base a r)
       (ValueError ''no-effect reconciliation evidence does not match admission'')) (\<lambda>_.
     andThen (ensure (oc_reason r = Batch_reconciliation_confirmed_no_effect \<longrightarrow>
         (case oc_batch_no_effect r of None \<Rightarrow> False
          | Some e \<Rightarrow> ne_head_sha e = ad_candidate_sha a
              \<and> ne_pull_request_number e \<noteq> ad_pull_request_number a))
       (ValueError ''batch no-effect proof does not match the admitted candidate'')) (\<lambda>_.
     ensure (oc_reason r = Already_contained_no_provider_effect \<longrightarrow>
         oc_status r = Out_landed \<and> observed_admitted_head a r \<and> observed_admitted_base a r
         \<and> oc_merge_commit_sha r = ad_effective_base_sha a
         \<and> oc_merge_commit_tree_sha r = ad_effective_base_tree_sha a)
       (ValueError ''already-contained outcome evidence does not match admission'')))))"

definition validate_outcome_successor :: "landing_outcome \<Rightarrow> landing_outcome \<Rightarrow> unit res" where
  "validate_outcome_successor prior r =
     andThen (ensure (oc_status prior = Out_reconcile_required)
       (ValueError ''terminal landing outcomes cannot be superseded'')) (\<lambda>_.
     ensure (oc_admission_id r = oc_admission_id prior
         \<and> oc_admission_binding_sha256 r = oc_admission_binding_sha256 prior
         \<and> oc_attempt_id r = oc_attempt_id prior \<and> oc_sequence r = oc_sequence prior + 1
         \<and> oc_prior_outcome_id r = oc_outcome_id prior)
       (ValueError ''landing outcome reconciliation chain is invalid''))"

subsection \<open>The persisted controller fence\<close>

text \<open>\<open>str(value or "")\<close> of a step payload; the keys read here hold strings or are missing.\<close>

definition payload_string :: "string \<Rightarrow> json_object \<Rightarrow> string" where
  "payload_string k d = (case dict_get k d of JStr s \<Rightarrow> s | _ \<Rightarrow> '''')"

definition fence_identity :: "admission \<Rightarrow> controller_state \<Rightarrow> bool res" where
  "fence_identity a s =
     (if cs_status s \<noteq> Cs_running \<or> cs_controller_key s \<noteq> ad_controller_key a
         \<or> py_casefold (cs_repository s) \<noteq> py_casefold (ad_repository a)
         \<or> cs_base_branch s \<noteq> ad_base_branch a \<or> cs_lease_owner s \<noteq> ad_lease_owner a
      then Inr False
      else andThen (normalize_timestamp (cs_lease_acquired_at s) ''lease_acquired_at'') (\<lambda>acquired.
        if acquired \<noteq> ad_lease_acquired_at a then Inr False
        else andThen (normalize_timestamp (cs_lease_expires_at s) ''lease_expires_at'') (\<lambda>expires.
          Inr (expires = ad_lease_expires_at a))))"

definition validate_admission_controller_fence ::
  "admission \<Rightarrow> controller_state \<Rightarrow> string \<Rightarrow> unit res" where
  "validate_admission_controller_fence a s admitted_at =
     andThen (normalize_timestamp admitted_at ''admitted_at'') (\<lambda>admitted.
     andThen (ensure (admitted = ad_created_at a) (FenceRejected
       ''Persisted merge admission time does not match the actual admission time.'')) (\<lambda>_.
     andThen (fence_identity a s) (\<lambda>same.
     andThen (ensure same (FenceRejected
       ''Persisted merge controller lease changed before admission creation.'')) (\<lambda>_.
     andThen (timestamp_micros admitted_at ''admitted_at'') (\<lambda>admitted_time.
     andThen (timestamp_micros (cs_lease_expires_at s) ''lease_expires_at'') (\<lambda>expires_time.
     andThen (ensure (admitted_time < expires_time) (FenceRejected
       ''Persisted merge controller lease expired before admission creation.'')) (\<lambda>_.
     let policy = pf_merge_train (yf_fingerprints (rr_policy (ad_readiness a))) in
     andThen (ensure (fp_expected_sha256 policy = cs_policy_sha256 s
         \<and> fp_current_sha256 policy = Some (cs_policy_sha256 s)) (FenceRejected
       ''Persisted merge controller policy changed before admission creation.'')) (\<lambda>_.
     ensure (cs_active_action s \<in> {''land_batch'', ''batch_landing_run_once''}
         \<and> cs_active_pull_request_number s = Some (ad_pull_request_number a)
         \<and> payload_string ''expected_effect_sha'' (cs_step_payload s) = ad_expected_effect_sha a
         \<and> payload_string ''landing_plan_id'' (cs_step_payload s) = ad_landing_plan_id a)
       (FenceRejected ''Persisted merge controller effect fence changed before admission creation.'')))))))))"

end
