(* ===== verification/Mt_Admission.thy ===== *)
theory Mt_Admission
  imports Mt_Admission_Records Mt_Lease_Store Mt_Collapse
begin

section \<open>Guarded merge admission\<close>

text \<open>
  The admissions and outcomes of \<open>FilesystemRecordStore\<close> (\<open>control_plane/storage/filesystem.py\<close>) and
  \<open>GuardedMergeAdmission\<close> of \<open>control_plane/merge_admission.py\<close>, the only way to a provider effect on a
  batch's pull request.

  The ledger lists the files of both kinds in the order they were created; a file is named by the
  record's id and is only ever created. A stored record was validated before, so reading it gives
  it back. Each operation runs under the store's lock. The world of the guard is its own mutable
  fields, the ledger, and the rest \<open>'w\<close> (provider, clock, controller states), which only the ports
  reach.
\<close>

subsection \<open>The ledger\<close>

record admission_ledger =
  lg_admissions :: "admission list"
  lg_outcomes :: "landing_outcome list"

type_synonym 'a ledger_op = "(admission_ledger, 'a) eff"

definition order_desc :: "('a \<Rightarrow> 'k::linorder) \<Rightarrow> 'a list \<Rightarrow> 'a list" where
  "order_desc k xs = rev (sort_key k (rev xs))"

record admission_query =
  aq_repository :: string
  aq_base_branch :: string
  aq_pull_request_number :: "nat option"
  aq_landing_plan_record_id :: string
  aq_landing_plan_id :: string
  aq_attempt_id :: string

definition any_admission :: admission_query where
  "any_admission = \<lparr>aq_repository = '''', aq_base_branch = '''', aq_pull_request_number = None,
     aq_landing_plan_record_id = '''', aq_landing_plan_id = '''', aq_attempt_id = ''''\<rparr>"

definition admission_selected :: "admission_query \<Rightarrow> admission \<Rightarrow> bool" where
  "admission_selected q a \<longleftrightarrow>
     (aq_repository q = '''' \<or> ad_repository a = py_lower (py_strip (aq_repository q)))
     \<and> (aq_base_branch q = '''' \<or> ad_base_branch a = aq_base_branch q)
     \<and> (case aq_pull_request_number q of None \<Rightarrow> True | Some n \<Rightarrow> ad_pull_request_number a = n)
     \<and> (aq_landing_plan_record_id q = '''' \<or> ad_landing_plan_record_id a = aq_landing_plan_record_id q)
     \<and> (aq_landing_plan_id q = '''' \<or> ad_landing_plan_id a = aq_landing_plan_id q)
     \<and> (aq_attempt_id q = '''' \<or> ad_attempt_id a = aq_attempt_id q)"

definition list_admissions :: "admission_query \<Rightarrow> admission_ledger \<Rightarrow> admission list" where
  "list_admissions q lg = order_desc (\<lambda>a. (ad_created_at a, ad_admission_id a))
     (filter (admission_selected q) (lg_admissions lg))"

definition read_admission :: "string \<Rightarrow> admission_ledger \<Rightarrow> admission option" where
  "read_admission i lg = find (\<lambda>a. ad_admission_id a = i) (lg_admissions lg)"

record outcome_query =
  oq_repository :: string
  oq_base_branch :: string
  oq_pull_request_number :: "nat option"
  oq_admission_id :: string
  oq_status :: "outcome_status option"
  oq_sequence :: "nat option"

definition any_outcome :: outcome_query where
  "any_outcome = \<lparr>oq_repository = '''', oq_base_branch = '''', oq_pull_request_number = None,
     oq_admission_id = '''', oq_status = None, oq_sequence = None\<rparr>"

definition outcome_selected :: "outcome_query \<Rightarrow> landing_outcome \<Rightarrow> bool" where
  "outcome_selected q r \<longleftrightarrow>
     (oq_repository q = '''' \<or> oc_repository r = py_lower (py_strip (oq_repository q)))
     \<and> (oq_base_branch q = '''' \<or> oc_base_branch r = oq_base_branch q)
     \<and> (case oq_pull_request_number q of None \<Rightarrow> True | Some n \<Rightarrow> oc_pull_request_number r = n)
     \<and> (oq_admission_id q = '''' \<or> oc_admission_id r = oq_admission_id q)
     \<and> (case oq_status q of None \<Rightarrow> True | Some s \<Rightarrow> oc_status r = s)
     \<and> (case oq_sequence q of None \<Rightarrow> True | Some n \<Rightarrow> oc_sequence r = n)"

definition list_outcomes :: "outcome_query \<Rightarrow> admission_ledger \<Rightarrow> landing_outcome list" where
  "list_outcomes q lg = order_desc
     (\<lambda>r. (oc_admission_id r, oc_sequence r, oc_observed_at r, oc_outcome_id r))
     (filter (outcome_selected q) (lg_outcomes lg))"

definition latest_outcome :: "string \<Rightarrow> admission_ledger \<Rightarrow> landing_outcome option" where
  "latest_outcome i lg = (case list_outcomes (any_outcome\<lparr>oq_admission_id := i\<rparr>) lg of
       [] \<Rightarrow> None | r # _ \<Rightarrow> Some r)"

definition list_unresolved_admissions :: "string \<Rightarrow> string \<Rightarrow> admission_ledger \<Rightarrow> admission list" where
  "list_unresolved_admissions repository base_branch lg =
     (let outcomes = list_outcomes (any_outcome\<lparr>oq_repository := repository, oq_base_branch := base_branch\<rparr>) lg
      in filter (\<lambda>a. case find (\<lambda>r. oc_admission_id r = ad_admission_id a) outcomes of
            None \<Rightarrow> True | Some r \<Rightarrow> oc_status r = Out_reconcile_required)
         (list_admissions (any_admission\<lparr>aq_repository := repository, aq_base_branch := base_branch\<rparr>) lg))"

subsection \<open>Appending\<close>

definition create_admission_if_absent :: "admission \<Rightarrow> (admission \<times> bool) ledger_op" where
  "create_admission_if_absent a lg =
     (case list_admissions (any_admission\<lparr>aq_attempt_id := ad_attempt_id a\<rparr>) lg of
        existing # _ \<Rightarrow> (if existing \<noteq> a
          then (Inl (ValueError ''Merge admission attempts are append-only.''), lg)
          else (Inr (existing, False), lg))
      | [] \<Rightarrow>
        (case read_admission (ad_admission_id a) lg of
           None \<Rightarrow> (Inr (a, True), lg\<lparr>lg_admissions := lg_admissions lg @ [a]\<rparr>)
         | Some existing \<Rightarrow> (if existing \<noteq> a
             then (Inl (ValueError ''Merge admission records are append-only.''), lg)
             else (Inr (existing, False), lg))))"

definition create_guarded_admission_if_absent ::
  "controller_store \<Rightarrow> admission \<Rightarrow> string \<Rightarrow> (admission \<times> bool) ledger_op" where
  "create_guarded_admission_if_absent controllers a admitted_at =
     andDo (lift_res (require_inert_controller_aliases controllers (ad_repository a) (ad_base_branch a))) (\<lambda>_.
     andDo (case read_controller_state controllers (ad_controller_key a) of
              None \<Rightarrow> raise (FenceRejected
                ''Persisted merge controller state is missing at admission creation.'')
            | Some state \<Rightarrow> lift_res state) (\<lambda>state.
     andDo (lift_res (validate_admission_controller_fence a state admitted_at)) (\<lambda>_.
     create_admission_if_absent a)))"

definition read_outcome :: "string \<Rightarrow> admission_ledger \<Rightarrow> landing_outcome option" where
  "read_outcome i lg = find (\<lambda>r. oc_outcome_id r = i) (lg_outcomes lg)"

definition check_outcome_chain :: "landing_outcome \<Rightarrow> admission_ledger \<Rightarrow> unit res" where
  "check_outcome_chain r lg = (case latest_outcome (oc_admission_id r) lg of
       Some prior \<Rightarrow> validate_outcome_successor prior r
     | None \<Rightarrow> ensure (oc_sequence r = 1)
         (ValueError ''Merge landing outcome reconciliation is missing its predecessor.''))"

definition append_outcome :: "landing_outcome \<Rightarrow> (landing_outcome \<times> bool) ledger_op" where
  "append_outcome r lg = (case read_outcome (oc_outcome_id r) lg of
       None \<Rightarrow> (Inr (r, True), lg\<lparr>lg_outcomes := lg_outcomes lg @ [r]\<rparr>)
     | Some existing \<Rightarrow> (if existing \<noteq> r
         then (Inl (ValueError ''Merge landing outcome records are append-only.''), lg)
         else (Inr (existing, False), lg)))"

definition create_outcome_if_absent :: "landing_outcome \<Rightarrow> (landing_outcome \<times> bool) ledger_op" where
  "create_outcome_if_absent r lg =
     (case read_admission (oc_admission_id r) lg of
        None \<Rightarrow> (Inl (NotFound (oc_admission_id r)), lg)
      | Some a \<Rightarrow>
        (case validate_outcome_for_admission a r of
           Inl e \<Rightarrow> (Inl e, lg)
         | Inr _ \<Rightarrow>
           (case list_outcomes (any_outcome\<lparr>oq_admission_id := oc_admission_id r,
                   oq_sequence := Some (oc_sequence r)\<rparr>) lg of
              existing # _ \<Rightarrow> (if existing \<noteq> r
                then (Inl (ValueError ''Merge landing outcome observations are append-only.''), lg)
                else (Inr (existing, False), lg))
            | [] \<Rightarrow> (case check_outcome_chain r lg of
                Inl e \<Rightarrow> (Inl e, lg) | Inr _ \<Rightarrow> append_outcome r lg))))"

subsection \<open>The guard and its world\<close>

record admission_guard =
  gd_candidate_record :: candidate_record
  gd_landing_record :: landing_record
  gd_controller_state :: controller_state
  gd_trace_id :: string
  gd_algorithm_version :: string
  gd_stack_collapse :: "collapse_record option"
  gd_expected_owner :: string

definition open_guard ::
  "candidate_record \<Rightarrow> landing_record \<Rightarrow> controller_state \<Rightarrow> string \<Rightarrow> collapse_record option
   \<Rightarrow> admission_guard" where
  "open_guard candidate landing state trace_id collapse = \<lparr>gd_candidate_record = candidate,
     gd_landing_record = landing, gd_controller_state = state, gd_trace_id = trace_id,
     gd_algorithm_version = ''merge-admission-v2'', gd_stack_collapse = collapse,
     gd_expected_owner = py_strip (cs_lease_owner state)\<rparr>"

record 'w admission_world =
  aw_guard :: admission_guard
  aw_ledger :: admission_ledger
  aw_rest :: 'w

definition outside :: "('w, 'a) eff \<Rightarrow> ('w admission_world, 'a) eff" where
  "outside m s = (case m (aw_rest s) of (r, w') \<Rightarrow> (r, s\<lparr>aw_rest := w'\<rparr>))"

definition on_ledger :: "'a ledger_op \<Rightarrow> ('w admission_world, 'a) eff" where
  "on_ledger m s = (case m (aw_ledger s) of (r, lg') \<Rightarrow> (r, s\<lparr>aw_ledger := lg'\<rparr>))"

definition reading :: "('w admission_world \<Rightarrow> 'a) \<Rightarrow> ('w admission_world, 'a) eff" where
  "reading f s = (Inr (f s), s)"

definition writing :: "('w admission_world \<Rightarrow> 'w admission_world) \<Rightarrow> ('w admission_world, unit) eff" where
  "writing f s = (Inr (), f s)"

record evaluation =
  ev_readiness :: readiness_result
  ev_structural :: structural_result

record evaluation_request =
  eq_candidate_record :: candidate_record
  eq_landing_record :: landing_record
  eq_entry :: landing_entry
  eq_base_sha :: string
  eq_base_tree_sha :: string
  eq_head_sha :: string
  eq_head_tree_sha :: string
  eq_controller_state :: controller_state
  eq_expected_owner :: string
  eq_stack_collapse :: "collapse_record option"
  eq_evaluated_at :: string

text \<open>
  The evaluator, the clocks and the provider of the current controller state are parameters;
  \<open>ap_controllers\<close> reads the controller states of the store.
\<close>

record 'w admission_ports =
  ap_controllers :: "'w \<Rightarrow> controller_store"
  ap_state_provider :: "('w, controller_state) eff option"
  ap_admission_time :: "('w, string) eff"
  ap_observation_time :: "('w, string) eff"
  ap_evaluate :: "evaluation_request \<Rightarrow> ('w, evaluation) eff"

definition update_landing_plan_record :: "landing_record \<Rightarrow> ('w admission_world, unit) eff" where
  "update_landing_plan_record r = writing (\<lambda>s. s\<lparr>aw_guard := (aw_guard s)\<lparr>gd_landing_record := r\<rparr>\<rparr>)"

definition update_landing_plan :: "landing_plan \<Rightarrow> ('w admission_world, unit) eff" where
  "update_landing_plan p = writing (\<lambda>s. s\<lparr>aw_guard := (aw_guard s)\<lparr>gd_landing_record :=
     (gd_landing_record (aw_guard s))\<lparr>ln_landing_plan := p\<rparr>\<rparr>\<rparr>)"

definition refresh_controller_state :: "'w admission_ports \<Rightarrow> ('w admission_world, unit) eff" where
  "refresh_controller_state ports = (case ap_state_provider ports of None \<Rightarrow> give ()
     | Some provider \<Rightarrow> andDo (outside provider) (\<lambda>state.
         writing (\<lambda>s. s\<lparr>aw_guard := (aw_guard s)\<lparr>gd_controller_state := state\<rparr>\<rparr>)))"

text \<open>The admissions of one entry of the guard's plan.\<close>

definition entry_query :: "landing_plan \<Rightarrow> nat \<Rightarrow> admission_query" where
  "entry_query plan n = any_admission\<lparr>aq_repository := lp_repository plan,
     aq_base_branch := lp_base_branch plan, aq_pull_request_number := Some n,
     aq_landing_plan_id := lp_plan_id plan\<rparr>"

definition guard_plan :: "'w admission_world \<Rightarrow> landing_plan" where
  "guard_plan s = ln_landing_plan (gd_landing_record (aw_guard s))"

definition entry_admissions :: "landing_entry \<Rightarrow> ('w admission_world, admission list) eff" where
  "entry_admissions entry = reading (\<lambda>s.
     list_admissions (entry_query (guard_plan s) (le_pull_request_number entry)) (aw_ledger s))"

subsection \<open>Admitting\<close>

text \<open>\<open>except\<close> clauses: an error is replaced, the world stays.\<close>

definition rescue :: "(py_error \<Rightarrow> py_error) \<Rightarrow> 'a res \<Rightarrow> 'a res" where
  "rescue f r = (case r of Inl e \<Rightarrow> Inl (f e) | Inr x \<Rightarrow> Inr x)"

definition rescueE :: "(py_error \<Rightarrow> py_error) \<Rightarrow> ('s, 'a) eff \<Rightarrow> ('s, 'a) eff" where
  "rescueE f m s = (case m s of (r, s') \<Rightarrow> (rescue f r, s'))"

fun authority_changed_error :: "py_error \<Rightarrow> py_error" where
  "authority_changed_error (ValueError _) = AdmissionDenied
     ''Persisted controller authority changed after live merge evaluation.'' ''controller_authority_changed''"
| "authority_changed_error e = e"

fun fence_denied :: "py_error \<Rightarrow> py_error" where
  "fence_denied (FenceRejected message) = AdmissionDenied message ''controller_fence_rejected''"
| "fence_denied e = e"

definition require_settled :: "admission list \<Rightarrow> ('w admission_world, unit) eff" where
  "require_settled existing = (case max_by ad_attempt_sequence existing of
       None \<Rightarrow> give ()
     | Some latest \<Rightarrow> andDo (reading (\<lambda>s. latest_outcome (ad_admission_id latest) (aw_ledger s))) (\<lambda>outcome.
         requireE (case outcome of None \<Rightarrow> False | Some r \<Rightarrow> oc_status r \<noteq> Out_reconcile_required)
           (AdmissionAmbiguous
             ''A prior merge admission remains effect-ambiguous and must be reconciled.'')))"

definition next_attempt :: "admission list \<Rightarrow> nat" where
  "next_attempt existing = foldl max 0 (map ad_attempt_sequence existing) + 1"

definition proposed_admission ::
  "admission_guard \<Rightarrow> landing_entry \<Rightarrow> string \<Rightarrow> string \<Rightarrow> string \<Rightarrow> string \<Rightarrow> evaluation \<Rightarrow> string
   \<Rightarrow> nat \<Rightarrow> string \<Rightarrow> admission" where
  "proposed_admission g entry base base_tree head head_tree ev attempt_id sequence admitted_at =
     (let plan = ln_landing_plan (gd_landing_record g); state = gd_controller_state g in
      \<lparr>ad_schema_version = 1, ad_admission_id = '''', ad_binding_sha256 = '''', ad_attempt_id = attempt_id,
       ad_attempt_sequence = sequence, ad_source = ''service:merge-admission:'' @ gd_trace_id g,
       ad_repository = lp_repository plan, ad_base_branch = lp_base_branch plan,
       ad_pull_request_number = le_pull_request_number entry, ad_queue_position = le_position entry,
       ad_batch_id = lp_batch_id plan, ad_candidate_record_id = cn_record_id (gd_candidate_record g),
       ad_landing_plan_record_id = ln_record_id (gd_landing_record g),
       ad_landing_plan_id = lp_plan_id plan, ad_merge_method = le_merge_method entry,
       ad_effective_base_sha = base, ad_effective_base_tree_sha = base_tree,
       ad_head_sha = head, ad_head_tree_sha = head_tree, ad_candidate_sha = lp_candidate_sha plan,
       ad_candidate_tree_sha = lp_candidate_tree_sha plan, ad_expected_effect_sha = lp_candidate_sha plan,
       ad_candidate_sha256 = lp_candidate_sha256 plan,
       ad_structural_provenance_sha256 = lp_structural_provenance_sha256 plan,
       ad_landing_plan_sha256 = lp_landing_plan_sha256 plan, ad_readiness = ev_readiness ev,
       ad_structural_result = ev_structural ev, ad_algorithm_version = gd_algorithm_version g,
       ad_controller_key = cs_controller_key state, ad_lease_owner = cs_lease_owner state,
       ad_lease_acquired_at = cs_lease_acquired_at state,
       ad_lease_expires_at = cs_lease_expires_at state, ad_created_at = admitted_at\<rparr>)"

definition evaluate_entry ::
  "'w admission_ports \<Rightarrow> landing_entry \<Rightarrow> string \<Rightarrow> string \<Rightarrow> string \<Rightarrow> string \<Rightarrow> string
   \<Rightarrow> ('w admission_world, evaluation) eff" where
  "evaluate_entry ports entry base base_tree head head_tree evaluated_at =
     andDo (reading aw_guard) (\<lambda>g.
     outside (ap_evaluate ports \<lparr>eq_candidate_record = gd_candidate_record g,
       eq_landing_record = gd_landing_record g, eq_entry = entry, eq_base_sha = base,
       eq_base_tree_sha = base_tree, eq_head_sha = head, eq_head_tree_sha = head_tree,
       eq_controller_state = gd_controller_state g, eq_expected_owner = gd_expected_owner g,
       eq_stack_collapse = gd_stack_collapse g, eq_evaluated_at = evaluated_at\<rparr>))"

text \<open>The readiness and structural results that a denial carries along are left out.\<close>

definition build_proposal ::
  "'w admission_ports \<Rightarrow> landing_entry \<Rightarrow> string \<Rightarrow> string \<Rightarrow> string \<Rightarrow> string
   \<Rightarrow> ('w admission_world, admission) eff" where
  "build_proposal ports entry base base_tree head head_tree =
     andDo (reading aw_guard) (\<lambda>g.
     andDo (requireE (truthy (gd_expected_owner g)) (AdmissionDenied
       ''Merge admission requires an acquired controller lease.'' ''controller_fence_rejected'')) (\<lambda>_.
     andDo (refresh_controller_state ports) (\<lambda>_.
     andDo (outside (ap_admission_time ports)) (\<lambda>started.
     andDo (entry_admissions entry) (\<lambda>existing.
     andDo (require_settled existing) (\<lambda>_.
     andDo (evaluate_entry ports entry base base_tree head head_tree started) (\<lambda>ev.
     andDo (requireE (rr_state (ev_readiness ev) = Rd_ready) (AdmissionDenied
       ''Fresh merge readiness evidence did not admit the provider effect.'' ''merge_readiness_not_ready'')) (\<lambda>_.
     andDo (requireE (sr_status (ev_structural ev) \<in> {St_exact, St_recorded_rolling}) (AdmissionDenied
       ''Fresh structural provenance did not admit the provider effect.''
       ''structural_provenance_not_admitted'')) (\<lambda>_.
     andDo (outside (ap_admission_time ports)) (\<lambda>admitted_at.
     andDo (refresh_controller_state ports) (\<lambda>_.
     andDo (reading aw_guard) (\<lambda>g.
     andDo (requireE (ba_structural_provenance (cn_candidate (gd_candidate_record g)) \<noteq> None)
       (AdmissionDenied ''Merge admission requires structural provenance.''
          ''structural_provenance_missing'')) (\<lambda>_.
     let plan = ln_landing_plan (gd_landing_record g); state = gd_controller_state g;
         sequence = next_attempt existing in
     andDo (lift_res (build_merge_effect_attempt_id (cs_controller_key state) (cs_lease_owner state)
        (cs_lease_acquired_at state) (lp_plan_id plan) (le_pull_request_number entry)
        (le_position entry) sequence (lp_candidate_sha plan))) (\<lambda>attempt.
     lift_res (rescue authority_changed_error (validate_admission
       (proposed_admission g entry base base_tree head head_tree ev attempt sequence admitted_at)))))))))))))))))"

definition create_guarded ::
  "'w admission_ports \<Rightarrow> admission \<Rightarrow> ('w admission_world, admission \<times> bool) eff" where
  "create_guarded ports a = andDo (reading (\<lambda>s. ap_controllers ports (aw_rest s))) (\<lambda>controllers.
     on_ledger (create_guarded_admission_if_absent controllers a (ad_created_at a)))"

definition persist_proposal ::
  "'w admission_ports \<Rightarrow> admission \<Rightarrow> ('w admission_world, admission) eff" where
  "persist_proposal ports a =
     andDo (rescueE fence_denied (create_guarded ports a)) (\<lambda>(stored, created).
     andDo (requireE created (AdmissionAmbiguous
       ''Existing merge admission cannot be reused for another provider effect.'')) (\<lambda>_.
     give stored))"

definition admit ::
  "'w admission_ports \<Rightarrow> landing_entry \<Rightarrow> string \<Rightarrow> string \<Rightarrow> string \<Rightarrow> string
   \<Rightarrow> ('w admission_world, admission) eff" where
  "admit ports entry base base_tree head head_tree =
     andDo (build_proposal ports entry base base_tree head head_tree) (persist_proposal ports)"

subsection \<open>Recording outcomes\<close>

text \<open>The keyword arguments of \<open>_outcome\<close>, with their defaults.\<close>

record observation =
  ob_conclusive_rejection :: bool
  ob_batch_no_effect :: "batch_no_effect option"
  ob_status_code :: "nat option"
  ob_message :: string
  ob_pull_state :: observed_pull_state
  ob_head_sha :: string
  ob_head_tree_sha :: string
  ob_base_sha :: string
  ob_base_tree_sha :: string
  ob_merge_commit_sha :: string
  ob_merge_commit_tree_sha :: string
  ob_base_contains :: "bool option"
  ob_exact_landing :: bool

definition no_observation :: observation where
  "no_observation = \<lparr>ob_conclusive_rejection = False, ob_batch_no_effect = None, ob_status_code = None,
     ob_message = '''', ob_pull_state = Obs_none, ob_head_sha = '''', ob_head_tree_sha = '''',
     ob_base_sha = '''', ob_base_tree_sha = '''', ob_merge_commit_sha = '''',
     ob_merge_commit_tree_sha = '''', ob_base_contains = None, ob_exact_landing = False\<rparr>"

definition outcome_draft ::
  "string \<Rightarrow> landing_outcome option \<Rightarrow> admission \<Rightarrow> outcome_status \<Rightarrow> outcome_reason \<Rightarrow> bool \<Rightarrow> string
   \<Rightarrow> observation \<Rightarrow> landing_outcome" where
  "outcome_draft trace_id previous a status reason attempted observed_at ob =
     \<lparr>oc_schema_version = 1, oc_outcome_id = '''', oc_binding_sha256 = '''',
      oc_admission_id = ad_admission_id a, oc_admission_binding_sha256 = ad_binding_sha256 a,
      oc_attempt_id = ad_attempt_id a,
      oc_sequence = (case previous of None \<Rightarrow> 1 | Some p \<Rightarrow> oc_sequence p + 1),
      oc_prior_outcome_id = (case previous of None \<Rightarrow> '''' | Some p \<Rightarrow> oc_outcome_id p),
      oc_source = ''service:merge-landing-outcome:'' @ trace_id,
      oc_repository = ad_repository a, oc_base_branch = ad_base_branch a,
      oc_pull_request_number = ad_pull_request_number a, oc_status = status, oc_reason = reason,
      oc_effect_attempted = attempted, oc_conclusive_rejection = ob_conclusive_rejection ob,
      oc_status_code = ob_status_code ob, oc_request_id = '''', oc_message = ob_message ob,
      oc_pull_state = ob_pull_state ob, oc_head_sha = ob_head_sha ob,
      oc_head_tree_sha = ob_head_tree_sha ob, oc_base_sha = ob_base_sha ob,
      oc_base_tree_sha = ob_base_tree_sha ob, oc_merge_commit_sha = ob_merge_commit_sha ob,
      oc_merge_commit_tree_sha = ob_merge_commit_tree_sha ob,
      oc_base_contains = ob_base_contains ob, oc_exact_landing = ob_exact_landing ob,
      oc_observed_at = observed_at, oc_batch_no_effect = ob_batch_no_effect ob\<rparr>"

definition observe ::
  "admission \<Rightarrow> outcome_status \<Rightarrow> outcome_reason \<Rightarrow> bool \<Rightarrow> string \<Rightarrow> observation
   \<Rightarrow> ('w admission_world, landing_outcome) eff" where
  "observe a status reason attempted observed_at ob =
     andDo (reading (\<lambda>s. outcome_draft (gd_trace_id (aw_guard s))
        (latest_outcome (ad_admission_id a) (aw_ledger s)) a status reason attempted observed_at ob)) (\<lambda>draft.
     andDo (lift_res (validate_outcome draft)) (\<lambda>r.
     andDo (on_ledger (create_outcome_if_absent r)) (\<lambda>(stored, _). give stored)))"

definition record_landed ::
  "admission \<Rightarrow> landing_entry \<Rightarrow> string \<Rightarrow> string \<Rightarrow> bool \<Rightarrow> bool \<Rightarrow> string
   \<Rightarrow> ('w admission_world, landing_outcome) eff" where
  "record_landed a entry base base_tree contains attempted observed_at =
     observe a Out_landed Provider_and_git_confirmed attempted observed_at
       (no_observation\<lparr>ob_head_sha := le_landed_head_sha entry,
          ob_head_tree_sha := le_landed_head_tree_sha entry, ob_base_sha := base,
          ob_base_tree_sha := base_tree, ob_merge_commit_sha := le_merge_commit_sha entry,
          ob_merge_commit_tree_sha := le_merge_commit_tree_sha entry,
          ob_base_contains := Some contains, ob_exact_landing := contains\<rparr>)"

definition reconcile_existing_landed ::
  "landing_entry \<Rightarrow> string \<Rightarrow> string \<Rightarrow> bool \<Rightarrow> string \<Rightarrow> ('w admission_world, landing_outcome) eff" where
  "reconcile_existing_landed entry base base_tree attempted observed_at =
     andDo (entry_admissions entry) (\<lambda>admissions. case admissions of
         [] \<Rightarrow> raise (AdmissionAmbiguous
           ''Observed landing has no preceding immutable merge admission.'')
       | a # _ \<Rightarrow> andDo (reading (\<lambda>s. latest_outcome (ad_admission_id a) (aw_ledger s))) (\<lambda>latest.
           case map_option oc_status latest of
             Some Out_landed \<Rightarrow> give (the latest)
           | Some Out_rejected \<Rightarrow> raise (AdmissionAmbiguous
               ''Provider landing evidence contradicts a conclusive rejection outcome.'')
           | _ \<Rightarrow> record_landed a entry base base_tree True attempted observed_at))"

definition reconcile_existing_no_effect ::
  "landing_entry \<Rightarrow> string \<Rightarrow> string \<Rightarrow> string \<Rightarrow> string \<Rightarrow> observed_pull_state \<Rightarrow> string
   \<Rightarrow> ('w admission_world, landing_outcome option) eff" where
  "reconcile_existing_no_effect entry base base_tree head head_tree state observed_at =
     (let ob = no_observation\<lparr>ob_pull_state := state, ob_head_sha := head, ob_head_tree_sha := head_tree,
            ob_base_sha := base, ob_base_tree_sha := base_tree\<rparr> in
      andDo (entry_admissions entry) (\<lambda>admissions. case admissions of
         [] \<Rightarrow> give None
       | a # _ \<Rightarrow> andDo (reading (\<lambda>s. latest_outcome (ad_admission_id a) (aw_ledger s))) (\<lambda>latest.
           case map_option oc_status latest of
             Some Out_rejected \<Rightarrow> give latest
           | Some Out_landed \<Rightarrow> raise (AdmissionAmbiguous
               ''Open pull request evidence contradicts a landed outcome.'')
           | _ \<Rightarrow>
             andDo (if latest = None then andDo (observe a Out_reconcile_required Process_interrupted True
                 observed_at (ob\<lparr>ob_message := ''Admission existed without a terminal provider observation; ''
                   @ ''exact provider and Git evidence was re-read before no-effect reconciliation.''\<rparr>)) (\<lambda>_. give ())
               else give ()) (\<lambda>_.
             andDo (observe a Out_rejected Reconciliation_confirmed_no_effect True observed_at
                (ob\<lparr>ob_message := ''Fresh provider observation confirmed the exact pull request remains ''
                   @ ''open and the expected base has not advanced.''\<rparr>)) (\<lambda>r.
             give (Some r))))))"

definition record_reconcile_required ::
  "admission \<Rightarrow> outcome_reason \<Rightarrow> string \<Rightarrow> string \<Rightarrow> ('w admission_world, landing_outcome) eff" where
  "record_reconcile_required a reason message observed_at =
     observe a Out_reconcile_required reason True observed_at (no_observation\<lparr>ob_message := message\<rparr>)"

definition reconcile_entry_no_effect ::
  "landing_plan \<Rightarrow> batch_no_effect \<Rightarrow> string \<Rightarrow> string \<Rightarrow> string \<Rightarrow> landing_entry
   \<Rightarrow> ('w admission_world, unit) eff" where
  "reconcile_entry_no_effect plan evidence base base_tree observed_at entry =
     andDo (reading (\<lambda>s. list_admissions (entry_query plan (le_pull_request_number entry)) (aw_ledger s))) (\<lambda>admissions.
     case max_by ad_attempt_sequence admissions of
       None \<Rightarrow> give ()
     | Some a \<Rightarrow>
       andDo (requireE (ad_landing_plan_sha256 a = lp_landing_plan_sha256 plan)
         (AdmissionAmbiguous ''Batch admission binds a different landing plan.'')) (\<lambda>_.
       andDo (reading (\<lambda>s. latest_outcome (ad_admission_id a) (aw_ledger s))) (\<lambda>latest.
       case map_option oc_status latest of
         Some Out_landed \<Rightarrow> raise (AdmissionAmbiguous
           ''Unmerged batch PR contradicts recorded landing evidence.'')
       | Some Out_rejected \<Rightarrow> give ()
       | _ \<Rightarrow>
         andDo (if latest = None then andDo (record_reconcile_required a Process_interrupted
             ''Batch attempt was interrupted before its outcome was recorded.'' observed_at) (\<lambda>_. give ())
           else give ()) (\<lambda>_.
         andDo (observe a Out_rejected Batch_reconciliation_confirmed_no_effect True observed_at
           (no_observation\<lparr>ob_base_sha := base, ob_base_tree_sha := base_tree,
              ob_batch_no_effect := Some evidence\<rparr>)) (\<lambda>_. give ())))))"

fun for_each :: "('a \<Rightarrow> ('s, unit) eff) \<Rightarrow> 'a list \<Rightarrow> ('s, unit) eff" where
  "for_each f [] = give ()"
| "for_each f (x # xs) = andDo (f x) (\<lambda>_. for_each f xs)"

definition reconcile_batch_no_effect ::
  "batch_no_effect \<Rightarrow> string \<Rightarrow> string \<Rightarrow> string \<Rightarrow> ('w admission_world, unit) eff" where
  "reconcile_batch_no_effect evidence base base_tree observed_at =
     andDo (reading guard_plan) (\<lambda>plan.
     andDo (requireE (Some (ne_pull_request_number evidence) = lp_candidate_pull_request_number plan
         \<and> ne_head_sha evidence = lp_candidate_sha plan)
       (AdmissionAmbiguous ''Batch no-effect proof has a different provider target.'')) (\<lambda>_.
     for_each (reconcile_entry_no_effect plan evidence base base_tree observed_at) (lp_entries plan)))"

definition record_not_dispatched :: "admission \<Rightarrow> string \<Rightarrow> ('w admission_world, landing_outcome) eff" where
  "record_not_dispatched a observed_at =
     andDo (reading guard_plan) (\<lambda>plan.
     andDo (requireE (lp_candidate_pull_request_number plan \<noteq> None
         \<and> ad_landing_plan_sha256 a = lp_landing_plan_sha256 plan)
       (ValueError ''Batch non-dispatch evidence requires a protected batch landing plan.'')) (\<lambda>_.
     observe a Out_rejected Batch_not_dispatched False observed_at no_observation))"

text \<open>\<open>getattr(error, "status_code", None)\<close> and \<open>str(error)\<close>; a stale head is raised with 409.\<close>

fun error_status_code :: "py_error \<Rightarrow> nat option" where
  "error_status_code (GitHubError code _) = code"
| "error_status_code (StaleHead _) = Some 409"
| "error_status_code _ = None"

fun error_text :: "py_error \<Rightarrow> string" where
  "error_text (ValueError m) = m" | "error_text (KeyError m) = m" | "error_text (RuntimeError m) = m"
| "error_text (LeaseHeld m) = m" | "error_text (AdoptionRejected m) = m" | "error_text (LeaseLost m) = m"
| "error_text (ReconciliationRequired m) = m" | "error_text (ChildNotReady ms) = str_join '', '' ms"
| "error_text (StaleHead m) = m" | "error_text (ProviderError m) = m"
| "error_text (OverflowError m) = m" | "error_text (GitHubError _ m) = m"
| "error_text (AdmissionDenied m _) = m" | "error_text (AdmissionAmbiguous m) = m"
| "error_text (FenceRejected m) = m" | "error_text (NotFound m) = m"

definition conclusive_rejection :: "nat option \<Rightarrow> bool" where
  "conclusive_rejection code = (case code of None \<Rightarrow> False
     | Some c \<Rightarrow> 400 \<le> c \<and> c < 500 \<and> c \<notin> {408, 429})"

definition record_provider_failure ::
  "admission \<Rightarrow> py_error \<Rightarrow> string \<Rightarrow> ('w admission_world, landing_outcome) eff" where
  "record_provider_failure a e observed_at =
     (let code = error_status_code e; conclusive = conclusive_rejection code in
      observe a (if conclusive then Out_rejected else Out_reconcile_required)
        (if conclusive then Provider_rejected else Provider_transport_ambiguous) True observed_at
        (no_observation\<lparr>ob_conclusive_rejection := conclusive, ob_status_code := code,
           ob_message := py_strip (error_text e)\<rparr>))"

end
