(* ===== verification/Mt_Admission_Properties.thy ===== *)
theory Mt_Admission_Properties
  imports Mt_Admission "HOL-Library.Sublist"
begin

section \<open>What the admission ledger keeps\<close>

text \<open>
  The steps of the ledger are the two operations that write it. Every guard operation moves the
  ledger along these steps (see \<open>advances\<close>), so what holds of every reachable ledger holds while any
  number of guards work on it, in any interleaving and cut off anywhere.
\<close>

subsection \<open>Steps\<close>

definition empty_ledger :: admission_ledger where
  "empty_ledger = \<lparr>lg_admissions = [], lg_outcomes = []\<rparr>"

inductive ledger_step :: "admission_ledger \<Rightarrow> admission_ledger \<Rightarrow> bool" where
  admitting: "validate_admission draft = Inr a \<Longrightarrow> create_admission_if_absent a lg = (r, lg')
    \<Longrightarrow> ledger_step lg lg'"
| observing: "create_outcome_if_absent out lg = (r, lg') \<Longrightarrow> ledger_step lg lg'"

abbreviation ledger_run :: "admission_ledger \<Rightarrow> admission_ledger \<Rightarrow> bool" where
  "ledger_run \<equiv> rtranclp ledger_step"

definition outcomes_of :: "string \<Rightarrow> admission_ledger \<Rightarrow> landing_outcome list" where
  "outcomes_of i lg = filter (\<lambda>r. oc_admission_id r = i) (lg_outcomes lg)"

text \<open>
  The outcomes of one admission, in the order they were stored: numbered from 1, each the valid
  successor of the one before, so all but the last require reconciliation.
\<close>

definition outcome_chain :: "landing_outcome list \<Rightarrow> bool" where
  "outcome_chain os \<longleftrightarrow> map oc_sequence os = [1..<Suc (length os)]
     \<and> successively (\<lambda>p r. validate_outcome_successor p r = Inr ()) os"

definition ledger_ok :: "admission_ledger \<Rightarrow> bool" where
  "ledger_ok lg \<longleftrightarrow> distinct (map ad_admission_id (lg_admissions lg))
     \<and> distinct (map ad_attempt_id (lg_admissions lg))
     \<and> (\<forall>a \<in> set (lg_admissions lg). truthy (ad_admission_id a) \<and> truthy (ad_attempt_id a))
     \<and> (\<forall>r \<in> set (lg_outcomes lg). \<exists>a \<in> set (lg_admissions lg). oc_admission_id r = ad_admission_id a
          \<and> validate_outcome_for_admission a r = Inr ())
     \<and> (\<forall>i. outcome_chain (outcomes_of i lg))"

subsection \<open>Listing\<close>

lemma order_desc_Cons:
  assumes "order_desc k xs = y # ys"
  shows "y \<in> set xs" and "\<And>x. x \<in> set xs \<Longrightarrow> k x \<le> k y"
proof -
  let ?s = "sort_key k (rev xs)"
  have y: "?s \<noteq> []" "last ?s = y"
    using assms by (auto simp: order_desc_def rev_eq_Cons_iff)
  then have "y \<in> set ?s" using last_in_set by metis
  then show "y \<in> set xs" by simp
  fix x assume "x \<in> set xs"
  then obtain i where i: "i < length ?s" "?s ! i = x" by (metis set_rev set_sort in_set_conv_nth)
  have "map k ?s ! i \<le> map k ?s ! (length ?s - 1)"
    using i by (intro sorted_nth_mono) auto
  then show "k x \<le> k y" using i y by (simp add: last_conv_nth)
qed

lemma order_desc_Nil [simp]: "order_desc k xs = [] \<longleftrightarrow> xs = []"
  by (simp add: order_desc_def) (metis length_0_conv length_rev length_sort)

lemma order_desc_empty [simp]: "order_desc k [] = []"
  by (simp add: order_desc_def)

lemma selected_outcomes_of:
  "truthy i \<Longrightarrow> filter (outcome_selected (any_outcome\<lparr>oq_admission_id := i\<rparr>)) (lg_outcomes lg) = outcomes_of i lg"
  by (simp add: outcomes_of_def outcome_selected_def any_outcome_def cong: filter_cong)

lemma chain_last:
  assumes "map oc_sequence os = [1..<Suc (length os)]" and "r \<in> set os" and "oc_sequence (last os) \<le> oc_sequence r"
  shows "r = last os"
proof -
  obtain j where j: "j < length os" "os ! j = r" using assms(2) by (metis in_set_conv_nth)
  have seq: "oc_sequence (os ! k) = Suc k" if "k < length os" for k
    using arg_cong [OF assms(1), of "\<lambda>xs. xs ! k"] that by (simp del: upt_Suc)
  have "last os = os ! (length os - 1)" using j by (intro last_conv_nth) auto
  with assms(3) j seq [of j] seq [of "length os - 1"] have "j = length os - 1" by simp
  with j show ?thesis using \<open>last os = os ! (length os - 1)\<close> by simp
qed

lemma latest_outcome_last:
  assumes "truthy i" and "outcome_chain (outcomes_of i lg)"
  shows "latest_outcome i lg = (if outcomes_of i lg = [] then None else Some (last (outcomes_of i lg)))"
proof (cases "list_outcomes (any_outcome\<lparr>oq_admission_id := i\<rparr>) lg")
  case Nil
  then show ?thesis
    using assms(1) by (simp add: latest_outcome_def list_outcomes_def selected_outcomes_of)
next
  case (Cons r rest)
  let ?k = "\<lambda>r. (oc_admission_id r, oc_sequence r, oc_observed_at r, oc_outcome_id r)"
  have sorted: "order_desc ?k (outcomes_of i lg) = r # rest"
    using Cons assms(1) by (simp add: list_outcomes_def selected_outcomes_of)
  have r: "r \<in> set (outcomes_of i lg)" using order_desc_Cons(1) [OF sorted] .
  then have ne: "outcomes_of i lg \<noteq> []" by auto
  have "?k (last (outcomes_of i lg)) \<le> ?k r"
    using order_desc_Cons(2) [OF sorted] last_in_set [OF ne] .
  moreover have "oc_admission_id r = i" "oc_admission_id (last (outcomes_of i lg)) = i"
    using r last_in_set [OF ne] by (auto simp: outcomes_of_def)
  ultimately have "oc_sequence (last (outcomes_of i lg)) \<le> oc_sequence r" by auto
  then have "r = last (outcomes_of i lg)"
    using chain_last r assms(2) by (auto simp: outcome_chain_def)
  with ne Cons show ?thesis by (simp add: latest_outcome_def)
qed

subsection \<open>Every step keeps the ledger in order\<close>

lemma read_admission_Some: "read_admission i lg = Some a \<Longrightarrow> a \<in> set (lg_admissions lg) \<and> ad_admission_id a = i"
  by (auto simp: read_admission_def find_Some_iff in_set_conv_nth)

lemma read_admission_None: "read_admission i lg = None \<longleftrightarrow> i \<notin> ad_admission_id ` set (lg_admissions lg)"
  by (auto simp: read_admission_def find_None_iff)

lemma validated_admission_ids:
  assumes "validate_admission draft = Inr a"
  shows "truthy (ad_admission_id a)" and "truthy (ad_attempt_id a)"
  using assms by (auto simp: validate_admission_def build_merge_effect_attempt_id_def Let_def)

lemma attempt_listed:
  "truthy (ad_attempt_id a) \<Longrightarrow> list_admissions (any_admission\<lparr>aq_attempt_id := ad_attempt_id a\<rparr>) lg = []
     \<longleftrightarrow> ad_attempt_id a \<notin> ad_attempt_id ` set (lg_admissions lg)"
  by (auto simp: list_admissions_def admission_selected_def any_admission_def filter_empty_conv image_iff)

text \<open>What appending an admission or an outcome does to the ledger.\<close>

lemma create_admission_cases:
  assumes "create_admission_if_absent a lg = (r, lg')" and "truthy (ad_attempt_id a)"
  obtains "lg' = lg" "\<And>x. r \<noteq> Inr (x, True)"
  | "r = Inr (a, True)" "lg' = lg\<lparr>lg_admissions := lg_admissions lg @ [a]\<rparr>"
    "ad_admission_id a \<notin> ad_admission_id ` set (lg_admissions lg)"
    "ad_attempt_id a \<notin> ad_attempt_id ` set (lg_admissions lg)"
proof (cases "list_admissions (any_admission\<lparr>aq_attempt_id := ad_attempt_id a\<rparr>) lg")
  case Nil
  with assms that show ?thesis
    by (auto simp: create_admission_if_absent_def attempt_listed read_admission_None
      split: option.splits if_splits)
next
  case (Cons x xs)
  with assms(1) that(1) show ?thesis by (auto simp: create_admission_if_absent_def split: if_splits)
qed

lemma create_outcome_cases:
  assumes "create_outcome_if_absent out lg = (r, lg')"
  obtains "lg' = lg"
  | a where "lg' = lg\<lparr>lg_outcomes := lg_outcomes lg @ [out]\<rparr>" "r = Inr (out, True)"
    "a \<in> set (lg_admissions lg)" "ad_admission_id a = oc_admission_id out"
    "validate_outcome_for_admission a out = Inr ()" "check_outcome_chain out lg = Inr ()"
  using assms
  by (auto simp: create_outcome_if_absent_def append_outcome_def
    split: option.splits sum.splits list.splits if_splits dest!: read_admission_Some)

lemma outcomes_of_append:
  "outcomes_of i (lg\<lparr>lg_outcomes := lg_outcomes lg @ [out]\<rparr>)
     = outcomes_of i lg @ (if oc_admission_id out = i then [out] else [])"
  by (simp add: outcomes_of_def)

lemma outcome_chain_snoc:
  assumes "truthy (oc_admission_id out)" and "outcome_chain (outcomes_of (oc_admission_id out) lg)"
    and "check_outcome_chain out lg = Inr ()"
  shows "outcome_chain (outcomes_of (oc_admission_id out) lg @ [out])"
proof -
  let ?os = "outcomes_of (oc_admission_id out) lg"
  note latest = latest_outcome_last [OF assms(1,2)]
  show ?thesis
  proof (cases "?os = []")
    case True
    with assms(3) latest show ?thesis by (simp add: check_outcome_chain_def outcome_chain_def)
  next
    case False
    have succ: "validate_outcome_successor (last ?os) out = Inr ()"
      using assms(3) latest False by (simp add: check_outcome_chain_def)
    have "oc_sequence (last ?os) = length ?os"
      using assms(2) False unfolding outcome_chain_def
      by (metis last_map last_upt length_greater_0_conv less_Suc_eq_le One_nat_def Suc_leI diff_Suc_1)
    with succ have "oc_sequence out = Suc (length ?os)" by (auto simp: validate_outcome_successor_def)
    with succ assms(2) False show ?thesis
      by (simp add: outcome_chain_def successively_append_iff)
  qed
qed

lemma ledger_step_ok:
  assumes "ledger_step lg lg'" and "ledger_ok lg"
  shows "ledger_ok lg'"
  using assms
proof (cases rule: ledger_step.cases)
  case (admitting draft a r)
  note ids = validated_admission_ids [OF admitting(1)]
  from create_admission_cases [OF admitting(2) ids(2)] show ?thesis
    by cases (use assms(2) ids in \<open>auto simp: ledger_ok_def outcomes_of_def\<close>)
next
  case (observing out r)
  then show ?thesis
  proof (cases rule: create_outcome_cases)
    case 1
    with assms(2) show ?thesis by simp
  next
    case (2 a)
    have id: "truthy (oc_admission_id out)" using 2(3,4) assms(2) by (auto simp: ledger_ok_def)
    have "outcome_chain (outcomes_of i lg')" for i
      using outcome_chain_snoc [OF id _ 2(6)] assms(2) unfolding 2(1) outcomes_of_append
      by (auto simp: ledger_ok_def)
    moreover have "\<exists>a \<in> set (lg_admissions lg). oc_admission_id out = ad_admission_id a
        \<and> validate_outcome_for_admission a out = Inr ()"
      using 2(3,4,5) by (intro bexI [of _ a]) simp_all
    ultimately show ?thesis using assms(2) by (simp add: ledger_ok_def 2(1))
  qed
qed

lemma ledger_run_ok: "ledger_run lg lg' \<Longrightarrow> ledger_ok lg \<Longrightarrow> ledger_ok lg'"
  by (induction rule: rtranclp_induct) (auto intro: ledger_step_ok)

lemma empty_ledger_ok: "ledger_ok empty_ledger"
  by (simp add: ledger_ok_def empty_ledger_def outcomes_of_def outcome_chain_def)

subsection \<open>Append-only, and terminal outcomes are final\<close>

definition terminal :: "landing_outcome list \<Rightarrow> bool" where
  "terminal os \<longleftrightarrow> os \<noteq> [] \<and> oc_status (last os) \<noteq> Out_reconcile_required"

definition extends :: "admission_ledger \<Rightarrow> admission_ledger \<Rightarrow> bool" where
  "extends lg lg' \<longleftrightarrow> prefix (lg_admissions lg) (lg_admissions lg')
     \<and> prefix (lg_outcomes lg) (lg_outcomes lg')
     \<and> (\<forall>i. truthy i \<and> terminal (outcomes_of i lg) \<longrightarrow> outcomes_of i lg' = outcomes_of i lg)"

lemma extends_refl [simp]: "extends lg lg"
  by (simp add: extends_def)

lemma extends_trans: "extends lg lg' \<Longrightarrow> extends lg' lg'' \<Longrightarrow> extends lg lg''"
  unfolding extends_def by (auto intro: prefix_order.trans)

lemma ledger_step_extends:
  assumes "ledger_step lg lg'" and "ledger_ok lg"
  shows "extends lg lg'"
  using assms(1)
proof (cases rule: ledger_step.cases)
  case (admitting draft a r)
  note ids = validated_admission_ids [OF admitting(1)]
  from create_admission_cases [OF admitting(2) ids(2)] show ?thesis
    by cases (auto simp: extends_def outcomes_of_def)
next
  case (observing out r)
  then show ?thesis
  proof (cases rule: create_outcome_cases)
    case 1
    then show ?thesis by simp
  next
    case (2 a)
    have "oc_admission_id out \<noteq> i" if "terminal (outcomes_of i lg)" "truthy i" for i
    proof
      assume i: "oc_admission_id out = i"
      have "latest_outcome i lg = Some (last (outcomes_of i lg))"
        using latest_outcome_last [OF that(2)] that(1) assms(2) by (auto simp: ledger_ok_def terminal_def)
      with 2(6) i that(1) show False
        by (auto simp: check_outcome_chain_def validate_outcome_successor_def terminal_def)
    qed
    then show ?thesis by (auto simp: extends_def 2(1) outcomes_of_append)
  qed
qed

lemma ledger_run_extends: "ledger_run lg lg' \<Longrightarrow> ledger_ok lg \<Longrightarrow> extends lg lg'"
  by (induction rule: rtranclp_induct)
    (auto intro: ledger_step_extends extends_trans dest: ledger_run_ok)


subsection \<open>The guard only takes steps of the ledger\<close>

text \<open>The second part follows a view on the rest of the world that the calls leave alone.\<close>

definition keeps_view :: "('w \<Rightarrow> 'v) \<Rightarrow> ('w, 'a) eff \<Rightarrow> bool" where
  "keeps_view view n \<longleftrightarrow> (\<forall>w r w'. n w = (r, w') \<longrightarrow> view w' = view w)"

definition quiet_ports :: "('w \<Rightarrow> 'v) \<Rightarrow> 'w admission_ports \<Rightarrow> bool" where
  "quiet_ports view ports \<longleftrightarrow> (case ap_state_provider ports of None \<Rightarrow> True | Some n \<Rightarrow> keeps_view view n)
     \<and> keeps_view view (ap_admission_time ports) \<and> keeps_view view (ap_observation_time ports)
     \<and> (\<forall>q. keeps_view view (ap_evaluate ports q))"

definition advances :: "('w \<Rightarrow> 'v) \<Rightarrow> ('w admission_world, 'a) eff \<Rightarrow> bool" where
  "advances view m \<longleftrightarrow> (\<forall>s r s'. m s = (r, s') \<longrightarrow> ledger_run (aw_ledger s) (aw_ledger s')
     \<and> view (aw_rest s') = view (aw_rest s))"

named_theorems advances_intros \<open>code that advances the ledger\<close>

lemma advancesD:
  "advances view m \<Longrightarrow> m s = (r, s') \<Longrightarrow> ledger_run (aw_ledger s) (aw_ledger s') \<and> view (aw_rest s') = view (aw_rest s)"
  by (simp add: advances_def)

lemma advances_pure [advances_intros]:
  "advances view (give x)" "advances view (raise e)" "advances view (lift_res r)" "advances view (requireE p e)"
  "advances view (reading f)"
  by (auto simp: advances_def give_def raise_def lift_res_def requireE_def reading_def split: if_splits)

lemma advances_outside [advances_intros]: "keeps_view view n \<Longrightarrow> advances view (outside n)"
  by (auto simp: advances_def outside_def keeps_view_def split: prod.splits)

lemma quiet_portsD [advances_intros]:
  assumes "quiet_ports view ports"
  shows "keeps_view view (ap_admission_time ports)" and "keeps_view view (ap_observation_time ports)"
    and "keeps_view view (ap_evaluate ports q)"
  using assms by (simp_all add: quiet_ports_def)

lemma advances_andDo_strong:
  assumes "advances view m" and "\<And>s x s'. m s = (Inr x, s') \<Longrightarrow> advances view (f x)"
  shows "advances view (andDo m f)"
  unfolding advances_def
proof (intro allI impI)
  fix s r s' assume run: "andDo m f s = (r, s')"
  obtain x s1 where m: "m s = (x, s1)" by (cases "m s")
  note first = advancesD [OF assms(1) m]
  show "ledger_run (aw_ledger s) (aw_ledger s') \<and> view (aw_rest s') = view (aw_rest s)"
  proof (cases x)
    case (Inl e)
    with run m first show ?thesis by (simp add: andDo_def)
  next
    case (Inr y)
    with run m have "f y s1 = (r, s')" by (simp add: andDo_def)
    from advancesD [OF assms(2) this] m Inr first show ?thesis by (metis rtranclp_trans)
  qed
qed

lemma advances_andDo [advances_intros]: "advances view m \<Longrightarrow> (\<And>x. advances view (f x)) \<Longrightarrow> advances view (andDo m f)"
  by (rule advances_andDo_strong)

lemma advances_if [advances_intros]: "advances view m \<Longrightarrow> advances view m' \<Longrightarrow> advances view (if b then m else m')"
  by simp

lemma advances_option [advances_intros]:
  "(x = None \<Longrightarrow> advances view m) \<Longrightarrow> (\<And>y. x = Some y \<Longrightarrow> advances view (f y))
     \<Longrightarrow> advances view (case x of None \<Rightarrow> m | Some y \<Rightarrow> f y)"
  by (cases x) auto

lemma advances_list [advances_intros]:
  "(xs = [] \<Longrightarrow> advances view m) \<Longrightarrow> (\<And>y ys. xs = y # ys \<Longrightarrow> advances view (f y ys))
     \<Longrightarrow> advances view (case xs of [] \<Rightarrow> m | y # ys \<Rightarrow> f y ys)"
  by (cases xs) auto

lemma advances_prod [advances_intros]: "(\<And>x y. p = (x, y) \<Longrightarrow> advances view (f x y)) \<Longrightarrow> advances view (case p of (x, y) \<Rightarrow> f x y)"
  by (cases p) auto

lemma advances_status [advances_intros]:
  "advances view m \<Longrightarrow> advances view m' \<Longrightarrow> advances view m'' \<Longrightarrow>
     advances view (case x of Out_landed \<Rightarrow> m | Out_rejected \<Rightarrow> m' | Out_reconcile_required \<Rightarrow> m'')"
  by (cases x) auto

lemma advances_for_each [advances_intros]: "(\<And>x. advances view (f x)) \<Longrightarrow> advances view (for_each f xs)"
  by (induction xs) (auto intro: advances_intros)

lemma advances_writing_guard [advances_intros]:
  "(\<And>s. aw_ledger (f s) = aw_ledger s) \<Longrightarrow> (\<And>s. aw_rest (f s) = aw_rest s) \<Longrightarrow> advances view (writing f)"
  by (auto simp: advances_def writing_def)

lemma advances_create_outcome [advances_intros]: "advances view (on_ledger (create_outcome_if_absent out))"
  by (auto simp: advances_def on_ledger_def intro: observing split: prod.splits)

lemma advances_refresh [advances_intros]:
  "quiet_ports view ports \<Longrightarrow> advances view (refresh_controller_state ports)"
  unfolding refresh_controller_state_def by (intro advances_intros) (auto simp: quiet_ports_def)

lemma advances_update [advances_intros]:
  "advances view (update_landing_plan_record r)" "advances view (update_landing_plan p)"
  unfolding update_landing_plan_record_def update_landing_plan_def by (rule advances_writing_guard; simp)+

lemma advances_observe [advances_intros]: "advances view (observe a status reason attempted observed_at ob)"
  unfolding observe_def by (intro advances_intros)

lemma advances_record_landed [advances_intros]:
  "advances view (record_landed a entry base base_tree contains attempted observed_at)"
  unfolding record_landed_def by (intro advances_intros)

lemma advances_reconcile_landed [advances_intros]:
  "advances view (reconcile_existing_landed entry base base_tree attempted observed_at)"
  unfolding reconcile_existing_landed_def entry_admissions_def by (intro advances_intros)

lemma advances_reconcile_no_effect [advances_intros]:
  "advances view (reconcile_existing_no_effect entry base base_tree head head_tree state observed_at)"
  unfolding reconcile_existing_no_effect_def entry_admissions_def Let_def by (intro advances_intros)

lemma advances_reconcile_required [advances_intros]:
  "advances view (record_reconcile_required a reason message observed_at)"
  unfolding record_reconcile_required_def by (intro advances_intros)

lemma advances_provider_failure [advances_intros]: "advances view (record_provider_failure a e observed_at)"
  unfolding record_provider_failure_def Let_def by (intro advances_intros)

lemma advances_not_dispatched [advances_intros]: "advances view (record_not_dispatched a observed_at)"
  unfolding record_not_dispatched_def by (intro advances_intros)

lemma advances_batch_no_effect [advances_intros]:
  "advances view (reconcile_batch_no_effect evidence base base_tree observed_at)"
  unfolding reconcile_batch_no_effect_def reconcile_entry_no_effect_def by (intro advances_intros)

subsection \<open>An admission is fenced\<close>

text \<open>A proposal is a validated record; building it leaves ledger and plan as they are.\<close>

definition keeps_plan :: "('w admission_world, 'a) eff \<Rightarrow> bool" where
  "keeps_plan m \<longleftrightarrow> (\<forall>s r s'. m s = (r, s') \<longrightarrow> aw_ledger s' = aw_ledger s
     \<and> gd_landing_record (aw_guard s') = gd_landing_record (aw_guard s)
     \<and> gd_candidate_record (aw_guard s') = gd_candidate_record (aw_guard s))"

lemma keeps_plan_pure [simp]:
  "keeps_plan (outside m)" "keeps_plan (refresh_controller_state ports)"
  by (auto simp: keeps_plan_def outside_def refresh_controller_state_def give_def andDo_def writing_def
    split: prod.splits option.splits sum.splits)


lemma andDo_Inr [simp]:
  "andDo m f s = (Inr x, s') \<longleftrightarrow> (\<exists>y s1. m s = (Inr y, s1) \<and> f y s1 = (Inr x, s'))"
  by (auto simp: andDo_def split: prod.splits sum.splits)

lemma give_Inr [simp]: "give y s = (Inr x, s') \<longleftrightarrow> x = y \<and> s' = s"
  by (auto simp: give_def)

lemma lift_res_Inr [simp]: "lift_res r s = (Inr x, s') \<longleftrightarrow> r = Inr x \<and> s' = s"
  by (auto simp: lift_res_def)

lemma requireE_Inr [simp]: "requireE p e s = (Inr u, s') \<longleftrightarrow> p \<and> s' = s"
  by (auto simp: requireE_def give_def raise_def)

lemma reading_Inr [simp]: "reading f s = (Inr x, s') \<longleftrightarrow> x = f s \<and> s' = s"
  by (auto simp: reading_def)

lemma rescue_Inr [simp]: "rescue f r = Inr x \<longleftrightarrow> r = Inr x"
  by (cases r) (auto simp: rescue_def)

lemma rescueE_Inr [simp]: "rescueE f m s = (Inr x, s') \<longleftrightarrow> m s = (Inr x, s')"
  by (auto simp: rescueE_def split: prod.split)

text \<open>The latest earlier attempt, if there is one, came to a conclusive end.\<close>

definition settled :: "admission list \<Rightarrow> admission_ledger \<Rightarrow> bool" where
  "settled existing lg \<longleftrightarrow> (case max_by ad_attempt_sequence existing of None \<Rightarrow> True
     | Some a \<Rightarrow> (case latest_outcome (ad_admission_id a) lg of None \<Rightarrow> False
         | Some r \<Rightarrow> oc_status r \<noteq> Out_reconcile_required))"

lemma require_settled_Inr: "require_settled existing s = (Inr u, s') \<longleftrightarrow> settled existing (aw_ledger s) \<and> s' = s"
  by (auto simp: require_settled_def settled_def split: option.splits)

definition earlier_attempts :: "landing_plan \<Rightarrow> landing_entry \<Rightarrow> admission_ledger \<Rightarrow> admission list" where
  "earlier_attempts plan entry lg = list_admissions (entry_query plan (le_pull_request_number entry)) lg"

lemma keeps_planD:
  "keeps_plan m \<Longrightarrow> m s = (r, s') \<Longrightarrow> aw_ledger s' = aw_ledger s \<and> guard_plan s' = guard_plan s
     \<and> gd_candidate_record (aw_guard s') = gd_candidate_record (aw_guard s)"
  by (simp add: keeps_plan_def guard_plan_def)

lemma keeps_plan_evaluate [simp]: "keeps_plan (evaluate_entry ports entry base base_tree head head_tree at)"
proof -
  have "keeps_plan (andDo (reading f) (\<lambda>g. outside (m g)))" for f :: "'a admission_world \<Rightarrow> admission_guard" and m
    by (auto simp: keeps_plan_def andDo_def reading_def outside_def split: prod.splits)
  then show ?thesis by (simp add: evaluate_entry_def)
qed

lemma build_proposalE:
  assumes "build_proposal ports entry base base_tree head head_tree s = (Inr a, s')"
  obtains ev attempt at where
    "aw_ledger s' = aw_ledger s" "guard_plan s' = guard_plan s"
    "settled (earlier_attempts (guard_plan s) entry (aw_ledger s)) (aw_ledger s)"
    "validate_admission (proposed_admission (aw_guard s') entry base base_tree head head_tree ev attempt
       (next_attempt (earlier_attempts (guard_plan s) entry (aw_ledger s))) at) = Inr a"
proof -
  from assms obtain s1 started s2 ev s3 at s4 s5 attempt u1 u2 where
      steps: "refresh_controller_state ports s = (Inr u1, s1)"
      "outside (ap_admission_time ports) s1 = (Inr started, s2)"
      "settled (earlier_attempts (guard_plan s2) entry (aw_ledger s2)) (aw_ledger s2)"
      "evaluate_entry ports entry base base_tree head head_tree started s2 = (Inr ev, s3)"
      "outside (ap_admission_time ports) s3 = (Inr at, s4)"
      "refresh_controller_state ports s4 = (Inr u2, s5)"
    and result: "validate_admission (proposed_admission (aw_guard s5) entry base base_tree head head_tree ev attempt
       (next_attempt (earlier_attempts (guard_plan s2) entry (aw_ledger s2))) at) = Inr a" "s' = s5"
    unfolding build_proposal_def entry_admissions_def earlier_attempts_def Let_def
    by (auto simp: require_settled_Inr)
  note keep = keeps_planD [OF keeps_plan_pure(2) steps(1)] keeps_planD [OF keeps_plan_pure(1) steps(2)]
    keeps_planD [OF keeps_plan_evaluate steps(4)] keeps_planD [OF keeps_plan_pure(1) steps(5)]
    keeps_planD [OF keeps_plan_pure(2) steps(6)]
  show ?thesis
    by (rule that [of ev attempt at]) (use keep steps(3) result in simp_all)
qed

lemma normalize_git_sha_Inr: "normalize_git_sha value field_name = Inr t \<Longrightarrow> t = py_lower (py_strip value)"
  by (auto simp: normalize_git_sha_def required_token_Inr split: if_splits)

text \<open>What a validated admission says, in terms of its draft.\<close>

lemma admission_tokens_keep:
  assumes "admission_tokens a = Inr b"
  shows "ad_attempt_sequence b = ad_attempt_sequence a" "ad_pull_request_number b = ad_pull_request_number a"
    "ad_effective_base_sha b = ad_effective_base_sha a" "ad_head_sha b = ad_head_sha a"
    "ad_head_tree_sha b = ad_head_tree_sha a" "ad_effective_base_tree_sha b = ad_effective_base_tree_sha a"
    "ad_merge_method b = ad_merge_method a" "ad_landing_plan_id b = py_strip (ad_landing_plan_id a)"
  using assms by (auto simp: admission_tokens_def required_token_Inr)

lemma admission_shas_keep:
  assumes "admission_shas a = Inr b"
  shows "ad_attempt_sequence b = ad_attempt_sequence a" "ad_pull_request_number b = ad_pull_request_number a"
    "ad_effective_base_sha b = py_lower (py_strip (ad_effective_base_sha a))"
    "ad_head_sha b = py_lower (py_strip (ad_head_sha a))"
    "ad_head_tree_sha b = py_lower (py_strip (ad_head_tree_sha a))"
    "ad_effective_base_tree_sha b = py_lower (py_strip (ad_effective_base_tree_sha a))"
    "ad_merge_method b = ad_merge_method a" "ad_landing_plan_id b = ad_landing_plan_id a"
  using assms by (auto simp: admission_shas_def dest!: normalize_git_sha_Inr)

lemma check_admission_evidence_Inr:
  "check_admission_evidence a = Inr u \<Longrightarrow> rr_state (ad_readiness a) = Rd_ready
     \<and> admission_matches_target a (rr_target (ad_readiness a))
     \<and> sr_status (ad_structural_result a) \<in> {St_exact, St_recorded_rolling}
     \<and> admission_matches_structure a (ad_structural_result a)"
  by (auto simp: check_admission_evidence_def Let_def)

lemma validated_admission:
  assumes "validate_admission d = Inr a"
  shows "ad_attempt_sequence a = ad_attempt_sequence d" "ad_pull_request_number a = ad_pull_request_number d"
    "ad_effective_base_sha a = py_lower (py_strip (ad_effective_base_sha d))"
    "ad_head_sha a = py_lower (py_strip (ad_head_sha d))"
    "rr_state (ad_readiness a) = Rd_ready" "admission_matches_target a (rr_target (ad_readiness a))"
    "sr_status (ad_structural_result a) \<in> {St_exact, St_recorded_rolling}"
    "ad_landing_plan_id a = py_strip (ad_landing_plan_id d)"
proof -
  obtain b c where b: "admission_tokens d = Inr b" and c: "admission_shas b = Inr c"
    and checked: "check_admission_evidence c = Inr ()"
    and a: "a = c\<lparr>ad_binding_sha256 := ad_binding_sha256 a, ad_admission_id := ad_admission_id a\<rparr>"
    using assms by (auto simp: validate_admission_def Let_def)
  note evidence = check_admission_evidence_Inr [OF checked]
  show "ad_attempt_sequence a = ad_attempt_sequence d" "ad_pull_request_number a = ad_pull_request_number d"
    "ad_effective_base_sha a = py_lower (py_strip (ad_effective_base_sha d))"
    "ad_head_sha a = py_lower (py_strip (ad_head_sha d))"
    "ad_landing_plan_id a = py_strip (ad_landing_plan_id d)"
    by (subst a, simp add: admission_tokens_keep [OF b] admission_shas_keep [OF c])+
  show "rr_state (ad_readiness a) = Rd_ready" "sr_status (ad_structural_result a) \<in> {St_exact, St_recorded_rolling}"
    by (subst a, use evidence in simp)+
  show "admission_matches_target a (rr_target (ad_readiness a))"
    by (subst (1 2) a) (use evidence in \<open>simp add: admission_matches_target_def\<close>)
qed


text \<open>
  The controller state in the store backs the admission: it runs under the admission's lease, which
  ends strictly after the admission was made, with the policy that was found current, and its step
  is about to have exactly this effect.
\<close>

definition fence_backs :: "controller_store \<Rightarrow> admission \<Rightarrow> bool" where
  "fence_backs store a \<longleftrightarrow> (\<exists>st made ends. read_controller_state store (ad_controller_key a) = Some (Inr st)
     \<and> cs_status st = Cs_running \<and> cs_lease_owner st = ad_lease_owner a
     \<and> normalize_timestamp (cs_lease_acquired_at st) ''lease_acquired_at'' = Inr (ad_lease_acquired_at a)
     \<and> timestamp_micros (ad_created_at a) ''admitted_at'' = Inr made
     \<and> timestamp_micros (cs_lease_expires_at st) ''lease_expires_at'' = Inr ends \<and> made < ends
     \<and> fp_current_sha256 (pf_merge_train (yf_fingerprints (rr_policy (ad_readiness a)))) = Some (cs_policy_sha256 st)
     \<and> cs_active_pull_request_number st = Some (ad_pull_request_number a)
     \<and> payload_string ''expected_effect_sha'' (cs_step_payload st) = ad_expected_effect_sha a
     \<and> payload_string ''landing_plan_id'' (cs_step_payload st) = ad_landing_plan_id a)"

lemma fence_backsI:
  assumes "read_controller_state store (ad_controller_key a) = Some (Inr st)"
    and "validate_admission_controller_fence a st (ad_created_at a) = Inr ()"
  shows "fence_backs store a"
proof -
  have same: "fence_identity a st = Inr True"
    using assms(2) by (auto simp: validate_admission_controller_fence_def)
  then have "cs_status st = Cs_running" "cs_lease_owner st = ad_lease_owner a"
      "normalize_timestamp (cs_lease_acquired_at st) ''lease_acquired_at'' = Inr (ad_lease_acquired_at a)"
    by (auto simp: fence_identity_def split: if_splits)
  moreover obtain made ends where
      "timestamp_micros (ad_created_at a) ''admitted_at'' = Inr made"
      "timestamp_micros (cs_lease_expires_at st) ''lease_expires_at'' = Inr ends" "made < ends"
    using assms(2) by (auto simp: validate_admission_controller_fence_def)
  moreover have "fp_current_sha256 (pf_merge_train (yf_fingerprints (rr_policy (ad_readiness a)))) = Some (cs_policy_sha256 st)"
      "cs_active_pull_request_number st = Some (ad_pull_request_number a)"
      "payload_string ''expected_effect_sha'' (cs_step_payload st) = ad_expected_effect_sha a"
      "payload_string ''landing_plan_id'' (cs_step_payload st) = ad_landing_plan_id a"
    using assms(2) by (auto simp: validate_admission_controller_fence_def Let_def)
  ultimately show ?thesis using assms(1) unfolding fence_backs_def by blast
qed

lemma persist_proposalE:
  assumes "persist_proposal ports a s = (Inr b, s')" and "truthy (ad_attempt_id a)"
  shows "b = a" "aw_guard s' = aw_guard s" "aw_rest s' = aw_rest s"
    "aw_ledger s' = (aw_ledger s)\<lparr>lg_admissions := lg_admissions (aw_ledger s) @ [a]\<rparr>"
    "fence_backs (ap_controllers ports (aw_rest s)) a"
proof -
  let ?controllers = "ap_controllers ports (aw_rest s)"
  have "create_guarded ports a s = (Inr (b, True), s')"
    using assms(1) by (auto simp: persist_proposal_def)
  then obtain lg' where run: "create_guarded_admission_if_absent ?controllers a (ad_created_at a) (aw_ledger s)
        = (Inr (b, True), lg')" and s': "s' = s\<lparr>aw_ledger := lg'\<rparr>"
    by (auto simp: create_guarded_def on_ledger_def split: prod.splits)
  then obtain st where st: "read_controller_state ?controllers (ad_controller_key a) = Some (Inr st)"
      "validate_admission_controller_fence a st (ad_created_at a) = Inr ()"
      "create_admission_if_absent a (aw_ledger s) = (Inr (b, True), lg')"
    by (auto simp: create_guarded_admission_if_absent_def raise_def split: option.splits)
  from create_admission_cases [OF st(3) assms(2)]
  have "b = a \<and> lg' = (aw_ledger s)\<lparr>lg_admissions := lg_admissions (aw_ledger s) @ [a]\<rparr>"
    by cases auto
  with s' fence_backsI [OF st(1,2)] show "b = a" "aw_guard s' = aw_guard s" "aw_rest s' = aw_rest s"
    "aw_ledger s' = (aw_ledger s)\<lparr>lg_admissions := lg_admissions (aw_ledger s) @ [a]\<rparr>"
    "fence_backs (ap_controllers ports (aw_rest s)) a" by auto
qed

lemma foldl_max_start: "m \<le> foldl max m (xs :: nat list)"
proof (induction xs arbitrary: m)
  case Nil
  show ?case by simp
next
  case (Cons x xs)
  from Cons.IH [of "max m x"] show ?case by simp
qed

lemma foldl_max_member: "x \<in> set xs \<Longrightarrow> x \<le> foldl max m (xs :: nat list)"
proof (induction xs arbitrary: m)
  case Nil
  then show ?case by simp
next
  case (Cons y ys)
  from foldl_max_start [of "max m y" ys] Cons show ?case by auto
qed

lemma next_attempt_greater: "b \<in> set existing \<Longrightarrow> ad_attempt_sequence b < next_attempt existing"
  using foldl_max_member [of "ad_attempt_sequence b" "map ad_attempt_sequence existing" 0]
  by (simp add: next_attempt_def)

lemma advances_admit [advances_intros]:
  assumes quiet: "quiet_ports view ports"
  shows "advances view (admit ports entry base base_tree head head_tree)"
proof -
  have "advances view (build_proposal ports entry base base_tree head head_tree)"
    unfolding build_proposal_def entry_admissions_def require_settled_def evaluate_entry_def Let_def
    by (intro advances_intros quiet)
  moreover have "advances view (persist_proposal ports a)"
    if run: "build_proposal ports entry base base_tree head head_tree s = (Inr a, s')" for s a s'
  proof -
    from build_proposalE [OF run] obtain d where "validate_admission d = Inr a" by metis
    then have "advances view (create_guarded ports a)"
      by (auto simp: advances_def create_guarded_def create_guarded_admission_if_absent_def on_ledger_def
        reading_def lift_res_def raise_def andDo_def intro: admitting split: prod.splits sum.splits option.splits)
    then have "advances view (rescueE fence_denied (create_guarded ports a))"
      by (auto simp: advances_def rescueE_def split: prod.splits)
    then show ?thesis unfolding persist_proposal_def by (intro advances_intros)
  qed
  ultimately show ?thesis unfolding admit_def by (rule advances_andDo_strong)
qed

lemma admission_is_fenced_lemma:
  assumes "admit ports entry base base_tree head head_tree s = (Inr a, s')"
  shows "aw_ledger s' = (aw_ledger s)\<lparr>lg_admissions := lg_admissions (aw_ledger s) @ [a]\<rparr>
    \<and> ad_pull_request_number a = le_pull_request_number entry
    \<and> ad_landing_plan_id a = py_strip (lp_plan_id (guard_plan s))
    \<and> settled (earlier_attempts (guard_plan s) entry (aw_ledger s)) (aw_ledger s)
    \<and> (\<forall>b \<in> set (earlier_attempts (guard_plan s) entry (aw_ledger s)).
         ad_attempt_sequence b < ad_attempt_sequence a)
    \<and> ad_effective_base_sha a = py_lower (py_strip base) \<and> ad_head_sha a = py_lower (py_strip head)
    \<and> rr_state (ad_readiness a) = Rd_ready \<and> admission_matches_target a (rr_target (ad_readiness a))
    \<and> sr_status (ad_structural_result a) \<in> {St_exact, St_recorded_rolling}
    \<and> fence_backs (ap_controllers ports (aw_rest s')) a"
proof -
  obtain b s1 where build: "build_proposal ports entry base base_tree head head_tree s = (Inr b, s1)"
      and persist: "persist_proposal ports b s1 = (Inr a, s')"
    using assms by (auto simp: admit_def)
  obtain ev attempt at where kept: "aw_ledger s1 = aw_ledger s" "guard_plan s1 = guard_plan s"
      and settled: "settled (earlier_attempts (guard_plan s) entry (aw_ledger s)) (aw_ledger s)"
      and valid: "validate_admission (proposed_admission (aw_guard s1) entry base base_tree head head_tree ev attempt
         (next_attempt (earlier_attempts (guard_plan s) entry (aw_ledger s))) at) = Inr b"
    by (rule build_proposalE [OF build])
  note stored = persist_proposalE [OF persist validated_admission_ids(2) [OF valid]]
  have "ln_landing_plan (gd_landing_record (aw_guard s1)) = guard_plan s"
    using kept(2) by (simp add: guard_plan_def)
  then show ?thesis
    using stored kept(1) settled validated_admission [OF valid] next_attempt_greater
    by (simp add: proposed_admission_def Let_def)
qed


subsection \<open>Recorded landings\<close>

text \<open>Some admission of the pull request ended with a landing.\<close>

definition landing_recorded :: "admission_ledger \<Rightarrow> nat \<Rightarrow> bool" where
  "landing_recorded lg n \<longleftrightarrow> (\<exists>a \<in> set (lg_admissions lg). ad_pull_request_number a = n
     \<and> outcomes_of (ad_admission_id a) lg \<noteq> []
     \<and> oc_status (last (outcomes_of (ad_admission_id a) lg)) = Out_landed)"

lemma landing_recorded_mono:
  assumes "landing_recorded lg n" and "extends lg lg'" and "ledger_ok lg"
  shows "landing_recorded lg' n"
proof -
  obtain a where a: "a \<in> set (lg_admissions lg)" "ad_pull_request_number a = n"
      "outcomes_of (ad_admission_id a) lg \<noteq> []"
      "oc_status (last (outcomes_of (ad_admission_id a) lg)) = Out_landed"
    using assms(1) by (auto simp: landing_recorded_def)
  have "a \<in> set (lg_admissions lg')"
    using a(1) assms(2) by (auto simp: extends_def dest: set_mono_prefix)
  moreover have "truthy (ad_admission_id a)" using a(1) assms(3) by (auto simp: ledger_ok_def)
  then have "outcomes_of (ad_admission_id a) lg' = outcomes_of (ad_admission_id a) lg"
    using assms(2) a by (auto simp: extends_def terminal_def)
  ultimately show ?thesis using a by (auto simp: landing_recorded_def)
qed

lemma chain_conclusive_last:
  assumes "outcome_chain os" and "r \<in> set os" and "oc_status r \<noteq> Out_reconcile_required"
  shows "r = last os"
proof (rule ccontr)
  assume "r \<noteq> last os"
  with assms(2) have "r \<in> set (butlast os)" by (metis append_butlast_last_id in_set_conv_decomp rotate1.simps(2) set_rotate1 set_ConsD empty_iff list.set(1))
  then obtain xs y ys where "os = xs @ [r, y] @ ys"
    by (metis append.assoc append_Cons append_Nil append_butlast_last_id butlast.simps(1) empty_iff list.set(1)
      neq_Nil_conv snoc_eq_iff_butlast split_list)
  with assms(1,3) show False
    by (auto simp: outcome_chain_def successively_append_iff validate_outcome_successor_def)
qed

lemma outcome_identity:
  "validate_outcome_for_admission a r = Inr () \<Longrightarrow> oc_pull_request_number r = ad_pull_request_number a"
  by (auto simp: validate_outcome_for_admission_def outcome_identity_matches_def)

lemma normalize_outcome_keeps:
  "normalize_outcome d = Inr r \<Longrightarrow> oc_status r = oc_status d \<and> oc_pull_request_number r = oc_pull_request_number d"
  by (auto simp: normalize_outcome_def)

lemma validate_outcome_keeps:
  "validate_outcome d = Inr r \<Longrightarrow> oc_status r = oc_status d \<and> oc_pull_request_number r = oc_pull_request_number d"
  by (auto simp: validate_outcome_def Let_def dest: normalize_outcome_keeps)

lemma stored_outcome:
  assumes "create_outcome_if_absent r lg = (Inr (x, fresh), lg')"
  shows "x = r" and "r \<in> set (lg_outcomes lg')"
proof -
  let ?listed = "list_outcomes (any_outcome\<lparr>oq_admission_id := oc_admission_id r, oq_sequence := Some (oc_sequence r)\<rparr>) lg"
  have "x = r \<and> r \<in> set (lg_outcomes lg')"
  proof (cases ?listed)
    case Nil
    then have "append_outcome r lg = (Inr (x, fresh), lg')"
      using assms by (simp add: create_outcome_if_absent_def split: option.splits sum.splits)
    then show ?thesis
      by (auto simp: append_outcome_def read_outcome_def split: option.splits if_splits dest!: find_SomeD)
  next
    case (Cons y ys)
    then have "y \<in> set (lg_outcomes lg)" by (auto simp: list_outcomes_def dest!: order_desc_Cons(1))
    with Cons assms show ?thesis
      by (simp add: create_outcome_if_absent_def split: option.splits sum.splits if_splits)
  qed
  then show "x = r" and "r \<in> set (lg_outcomes lg')" by simp_all
qed

lemma outcome_draft_fields [simp]:
  "oc_status (outcome_draft trace_id previous a status reason attempted at ob) = status"
  "oc_pull_request_number (outcome_draft trace_id previous a status reason attempted at ob) = ad_pull_request_number a"
  by (simp_all add: outcome_draft_def)

lemma on_ledger_Inr: "on_ledger m s = (Inr x, s') \<longleftrightarrow> (\<exists>lg'. m (aw_ledger s) = (Inr x, lg') \<and> s' = s\<lparr>aw_ledger := lg'\<rparr>)"
  by (auto simp: on_ledger_def split: prod.split)

lemma observed_landing:
  assumes "observe a Out_landed reason attempted at ob s = (Inr x, s')" and "ledger_ok (aw_ledger s)"
  shows "landing_recorded (aw_ledger s') (ad_pull_request_number a)"
proof -
  obtain d r fresh where r: "validate_outcome d = Inr r" "oc_status d = Out_landed"
      "oc_pull_request_number d = ad_pull_request_number a"
      and stored: "create_outcome_if_absent r (aw_ledger s) = (Inr (x, fresh), aw_ledger s')"
    using assms(1) by (auto simp: observe_def on_ledger_Inr)
  have ok: "ledger_ok (aw_ledger s')" using assms(2) stored by (blast intro: ledger_step_ok observing)
  note kept = validate_outcome_keeps [OF r(1)]
  have mem: "r \<in> set (lg_outcomes (aw_ledger s'))" using stored_outcome [OF stored] by simp
  then obtain b where b: "b \<in> set (lg_admissions (aw_ledger s'))" "oc_admission_id r = ad_admission_id b"
      "validate_outcome_for_admission b r = Inr ()"
    using ok by (auto simp: ledger_ok_def)
  have "r \<in> set (outcomes_of (ad_admission_id b) (aw_ledger s'))" using mem b by (simp add: outcomes_of_def)
  moreover from this have "r = last (outcomes_of (ad_admission_id b) (aw_ledger s'))"
    using ok kept r by (intro chain_conclusive_last) (auto simp: ledger_ok_def)
  ultimately show ?thesis
    using b kept r outcome_identity [OF b(3)] unfolding landing_recorded_def by (metis empty_iff list.set(1))
qed

lemma record_landed_recorded:
  "record_landed a entry base base_tree contains attempted at s = (Inr x, s') \<Longrightarrow> ledger_ok (aw_ledger s)
     \<Longrightarrow> landing_recorded (aw_ledger s') (ad_pull_request_number a)"
  by (auto simp: record_landed_def dest: observed_landing)

lemma listed_admission:
  assumes "list_admissions (entry_query plan n) lg = a # rest"
  shows "a \<in> set (lg_admissions lg)" and "ad_pull_request_number a = n"
  using order_desc_Cons(1) [OF assms [unfolded list_admissions_def]]
  by (auto simp: entry_query_def admission_selected_def any_admission_def)

lemma reconciled_landing:
  assumes "reconcile_existing_landed entry base base_tree attempted at s = (Inr x, s')"
    and "ledger_ok (aw_ledger s)"
  shows "landing_recorded (aw_ledger s') (le_pull_request_number entry)"
proof -
  obtain a rest where listed: "list_admissions (entry_query (guard_plan s) (le_pull_request_number entry)) (aw_ledger s)
      = a # rest"
    using assms(1) by (auto simp: reconcile_existing_landed_def entry_admissions_def raise_def split: list.splits)
  note a = listed_admission [OF listed]
  have id: "truthy (ad_admission_id a)" using a assms(2) by (auto simp: ledger_ok_def)
  let ?latest = "latest_outcome (ad_admission_id a) (aw_ledger s)"
  show ?thesis
  proof (cases "map_option oc_status ?latest = Some Out_landed")
    case True
    then have "s' = s" using assms(1) listed
      by (auto simp: reconcile_existing_landed_def entry_admissions_def)
    with True a id assms(2) latest_outcome_last [OF id] show ?thesis
      by (auto simp: landing_recorded_def ledger_ok_def split: if_splits)
  next
    case False
    then have "record_landed a entry base base_tree True attempted at s = (Inr x, s')"
      using assms(1) listed
      by (auto simp: reconcile_existing_landed_def entry_admissions_def raise_def
        split: option.splits outcome_status.splits)
    with record_landed_recorded assms(2) a(2) show ?thesis by metis
  qed
qed

end
