(* ===== verification/Mt_Admission_Example.thy ===== *)
theory Mt_Admission_Example
  imports Mt_Admission Mt_Readiness_Properties Mt_Batch_Properties
begin

section \<open>A concrete admission\<close>

text \<open>
  A guard over a plan with one entry, ports that answer constants, and the admission that \<open>admit\<close>
  makes of them. Digests stay symbolic; everything else is evaluated.
\<close>

definition lx_start :: string where "lx_start = ''2026-01-01T00:00:00.000000Z''"
definition lx_end :: string where "lx_end = ''2026-01-01T00:10:00.000000Z''"

definition lx_key :: string where "lx_key = controller_key_of ''o/r'' ''main''"

definition lx_entry :: landing_entry where
  "lx_entry = \<lparr>le_pull_request_number = 7, le_position = 1, le_expected_head_sha = rx_sha (CHR ''b''),
     le_expected_head_tree_sha = rx_sha (CHR ''c''), le_expected_base_sha = rx_sha (CHR ''a''),
     le_merge_method = Method_merge, le_status = Land_planned,
     le_recorded_candidate_parent_sha = rx_sha (CHR ''a''),
     le_recorded_candidate_parent_tree_sha = rx_sha (CHR ''1''),
     le_recorded_candidate_result_sha = rx_sha (CHR ''d''),
     le_recorded_candidate_result_tree_sha = rx_sha (CHR ''e''), le_recorded_rolling_base_sha = '''',
     le_recorded_rolling_base_tree_sha = '''', le_landed_head_sha = '''', le_landed_head_tree_sha = '''',
     le_merge_commit_sha = '''', le_merge_commit_tree_sha = ''''\<rparr>"

text \<open>
  The plan is bound to the batch pull request 9, so that a protected landing can use it too; an
  admission and an ordinary landing do not read that number.
\<close>

definition lx_ref :: string where "lx_ref = ''refs/heads/launchplane/train/o/r/main/batch''"

definition lx_draft_plan :: landing_plan where
  "lx_draft_plan = \<lparr>lp_plan_id = ''plan'', lp_batch_id = ''batch'', lp_repository = ''o/r'',
     lp_base_branch = ''main'', lp_candidate_ref = lx_ref, lp_candidate_sha = rx_sha (CHR ''d''),
     lp_candidate_tree_sha = rx_sha (CHR ''e''), lp_candidate_sha256 = replicate 64 (CHR ''1''),
     lp_structural_provenance_sha256 = replicate 64 (CHR ''2''), lp_policy_key = ''o/r:main'',
     lp_policy_sha256 = replicate 64 (CHR ''e''), lp_entries = [lx_entry], lp_created_at = lx_start,
     lp_landing_plan_sha256 = '''', lp_candidate_pull_request_number = Some 9\<rparr>"

definition lx_plan :: landing_plan where
  "lx_plan = lx_draft_plan\<lparr>lp_landing_plan_sha256 := landing_plan_sha256 lx_draft_plan\<rparr>"

definition lx_state :: controller_state where
  "lx_state = \<lparr>cs_ordinary_job_binding = None, cs_controller_key = lx_key, cs_repository = ''o/r'',
     cs_base_branch = ''main'', cs_policy_key = ''o/r:main'', cs_policy_sha256 = replicate 64 (CHR ''e''),
     cs_status = Cs_running, cs_updated_at = lx_start, cs_lease_owner = ''me'',
     cs_lease_acquired_at = lx_start, cs_lease_expires_at = lx_end, cs_heartbeat_at = lx_start,
     cs_active_action = ''land_batch'', cs_active_phase = ''merge_entry'', cs_active_record_id = '''',
     cs_active_pull_request_number = Some 7,
     cs_step_payload = [(''expected_effect_sha'', JStr (rx_sha (CHR ''d''))), (''landing_plan_id'', JStr ''plan'')],
     cs_last_owner = '''', cs_last_action = '''', cs_last_phase = '''', cs_last_record_id = '''',
     cs_last_pull_request_number = None, cs_last_transition_at = '''', cs_reconciliation_status = Rec_clean,
     cs_reconciliation_detail = '''', cs_last_result = None, cs_semantic_progress_key = ''''\<rparr>"

definition lx_guard :: admission_guard where
  "lx_guard = open_guard
     \<lparr>cn_ordinary_job_binding = None, cn_schema_version = 1, cn_record_id = ''candidate'', cn_status = Br_active,
      cn_source = ''k'', cn_updated_at = lx_start, cn_candidate = ex_bound_candidate, cn_block_intent = None\<rparr>
     \<lparr>ln_ordinary_job_binding = None, ln_schema_version = 1, ln_record_id = ''landing'', ln_status = Br_active,
      ln_source = ''k'', ln_updated_at = lx_start, ln_landing_plan = lx_plan, ln_historical_completion = None\<rparr>
     lx_state ''trace'' None"

definition lx_readiness :: readiness_result where
  "lx_readiness = \<lparr>rr_schema_version = 1, rr_authorizes = [], rr_engineering_review_authority = Authority_advisory,
     rr_target = rx_target, rr_state = Rd_ready, rr_reason_codes = [''ready''], rr_owner_facets = [],
     rr_technical_checks = \<lparr>tf_evidence = rx_checks, tf_state = Rd_ready, tf_reason_codes = [''ready'']\<rparr>,
     rr_engineering_review = \<lparr>ef_status = ''advisory'', ef_decision_id = '''', ef_decision_binding_sha256 = '''',
       ef_head_sha = '''', ef_tree_sha = '''', ef_evidence = [], ef_state = Rd_ready,
       ef_reason_codes = [''ready'']\<rparr>,
     rr_policy = \<lparr>yf_fingerprints = rx_fingerprints, yf_state = Rd_ready, yf_reason_codes = [''ready'']\<rparr>,
     rr_candidate = \<lparr>cf_evidence = rx_candidate, cf_state = Rd_ready, cf_reason_codes = [''ready'']\<rparr>,
     rr_fence = \<lparr>ff_evidence = rx_fence\<lparr>fe_controller_key := lx_key, fe_lease_expires_at := lx_end\<rparr>,
       ff_state = Rd_ready, ff_reason_codes = [''ready'']\<rparr>,
     rr_evaluated_at = lx_start, rr_readiness_digest = replicate 64 (CHR ''3'')\<rparr>"

definition lx_structural :: structural_result where
  "lx_structural = \<lparr>sr_status = St_exact, sr_reason_codes = [''structural_exact''],
     sr_effective_base_sha = rx_sha (CHR ''a''), sr_effective_base_tree_sha = rx_sha (CHR ''1''),
     sr_candidate_sha256 = replicate 64 (CHR ''1''), sr_landing_plan_sha256 = landing_plan_sha256 lx_draft_plan,
     sr_provenance_sha256 = replicate 64 (CHR ''2'')\<rparr>"

definition lx_ports :: "'w admission_ports" where
  "lx_ports = \<lparr>ap_controllers = (\<lambda>_. [(lx_key, lx_state)]), ap_state_provider = None,
     ap_admission_time = give lx_start, ap_observation_time = give lx_start,
     ap_evaluate = (\<lambda>_. give \<lparr>ev_readiness = lx_readiness, ev_structural = lx_structural\<rparr>)\<rparr>"

definition lx_world :: "'w \<Rightarrow> 'w admission_world" where
  "lx_world w = \<lparr>aw_guard = lx_guard, aw_ledger = \<lparr>lg_admissions = [], lg_outcomes = []\<rparr>, aw_rest = w\<rparr>"

subsection \<open>Its identity\<close>

definition lx_attempt :: string where
  "lx_attempt = ''merge-effect-attempt-'' @ take 24 (compact_sorted_json_sha256 (JObj [
     (''controller_key'', JStr lx_key), (''lease_owner'', JStr ''me''),
     (''lease_acquired_at'', JStr lx_start), (''landing_plan_id'', JStr ''plan''),
     (''pull_request_number'', json_nat 7), (''queue_position'', json_nat 1),
     (''attempt_sequence'', json_nat 1), (''expected_effect_sha'', JStr (rx_sha (CHR ''d'')))]))"

definition lx_proposal :: admission where
  "lx_proposal = proposed_admission lx_guard lx_entry (rx_sha (CHR ''a'')) (rx_sha (CHR ''1''))
     (rx_sha (CHR ''b'')) (rx_sha (CHR ''c'')) \<lparr>ev_readiness = lx_readiness, ev_structural = lx_structural\<rparr>
     lx_attempt 1 lx_start"

definition lx_admission :: admission where
  "lx_admission = lx_proposal\<lparr>ad_binding_sha256 := merge_admission_binding_sha256 lx_proposal,
     ad_admission_id := ''merge-admission-'' @ take 24 (merge_admission_binding_sha256 lx_proposal)\<rparr>"

text \<open>Normalisation of the literals and of digests.\<close>

lemma lx_literals:
  "required_token ''main'' f = Inr ''main''" "required_token ''batch'' f = Inr ''batch''"
  "required_token ''plan'' f = Inr ''plan''" "required_token ''me'' f = Inr ''me''"
  "required_token lx_key f = Inr lx_key" "required_token ''candidate'' f = Inr ''candidate''"
  "required_token ''landing'' f = Inr ''landing''" "required_token ''merge-admission-v2'' f = Inr ''merge-admission-v2''"
  "required_token ''service:merge-admission:trace'' f = Inr ''service:merge-admission:trace''"
  "normalize_admission_repository ''o/r'' = Inr ''o/r''"
  "normalize_sha256 (replicate 64 (CHR ''1'')) f = Inr (replicate 64 (CHR ''1''))"
  "normalize_sha256 (replicate 64 (CHR ''2'')) f = Inr (replicate 64 (CHR ''2''))"
  by code_simp+

lemma lx_shas:
  "normalize_git_sha (rx_sha (CHR ''a'')) f = Inr (rx_sha (CHR ''a''))"
  "normalize_git_sha (rx_sha (CHR ''b'')) f = Inr (rx_sha (CHR ''b''))"
  "normalize_git_sha (rx_sha (CHR ''c'')) f = Inr (rx_sha (CHR ''c''))"
  "normalize_git_sha (rx_sha (CHR ''d'')) f = Inr (rx_sha (CHR ''d''))"
  "normalize_git_sha (rx_sha (CHR ''e'')) f = Inr (rx_sha (CHR ''e''))"
  "normalize_git_sha (rx_sha (CHR ''1'')) f = Inr (rx_sha (CHR ''1''))"
  "normalize_git_sha (rx_sha (CHR ''2'')) f = Inr (rx_sha (CHR ''2''))"
  by code_simp+

lemma lx_start_micros: "timestamp_micros lx_start f = Inr 63902822400000000"
  by code_simp

lemma lx_end_micros: "timestamp_micros lx_end f = Inr 63902823000000000"
  by code_simp

lemma lx_start_printed: "micro_timestamp 63902822400000000 = lx_start"
  by code_simp

lemma lx_end_printed: "micro_timestamp 63902823000000000 = lx_end"
  by code_simp

lemma lx_normal_times:
  "normalize_timestamp lx_start f = Inr lx_start"
  "normalize_timestamp lx_end f = Inr lx_end"
  by (simp_all add: normalize_timestamp_def lx_start_micros lx_end_micros lx_start_printed lx_end_printed)

lemma digest_normal [simp]:
  "normalize_sha256 (compact_sorted_json_sha256 p) f = Inr (compact_sorted_json_sha256 p)"
  by (simp add: normalize_sha256_def required_token_def list_all_iff digest_lower_hex)

lemma plan_digest_normal [simp]:
  "normalize_sha256 (landing_plan_sha256 p) f = Inr (landing_plan_sha256 p)"
  by (simp add: landing_plan_sha256_def)

lemma identity_stripped:
  assumes "s \<noteq> []" and "list_all (\<lambda>x. \<not> py_space x) s"
  shows "py_strip (s @ take 24 (compact_sorted_json_sha256 p)) = s @ take 24 (compact_sorted_json_sha256 p)"
proof (rule py_strip_id)
  let ?t = "s @ take 24 (compact_sorted_json_sha256 p)"
  have plain: "\<not> py_space x" if "x \<in> set ?t" for x
    using that assms(2) by (auto simp: list_all_iff dest!: in_set_takeD digest_lower_hex lower_hex_plain)
  have "?t \<noteq> []" using assms(1) by simp
  then show "\<not> py_space (hd ?t)" and "\<not> py_space (last ?t)"
    using plain hd_in_set last_in_set by metis+
qed (use assms(1) in simp)

lemma lx_attempt_built:
  "build_merge_effect_attempt_id lx_key ''me'' lx_start ''plan'' 7 1 1 (rx_sha (CHR ''d'')) = Inr lx_attempt"
  by (simp add: build_merge_effect_attempt_id_def lx_literals lx_shas lx_normal_times lx_attempt_def)

lemma lx_attempt_token: "required_token lx_attempt f = Inr lx_attempt"
proof -
  have "py_strip lx_attempt = lx_attempt"
    unfolding lx_attempt_def by (rule identity_stripped) (simp_all add: py_space_def)
  moreover have "lx_attempt \<noteq> ''''" by (simp add: lx_attempt_def)
  ultimately show ?thesis by (simp add: required_token_def)
qed

lemmas lx_defs = lx_guard_def open_guard_def lx_plan_def lx_draft_plan_def lx_state_def lx_entry_def

lemma lx_proposal_fields:
  "ad_schema_version lx_proposal = 1" "ad_attempt_sequence lx_proposal = 1" "ad_pull_request_number lx_proposal = 7"
  "ad_queue_position lx_proposal = 1" "ad_repository lx_proposal = ''o/r''" "ad_attempt_id lx_proposal = lx_attempt"
  "ad_source lx_proposal = ''service:merge-admission:trace''" "ad_base_branch lx_proposal = ''main''"
  "ad_batch_id lx_proposal = ''batch''" "ad_candidate_record_id lx_proposal = ''candidate''"
  "ad_landing_plan_record_id lx_proposal = ''landing''" "ad_landing_plan_id lx_proposal = ''plan''"
  "ad_algorithm_version lx_proposal = ''merge-admission-v2''" "ad_controller_key lx_proposal = lx_key"
  "ad_lease_owner lx_proposal = ''me''" "ad_effective_base_sha lx_proposal = rx_sha (CHR ''a'')"
  "ad_effective_base_tree_sha lx_proposal = rx_sha (CHR ''1'')" "ad_head_sha lx_proposal = rx_sha (CHR ''b'')"
  "ad_head_tree_sha lx_proposal = rx_sha (CHR ''c'')" "ad_candidate_sha lx_proposal = rx_sha (CHR ''d'')"
  "ad_candidate_tree_sha lx_proposal = rx_sha (CHR ''e'')" "ad_expected_effect_sha lx_proposal = rx_sha (CHR ''d'')"
  "ad_candidate_sha256 lx_proposal = replicate 64 (CHR ''1'')"
  "ad_structural_provenance_sha256 lx_proposal = replicate 64 (CHR ''2'')"
  "ad_landing_plan_sha256 lx_proposal = landing_plan_sha256 lx_draft_plan"
  "ad_lease_acquired_at lx_proposal = lx_start" "ad_lease_expires_at lx_proposal = lx_end"
  "ad_created_at lx_proposal = lx_start" "ad_readiness lx_proposal = lx_readiness"
  "ad_structural_result lx_proposal = lx_structural" "ad_binding_sha256 lx_proposal = ''''"
  "ad_admission_id lx_proposal = ''''"
  unfolding lx_proposal_def proposed_admission_def Let_def lx_guard_def open_guard_def lx_plan_def lx_state_def lx_entry_def
  by (simp_all add: lx_draft_plan_def)

lemma lx_tokens: "admission_tokens lx_proposal = Inr lx_proposal"
  by (simp add: admission_tokens_def lx_proposal_fields lx_literals lx_attempt_token)

lemma lx_shas_kept: "admission_shas lx_proposal = Inr lx_proposal"
  by (simp add: admission_shas_def lx_proposal_fields lx_literals lx_shas lx_normal_times)

lemma lx_readiness_fields:
  "rr_state lx_readiness = Rd_ready" "rr_target lx_readiness = rx_target"
  "cve_candidate_sha (cf_evidence (rr_candidate lx_readiness)) = rx_sha (CHR ''d'')"
  "fe_controller_key (ff_evidence (rr_fence lx_readiness)) = lx_key"
  "fe_observed_lease_owner (ff_evidence (rr_fence lx_readiness)) = ''me''"
  "fe_lease_expires_at (ff_evidence (rr_fence lx_readiness)) = lx_end"
  "pf_merge_train (yf_fingerprints (rr_policy lx_readiness)) = rx_fingerprint Dim_merge_train"
  by (simp_all add: lx_readiness_def rx_candidate_def rx_fence_def rx_fingerprints_def)

lemma lx_evidence: "check_admission_evidence lx_proposal = Inr ()"
  by (simp add: check_admission_evidence_def Let_def lx_proposal_fields lx_readiness_fields
    admission_matches_target_def rx_target_def admission_matches_structure_def lx_structural_def)

lemma lx_valid: "validate_admission lx_proposal = Inr lx_admission"
  by (simp del: One_nat_def add: validate_admission_def lx_tokens lx_shas_kept lx_evidence Let_def lx_proposal_fields
    lx_attempt_built check_recorded_binding_def check_recorded_id_def lx_admission_def)

subsection \<open>Its fence\<close>

lemma lx_state_valid: "validate_controller_state lx_state = Inr lx_state"
  by code_simp

lemma lx_aliases: "require_inert_controller_aliases [(lx_key, lx_state)] ''o/r'' ''main'' = Inr ()"
  by code_simp

lemma lx_admission_fields:
  "ad_readiness lx_admission = lx_readiness" "ad_repository lx_admission = ''o/r''"
  "ad_base_branch lx_admission = ''main''" "ad_controller_key lx_admission = lx_key"
  "ad_lease_owner lx_admission = ''me''" "ad_lease_acquired_at lx_admission = lx_start"
  "ad_lease_expires_at lx_admission = lx_end" "ad_created_at lx_admission = lx_start"
  "ad_pull_request_number lx_admission = 7" "ad_expected_effect_sha lx_admission = rx_sha (CHR ''d'')"
  "ad_landing_plan_id lx_admission = ''plan''" "ad_attempt_id lx_admission = lx_attempt"
  "ad_effective_base_sha lx_admission = rx_sha (CHR ''a'')" "ad_head_sha lx_admission = rx_sha (CHR ''b'')"
  "ad_head_tree_sha lx_admission = rx_sha (CHR ''c'')" "ad_attempt_sequence lx_admission = 1"
  by (simp_all add: lx_admission_def lx_proposal_fields)

lemma lx_fence: "validate_admission_controller_fence lx_admission lx_state lx_start = Inr ()"
  by (simp add: validate_admission_controller_fence_def fence_identity_def lx_admission_fields lx_state_def
    lx_normal_times lx_start_micros lx_end_micros lx_readiness_fields rx_fingerprint_def Let_def
    payload_string_def dict_get_def)

definition lx_ledger :: admission_ledger where
  "lx_ledger = \<lparr>lg_admissions = [lx_admission], lg_outcomes = []\<rparr>"

lemma lx_create:
  "create_guarded_admission_if_absent [(lx_key, lx_state)] lx_admission lx_start
     \<lparr>lg_admissions = [], lg_outcomes = []\<rparr> = (Inr (lx_admission, True), lx_ledger)"
  by (simp add: create_guarded_admission_if_absent_def lx_admission_fields lx_aliases read_controller_state_def
    lx_state_valid lx_fence create_admission_if_absent_def list_admissions_def order_desc_def read_admission_def
    lx_ledger_def andDo_def lift_res_def)

lemma lx_port_fields:
  "ap_controllers lx_ports = (\<lambda>_. [(lx_key, lx_state)])" "ap_state_provider lx_ports = None"
  "ap_admission_time lx_ports = give lx_start" "ap_observation_time lx_ports = give lx_start"
  "ap_evaluate lx_ports q = give \<lparr>ev_readiness = lx_readiness, ev_structural = lx_structural\<rparr>"
  by (simp_all add: lx_ports_def)

lemma lx_guard_fields:
  "gd_expected_owner lx_guard = ''me''" "gd_controller_state lx_guard = lx_state" "gd_trace_id lx_guard = ''trace''"
  "ln_landing_plan (gd_landing_record lx_guard) = lx_plan"
  "cn_candidate (gd_candidate_record lx_guard) = ex_bound_candidate"
proof -
  have "py_strip ''me'' = ''me''" by code_simp
  then show "gd_expected_owner lx_guard = ''me''" by (simp add: lx_guard_def open_guard_def lx_state_def)
qed (simp_all add: lx_guard_def open_guard_def)

lemma lx_plan_fields:
  "lp_plan_id lx_plan = ''plan''" "lp_candidate_sha lx_plan = rx_sha (CHR ''d'')" "lp_repository lx_plan = ''o/r''"
  "lp_base_branch lx_plan = ''main''" "lp_entries lx_plan = [lx_entry]"
  by (simp_all add: lx_plan_def lx_draft_plan_def)

lemma lx_world_fields:
  "aw_guard (lx_world w) = lx_guard" "aw_ledger (lx_world w) = \<lparr>lg_admissions = [], lg_outcomes = []\<rparr>"
  "aw_rest (lx_world w) = w"
  by (simp_all add: lx_world_def)

lemmas lx_run = reading_def writing_def outside_def on_ledger_def give_def lift_res_def requireE_def
  andDo_def

lemma lx_built:
  "build_proposal lx_ports lx_entry (rx_sha (CHR ''a'')) (rx_sha (CHR ''1'')) (rx_sha (CHR ''b'')) (rx_sha (CHR ''c''))
     (lx_world w) = (Inr lx_admission, lx_world w)"
proof -
  have entry: "le_pull_request_number lx_entry = 7" "le_position lx_entry = 1" by (simp_all add: lx_entry_def)
  have state: "cs_controller_key lx_state = lx_key" "cs_lease_owner lx_state = ''me''"
    "cs_lease_acquired_at lx_state = lx_start" by (simp_all add: lx_state_def)
  have structural: "sr_status lx_structural = St_exact" by (simp add: lx_structural_def)
  have same: "(lx_world w)\<lparr>aw_rest := w\<rparr> = lx_world w" by (simp add: lx_world_def)
  show ?thesis
    by (simp del: One_nat_def add: build_proposal_def lx_run refresh_controller_state_def entry_admissions_def
      require_settled_def evaluate_entry_def lx_port_fields lx_world_fields lx_guard_fields lx_plan_fields same
      list_admissions_def order_desc_def next_attempt_def lx_readiness_fields structural ex_bound_fields entry state
      lx_attempt_built Let_def rescue_def lx_valid flip: lx_proposal_def)
qed

lemma lx_persisted:
  "persist_proposal lx_ports lx_admission (lx_world w) = (Inr lx_admission, (lx_world w)\<lparr>aw_ledger := lx_ledger\<rparr>)"
  by (simp add: persist_proposal_def create_guarded_def rescueE_def rescue_def lx_run lx_port_fields
    lx_world_fields lx_create lx_admission_fields)

lemma lx_admits:
  "admit lx_ports lx_entry (rx_sha (CHR ''a'')) (rx_sha (CHR ''1'')) (rx_sha (CHR ''b'')) (rx_sha (CHR ''c''))
     (lx_world w) = (Inr lx_admission, (lx_world w)\<lparr>aw_ledger := lx_ledger\<rparr>)"
  by (simp add: admit_def andDo_def lx_built lx_persisted)

subsection \<open>The outcome of its landing\<close>

definition lx_landed :: landing_entry where
  "lx_landed = lx_entry\<lparr>le_status := Land_merged, le_recorded_rolling_base_sha := rx_sha (CHR ''a''),
     le_recorded_rolling_base_tree_sha := rx_sha (CHR ''1''), le_landed_head_sha := rx_sha (CHR ''b''),
     le_landed_head_tree_sha := rx_sha (CHR ''c''), le_merge_commit_sha := rx_sha (CHR ''2''),
     le_merge_commit_tree_sha := rx_sha (CHR ''e'')\<rparr>"

definition lx_draft_outcome :: landing_outcome where
  "lx_draft_outcome = outcome_draft ''trace'' None lx_admission Out_landed Provider_and_git_confirmed True lx_start
     (no_observation\<lparr>ob_head_sha := rx_sha (CHR ''b''), ob_head_tree_sha := rx_sha (CHR ''c''),
        ob_base_sha := rx_sha (CHR ''a''), ob_base_tree_sha := rx_sha (CHR ''1''),
        ob_merge_commit_sha := rx_sha (CHR ''2''), ob_merge_commit_tree_sha := rx_sha (CHR ''e''),
        ob_base_contains := Some True, ob_exact_landing := True\<rparr>)"

definition lx_outcome :: landing_outcome where
  "lx_outcome = lx_draft_outcome\<lparr>oc_binding_sha256 := merge_landing_outcome_binding_sha256 lx_draft_outcome,
     oc_outcome_id := ''merge-landing-outcome-'' @ take 24 (merge_landing_outcome_binding_sha256 lx_draft_outcome)\<rparr>"

lemma lx_admission_id:
  "required_token (ad_admission_id lx_admission) f = Inr (ad_admission_id lx_admission)"
  "normalize_sha256 (ad_binding_sha256 lx_admission) f = Inr (ad_binding_sha256 lx_admission)"
  "ad_admission_id lx_admission \<noteq> ''''"
proof -
  have id: "ad_admission_id lx_admission = ''merge-admission-'' @ take 24 (merge_admission_binding_sha256 lx_proposal)"
    by (simp add: lx_admission_def)
  have "py_strip (ad_admission_id lx_admission) = ad_admission_id lx_admission"
    unfolding id merge_admission_binding_sha256_def by (rule identity_stripped) (simp_all add: py_space_def)
  then show "required_token (ad_admission_id lx_admission) f = Inr (ad_admission_id lx_admission)"
    by (simp add: required_token_def id)
qed (simp_all add: lx_admission_def merge_admission_binding_sha256_def)

lemma lx_outcome_texts: "required_token ''service:merge-landing-outcome:trace'' f = Inr ''service:merge-landing-outcome:trace''"
  by code_simp

lemma lx_optional_shas:
  "normalize_optional_git_sha (rx_sha (CHR ''a'')) f = Inr (rx_sha (CHR ''a''))"
  "normalize_optional_git_sha (rx_sha (CHR ''b'')) f = Inr (rx_sha (CHR ''b''))"
  "normalize_optional_git_sha (rx_sha (CHR ''c'')) f = Inr (rx_sha (CHR ''c''))"
  "normalize_optional_git_sha (rx_sha (CHR ''e'')) f = Inr (rx_sha (CHR ''e''))"
  "normalize_optional_git_sha (rx_sha (CHR ''1'')) f = Inr (rx_sha (CHR ''1''))"
  "normalize_optional_git_sha (rx_sha (CHR ''2'')) f = Inr (rx_sha (CHR ''2''))"
  by code_simp+

lemma rx_sha_truthy: "rx_sha c \<noteq> ''''"
  by (simp add: rx_sha_def)

lemma lx_outcome_normal: "normalize_outcome lx_draft_outcome = Inr lx_draft_outcome"
  by (simp add: normalize_outcome_def lx_draft_outcome_def outcome_draft_def no_observation_def lx_admission_fields
    lx_literals lx_admission_id lx_attempt_token lx_outcome_texts lx_optional_shas lx_normal_times)

lemma lx_outcome_valid: "validate_outcome lx_draft_outcome = Inr lx_outcome"
  unfolding validate_outcome_def
  by (simp add: lx_outcome_normal) (simp add: lx_draft_outcome_def outcome_draft_def no_observation_def lx_admission_fields
    check_outcome_status_def check_landed_outcome_def rx_sha_truthy check_recorded_binding_def check_recorded_id_def
    lx_outcome_def Let_def)

lemma lx_outcome_matches: "validate_outcome_for_admission lx_admission lx_outcome = Inr ()"
  by (simp add: validate_outcome_for_admission_def outcome_identity_matches_def observed_admitted_head_def
    lx_outcome_def lx_draft_outcome_def outcome_draft_def no_observation_def lx_admission_fields)

definition lx_final_ledger :: admission_ledger where
  "lx_final_ledger = \<lparr>lg_admissions = [lx_admission], lg_outcomes = [lx_outcome]\<rparr>"

lemma lx_outcome_fields:
  "oc_admission_id lx_outcome = ad_admission_id lx_admission" "oc_sequence lx_outcome = 1"
  "oc_status lx_outcome = Out_landed"
  by (simp_all add: lx_outcome_def lx_draft_outcome_def outcome_draft_def)

lemma lx_outcome_stored:
  "create_outcome_if_absent lx_outcome lx_ledger = (Inr (lx_outcome, True), lx_final_ledger)"
  by (simp add: create_outcome_if_absent_def read_admission_def lx_ledger_def lx_outcome_fields lx_outcome_matches
    list_outcomes_def order_desc_def check_outcome_chain_def latest_outcome_def append_outcome_def read_outcome_def
    lx_final_ledger_def)

lemma lx_recorded:
  "record_landed lx_admission lx_landed (rx_sha (CHR ''a'')) (rx_sha (CHR ''1'')) True True lx_start
     ((lx_world w)\<lparr>aw_ledger := lx_ledger\<rparr>) = (Inr lx_outcome, (lx_world w)\<lparr>aw_ledger := lx_final_ledger\<rparr>)"
proof -
  have "latest_outcome (ad_admission_id lx_admission) lx_ledger = None"
    by (simp add: latest_outcome_def list_outcomes_def order_desc_def lx_ledger_def)
  then show ?thesis
    by (simp add: record_landed_def observe_def lx_run lx_world_fields lx_guard_fields lx_landed_def lx_outcome_valid
      lx_outcome_stored flip: lx_draft_outcome_def)
qed

end
