(* ===== verification/Mt_Admission_Safety.thy ===== *)
theory Mt_Admission_Safety
  imports Mt_Admission_Properties Mt_Admission_Example
begin

section \<open>The properties of admissions\<close>

text \<open>
  What a successful \<open>admit\<close> guarantees and what the ledger of admissions and outcomes keeps, with the
  concrete admission at which both are instantiated.
\<close>

subsection \<open>The properties\<close>


text \<open>
  C6. Starting from the empty ledger, the outcomes of every admission are a chain: numbered from 1 in the
  order they were stored, each naming the one before it, all but the last requiring reconciliation
  and each consistent with the admission. From then on the ledger only grows, and an admission whose
  last outcome is conclusive never gets another one.
\<close>

theorem outcomes_form_final_chains:
  assumes "ledger_run empty_ledger lg"
  shows "(\<forall>a \<in> set (lg_admissions lg). outcome_chain (outcomes_of (ad_admission_id a) lg)
       \<and> (\<forall>r \<in> set (outcomes_of (ad_admission_id a) lg). validate_outcome_for_admission a r = Inr ()))
    \<and> (\<forall>lg'. ledger_run lg lg' \<longrightarrow> extends lg lg')"
proof -
  have ok: "ledger_ok lg" by (rule ledger_run_ok [OF assms empty_ledger_ok])
  have "validate_outcome_for_admission a r = Inr ()"
    if a: "a \<in> set (lg_admissions lg)" and r: "r \<in> set (outcomes_of (ad_admission_id a) lg)" for a r
  proof -
    obtain b where b: "b \<in> set (lg_admissions lg)" "oc_admission_id r = ad_admission_id b"
        "validate_outcome_for_admission b r = Inr ()"
      using ok r by (auto simp: ledger_ok_def outcomes_of_def)
    have "inj_on ad_admission_id (set (lg_admissions lg))"
      using ok by (simp add: ledger_ok_def distinct_map)
    with a b r have "b = a" by (auto simp: outcomes_of_def dest: inj_onD)
    with b show ?thesis by simp
  qed
  with ok show ?thesis by (auto simp: ledger_ok_def intro: ledger_run_extends)
qed


subsection \<open>The concrete admission\<close>


lemma lx_reachable: "ledger_run empty_ledger lx_ledger" "ledger_run lx_ledger lx_final_ledger"
proof -
  have "truthy (ad_attempt_id lx_admission)" by (simp add: lx_admission_fields lx_attempt_def)
  then have "create_admission_if_absent lx_admission empty_ledger = (Inr (lx_admission, True), lx_ledger)"
    by (simp add: create_admission_if_absent_def empty_ledger_def list_admissions_def order_desc_def
      read_admission_def lx_ledger_def)
  then show "ledger_run empty_ledger lx_ledger"
    by (intro r_into_rtranclp admitting [OF lx_valid])
  show "ledger_run lx_ledger lx_final_ledger"
    by (intro r_into_rtranclp observing [OF lx_outcome_stored])
qed

theorem outcomes_form_final_chains_witness:
  "ledger_run empty_ledger lx_final_ledger
    \<and> outcome_chain (outcomes_of (ad_admission_id lx_admission) lx_final_ledger)
    \<and> outcomes_of (ad_admission_id lx_admission) lx_final_ledger = [lx_outcome]"
proof -
  have run: "ledger_run empty_ledger lx_final_ledger" using lx_reachable by (rule rtranclp_trans)
  have "lx_admission \<in> set (lg_admissions lx_final_ledger)" by (simp add: lx_final_ledger_def)
  with outcomes_form_final_chains [OF run] run show ?thesis
    by (auto simp: outcomes_of_def lx_final_ledger_def lx_outcome_fields)
qed

end
