(* ===== verification/Mt_Landing.thy ===== *)
theory Mt_Landing
  imports Mt_Admission
begin

section \<open>Landing a batch\<close>

text \<open>
  \<open>land_batch_candidate\<close> of \<open>control_plane/merge_train_github.py\<close> with the provider reads it makes. A
  transport request is a parameter that answers the fields the code reads, as strings; a field that is
  missing or no string is the empty string, which \<open>required_answer\<close> refuses as \<open>_required_text\<close> does.
  URL quoting of the request's arguments is left out. A plan that names a batch pull request goes to
  \<open>land_protected_batch\<close>, a parameter here.
\<close>

subsection \<open>Provider answers\<close>

record pull_detail =
  pd_state :: string
  pd_merged :: bool
  pd_base_ref :: string
  pd_base_sha :: string
  pd_head_sha :: string
  pd_merge_commit_sha :: string
  pd_mergeable_state :: string
  pd_labels :: "string list"
  pd_body :: string

record branch_answer =
  br_sha :: string
  br_tree_sha :: string

record commit_answer =
  co_sha :: string
  co_tree_sha :: string
  co_parents :: "string list"

record effect_lineage_record =
  el_repository :: string
  el_base_branch :: string
  el_batch_id :: string
  el_landing_plan_id :: string

record landing_effect =
  fx_lineage :: effect_lineage_record
  fx_pull_request_number :: nat
  fx_head_sha :: string
  fx_rolling_base_sha :: string
  fx_admission_id :: string
  fx_merge_method :: merge_method

text \<open>
  \<open>lc_review_intent\<close> answers the error and the requirement of the client's test notes, \<open>lc_owner_review\<close>
  whether the owner's check on the head passes.
\<close>

record 'w landing_client =
  lc_pull :: "string \<Rightarrow> nat \<Rightarrow> ('w, pull_detail) eff"
  lc_branch :: "string \<Rightarrow> string \<Rightarrow> ('w, branch_answer) eff"
  lc_commit :: "string \<Rightarrow> string \<Rightarrow> ('w, commit_answer) eff"
  lc_compare :: "string \<Rightarrow> string \<Rightarrow> string \<Rightarrow> ('w, string) eff"
  lc_review_intent :: "string \<Rightarrow> pull_detail \<Rightarrow> ('w, string \<times> bool) eff"
  lc_client_veto :: "string \<Rightarrow> nat \<Rightarrow> ('w, bool) eff"
  lc_owner_review :: "string \<Rightarrow> string \<Rightarrow> ('w, bool) eff"
  lc_land :: "landing_effect \<Rightarrow> ('w, string) eff"

definition stale :: "string \<Rightarrow> py_error" where
  "stale message = StaleHead message"

definition required_answer :: "string \<Rightarrow> string \<Rightarrow> string res" where
  "required_answer value message =
     (if py_strip value = '''' then Inl (GitHubError None message) else Inr (py_strip value))"

definition repository_path :: "string \<Rightarrow> string res" where
  "repository_path repository =
     andThen (required_text repository ''GitHub repository is required.'') (\<lambda>r.
     let parts = split_on (CHR ''/'') (py_lower r) in
     if length parts \<noteq> 2 \<or> \<not> list_all (\<lambda>p. truthy (py_strip p)) parts
     then Inl (ValueError ''GitHub repository must be formatted as owner/name.'')
     else Inr (str_join ''/'' (map py_strip parts)))"

fun pull_request_open :: "string \<Rightarrow> bool res" where
  "pull_request_open value = (let normalized = py_lower (py_strip value) in
     if normalized = ''open'' then Inr True else if normalized = ''closed'' then Inr False
     else Inl (GitHubError None ''GitHub pull request state must be open or closed.''))"

definition git_commit_proof ::
  "'w landing_client \<Rightarrow> string \<Rightarrow> string \<Rightarrow> ('w, string \<times> string \<times> string list) eff" where
  "git_commit_proof c path sha =
     andDo (lift_res (required_text sha ''GitHub commit SHA is required.'')) (\<lambda>wanted.
     andDo (lc_commit c path wanted) (\<lambda>answer.
     andDo (lift_res (required_answer (co_sha answer) ''GitHub commit response requires sha.'')) (\<lambda>observed.
     andDo (requireE (observed = sha)
       (stale ''GitHub commit response did not match the requested SHA.'')) (\<lambda>_.
     andDo (lift_res (required_answer (co_tree_sha answer)
       ''GitHub commit tree response requires sha.'')) (\<lambda>tree.
     andDo (lift_res (mapM (\<lambda>p. required_answer p ''GitHub commit parent requires sha.'')
       (co_parents answer))) (\<lambda>parents.
     give (observed, tree, parents)))))))"

definition git_commit_identity :: "'w landing_client \<Rightarrow> string \<Rightarrow> string \<Rightarrow> ('w, string \<times> string) eff" where
  "git_commit_identity c path sha = andDo (git_commit_proof c path sha) (\<lambda>(observed, tree, _). give (observed, tree))"

definition validated_landing_commit_identity ::
  "'w landing_client \<Rightarrow> string \<Rightarrow> string \<Rightarrow> string \<Rightarrow> string \<Rightarrow> merge_method \<Rightarrow> ('w, string \<times> string) eff" where
  "validated_landing_commit_identity c path sha parent head merge_with =
     andDo (git_commit_proof c path sha) (\<lambda>(observed, tree, parents).
     andDo (requireE (parents = (if merge_with = Method_merge then [parent, head] else [parent]))
       (stale ''GitHub landing commit parents do not match the recorded rolling merge inputs.'')) (\<lambda>_.
     give (observed, tree)))"

definition base_branch_identity :: "'w landing_client \<Rightarrow> string \<Rightarrow> string \<Rightarrow> ('w, string \<times> string) eff" where
  "base_branch_identity c path branch =
     andDo (lc_branch c path branch) (\<lambda>answer.
     andDo (lift_res (required_answer (br_sha answer) ''GitHub branch commit requires sha.'')) (\<lambda>sha.
     if truthy (py_strip (br_tree_sha answer)) then give (sha, py_strip (br_tree_sha answer))
     else git_commit_identity c path sha))"

definition base_branch_sha :: "'w landing_client \<Rightarrow> string \<Rightarrow> string \<Rightarrow> ('w, string) eff" where
  "base_branch_sha c path branch =
     andDo (lc_branch c path branch) (\<lambda>answer.
     lift_res (required_answer (br_sha answer) ''GitHub branch commit requires sha.''))"

definition branch_contains_commit :: "'w landing_client \<Rightarrow> string \<Rightarrow> string \<Rightarrow> string \<Rightarrow> ('w, bool) eff" where
  "branch_contains_commit c repository branch sha =
     andDo (lift_res (repository_path repository)) (\<lambda>path.
     andDo (lift_res (required_text branch ''GitHub branch ref is required.'')) (\<lambda>branch.
     andDo (lift_res (required_text sha ''GitHub commit SHA is required.'')) (\<lambda>sha.
     andDo (lc_compare c path sha branch) (\<lambda>status.
     give (py_strip status \<in> {''ahead'', ''identical''})))))"

subsection \<open>Entries that have already landed\<close>

definition require_base_ref :: "pull_detail \<Rightarrow> string \<Rightarrow> string \<Rightarrow> ('w, unit) eff" where
  "require_base_ref p expected message =
     andDo (lift_res (required_answer (pd_base_ref p) ''GitHub pull request base requires ref.'')) (\<lambda>ref.
     andDo (lift_res (required_text expected ''Expected pull request base ref is required.'')) (\<lambda>expected.
     requireE (ref = expected) (stale message)))"

definition require_head_sha :: "pull_detail \<Rightarrow> landing_entry \<Rightarrow> string \<Rightarrow> ('w, string) eff" where
  "require_head_sha p entry message =
     andDo (lift_res (required_answer (pd_head_sha p) ''GitHub pull request head requires sha.'')) (\<lambda>head.
     andDo (requireE (head = le_expected_head_sha entry) (stale message)) (\<lambda>_. give head))"

definition observed_head ::
  "'w landing_client \<Rightarrow> string \<Rightarrow> landing_entry \<Rightarrow> string \<Rightarrow> ('w, string \<times> string) eff" where
  "observed_head c path entry message =
     andDo (git_commit_identity c path (le_expected_head_sha entry)) (\<lambda>(head, tree).
     andDo (requireE (le_expected_head_tree_sha entry = '''' \<or> tree = le_expected_head_tree_sha entry)
       (stale message)) (\<lambda>_.
     give (head, tree)))"

definition observed_rolling_base ::
  "'w landing_client \<Rightarrow> string \<Rightarrow> string \<Rightarrow> string \<Rightarrow> string \<Rightarrow> ('w, string \<times> string) eff" where
  "observed_rolling_base c path base base_tree message =
     andDo (git_commit_identity c path base) (\<lambda>(sha, tree).
     andDo (requireE (base_tree = '''' \<or> tree = base_tree) (stale message)) (\<lambda>_.
     give (sha, tree)))"

definition landed_entry ::
  "landing_entry \<Rightarrow> landing_status \<Rightarrow> string \<times> string \<Rightarrow> string \<times> string \<Rightarrow> string \<times> string \<Rightarrow> landing_entry res" where
  "landed_entry entry status base head commit = validate_landing_entry (entry\<lparr>le_status := status,
     le_recorded_rolling_base_sha := fst base, le_recorded_rolling_base_tree_sha := snd base,
     le_landed_head_sha := fst head, le_landed_head_tree_sha := snd head,
     le_merge_commit_sha := fst commit, le_merge_commit_tree_sha := snd commit\<rparr>)"

definition already_merged_landing_entry ::
  "'w landing_client \<Rightarrow> string \<Rightarrow> landing_entry \<Rightarrow> string \<Rightarrow> string \<times> string
   \<Rightarrow> ('w, landing_entry option) eff" where
  "already_merged_landing_entry c path entry base_ref expected =
     andDo (lc_pull c path (le_pull_request_number entry)) (\<lambda>p.
     andDo (lift_res (pull_request_open (pd_state p))) (\<lambda>is_open.
     if is_open \<or> \<not> pd_merged p then give None
     else
     andDo (require_base_ref p base_ref
       ''Pull request was merged into a different base branch than the batch landing plan.'') (\<lambda>_.
     andDo (require_head_sha p entry
       ''Pull request was merged with a different head SHA than the batch landing plan.'') (\<lambda>_.
     andDo (lift_res (required_answer (pd_merge_commit_sha p)
       ''Merged GitHub pull request requires merge_commit_sha.'')) (\<lambda>merge_sha.
     andDo (observed_head c path entry
       ''Merged pull request head tree does not match the batch landing plan.'') (\<lambda>head.
     andDo (validated_landing_commit_identity c path merge_sha (fst expected) (fst head)
       (le_merge_method entry)) (\<lambda>commit.
     andDo (observed_rolling_base c path (fst expected) (snd expected)
       ''Merged pull request rolling base tree does not match the batch landing plan.'') (\<lambda>base.
     andDo (lift_res (landed_entry entry Land_merged base head commit)) (\<lambda>e.
     give (Some e))))))))))"

definition recover_no_op_landing_entry ::
  "'w landing_client \<Rightarrow> string \<Rightarrow> string \<Rightarrow> landing_entry \<Rightarrow> string \<Rightarrow> string \<times> string
   \<Rightarrow> ('w, landing_entry) eff" where
  "recover_no_op_landing_entry c repository path entry base_ref expected =
     andDo (lc_pull c path (le_pull_request_number entry)) (\<lambda>p.
     andDo (require_head_sha p entry ''No-op pull request head moved outside the batch landing plan.'') (\<lambda>_.
     andDo (require_base_ref p base_ref
       ''No-op pull request targets a different base branch than the batch landing plan.'') (\<lambda>_.
     andDo (observed_head c path entry
       ''No-op pull request head tree does not match the batch landing plan.'') (\<lambda>head.
     andDo (observed_rolling_base c path (fst expected) (snd expected)
       ''No-op rolling base tree does not match the batch landing plan.'') (\<lambda>base.
     andDo (branch_contains_commit c repository base_ref (fst base)) (\<lambda>contains.
     andDo (requireE contains
       (stale ''Recorded candidate no-op rolling base is not contained by the target branch.'')) (\<lambda>_.
     andDo (branch_contains_commit c repository base_ref (fst head)) (\<lambda>contains.
     andDo (requireE contains
       (stale ''Recorded candidate no-op head is not contained by the target branch.'')) (\<lambda>_.
     andDo (lift_res (landed_entry entry Land_skipped base head base)) (\<lambda>e.
     andDo (requireE (le_status entry = Land_skipped \<longrightarrow> entry = e)
       (stale ''Persisted no-op landing evidence does not match the batch landing plan.'')) (\<lambda>_.
     give e)))))))))))"

definition recorded_candidate_step_is_no_op :: "landing_entry \<Rightarrow> bool" where
  "recorded_candidate_step_is_no_op e \<longleftrightarrow> truthy (le_recorded_candidate_parent_sha e)
     \<and> le_recorded_candidate_parent_sha e = le_recorded_candidate_result_sha e
     \<and> le_recorded_candidate_parent_tree_sha e = le_recorded_candidate_result_tree_sha e"

subsection \<open>An open pull request\<close>

text \<open>The answer is whether the head is behind its base.\<close>

definition validate_open_landing_pull_request ::
  "'w landing_client \<Rightarrow> string \<Rightarrow> landing_entry \<Rightarrow> string \<Rightarrow> string \<times> string \<Rightarrow> ('w, bool) eff" where
  "validate_open_landing_pull_request c path entry base_ref current =
     andDo (lc_pull c path (le_pull_request_number entry)) (\<lambda>p.
     andDo (lift_res (pull_request_open (pd_state p))) (\<lambda>is_open.
     andDo (requireE is_open (stale ''Pull request is no longer open for batch landing.'')) (\<lambda>_.
     andDo (require_head_sha p entry ''Pull request head moved outside the batch landing plan.'') (\<lambda>head.
     andDo (lift_res (required_answer (pd_base_ref p) ''GitHub pull request base requires ref.'')) (\<lambda>_.
     andDo (lift_res (required_answer (pd_base_sha p) ''GitHub pull request base requires sha.'')) (\<lambda>base_sha.
     andDo (require_base_ref p base_ref
       ''Pull request targets a different base branch than the batch landing plan.'') (\<lambda>_.
     andDo (lift_res (required_text (fst current) ''Expected pull request base SHA is required.'')) (\<lambda>expected.
     andDo (if base_sha \<noteq> expected then
         andDo (base_branch_identity c path base_ref) (\<lambda>confirmed.
         requireE (confirmed = current)
           (stale ''Target base branch moved outside the batch landing plan.''))
       else give ()) (\<lambda>_.
     andDo (lc_review_intent c path p) (\<lambda>(error, required).
     andDo (requireE (error = '''') (AdmissionDenied error ''client_test_notes_required'')) (\<lambda>_.
     andDo (lc_client_veto c path (le_pull_request_number entry)) (\<lambda>veto.
     andDo (requireE (\<not> veto) (AdmissionDenied (''Client requested changes on pull request #''
         @ str_nat (le_pull_request_number entry) @ ''.'') ''client_changes_requested'')) (\<lambda>_.
     andDo (if required then
         andDo (lc_owner_review c path head) (\<lambda>passed.
         requireE passed (AdmissionDenied (''Pull request #'' @ str_nat (le_pull_request_number entry)
           @ '' requires current-head Client review.'') ''client_review_not_ready''))
       else give ()) (\<lambda>_.
     give (pd_mergeable_state p = ''behind'')))))))))))))))"

subsection \<open>The loop over the entries\<close>

text \<open>\<open>checkpoint\<close> persists a plan's progress and answers the stored record, if it has one.\<close>

record 'w landing_run =
  ru_client :: "'w landing_client"
  ru_ports :: "'w admission_ports"
  ru_provider_checkpoint :: "(landing_plan \<Rightarrow> landing_entry \<Rightarrow> ('w, unit) eff) option"
  ru_checkpoint :: "(landing_plan \<Rightarrow> landing_entry \<Rightarrow> string \<Rightarrow> ('w, landing_record option) eff) option"

definition progress_of :: "landing_plan \<Rightarrow> landing_entry list \<Rightarrow> ('s, landing_plan) eff" where
  "progress_of plan entries = lift_res (validate_landing_plan (plan\<lparr>lp_entries := entries\<rparr>))"

definition update_progress ::
  "'w landing_run \<Rightarrow> landing_plan \<Rightarrow> landing_entry \<Rightarrow> string \<Rightarrow> ('w admission_world, unit) eff" where
  "update_progress run plan entry phase =
     andDo (case ru_checkpoint run of None \<Rightarrow> give None
            | Some checkpoint \<Rightarrow> outside (checkpoint plan entry phase)) (\<lambda>stored.
     case stored of Some r \<Rightarrow> update_landing_plan_record r | None \<Rightarrow> update_landing_plan plan)"

definition save_intent ::
  "'w landing_run \<Rightarrow> landing_plan \<Rightarrow> landing_entry list \<Rightarrow> landing_entry \<Rightarrow> ('w admission_world, unit) eff" where
  "save_intent run plan entries entry = (case ru_checkpoint run of None \<Rightarrow> give ()
     | Some checkpoint \<Rightarrow> andDo (progress_of plan entries) (\<lambda>p.
         andDo (outside (checkpoint p entry ''merge_entry'')) (\<lambda>_. give ())))"

definition save_progress ::
  "'w landing_run \<Rightarrow> landing_plan \<Rightarrow> landing_entry list \<Rightarrow> landing_entry \<Rightarrow> landing_entry list
   \<Rightarrow> string \<Rightarrow> ('w admission_world, unit) eff" where
  "save_progress run plan landed entry rest phase =
     andDo (progress_of plan (landed @ [entry] @ rest)) (\<lambda>p. update_progress run p entry phase)"

definition observed_at :: "'w landing_run \<Rightarrow> ('w admission_world, string) eff" where
  "observed_at run = outside (ap_observation_time (ru_ports run))"

text \<open>An entry found merged: its landing is reconciled with the admission that came before it.\<close>

definition settle_merged_entry ::
  "'w landing_run \<Rightarrow> landing_plan \<Rightarrow> landing_entry list \<Rightarrow> landing_entry \<Rightarrow> landing_entry list
   \<Rightarrow> string \<times> string \<Rightarrow> ('w admission_world, landing_entry) eff" where
  "settle_merged_entry run plan landed entry rest current =
     andDo (outside (branch_contains_commit (ru_client run) (lp_repository plan) (lp_base_branch plan)
       (le_merge_commit_sha entry))) (\<lambda>contains.
     andDo (requireE contains (stale ''Merged pull request commit is not contained by the target branch.'')) (\<lambda>_.
     andDo (observed_at run) (\<lambda>at.
     andDo (reconcile_existing_landed entry (fst current) (snd current) True at) (\<lambda>_.
     andDo (save_progress run plan landed entry rest ''entry_merged'') (\<lambda>_.
     give entry)))))"

definition land_recorded_merge ::
  "'w landing_run \<Rightarrow> landing_plan \<Rightarrow> string \<Rightarrow> landing_entry list \<Rightarrow> landing_entry \<Rightarrow> landing_entry list
   \<Rightarrow> string \<times> string \<Rightarrow> string \<times> string \<Rightarrow> ('w admission_world, landing_entry) eff" where
  "land_recorded_merge run plan path landed entry rest expected current =
     andDo (outside (already_merged_landing_entry (ru_client run) path entry (lp_base_branch plan) expected)) (\<lambda>found.
     case found of None \<Rightarrow> raise (stale ''Persisted merged pull request is no longer merged.'')
     | Some recovered \<Rightarrow>
       andDo (requireE (le_merge_commit_sha entry = '''' \<or> le_merge_commit_sha recovered = le_merge_commit_sha entry)
         (stale ''Pull request merge commit does not match the batch landing plan.'')) (\<lambda>_.
       settle_merged_entry run plan landed recovered rest current))"

definition land_moved_base ::
  "'w landing_run \<Rightarrow> landing_plan \<Rightarrow> string \<Rightarrow> landing_entry list \<Rightarrow> landing_entry \<Rightarrow> landing_entry list
   \<Rightarrow> string \<times> string \<Rightarrow> string \<times> string \<Rightarrow> ('w admission_world, landing_entry) eff" where
  "land_moved_base run plan path landed entry rest expected current =
     andDo (outside (already_merged_landing_entry (ru_client run) path entry (lp_base_branch plan) expected)) (\<lambda>found.
     case found of None \<Rightarrow> raise (stale ''Base branch moved outside the batch landing plan.'')
     | Some merged \<Rightarrow> settle_merged_entry run plan landed merged rest current)"

definition land_no_op ::
  "'w landing_run \<Rightarrow> landing_plan \<Rightarrow> string \<Rightarrow> landing_entry list \<Rightarrow> landing_entry \<Rightarrow> landing_entry list
   \<Rightarrow> string \<times> string \<Rightarrow> string \<times> string \<Rightarrow> ('w admission_world, landing_entry) eff" where
  "land_no_op run plan path landed entry rest expected current =
     andDo (save_intent run plan (landed @ entry # rest) entry) (\<lambda>_.
     andDo (outside (recover_no_op_landing_entry (ru_client run) (lp_repository plan) path entry
       (lp_base_branch plan) expected)) (\<lambda>skipped.
     andDo (admit (ru_ports run) entry (fst current) (snd current)
       (le_expected_head_sha entry) (le_expected_head_tree_sha entry)) (\<lambda>a.
     andDo (observed_at run) (\<lambda>at.
     andDo (record_landed a skipped (fst current) (snd current) True False at) (\<lambda>_.
     andDo (save_progress run plan landed skipped rest ''entry_skipped'') (\<lambda>_.
     give skipped))))))"

text \<open>\<open>except Exception as error: ...; raise\<close>: the handler may raise an error of its own.\<close>

definition on_error :: "('s, 'a) eff \<Rightarrow> (py_error \<Rightarrow> ('s, unit) eff) \<Rightarrow> ('s, 'a) eff" where
  "on_error m handler s = (case m s of
       (Inr x, s') \<Rightarrow> (Inr x, s')
     | (Inl e, s') \<Rightarrow> (case handler e s' of (Inl e', s'') \<Rightarrow> (Inl e', s'') | (Inr _, s'') \<Rightarrow> (Inl e, s'')))"

definition landing_effect_of :: "landing_plan \<Rightarrow> landing_entry \<Rightarrow> string \<Rightarrow> admission \<Rightarrow> landing_effect" where
  "landing_effect_of plan entry base a = \<lparr>fx_lineage = \<lparr>el_repository = lp_repository plan,
       el_base_branch = lp_base_branch plan, el_batch_id = lp_batch_id plan,
       el_landing_plan_id = lp_plan_id plan\<rparr>,
     fx_pull_request_number = le_pull_request_number entry, fx_head_sha = le_expected_head_sha entry,
     fx_rolling_base_sha = base, fx_admission_id = ad_admission_id a,
     fx_merge_method = le_merge_method entry\<rparr>"

definition land_through_provider ::
  "'w landing_run \<Rightarrow> landing_plan \<Rightarrow> landing_entry \<Rightarrow> string \<Rightarrow> admission
   \<Rightarrow> ('w admission_world, string) eff" where
  "land_through_provider run plan entry base a =
     on_error (outside (lc_land (ru_client run) (landing_effect_of plan entry base a)))
       (\<lambda>e. andDo (observed_at run) (\<lambda>at. andDo (record_provider_failure a e at) (\<lambda>_. give ())))"

definition observe_landing ::
  "'w landing_run \<Rightarrow> landing_plan \<Rightarrow> string \<Rightarrow> landing_entry \<Rightarrow> string \<times> string \<Rightarrow> string \<Rightarrow> string
   \<Rightarrow> admission \<Rightarrow> ('w admission_world, (string \<times> string) \<times> (string \<times> string)) eff" where
  "observe_landing run plan path entry current head merge_sha a =
     on_error
       (andDo (outside (validated_landing_commit_identity (ru_client run) path merge_sha (fst current) head
          (le_merge_method entry))) (\<lambda>commit.
        andDo (outside (base_branch_identity (ru_client run) path (lp_base_branch plan))) (\<lambda>observed.
        give (commit, observed))))
       (\<lambda>e. andDo (observed_at run) (\<lambda>at.
            andDo (record_reconcile_required a Landing_evidence_incomplete (py_strip (error_text e)) at) (\<lambda>_.
            give ())))"

definition require_contained ::
  "'w landing_run \<Rightarrow> landing_plan \<Rightarrow> string \<Rightarrow> string \<Rightarrow> admission \<Rightarrow> ('w admission_world, unit) eff" where
  "require_contained run plan observed_sha merge_sha a =
     andDo (if observed_sha = merge_sha then give True
            else outside (branch_contains_commit (ru_client run) (lp_repository plan) (lp_base_branch plan)
              merge_sha)) (\<lambda>contains.
     if contains then give ()
     else andDo (observed_at run) (\<lambda>at.
       let message = ''Target base branch does not contain the provider merge commit.'' in
       andDo (record_reconcile_required a Landing_evidence_contradicted message at) (\<lambda>_.
       raise (stale message))))"

definition prepare_open_entry ::
  "'w landing_run \<Rightarrow> landing_plan \<Rightarrow> string \<Rightarrow> landing_entry \<Rightarrow> string \<times> string
   \<Rightarrow> ('w admission_world, string \<times> string) eff" where
  "prepare_open_entry run plan path entry current =
     andDo (outside (git_commit_identity (ru_client run) path (le_expected_head_sha entry))) (\<lambda>(head, head_tree).
     andDo (requireE (le_expected_head_tree_sha entry = '''' \<or> head_tree = le_expected_head_tree_sha entry)
       (stale ''Pull request head tree moved outside the batch landing plan.'')) (\<lambda>_.
     andDo (outside (validate_open_landing_pull_request (ru_client run) path entry (lp_base_branch plan) current)) (\<lambda>behind.
     andDo (observed_at run) (\<lambda>at.
     andDo (reconcile_existing_no_effect entry (fst current) (snd current) head head_tree Obs_open at) (\<lambda>_.
     andDo (requireE (\<not> behind) (AdmissionDenied (''PR #'' @ str_nat (le_pull_request_number entry)
         @ '' is behind its base; refresh the branch and wait for fresh checks before submitting it to ''
         @ ''the train again.'') ''pull_request_head_behind_base'')) (\<lambda>_.
     give (head, head_tree)))))))"

definition land_open ::
  "'w landing_run \<Rightarrow> landing_plan \<Rightarrow> string \<Rightarrow> landing_entry list \<Rightarrow> landing_entry \<Rightarrow> landing_entry list
   \<Rightarrow> string \<times> string \<Rightarrow> ('w admission_world, landing_entry) eff" where
  "land_open run plan path landed entry rest current =
     andDo (prepare_open_entry run plan path entry current) (\<lambda>(head, head_tree).
     andDo (save_intent run plan (landed @ entry # rest) entry) (\<lambda>_.
     andDo (admit (ru_ports run) entry (fst current) (snd current) head head_tree) (\<lambda>a.
     andDo (case ru_provider_checkpoint run of None \<Rightarrow> give ()
       | Some checkpoint \<Rightarrow> andDo (progress_of plan (landed @ entry # rest)) (\<lambda>p.
           outside (checkpoint p entry))) (\<lambda>_.
     andDo (land_through_provider run plan entry (fst current) a) (\<lambda>merge_sha.
     andDo (observe_landing run plan path entry current head merge_sha a) (\<lambda>(commit, observed).
     andDo (require_contained run plan (fst observed) (fst commit) a) (\<lambda>_.
     andDo (lift_res (landed_entry entry Land_merged current (head, head_tree) commit)) (\<lambda>merged.
     andDo (observed_at run) (\<lambda>at.
     andDo (record_landed a merged (fst observed) (snd observed) True True at) (\<lambda>_.
     andDo (save_progress run plan landed merged rest ''entry_merged'') (\<lambda>_.
     give merged)))))))))))"

text \<open>The base that the next entry is expected to land on.\<close>

definition next_base :: "landing_entry \<Rightarrow> string \<times> string \<Rightarrow> string \<times> string" where
  "next_base e expected = (if le_status e = Land_merged
     then (le_merge_commit_sha e, le_merge_commit_tree_sha e) else expected)"

definition land_entry ::
  "'w landing_run \<Rightarrow> landing_plan \<Rightarrow> string \<Rightarrow> landing_entry list \<Rightarrow> landing_entry \<Rightarrow> landing_entry list
   \<Rightarrow> string \<times> string \<Rightarrow> string \<times> string \<Rightarrow> ('w admission_world, landing_entry) eff" where
  "land_entry run plan path landed entry rest expected current =
     (if le_status entry = Land_merged
      then land_recorded_merge run plan path landed entry rest expected current
      else if recorded_candidate_step_is_no_op entry
      then land_no_op run plan path landed entry rest expected current
      else if fst current \<noteq> fst expected
      then land_moved_base run plan path landed entry rest expected current
      else land_open run plan path landed entry rest current)"

fun land_entries ::
  "'w landing_run \<Rightarrow> landing_plan \<Rightarrow> string \<Rightarrow> landing_entry list \<Rightarrow> landing_entry list
   \<Rightarrow> string \<times> string \<Rightarrow> ('w admission_world, landing_entry list \<times> (string \<times> string)) eff" where
  "land_entries run plan path landed [] expected = give (landed, expected)"
| "land_entries run plan path landed (entry # rest) expected =
     andDo (outside (base_branch_identity (ru_client run) path (lp_base_branch plan))) (\<lambda>current.
     let expected = (if snd expected = '''' \<and> fst current = fst expected then current else expected) in
     andDo (requireE (\<not> (fst current = fst expected \<and> snd current \<noteq> snd expected))
       (stale ''Base branch tree does not match the rolling batch landing plan.'')) (\<lambda>_.
     andDo (land_entry run plan path landed entry rest expected current) (\<lambda>e.
     land_entries run plan path (landed @ [e]) rest (next_base e expected))))"

definition finish_ordinary_batch ::
  "'w landing_run \<Rightarrow> landing_plan \<Rightarrow> string \<Rightarrow> landing_entry list \<Rightarrow> string \<times> string
   \<Rightarrow> ('w admission_world, landing_plan) eff" where
  "finish_ordinary_batch run plan path landed expected =
     andDo (outside (base_branch_sha (ru_client run) path (lp_base_branch plan))) (\<lambda>current.
     andDo (if current \<noteq> fst expected then
         andDo (outside (branch_contains_commit (ru_client run) (lp_repository plan) (lp_base_branch plan)
           (fst expected))) (\<lambda>contains.
         requireE contains (stale ''Base branch moved outside the batch landing plan.''))
       else give ()) (\<lambda>_.
     progress_of plan landed))"

definition land_ordinary_batch :: "'w landing_run \<Rightarrow> landing_plan \<Rightarrow> ('w admission_world, landing_plan) eff" where
  "land_ordinary_batch run plan =
     andDo (lift_res (repository_path (lp_repository plan))) (\<lambda>path.
     andDo (lift_res (case lp_entries plan of [] \<Rightarrow> Inl (RuntimeError ''tuple index out of range'')
       | e # _ \<Rightarrow> Inr (le_expected_base_sha e, le_recorded_candidate_parent_tree_sha e))) (\<lambda>start.
     andDo (land_entries run plan path [] (lp_entries plan) start) (\<lambda>(landed, expected).
     finish_ordinary_batch run plan path landed expected)))"

definition land_batch_candidate ::
  "'w landing_run \<Rightarrow> (landing_plan \<Rightarrow> ('w admission_world, landing_plan) eff) \<Rightarrow> landing_plan \<Rightarrow> string
   \<Rightarrow> ('w admission_world, landing_plan) eff" where
  "land_batch_candidate run land_protected plan recorded_at =
     andDo (requireE (truthy (py_strip recorded_at))
       (ValueError ''Batch landing admission requires recorded_at.'')) (\<lambda>_.
     if lp_candidate_pull_request_number plan \<noteq> None then land_protected plan
     else land_ordinary_batch run plan)"

end
