(* ===== verification/Mt_Landing_Example.thy ===== *)
theory Mt_Landing_Example
  imports Mt_Landing Mt_Admission_Example
begin

section \<open>A concrete landing run\<close>

text \<open>
  The plan of \<open>Mt_Admission_Example\<close> landed by \<open>land_ordinary_batch\<close> over a provider that answers
  constants: the pull request is open at its planned head, and the merge commit it returns is on the
  branch from then on.
\<close>

definition lx_pull :: pull_detail where
  "lx_pull = \<lparr>pd_state = ''open'', pd_merged = False, pd_base_ref = ''main'', pd_base_sha = rx_sha (CHR ''a''),
     pd_head_sha = rx_sha (CHR ''b''), pd_merge_commit_sha = '''', pd_mergeable_state = ''clean'',
     pd_labels = [], pd_body = ''''\<rparr>"

definition lx_commit :: "string \<Rightarrow> commit_answer" where
  "lx_commit sha = (if sha = rx_sha (CHR ''2'')
     then \<lparr>co_sha = sha, co_tree_sha = rx_sha (CHR ''e''), co_parents = [rx_sha (CHR ''a''), rx_sha (CHR ''b'')]\<rparr>
     else \<lparr>co_sha = sha, co_tree_sha = rx_sha (CHR ''c''), co_parents = []\<rparr>)"

definition lx_client :: "(landing_effect \<Rightarrow> ('w, string) eff) \<Rightarrow> 'w landing_client" where
  "lx_client land = \<lparr>lc_pull = (\<lambda>_ _. give lx_pull),
     lc_branch = (\<lambda>_ _. give \<lparr>br_sha = rx_sha (CHR ''a''), br_tree_sha = rx_sha (CHR ''1'')\<rparr>),
     lc_commit = (\<lambda>_ sha. give (lx_commit sha)), lc_compare = (\<lambda>_ _ _. give ''ahead''),
     lc_review_intent = (\<lambda>_ _. give ('''', False)), lc_client_veto = (\<lambda>_ _. give False),
     lc_owner_review = (\<lambda>_ _. give True), lc_land = land\<rparr>"

definition lx_landing :: "(landing_effect \<Rightarrow> ('w, string) eff) \<Rightarrow> 'w landing_run" where
  "lx_landing land = \<lparr>ru_client = lx_client land, ru_ports = lx_ports, ru_provider_checkpoint = None, ru_checkpoint = None\<rparr>"

lemma lx_client_fields:
  "lc_pull (lx_client land) path n = give lx_pull"
  "lc_branch (lx_client land) path b = give \<lparr>br_sha = rx_sha (CHR ''a''), br_tree_sha = rx_sha (CHR ''1'')\<rparr>"
  "lc_commit (lx_client land) path sha = give (lx_commit sha)" "lc_compare (lx_client land) path sha b = give ''ahead''"
  "lc_review_intent (lx_client land) path p = give ('''', False)" "lc_client_veto (lx_client land) path n = give False"
  "lc_land (lx_client land) = land"
  by (simp_all add: lx_client_def)

lemma lx_landing_fields:
  "ru_client (lx_landing land) = lx_client land" "ru_ports (lx_landing land) = lx_ports"
  "ru_provider_checkpoint (lx_landing land) = None" "ru_checkpoint (lx_landing land) = None"
  by (simp_all add: lx_landing_def)

lemma lx_entry_fields:
  "le_pull_request_number lx_entry = 7" "le_expected_head_sha lx_entry = rx_sha (CHR ''b'')"
  "le_expected_head_tree_sha lx_entry = rx_sha (CHR ''c'')" "le_expected_base_sha lx_entry = rx_sha (CHR ''a'')"
  "le_merge_method lx_entry = Method_merge" "le_status lx_entry = Land_planned"
  "le_recorded_candidate_parent_tree_sha lx_entry = rx_sha (CHR ''1'')"
  "\<not> recorded_candidate_step_is_no_op lx_entry"
  by (simp_all add: lx_entry_def recorded_candidate_step_is_no_op_def rx_sha_def)

lemma lx_stripped:
  "py_strip (rx_sha (CHR ''a'')) = rx_sha (CHR ''a'')" "py_strip (rx_sha (CHR ''b'')) = rx_sha (CHR ''b'')"
  "py_strip (rx_sha (CHR ''c'')) = rx_sha (CHR ''c'')" "py_strip (rx_sha (CHR ''1'')) = rx_sha (CHR ''1'')"
  "py_strip (rx_sha (CHR ''2'')) = rx_sha (CHR ''2'')" "py_strip (rx_sha (CHR ''e'')) = rx_sha (CHR ''e'')"
  "py_strip (rx_sha (CHR ''d'')) = rx_sha (CHR ''d'')"
  "py_strip ''main'' = ''main''" "py_strip ''ahead'' = ''ahead''"
  "py_lower (py_strip ''open'') = ''open''" "repository_path ''o/r'' = Inr ''o/r''"
  by code_simp+

text \<open>The provider's reads, one by one.\<close>

lemma lx_proof:
  "git_commit_proof (lx_client land) path (rx_sha (CHR ''b'')) w = (Inr (rx_sha (CHR ''b''), rx_sha (CHR ''c''), []), w)"
  "git_commit_proof (lx_client land) path (rx_sha (CHR ''2'')) w
     = (Inr (rx_sha (CHR ''2''), rx_sha (CHR ''e''), [rx_sha (CHR ''a''), rx_sha (CHR ''b'')]), w)"
proof -
  have "rx_sha (CHR ''b'') \<noteq> rx_sha (CHR ''2'')" by (simp add: rx_sha_def)
  then show "git_commit_proof (lx_client land) path (rx_sha (CHR ''b'')) w = (Inr (rx_sha (CHR ''b''), rx_sha (CHR ''c''), []), w)"
    by (simp add: git_commit_proof_def required_text_def required_answer_def lx_stripped rx_sha_truthy lx_run
      lx_client_fields lx_commit_def)
  show "git_commit_proof (lx_client land) path (rx_sha (CHR ''2'')) w
     = (Inr (rx_sha (CHR ''2''), rx_sha (CHR ''e''), [rx_sha (CHR ''a''), rx_sha (CHR ''b'')]), w)"
    by (simp add: git_commit_proof_def required_text_def required_answer_def lx_stripped rx_sha_truthy lx_run
      lx_client_fields lx_commit_def)
qed

lemma lx_reads:
  "git_commit_identity (lx_client land) path (rx_sha (CHR ''b'')) w = (Inr (rx_sha (CHR ''b''), rx_sha (CHR ''c'')), w)"
  "base_branch_identity (lx_client land) path ''main'' w = (Inr (rx_sha (CHR ''a''), rx_sha (CHR ''1'')), w)"
  "base_branch_sha (lx_client land) path ''main'' w = (Inr (rx_sha (CHR ''a'')), w)"
  "validated_landing_commit_identity (lx_client land) path (rx_sha (CHR ''2'')) (rx_sha (CHR ''a'')) (rx_sha (CHR ''b'')) Method_merge w
     = (Inr (rx_sha (CHR ''2''), rx_sha (CHR ''e'')), w)"
  "branch_contains_commit (lx_client land) ''o/r'' ''main'' (rx_sha (CHR ''2'')) w = (Inr True, w)"
  by (simp_all add: git_commit_identity_def base_branch_identity_def base_branch_sha_def lx_client_fields
    validated_landing_commit_identity_def branch_contains_commit_def required_answer_def required_text_def
    lx_proof lx_stripped rx_sha_truthy lx_run)

lemma lx_open: "validate_open_landing_pull_request (lx_client land) path lx_entry ''main'' (rx_sha (CHR ''a''), t) w = (Inr False, w)"
  by (simp add: validate_open_landing_pull_request_def lx_client_fields lx_pull_def require_head_sha_def
    require_base_ref_def required_answer_def required_text_def lx_stripped rx_sha_truthy lx_entry_fields lx_run
    Let_def)


subsection \<open>The run\<close>

definition lx_effect :: landing_effect where
  "lx_effect = landing_effect_of lx_plan lx_entry (rx_sha (CHR ''a'')) lx_admission"

definition lx_landed_plan :: landing_plan where
  "lx_landed_plan = lx_plan\<lparr>lp_entries := [lx_landed]\<rparr>"

lemma lx_landed_built:
  "landed_entry lx_entry Land_merged (rx_sha (CHR ''a''), rx_sha (CHR ''1'')) (rx_sha (CHR ''b''), rx_sha (CHR ''c''))
     (rx_sha (CHR ''2''), rx_sha (CHR ''e'')) = Inr lx_landed"
  by (simp add: landed_entry_def validate_landing_entry_def required_text_def strip_landing_entry_def lx_landed_def
    lx_entry_def lx_stripped rx_sha_truthy Let_def)

lemma lx_digest: "landing_plan_sha256 lx_landed_plan = lp_landing_plan_sha256 lx_landed_plan"
  by (simp add: lx_landed_plan_def lx_plan_def landing_plan_sha256_def landing_plan_items_def
    candidate_number_item_def landing_entry_plan_items_def lx_draft_plan_def lx_landed_def)

lemma lx_plan_texts: "landing_plan_texts lx_landed_plan = Inr lx_landed_plan"
proof -
  have "py_strip lx_start = lx_start" "lx_start \<noteq> []" "py_strip ''plan'' = ''plan''" "py_strip ''batch'' = ''batch''"
      "py_strip lx_ref = lx_ref" "lx_ref \<noteq> []" "normalize_batch_repository ''o/r'' = Inr ''o/r''"
      "py_strip ''o/r:main'' = ''o/r:main''"
      "py_strip (replicate 64 (CHR ''e'')) = replicate 64 (CHR ''e'')"
      "py_lower (py_strip (replicate 64 (CHR ''1''))) = replicate 64 (CHR ''1'')"
      "py_lower (py_strip (replicate 64 (CHR ''2''))) = replicate 64 (CHR ''2'')"
    by code_simp+
  then show ?thesis
    by (simp add: landing_plan_texts_def required_text_def lx_landed_plan_def lx_plan_def lx_draft_plan_def lx_stripped
      rx_sha_truthy)
qed

lemma lx_progress: "progress_of lx_plan [lx_landed] s = (Inr lx_landed_plan, s)"
proof -
  have "lp_entries lx_landed_plan = [lx_landed]" "le_position lx_landed = 1"
      "lp_candidate_pull_request_number lx_landed_plan = Some 9" "le_pull_request_number lx_landed = 7"
      "le_merge_method lx_landed = Method_merge"
    by (simp_all add: lx_landed_plan_def lx_plan_def lx_draft_plan_def lx_landed_def lx_entry_def)
  moreover have "check_digest (lp_landing_plan_sha256 lx_landed_plan) (landing_plan_sha256 lx_landed_plan) m = Inr ()" for m
    unfolding lx_digest [symmetric] by (simp add: landing_plan_sha256_def)
  ultimately have "validate_landing_plan lx_landed_plan = Inr lx_landed_plan"
    by (simp add: validate_landing_plan_def lx_plan_texts check_protected_landing_def lx_digest)
  then show ?thesis by (simp add: progress_of_def lift_res_def lx_landed_plan_def)
qed

lemma lx_prepared:
  "prepare_open_entry (lx_landing land) lx_plan path lx_entry (rx_sha (CHR ''a''), rx_sha (CHR ''1'')) (lx_world w)
     = (Inr (rx_sha (CHR ''b''), rx_sha (CHR ''c'')), lx_world w)"
proof -
  have same: "(lx_world w)\<lparr>aw_rest := w\<rparr> = lx_world w" by (simp add: lx_world_def)
  show ?thesis
    by (simp add: prepare_open_entry_def lx_landing_fields lx_reads lx_entry_fields lx_run lx_world_fields same
      lx_plan_fields lx_open observed_at_def lx_port_fields reconcile_existing_no_effect_def entry_admissions_def
      list_admissions_def order_desc_def Let_def)
qed

lemma lx_through_provider:
  assumes "land lx_effect w = (Inr sha, w')"
  shows "land_through_provider (lx_landing land) lx_plan lx_entry (rx_sha (CHR ''a'')) lx_admission
      ((lx_world w)\<lparr>aw_ledger := lg\<rparr>) = (Inr sha, (lx_world w')\<lparr>aw_ledger := lg\<rparr>)"
  using assms
  by (simp add: land_through_provider_def on_error_def outside_def lx_landing_fields lx_client_fields
    lx_world_def flip: lx_effect_def)

lemma lx_observed:
  "observe_landing (lx_landing land) lx_plan path lx_entry (rx_sha (CHR ''a''), t) (rx_sha (CHR ''b'')) (rx_sha (CHR ''2''))
     lx_admission ((lx_world w)\<lparr>aw_ledger := lg\<rparr>)
   = (Inr ((rx_sha (CHR ''2''), rx_sha (CHR ''e'')), (rx_sha (CHR ''a''), rx_sha (CHR ''1''))), (lx_world w)\<lparr>aw_ledger := lg\<rparr>)"
  by (simp add: observe_landing_def on_error_def lx_run lx_landing_fields lx_reads lx_plan_fields lx_entry_fields
    lx_world_def)

lemma lx_contained:
  "require_contained (lx_landing land) lx_plan (rx_sha (CHR ''a'')) (rx_sha (CHR ''2'')) lx_admission
     ((lx_world w)\<lparr>aw_ledger := lg\<rparr>) = (Inr (), (lx_world w)\<lparr>aw_ledger := lg\<rparr>)"
proof -
  have "rx_sha (CHR ''a'') \<noteq> rx_sha (CHR ''2'')" by (simp add: rx_sha_def)
  then show ?thesis
    by (simp add: require_contained_def lx_run lx_landing_fields lx_reads lx_plan_fields lx_world_def)
qed

lemma lx_saved:
  "save_progress (lx_landing land) lx_plan [] lx_landed [] phase ((lx_world w)\<lparr>aw_ledger := lg\<rparr>)
     = (Inr (), (lx_world w)\<lparr>aw_ledger := lg, aw_guard := lx_guard\<lparr>gd_landing_record :=
         (gd_landing_record lx_guard)\<lparr>ln_landing_plan := lx_landed_plan\<rparr>\<rparr>\<rparr>)"
  by (simp add: save_progress_def update_progress_def lx_landing_fields update_landing_plan_def writing_def
    lx_world_def andDo_def lx_progress give_def)

definition lx_final :: "'w \<Rightarrow> 'w admission_world" where
  "lx_final w = (lx_world w)\<lparr>aw_ledger := lx_final_ledger, aw_guard := lx_guard\<lparr>gd_landing_record :=
     (gd_landing_record lx_guard)\<lparr>ln_landing_plan := lx_landed_plan\<rparr>\<rparr>\<rparr>"

lemma lx_open_lands:
  assumes "land lx_effect w = (Inr (rx_sha (CHR ''2'')), w')"
  shows "land_open (lx_landing land) lx_plan path [] lx_entry [] (rx_sha (CHR ''a''), rx_sha (CHR ''1'')) (lx_world w)
     = (Inr lx_landed, lx_final w')"
proof -
  have admits: "admit (ru_ports (lx_landing land)) lx_entry (rx_sha (CHR ''a'')) (rx_sha (CHR ''1'')) (rx_sha (CHR ''b''))
      (rx_sha (CHR ''c'')) (lx_world w) = (Inr lx_admission, (lx_world w)\<lparr>aw_ledger := lx_ledger\<rparr>)"
    by (simp add: lx_landing_fields lx_admits)
  have at: "observed_at (lx_landing land) ((lx_world v)\<lparr>aw_ledger := lg\<rparr>) = (Inr lx_start, (lx_world v)\<lparr>aw_ledger := lg\<rparr>)"
    for v lg by (simp add: observed_at_def lx_landing_fields lx_port_fields lx_run lx_world_def)
  show ?thesis
    by (simp add: land_open_def andDo_def lx_prepared save_intent_def lx_landing_fields(3,4) give_def admits
      lx_through_provider [of land w, OF assms] lx_observed lx_contained lift_res_def lx_landed_built at lx_recorded lx_saved
      lx_final_def)
qed

lemma lx_base: "outside (base_branch_identity (ru_client (lx_landing land)) path ''main'') s
    = (Inr (rx_sha (CHR ''a''), rx_sha (CHR ''1'')), s)"
  by (simp add: outside_def lx_landing_fields lx_reads)

lemma lx_finished:
  "finish_ordinary_batch (lx_landing land) lx_plan path [lx_landed] (rx_sha (CHR ''2''), t) s = (Inr lx_landed_plan, s)"
  by (simp add: finish_ordinary_batch_def outside_def lx_landing_fields lx_plan_fields lx_reads andDo_def give_def
    requireE_def lx_progress)

lemma lx_lands:
  assumes "land lx_effect w = (Inr (rx_sha (CHR ''2'')), w')"
  shows "land_ordinary_batch (lx_landing land) lx_plan (lx_world w) = (Inr lx_landed_plan, lx_final w')"
proof -
  have entry: "land_entry (lx_landing land) lx_plan path [] lx_entry [] (rx_sha (CHR ''a''), rx_sha (CHR ''1''))
      (rx_sha (CHR ''a''), rx_sha (CHR ''1'')) (lx_world w) = (Inr lx_landed, lx_final w')" for path
    by (simp add: land_entry_def lx_entry_fields lx_open_lands [of land w, OF assms])
  have "next_base lx_landed e = (rx_sha (CHR ''2''), rx_sha (CHR ''e''))" for e
    by (simp add: next_base_def lx_landed_def)
  with entry show ?thesis
    by (simp add: land_ordinary_batch_def andDo_def lift_res_def lx_plan_fields lx_stripped lx_entry_fields
      lx_base Let_def requireE_def give_def rx_sha_truthy lx_finished)
qed

end
