(* ===== verification/Mt_Landing_Properties.thy ===== *)
theory Mt_Landing_Properties
  imports Mt_Landing_Example Mt_Admission_Safety
begin

section \<open>What a landing run does\<close>

text \<open>
  Two properties of a run over an ordinary batch: no pull request is landed without an admission of its
  own for exactly the base and head the call names, and a run that returns has a recorded landing for
  every entry, each on top of the one before. The first needs a log of the landing calls beside the
  world; all the other calls leave that log alone.
\<close>

subsection \<open>Calls that leave a view alone\<close>

named_theorems keeps_intros \<open>calls that keep a view\<close>

lemma keeps_view_pure [keeps_intros]:
  "keeps_view view (give x)" "keeps_view view (raise e)" "keeps_view view (lift_res r)"
  "keeps_view view (requireE p e)"
  by (auto simp: keeps_view_def give_def raise_def lift_res_def requireE_def split: if_splits)

lemma keeps_view_andDo [keeps_intros]:
  assumes "keeps_view view m" and "\<And>x. keeps_view view (f x)"
  shows "keeps_view view (andDo m f)"
  unfolding keeps_view_def
proof (intro allI impI)
  fix w r w' assume run: "andDo m f w = (r, w')"
  obtain x w1 where m: "m w = (x, w1)" by (cases "m w")
  with assms(1) have first: "view w1 = view w" by (simp add: keeps_view_def)
  show "view w' = view w"
  proof (cases x)
    case (Inl e)
    with run m first show ?thesis by (simp add: andDo_def)
  next
    case (Inr y)
    with run m have "f y w1 = (r, w')" by (simp add: andDo_def)
    with assms(2) [of y] first show ?thesis by (simp add: keeps_view_def)
  qed
qed

lemma keeps_view_if [keeps_intros]: "keeps_view view m \<Longrightarrow> keeps_view view m' \<Longrightarrow> keeps_view view (if b then m else m')"
  by simp

lemma keeps_view_prod [keeps_intros]:
  "(\<And>x y. p = (x, y) \<Longrightarrow> keeps_view view (f x y)) \<Longrightarrow> keeps_view view (case p of (x, y) \<Rightarrow> f x y)"
  by (cases p) auto

definition quiet_client :: "('w \<Rightarrow> 'v) \<Rightarrow> 'w landing_client \<Rightarrow> bool" where
  "quiet_client view c \<longleftrightarrow> (\<forall>path n. keeps_view view (lc_pull c path n))
     \<and> (\<forall>path b. keeps_view view (lc_branch c path b)) \<and> (\<forall>path s. keeps_view view (lc_commit c path s))
     \<and> (\<forall>path s b. keeps_view view (lc_compare c path s b))
     \<and> (\<forall>path p. keeps_view view (lc_review_intent c path p))
     \<and> (\<forall>path n. keeps_view view (lc_client_veto c path n))
     \<and> (\<forall>path s. keeps_view view (lc_owner_review c path s))"

lemma quiet_clientD [keeps_intros]:
  assumes "quiet_client view c"
  shows "keeps_view view (lc_pull c path n)" "keeps_view view (lc_branch c path b)"
    "keeps_view view (lc_commit c path sha)" "keeps_view view (lc_compare c path sha b)"
    "keeps_view view (lc_review_intent c path p)" "keeps_view view (lc_client_veto c path n)"
    "keeps_view view (lc_owner_review c path sha)"
  using assms by (simp_all add: quiet_client_def)

lemma keeps_commit_proof [keeps_intros]: "quiet_client view c \<Longrightarrow> keeps_view view (git_commit_proof c path sha)"
  unfolding git_commit_proof_def by (intro keeps_intros)

lemma keeps_commit_identity [keeps_intros]:
  "quiet_client view c \<Longrightarrow> keeps_view view (git_commit_identity c path sha)"
  unfolding git_commit_identity_def by (intro keeps_intros)

lemma keeps_landing_commit [keeps_intros]:
  "quiet_client view c \<Longrightarrow> keeps_view view (validated_landing_commit_identity c path sha parent head merge_with)"
  unfolding validated_landing_commit_identity_def by (intro keeps_intros)

lemma keeps_base_identity [keeps_intros]:
  "quiet_client view c \<Longrightarrow> keeps_view view (base_branch_identity c path branch)"
  unfolding base_branch_identity_def by (intro keeps_intros)

lemma keeps_base_sha [keeps_intros]: "quiet_client view c \<Longrightarrow> keeps_view view (base_branch_sha c path branch)"
  unfolding base_branch_sha_def by (intro keeps_intros)

lemma keeps_contains [keeps_intros]:
  "quiet_client view c \<Longrightarrow> keeps_view view (branch_contains_commit c repository branch sha)"
  unfolding branch_contains_commit_def by (intro keeps_intros)

lemma keeps_requirements [keeps_intros]:
  "keeps_view view (require_base_ref p expected message)" "keeps_view view (require_head_sha p entry message)"
  unfolding require_base_ref_def require_head_sha_def by (intro keeps_intros)+

lemma keeps_observed_head [keeps_intros]: "quiet_client view c \<Longrightarrow> keeps_view view (observed_head c path entry message)"
  unfolding observed_head_def by (intro keeps_intros)

lemma keeps_observed_base [keeps_intros]:
  "quiet_client view c \<Longrightarrow> keeps_view view (observed_rolling_base c path base base_tree message)"
  unfolding observed_rolling_base_def by (intro keeps_intros)

lemma keeps_already_merged [keeps_intros]:
  "quiet_client view c \<Longrightarrow> keeps_view view (already_merged_landing_entry c path entry base_ref expected)"
  unfolding already_merged_landing_entry_def by (intro keeps_intros)

lemma keeps_recover_no_op [keeps_intros]:
  "quiet_client view c \<Longrightarrow> keeps_view view (recover_no_op_landing_entry c repository path entry base_ref expected)"
  unfolding recover_no_op_landing_entry_def by (intro keeps_intros)

lemma keeps_validate_open [keeps_intros]:
  "quiet_client view c \<Longrightarrow> keeps_view view (validate_open_landing_pull_request c path entry base_ref current)"
  unfolding validate_open_landing_pull_request_def by (intro keeps_intros)

subsection \<open>Everything but the landing call is quiet\<close>

definition quiet_run :: "('w \<Rightarrow> 'v) \<Rightarrow> 'w landing_run \<Rightarrow> bool" where
  "quiet_run view run \<longleftrightarrow> quiet_client view (ru_client run) \<and> quiet_ports view (ru_ports run)
     \<and> (case ru_provider_checkpoint run of None \<Rightarrow> True | Some f \<Rightarrow> \<forall>p e. keeps_view view (f p e))
     \<and> (case ru_checkpoint run of None \<Rightarrow> True | Some f \<Rightarrow> \<forall>p e phase. keeps_view view (f p e phase))"

lemma quiet_runD [advances_intros, keeps_intros]:
  assumes "quiet_run view run"
  shows "quiet_client view (ru_client run)" and "quiet_ports view (ru_ports run)"
    and "ru_provider_checkpoint run = Some f \<Longrightarrow> keeps_view view (f p e)"
    and "ru_checkpoint run = Some g \<Longrightarrow> keeps_view view (g p e phase)"
  using assms by (simp_all add: quiet_run_def)

lemma advances_on_error [advances_intros]:
  assumes "advances view m" and "\<And>e. advances view (h e)"
  shows "advances view (on_error m h)"
  unfolding advances_def
proof (intro allI impI)
  fix s r s' assume run: "on_error m h s = (r, s')"
  obtain x s1 where m: "m s = (x, s1)" by (cases "m s")
  note first = advancesD [OF assms(1) m]
  show "ledger_run (aw_ledger s) (aw_ledger s') \<and> view (aw_rest s') = view (aw_rest s)"
  proof (cases x)
    case (Inr y)
    with run m first show ?thesis by (simp add: on_error_def)
  next
    case (Inl e)
    obtain z s2 where h: "h e s1 = (z, s2)" by (cases "h e s1")
    with run m Inl have "s' = s2" by (auto simp: on_error_def split: sum.splits)
    with advancesD [OF assms(2) h] first show ?thesis by (metis rtranclp_trans)
  qed
qed

lemmas landing_steps = progress_of_def update_progress_def save_intent_def save_progress_def observed_at_def

lemma advances_progress [advances_intros]:
  "advances view (progress_of plan entries)"
  "quiet_run view run \<Longrightarrow> advances view (update_progress run p e phase)"
  "quiet_run view run \<Longrightarrow> advances view (save_intent run plan entries e)"
  "quiet_run view run \<Longrightarrow> advances view (save_progress run plan landed e rest phase)"
  "quiet_run view run \<Longrightarrow> advances view (observed_at run)"
  unfolding landing_steps by (intro advances_intros keeps_intros; assumption?)+

lemma advances_settle [advances_intros]:
  "quiet_run view run \<Longrightarrow> advances view (settle_merged_entry run plan landed e rest current)"
  unfolding settle_merged_entry_def by (intro advances_intros keeps_intros)

lemma advances_recorded_merge [advances_intros]:
  "quiet_run view run \<Longrightarrow> advances view (land_recorded_merge run plan path landed e rest expected current)"
  unfolding land_recorded_merge_def by (intro advances_intros keeps_intros)

lemma advances_moved_base [advances_intros]:
  "quiet_run view run \<Longrightarrow> advances view (land_moved_base run plan path landed e rest expected current)"
  unfolding land_moved_base_def by (intro advances_intros keeps_intros)

lemma advances_no_op [advances_intros]:
  "quiet_run view run \<Longrightarrow> advances view (land_no_op run plan path landed e rest expected current)"
  unfolding land_no_op_def by (intro advances_intros keeps_intros)

lemma advances_observe_landing [advances_intros]:
  "quiet_run view run \<Longrightarrow> advances view (observe_landing run plan path e current head sha a)"
  unfolding observe_landing_def by (intro advances_intros keeps_intros)

lemma advances_require_contained [advances_intros]:
  "quiet_run view run \<Longrightarrow> advances view (require_contained run plan observed sha a)"
  unfolding require_contained_def Let_def by (intro advances_intros keeps_intros)

lemma advances_prepare [advances_intros]:
  "quiet_run view run \<Longrightarrow> advances view (prepare_open_entry run plan path e current)"
  unfolding prepare_open_entry_def by (intro advances_intros keeps_intros)

lemma advances_provider_checkpoint [advances_intros]:
  assumes "quiet_run view run"
  shows "advances view (case ru_provider_checkpoint run of None \<Rightarrow> give ()
    | Some checkpoint \<Rightarrow> andDo (progress_of plan es) (\<lambda>p. outside (checkpoint p entry)))"
  by (rule advances_option) (intro advances_intros quiet_runD(3) [OF assms]; assumption)+

subsection \<open>The log of landing calls\<close>

text \<open>The same calls over a world with a log beside it, which they leave alone.\<close>

definition beside :: "('w, 'a) eff \<Rightarrow> ('w \<times> 'l, 'a) eff" where
  "beside m s = (case s of (w, log) \<Rightarrow> case m w of (r, w') \<Rightarrow> (r, (w', log)))"

definition beside_client :: "'w landing_client \<Rightarrow> ('w \<times> 'l) landing_client" where
  "beside_client c = \<lparr>lc_pull = (\<lambda>path n. beside (lc_pull c path n)),
     lc_branch = (\<lambda>path b. beside (lc_branch c path b)),
     lc_commit = (\<lambda>path s. beside (lc_commit c path s)),
     lc_compare = (\<lambda>path s b. beside (lc_compare c path s b)),
     lc_review_intent = (\<lambda>path d. beside (lc_review_intent c path d)),
     lc_client_veto = (\<lambda>path n. beside (lc_client_veto c path n)),
     lc_owner_review = (\<lambda>path s. beside (lc_owner_review c path s)),
     lc_land = (\<lambda>fx. beside (lc_land c fx))\<rparr>"

definition beside_ports :: "'w admission_ports \<Rightarrow> ('w \<times> 'l) admission_ports" where
  "beside_ports p = \<lparr>ap_controllers = ap_controllers p \<circ> fst,
     ap_state_provider = map_option beside (ap_state_provider p),
     ap_admission_time = beside (ap_admission_time p),
     ap_observation_time = beside (ap_observation_time p),
     ap_evaluate = (\<lambda>q. beside (ap_evaluate p q))\<rparr>"

definition beside_run :: "'w landing_run \<Rightarrow> ('w \<times> 'l) landing_run" where
  "beside_run run = \<lparr>ru_client = beside_client (ru_client run), ru_ports = beside_ports (ru_ports run),
     ru_provider_checkpoint = map_option (\<lambda>f p e. beside (f p e)) (ru_provider_checkpoint run),
     ru_checkpoint = map_option (\<lambda>f p e phase. beside (f p e phase)) (ru_checkpoint run)\<rparr>"

type_synonym landing_log = "(landing_effect \<times> string res) list"

definition logged_landings :: "'w landing_run \<Rightarrow> ('w \<times> landing_log) landing_run" where
  "logged_landings run = (beside_run run)\<lparr>ru_client := (beside_client (ru_client run))
     \<lparr>lc_land := (\<lambda>fx. logged (\<lambda>r. (fx, r)) (lc_land (ru_client run) fx))\<rparr>\<rparr>"

lemma keeps_beside [simp]: "keeps_view snd (beside m)"
  by (auto simp: keeps_view_def beside_def split: prod.splits)

lemma quiet_beside: "quiet_client snd (beside_client c)" "quiet_run snd (beside_run run)"
  by (simp_all add: quiet_run_def quiet_client_def quiet_ports_def beside_run_def beside_client_def beside_ports_def
    split: option.split)

lemma quiet_logged: "quiet_run snd (logged_landings run)"
  by (simp add: quiet_run_def quiet_client_def quiet_ports_def logged_landings_def beside_run_def beside_client_def
    beside_ports_def split: option.split)

text \<open>The admission the landing call names is for the merge that the call asks for.\<close>

definition admitted_effect :: "admission \<Rightarrow> landing_effect \<Rightarrow> bool" where
  "admitted_effect a fx \<longleftrightarrow> ad_admission_id a = fx_admission_id fx
     \<and> ad_pull_request_number a = fx_pull_request_number fx
     \<and> ad_head_sha a = py_lower (py_strip (fx_head_sha fx))
     \<and> ad_effective_base_sha a = py_lower (py_strip (fx_rolling_base_sha fx))
     \<and> rr_state (ad_readiness a) = Rd_ready \<and> admission_matches_target a (rr_target (ad_readiness a))"

abbreviation landings :: "('w \<times> landing_log) admission_world \<Rightarrow> landing_log" where
  "landings s \<equiv> snd (aw_rest s)"

definition landing_ids :: "('w \<times> landing_log) admission_world \<Rightarrow> string list" where
  "landing_ids s = map (fx_admission_id \<circ> fst) (landings s)"

definition landings_ok :: "admission_ledger \<Rightarrow> ('w \<times> landing_log) admission_world \<Rightarrow> bool" where
  "landings_ok lg s \<longleftrightarrow> ledger_ok (aw_ledger s) \<and> extends lg (aw_ledger s) \<and> distinct (landing_ids s)
     \<and> (\<forall>fx \<in> set (map fst (landings s)). \<exists>a \<in> set (lg_admissions (aw_ledger s)) - set (lg_admissions lg).
          admitted_effect a fx)"

lemma quiet_keeps_landings:
  assumes "advances snd m" and "landings_ok lg s" and "m s = (r, s')"
  shows "landings_ok lg s'"
proof -
  note step = advancesD [OF assms(1,3)]
  then have same: "landings s' = landings s" by simp
  have "extends (aw_ledger s) (aw_ledger s')" and ok: "ledger_ok (aw_ledger s')"
    using step assms(2) by (auto simp: landings_ok_def intro: ledger_run_extends ledger_run_ok)
  then have more: "set (lg_admissions (aw_ledger s)) \<subseteq> set (lg_admissions (aw_ledger s'))"
      and ext: "extends lg (aw_ledger s')"
    using assms(2) by (auto simp: extends_def landings_ok_def intro: prefix_order.trans dest: set_mono_prefix)
  have "\<exists>a \<in> set (lg_admissions (aw_ledger s')) - set (lg_admissions lg). admitted_effect a fx"
    if "fx \<in> set (map fst (landings s'))" for fx
  proof -
    have "\<exists>a \<in> set (lg_admissions (aw_ledger s)) - set (lg_admissions lg). admitted_effect a fx"
      using assms(2) that unfolding same landings_ok_def by blast
    with more show ?thesis by blast
  qed
  moreover have "distinct (landing_ids s')" using assms(2) by (simp add: landings_ok_def landing_ids_def same)
  ultimately show ?thesis using ok ext unfolding landings_ok_def by blast
qed

lemma quiet_runs: "advances snd m \<Longrightarrow> landings_ok lg s \<Longrightarrow> runs_to m (\<lambda>r s'. landings_ok lg s') s"
  by (auto intro: runs_toI quiet_keeps_landings)

text \<open>An admission that was just made and that no call has named yet.\<close>

definition fresh_admission :: "admission_ledger \<Rightarrow> admission \<Rightarrow> ('w \<times> landing_log) admission_world \<Rightarrow> bool" where
  "fresh_admission lg a s \<longleftrightarrow> a \<in> set (lg_admissions (aw_ledger s)) - set (lg_admissions lg)
     \<and> ad_admission_id a \<notin> set (landing_ids s)"

lemma quiet_keeps_fresh:
  assumes "advances snd m" and "landings_ok lg s" and "fresh_admission lg a s" and "m s = (r, s')"
  shows "fresh_admission lg a s'"
proof -
  note step = advancesD [OF assms(1,4)]
  have "extends (aw_ledger s) (aw_ledger s')"
    using step assms(2) by (auto simp: landings_ok_def intro: ledger_run_extends)
  then have "set (lg_admissions (aw_ledger s)) \<subseteq> set (lg_admissions (aw_ledger s'))"
    by (auto simp: extends_def dest: set_mono_prefix)
  with step assms(3) show ?thesis by (auto simp: fresh_admission_def landing_ids_def)
qed

lemma admit_fresh:
  assumes ok: "landings_ok lg s"
    and run: "admit (ru_ports (logged_landings run)) entry base base_tree head head_tree s = (Inr a, s')"
  shows "landings_ok lg s'" and "fresh_admission lg a s'"
proof -
  have quiet: "advances snd (admit (ru_ports (logged_landings run)) entry base base_tree head head_tree)"
    by (intro advances_admit quiet_runD quiet_logged)
  show ok': "landings_ok lg s'" by (rule quiet_keeps_landings [OF quiet ok run])
  have ledger: "lg_admissions (aw_ledger s') = lg_admissions (aw_ledger s) @ [a]"
    using admission_is_fenced_lemma [OF run] by simp
  then have new: "ad_admission_id a \<notin> ad_admission_id ` set (lg_admissions (aw_ledger s))"
    using ok' by (auto simp: landings_ok_def ledger_ok_def)
  have "i \<in> ad_admission_id ` set (lg_admissions (aw_ledger s))" if i: "i \<in> set (landing_ids s)" for i
  proof -
    from i obtain fx where "fx \<in> set (map fst (landings s))" and "i = fx_admission_id fx"
      by (auto simp: landing_ids_def)
    with ok obtain b where "b \<in> set (lg_admissions (aw_ledger s))" "admitted_effect b fx"
      unfolding landings_ok_def by blast
    with \<open>i = fx_admission_id fx\<close> show ?thesis by (intro image_eqI [of _ _ b]) (simp_all add: admitted_effect_def)
  qed
  with new have "ad_admission_id a \<notin> set (landing_ids s)" by blast
  moreover have "landing_ids s' = landing_ids s"
    using advancesD [OF quiet run] by (simp add: landing_ids_def)
  moreover have "a \<notin> set (lg_admissions lg)"
    using ok new by (auto simp: landings_ok_def extends_def dest: set_mono_prefix)
  ultimately show "fresh_admission lg a s'" using ledger by (simp add: fresh_admission_def)
qed


subsection \<open>No landing without an admission of its own\<close>

lemma prepare_head:
  assumes "prepare_open_entry run plan path entry current s = (Inr (head, tree), s')"
  shows "head = le_expected_head_sha entry"
  using assms
  by (auto simp: prepare_open_entry_def git_commit_identity_def git_commit_proof_def outside_def
    split: prod.splits)

lemma landing_call_ok:
  assumes ok: "landings_ok lg s" and fresh: "fresh_admission lg a s" and fx: "admitted_effect a fx"
    and run: "outside (lc_land (ru_client (logged_landings run)) fx) s = (r, s')"
  shows "landings_ok lg s'"
proof -
  obtain w where s': "landings s' = (fx, w) # landings s" "aw_ledger s' = aw_ledger s"
    using run by (auto simp: outside_def logged_landings_def logged_def split: prod.splits)
  have id: "fx_admission_id fx = ad_admission_id a" using fx by (simp add: admitted_effect_def)
  have "distinct (landing_ids s')"
    using ok fresh by (simp add: landing_ids_def s' landings_ok_def fresh_admission_def id)
  moreover have "\<exists>a \<in> set (lg_admissions (aw_ledger s)) - set (lg_admissions lg). admitted_effect a f"
    if "f \<in> set (map fst (landings s'))" for f
  proof (cases "f = fx")
    case True
    with fx fresh show ?thesis unfolding fresh_admission_def by blast
  next
    case False
    with that have "f \<in> set (map fst (landings s))" by (auto simp: s')
    with ok show ?thesis unfolding landings_ok_def by blast
  qed
  ultimately show ?thesis using ok unfolding landings_ok_def s'(2) by blast
qed

lemma provider_landing_ok:
  assumes "landings_ok lg s" and "fresh_admission lg a s"
    and "admitted_effect a (landing_effect_of plan entry base a)"
    and run: "land_through_provider (logged_landings run) plan entry base a s = (r, s')"
  shows "landings_ok lg s'"
proof -
  let ?call = "outside (lc_land (ru_client (logged_landings run)) (landing_effect_of plan entry base a))"
  obtain x s1 where call: "?call s = (x, s1)" by (cases "?call s")
  note ok = landing_call_ok [OF assms(1-3) call]
  show ?thesis
  proof (cases x)
    case (Inr y)
    with run call ok show ?thesis by (simp add: land_through_provider_def on_error_def)
  next
    case (Inl e)
    let ?handler = "andDo (observed_at (logged_landings run)) (\<lambda>at. andDo (record_provider_failure a e at) (\<lambda>_. give ()))"
    obtain z where "?handler s1 = (z, s')"
      using run call Inl by (auto simp: land_through_provider_def on_error_def split: prod.splits sum.splits)
    moreover have "advances snd ?handler" by (intro advances_intros quiet_logged)
    ultimately show ?thesis using quiet_keeps_landings ok by metis
  qed
qed

text \<open>Rules for a call followed by the rest of the code.\<close>

abbreviation all_admitted :: "admission_ledger \<Rightarrow> 'r \<Rightarrow> ('w \<times> landing_log) admission_world \<Rightarrow> bool" where
  "all_admitted lg \<equiv> \<lambda>r s. landings_ok lg s"

lemma quiet_thenI:
  assumes "advances snd m" and "landings_ok lg s"
    and "\<And>x s'. m s = (Inr x, s') \<Longrightarrow> landings_ok lg s' \<Longrightarrow> runs_to (f x) (all_admitted lg) s'"
  shows "runs_to (andDo m f) (all_admitted lg) s"
  by (rule andDoI [where P = "\<lambda>r s'. m s = (r, s') \<and> landings_ok lg s'"])
    (use assms in \<open>auto intro: runs_toI quiet_keeps_landings\<close>)

lemma quiet_fresh_thenI:
  assumes "advances snd m" and "landings_ok lg s" and "fresh_admission lg a s"
    and "\<And>x s'. landings_ok lg s' \<Longrightarrow> fresh_admission lg a s' \<Longrightarrow> runs_to (f x) (all_admitted lg) s'"
  shows "runs_to (andDo m f) (all_admitted lg) s"
  by (rule quiet_thenI [OF assms(1,2)]) (use assms in \<open>auto intro: quiet_keeps_fresh\<close>)

lemma admit_thenI:
  assumes "landings_ok lg s"
    and "\<And>a s'. landings_ok lg s' \<Longrightarrow> fresh_admission lg a s'
      \<Longrightarrow> admitted_effect a (landing_effect_of plan entry base a) \<Longrightarrow> runs_to (f a) (all_admitted lg) s'"
  shows "runs_to (andDo (admit (ru_ports (logged_landings run)) entry base base_tree (le_expected_head_sha entry) tree) f)
     (all_admitted lg) s"
proof (rule quiet_thenI [OF _ assms(1)], goal_cases quiet admitted)
  case quiet
  show ?case by (intro advances_intros quiet_logged)
next
  case (admitted a s')
  note facts = admission_is_fenced_lemma [OF admitted(1)]
  have "admitted_effect a (landing_effect_of plan entry base a)"
    using facts by (simp add: admitted_effect_def landing_effect_of_def)
  with assms(2) admit_fresh [OF assms(1) admitted(1)] show ?case by blast
qed

lemma provider_thenI:
  assumes "landings_ok lg s" and "fresh_admission lg a s"
    and "admitted_effect a (landing_effect_of plan entry base a)"
    and "\<And>x s'. landings_ok lg s' \<Longrightarrow> runs_to (f x) (all_admitted lg) s'"
  shows "runs_to (andDo (land_through_provider (logged_landings run) plan entry base a) f) (all_admitted lg) s"
  by (rule andDoI [where P = "all_admitted lg"])
    (use assms in \<open>auto intro: runs_toI provider_landing_ok\<close>)

lemma open_landing_ok:
  assumes ok: "landings_ok lg s"
  shows "runs_to (land_open (logged_landings run) plan path landed entry rest current) (all_admitted lg) s"
  unfolding land_open_def
proof (rule quiet_thenI [OF _ ok], goal_cases quiet prepared)
  case (prepared ht s1)
  obtain head tree where ht: "ht = (head, tree)" by (cases ht)
  with prepared have head: "head = le_expected_head_sha entry" by (auto dest: prepare_head)
  show ?case
    unfolding ht prod.case head
    by (rule quiet_thenI [OF _ prepared(2)], intro advances_intros quiet_logged,
      rule admit_thenI, assumption, rule quiet_fresh_thenI, rule advances_provider_checkpoint [OF quiet_logged],
      assumption+, rule provider_thenI, assumption+, rule quiet_runs, intro advances_intros quiet_logged)
qed (intro advances_intros quiet_logged)

lemma entry_landing_ok:
  assumes "landings_ok lg s"
  shows "runs_to (land_entry (logged_landings run) plan path landed entry rest expected current) (all_admitted lg) s"
  unfolding land_entry_def runs_to_if
  by (auto intro!: open_landing_ok quiet_runs advances_intros quiet_logged assms)

lemma entries_landing_ok:
  "landings_ok lg s
     \<Longrightarrow> runs_to (land_entries (logged_landings run) plan path landed rest expected) (all_admitted lg) s"
proof (induction rest arbitrary: landed expected s)
  case Nil
  then show ?case by (simp add: wp)
next
  case (Cons entry rest)
  show ?case
    unfolding land_entries.simps Let_def
    by (intro quiet_thenI advances_intros keeps_intros quiet_logged Cons.prems
      andDoI [OF entry_landing_ok] Cons.IH) assumption+
qed

lemma batch_landing_ok:
  assumes "landings_ok lg s"
  shows "runs_to (land_ordinary_batch (logged_landings run) plan) (all_admitted lg) s"
  unfolding land_ordinary_batch_def finish_ordinary_batch_def
  by (intro quiet_thenI andDoI [OF entries_landing_ok]) (auto intro!: quiet_runs advances_intros keeps_intros quiet_logged simp: assms)

subsection \<open>A returned plan has landed entry by entry\<close>

definition landed_as :: "landing_entry \<Rightarrow> string \<Rightarrow> landing_entry \<Rightarrow> bool" where
  "landed_as entry base e \<longleftrightarrow> le_pull_request_number e = le_pull_request_number entry
     \<and> le_status e \<in> {Land_merged, Land_skipped} \<and> le_recorded_rolling_base_sha e = base
     \<and> le_landed_head_sha e = le_expected_head_sha entry"

text \<open>Each entry on the merge commit of the one before, a skipped one on the base it left alone.\<close>

fun landed_chain :: "string \<Rightarrow> landing_entry list \<Rightarrow> landing_entry list \<Rightarrow> bool" where
  "landed_chain base [] ds = (ds = [])"
| "landed_chain base (e # es) [] = False"
| "landed_chain base (e # es) (d # ds) = (landed_as e base d
     \<and> landed_chain (if le_status d = Land_merged then le_merge_commit_sha d else base) es ds)"

lemma required_answer_Inr: "required_answer v m = Inr x \<Longrightarrow> x = py_strip v \<and> py_strip x = x"
  by (auto simp: required_answer_def split: if_splits)

lemma commit_identity:
  "git_commit_identity c path sha w = (Inr (x, t), w') \<Longrightarrow> x = sha \<and> py_strip sha = sha"
  by (auto simp: git_commit_identity_def git_commit_proof_def dest!: required_answer_Inr split: prod.splits)

lemma base_identity_stripped:
  "base_branch_identity c path branch w = (Inr (x, t), w') \<Longrightarrow> py_strip x = x"
  by (auto simp: base_branch_identity_def dest!: required_answer_Inr commit_identity split: if_splits)

lemma strip_landing_fields [simp]:
  "le_pull_request_number (strip_landing_entry e) = le_pull_request_number e"
  "le_status (strip_landing_entry e) = le_status e"
  "le_recorded_rolling_base_sha (strip_landing_entry e) = py_strip (le_recorded_rolling_base_sha e)"
  "le_landed_head_sha (strip_landing_entry e) = py_strip (le_landed_head_sha e)"
  by (simp_all add: strip_landing_entry_def)

lemma landed_entry_as:
  assumes "landed_entry entry st base head commit = Inr e" and "st \<in> {Land_merged, Land_skipped}"
    and "fst head = le_expected_head_sha entry" and "py_strip (fst head) = fst head" "py_strip (fst base) = fst base"
  shows "landed_as entry (fst base) e"
  using assms by (auto simp: landed_entry_def validate_landing_entry_def Let_def landed_as_def split: if_splits)

lemma observed_head_is:
  "observed_head c path entry m w = (Inr h, w') \<Longrightarrow> fst h = le_expected_head_sha entry \<and> py_strip (fst h) = fst h"
  by (auto simp: observed_head_def dest!: commit_identity)

lemma observed_base_is:
  "observed_rolling_base c path base tree m w = (Inr b, w') \<Longrightarrow> fst b = base \<and> py_strip base = base"
  by (auto simp: observed_rolling_base_def dest!: commit_identity)

lemma already_merged_as:
  assumes "already_merged_landing_entry c path entry ref expected w = (Inr (Some e), w')"
  shows "landed_as entry (fst expected) e"
  using assms
  by (auto simp: already_merged_landing_entry_def split: if_splits prod.splits
    dest!: observed_head_is observed_base_is landed_entry_as)

lemma no_op_as:
  assumes "recover_no_op_landing_entry c repo path entry ref expected w = (Inr e, w')"
  shows "landed_as entry (fst expected) e"
  using assms
  by (auto simp: recover_no_op_landing_entry_def dest!: observed_head_is observed_base_is landed_entry_as)

text \<open>What is recorded stays recorded through the calls after it.\<close>

definition recorded_in :: "'w admission_world \<Rightarrow> nat \<Rightarrow> bool" where
  "recorded_in s n \<longleftrightarrow> ledger_ok (aw_ledger s) \<and> landing_recorded (aw_ledger s) n"

lemma advances_keeps_ok:
  "advances view m \<Longrightarrow> m s = (r, s') \<Longrightarrow> ledger_ok (aw_ledger s) \<Longrightarrow> ledger_ok (aw_ledger s')"
  by (auto dest: advancesD intro: ledger_run_ok)

lemma advances_keeps_recorded:
  assumes "advances view m" and "m s = (r, s')" and "recorded_in s n"
  shows "recorded_in s' n"
  using assms(3) advancesD [OF assms(1,2)] landing_recorded_mono ledger_run_extends ledger_run_ok
  unfolding recorded_in_def by metis

lemma quiet_unit [simp]: "quiet_run (\<lambda>_. ()) run" "quiet_ports (\<lambda>_. ()) ports" "keeps_view (\<lambda>_. ()) m"
  "quiet_client (\<lambda>_. ()) c"
  by (auto simp: quiet_run_def quiet_client_def quiet_ports_def keeps_view_def split: option.split)

lemma advances_alone [advances_intros]: "quiet_run (\<lambda>_. ()) run" "keeps_view (\<lambda>_. ()) m"
  by simp_all

lemma settle_recorded:
  assumes "settle_merged_entry run plan landed e rest current s = (Inr d, s')" and ok: "ledger_ok (aw_ledger s)"
  shows "d = e \<and> recorded_in s' (le_pull_request_number e)"
proof -
  obtain s1 s2 s3 c at x u where st: "outside (branch_contains_commit (ru_client run) (lp_repository plan)
        (lp_base_branch plan) (le_merge_commit_sha e)) s = (Inr c, s1)"
      "observed_at run s1 = (Inr at, s2)"
      "reconcile_existing_landed e (fst current) (snd current) True at s2 = (Inr x, s3)"
      "save_progress run plan landed e rest ''entry_merged'' s3 = (Inr u, s')" and d: "d = e"
    using assms(1) by (auto simp: settle_merged_entry_def)
  have quiet: "quiet_run (\<lambda>_. ()) run" by simp
  have "ledger_ok (aw_ledger s2)"
    using advances_keeps_ok [OF advances_outside [OF quiet_unit(3)] st(1) ok]
      advances_keeps_ok [OF advances_progress(5) [OF quiet] st(2)]
    by simp
  moreover from this have "ledger_ok (aw_ledger s3)"
    by (rule advances_keeps_ok [OF advances_reconcile_landed st(3)])
  ultimately have "recorded_in s3 (le_pull_request_number e)"
    using reconciled_landing [OF st(3)] by (simp add: recorded_in_def)
  with advances_keeps_recorded [OF advances_progress(4) [OF quiet] st(4)] d show ?thesis by blast
qed

text \<open>The end of an entry that was admitted.\<close>

lemma record_landed_then:
  assumes "record_landed a e base base_tree contains attempted at s = (Inr x, s1)"
    and "ledger_ok (aw_ledger s)" and "save_progress run plan landed d rest phase s1 = (r, s')"
  shows "recorded_in s' (ad_pull_request_number a)"
proof -
  have "recorded_in s1 (ad_pull_request_number a)"
    using record_landed_recorded [OF assms(1,2)] advances_keeps_ok [OF advances_record_landed assms(1,2)]
    by (simp add: recorded_in_def)
  with advances_keeps_recorded [OF advances_progress(4) [OF quiet_unit(1)] assms(3)] show ?thesis .
qed

lemma admitted_number:
  "admit ports entry base base_tree head head_tree s = (Inr a, s') \<Longrightarrow> ad_pull_request_number a = le_pull_request_number entry"
  by (drule admission_is_fenced_lemma) simp

definition lands :: "landing_entry \<Rightarrow> string \<Rightarrow> landing_entry res \<Rightarrow> 'w admission_world \<Rightarrow> bool" where
  "lands entry base r s \<longleftrightarrow> (\<forall>d. r = Inr d \<longrightarrow> landed_as entry base d \<and> recorded_in s (le_pull_request_number entry)
     \<and> ledger_ok (aw_ledger s))"

lemma lands_fails [simp]: "lands entry base (Inl e) s"
  by (simp add: lands_def)

lemma then_okI:
  assumes "advances (\<lambda>_. ()) m" and "ledger_ok (aw_ledger s)"
    and "\<And>x s'. m s = (Inr x, s') \<Longrightarrow> ledger_ok (aw_ledger s') \<Longrightarrow> runs_to (f x) (lands entry base) s'"
  shows "runs_to (andDo m f) (lands entry base) s"
  by (rule andDoI [where P = "\<lambda>r s'. m s = (r, s') \<and> ledger_ok (aw_ledger s')"])
    (use assms in \<open>auto intro: runs_toI advances_keeps_ok\<close>)

lemma outside_Inr: "outside m s = (Inr x, s') \<Longrightarrow> \<exists>w. m (aw_rest s) = (Inr x, w)"
  by (auto simp: outside_def split: prod.splits)

lemma settle_lands:
  assumes "ledger_ok (aw_ledger s)" and "landed_as entry base e"
  shows "runs_to (settle_merged_entry run plan landed e rest current) (lands entry base) s"
proof (rule runs_toI)
  fix r s' assume run: "settle_merged_entry run plan landed e rest current s = (r, s')"
  show "lands entry base r s'"
  proof (cases r)
    case (Inr d)
    with settle_recorded [of run plan landed e rest current s d s'] run assms show ?thesis
      by (auto simp: lands_def landed_as_def recorded_in_def)
  qed simp
qed

lemma recorded_merge_lands:
  assumes "ledger_ok (aw_ledger s)"
  shows "runs_to (land_recorded_merge run plan path landed entry rest expected current) (lands entry (fst expected)) s"
  unfolding land_recorded_merge_def
  by (rule then_okI [OF advances_outside [OF quiet_unit(3)] assms])
    (auto simp: wp split: option.split dest!: outside_Inr intro!: settle_lands already_merged_as)

lemma moved_base_lands:
  assumes "ledger_ok (aw_ledger s)"
  shows "runs_to (land_moved_base run plan path landed entry rest expected current) (lands entry (fst expected)) s"
  unfolding land_moved_base_def
  by (rule then_okI [OF advances_outside [OF quiet_unit(3)] assms])
    (auto simp: wp split: option.split dest!: outside_Inr intro!: settle_lands already_merged_as)

text \<open>The last calls of an entry that was admitted here.\<close>

lemma recording_lands:
  assumes ok: "ledger_ok (aw_ledger s)" and d: "landed_as entry base d"
    and a: "ad_pull_request_number a = le_pull_request_number entry"
  shows "runs_to (andDo (observed_at run) (\<lambda>at. andDo (record_landed a d cur cur_tree contains attempted at) (\<lambda>_.
     andDo (save_progress run plan landed d rest phase) (\<lambda>_. give d)))) (lands entry base) s"
proof (rule then_okI [OF advances_progress(5) [OF quiet_unit(1)] ok],
    rule then_okI [OF advances_record_landed], assumption,
    rule then_okI [OF advances_progress(4) [OF quiet_unit(1)]], assumption, goal_cases saved)
  case (saved at s1 x s2 u s3)
  from record_landed_then [OF saved(3,2,5)] saved(6) d a show ?case
    by (simp add: wp lands_def)
qed

lemma no_op_lands:
  assumes "ledger_ok (aw_ledger s)"
  shows "runs_to (land_no_op run plan path landed entry rest expected current) (lands entry (fst expected)) s"
  unfolding land_no_op_def
  by (rule then_okI [OF advances_progress(3) [OF quiet_unit(1)] assms],
      rule then_okI [OF advances_outside [OF quiet_unit(3)]], assumption,
      rule then_okI [OF advances_admit [OF quiet_unit(2)]], assumption,
      rule recording_lands, assumption)
    (auto dest!: outside_Inr intro: no_op_as admitted_number)

lemma prepared_head:
  assumes "prepare_open_entry run plan path entry current s = (Inr h, s')"
  shows "fst h = le_expected_head_sha entry \<and> py_strip (fst h) = fst h"
  using assms by (auto simp: prepare_open_entry_def dest!: outside_Inr commit_identity)

lemma advances_through_provider [advances_intros]:
  "keeps_view view (lc_land (ru_client run) (landing_effect_of plan entry base a)) \<Longrightarrow> quiet_run view run
     \<Longrightarrow> advances view (land_through_provider run plan entry base a)"
  unfolding land_through_provider_def by (intro advances_intros)

lemma open_lands:
  assumes ok: "ledger_ok (aw_ledger s)" and current: "py_strip (fst current) = fst current"
  shows "runs_to (land_open run plan path landed entry rest current) (lands entry (fst current)) s"
  unfolding land_open_def
proof (rule then_okI [OF advances_prepare [OF quiet_unit(1)] ok], goal_cases prepared)
  case (prepared h s1)
  obtain head tree where h: "h = (head, tree)" by (cases h)
  note is_head = prepared_head [OF prepared(1)]
  show ?case
    unfolding h prod.case
  proof (rule then_okI [OF advances_progress(3) [OF quiet_unit(1)] prepared(2)],
      rule then_okI [OF advances_admit [OF quiet_unit(2)]], assumption,
      rule then_okI [OF advances_provider_checkpoint [OF quiet_unit(1)]], assumption,
      rule then_okI [OF advances_through_provider [OF quiet_unit(3) quiet_unit(1)]], assumption,
      rule then_okI [OF advances_observe_landing [OF quiet_unit(1)]], assumption, goal_cases observed)
    case (observed u1 s2 a s3 u2 s4 sha s5 pair s6)
    obtain commit seen where pair: "pair = (commit, seen)" by (cases pair)
    note number = admitted_number [OF observed(3)]
    have as_entry: "landed_as entry (fst current) d"
      if "landed_entry entry Land_merged current (head, tree) commit = Inr d" for d
      by (rule landed_entry_as [OF that]) (use is_head h current in auto)
    show ?case
      unfolding pair prod.case
      by (rule then_okI [OF advances_require_contained [OF quiet_unit(1)] observed(10)],
        rule then_okI [OF advances_pure(3)], assumption,
        rule recording_lands [OF _ as_entry number]) (auto simp: lift_res_def)
  qed
qed

lemma entry_lands:
  assumes "ledger_ok (aw_ledger s)" and "py_strip (fst current) = fst current"
  shows "runs_to (land_entry run plan path landed entry rest expected current) (lands entry (fst expected)) s"
proof (cases "fst current = fst expected")
  case True
  with open_lands [OF assms] show ?thesis
    by (auto simp: land_entry_def intro: recorded_merge_lands no_op_lands assms)
next
  case False
  then show ?thesis by (auto simp: land_entry_def intro: recorded_merge_lands no_op_lands moved_base_lands assms)
qed

lemma advances_land_entry: "advances (\<lambda>_. ()) (land_entry run plan path landed entry rest expected current)"
  unfolding land_entry_def land_open_def by (intro advances_intros quiet_unit)

lemma advances_land_entries: "advances (\<lambda>_. ()) (land_entries run plan path landed es expected)"
proof (induction es arbitrary: landed expected)
  case (Cons e es)
  show ?case unfolding land_entries.simps Let_def by (intro advances_intros quiet_unit advances_land_entry Cons.IH)
qed (simp add: advances_pure)

definition chain_lands ::
  "string \<Rightarrow> landing_entry list \<Rightarrow> landing_entry list \<Rightarrow> landing_entry list \<Rightarrow> 'w admission_world \<Rightarrow> bool" where
  "chain_lands base landed es ds s \<longleftrightarrow> (\<exists>new. ds = landed @ new \<and> landed_chain base es new)
     \<and> (\<forall>e \<in> set es. recorded_in s (le_pull_request_number e)) \<and> ledger_ok (aw_ledger s)"

lemma entries_land:
  assumes "land_entries run plan path landed es expected s = (Inr (ds, final), s')" and "ledger_ok (aw_ledger s)"
  shows "chain_lands (fst expected) landed es ds s'"
  using assms
proof (induction es arbitrary: landed expected s)
  case Nil
  then show ?case by (auto simp: chain_lands_def give_def)
next
  case (Cons e es)
  from Cons.prems(1) obtain current s1 s2 d where
      at: "outside (base_branch_identity (ru_client run) path (lp_base_branch plan)) s = (Inr current, s1)"
    and landed: "land_entry run plan path landed e es
       (if snd expected = '''' \<and> fst current = fst expected then current else expected) current s1 = (Inr d, s2)"
    and rest: "land_entries run plan path (landed @ [d]) es (next_base d
       (if snd expected = '''' \<and> fst current = fst expected then current else expected)) s2 = (Inr (ds, final), s')"
    by (auto simp: Let_def)
  have ok1: "ledger_ok (aw_ledger s1)"
    using advances_keeps_ok [OF advances_outside [OF quiet_unit(3)] at Cons.prems(2)] .
  have "py_strip (fst current) = fst current"
    using at by (cases current) (auto dest!: outside_Inr base_identity_stripped)
  from runs_toD [OF entry_lands [OF ok1 this] landed]
  have d: "landed_as e (fst expected) d" "recorded_in s2 (le_pull_request_number e)" "ledger_ok (aw_ledger s2)"
    by (auto simp: lands_def split: if_splits)
  note tail = Cons.IH [OF rest d(3)]
  have "recorded_in s' (le_pull_request_number e)"
    by (rule advances_keeps_recorded [OF advances_land_entries rest d(2)])
  with tail d(1) show ?case
    by (auto simp: chain_lands_def next_base_def split: if_splits)
qed

subsection \<open>The properties\<close>

text \<open>
  C3. In a run over an ordinary batch, whatever the provider answers and wherever the run stops, no two
  landing calls name the same admission, and each names an admission that was made in this run, found
  ready, for that pull request on exactly the head and the base that the call asks to merge.
\<close>

theorem landings_are_admitted:
  assumes "ledger_run empty_ledger (aw_ledger s)" and "landings s = []"
    and run: "land_ordinary_batch (logged_landings run) plan s = (r, s')"
  shows "distinct (landing_ids s') \<and> (\<forall>fx \<in> set (map fst (landings s')).
    \<exists>a \<in> set (lg_admissions (aw_ledger s')) - set (lg_admissions (aw_ledger s)). admitted_effect a fx)"
proof -
  have "landings_ok (aw_ledger s) s"
    using ledger_run_ok [OF assms(1) empty_ledger_ok] assms(2) by (simp add: landings_ok_def landing_ids_def)
  from runs_toD [OF batch_landing_ok [OF this] run] show ?thesis
    unfolding landings_ok_def by blast
qed

text \<open>
  C4. When a run over an ordinary batch returns a plan, every entry of it is merged or skipped at its
  planned head, the first on the expected base and each next one on the merge commit of the one before,
  and the admission ledger records a landing for every one of them.
\<close>

theorem landed_batch_is_recorded:
  assumes "ledger_run empty_ledger (aw_ledger s)" and run: "land_ordinary_batch run plan s = (Inr plan', s')"
  shows "landed_chain (le_expected_base_sha (hd (lp_entries plan))) (lp_entries plan) (lp_entries plan')
    \<and> (\<forall>e \<in> set (lp_entries plan). landing_recorded (aw_ledger s') (le_pull_request_number e))"
proof -
  obtain path start landed final s1 where
      start: "(case lp_entries plan of [] \<Rightarrow> Inl (RuntimeError ''tuple index out of range'')
       | e # _ \<Rightarrow> Inr (le_expected_base_sha e, le_recorded_candidate_parent_tree_sha e)) = Inr start"
    and landing: "land_entries run plan path [] (lp_entries plan) start s = (Inr (landed, final), s1)"
    and tail: "finish_ordinary_batch run plan path landed final s1 = (Inr plan', s')"
    using run by (auto simp del: land_entries.simps simp: land_ordinary_batch_def lift_res_def)
  have base: "fst start = le_expected_base_sha (hd (lp_entries plan))"
    using start by (auto split: list.splits)
  have chain: "chain_lands (fst start) [] (lp_entries plan) landed s1"
    by (rule entries_land [OF landing ledger_run_ok [OF assms(1) empty_ledger_ok]])
  have quiet: "advances (\<lambda>_. ()) (finish_ordinary_batch run plan path landed final)"
    unfolding finish_ordinary_batch_def by (intro advances_intros quiet_unit)
  have "validate_landing_plan (plan\<lparr>lp_entries := landed\<rparr>) = Inr plan'"
    using tail by (auto simp: finish_ordinary_batch_def progress_of_def lift_res_def)
  then have "lp_entries plan' = landed" by (simp add: validated_landing_plan(6))
  moreover have "recorded_in s' (le_pull_request_number d)" if "d \<in> set (lp_entries plan)" for d
    by (rule advances_keeps_recorded [OF quiet tail]) (use chain that in \<open>simp add: chain_lands_def\<close>)
  ultimately show ?thesis
    using chain base by (auto simp: chain_lands_def recorded_in_def)
qed

subsection \<open>The concrete run\<close>

lemma beside_give: "beside (give x) = give x"
  by (rule ext) (simp add: beside_def give_def split: prod.split)

lemma beside_lx: "beside_run (lx_landing land) = lx_landing (\<lambda>fx. beside (land fx))"
  by (simp add: beside_run_def beside_client_def beside_ports_def lx_landing_def lx_client_def lx_ports_def beside_give comp_def)

lemma lx_logged: "logged_landings (lx_landing land) = lx_landing (\<lambda>fx. logged (\<lambda>r. (fx, r)) (land fx))"
  by (simp add: logged_landings_def beside_lx) (simp add: lx_landing_def lx_client_def beside_client_def beside_give)

lemma lx_empty: "aw_ledger (lx_world w) = empty_ledger"
  by (simp add: lx_world_def empty_ledger_def)

lemma lx_logged_run:
  "land_ordinary_batch (logged_landings (lx_landing (\<lambda>_. give (rx_sha (CHR ''2''))))) lx_plan (lx_world ((), []))
     = (Inr lx_landed_plan, lx_final ((), [(lx_effect, Inr (rx_sha (CHR ''2'')))]))"
  unfolding lx_logged by (rule lx_lands) (simp add: logged_def give_def)

theorem landings_are_admitted_witness:
  "\<exists>s'. land_ordinary_batch (logged_landings (lx_landing (\<lambda>_. give (rx_sha (CHR ''2''))))) lx_plan (lx_world ((), []))
       = (Inr lx_landed_plan, s')
     \<and> map fst (landings s') = [lx_effect] \<and> (\<exists>a \<in> set (lg_admissions (aw_ledger s')). admitted_effect a lx_effect)"
proof -
  have "ledger_run empty_ledger (aw_ledger (lx_world ((), [])))" by (simp add: lx_empty)
  from landings_are_admitted [OF this _ lx_logged_run] lx_logged_run show ?thesis
    by (auto simp: lx_final_def lx_world_def)
qed

theorem landed_batch_is_recorded_witness:
  "\<exists>s'. land_ordinary_batch (lx_landing (\<lambda>_. give (rx_sha (CHR ''2'')))) lx_plan (lx_world ()) = (Inr lx_landed_plan, s')
     \<and> landed_chain (rx_sha (CHR ''a'')) [lx_entry] [lx_landed] \<and> landing_recorded (aw_ledger s') 7"
proof -
  have run: "land_ordinary_batch (lx_landing (\<lambda>_. give (rx_sha (CHR ''2'')))) lx_plan (lx_world ())
      = (Inr lx_landed_plan, lx_final ())"
    by (rule lx_lands) (simp add: give_def)
  have "ledger_run empty_ledger (aw_ledger (lx_world ()))" by (simp add: lx_empty)
  from landed_batch_is_recorded [OF this run] run show ?thesis
    by (simp add: lx_plan_fields lx_entry_fields lx_landed_plan_def)
qed

end
