(* ===== verification/Mt_Stack_Properties.thy ===== *)
theory Mt_Stack_Properties
  imports Mt_Examples
begin

section \<open>The discovery of a stack ends\<close>

text \<open>
  The branches of the open pull requests may form a cycle, so the loop of \<open>discover_merge_train_stack\<close>
  ends only because it never takes a pull request twice. \<open>walk_within\<close> is the loop with a bound on its
  rounds, which answers None when the bound is used up.
\<close>

fun walk_within ::
  "nat \<Rightarrow> repository_policy \<Rightarrow> train_snapshot \<Rightarrow> pull_request list \<Rightarrow> nat set \<Rightarrow> string
     \<Rightarrow> (string list + pull_request list) option" where
  "walk_within 0 rp snapshot chain seen ref = None"
| "walk_within (Suc n) rp snapshot chain seen ref =
     (if ref = '''' then Some (Inr chain)
      else (case unseen_children snapshot seen ref of
         [] \<Rightarrow> Some (Inr chain)
       | [child] \<Rightarrow>
           (let reasons = stack_child_refusals rp snapshot child
            in if reasons \<noteq> [] then Some (Inl reasons)
               else walk_within n rp snapshot (chain @ [child]) (insert (pr_number child) seen)
                      (pr_head_ref child))
       | _ \<Rightarrow> Some (Inl [''branch '' @ ref @ '' has multiple stacked child pull requests''])))"

lemma walk_within_enough:
  assumes "card (pr_number ` set (pull_requests snapshot) - seen) < n"
  shows "walk_within n rp snapshot chain seen ref = Some (stack_walk rp snapshot chain seen ref)"
  using assms
proof (induction n arbitrary: chain seen ref)
  case (Suc n)
  show ?case
  proof (cases "ref = '''' \<or> (\<forall>child. unseen_children snapshot seen ref \<noteq> [child])
      \<or> (\<exists>child. unseen_children snapshot seen ref = [child] \<and> stack_child_refusals rp snapshot child \<noteq> [])")
    case True
    then show ?thesis
      by (auto simp: stack_walk.simps [of rp snapshot chain] Let_def split: list.split)
  next
    case False
    then obtain child where child: "unseen_children snapshot seen ref = [child]" and ref: "ref \<noteq> ''''"
        and ready: "stack_child_refusals rp snapshot child = []" by blast
    have "card (pr_number ` set (pull_requests snapshot) - insert (pr_number child) seen) < n"
      using unseen_children_fewer [OF child] Suc.prems by simp
    from Suc.IH [OF this] child ref ready show ?thesis
      by (simp add: stack_walk.simps [of rp snapshot chain])
  qed
qed simp

text \<open>
  C33. Whatever branches the open pull requests have, the discovery of a stack takes at most one round per
  open pull request and one more to stop, and a stack it returns starts at its root, holds no pull
  request twice, and bases each one on the head branch of the one before.
\<close>

theorem stack_discovery_ends:
  "(\<exists>n \<le> Suc (card (pr_number ` set (pull_requests snapshot))).
      walk_within n rp snapshot [root] {pr_number root} (pr_head_ref root)
        = Some (stack_walk rp snapshot [root] {pr_number root} (pr_head_ref root)))
   \<and> (\<forall>walked. stack_walk rp snapshot [root] {pr_number root} (pr_head_ref root) = Inr walked
        \<longrightarrow> hd walked = root \<and> distinct (map pr_number walked) \<and> linked walked)"
proof (intro conjI allI impI)
  let ?numbers = "pr_number ` set (pull_requests snapshot)"
  have "card (?numbers - {pr_number root}) < Suc (card ?numbers)"
    by (simp add: less_Suc_eq_le card_mono)
  from walk_within_enough [OF this] show "\<exists>n \<le> Suc (card ?numbers).
      walk_within n rp snapshot [root] {pr_number root} (pr_head_ref root)
        = Some (stack_walk rp snapshot [root] {pr_number root} (pr_head_ref root))" by blast
next
  fix walked assume run: "stack_walk rp snapshot [root] {pr_number root} (pr_head_ref root) = Inr walked"
  have "walk_inv rp snapshot [root] {pr_number root}" by (simp add: walk_inv_def linked_def)
  from stack_walk_inv [OF run this]
  have inv: "walk_inv rp snapshot walked (pr_number ` set walked)" and front: "prefix [root] walked" by simp_all
  then show "hd walked = root" and "distinct (map pr_number walked)" and "linked walked"
    by (auto simp: walk_inv_def prefix_def)
qed

text \<open>Three pull requests whose branches form a cycle behind the root.\<close>

definition ex_cycle :: train_snapshot where
  "ex_cycle = \<lparr>snap_repository = ''o/r'', snap_base_branch = ''main'', snap_base_sha = ''b'',
     pull_requests = [(ex_pull_request 1 ''2026-01-01'' ''h1''),
       (ex_pull_request 2 ''2026-01-02'' ''h2'')\<lparr>pr_base_ref := ''fh1''\<rparr>,
       (ex_pull_request 3 ''2026-01-03'' ''h3'')\<lparr>pr_base_ref := ''fh2'', pr_head_ref := ''fh1''\<rparr>]\<rparr>"

definition ex_walk :: "string list + pull_request list" where
  "ex_walk = stack_walk ex_repository_policy ex_cycle [ex_pull_request 1 ''2026-01-01'' ''h1''] {1} ''fh1''"

lemma ex_walk_numbers: "map_sum (\<lambda>_. ()) (map pr_number) ex_walk = Inr [1, 2, 3]"
  by code_simp

theorem stack_discovery_ends_witness:
  "\<exists>walked. ex_walk = Inr walked \<and> map pr_number walked = [1, 2, 3] \<and> linked walked"
proof -
  have "\<exists>walked. r = Inr walked \<and> map pr_number walked = [1, 2, 3]"
    if "map_sum (\<lambda>_. ()) (map pr_number) r = Inr [1, 2, 3]" for r :: "string list + pull_request list"
    using that by (cases r) simp_all
  from this [OF ex_walk_numbers] obtain walked where w: "ex_walk = Inr walked" "map pr_number walked = [1, 2, 3]"
    by (elim exE conjE) (rule that)
  let ?root = "ex_pull_request 1 ''2026-01-01'' ''h1''"
  have root: "pr_number ?root = 1" "pr_head_ref ?root = ''fh1''" by (simp_all add: ex_pull_request_def)
  have "stack_walk ex_repository_policy ex_cycle [?root] {pr_number ?root} (pr_head_ref ?root) = Inr walked"
    using w(1) unfolding root ex_walk_def .
  then have "linked walked"
    using stack_discovery_ends [of ex_cycle ex_repository_policy ?root] by metis
  with w show ?thesis by (intro exI [of _ walked] conjI)
qed

end
