(* ===== verification/Mt_Batch_Pull.thy ===== *)
theory Mt_Batch_Pull
  imports Mt_Landing
begin

section \<open>The pull request of a batch\<close>

text \<open>
  The first half of \<open>control_plane/merge_train_batch_pull_request.py\<close>: a tested candidate can be landed
  as one pull request of its generated branch. The calls find, open and retire that pull request. The
  provider answers the fields the code reads: a text field that is missing is the empty string, an
  optional one that is no boolean, number or string is None. The notes that the body carries for the
  reviewers (\<open>_batch_owner_test_notes\<close>) are read through a parameter.
\<close>

record batch_pull =
  bp_number :: "nat option"
  bp_state :: string
  bp_merged :: "bool option"
  bp_draft :: "bool option"
  bp_head_sha :: string
  bp_head_ref :: string
  bp_head_repository :: string
  bp_base_ref :: string
  bp_base_repository :: string
  bp_body :: "string option"
  bp_mergeable_state :: string
  bp_merge_commit_sha :: string

text \<open>What the calls use of a candidate or of a landing plan.\<close>

record batch_target =
  bt_repository :: string
  bt_base_branch :: string
  bt_batch_id :: string
  bt_candidate_ref :: string
  bt_candidate_sha :: string

definition target_of_candidate :: "batch_candidate \<Rightarrow> batch_target" where
  "target_of_candidate c = \<lparr>bt_repository = ba_repository c, bt_base_branch = ba_base_branch c,
     bt_batch_id = ba_batch_id c, bt_candidate_ref = ba_candidate_ref c,
     bt_candidate_sha = ba_candidate_sha c\<rparr>"

definition target_of_plan :: "landing_plan \<Rightarrow> batch_target" where
  "target_of_plan p = \<lparr>bt_repository = lp_repository p, bt_base_branch = lp_base_branch p,
     bt_batch_id = lp_batch_id p, bt_candidate_ref = lp_candidate_ref p,
     bt_candidate_sha = lp_candidate_sha p\<rparr>"

text \<open>
  The requests: the list of the pull requests of a head (None where it is no list), one pull request,
  its creation (with title, head, base and body), its closing, a page of comments, a comment, and the
  notes of the constituents.
\<close>

record 'w batch_pull_client =
  bc_list :: "string \<Rightarrow> string \<Rightarrow> ('w, batch_pull list option) eff"
  bc_pull :: "string \<Rightarrow> nat \<Rightarrow> ('w, batch_pull) eff"
  bc_create :: "string \<Rightarrow> string \<Rightarrow> string \<Rightarrow> string \<Rightarrow> string \<Rightarrow> ('w, batch_pull) eff"
  bc_close :: "string \<Rightarrow> nat \<Rightarrow> ('w, batch_pull) eff"
  bc_comments :: "string \<Rightarrow> nat \<Rightarrow> nat \<Rightarrow> ('w, string list option) eff"
  bc_comment :: "string \<Rightarrow> nat \<Rightarrow> string \<Rightarrow> ('w, unit) eff"
  bc_notes :: "batch_candidate \<Rightarrow> ('w, string) eff"

text \<open>Python's \<open>in\<close> on strings.\<close>

fun py_in :: "string \<Rightarrow> string \<Rightarrow> bool" where
  "py_in p [] = (p = [])"
| "py_in p (c # s) = (take (length p) (c # s) = p \<or> py_in p s)"

definition remove_prefix :: "string \<Rightarrow> string \<Rightarrow> string" where
  "remove_prefix p s = (if take (length p) s = p then drop (length p) s else s)"

definition repository_full_name :: "string \<Rightarrow> string \<Rightarrow> string res" where
  "repository_full_name full_name label =
     andThen (required_answer full_name (label @ '' requires full_name.'')) (\<lambda>n. Inr (py_lower n))"

definition batch_marker :: "batch_target \<Rightarrow> string" where
  "batch_marker t = ''<!-- launchplane-batch:'' @ bt_batch_id t @ '':'' @ bt_candidate_sha t @ '' -->''"

definition close_marker :: "batch_target \<Rightarrow> string" where
  "close_marker t = ''<!-- launchplane-batch-close:'' @ bt_batch_id t @ '':'' @ bt_candidate_sha t @ '' -->''"

definition candidate_branch :: "batch_target \<Rightarrow> string res" where
  "candidate_branch t =
     andThen (build_candidate_ref (bt_repository t) (bt_base_branch t) (bt_batch_id t)) (\<lambda>expected.
     andThen (ensure (bt_candidate_ref t = expected)
       (AdmissionDenied ''Batch PR requires the recorded train candidate ref.'' ''merge_admission_denied'')) (\<lambda>_.
     Inr (remove_prefix ''refs/heads/'' (bt_candidate_ref t))))"

text \<open>The checks run in the order of the \<open>or\<close>, which stops at the first that fails.\<close>

definition validate_batch_pull_request :: "batch_pull \<Rightarrow> batch_target \<Rightarrow> string \<Rightarrow> unit res" where
  "validate_batch_pull_request p t branch =
     (let changed = StaleHead ''Batch pull request identity changed.'' in
     andThen (ensure (bp_head_sha p = bt_candidate_sha t \<and> bp_head_ref p = branch) changed) (\<lambda>_.
     andThen (repository_full_name (bp_head_repository p) ''Batch PR head repository'') (\<lambda>head.
     andThen (ensure (head = bt_repository t \<and> bp_base_ref p = bt_base_branch t) changed) (\<lambda>_.
     andThen (repository_full_name (bp_base_repository p) ''Batch PR base repository'') (\<lambda>base.
     ensure (base = bt_repository t \<and> bp_draft p = Some False) changed)))))"

definition positive_number :: "batch_pull \<Rightarrow> bool" where
  "positive_number p \<longleftrightarrow> (case bp_number p of None \<Rightarrow> False | Some n \<Rightarrow> 1 \<le> n)"

definition owned_batch_pull_request :: "batch_target \<Rightarrow> batch_pull \<Rightarrow> batch_pull res" where
  "owned_batch_pull_request t p =
     (let foreign = AdmissionDenied ''PR is not owned by the recorded Launchplane candidate ref.'' ''merge_admission_denied'' in
     andThen (candidate_branch t) (\<lambda>branch.
     andThen (ensure (positive_number p \<and> bp_head_ref p = branch) foreign) (\<lambda>_.
     andThen (repository_full_name (bp_head_repository p) ''Managed batch PR head repo'') (\<lambda>head.
     andThen (ensure (head = bt_repository t) foreign) (\<lambda>_.
     andThen (repository_full_name (bp_base_repository p) ''Managed batch PR base repo'') (\<lambda>base.
     andThen (ensure (base = bt_repository t) foreign) (\<lambda>_. Inr p)))))))"

definition repository_owner :: "string \<Rightarrow> string" where
  "repository_owner repository = hd (split_on (CHR ''/'') repository)"

definition candidate_pull_requests :: "'w batch_pull_client \<Rightarrow> batch_target \<Rightarrow> ('w, batch_pull list) eff" where
  "candidate_pull_requests c t =
     andDo (lift_res (candidate_branch t)) (\<lambda>branch.
     andDo (lift_res (repository_path (bt_repository t))) (\<lambda>path.
     andDo (bc_list c path (repository_owner (bt_repository t) @ '':'' @ branch)) (\<lambda>pulls.
     case pulls of None \<Rightarrow> raise (AdmissionDenied
         ''Batch pull request discovery is unavailable or incomplete.'' ''merge_admission_denied'')
     | Some pulls \<Rightarrow>
       andDo (requireE (length pulls < 100) (AdmissionDenied
         ''Batch pull request discovery is unavailable or incomplete.'' ''merge_admission_denied'')) (\<lambda>_.
       lift_res (mapM (owned_batch_pull_request t) pulls)))))"

definition has_batch_pull_request :: "'w batch_pull_client \<Rightarrow> batch_candidate \<Rightarrow> ('w, bool) eff" where
  "has_batch_pull_request c candidate =
     andDo (candidate_pull_requests c (target_of_candidate candidate)) (\<lambda>pulls. give (pulls \<noteq> []))"

definition pull_request_detail :: "'w batch_pull_client \<Rightarrow> string \<Rightarrow> nat option \<Rightarrow> ('w, batch_pull) eff" where
  "pull_request_detail c repository number =
     andDo (lift_res (repository_path repository)) (\<lambda>path. bc_pull c path (case number of None \<Rightarrow> 0 | Some n \<Rightarrow> n))"

fun search_closed_pulls ::
  "'w batch_pull_client \<Rightarrow> batch_target \<Rightarrow> batch_pull list \<Rightarrow> ('w, batch_pull option) eff" where
  "search_closed_pulls c t [] = give None"
| "search_closed_pulls c t (p # ps) =
     (if (case bp_body p of None \<Rightarrow> False | Some body \<Rightarrow> py_in (batch_marker t) body) then give (Some p)
      else if bp_head_sha p = bt_candidate_sha t then
        andDo (pull_request_detail c (bt_repository t) (bp_number p)) (\<lambda>detail.
        andDo (requireE (bp_merged detail = Some False)
          (AdmissionAmbiguous ''Closed batch PR effect is not confirmed absent.'')) (\<lambda>_.
        search_closed_pulls c t ps))
      else search_closed_pulls c t ps)"

definition find_batch_pull_request ::
  "'w batch_pull_client \<Rightarrow> batch_candidate \<Rightarrow> ('w, batch_pull option) eff" where
  "find_batch_pull_request c candidate =
     (let t = target_of_candidate candidate in
     andDo (candidate_pull_requests c t) (\<lambda>pulls.
     case filter (\<lambda>p. bp_state p = ''open'') pulls of
       [p] \<Rightarrow> give (Some p)
     | [] \<Rightarrow> search_closed_pulls c t pulls
     | _ \<Rightarrow> raise (StaleHead ''Generated batch ref has multiple open PRs.'')))"

definition bound_batch_pull_request :: "batch_candidate \<Rightarrow> batch_pull \<Rightarrow> batch_pull res" where
  "bound_batch_pull_request candidate p =
     (let t = target_of_candidate candidate in
     andThen (candidate_branch t) (\<lambda>branch.
     andThen (validate_batch_pull_request p t branch) (\<lambda>_.
     andThen (ensure (positive_number p
         \<and> (case bp_body p of None \<Rightarrow> False | Some body \<Rightarrow> py_in (batch_marker t) body))
       (StaleHead ''Batch pull request lost its recorded candidate binding.'')) (\<lambda>_. Inr p))))"

subsection \<open>Retiring\<close>

definition close_comment_page_limit :: nat where
  "close_comment_page_limit = 10"

fun close_comment_present ::
  "'w batch_pull_client \<Rightarrow> string \<Rightarrow> nat \<Rightarrow> string \<Rightarrow> nat list \<Rightarrow> ('w, bool) eff" where
  "close_comment_present c path number marker [] = give False"
| "close_comment_present c path number marker (page # pages) =
     andDo (bc_comments c path number page) (\<lambda>comments.
     case comments of None \<Rightarrow> raise (AdmissionAmbiguous ''Batch PR comments are unavailable.'')
     | Some bodies \<Rightarrow>
         if list_ex (py_in marker) bodies then give True
         else if length bodies < 100 then give False
         else close_comment_present c path number marker pages)"

definition comment_close_reason_once ::
  "'w batch_pull_client \<Rightarrow> batch_target \<Rightarrow> nat \<Rightarrow> string \<Rightarrow> ('w, unit) eff" where
  "comment_close_reason_once c t number reason =
     andDo (lift_res (repository_path (bt_repository t))) (\<lambda>path.
     andDo (close_comment_present c path number (close_marker t) [1..<Suc close_comment_page_limit]) (\<lambda>present.
     if present then give ()
     else bc_comment c path number (close_marker t @ [CHR 0x0A] @ ''Launchplane is closing this batch: '' @ reason)))"

text \<open>Whether the pull request is one to close: not one that merged an earlier candidate, not one of
  another batch, not one that is closed already.\<close>

definition to_retire :: "batch_target \<Rightarrow> batch_pull \<Rightarrow> bool res" where
  "to_retire t p =
     (if bp_merged p = Some True \<and> bp_head_sha p \<noteq> bt_candidate_sha t then Inr False
      else andThen (ensure (bp_merged p = Some False) (AdmissionAmbiguous
        ''Batch PR has a merged or unavailable effect; it cannot be retired as unused.'')) (\<lambda>_.
      if \<not> py_in (batch_marker t) (case bp_body p of None \<Rightarrow> '''' | Some body \<Rightarrow> body)
         \<and> (bp_head_sha p \<noteq> bt_candidate_sha t \<or> bp_base_ref p \<noteq> bt_base_branch t) then Inr False
      else if bp_state p = ''closed'' then Inr False
      else andThen (ensure (bp_state p = ''open'')
        (AdmissionAmbiguous ''Batch PR lifecycle is unavailable.'')) (\<lambda>_. Inr True)))"

definition retire_pull_request ::
  "'w batch_pull_client \<Rightarrow> batch_target \<Rightarrow> string \<Rightarrow> batch_pull \<Rightarrow> ('w, unit) eff" where
  "retire_pull_request c t reason listed =
     andDo (pull_request_detail c (bt_repository t) (bp_number listed)) (\<lambda>detail.
     andDo (lift_res (owned_batch_pull_request t detail)) (\<lambda>p.
     andDo (lift_res (to_retire t p)) (\<lambda>retire.
     if \<not> retire then give ()
     else
     let number = (case bp_number listed of None \<Rightarrow> 0 | Some n \<Rightarrow> n) in
     andDo (comment_close_reason_once c t number reason) (\<lambda>_.
     andDo (lift_res (repository_path (bt_repository t))) (\<lambda>path.
     andDo (bc_close c path number) (\<lambda>response.
     andDo (lift_res (owned_batch_pull_request t response)) (\<lambda>closed.
     requireE (bp_state closed = ''closed'' \<and> bp_merged closed = Some False)
       (AdmissionAmbiguous ''Batch PR retirement is not confirmed.''))))))))"

definition close_pull_requests_of ::
  "'w batch_pull_client \<Rightarrow> batch_target \<Rightarrow> string \<Rightarrow> ('w, unit) eff" where
  "close_pull_requests_of c t reason =
     (if bt_candidate_sha t = '''' then give ()
      else andDo (candidate_pull_requests c t) (for_each (retire_pull_request c t reason)))"

text \<open>A candidate whose head checks were reused has no pull request of its own.\<close>

definition close_batch_pull_request ::
  "'w batch_pull_client \<Rightarrow> batch_candidate + landing_plan \<Rightarrow> string \<Rightarrow> ('w, unit) eff" where
  "close_batch_pull_request c which reason = (case which of
       Inl candidate \<Rightarrow> (if ba_head_check_reuse candidate \<noteq> None then give ()
         else close_pull_requests_of c (target_of_candidate candidate) reason)
     | Inr plan \<Rightarrow> close_pull_requests_of c (target_of_plan plan) reason)"

subsection \<open>Opening\<close>

definition member_line :: "batch_entry \<Rightarrow> string" where
  "member_line e = ''- #'' @ str_nat (be_pull_request_number e) @ '' at `'' @ be_head_sha e @ ''`''"

definition batch_pull_request_body :: "'w batch_pull_client \<Rightarrow> batch_candidate \<Rightarrow> ('w, string) eff" where
  "batch_pull_request_body c candidate =
     andDo (bc_notes c candidate) (\<lambda>notes.
     let nl = [CHR 0x0A]; blank = nl @ nl in
     give (batch_marker (target_of_candidate candidate) @ blank
       @ ''This PR validates Launchplane's candidate `'' @ ba_candidate_sha candidate @ ''`. ''
       @ ''The train selects its protected landing route. Constituent PRs and reviewed heads:'' @ blank
       @ str_join nl (map member_line (ba_entries candidate)) @ blank
       @ ''Launchplane revalidates every constituent and records the shared landing effect. ''
       @ ''Keep source PRs and branches intact. Let the Launchplane controller either merge this PR ''
       @ ''or close it after landing through the original PRs; ''
       @ ''do not merge it by hand or update its generated branch. An out-of-controller merge ''
       @ ''without a preceding admission remains fenced for explicit reconciliation. ''
       @ ''The controller confirms constituent completion after landing.'' @ blank @ notes))"

definition bound_closed_batch_pull_request ::
  "'w batch_pull_client \<Rightarrow> batch_candidate \<Rightarrow> ('w, batch_pull option) eff" where
  "bound_closed_batch_pull_request c candidate =
     andDo (find_batch_pull_request c candidate) (\<lambda>found. case found of None \<Rightarrow> give None
     | Some p \<Rightarrow>
       andDo (lift_res (bound_batch_pull_request candidate p)) (\<lambda>bound.
       andDo (pull_request_detail c (ba_repository candidate) (bp_number bound)) (\<lambda>detail.
       andDo (lift_res (bound_batch_pull_request candidate detail)) (\<lambda>closed.
       give (if bp_state closed \<noteq> ''closed'' \<or> bp_merged closed \<noteq> Some False then None else Some closed)))))"

definition changed_closed_batch_body :: "'w batch_pull_client \<Rightarrow> batch_candidate \<Rightarrow> ('w, bool) eff" where
  "changed_closed_batch_body c candidate =
     andDo (bound_closed_batch_pull_request c candidate) (\<lambda>found. case found of None \<Rightarrow> give False
     | Some p \<Rightarrow> andDo (batch_pull_request_body c candidate) (\<lambda>body. give (bp_body p \<noteq> Some body)))"

definition create_batch_pull_request ::
  "'w batch_pull_client \<Rightarrow> batch_candidate \<Rightarrow> string \<Rightarrow> string \<Rightarrow> ('w, batch_pull) eff" where
  "create_batch_pull_request c candidate path branch =
     andDo (batch_pull_request_body c candidate) (\<lambda>body.
     bc_create c path (''Launchplane batch: '' @ str_join '', ''
         (map (\<lambda>e. CHR ''#'' # str_nat (be_pull_request_number e)) (ba_entries candidate)))
       branch (ba_base_branch candidate) body)"

definition ensure_batch_pull_request :: "'w batch_pull_client \<Rightarrow> batch_candidate \<Rightarrow> ('w, nat) eff" where
  "ensure_batch_pull_request c candidate =
     andDo (requireE (ba_status candidate \<in> {Cand_ready_for_checks, Cand_passed}) (AdmissionDenied
       ''Batch PR creation requires a fully built candidate.'' ''merge_admission_denied'')) (\<lambda>_.
     andDo (lift_res (candidate_branch (target_of_candidate candidate))) (\<lambda>branch.
     andDo (lift_res (repository_path (ba_repository candidate))) (\<lambda>path.
     andDo (find_batch_pull_request c candidate) (\<lambda>found.
     andDo (case found of Some p \<Rightarrow> give p
       | None \<Rightarrow> create_batch_pull_request c candidate path branch) (\<lambda>payload.
     andDo (lift_res (bound_batch_pull_request candidate payload)) (\<lambda>p.
     andDo (requireE (bp_merged p \<noteq> Some True) (AdmissionAmbiguous
       ''Batch PR merged before its landing plan; exact effect reconciliation is required.'')) (\<lambda>_.
     andDo (requireE (bp_state p = ''open'') (StaleHead (''Batch PR was closed without merging; retire this ''
       @ ''candidate and replan changed queue entries.''))) (\<lambda>_.
     give (case bp_number p of None \<Rightarrow> 0 | Some n \<Rightarrow> n)))))))))"

end
