(* ===== verification/Mt_Protected.thy ===== *)
theory Mt_Protected
  imports Mt_Batch_Pull
begin

section \<open>Landing a batch as one pull request\<close>

text \<open>
  \<open>land_protected_batch\<close> of \<open>control_plane/merge_train_batch_pull_request.py\<close> and the calls of
  \<open>control_plane/merge_train_github.py\<close> it makes: every member is validated, proposed and admitted before
  the one merge of the batch pull request, which is the effect of all the admissions. The batch evidence
  that the evaluations share (\<open>reuse_batch_evidence\<close>) is part of the evaluator, a parameter. Waiting
  between two reads changes nothing the code reads except what the provider answers.
\<close>

text \<open>
  \<open>pc_checks\<close> answers the status of the candidate after observing its checks, \<open>pc_put_merge\<close> the commit
  of the merge, \<open>pc_missing_scanning\<close> whether a required code-scanning result is missing.
\<close>

record 'w protected_client =
  pc_pull :: "string \<Rightarrow> nat \<Rightarrow> ('w, batch_pull) eff"
  pc_checks :: "batch_candidate \<Rightarrow> ('w, candidate_status) eff"
  pc_conversations :: "string \<Rightarrow> string \<Rightarrow> nat \<Rightarrow> ('w, review_conversations option) eff"
  pc_put_merge :: "string \<Rightarrow> nat \<Rightarrow> string \<Rightarrow> merge_method \<Rightarrow> ('w, string) eff"
  pc_missing_scanning :: "string \<Rightarrow> batch_pull \<Rightarrow> ('w, bool) eff"

subsection \<open>The merge of a pull request\<close>

definition refusal_diagnosis :: "string \<Rightarrow> bool \<Rightarrow> string" where
  "refusal_diagnosis observed missing_scanning =
     (if missing_scanning then ''required_code_scanning_missing''
      else if observed = ''behind'' then ''head_behind_base''
      else if observed = ''blocked'' then ''merge_blocked'' else ''unconfirmed'')"

definition refusal_advice :: "string \<Rightarrow> string" where
  "refusal_advice diagnosis =
     (if diagnosis = ''required_code_scanning_missing'' then ''A required code-scanning result is missing for ''
        @ ''this PR head. Close the batch so the train re-plans before another merge attempt.''
      else if diagnosis = ''head_behind_base'' then ''The same PR head is behind its base; refresh the source ''
        @ ''PR branches and let the train build a fresh candidate before another attempt.''
      else if diagnosis = ''merge_blocked'' then ''GitHub reports the PR blocked by a base-branch requirement, ''
        @ ''such as an unresolved review conversation or a missing review; clear it before another attempt.''
      else ''Reread the PR's merge requirements before another attempt.'')"

definition merge_rejected :: "nat \<Rightarrow> string \<Rightarrow> bool \<Rightarrow> py_error" where
  "merge_rejected number observed missing_scanning = GitHubError (Some 405)
     (''GitHub refused to merge PR #'' @ str_nat number @ '' (HTTP 405). ''
      @ refusal_advice (refusal_diagnosis observed missing_scanning))"

fun is_github_error :: "py_error \<Rightarrow> bool" where
  "is_github_error (GitHubError _ _) = True"
| "is_github_error (StaleHead _) = True"
| "is_github_error _ = False"

text \<open>The diagnosis of a refusal: what the same open head says now, if it can be read.\<close>

definition diagnose_refusal :: "'w protected_client \<Rightarrow> string \<Rightarrow> nat \<Rightarrow> string \<Rightarrow> ('w, string) eff" where
  "diagnose_refusal c path number head w = (case pc_pull c path number w of
       (Inl _, w') \<Rightarrow> raise (merge_rejected number '''' False) w'
     | (Inr p, w') \<Rightarrow>
         (let observed = (if bp_number p = Some number \<and> bp_state p = ''open'' \<and> bp_head_sha p = head
                then py_lower (py_strip (bp_mergeable_state p)) else '''') in
          if observed \<noteq> ''blocked'' then raise (merge_rejected number observed False) w'
          else (case pc_missing_scanning c path p w' of
              (Inr missing, w'') \<Rightarrow> raise (merge_rejected number observed missing) w''
            | (Inl e, w'') \<Rightarrow> raise (if is_github_error e then merge_rejected number observed False else e) w'')))"

definition merge_pull_request ::
  "'w protected_client \<Rightarrow> string \<Rightarrow> nat \<Rightarrow> string \<Rightarrow> merge_method \<Rightarrow> ('w, string) eff" where
  "merge_pull_request c repository number head merge_with =
     andDo (lift_res (repository_path repository)) (\<lambda>path.
     andDo (lift_res (required_text head ''Pull request head SHA is required.'')) (\<lambda>head w.
     case pc_put_merge c path number head merge_with w of
       (Inr sha, w') \<Rightarrow> lift_res (if py_strip sha = '''' then Inl (GitHubError None
           ''GitHub merge response did not include a merge commit SHA.'') else Inr (py_strip sha)) w'
     | (Inl e, w') \<Rightarrow> if is_github_error e \<and> error_status_code e = Some 405
         then diagnose_refusal c path number head w' else raise e w'))"

subsection \<open>What the merge is confirmed by\<close>

text \<open>The length of \<open>MERGE_REF_READ_DELAYS_SECONDS\<close>.\<close>

definition merge_ref_reads :: nat where
  "merge_ref_reads = 5"

fun wait_for_branch ::
  "'w landing_client \<Rightarrow> string \<Rightarrow> string \<Rightarrow> string \<Rightarrow> string \<Rightarrow> nat \<Rightarrow> string \<Rightarrow> ('w, string) eff" where
  "wait_for_branch c path branch expected previous 0 observed = give observed"
| "wait_for_branch c path branch expected previous (Suc n) observed =
     (if observed \<noteq> previous \<or> observed = expected then give observed
      else andDo (base_branch_sha c path branch) (wait_for_branch c path branch expected previous n))"

definition wait_for_branch_sha ::
  "'w landing_client \<Rightarrow> string \<Rightarrow> string \<Rightarrow> string \<Rightarrow> string \<Rightarrow> ('w, string) eff" where
  "wait_for_branch_sha c path branch expected previous =
     andDo (base_branch_sha c path branch) (wait_for_branch c path branch expected previous merge_ref_reads)"

fun settle_original ::
  "'w protected_client \<Rightarrow> string \<Rightarrow> landing_entry \<Rightarrow> nat \<Rightarrow> batch_pull \<Rightarrow> ('w, batch_pull) eff" where
  "settle_original c path e 0 p = give p"
| "settle_original c path e (Suc n) p =
     (if bp_merged p \<noteq> Some False \<or> bp_head_sha p \<noteq> le_expected_head_sha e then give p
      else andDo (pc_pull c path (le_pull_request_number e)) (settle_original c path e n))"

definition unconfirmed :: "landing_entry \<Rightarrow> py_error" where
  "unconfirmed e = AdmissionAmbiguous (''Batch merged; completion of original PR #''
     @ str_nat (le_pull_request_number e) @ '' is not confirmed.'')"

definition confirm_batch_entry ::
  "'w landing_client \<Rightarrow> 'w protected_client \<Rightarrow> landing_plan \<Rightarrow> string \<Rightarrow> string \<times> string \<Rightarrow> string \<times> string
   \<Rightarrow> landing_entry \<Rightarrow> ('w, landing_entry) eff" where
  "confirm_batch_entry c pc plan path base merge e =
     andDo (pc_pull pc path (le_pull_request_number e)) (\<lambda>p.
     andDo (settle_original pc path e merge_ref_reads p) (\<lambda>p.
     andDo (requireE (bp_merged p = Some True \<and> bp_state p = ''closed''
       \<and> bp_head_sha p = le_expected_head_sha e \<and> bp_base_ref p = lp_base_branch plan) (unconfirmed e)) (\<lambda>_.
     andDo (lift_res (repository_full_name (bp_base_repository p) ''Original PR base repository'')) (\<lambda>r.
     andDo (requireE (r = lp_repository plan) (unconfirmed e)) (\<lambda>_.
     andDo (branch_contains_commit c (lp_repository plan) (lp_base_branch plan) (le_expected_head_sha e)) (\<lambda>contains.
     andDo (requireE contains (unconfirmed e)) (\<lambda>_.
     lift_res (landed_entry e Land_merged base (le_expected_head_sha e, le_expected_head_tree_sha e) merge))))))))"

fun map_each :: "('a \<Rightarrow> ('s, 'b) eff) \<Rightarrow> 'a list \<Rightarrow> ('s, 'b list) eff" where
  "map_each f [] = give []"
| "map_each f (x # xs) = andDo (f x) (\<lambda>y. andDo (map_each f xs) (\<lambda>ys. give (y # ys)))"

text \<open>The base the batch was tested on; \<open>plan.entries[0]\<close> raises on a plan without entries.\<close>

definition planned_base :: "landing_plan \<Rightarrow> (string \<times> string) res" where
  "planned_base plan = (case lp_entries plan of [] \<Rightarrow> Inl (RuntimeError ''tuple index out of range'')
     | e # _ \<Rightarrow> Inr (le_expected_base_sha e, le_recorded_candidate_parent_tree_sha e))"

definition confirmed_batch_entries ::
  "'w landing_client \<Rightarrow> 'w protected_client \<Rightarrow> landing_plan \<Rightarrow> string
   \<Rightarrow> ('w, landing_entry list \<times> (string \<times> string)) eff" where
  "confirmed_batch_entries c pc plan merge_sha =
     andDo (lift_res (repository_path (lp_repository plan))) (\<lambda>path.
     andDo (lift_res (planned_base plan)) (\<lambda>base.
     andDo (validated_landing_commit_identity c path merge_sha (fst base) (lp_candidate_sha plan) Method_merge) (\<lambda>merge.
     andDo (requireE (snd merge = lp_candidate_tree_sha plan)
       (AdmissionAmbiguous ''Batch merge tree differs from the tested candidate.'')) (\<lambda>_.
     andDo (wait_for_branch_sha c path (lp_base_branch plan) (fst merge) (fst base)) (\<lambda>_.
     andDo (base_branch_identity c path (lp_base_branch plan)) (\<lambda>observed.
     andDo (if fst observed = fst merge then give True
       else branch_contains_commit c (lp_repository plan) (lp_base_branch plan) (fst merge)) (\<lambda>contains.
     andDo (requireE contains (AdmissionAmbiguous ''Protected base does not contain the batch merge.'')) (\<lambda>_.
     andDo (map_each (confirm_batch_entry c pc plan path base merge) (lp_entries plan)) (\<lambda>entries.
     give (entries, observed))))))))))"

subsection \<open>Before the merge\<close>

definition read_batch_pull_request :: "'w protected_client \<Rightarrow> landing_plan \<Rightarrow> nat \<Rightarrow> ('w, batch_pull) eff" where
  "read_batch_pull_request pc plan number =
     andDo (lift_res (candidate_branch (target_of_plan plan))) (\<lambda>branch.
     andDo (lift_res (repository_path (lp_repository plan))) (\<lambda>path.
     andDo (pc_pull pc path number) (\<lambda>p.
     andDo (lift_res (validate_batch_pull_request p (target_of_plan plan) branch)) (\<lambda>_.
     andDo (requireE (bp_number p = Some number)
       (GitHubError None ''Batch PR read returned a different pull request.'')) (\<lambda>_.
     give p)))))"

definition validate_members ::
  "'w landing_run \<Rightarrow> landing_plan \<Rightarrow> string \<Rightarrow> string \<times> string \<Rightarrow> ('w admission_world, unit) eff" where
  "validate_members run plan path base = for_each (\<lambda>e.
     andDo (outside (validate_open_landing_pull_request (ru_client run) path e (lp_base_branch plan) base)) (\<lambda>_.
     give ())) (lp_entries plan)"

text \<open>The provider shows that no earlier attempt on the batch took effect, and that the plan still holds.\<close>

definition reconcile_absent_batch ::
  "'w landing_run \<Rightarrow> landing_plan \<Rightarrow> string \<Rightarrow> nat \<Rightarrow> batch_pull \<Rightarrow> ('w admission_world, string \<times> string) eff" where
  "reconcile_absent_batch run plan path number p =
     andDo (requireE (bp_merged p = Some False)
       (AdmissionAmbiguous ''Batch PR merge state is unavailable.'')) (\<lambda>_.
     andDo (outside (base_branch_identity (ru_client run) path (lp_base_branch plan))) (\<lambda>base.
     andDo (outside (branch_contains_commit (ru_client run) (lp_repository plan) (lp_base_branch plan)
       (lp_candidate_sha plan))) (\<lambda>contains.
     andDo (requireE (\<not> contains) (AdmissionAmbiguous
       ''Base contains the candidate but batch PR completion is not confirmed.'')) (\<lambda>_.
     andDo (lift_res (andThen (ensure (bp_state p \<in> {''open'', ''closed''}) (ValueError ''state'')) (\<lambda>_.
       validate_batch_no_effect \<lparr>ne_pull_request_number = number, ne_head_sha = lp_candidate_sha plan,
         ne_closed = (bp_state p = ''closed'')\<rparr>))) (\<lambda>evidence.
     andDo (observed_at run) (\<lambda>at.
     andDo (reconcile_batch_no_effect evidence (fst base) (snd base) at) (\<lambda>_.
     give base)))))))"

definition require_batch_dispatchable ::
  "landing_plan \<Rightarrow> batch_pull \<Rightarrow> string \<times> string \<Rightarrow> ('s, unit) eff" where
  "require_batch_dispatchable plan p base =
     andDo (requireE (bp_state p = ''open'')
       (stale ''Batch pull request is closed without merging; retire this candidate.'')) (\<lambda>_.
     andDo (requireE (list_all (\<lambda>e. le_status e = Land_planned) (lp_entries plan))
       (AdmissionAmbiguous ''Batch PR state contradicts recorded constituent completion.'')) (\<lambda>_.
     andDo (lift_res (planned_base plan)) (\<lambda>planned.
     andDo (requireE (base = planned) (stale ''Protected base changed before batch landing.'')) (\<lambda>_.
     requireE (bp_mergeable_state p \<noteq> ''behind'')
       (stale ''The protected batch PR is behind its base; rebuild the candidate.'')))))"

definition require_batch_checks ::
  "'w protected_client \<Rightarrow> landing_plan \<Rightarrow> nat \<Rightarrow> ('w admission_world, unit) eff" where
  "require_batch_checks pc plan number =
     andDo (reading (\<lambda>s. cn_candidate (gd_candidate_record (aw_guard s)))) (\<lambda>candidate.
     andDo (outside (pc_checks pc candidate)) (\<lambda>status.
     andDo (requireE (status \<noteq> Cand_failed)
       (stale ''Protected batch required checks failed; retire this candidate.'')) (\<lambda>_.
     andDo (requireE (status = Cand_passed) (AdmissionDenied
       ''Batch PR requires successful checks on the exact candidate.''
       ''batch_pull_request_checks_not_ready'')) (\<lambda>_.
     andDo (outside (pc_conversations pc (lp_repository plan) (lp_base_branch plan) number)) (\<lambda>conversations.
     case conversations of None \<Rightarrow> give ()
     | Some cs \<Rightarrow> raise (AdmissionDenied (''Batch PR #'' @ str_nat number @ '' has ''
           @ review_conversations_reason cs @ ''.'') ''batch_pull_request_conversations_unresolved''))))))"

subsection \<open>The admissions\<close>

definition announce_entry ::
  "'w landing_run \<Rightarrow> landing_plan \<Rightarrow> landing_entry \<Rightarrow> ('w admission_world, unit) eff" where
  "announce_entry run plan e = (case ru_checkpoint run of None \<Rightarrow> give ()
     | Some checkpoint \<Rightarrow> andDo (outside (checkpoint plan e ''merge_entry'')) (\<lambda>_. give ()))"

definition propose_members ::
  "'w landing_run \<Rightarrow> landing_plan \<Rightarrow> string \<times> string \<Rightarrow> ('w admission_world, unit) eff" where
  "propose_members run plan base = for_each (\<lambda>e.
     andDo (announce_entry run plan e) (\<lambda>_.
     andDo (build_proposal (ru_ports run) e (fst base) (snd base) (le_expected_head_sha e)
       (le_expected_head_tree_sha e)) (\<lambda>_. give ()))) (lp_entries plan)"

definition admit_member ::
  "'w landing_run \<Rightarrow> landing_plan \<Rightarrow> string \<Rightarrow> string \<times> string \<Rightarrow> landing_entry
   \<Rightarrow> ('w admission_world, admission) eff" where
  "admit_member run plan path base e =
     andDo (outside (git_commit_identity (ru_client run) path (le_expected_head_sha e))) (\<lambda>head.
     andDo (requireE (head = (le_expected_head_sha e, le_expected_head_tree_sha e))
       (stale ''Batch constituent head tree changed.'')) (\<lambda>_.
     andDo (outside (validate_open_landing_pull_request (ru_client run) path e (lp_base_branch plan) base)) (\<lambda>_.
     andDo (announce_entry run plan e) (\<lambda>_.
     admit (ru_ports run) e (fst base) (snd base) (fst head) (snd head)))))"

text \<open>
  The list of the admissions made so far outlives an error, so these steps answer it beside their
  result.
\<close>

fun admit_members ::
  "'w landing_run \<Rightarrow> landing_plan \<Rightarrow> string \<Rightarrow> string \<times> string \<Rightarrow> admission list \<Rightarrow> landing_entry list
   \<Rightarrow> 'w admission_world \<Rightarrow> (admission list \<times> unit res) \<times> 'w admission_world" where
  "admit_members run plan path base made [] s = ((made, Inr ()), s)"
| "admit_members run plan path base made (e # es) s = (case admit_member run plan path base e s of
       (Inl err, s') \<Rightarrow> ((made, Inl err), s')
     | (Inr a, s') \<Rightarrow> admit_members run plan path base (made @ [a]) es s')"

definition recheck_batch ::
  "'w landing_run \<Rightarrow> 'w protected_client \<Rightarrow> landing_plan \<Rightarrow> string \<Rightarrow> nat \<Rightarrow> string \<times> string
   \<Rightarrow> ('w admission_world, unit) eff" where
  "recheck_batch run pc plan path number base =
     andDo (validate_members run plan path base) (\<lambda>_.
     andDo (outside (read_batch_pull_request pc plan number)) (\<lambda>p.
     andDo (requireE (bp_merged p \<noteq> Some True \<and> bp_state p = ''open'')
       (AdmissionAmbiguous ''Batch PR changed lifecycle before dispatch.'')) (\<lambda>_.
     andDo (outside (base_branch_identity (ru_client run) path (lp_base_branch plan))) (\<lambda>now.
     andDo (requireE (now = base) (stale ''Protected base moved before batch dispatch.'')) (\<lambda>_.
     case ru_provider_checkpoint run of None \<Rightarrow> give ()
     | Some checkpoint \<Rightarrow> outside (checkpoint plan (last (lp_entries plan))))))))"

definition prepare_dispatch ::
  "'w landing_run \<Rightarrow> 'w protected_client \<Rightarrow> landing_plan \<Rightarrow> string \<Rightarrow> nat \<Rightarrow> string \<times> string
   \<Rightarrow> 'w admission_world \<Rightarrow> (admission list \<times> unit res) \<times> 'w admission_world" where
  "prepare_dispatch run pc plan path number base s = (case propose_members run plan base s of
       (Inl e, s1) \<Rightarrow> (([], Inl e), s1)
     | (Inr _, s1) \<Rightarrow> (case admit_members run plan path base [] (lp_entries plan) s1 of
         ((made, Inl e), s2) \<Rightarrow> ((made, Inl e), s2)
       | ((made, Inr _), s2) \<Rightarrow> (case recheck_batch run pc plan path number base s2 of (r, s3) \<Rightarrow> ((made, r), s3))))"

text \<open>The same recording for every admission.\<close>

definition for_admissions ::
  "'w landing_run \<Rightarrow> (admission \<Rightarrow> string \<Rightarrow> ('w admission_world, landing_outcome) eff) \<Rightarrow> admission list
   \<Rightarrow> ('w admission_world, unit) eff" where
  "for_admissions run record = for_each (\<lambda>a. andDo (observed_at run) (\<lambda>at. andDo (record a at) (\<lambda>_. give ())))"

definition admit_batch ::
  "'w landing_run \<Rightarrow> 'w protected_client \<Rightarrow> landing_plan \<Rightarrow> string \<Rightarrow> nat \<Rightarrow> string \<times> string
   \<Rightarrow> ('w admission_world, admission list) eff" where
  "admit_batch run pc plan path number base s = (case prepare_dispatch run pc plan path number base s of
       ((made, Inr _), s') \<Rightarrow> (Inr made, s')
     | ((made, Inl e), s') \<Rightarrow> andDo (for_admissions run record_not_dispatched made) (\<lambda>_. raise e) s')"

subsection \<open>The landing\<close>

definition merge_batch ::
  "'w landing_run \<Rightarrow> 'w protected_client \<Rightarrow> landing_plan \<Rightarrow> nat \<Rightarrow> admission list
   \<Rightarrow> ('w admission_world, string) eff" where
  "merge_batch run pc plan number made =
     on_error (outside (merge_pull_request pc (lp_repository plan) number (lp_candidate_sha plan) Method_merge))
       (\<lambda>e. for_admissions run (\<lambda>a. record_provider_failure a e) made)"

fun confirmation_message :: "py_error \<Rightarrow> string" where
  "confirmation_message (AdmissionAmbiguous m) = m"
| "confirmation_message _ = ''Batch provider effect requires exact Git and original-PR completion evidence.''"

definition confirm_batch ::
  "'w landing_run \<Rightarrow> 'w protected_client \<Rightarrow> landing_plan \<Rightarrow> admission list \<Rightarrow> string
   \<Rightarrow> ('w admission_world, landing_entry list \<times> (string \<times> string)) eff" where
  "confirm_batch run pc plan made merge_sha s =
     (case outside (confirmed_batch_entries (ru_client run) pc plan merge_sha) s of
        (Inr x, s') \<Rightarrow> (Inr x, s')
      | (Inl e, s') \<Rightarrow> andDo (for_admissions run
            (\<lambda>a. record_reconcile_required a Landing_evidence_incomplete (confirmation_message e)) made)
          (\<lambda>_. raise (AdmissionAmbiguous (confirmation_message e))) s')"

text \<open>\<open>how\<close> is the admission of the entry, or None where the batch was found merged.\<close>

definition settle_batch_entry ::
  "'w landing_run \<Rightarrow> landing_plan \<Rightarrow> string \<times> string \<Rightarrow> landing_entry list \<Rightarrow> landing_entry \<times> admission option
   \<Rightarrow> ('w admission_world, unit) eff" where
  "settle_batch_entry run plan observed prior settled = (case settled of (e, how) \<Rightarrow>
     andDo (observed_at run) (\<lambda>at.
     andDo (case how of None \<Rightarrow> reconcile_existing_landed e (fst observed) (snd observed) True at
       | Some a \<Rightarrow> record_landed a e (fst observed) (snd observed) True True at) (\<lambda>_.
     andDo (progress_of plan (prior @ e # drop (Suc (length prior)) (lp_entries plan))) (\<lambda>p.
     update_progress run p e ''entry_merged''))))"

fun settle_batch_entries ::
  "'w landing_run \<Rightarrow> landing_plan \<Rightarrow> string \<times> string \<Rightarrow> landing_entry list
   \<Rightarrow> (landing_entry \<times> admission option) list \<Rightarrow> ('w admission_world, unit) eff" where
  "settle_batch_entries run plan observed prior [] = give ()"
| "settle_batch_entries run plan observed prior (x # xs) =
     andDo (settle_batch_entry run plan observed prior x) (\<lambda>_.
     settle_batch_entries run plan observed (prior @ [fst x]) xs)"

definition finish_protected_batch ::
  "'w landing_run \<Rightarrow> 'w protected_client \<Rightarrow> landing_plan \<Rightarrow> admission list option \<Rightarrow> string
   \<Rightarrow> ('w admission_world, landing_plan) eff" where
  "finish_protected_batch run pc plan made merge_sha =
     andDo (confirm_batch run pc plan (case made of None \<Rightarrow> [] | Some as \<Rightarrow> as) merge_sha) (\<lambda>(entries, observed).
     andDo (settle_batch_entries run plan observed []
       (zip entries (case made of None \<Rightarrow> map (\<lambda>_. None) entries | Some as \<Rightarrow> map Some as))) (\<lambda>_.
     progress_of plan entries))"

definition dispatch_batch ::
  "'w landing_run \<Rightarrow> 'w protected_client \<Rightarrow> landing_plan \<Rightarrow> string \<Rightarrow> nat \<Rightarrow> batch_pull
   \<Rightarrow> ('w admission_world, admission list \<times> string) eff" where
  "dispatch_batch run pc plan path number p =
     andDo (reconcile_absent_batch run plan path number p) (\<lambda>base.
     andDo (require_batch_dispatchable plan p base) (\<lambda>_.
     andDo (validate_members run plan path base) (\<lambda>_.
     andDo (require_batch_checks pc plan number) (\<lambda>_.
     andDo (admit_batch run pc plan path number base) (\<lambda>made.
     andDo (merge_batch run pc plan number made) (\<lambda>merge_sha.
     give (made, merge_sha)))))))"

definition land_protected_batch ::
  "'w landing_run \<Rightarrow> 'w protected_client \<Rightarrow> landing_plan \<Rightarrow> ('w admission_world, landing_plan) eff" where
  "land_protected_batch run pc plan = (case lp_candidate_pull_request_number plan of
       None \<Rightarrow> raise (AdmissionDenied ''Protected batch landing requires its batch PR binding.''
         ''merge_admission_denied'')
     | Some number \<Rightarrow>
       andDo (lift_res (repository_path (lp_repository plan))) (\<lambda>path.
       andDo (outside (read_batch_pull_request pc plan number)) (\<lambda>p.
       if bp_merged p = Some True then
         andDo (lift_res (required_answer (bp_merge_commit_sha p)
           ''Merged batch PR requires merge commit SHA.'')) (\<lambda>merge_sha.
         finish_protected_batch run pc plan None merge_sha)
       else andDo (dispatch_batch run pc plan path number p) (\<lambda>(made, merge_sha).
         finish_protected_batch run pc plan (Some made) merge_sha))))"

end
