(* ===== verification/Mt_Protected_Safety.thy ===== *)
theory Mt_Protected_Safety
  imports Mt_Protected Mt_Landing_Properties
begin

section \<open>What a protected landing does\<close>

text \<open>
  One merge for the whole batch: it is only asked for once every entry of the plan has an admission of
  its own, and nothing is asked for after it. The reads of the provider leave the log of the merges
  alone, so a run is followed through the ledger steps it takes, as in \<open>Mt_Landing_Properties\<close>.
\<close>

subsection \<open>Everything but the merge is quiet\<close>

definition quiet_protected :: "('w \<Rightarrow> 'v) \<Rightarrow> 'w protected_client \<Rightarrow> bool" where
  "quiet_protected view pc \<longleftrightarrow> (\<forall>path n. keeps_view view (pc_pull pc path n))
     \<and> (\<forall>c. keeps_view view (pc_checks pc c)) \<and> (\<forall>r b n. keeps_view view (pc_conversations pc r b n))
     \<and> (\<forall>path p. keeps_view view (pc_missing_scanning pc path p))"

lemma quiet_protectedD [keeps_intros]:
  assumes "quiet_protected view pc"
  shows "keeps_view view (pc_pull pc path n)" "keeps_view view (pc_checks pc c)"
    "keeps_view view (pc_conversations pc r b n)" "keeps_view view (pc_missing_scanning pc path p)"
  using assms by (simp_all add: quiet_protected_def)

lemma keeps_unknown_pull [keeps_intros]:
  "quiet_protected view pc \<Longrightarrow> keeps_view view (read_batch_pull_request pc plan number)"
  unfolding read_batch_pull_request_def by (intro keeps_intros)

lemma keeps_settle_original [keeps_intros]:
  assumes "quiet_protected view pc"
  shows "keeps_view view (settle_original pc path e n p)"
  by (induction n arbitrary: p) (auto intro!: keeps_intros assms)

lemma keeps_wait [keeps_intros]:
  assumes "quiet_client view c"
  shows "keeps_view view (wait_for_branch c path branch expected previous n observed)"
    and "keeps_view view (wait_for_branch_sha c path branch expected previous)"
proof -
  show loop: "keeps_view view (wait_for_branch c path branch expected previous n observed)" for n observed
    by (induction n arbitrary: observed) (auto intro!: keeps_intros assms)
  then show "keeps_view view (wait_for_branch_sha c path branch expected previous)"
    unfolding wait_for_branch_sha_def by (intro keeps_intros assms loop)
qed

lemma keeps_confirm_entry [keeps_intros]:
  "quiet_client view c \<Longrightarrow> quiet_protected view pc \<Longrightarrow> keeps_view view (confirm_batch_entry c pc plan path base merge e)"
  unfolding confirm_batch_entry_def by (intro keeps_intros)

lemma keeps_map_each [keeps_intros]: "(\<And>x. keeps_view view (f x)) \<Longrightarrow> keeps_view view (map_each f xs)"
  by (induction xs) (auto intro!: keeps_intros)

lemma map_each_all2:
  assumes "map_each f xs s = (Inr ys, s')" and "\<And>x y s s'. f x s = (Inr y, s') \<Longrightarrow> P x y"
  shows "list_all2 P xs ys"
  using assms(1)
proof (induction xs arbitrary: ys s)
  case (Cons x xs)
  then show ?case by (auto intro: assms(2))
qed simp

lemma keeps_confirmed [keeps_intros]:
  "quiet_client view c \<Longrightarrow> quiet_protected view pc \<Longrightarrow> keeps_view view (confirmed_batch_entries c pc plan sha)"
  unfolding confirmed_batch_entries_def by (intro keeps_intros)

lemma advances_proposal [advances_intros]:
  "quiet_ports view ports \<Longrightarrow> advances view (build_proposal ports e base base_tree head head_tree)"
  unfolding build_proposal_def entry_admissions_def require_settled_def evaluate_entry_def Let_def
  by (intro advances_intros)

lemma advances_members [advances_intros]:
  "quiet_run view run \<Longrightarrow> advances view (validate_members run plan path base)"
  unfolding validate_members_def by (intro advances_intros keeps_intros)

lemma advances_absent [advances_intros]:
  "quiet_run view run \<Longrightarrow> advances view (reconcile_absent_batch run plan path number p)"
  unfolding reconcile_absent_batch_def by (intro advances_intros keeps_intros)

lemma advances_dispatchable [advances_intros]: "advances view (require_batch_dispatchable plan p base)"
  unfolding require_batch_dispatchable_def by (intro advances_intros)

lemma advances_checks [advances_intros]:
  "quiet_protected view pc \<Longrightarrow> advances view (require_batch_checks pc plan number)"
  unfolding require_batch_checks_def by (intro advances_intros keeps_intros)

lemma advances_announce [advances_intros]:
  assumes "quiet_run view run"
  shows "advances view (announce_entry run plan e)"
  unfolding announce_entry_def
  by (rule advances_option) (intro advances_intros quiet_runD(4) [OF assms]; assumption)+

lemma advances_propose [advances_intros]:
  "quiet_run view run \<Longrightarrow> advances view (propose_members run plan base)"
  unfolding propose_members_def by (intro advances_intros quiet_runD)

lemma advances_admit_member [advances_intros]:
  "quiet_run view run \<Longrightarrow> advances view (admit_member run plan path base e)"
  unfolding admit_member_def by (intro advances_intros keeps_intros)

lemma advances_recheck [advances_intros]:
  assumes "quiet_run view run" and "quiet_protected view pc"
  shows "advances view (recheck_batch run pc plan path number base)"
  unfolding recheck_batch_def
  by (intro advances_intros keeps_intros assms; (rule assms | assumption)?)

lemma advances_for_admissions [advances_intros]:
  "quiet_run view run \<Longrightarrow> (\<And>a at. advances view (record a at)) \<Longrightarrow> advances view (for_admissions run record made)"
  unfolding for_admissions_def by (intro advances_intros)

lemma advances_handled:
  assumes m: "advances view m" and h: "\<And>e. advances view (h e)"
  shows "advances view (\<lambda>s. case m s of (Inr x, s') \<Rightarrow> (Inr x, s') | (Inl e, s') \<Rightarrow> h e s')"
  unfolding advances_def
proof (intro allI impI, goal_cases)
  case (1 s r s')
  obtain x s1 where x: "m s = (x, s1)" by (cases "m s")
  note first = advancesD [OF m x]
  show ?case
  proof (cases x)
    case (Inl e)
    with 1 x have "h e s1 = (r, s')" by simp
    from advancesD [OF h this] first show ?thesis by (metis rtranclp_trans)
  qed (use 1 x first in simp)
qed

lemma advances_confirm_batch [advances_intros]:
  "quiet_run view run \<Longrightarrow> quiet_protected view pc \<Longrightarrow> advances view (confirm_batch run pc plan made sha)"
  unfolding confirm_batch_def
  by (rule advances_handled) (intro advances_intros keeps_intros quiet_runD; assumption)+

lemma advances_settle_batch [advances_intros]:
  assumes "quiet_run view run"
  shows "advances view (settle_batch_entry run plan observed prior x)"
    and "advances view (settle_batch_entries run plan observed prior xs)"
proof -
  show one: "advances view (settle_batch_entry run plan observed prior x)" for prior x
    unfolding settle_batch_entry_def by (intro advances_intros assms)
  show "advances view (settle_batch_entries run plan observed prior xs)"
    by (induction xs arbitrary: prior) (auto intro!: advances_intros one)
qed

lemma advances_finish_protected [advances_intros]:
  "quiet_run view run \<Longrightarrow> quiet_protected view pc \<Longrightarrow> advances view (finish_protected_batch run pc plan made sha)"
  unfolding finish_protected_batch_def by (intro advances_intros)

subsection \<open>The log of merges\<close>

type_synonym merge_call = "string \<times> nat \<times> string \<times> merge_method"
type_synonym merge_log = "(merge_call \<times> string res) list"

text \<open>Only \<open>pc_put_merge\<close> writes the log.\<close>

definition logged_protected :: "'w protected_client \<Rightarrow> ('w \<times> merge_log) protected_client" where
  "logged_protected pc =
     \<lparr>pc_pull = (\<lambda>path n. beside (pc_pull pc path n)), pc_checks = (\<lambda>c. beside (pc_checks pc c)),
      pc_conversations = (\<lambda>r b n. beside (pc_conversations pc r b n)),
      pc_put_merge = (\<lambda>path n head how. logged (\<lambda>r. ((path, n, head, how), r)) (pc_put_merge pc path n head how)),
      pc_missing_scanning = (\<lambda>path p. beside (pc_missing_scanning pc path p))\<rparr>"

abbreviation merges :: "('w \<times> merge_log) admission_world \<Rightarrow> merge_log" where
  "merges s \<equiv> snd (aw_rest s)"

lemma quiet_logged_protected: "quiet_protected snd (logged_protected pc)"
  by (simp add: quiet_protected_def logged_protected_def)

lemmas quiet_provider = quiet_beside(2) quiet_logged_protected

subsection \<open>The merge comes after the admissions\<close>

text \<open>The admission of a member: for its head, on the base the batch was tested on, found ready.\<close>

definition admitted_member :: "landing_plan \<Rightarrow> landing_entry \<Rightarrow> admission \<Rightarrow> bool" where
  "admitted_member plan e a \<longleftrightarrow> ad_pull_request_number a = le_pull_request_number e
     \<and> ad_head_sha a = py_lower (py_strip (le_expected_head_sha e))
     \<and> ad_effective_base_sha a = py_lower (py_strip (le_expected_base_sha (hd (lp_entries plan))))
     \<and> rr_state (ad_readiness a) = Rd_ready \<and> admission_matches_target a (rr_target (ad_readiness a))
     \<and> sr_status (ad_structural_result a) \<in> {St_exact, St_recorded_rolling}"

definition batch_admitted ::
  "admission_ledger \<Rightarrow> landing_plan \<Rightarrow> landing_entry list \<Rightarrow> admission list \<Rightarrow> admission_ledger \<Rightarrow> bool" where
  "batch_admitted lg plan es made lg' \<longleftrightarrow> list_all2 (admitted_member plan) es made
     \<and> distinct (map ad_admission_id made)
     \<and> set made \<subseteq> set (lg_admissions lg') - set (lg_admissions lg) \<and> ledger_ok lg' \<and> extends lg lg'"

lemma batch_admitted_mono:
  assumes "batch_admitted lg plan es made lg'" and "ledger_run lg' lg''"
  shows "batch_admitted lg plan es made lg''"
proof -
  have "extends lg' lg''" "ledger_ok lg''" "extends lg lg'"
    using assms by (auto simp: batch_admitted_def intro: ledger_run_extends ledger_run_ok)
  moreover from this have "set (lg_admissions lg') \<subseteq> set (lg_admissions lg'')"
    by (auto simp: extends_def dest: set_mono_prefix)
  ultimately show ?thesis using assms(1) extends_trans unfolding batch_admitted_def by blast
qed

lemma admit_member_admits:
  assumes run: "admit_member run plan path base e s = (Inr a, s')"
    and so_far: "batch_admitted lg plan es made (aw_ledger s)"
    and base: "fst base = le_expected_base_sha (hd (lp_entries plan))"
  shows "batch_admitted lg plan (es @ [e]) (made @ [a]) (aw_ledger s')"
proof -
  obtain s1 s2 s3 h t x u where pre: "outside (git_commit_identity (ru_client run) path (le_expected_head_sha e)) s
        = (Inr (h, t), s1)" "h = le_expected_head_sha e"
      "outside (validate_open_landing_pull_request (ru_client run) path e (lp_base_branch plan) base) s1 = (Inr x, s2)"
      "announce_entry run plan e s2 = (Inr u, s3)"
    and admits: "admit (ru_ports run) e (fst base) (snd base) h t s3 = (Inr a, s')"
    using run by (auto simp: admit_member_def)
  have "batch_admitted lg plan es made (aw_ledger s3)"
    using batch_admitted_mono [OF batch_admitted_mono [OF batch_admitted_mono [OF so_far]]]
      advancesD [OF advances_outside [OF quiet_unit(3)] pre(1)]
      advancesD [OF advances_outside [OF quiet_unit(3)] pre(3)]
      advancesD [OF advances_announce [OF quiet_unit(1)] pre(4)] by blast
  moreover note fenced = admission_is_fenced_lemma [OF admits]
  have grown: "lg_admissions (aw_ledger s') = lg_admissions (aw_ledger s3) @ [a]" using fenced by simp
  have run3: "ledger_run (aw_ledger s3) (aw_ledger s')"
    using advancesD [OF advances_admit [OF quiet_unit(2)] admits] by blast
  ultimately have later: "batch_admitted lg plan es made (aw_ledger s')" by (blast intro: batch_admitted_mono)
  have ids: "distinct (map ad_admission_id (lg_admissions (aw_ledger s')))"
    using later by (simp add: batch_admitted_def ledger_ok_def)
  have "ad_admission_id a \<notin> ad_admission_id ` set (lg_admissions (aw_ledger s3))"
    using ids by (simp add: grown)
  then have new: "ad_admission_id a \<notin> ad_admission_id ` (set made \<union> set (lg_admissions lg))"
    using \<open>batch_admitted lg plan es made (aw_ledger s3)\<close>
    by (auto simp: batch_admitted_def extends_def dest!: set_mono_prefix)
  have "admitted_member plan e a"
    using fenced base pre(2) by (simp add: admitted_member_def)
  with later new show ?thesis
    by (auto simp: batch_admitted_def list_all2_appendI grown)
qed

lemma admit_members_admits:
  assumes "admit_members run plan path base made es s = ((made', Inr ()), s')"
    and "batch_admitted lg plan prior made (aw_ledger s)" and "fst base = le_expected_base_sha (hd (lp_entries plan))"
  shows "batch_admitted lg plan (prior @ es) made' (aw_ledger s')"
  using assms
proof (induction es arbitrary: prior made s)
  case (Cons e es)
  from Cons.prems(1) obtain a s1 where one: "admit_member run plan path base e s = (Inr a, s1)"
    and rest: "admit_members run plan path base (made @ [a]) es s1 = ((made', Inr ()), s')"
    by (auto split: prod.splits sum.splits)
  from Cons.IH [OF rest admit_member_admits [OF one Cons.prems(2,3)] Cons.prems(3)] show ?case by simp
qed simp

lemma admit_members_advances:
  assumes "quiet_run view run" and "admit_members run plan path base made es s = (x, s')"
  shows "ledger_run (aw_ledger s) (aw_ledger s') \<and> view (aw_rest s') = view (aw_rest s)"
  using assms(2)
proof (induction es arbitrary: made s)
  case (Cons e es)
  obtain r s1 where one: "admit_member run plan path base e s = (r, s1)"
    by (cases "admit_member run plan path base e s")
  note first = advancesD [OF advances_admit_member [OF assms(1)] one]
  show ?case
  proof (cases r)
    case (Inr a)
    with Cons.prems one have "admit_members run plan path base (made @ [a]) es s1 = (x, s')" by simp
    from Cons.IH [OF this] first show ?thesis by (metis rtranclp_trans)
  qed (use Cons.prems one first in auto)
qed simp

lemma prepare_dispatch_advances:
  assumes "quiet_run view run" and "quiet_protected view pc"
    and run: "prepare_dispatch run pc plan path number base s = (x, s')"
  shows "ledger_run (aw_ledger s) (aw_ledger s') \<and> view (aw_rest s') = view (aw_rest s)"
proof -
  obtain r1 s1 where one: "propose_members run plan base s = (r1, s1)" by (cases "propose_members run plan base s")
  obtain made r2 s2 where two: "admit_members run plan path base [] (lp_entries plan) s1 = ((made, r2), s2)"
    by (metis prod.exhaust)
  obtain r3 s3 where three: "recheck_batch run pc plan path number base s2 = (r3, s3)"
    by (cases "recheck_batch run pc plan path number base s2")
  have "s' = (if isl r1 then s1 else if isl r2 then s2 else s3)"
    using run one two three by (auto simp: prepare_dispatch_def split: sum.splits)
  then show ?thesis
    using advancesD [OF advances_propose [OF assms(1)] one] admit_members_advances [OF assms(1) two]
      advancesD [OF advances_recheck [OF assms(1,2)] three]
    by (auto split: if_splits)
qed

lemma advances_admit_batch [advances_intros]:
  assumes "quiet_run view run" and "quiet_protected view pc"
  shows "advances view (admit_batch run pc plan path number base)"
  unfolding advances_def
proof (intro allI impI, goal_cases)
  case (1 s r s')
  obtain made x s1 where first: "prepare_dispatch run pc plan path number base s = ((made, x), s1)"
    by (metis prod.exhaust)
  note step = prepare_dispatch_advances [OF assms first]
  show ?case
  proof (cases x)
    case (Inl e)
    with 1 first have "andDo (for_admissions run record_not_dispatched made) (\<lambda>_. raise e) s1 = (r, s')"
      by (simp add: admit_batch_def)
    moreover have "advances view (andDo (for_admissions run record_not_dispatched made) (\<lambda>_. raise e))"
      by (intro advances_intros assms)
    ultimately show ?thesis using step advancesD by (metis rtranclp_trans)
  qed (use 1 first step in \<open>simp add: admit_batch_def\<close>)
qed

lemma admit_batch_admits:
  assumes "admit_batch run pc plan path number base s = (Inr made, s')"
    and ok: "ledger_ok (aw_ledger s)" "extends lg (aw_ledger s)"
    and base: "fst base = le_expected_base_sha (hd (lp_entries plan))"
  shows "batch_admitted lg plan (lp_entries plan) made (aw_ledger s')"
proof -
  obtain s1 s2 u where one: "propose_members run plan base s = (Inr u, s1)"
    and two: "admit_members run plan path base [] (lp_entries plan) s1 = ((made, Inr ()), s2)"
    and three: "recheck_batch run pc plan path number base s2 = (Inr (), s')"
    using assms(1) by (auto simp: admit_batch_def prepare_dispatch_def andDo_def raise_def split: prod.splits sum.splits)
  have unit: "quiet_protected (\<lambda>_. ()) pc" by (simp add: quiet_protected_def)
  have "batch_admitted lg plan [] [] (aw_ledger s)" using ok by (simp add: batch_admitted_def)
  from batch_admitted_mono [OF this] have "batch_admitted lg plan [] [] (aw_ledger s1)"
    using advancesD [OF advances_propose [OF quiet_unit(1)] one] by blast
  from admit_members_admits [OF two this base] have "batch_admitted lg plan (lp_entries plan) made (aw_ledger s2)"
    by simp
  with advancesD [OF advances_recheck [OF quiet_unit(1) unit] three] show ?thesis
    by (blast intro: batch_admitted_mono)
qed

text \<open>One call, or none where the plan's repository or candidate is malformed.\<close>

definition batch_merge :: "landing_plan \<Rightarrow> merge_call \<Rightarrow> bool" where
  "batch_merge plan call \<longleftrightarrow> (case call of (path, number, head, how) \<Rightarrow>
     repository_path (lp_repository plan) = Inr path \<and> lp_candidate_pull_request_number plan = Some number
     \<and> head = py_strip (lp_candidate_sha plan) \<and> how = Method_merge)"

lemma logged_protected_fields:
  "pc_pull (logged_protected pc) path n = beside (pc_pull pc path n)"
  "pc_missing_scanning (logged_protected pc) path p = beside (pc_missing_scanning pc path p)"
  "pc_put_merge (logged_protected pc) path n head how
     = logged (\<lambda>r. ((path, n, head, how), r)) (pc_put_merge pc path n head how)"
  by (simp_all add: logged_protected_def)

lemma refusal_keeps: "quiet_protected view pc \<Longrightarrow> diagnose_refusal pc path number head w = (r, w') \<Longrightarrow> view w' = view w"
  by (auto simp: diagnose_refusal_def raise_def Let_def quiet_protected_def keeps_view_def
    split: prod.splits sum.splits if_splits)

lemma merge_call_logged:
  assumes "merge_pull_request (logged_protected pc) (lp_repository plan) number (lp_candidate_sha plan) Method_merge w = (r, w')"
    and "lp_candidate_pull_request_number plan = Some number"
  shows "snd w' = snd w \<or> (\<exists>call res. batch_merge plan call \<and> snd w' = (call, res) # snd w)"
proof (cases "repository_path (lp_repository plan)")
  case (Inr path)
  show ?thesis
  proof (cases "required_text (lp_candidate_sha plan) ''Pull request head SHA is required.''")
    case head: (Inr head)
    then have is_head: "head = py_strip (lp_candidate_sha plan)" by (auto simp: required_text_def Let_def split: if_splits)
    obtain x w1 where put: "pc_put_merge (logged_protected pc) path number head Method_merge w = (x, w1)"
      by (cases "pc_put_merge (logged_protected pc) path number head Method_merge w")
    then have log: "snd w1 = ((path, number, head, Method_merge), x) # snd w"
      by (auto simp: logged_protected_fields logged_def split: prod.splits)
    have "snd w' = snd w1"
      using assms(1) Inr head put
      by (auto simp: merge_pull_request_def andDo_def lift_res_def raise_def split: sum.splits if_splits
        dest: refusal_keeps [OF quiet_provider(2)])
    with log assms(2) is_head Inr show ?thesis by (auto simp: batch_merge_def)
  qed (use assms(1) Inr in \<open>simp add: merge_pull_request_def andDo_def lift_res_def\<close>)
qed (use assms(1) in \<open>simp add: merge_pull_request_def andDo_def lift_res_def\<close>)

text \<open>The state a run has reached before its merge.\<close>

definition unmerged :: "admission_ledger \<Rightarrow> ('w \<times> merge_log) admission_world \<Rightarrow> bool" where
  "unmerged lg s \<longleftrightarrow> merges s = [] \<and> ledger_ok (aw_ledger s) \<and> extends lg (aw_ledger s)"

text \<open>
  No call, or the one call of \<open>merge_batch\<close> from a state that had no call yet and every entry
  admitted.
\<close>

definition merged_once ::
  "'w landing_run \<Rightarrow> 'w protected_client \<Rightarrow> admission_ledger \<Rightarrow> landing_plan \<Rightarrow> ('w \<times> merge_log) admission_world \<Rightarrow> bool" where
  "merged_once run pc lg plan s' \<longleftrightarrow> merges s' = [] \<or> (\<exists>call res number made s1 m s2.
     merges s' = [(call, res)] \<and> batch_merge plan call
     \<and> merges s1 = [] \<and> batch_admitted lg plan (lp_entries plan) made (aw_ledger s1)
     \<and> merge_batch (beside_run run) (logged_protected pc) plan number made s1 = (m, s2)
     \<and> merges s2 = merges s' \<and> ledger_run (aw_ledger s2) (aw_ledger s'))"

lemma merged_once_keeps:
  assumes "advances snd m" and "merged_once run pc lg plan s"
  shows "runs_to m (\<lambda>r s'. merged_once run pc lg plan s') s"
proof (rule runs_toI)
  fix r s' assume "m s = (r, s')"
  from advancesD [OF assms(1) this] assms(2) show "merged_once run pc lg plan s'"
    unfolding merged_once_def by (metis (no_types, lifting) rtranclp_trans)
qed

lemma unmerged_keeps: "advances snd m \<Longrightarrow> unmerged lg s \<Longrightarrow> m s = (r, s') \<Longrightarrow> unmerged lg s'"
  by (auto simp: unmerged_def dest!: advancesD intro: ledger_run_ok extends_trans ledger_run_extends)

lemma unmerged_merged_once: "unmerged lg s \<Longrightarrow> merged_once run pc lg plan s"
  by (simp add: unmerged_def merged_once_def)

lemma unmerged_thenI:
  assumes "advances snd m" and "unmerged lg s"
    and "\<And>x s'. m s = (Inr x, s') \<Longrightarrow> unmerged lg s' \<Longrightarrow> runs_to (f x) (\<lambda>r s'. merged_once run pc lg plan s') s'"
  shows "runs_to (andDo m f) (\<lambda>r s'. merged_once run pc lg plan s') s"
  by (rule andDoI [where P = "\<lambda>r s'. m s = (r, s') \<and> unmerged lg s'"])
    (use assms in \<open>auto intro: runs_toI unmerged_keeps unmerged_merged_once\<close>)

lemma merge_batch_once:
  assumes s: "unmerged lg s" and made: "batch_admitted lg plan (lp_entries plan) made (aw_ledger s)"
    and number: "lp_candidate_pull_request_number plan = Some number"
  shows "runs_to (merge_batch (beside_run run) (logged_protected pc) plan number made)
    (\<lambda>r s'. merged_once run pc lg plan s') s"
proof (rule runs_toI)
  fix r s' assume run: "merge_batch (beside_run run) (logged_protected pc) plan number made s = (r, s')"
  let ?call = "outside (merge_pull_request (logged_protected pc) (lp_repository plan) number (lp_candidate_sha plan) Method_merge)"
  let ?handler = "\<lambda>e. for_admissions (beside_run run) (\<lambda>a. record_provider_failure a e) made"
  obtain x s1 where call: "?call s = (x, s1)" by (cases "?call s")
  then obtain w where at: "merge_pull_request (logged_protected pc) (lp_repository plan) number (lp_candidate_sha plan)
      Method_merge (aw_rest s) = (x, w)" "s1 = s\<lparr>aw_rest := w\<rparr>"
    by (auto simp: outside_def split: prod.splits)
  have quiet: "advances snd (?handler e)" for e by (intro advances_intros quiet_provider)
  have "merges s' = merges s1"
    using run call advancesD [OF quiet]
    by (auto simp: merge_batch_def on_error_def split: prod.splits sum.splits)
  then have "merges s' = [] \<or> (\<exists>call res. batch_merge plan call \<and> merges s' = [(call, res)])"
    using merge_call_logged [OF at(1) number] s at(2) by (auto simp: unmerged_def)
  with run made s show "merged_once run pc lg plan s'"
    unfolding merged_once_def unmerged_def by blast
qed

lemma planned_base_is:
  "require_batch_dispatchable plan p base s = (Inr u, s') \<Longrightarrow> fst base = le_expected_base_sha (hd (lp_entries plan))"
  by (auto simp: require_batch_dispatchable_def planned_base_def split: list.splits)

lemma dispatch_merges_once:
  assumes s: "unmerged lg s" and number: "lp_candidate_pull_request_number plan = Some number"
  shows "runs_to (dispatch_batch (beside_run run) (logged_protected pc) plan path number p)
    (\<lambda>r s'. merged_once run pc lg plan s') s"
  unfolding dispatch_batch_def
proof (rule unmerged_thenI [OF _ s], goal_cases quiet absent)
  case (absent base s1)
  show ?case
  proof (rule unmerged_thenI [OF _ absent(2)], goal_cases quiet dispatchable)
    case (dispatchable u s2)
    note base = planned_base_is [OF dispatchable(1)]
    show ?case
    proof (rule unmerged_thenI [OF _ dispatchable(2)], goal_cases quiet members)
      case (members u s3)
      show ?case
      proof (rule unmerged_thenI [OF _ members(2)], goal_cases quiet checked)
        case (checked u s4)
        show ?case
        proof (rule unmerged_thenI [OF _ checked(2)], goal_cases quiet admitted)
          case (admitted made s5)
          have "batch_admitted lg plan (lp_entries plan) made (aw_ledger s5)"
            using admit_batch_admits [OF admitted(1) _ _ base] checked(2) by (simp add: unmerged_def)
          from merge_batch_once [OF admitted(2) this number] show ?case
            by (rule andDoI) (simp_all add: wp)
        qed (intro advances_intros quiet_provider)
      qed (intro advances_intros quiet_provider)
    qed (intro advances_intros quiet_provider)
  qed (intro advances_intros)
qed (intro advances_intros quiet_provider)

lemma protected_landing_merges_once:
  assumes s: "unmerged lg s"
  shows "runs_to (land_protected_batch (beside_run run) (logged_protected pc) plan) (\<lambda>r s'. merged_once run pc lg plan s') s"
proof (cases "lp_candidate_pull_request_number plan")
  case None
  with s show ?thesis by (simp add: land_protected_batch_def wp unmerged_merged_once)
next
  case (Some number)
  have finish: "runs_to (finish_protected_batch (beside_run run) (logged_protected pc) plan made sha)
      (\<lambda>r s'. merged_once run pc lg plan s') s'" if "merged_once run pc lg plan s'" for made sha s'
    by (rule merged_once_keeps [OF _ that]) (intro advances_intros quiet_provider)
  show ?thesis
    unfolding land_protected_batch_def Some option.case
  proof (rule unmerged_thenI [OF _ s], goal_cases quiet path)
    case (path path s1)
    show ?case
    proof (rule unmerged_thenI [OF _ path(2)], goal_cases quiet pull)
      case (pull p s2)
      have "runs_to (andDo (lift_res (required_answer (bp_merge_commit_sha p) m))
          (\<lambda>sha. finish_protected_batch (beside_run run) (logged_protected pc) plan None sha))
          (\<lambda>r s'. merged_once run pc lg plan s') s2" for m
        by (rule unmerged_thenI [OF _ pull(2)]) (auto intro: advances_intros finish unmerged_merged_once)
      moreover have "runs_to (andDo (dispatch_batch (beside_run run) (logged_protected pc) plan path number p)
          (\<lambda>(made, sha). finish_protected_batch (beside_run run) (logged_protected pc) plan (Some made) sha))
          (\<lambda>r s'. merged_once run pc lg plan s') s2"
        by (rule andDoI [OF dispatch_merges_once [OF pull(2) Some]]) (auto intro: finish)
      ultimately show ?case by simp
    qed (intro advances_intros keeps_intros quiet_provider)
  qed (intro advances_intros)
qed

end
