(* ===== verification/Mt_Protected_Example.thy ===== *)
theory Mt_Protected_Example
  imports Mt_Protected Mt_Landing_Example
begin

section \<open>A concrete protected landing\<close>

text \<open>
  The plan of \<open>Mt_Admission_Example\<close> landed through its batch pull request 9 over a provider that answers
  constants: the merge commit has the base and the tested candidate as its parents and the tree of the
  candidate.
\<close>

definition bx_commit :: "string \<Rightarrow> commit_answer" where
  "bx_commit sha = (if sha = rx_sha (CHR ''2'')
     then \<lparr>co_sha = sha, co_tree_sha = rx_sha (CHR ''e''), co_parents = [rx_sha (CHR ''a''), rx_sha (CHR ''d'')]\<rparr>
     else \<lparr>co_sha = sha, co_tree_sha = rx_sha (CHR ''c''), co_parents = []\<rparr>)"

definition bx_client :: "'w landing_client" where
  "bx_client = (lx_client (\<lambda>_. give ''''))\<lparr>lc_commit := (\<lambda>_ sha. give (bx_commit sha)),
     lc_compare := (\<lambda>_ sha _. give (if sha = rx_sha (CHR ''d'') then ''diverged'' else ''ahead''))\<rparr>"

definition bx_run :: "'w landing_run" where
  "bx_run = \<lparr>ru_client = bx_client, ru_ports = lx_ports, ru_provider_checkpoint = None, ru_checkpoint = None\<rparr>"

definition bx_batch :: batch_pull where
  "bx_batch = \<lparr>bp_number = Some 9, bp_state = ''open'', bp_merged = Some False, bp_draft = Some False,
     bp_head_sha = rx_sha (CHR ''d''), bp_head_ref = ''launchplane/train/o/r/main/batch'', bp_head_repository = ''o/r'',
     bp_base_ref = ''main'', bp_base_repository = ''o/r'', bp_body = None, bp_mergeable_state = ''clean'',
     bp_merge_commit_sha = ''''\<rparr>"

definition bx_original :: batch_pull where
  "bx_original = bx_batch\<lparr>bp_number := Some 7, bp_state := ''closed'', bp_merged := Some True,
     bp_head_sha := rx_sha (CHR ''b''), bp_head_ref := ''topic''\<rparr>"

definition bx_provider :: "(string \<Rightarrow> nat \<Rightarrow> string \<Rightarrow> merge_method \<Rightarrow> ('w, string) eff) \<Rightarrow> 'w protected_client" where
  "bx_provider put = \<lparr>pc_pull = (\<lambda>_ n. give (if n = 9 then bx_batch else bx_original)),
     pc_checks = (\<lambda>_. give Cand_passed), pc_conversations = (\<lambda>_ _ _. give None), pc_put_merge = put,
     pc_missing_scanning = (\<lambda>_ _. give False)\<rparr>"

lemma bx_fields:
  "lc_pull bx_client path n = give lx_pull" "lc_commit bx_client path sha = give (bx_commit sha)"
  "lc_branch bx_client path b = give \<lparr>br_sha = rx_sha (CHR ''a''), br_tree_sha = rx_sha (CHR ''1'')\<rparr>"
  "lc_compare bx_client path sha b = give (if sha = rx_sha (CHR ''d'') then ''diverged'' else ''ahead'')"
  "lc_review_intent bx_client path p = give ('''', False)" "lc_client_veto bx_client path n = give False"
  "ru_client bx_run = bx_client" "ru_ports bx_run = lx_ports" "ru_provider_checkpoint bx_run = None"
  "ru_checkpoint bx_run = None"
  "pc_pull (bx_provider put) path n = give (if n = 9 then bx_batch else bx_original)"
  "pc_checks (bx_provider put) c = give Cand_passed" "pc_conversations (bx_provider put) r b n = give None"
  "pc_put_merge (bx_provider put) = put"
  by (simp_all add: bx_client_def lx_client_def bx_run_def bx_provider_def)

lemma bx_names:
  "py_strip ''diverged'' = ''diverged''" "repository_full_name ''o/r'' f = Inr ''o/r''"
  "candidate_branch (target_of_plan lx_plan) = Inr ''launchplane/train/o/r/main/batch''"
proof -
  show "py_strip ''diverged'' = ''diverged''" by code_simp
  show "repository_full_name ''o/r'' f = Inr ''o/r''" by code_simp
  have "target_of_plan lx_plan = \<lparr>bt_repository = ''o/r'', bt_base_branch = ''main'', bt_batch_id = ''batch'',
      bt_candidate_ref = lx_ref, bt_candidate_sha = rx_sha (CHR ''d'')\<rparr>"
    by (simp add: target_of_plan_def lx_plan_def lx_draft_plan_def)
  moreover have "candidate_branch \<lparr>bt_repository = ''o/r'', bt_base_branch = ''main'', bt_batch_id = ''batch'',
      bt_candidate_ref = lx_ref, bt_candidate_sha = sha\<rparr> = Inr ''launchplane/train/o/r/main/batch''" for sha
    by code_simp
  ultimately show "candidate_branch (target_of_plan lx_plan) = Inr ''launchplane/train/o/r/main/batch''" by simp
qed

lemma bx_distinct: "rx_sha (CHR ''b'') \<noteq> rx_sha (CHR ''2'')" "rx_sha (CHR ''2'') \<noteq> rx_sha (CHR ''d'')"
  "rx_sha (CHR ''b'') \<noteq> rx_sha (CHR ''d'')" "rx_sha (CHR ''a'') \<noteq> rx_sha (CHR ''2'')"
  by (simp_all add: rx_sha_def)

lemma bx_reads:
  "git_commit_identity bx_client path (rx_sha (CHR ''b'')) w = (Inr (rx_sha (CHR ''b''), rx_sha (CHR ''c'')), w)"
  "base_branch_identity bx_client path ''main'' w = (Inr (rx_sha (CHR ''a''), rx_sha (CHR ''1'')), w)"
  "base_branch_sha bx_client path ''main'' w = (Inr (rx_sha (CHR ''a'')), w)"
  "validated_landing_commit_identity bx_client path (rx_sha (CHR ''2'')) (rx_sha (CHR ''a'')) (rx_sha (CHR ''d'')) Method_merge w
     = (Inr (rx_sha (CHR ''2''), rx_sha (CHR ''e'')), w)"
  "branch_contains_commit bx_client ''o/r'' ''main'' (rx_sha (CHR ''2'')) w = (Inr True, w)"
  "branch_contains_commit bx_client ''o/r'' ''main'' (rx_sha (CHR ''b'')) w = (Inr True, w)"
  "branch_contains_commit bx_client ''o/r'' ''main'' (rx_sha (CHR ''d'')) w = (Inr False, w)"
  using bx_distinct
  by (simp_all add: git_commit_identity_def base_branch_identity_def base_branch_sha_def bx_fields
    validated_landing_commit_identity_def branch_contains_commit_def required_answer_def required_text_def
    git_commit_proof_def bx_commit_def lx_stripped rx_sha_truthy lx_run bx_names)

lemma bx_open: "validate_open_landing_pull_request bx_client path lx_entry ''main'' (rx_sha (CHR ''a''), t) w = (Inr False, w)"
  by (simp add: validate_open_landing_pull_request_def bx_fields lx_pull_def require_head_sha_def
    require_base_ref_def required_answer_def required_text_def lx_stripped rx_sha_truthy lx_entry_fields lx_run
    Let_def)

lemma bx_batch_fields:
  "bp_number bx_batch = Some 9" "bp_state bx_batch = ''open''" "bp_merged bx_batch = Some False"
  "bp_mergeable_state bx_batch = ''clean''" "bp_number bx_original = Some 7" "bp_state bx_original = ''closed''"
  "bp_merged bx_original = Some True" "bp_head_sha bx_original = rx_sha (CHR ''b'')" "bp_base_ref bx_original = ''main''"
  "bp_base_repository bx_original = ''o/r''"
  by (simp_all add: bx_batch_def bx_original_def)

lemma bx_read_batch: "read_batch_pull_request (bx_provider put) lx_plan 9 w = (Inr bx_batch, w)"
proof -
  have "validate_batch_pull_request bx_batch (target_of_plan lx_plan) ''launchplane/train/o/r/main/batch'' = Inr ()"
    by (simp add: validate_batch_pull_request_def bx_batch_def target_of_plan_def lx_plan_fields bx_names)
  then show ?thesis
    by (simp add: read_batch_pull_request_def lx_run bx_names lx_plan_fields lx_stripped bx_fields bx_batch_fields)
qed

subsection \<open>The run\<close>

lemma bx_members: "validate_members bx_run lx_plan path (rx_sha (CHR ''a''), t) s = (Inr (), s)"
  by (simp add: validate_members_def lx_plan_fields bx_fields andDo_def give_def outside_def bx_open)

lemma bx_absent:
  fixes w :: 'w
  shows "reconcile_absent_batch bx_run lx_plan path 9 bx_batch (lx_world w) = (Inr (rx_sha (CHR ''a''), rx_sha (CHR ''1'')), lx_world w)"
proof -
  have "lp_candidate_pull_request_number lx_plan = Some 9" by (simp add: lx_plan_def lx_draft_plan_def)
  then have "reconcile_batch_no_effect \<lparr>ne_pull_request_number = 9, ne_head_sha = rx_sha (CHR ''d''), ne_closed = False\<rparr>
      base base_tree at (lx_world w) = (Inr (), lx_world w)" for base base_tree at
    by (simp add: reconcile_batch_no_effect_def guard_plan_def lx_run lx_world_fields lx_guard_fields lx_plan_fields lx_entry_fields
      reconcile_entry_no_effect_def list_admissions_def order_desc_def)
  moreover have "outside (branch_contains_commit (ru_client bx_run) ''o/r'' ''main'' (rx_sha (CHR ''d''))) s = (Inr False, s)"
      "outside (base_branch_identity (ru_client bx_run) path ''main'') s = (Inr (rx_sha (CHR ''a''), rx_sha (CHR ''1'')), s)"
      "observed_at bx_run s = (Inr lx_start, s)" for s :: "'w admission_world"
    by (simp_all add: outside_def bx_fields bx_reads observed_at_def lx_port_fields give_def)
  ultimately show ?thesis
    by (simp add: reconcile_absent_batch_def andDo_def requireE_def lift_res_def give_def bx_batch_fields lx_plan_fields
      validate_batch_no_effect_def lx_shas)
qed

lemma bx_dispatchable:
  "require_batch_dispatchable lx_plan bx_batch (rx_sha (CHR ''a''), rx_sha (CHR ''1'')) s = (Inr (), s)"
  by (simp add: require_batch_dispatchable_def planned_base_def lx_run bx_batch_fields lx_plan_fields lx_entry_fields)

lemma bx_checks: "require_batch_checks (bx_provider put) lx_plan 9 s = (Inr (), s)"
  by (simp add: require_batch_checks_def andDo_def reading_def requireE_def give_def bx_fields
    outside_def)

lemma bx_prepared:
  fixes w :: 'w
  shows "prepare_dispatch bx_run (bx_provider put) lx_plan path 9 (rx_sha (CHR ''a''), rx_sha (CHR ''1'')) (lx_world w)
     = (([lx_admission], Inr ()), (lx_world w)\<lparr>aw_ledger := lx_ledger\<rparr>)"
proof -
  have announced: "announce_entry bx_run lx_plan e s = (Inr (), s)" for e and s :: "'w admission_world"
    by (simp add: announce_entry_def bx_fields give_def)
  have proposed: "propose_members bx_run lx_plan (rx_sha (CHR ''a''), rx_sha (CHR ''1'')) (lx_world w) = (Inr (), lx_world w)"
    by (simp add: propose_members_def lx_plan_fields andDo_def announced lx_entry_fields bx_fields lx_built give_def)
  have "admit_member bx_run lx_plan path (rx_sha (CHR ''a''), rx_sha (CHR ''1'')) lx_entry (lx_world w)
      = (Inr lx_admission, (lx_world w)\<lparr>aw_ledger := lx_ledger\<rparr>)"
    by (simp add: admit_member_def andDo_def requireE_def give_def announced bx_fields outside_def bx_reads lx_entry_fields
      lx_plan_fields bx_open lx_admits)
  moreover have "recheck_batch bx_run (bx_provider put) lx_plan path 9 (rx_sha (CHR ''a''), rx_sha (CHR ''1'')) s = (Inr (), s)" for s :: "'w admission_world"
    by (simp add: recheck_batch_def andDo_def requireE_def give_def bx_members outside_def bx_fields bx_read_batch
      bx_batch_fields lx_plan_fields bx_reads)
  ultimately show ?thesis
    by (simp add: prepare_dispatch_def proposed lx_plan_fields)
qed

lemma bx_waited: "wait_for_branch_sha bx_client path ''main'' expected (rx_sha (CHR ''a'')) w = (Inr (rx_sha (CHR ''a'')), w)"
proof -
  have "wait_for_branch bx_client path ''main'' expected (rx_sha (CHR ''a'')) n (rx_sha (CHR ''a'')) w
      = (Inr (rx_sha (CHR ''a'')), w)" for n
    by (induction n) (simp_all add: andDo_def give_def bx_reads)
  then show ?thesis by (simp add: wait_for_branch_sha_def andDo_def bx_reads)
qed

lemma bx_confirmed:
  "confirmed_batch_entries bx_client (bx_provider put) lx_plan (rx_sha (CHR ''2'')) w
     = (Inr ([lx_landed], (rx_sha (CHR ''a''), rx_sha (CHR ''1''))), w)"
proof -
  have settled: "settle_original (bx_provider put) path lx_entry n bx_original w = (Inr bx_original, w)" for path n w
    by (cases n) (simp_all add: bx_batch_fields give_def)
  have entry: "confirm_batch_entry bx_client (bx_provider put) lx_plan path (rx_sha (CHR ''a''), rx_sha (CHR ''1''))
      (rx_sha (CHR ''2''), rx_sha (CHR ''e'')) lx_entry w = (Inr lx_landed, w)" for path w
    by (simp add: confirm_batch_entry_def andDo_def requireE_def give_def lift_res_def bx_fields settled bx_batch_fields
      lx_entry_fields lx_plan_fields bx_names bx_reads lx_landed_built)
  have "lp_candidate_tree_sha lx_plan = rx_sha (CHR ''e'')" by (simp add: lx_plan_def lx_draft_plan_def)
  with entry bx_distinct(4) show ?thesis
    by (simp add: confirmed_batch_entries_def andDo_def requireE_def give_def lift_res_def lx_plan_fields lx_stripped
      planned_base_def lx_entry_fields bx_reads bx_waited)
qed

lemma bx_settled:
  fixes w :: 'w
  shows "settle_batch_entries bx_run lx_plan (rx_sha (CHR ''a''), rx_sha (CHR ''1'')) [] [(lx_landed, Some lx_admission)]
     ((lx_world w)\<lparr>aw_ledger := lx_ledger\<rparr>) = (Inr (), lx_final w)"
proof -
  have "observed_at bx_run s = (Inr lx_start, s)" for s :: "'w admission_world"
    by (simp add: outside_def bx_fields observed_at_def lx_port_fields give_def)
  then show ?thesis
    by (simp add: settle_batch_entry_def andDo_def lx_recorded lx_plan_fields lx_progress update_progress_def bx_fields
      update_landing_plan_def writing_def give_def) (simp add: lx_world_def lx_final_def)
qed

definition bx_call :: "string \<times> nat \<times> string \<times> merge_method" where
  "bx_call = (''o/r'', 9, rx_sha (CHR ''d''), Method_merge)"

lemma bx_lands:
  assumes put: "put ''o/r'' 9 (rx_sha (CHR ''d'')) Method_merge w = (Inr (rx_sha (CHR ''2'')), w')"
  shows "land_protected_batch bx_run (bx_provider put) lx_plan (lx_world w) = (Inr lx_landed_plan, lx_final w')"
proof -
  have number: "lp_candidate_pull_request_number lx_plan = Some 9" by (simp add: lx_plan_def lx_draft_plan_def)
  have "merge_pull_request (bx_provider put) ''o/r'' 9 (rx_sha (CHR ''d'')) Method_merge w = (Inr (rx_sha (CHR ''2'')), w')"
    by (simp add: merge_pull_request_def andDo_def lift_res_def lx_stripped required_text_def rx_sha_truthy bx_fields put)
  then have merged: "merge_batch bx_run (bx_provider put) lx_plan 9 made ((lx_world w)\<lparr>aw_ledger := lg\<rparr>)
      = (Inr (rx_sha (CHR ''2'')), (lx_world w')\<lparr>aw_ledger := lg\<rparr>)" for made lg
    by (simp add: merge_batch_def on_error_def outside_def lx_plan_fields lx_world_def)
  have admitted: "admit_batch bx_run (bx_provider put) lx_plan path 9 (rx_sha (CHR ''a''), rx_sha (CHR ''1'')) (lx_world w)
      = (Inr [lx_admission], (lx_world w)\<lparr>aw_ledger := lx_ledger\<rparr>)" for path
    by (simp add: admit_batch_def bx_prepared)
  have finish: "finish_protected_batch bx_run (bx_provider put) lx_plan (Some [lx_admission]) (rx_sha (CHR ''2''))
      ((lx_world w')\<lparr>aw_ledger := lx_ledger\<rparr>) = (Inr lx_landed_plan, lx_final w')"
    by (simp del: settle_batch_entries.simps add: finish_protected_batch_def andDo_def confirm_batch_def outside_def bx_fields bx_confirmed bx_settled
      lx_progress)
  have "dispatch_batch bx_run (bx_provider put) lx_plan path 9 bx_batch (lx_world w)
      = (Inr ([lx_admission], rx_sha (CHR ''2'')), (lx_world w')\<lparr>aw_ledger := lx_ledger\<rparr>)" for path
    by (simp add: dispatch_batch_def andDo_def bx_absent bx_dispatchable bx_members bx_checks admitted merged give_def)
  with finish show ?thesis
    by (simp add: land_protected_batch_def number andDo_def lift_res_def lx_plan_fields lx_stripped outside_def bx_read_batch
      bx_batch_fields)
qed

end
