(* ===== verification/Mt_Protected_Properties.thy ===== *)
theory Mt_Protected_Properties
  imports Mt_Protected_Safety Mt_Protected_Example
begin

section \<open>What a returned protected landing has recorded\<close>

text \<open>The entry of a batch that was merged as a whole by one commit.\<close>

definition landed_in_batch :: "landing_plan \<Rightarrow> string \<Rightarrow> landing_entry \<Rightarrow> landing_entry \<Rightarrow> bool" where
  "landed_in_batch plan sha e d \<longleftrightarrow> le_pull_request_number d = le_pull_request_number e
     \<and> le_status d = Land_merged
     \<and> le_recorded_rolling_base_sha d = py_strip (le_expected_base_sha (hd (lp_entries plan)))
     \<and> le_landed_head_sha d = py_strip (le_expected_head_sha e)
     \<and> le_merge_commit_sha d = sha \<and> le_merge_commit_tree_sha d = py_strip (lp_candidate_tree_sha plan)"

lemma confirmed_entry_landed:
  assumes "confirm_batch_entry c pc plan path base merge e s = (Inr d, s')"
    and "fst base = le_expected_base_sha (hd (lp_entries plan))" and "snd merge = lp_candidate_tree_sha plan"
  shows "landed_in_batch plan (py_strip (fst merge)) e d"
  using assms
  by (auto simp: confirm_batch_entry_def landed_entry_def validate_landing_entry_def Let_def landed_in_batch_def
    strip_landing_entry_def split: if_splits)

lemma planned_base_Inr: "planned_base plan = Inr b \<Longrightarrow> fst b = le_expected_base_sha (hd (lp_entries plan))"
  by (auto simp: planned_base_def split: list.splits)

lemma confirmed_entries_landed:
  assumes "confirmed_batch_entries c pc plan sha s = (Inr (ds, observed), s')"
  shows "\<exists>commit. list_all2 (landed_in_batch plan commit) (lp_entries plan) ds"
proof -
  obtain path base merge s1 s2 where base: "planned_base plan = Inr base"
    and tree: "snd merge = lp_candidate_tree_sha plan"
    and each: "map_each (confirm_batch_entry c pc plan path base merge) (lp_entries plan) s1 = (Inr ds, s2)"
    using assms by (auto simp: confirmed_batch_entries_def)
  have "list_all2 (landed_in_batch plan (py_strip (fst merge))) (lp_entries plan) ds"
    by (rule map_each_all2 [OF each]) (rule confirmed_entry_landed [OF _ planned_base_Inr [OF base] tree])
  then show ?thesis ..
qed

subsection \<open>Every entry is recorded\<close>

definition settles :: "landing_entry \<times> admission option \<Rightarrow> bool" where
  "settles x \<longleftrightarrow> (case snd x of None \<Rightarrow> True | Some a \<Rightarrow> ad_pull_request_number a = le_pull_request_number (fst x))"

lemma settled_entry_recorded:
  assumes "settle_batch_entry run plan observed prior x s = (Inr u, s')" and "ledger_ok (aw_ledger s)" and "settles x"
  shows "recorded_in s' (le_pull_request_number (fst x))"
proof -
  obtain e how where x: "x = (e, how)" by (cases x)
  obtain at s1 y s2 p s3 where st: "observed_at run s = (Inr at, s1)"
      "(case how of None \<Rightarrow> reconcile_existing_landed e (fst observed) (snd observed) True at
         | Some a \<Rightarrow> record_landed a e (fst observed) (snd observed) True True at) s1 = (Inr y, s2)"
      "progress_of plan (prior @ e # drop (Suc (length prior)) (lp_entries plan)) s2 = (Inr p, s3)"
      "update_progress run p e ''entry_merged'' s3 = (Inr u, s')"
    using assms(1) by (auto simp: settle_batch_entry_def x)
  have ok1: "ledger_ok (aw_ledger s1)"
    by (rule advances_keeps_ok [OF advances_progress(5) [OF quiet_unit(1)] st(1) assms(2)])
  have "recorded_in s2 (le_pull_request_number e)"
  proof (cases how)
    case None
    with st(2) have rec: "reconcile_existing_landed e (fst observed) (snd observed) True at s1 = (Inr y, s2)" by simp
    from reconciled_landing [OF rec ok1] advances_keeps_ok [OF advances_reconcile_landed rec ok1] show ?thesis
      by (simp add: recorded_in_def)
  next
    case (Some a)
    with st(2) have rec: "record_landed a e (fst observed) (snd observed) True True at s1 = (Inr y, s2)" by simp
    from record_landed_recorded [OF rec ok1] advances_keeps_ok [OF advances_record_landed rec ok1] assms(3) x Some
    show ?thesis by (simp add: recorded_in_def settles_def)
  qed
  from advances_keeps_recorded [OF advances_progress(1) st(3) this]
  have "recorded_in s3 (le_pull_request_number e)" .
  from advances_keeps_recorded [OF advances_progress(2) [OF quiet_unit(1)] st(4) this] show ?thesis
    by (simp add: x)
qed

lemma settled_entries_recorded:
  assumes "settle_batch_entries run plan observed prior xs s = (Inr u, s')" and "ledger_ok (aw_ledger s)"
    and "list_all settles xs"
  shows "\<forall>x \<in> set xs. recorded_in s' (le_pull_request_number (fst x))"
  using assms
proof (induction xs arbitrary: prior s)
  case (Cons x xs)
  obtain v s1 where one: "settle_batch_entry run plan observed prior x s = (Inr v, s1)"
    and rest: "settle_batch_entries run plan observed (prior @ [fst x]) xs s1 = (Inr u, s')"
    using Cons.prems(1) by auto
  have here: "recorded_in s1 (le_pull_request_number (fst x))"
    using settled_entry_recorded [OF one] Cons.prems by simp
  then have "ledger_ok (aw_ledger s1)" by (simp add: recorded_in_def)
  with Cons.IH [OF rest] Cons.prems(3)
    advances_keeps_recorded [OF advances_settle_batch(2) [OF quiet_unit(1)] rest here]
  show ?case by simp
qed simp

lemma quiet_unit_protected [simp]: "quiet_protected (\<lambda>_. ()) pc"
  by (simp add: quiet_protected_def)

lemma finished_batch_recorded:
  assumes run: "finish_protected_batch run pc plan how sha s = (Inr plan', s')" and ok: "ledger_ok (aw_ledger s)"
    and own: "\<And>made. how = Some made \<Longrightarrow> list_all2 (admitted_member plan) (lp_entries plan) made"
  shows "(\<exists>commit. list_all2 (landed_in_batch plan commit) (lp_entries plan) (lp_entries plan'))
    \<and> (\<forall>e \<in> set (lp_entries plan). recorded_in s' (le_pull_request_number e))"
proof -
  let ?xs = "\<lambda>ds. zip ds (case how of None \<Rightarrow> map (\<lambda>_. None) ds | Some as \<Rightarrow> map Some as)"
  obtain ds observed s1 s2 where confirmed: "confirm_batch run pc plan (case how of None \<Rightarrow> [] | Some as \<Rightarrow> as) sha s
        = (Inr (ds, observed), s1)"
    and settled: "settle_batch_entries run plan observed [] (?xs ds) s1 = (Inr (), s2)"
    and plan': "progress_of plan ds s2 = (Inr plan', s')"
    using run by (auto simp: finish_protected_batch_def)
  from confirmed obtain w where "confirmed_batch_entries (ru_client run) pc plan sha (aw_rest s) = (Inr (ds, observed), w)"
    by (auto simp: confirm_batch_def outside_def andDo_def raise_def split: prod.splits sum.splits)
  from confirmed_entries_landed [OF this] obtain commit
    where landed: "list_all2 (landed_in_batch plan commit) (lp_entries plan) ds" by blast
  then have numbers: "map le_pull_request_number ds = map le_pull_request_number (lp_entries plan)"
    by (auto simp: list_all2_conv_all_nth landed_in_batch_def intro: nth_equalityI)
  have first: "map fst (?xs ds) = ds"
    using own landed by (auto simp: list_all2_lengthD split: option.split dest!: list_all2_lengthD)
  have "list_all settles (?xs ds)"
  proof (cases how)
    case (Some made)
    with own landed show ?thesis
      by (auto simp: settles_def list_all_iff set_zip list_all2_conv_all_nth admitted_member_def landed_in_batch_def)
  qed (auto simp: settles_def list_all_iff set_zip)
  moreover have "ledger_ok (aw_ledger s1)"
    by (rule advances_keeps_ok [OF advances_confirm_batch [OF quiet_unit(1) quiet_unit_protected] confirmed ok])
  ultimately have "\<forall>d \<in> set (map fst (?xs ds)). recorded_in s2 (le_pull_request_number d)"
    using settled_entries_recorded [OF settled] by auto
  then have "\<forall>n \<in> set (map le_pull_request_number ds). recorded_in s2 n"
    unfolding first by simp
  then have "\<forall>e \<in> set (lp_entries plan). recorded_in s2 (le_pull_request_number e)"
    unfolding numbers by simp
  moreover have "lp_entries plan' = ds \<and> s2 = s'"
    using plan' by (auto simp: progress_of_def dest!: validated_landing_plan(6))
  ultimately show ?thesis using landed by blast
qed

lemma dispatched_batch:
  assumes "dispatch_batch run pc plan path number p s = (Inr (made, sha), s')" and "ledger_ok (aw_ledger s)"
  shows "list_all2 (admitted_member plan) (lp_entries plan) made \<and> ledger_ok (aw_ledger s')"
proof -
  obtain base s1 s2 s3 s4 s5 u v w where st: "reconcile_absent_batch run plan path number p s = (Inr base, s1)"
      "require_batch_dispatchable plan p base s1 = (Inr u, s2)" "validate_members run plan path base s2 = (Inr v, s3)"
      "require_batch_checks pc plan number s3 = (Inr w, s4)" "admit_batch run pc plan path number base s4 = (Inr made, s5)"
    and merge: "merge_batch run pc plan number made s5 = (Inr sha, s')"
    using assms(1) by (auto simp: dispatch_batch_def)
  have ok4: "ledger_ok (aw_ledger s4)"
    using advances_keeps_ok [OF advances_absent [OF quiet_unit(1)] st(1) assms(2)]
      advances_keeps_ok [OF advances_dispatchable st(2)] advances_keeps_ok [OF advances_members [OF quiet_unit(1)] st(3)]
      advances_keeps_ok [OF advances_checks [OF quiet_unit_protected] st(4)] by blast
  have "batch_admitted (aw_ledger s4) plan (lp_entries plan) made (aw_ledger s5)"
    by (rule admit_batch_admits [OF st(5) ok4 _ planned_base_is [OF st(2)]]) simp
  moreover have "aw_ledger s' = aw_ledger s5"
    using merge by (auto simp: merge_batch_def on_error_def outside_def split: prod.splits sum.splits)
  ultimately show ?thesis by (simp add: batch_admitted_def)
qed

subsection \<open>The properties\<close>

text \<open>
  C1. A run over a protected batch asks the provider for at most one merge, whatever it answers and
  wherever the run stops: the merge of the plan's batch pull request at the tested candidate, with the
  merge method. When it asks, every entry of the plan already has an admission of its own, made in this
  run for its head on the base the batch was tested on and found ready; and nothing is asked after it.
\<close>

theorem batch_merge_is_admitted:
  assumes "ledger_run empty_ledger (aw_ledger s)" and "merges s = []"
    and run: "land_protected_batch (beside_run run) (logged_protected pc) plan s = (r, s')"
  shows "merges s' = [] \<or> (\<exists>call res number made s1 m s2.
     merges s' = [(call, res)] \<and> batch_merge plan call
     \<and> merges s1 = [] \<and> batch_admitted (aw_ledger s) plan (lp_entries plan) made (aw_ledger s1)
     \<and> merge_batch (beside_run run) (logged_protected pc) plan number made s1 = (m, s2)
     \<and> merges s2 = merges s' \<and> ledger_run (aw_ledger s2) (aw_ledger s'))"
proof -
  have "unmerged (aw_ledger s) s"
    using ledger_run_ok [OF assms(1) empty_ledger_ok] assms(2) by (simp add: unmerged_def)
  from runs_toD [OF protected_landing_merges_once [OF this] run] show ?thesis
    by (simp add: merged_once_def)
qed

text \<open>
  C2. When a run over a protected batch returns a plan, every entry of it is merged at its planned head by
  one and the same commit, whose tree is the tested candidate's, on the base the batch was tested on; and
  the admission ledger records a landing for every entry, also when the batch was found merged.
\<close>

theorem protected_batch_is_recorded:
  assumes "ledger_run empty_ledger (aw_ledger s)" and run: "land_protected_batch run pc plan s = (Inr plan', s')"
  shows "(\<exists>commit. list_all2 (landed_in_batch plan commit) (lp_entries plan) (lp_entries plan'))
    \<and> (\<forall>e \<in> set (lp_entries plan). landing_recorded (aw_ledger s') (le_pull_request_number e))"
proof -
  obtain number path p s1 where number: "lp_candidate_pull_request_number plan = Some number"
    and pull: "outside (read_batch_pull_request pc plan number) s = (Inr p, s1)"
    and rest: "(if bp_merged p = Some True
        then andDo (lift_res (required_answer (bp_merge_commit_sha p) ''Merged batch PR requires merge commit SHA.''))
          (\<lambda>sha. finish_protected_batch run pc plan None sha)
        else andDo (dispatch_batch run pc plan path number p)
          (\<lambda>(made, sha). finish_protected_batch run pc plan (Some made) sha)) s1 = (Inr plan', s')"
    using run by (auto simp: land_protected_batch_def raise_def split: option.splits)
  have ok: "ledger_ok (aw_ledger s1)"
    by (rule advances_keeps_ok [OF advances_outside [OF quiet_unit(3)] pull])
      (rule ledger_run_ok [OF assms(1) empty_ledger_ok])
  have "(\<exists>commit. list_all2 (landed_in_batch plan commit) (lp_entries plan) (lp_entries plan'))
      \<and> (\<forall>e \<in> set (lp_entries plan). recorded_in s' (le_pull_request_number e))"
  proof (cases "bp_merged p = Some True")
    case True
    with rest obtain sha where "finish_protected_batch run pc plan None sha s1 = (Inr plan', s')" by auto
    from finished_batch_recorded [OF this ok] show ?thesis by simp
  next
    case False
    with rest obtain made sha s2 where dispatched: "dispatch_batch run pc plan path number p s1 = (Inr (made, sha), s2)"
      and finish: "finish_protected_batch run pc plan (Some made) sha s2 = (Inr plan', s')" by auto
    from dispatched_batch [OF dispatched ok] finished_batch_recorded [OF finish] show ?thesis by blast
  qed
  then show ?thesis by (simp add: recorded_in_def)
qed

subsection \<open>The concrete run\<close>

lemma bx_beside:
  "beside_run bx_run = bx_run"
  "logged_protected (bx_provider put)
     = bx_provider (\<lambda>path n head how. logged (\<lambda>r. ((path, n, head, how), r)) (put path n head how))"
proof -
  show "beside_run bx_run = bx_run"
    by (simp add: beside_run_def beside_client_def beside_ports_def bx_run_def bx_client_def lx_client_def
      lx_ports_def beside_give comp_def)
  show "logged_protected (bx_provider put)
     = bx_provider (\<lambda>path n head how. logged (\<lambda>r. ((path, n, head, how), r)) (put path n head how))"
    by (simp add: logged_protected_def bx_provider_def beside_give if_distrib cong: if_cong)
qed

definition bx_log :: merge_log where
  "bx_log = [(bx_call, Inr (rx_sha (CHR ''2'')))]"

lemma bx_logged_run:
  "land_protected_batch (beside_run bx_run) (logged_protected (bx_provider (\<lambda>_ _ _ _. give (rx_sha (CHR ''2'')))))
     lx_plan (lx_world ((), [])) = (Inr lx_landed_plan, lx_final ((), bx_log))"
  unfolding bx_beside by (rule bx_lands) (simp add: logged_def give_def bx_call_def bx_log_def)

theorem batch_merge_is_admitted_witness:
  "\<exists>s' made (s1 :: (unit \<times> merge_log) admission_world). land_protected_batch (beside_run bx_run)
       (logged_protected (bx_provider (\<lambda>_ _ _ _. give (rx_sha (CHR ''2''))))) lx_plan (lx_world ((), []))
       = (Inr lx_landed_plan, s')
     \<and> map fst (merges s') = [bx_call]
     \<and> merges s1 = [] \<and> batch_admitted empty_ledger lx_plan [lx_entry] made (aw_ledger s1)"
proof -
  have "ledger_run empty_ledger (aw_ledger (lx_world ((), [])))" by (simp add: lx_empty)
  note story = batch_merge_is_admitted [OF this _ bx_logged_run]
  have one: "merges (lx_final ((), bx_log)) = bx_log"
    by (simp add: lx_final_def lx_world_def)
  obtain made and s1 :: "(unit \<times> merge_log) admission_world" where "merges s1 = []" "batch_admitted empty_ledger lx_plan [lx_entry] made (aw_ledger s1)"
    using story unfolding one lx_empty lx_plan_fields lx_world_fields snd_conv by (auto simp: bx_log_def)
  moreover have "map fst (merges (lx_final ((), bx_log))) = [bx_call]"
    unfolding one by (simp add: bx_log_def)
  ultimately show ?thesis
    by (intro exI [of _ "lx_final ((), bx_log)"] exI [of _ made] exI [of _ s1] conjI bx_logged_run)
qed

theorem protected_batch_is_recorded_witness:
  "\<exists>s' commit. land_protected_batch bx_run (bx_provider (\<lambda>_ _ _ _. give (rx_sha (CHR ''2'')))) lx_plan (lx_world ())
       = (Inr lx_landed_plan, s')
     \<and> landed_in_batch lx_plan commit lx_entry lx_landed \<and> landing_recorded (aw_ledger s') 7"
proof -
  have run: "land_protected_batch bx_run (bx_provider (\<lambda>_ _ _ _. give (rx_sha (CHR ''2'')))) lx_plan (lx_world ())
      = (Inr lx_landed_plan, lx_final ())"
    by (rule bx_lands) (simp add: give_def)
  have "ledger_run empty_ledger (aw_ledger (lx_world ()))" by (simp add: lx_empty)
  from protected_batch_is_recorded [OF this run] run show ?thesis
    by (auto simp: lx_plan_fields lx_entry_fields lx_landed_plan_def)
qed

end
