(* ===== verification/Mt_Build.thy ===== *)
theory Mt_Build
  imports Mt_Protected
begin

section \<open>Building and observing a candidate\<close>

text \<open>
  \<open>build_batch_candidate\<close> and \<open>observe_batch_candidate_checks\<close> of \<open>control_plane/merge_train_github.py\<close>. A candidate is built on a construction ref, one merge per
  entry onto the result of the one before, and its own ref is only ever pointed at the completed
  commit. The reads of commits and branches are those of \<open>Mt_Landing\<close>.
\<close>

subsection \<open>Refs and effects\<close>

text \<open>\<open>encode()\<close> of the code points below 256.\<close>

definition utf8_char :: "char \<Rightarrow> string" where
  "utf8_char c = (let n = (of_char c :: nat) in
     if n < 128 then [c] else [char_of (192 + n div 64), char_of (128 + n mod 64)])"

definition utf8_bytes :: "string \<Rightarrow> string" where
  "utf8_bytes s = concat (map utf8_char s)"

definition construction_ref :: "string \<Rightarrow> string" where
  "construction_ref candidate_ref =
     ''refs/heads/launchplane/construct/'' @ sha256_hexdigest (utf8_bytes candidate_ref)"

definition canonical_candidate_ref :: "batch_target \<Rightarrow> string res" where
  "canonical_candidate_ref t = build_candidate_ref (bt_repository t) (bt_base_branch t) (bt_batch_id t)"

definition batch_refs :: "batch_target \<Rightarrow> (string \<times> string) res" where
  "batch_refs t = andThen (canonical_candidate_ref t) (\<lambda>ref. Inr (ref, construction_ref ref))"

definition is_canonical_ref :: "batch_target \<Rightarrow> bool res" where
  "is_canonical_ref t = andThen (canonical_candidate_ref t) (\<lambda>ref. Inr (bt_candidate_ref t = ref))"

definition branch_name_from_ref :: "string \<Rightarrow> string res" where
  "branch_name_from_ref reference =
     andThen (required_text reference ''GitHub branch ref is required.'') (\<lambda>r.
     if take (length ''refs/heads/'') r \<noteq> ''refs/heads/''
     then Inl (ValueError ''GitHub branch ref must start with refs/heads/.'')
     else Inr (remove_prefix ''refs/heads/'' r))"

record ref_prepare_effect =
  pf_lineage :: effect_lineage_record
  pf_candidate_ref :: string
  pf_base_sha :: string

record head_merge_effect =
  mf_lineage :: effect_lineage_record
  mf_candidate_ref :: string
  mf_rolling_parent_sha :: string
  mf_pull_request_number :: nat
  mf_head_sha :: string

record ref_delete_effect =
  df_lineage :: effect_lineage_record
  df_candidate_ref :: string
  df_expected_ref_sha :: string

text \<open>
  The semantic effect executor, whose merge answers the commit or None where the head was contained
  already, beside the reads; \<open>bd_reuse\<close> is \<open>read_head_check_reuse\<close>, \<open>bd_required_checks\<close> the status and
  the observation error of the required checks, \<open>bd_full_build\<close> whether the repository runs full builds.
\<close>

record 'w build_client =
  bd_reads :: "'w landing_client"
  bd_prepare :: "ref_prepare_effect \<Rightarrow> ('w, unit) eff"
  bd_merge :: "head_merge_effect \<Rightarrow> ('w, string option) eff"
  bd_delete :: "ref_delete_effect \<Rightarrow> ('w, bool) eff"
  bd_reuse :: "batch_candidate \<Rightarrow> ('w, head_check_reuse option) eff"
  bd_required_checks :: "batch_candidate \<Rightarrow> string \<Rightarrow> ('w, candidate_checks \<times> string) eff"
  bd_full_build :: "string \<Rightarrow> ('w, bool) eff"

type_synonym 'w build_checkpoint = "(batch_candidate \<Rightarrow> batch_entry option \<Rightarrow> string \<Rightarrow> ('w, unit) eff) option"

definition at_phase ::
  "'w build_checkpoint \<Rightarrow> batch_candidate \<Rightarrow> batch_entry option \<Rightarrow> string \<Rightarrow> ('w, unit) eff" where
  "at_phase checkpoint c entry phase = (case checkpoint of None \<Rightarrow> give () | Some f \<Rightarrow> f c entry phase)"

definition candidate_lineage :: "batch_candidate \<Rightarrow> effect_lineage_record" where
  "candidate_lineage c = \<lparr>el_repository = ba_repository c, el_base_branch = ba_base_branch c,
     el_batch_id = ba_batch_id c, el_landing_plan_id = ''''\<rparr>"

definition prepare_ref :: "'w build_client \<Rightarrow> batch_candidate \<Rightarrow> string \<Rightarrow> string \<Rightarrow> ('w, unit) eff" where
  "prepare_ref b c ref sha =
     bd_prepare b \<lparr>pf_lineage = candidate_lineage c, pf_candidate_ref = ref, pf_base_sha = sha\<rparr>"

definition delete_ref :: "'w build_client \<Rightarrow> batch_candidate \<Rightarrow> string \<Rightarrow> ('w, bool) eff" where
  "delete_ref b c ref =
     bd_delete b \<lparr>df_lineage = candidate_lineage c, df_candidate_ref = ref, df_expected_ref_sha = ''''\<rparr>"

subsection \<open>Provenance of the steps so far\<close>

definition validated_merge_commit_identity ::
  "'w landing_client \<Rightarrow> string \<Rightarrow> string \<Rightarrow> string \<Rightarrow> string \<Rightarrow> ('w, string \<times> string) eff" where
  "validated_merge_commit_identity c path sha parent head =
     andDo (git_commit_proof c path sha) (\<lambda>(observed, tree, parents).
     andDo (requireE (parents = [parent, head])
       (stale ''GitHub merge commit parents do not exactly match the recorded parent and head.'')) (\<lambda>_.
     give (observed, tree)))"

definition binding_of_entry :: "batch_entry \<Rightarrow> entry_binding" where
  "binding_of_entry e = \<lparr>eb_position = be_position e, eb_pull_request_number = be_pull_request_number e,
     eb_head_sha = be_head_sha e, eb_head_tree_sha = be_head_tree_sha e,
     eb_impact_status = be_impact_status e, eb_affected_subjects = be_affected_subjects e\<rparr>"

text \<open>The tree of a collapsed stack root is filled in from its entry.\<close>

definition root_with_tree :: "batch_candidate \<Rightarrow> stack_root_proof option res" where
  "root_with_tree c = (case ba_stack_collapse_root c of None \<Rightarrow> Inr None
     | Some root \<Rightarrow> (if rp_collapsed_root_tree_sha root \<noteq> '''' then Inr (Some root)
         else case find (\<lambda>e. be_pull_request_number e = rp_root_pull_request_number root) (ba_entries c) of
           None \<Rightarrow> Inr (Some root)
         | Some e \<Rightarrow> andThen (validate_stack_root_proof (root\<lparr>rp_collapsed_root_tree_sha := be_head_tree_sha e\<rparr>))
             (\<lambda>root. Inr (Some root))))"

definition candidate_with_provenance ::
  "batch_candidate \<Rightarrow> string \<Rightarrow> string \<Rightarrow> rolling_step list \<Rightarrow> batch_candidate res" where
  "candidate_with_provenance c sha tree steps =
     andThen (root_with_tree c) (\<lambda>root.
     andThen (case steps of [] \<Rightarrow> Inl (RuntimeError ''tuple index out of range'')
       | s # _ \<Rightarrow> Inr (rs_parent_tree_sha s)) (\<lambda>base_tree.
     andThen (mapM (\<lambda>e. validate_entry_binding (binding_of_entry e)) (ba_entries c)) (\<lambda>bindings.
     andThen (validate_structural_provenance \<lparr>sp_schema_version = 1, sp_repository = ba_repository c,
       sp_base_branch = ba_base_branch c, sp_base_sha = ba_base_sha c, sp_base_tree_sha = base_tree,
       sp_policy_key = ba_policy_key c, sp_policy_sha256 = ba_policy_sha256 c, sp_entries = bindings,
       sp_steps = steps, sp_candidate_sha = sha, sp_candidate_tree_sha = tree,
       sp_stack_collapse_root = root, sp_provenance_sha256 = '''', sp_candidate_sha256 = ''''\<rparr>) (\<lambda>p.
     validate_batch_candidate (c\<lparr>ba_candidate_sha := sha, ba_candidate_tree_sha := tree,
       ba_candidate_sha256 := sp_candidate_sha256 p, ba_stack_collapse_root := root,
       ba_structural_provenance := Some p, ba_status := Cand_building\<rparr>)))))"

subsection \<open>One merge per entry\<close>

record build_progress =
  bg_candidate :: batch_candidate
  bg_sha :: string
  bg_tree_sha :: string
  bg_steps :: "rolling_step list"

definition step_of :: "build_progress \<Rightarrow> batch_entry \<Rightarrow> string \<Rightarrow> string \<Rightarrow> step_kind \<Rightarrow> rolling_step res" where
  "step_of g e result result_tree kind = validate_rolling_step
     \<lparr>rs_position = be_position e, rs_pull_request_number = be_pull_request_number e,
      rs_parent_sha = bg_sha g, rs_parent_tree_sha = bg_tree_sha g, rs_head_sha = be_head_sha e,
      rs_head_tree_sha = be_head_tree_sha e, rs_result_sha = result, rs_result_tree_sha = result_tree,
      rs_kind = kind\<rparr>"

text \<open>The head was contained already: the ref still is the parent, and contains the head.\<close>

definition observe_no_op ::
  "'w build_client \<Rightarrow> string \<Rightarrow> string \<Rightarrow> build_progress \<Rightarrow> batch_entry \<Rightarrow> ('w, rolling_step) eff" where
  "observe_no_op b path branch g e =
     andDo (base_branch_sha (bd_reads b) path branch) (\<lambda>observed.
     andDo (git_commit_identity (bd_reads b) path observed) (\<lambda>observed.
     andDo (requireE (observed = (bg_sha g, bg_tree_sha g))
       (stale ''GitHub no-op merge moved the candidate ref outside the recorded parent.'')) (\<lambda>_.
     andDo (branch_contains_commit (bd_reads b) (ba_repository (bg_candidate g)) branch (be_head_sha e)) (\<lambda>contains.
     andDo (requireE contains (stale ''GitHub no-op merge did not prove the recorded head is contained.'')) (\<lambda>_.
     lift_res (step_of g e (bg_sha g) (bg_tree_sha g) No_op_already_contained))))))"

definition observe_merge ::
  "'w build_client \<Rightarrow> string \<Rightarrow> string \<Rightarrow> build_progress \<Rightarrow> batch_entry \<Rightarrow> string \<Rightarrow> ('w, rolling_step) eff" where
  "observe_merge b path branch g e result =
     andDo (wait_for_branch_sha (bd_reads b) path branch result (bg_sha g)) (\<lambda>observed.
     andDo (requireE (observed = result)
       (stale ''GitHub candidate ref did not resolve to the reported merge commit.'')) (\<lambda>_.
     andDo (validated_merge_commit_identity (bd_reads b) path result (bg_sha g) (be_head_sha e)) (\<lambda>(sha, tree).
     lift_res (step_of g e sha tree Merge_commit))))"

definition merge_head :: "'w build_client \<Rightarrow> string \<Rightarrow> build_progress \<Rightarrow> batch_entry \<Rightarrow> ('w, string option) eff" where
  "merge_head b ref g e = bd_merge b \<lparr>mf_lineage = candidate_lineage (bg_candidate g), mf_candidate_ref = ref,
     mf_rolling_parent_sha = bg_sha g, mf_pull_request_number = be_pull_request_number e,
     mf_head_sha = be_head_sha e\<rparr>"

definition build_entry ::
  "'w build_client \<Rightarrow> 'w build_checkpoint \<Rightarrow> string \<Rightarrow> string \<Rightarrow> string \<Rightarrow> nat \<Rightarrow> batch_entry \<Rightarrow> build_progress
   \<Rightarrow> ('w, build_progress) eff" where
  "build_entry b checkpoint path ref branch i e g =
     andDo (at_phase checkpoint (bg_candidate g) (Some e) ''merge_candidate_entry'') (\<lambda>_.
     andDo (merge_head b ref g e) (\<lambda>result.
     andDo (case result of None \<Rightarrow> observe_no_op b path branch g e
       | Some result \<Rightarrow> observe_merge b path branch g e result) (\<lambda>step.
     let steps = bg_steps g @ [step] in
     andDo (lift_res (candidate_with_provenance (bg_candidate g) (rs_result_sha step) (rs_result_tree_sha step) steps))
       (\<lambda>c.
     andDo (at_phase checkpoint c (Some e) (''candidate_entry_merged:'' @ str_nat i)) (\<lambda>_.
     give \<lparr>bg_candidate = c, bg_sha = rs_result_sha step, bg_tree_sha = rs_result_tree_sha step, bg_steps = steps\<rparr>)))))"

fun build_entries ::
  "'w build_client \<Rightarrow> 'w build_checkpoint \<Rightarrow> string \<Rightarrow> string \<Rightarrow> string \<Rightarrow> nat \<Rightarrow> batch_entry list \<Rightarrow> build_progress
   \<Rightarrow> ('w, build_progress) eff" where
  "build_entries b checkpoint path ref branch i [] g = give g"
| "build_entries b checkpoint path ref branch i (e # es) g =
     andDo (build_entry b checkpoint path ref branch i e g) (build_entries b checkpoint path ref branch (Suc i) es)"

subsection \<open>Publication\<close>

fun verify_publication :: "'w landing_client \<Rightarrow> string \<Rightarrow> string \<Rightarrow> string \<Rightarrow> nat \<Rightarrow> ('w, unit) eff" where
  "verify_publication c path branch expected 0 w =
     raise (stale ''GitHub published candidate ref did not resolve to the completed candidate.'') w"
| "verify_publication c path branch expected (Suc n) w = (case base_branch_sha c path branch w of
       (Inl e, w') \<Rightarrow> if is_github_error e \<and> error_status_code e = Some 404
         then verify_publication c path branch expected n w' else (Inl e, w')
     | (Inr observed, w') \<Rightarrow> if observed = expected then (Inr (), w')
         else verify_publication c path branch expected n w')"

definition publish_ref :: "'w build_client \<Rightarrow> batch_candidate \<Rightarrow> string \<Rightarrow> string \<Rightarrow> string \<Rightarrow> ('w, unit) eff" where
  "publish_ref b c path ref sha =
     andDo (prepare_ref b c ref sha) (\<lambda>_.
     andDo (lift_res (branch_name_from_ref ref)) (\<lambda>branch.
     verify_publication (bd_reads b) path branch sha (Suc merge_ref_reads)))"

text \<open>A construction ref that cannot be deleted is left behind; the publication counts.\<close>

definition drop_construction_ref :: "'w build_client \<Rightarrow> batch_candidate \<Rightarrow> string \<Rightarrow> ('w, unit) eff" where
  "drop_construction_ref b c ref w = (case delete_ref b c ref w of
       (Inl e, w') \<Rightarrow> (if is_github_error e then Inr () else Inl e, w')
     | (Inr _, w') \<Rightarrow> (Inr (), w'))"

definition publish_candidate ::
  "'w build_client \<Rightarrow> 'w build_checkpoint \<Rightarrow> string \<Rightarrow> string \<Rightarrow> build_progress \<Rightarrow> ('w, batch_candidate) eff" where
  "publish_candidate b checkpoint path ref g =
     (let c = bg_candidate g in
     andDo (at_phase checkpoint c None ''publish_candidate_ref'') (\<lambda>_.
     andDo (publish_ref b c path (ba_candidate_ref c) (bg_sha g)) (\<lambda>_.
     andDo (at_phase checkpoint c None ''candidate_ref_published'') (\<lambda>_.
     andDo (drop_construction_ref b c ref) (\<lambda>_.
     lift_res (validate_batch_candidate (c\<lparr>ba_status := Cand_ready_for_checks\<rparr>)))))))"

definition finish_build ::
  "'w build_client \<Rightarrow> 'w build_checkpoint \<Rightarrow> string \<Rightarrow> string \<Rightarrow> build_progress \<Rightarrow> ('w, batch_candidate) eff" where
  "finish_build b checkpoint path ref g =
     andDo (bd_reuse b (bg_candidate g)) (\<lambda>reuse.
     case reuse of None \<Rightarrow> publish_candidate b checkpoint path ref g
     | Some reuse \<Rightarrow>
       andDo (lift_res (validate_batch_candidate ((bg_candidate g)\<lparr>ba_candidate_ref := ref,
         ba_head_check_reuse := Some reuse, ba_required_checks_status := Cc_pass, ba_status := Cand_passed\<rparr>))) (\<lambda>c.
       andDo (at_phase checkpoint c None ''head_checks_reused'') (\<lambda>_. give c)))"

definition resolve_entry :: "'w build_client \<Rightarrow> string \<Rightarrow> batch_entry \<Rightarrow> ('w, batch_entry) eff" where
  "resolve_entry b path e =
     andDo (git_commit_identity (bd_reads b) path (be_head_sha e)) (\<lambda>(_, tree).
     lift_res (validate_batch_entry (e\<lparr>be_head_tree_sha := tree\<rparr>)))"

definition build_provider_candidate ::
  "'w build_client \<Rightarrow> 'w build_checkpoint \<Rightarrow> batch_candidate \<Rightarrow> ('w, batch_candidate) eff" where
  "build_provider_candidate b checkpoint c =
     andDo (lift_res (repository_path (ba_repository c))) (\<lambda>path.
     let ref = construction_ref (ba_candidate_ref c) in
     andDo (lift_res (branch_name_from_ref ref)) (\<lambda>branch.
     andDo (at_phase checkpoint c None ''reset_construction_ref'') (\<lambda>_.
     andDo (prepare_ref b c ref (ba_base_sha c)) (\<lambda>_.
     andDo (at_phase checkpoint c None ''construction_ref_ready'') (\<lambda>_.
     andDo (git_commit_identity (bd_reads b) path (ba_base_sha c)) (\<lambda>(base, base_tree).
     andDo (map_each (resolve_entry b path) (ba_entries c)) (\<lambda>entries.
     andDo (lift_res (validate_batch_candidate (c\<lparr>ba_entries := entries, ba_status := Cand_building\<rparr>))) (\<lambda>c.
     andDo (build_entries b checkpoint path ref branch 1 (ba_entries c)
       \<lparr>bg_candidate = c, bg_sha = base, bg_tree_sha = base_tree, bg_steps = []\<rparr>) (\<lambda>g.
     finish_build b checkpoint path ref g)))))))))"

subsection \<open>Observing the checks\<close>

text \<open>Reused checks that can no longer be proved: the same commit is published for checks of its own.\<close>

definition publish_for_checks :: "'w build_client \<Rightarrow> batch_candidate \<Rightarrow> ('w, batch_candidate) eff" where
  "publish_for_checks b c =
     andDo (lift_res (canonical_candidate_ref (target_of_candidate c))) (\<lambda>ref.
     andDo (prepare_ref b c ref (ba_candidate_sha c)) (\<lambda>_.
     andDo (lift_res (repository_path (ba_repository c))) (\<lambda>path.
     andDo (lift_res (branch_name_from_ref ref)) (\<lambda>branch.
     andDo (verify_publication (bd_reads b) path branch (ba_candidate_sha c) (Suc merge_ref_reads)) (\<lambda>_.
     andDo (delete_ref b c (ba_candidate_ref c)) (\<lambda>_.
     lift_res (validate_batch_candidate (c\<lparr>ba_candidate_ref := ref, ba_head_check_reuse := None,
       ba_required_checks_status := Cc_pending, ba_required_checks_observation_error := '''',
       ba_status := Cand_ready_for_checks\<rparr>))))))))"

definition observe_reused_checks :: "'w build_client \<Rightarrow> batch_candidate \<Rightarrow> ('w, batch_candidate) eff" where
  "observe_reused_checks b c =
     andDo (bd_reuse b c) (\<lambda>reuse.
     case reuse of Some reuse \<Rightarrow> lift_res (validate_batch_candidate (c\<lparr>ba_head_check_reuse := Some reuse,
         ba_required_checks_status := Cc_pass, ba_required_checks_observation_error := '''',
         ba_status := Cand_passed\<rparr>))
     | None \<Rightarrow> publish_for_checks b c)"

definition status_of_checks :: "candidate_checks \<Rightarrow> candidate_status" where
  "status_of_checks s = (if s = Cc_pass then Cand_passed else if s = Cc_fail then Cand_failed
     else Cand_ready_for_checks)"

definition observe_candidate_checks :: "'w build_client \<Rightarrow> batch_candidate \<Rightarrow> ('w, batch_candidate) eff" where
  "observe_candidate_checks b c =
     (if ba_head_check_reuse c \<noteq> None then observe_reused_checks b c
      else
      andDo (lift_res (repository_path (ba_repository c))) (\<lambda>path.
      andDo (lift_res (required_text (ba_candidate_sha c)
        ''Merge train batch candidate SHA is required before observing checks.'')) (\<lambda>sha.
      andDo (bd_required_checks b c sha) (\<lambda>(status, error).
      lift_res (validate_batch_candidate (c\<lparr>ba_required_checks_status := status,
        ba_required_checks_observation_error := error, ba_status := status_of_checks status\<rparr>))))))"

end
