(* ===== verification/Mt_Build_Safety.thy ===== *)
theory Mt_Build_Safety
  imports Mt_Build Mt_Protected_Safety
begin

section \<open>What the construction of a candidate does\<close>

text \<open>
  The moves of refs in a run, followed through a log of the executor's calls. The reads leave the log
  alone, so between two calls it only matters what the code has checked.
\<close>

subsection \<open>The log of ref moves\<close>

datatype ref_event =
  Prepared ref_prepare_effect "unit res"
| Merged head_merge_effect "string option res"
| Deleted ref_delete_effect "bool res"

type_synonym ref_log = "ref_event list"

definition logged_build :: "'w build_client \<Rightarrow> ('w \<times> ref_log) build_client" where
  "logged_build b = \<lparr>bd_reads = beside_client (bd_reads b),
     bd_prepare = (\<lambda>fx. logged (Prepared fx) (bd_prepare b fx)),
     bd_merge = (\<lambda>fx. logged (Merged fx) (bd_merge b fx)),
     bd_delete = (\<lambda>fx. logged (Deleted fx) (bd_delete b fx)),
     bd_reuse = (\<lambda>c. beside (bd_reuse b c)),
     bd_required_checks = (\<lambda>c sha. beside (bd_required_checks b c sha)),
     bd_full_build = (\<lambda>r. beside (bd_full_build b r))\<rparr>"

definition beside_checkpoint :: "'w build_checkpoint \<Rightarrow> ('w \<times> ref_log) build_checkpoint" where
  "beside_checkpoint = map_option (\<lambda>f c e phase. beside (f c e phase))"

lemma logged_build_fields:
  "bd_reads (logged_build b) = beside_client (bd_reads b)"
  "bd_prepare (logged_build b) fx = logged (Prepared fx) (bd_prepare b fx)"
  "bd_merge (logged_build b) mx = logged (Merged mx) (bd_merge b mx)"
  "bd_delete (logged_build b) dx = logged (Deleted dx) (bd_delete b dx)"
  "bd_reuse (logged_build b) c = beside (bd_reuse b c)"
  by (simp_all add: logged_build_def)

lemma keeps_phase [keeps_intros]: "keeps_view snd (at_phase (beside_checkpoint cp) c e phase)"
  by (auto simp: at_phase_def beside_checkpoint_def intro: keeps_intros split: option.split)

lemma keeps_merge_identity [keeps_intros]:
  "quiet_client view c \<Longrightarrow> keeps_view view (validated_merge_commit_identity c path sha parent head)"
  unfolding validated_merge_commit_identity_def by (intro keeps_intros)

lemma keeps_verify [keeps_intros]:
  assumes "quiet_client view c"
  shows "keeps_view view (verify_publication c path branch expected n)"
  unfolding keeps_view_def
proof (intro allI impI)
  fix w r w' assume "verify_publication c path branch expected n w = (r, w')"
  then show "view w' = view w"
  proof (induction n arbitrary: w)
    case (Suc n)
    obtain x w1 where read: "base_branch_sha c path branch w = (x, w1)" by (cases "base_branch_sha c path branch w")
    with keeps_base_sha [OF assms] have "view w1 = view w" by (auto simp: keeps_view_def)
    with Suc read show ?case by (auto split: sum.splits if_splits)
  qed (simp add: raise_def)
qed

lemma keeps_build_reads [keeps_intros]:
  "keeps_view snd (observe_no_op (logged_build b) path branch g e)"
  "keeps_view snd (observe_merge (logged_build b) path branch g e sha)"
  "keeps_view snd (resolve_entry (logged_build b) path e)"
  unfolding observe_no_op_def observe_merge_def resolve_entry_def logged_build_fields
  by (intro keeps_intros quiet_beside)+

subsection \<open>A chain of merges\<close>

definition merges_entry :: "string \<Rightarrow> string \<Rightarrow> batch_entry \<Rightarrow> head_merge_effect \<Rightarrow> bool" where
  "merges_entry ref parent e fx \<longleftrightarrow> mf_candidate_ref fx = ref \<and> mf_rolling_parent_sha fx = parent
     \<and> mf_pull_request_number fx = be_pull_request_number e \<and> py_strip (mf_head_sha fx) = py_strip (be_head_sha e)"

text \<open>
  Merges that all succeeded, from \<open>parent\<close> to the last result: each merges the head of its entry onto
  what the one before answered, or left alone.
\<close>

fun merged_chain :: "string \<Rightarrow> string \<Rightarrow> batch_entry list \<Rightarrow> ref_log \<Rightarrow> string \<Rightarrow> bool" where
  "merged_chain ref parent [] [] final = (final = parent)"
| "merged_chain ref parent (e # es) (Merged fx (Inr result) # evs) final = (merges_entry ref parent e fx
     \<and> merged_chain ref (case result of None \<Rightarrow> parent | Some sha \<Rightarrow> sha) es evs final)"
| "merged_chain ref parent _ _ final = False"

lemma merged_chain_snoc:
  assumes "merged_chain ref parent es evs final" and "merges_entry ref final e fx"
  shows "merged_chain ref parent (es @ [e]) (evs @ [Merged fx (Inr result)])
    (case result of None \<Rightarrow> final | Some sha \<Rightarrow> sha)"
  using assms by (induction ref parent es evs final rule: merged_chain.induct) auto

definition resets_ref :: "string \<Rightarrow> string \<Rightarrow> ref_event \<Rightarrow> bool" where
  "resets_ref ref sha ev \<longleftrightarrow> (\<exists>fx r. ev = Prepared fx r \<and> pf_candidate_ref fx = ref \<and> pf_base_sha fx = sha)"

text \<open>
  The log of a run, newest call first, that may have stopped anywhere: the construction ref is reset to
  the base, the entries are merged in order, and only when all of them are is the candidate's own ref set,
  to the last result, and the construction ref deleted.
\<close>

definition orderly_tail :: "string \<Rightarrow> string \<Rightarrow> string \<Rightarrow> batch_entry list \<Rightarrow> ref_log \<Rightarrow> bool" where
  "orderly_tail ref own final rest tail \<longleftrightarrow> tail = []
     \<or> (\<exists>fx r. rest \<noteq> [] \<and> tail = [Merged fx r] \<and> merges_entry ref final (hd rest) fx)
     \<or> (\<exists>publish dels. rest = [] \<and> tail = publish # dels \<and> resets_ref own final publish
          \<and> (\<forall>d \<in> set dels. \<exists>fx r. d = Deleted fx r \<and> df_candidate_ref fx = ref))"

definition orderly_build :: "batch_candidate \<Rightarrow> ref_log \<Rightarrow> bool" where
  "orderly_build c log \<longleftrightarrow> (let ref = construction_ref (ba_candidate_ref c) in
     log = [] \<or> (\<exists>reset ms es rest final tail. rev log = reset # ms @ tail \<and> resets_ref ref (ba_base_sha c) reset
       \<and> ba_entries c = es @ rest \<and> merged_chain ref (ba_base_sha c) es ms final
       \<and> orderly_tail ref (py_strip (ba_candidate_ref c)) final rest tail))"

text \<open>The step that the provenance records for a merge.\<close>

definition records_merge :: "ref_event \<Rightarrow> rolling_step \<Rightarrow> bool" where
  "records_merge ev st \<longleftrightarrow> (\<exists>fx result. ev = Merged fx (Inr result) \<and> rs_parent_sha st = mf_rolling_parent_sha fx
     \<and> rs_head_sha st = py_strip (mf_head_sha fx) \<and> rs_pull_request_number st = mf_pull_request_number fx
     \<and> rs_kind st = (case result of None \<Rightarrow> No_op_already_contained | Some _ \<Rightarrow> Merge_commit)
     \<and> rs_result_sha st = (case result of None \<Rightarrow> mf_rolling_parent_sha fx | Some sha \<Rightarrow> sha))"

text \<open>Where a run stands after the entries \<open>es\<close>.\<close>

definition built ::
  "batch_candidate \<Rightarrow> batch_entry list \<Rightarrow> build_progress \<Rightarrow> ref_log \<Rightarrow> bool" where
  "built c es g log \<longleftrightarrow> (\<exists>reset ms. rev log = reset # ms
     \<and> resets_ref (construction_ref (ba_candidate_ref c)) (ba_base_sha c) reset
     \<and> merged_chain (construction_ref (ba_candidate_ref c)) (ba_base_sha c) es ms (bg_sha g)
     \<and> list_all2 records_merge ms (bg_steps g)) \<and> py_strip (bg_sha g) = bg_sha g"

lemma built_orderly:
  assumes "built c es g log" and "ba_entries c = es @ rest"
  shows "orderly_build c log"
  using assms unfolding built_def orderly_build_def Let_def orderly_tail_def by (metis append_Nil2)

lemma token_Inr: "required_token v f = Inr t \<Longrightarrow> t = py_strip v"
  by (simp add: required_token_Inr)

lemma step_of_fields:
  assumes "step_of g e sha tree kind = Inr st"
  shows "rs_parent_sha st = py_strip (bg_sha g)" "rs_head_sha st = py_strip (be_head_sha e)"
    "rs_pull_request_number st = be_pull_request_number e" "rs_result_sha st = py_strip sha" "rs_kind st = kind"
  using assms by (auto simp: step_of_def validate_rolling_step_def dest!: token_Inr split: if_splits)

lemma observed_no_op: "observe_no_op b path branch g e s = (Inr st, s')
    \<Longrightarrow> step_of g e (bg_sha g) (bg_tree_sha g) No_op_already_contained = Inr st"
  by (auto simp: observe_no_op_def)

lemma observed_merge:
  assumes "observe_merge b path branch g e sha s = (Inr st, s')"
  shows "\<exists>tree. step_of g e sha tree Merge_commit = Inr st \<and> py_strip sha = sha"
  using assms
  by (auto simp: observe_merge_def validated_merge_commit_identity_def git_commit_proof_def
    dest!: required_answer_Inr)

lemma still_thenI:
  assumes "keeps_view snd m" and "\<And>x s'. m s = (Inr x, s') \<Longrightarrow> snd s' = snd s \<Longrightarrow> runs_to (f x) Q s'"
    and "\<And>e s'. snd s' = snd s \<Longrightarrow> Q (Inl e) s'"
  shows "runs_to (andDo m f) Q s"
proof (rule andDoI [where P = "\<lambda>r s'. m s = (r, s') \<and> snd s' = snd s"])
  show "runs_to m (\<lambda>r s'. m s = (r, s') \<and> snd s' = snd s) s"
    using assms(1) by (intro runs_toI) (metis keeps_view_def)
qed (use assms(2,3) in auto)

lemma pure_thenI:
  assumes "\<And>x. r = Inr x \<Longrightarrow> runs_to (f x) Q s" and "\<And>e. Q (Inl e) s"
  shows "runs_to (andDo (lift_res r) f) Q s"
  using assms by (simp add: wp split: sum.split)

subsection \<open>One entry\<close>

text \<open>The candidate of the run so far, with the provenance of its steps once it has one.\<close>

definition carries_steps :: "batch_candidate \<Rightarrow> build_progress \<Rightarrow> bool" where
  "carries_steps c g \<longleftrightarrow> ba_candidate_ref (bg_candidate g) = py_strip (ba_candidate_ref c)
     \<and> (bg_steps g \<noteq> [] \<longrightarrow> ba_candidate_sha (bg_candidate g) = bg_sha g
          \<and> (\<exists>p. ba_structural_provenance (bg_candidate g) = Some p \<and> sp_steps p = bg_steps g
               \<and> sp_candidate_sha p = bg_sha g))"

lemma bound_candidate_fields:
  assumes "bind_provenance c = Inr c'"
  shows "ba_candidate_ref c' = ba_candidate_ref c" "ba_candidate_sha c' = ba_candidate_sha c"
    "ba_structural_provenance c' = ba_structural_provenance c" "ba_status c' = ba_status c"
    "ba_base_sha c' = ba_base_sha c" "ba_entries c' = ba_entries c" "ba_head_check_reuse c' = ba_head_check_reuse c"
    "ba_structural_provenance c = Some p \<Longrightarrow> ba_status c \<notin> {Cand_planned, Cand_building} \<Longrightarrow> provenance_complete p"
  using assms by (auto simp: bind_provenance_def split: option.splits)

lemma validated_candidate_fields:
  assumes "validate_batch_candidate c = Inr c'"
  shows "ba_candidate_ref c' = py_strip (ba_candidate_ref c)" "ba_candidate_sha c' = py_strip (ba_candidate_sha c)"
    "ba_structural_provenance c' = ba_structural_provenance c" "ba_status c' = ba_status c"
    "ba_base_sha c' = py_strip (ba_base_sha c)" "ba_entries c' = ba_entries c"
    "ba_structural_provenance c = Some p \<Longrightarrow> ba_status c \<notin> {Cand_planned, Cand_building} \<Longrightarrow> provenance_complete p"
    and "ba_head_check_reuse c' = ba_head_check_reuse c" "ba_entries c \<noteq> []"
proof -
  obtain d where d: "bind_provenance d = Inr c'" "ba_entries c \<noteq> []"
    "ba_candidate_ref d = py_strip (ba_candidate_ref c)" "ba_candidate_sha d = py_strip (ba_candidate_sha c)"
    "ba_structural_provenance d = ba_structural_provenance c" "ba_status d = ba_status c"
    "ba_base_sha d = py_strip (ba_base_sha c)" "ba_entries d = ba_entries c"
    "ba_head_check_reuse d = ba_head_check_reuse c"
    using assms
    by (auto simp: validate_batch_candidate_def normalize_batch_entries_def required_text_strips Let_def simp del: upt_Suc)
  note b = bound_candidate_fields [OF d(1)]
  show "ba_candidate_ref c' = py_strip (ba_candidate_ref c)" "ba_candidate_sha c' = py_strip (ba_candidate_sha c)"
    "ba_structural_provenance c' = ba_structural_provenance c" "ba_status c' = ba_status c"
    "ba_base_sha c' = py_strip (ba_base_sha c)" "ba_entries c' = ba_entries c"
    "ba_structural_provenance c = Some p \<Longrightarrow> ba_status c \<notin> {Cand_planned, Cand_building} \<Longrightarrow> provenance_complete p"
    "ba_head_check_reuse c' = ba_head_check_reuse c" "ba_entries c \<noteq> []"
    using b d by simp_all
qed

lemmas validated_candidate_rest = validated_candidate_fields(8,9)

lemma validated_provenance_fields:
  assumes "validate_structural_provenance p = Inr p'"
  shows "sp_steps p' = sp_steps p" "sp_candidate_sha p' = py_strip (sp_candidate_sha p)"
  using assms
  by (auto simp: validate_structural_provenance_def provenance_tokens_def Let_def dest!: token_Inr)

lemma with_provenance:
  assumes "candidate_with_provenance c sha tree steps = Inr c'"
  shows "ba_candidate_ref c' = py_strip (ba_candidate_ref c)" "ba_candidate_sha c' = py_strip sha"
    "\<exists>p. ba_structural_provenance c' = Some p \<and> sp_steps p = steps \<and> sp_candidate_sha p = py_strip sha"
proof -
  obtain root base_tree bindings digest p where p: "validate_structural_provenance
      \<lparr>sp_schema_version = 1, sp_repository = ba_repository c, sp_base_branch = ba_base_branch c,
       sp_base_sha = ba_base_sha c, sp_base_tree_sha = base_tree, sp_policy_key = ba_policy_key c,
       sp_policy_sha256 = ba_policy_sha256 c, sp_entries = bindings, sp_steps = steps, sp_candidate_sha = sha,
       sp_candidate_tree_sha = tree, sp_stack_collapse_root = root, sp_provenance_sha256 = '''',
       sp_candidate_sha256 = ''''\<rparr> = Inr p"
    and c': "validate_batch_candidate (c\<lparr>ba_candidate_sha := sha, ba_candidate_tree_sha := tree,
       ba_candidate_sha256 := digest, ba_stack_collapse_root := root, ba_structural_provenance := Some p,
       ba_status := Cand_building\<rparr>) = Inr c'"
    using assms by (auto simp: candidate_with_provenance_def)
  from validated_candidate_fields [OF c'] validated_provenance_fields [OF p]
  show "ba_candidate_ref c' = py_strip (ba_candidate_ref c)" "ba_candidate_sha c' = py_strip sha"
    "\<exists>p. ba_structural_provenance c' = Some p \<and> sp_steps p = steps \<and> sp_candidate_sha p = py_strip sha"
    by simp_all
qed

text \<open>What one round of the loop leaves, and what a run leaves that stops in it.\<close>

definition round_done :: "batch_candidate \<Rightarrow> batch_entry list \<Rightarrow> build_progress res \<Rightarrow> 'w \<times> ref_log \<Rightarrow> bool" where
  "round_done c es r s \<longleftrightarrow> (case r of Inl _ \<Rightarrow> orderly_build c (snd s)
     | Inr g \<Rightarrow> built c es g (snd s) \<and> carries_steps c g)"

lemma merging_orderly:
  assumes "built c es g log" and "ba_entries c = es @ e # rest"
    and "merges_entry (construction_ref (ba_candidate_ref c)) (bg_sha g) e fx"
  shows "orderly_build c (Merged fx r # log)"
proof -
  from assms(1) obtain reset ms where log: "rev log = reset # ms"
    and parts: "resets_ref (construction_ref (ba_candidate_ref c)) (ba_base_sha c) reset"
      "merged_chain (construction_ref (ba_candidate_ref c)) (ba_base_sha c) es ms (bg_sha g)"
    by (auto simp: built_def)
  have "rev (Merged fx r # log) = reset # ms @ [Merged fx r]" using log by simp
  moreover have "orderly_tail (construction_ref (ba_candidate_ref c)) (py_strip (ba_candidate_ref c)) (bg_sha g) (e # rest)
      [Merged fx r]"
    using assms(3) by (auto simp: orderly_tail_def)
  ultimately show ?thesis
    using parts assms(2) unfolding orderly_build_def Let_def by blast
qed

lemma built_snoc:
  assumes b: "built c es g log"
    and fx: "merges_entry (construction_ref (ba_candidate_ref c)) (bg_sha g) e fx"
    and st: "records_merge (Merged fx (Inr result)) st" "py_strip (rs_result_sha st) = rs_result_sha st"
    and g': "bg_sha g' = rs_result_sha st" "bg_steps g' = bg_steps g @ [st]"
  shows "built c (es @ [e]) g' (Merged fx (Inr result) # log)"
proof -
  from b obtain reset ms where log: "rev log = reset # ms"
    and reset: "resets_ref (construction_ref (ba_candidate_ref c)) (ba_base_sha c) reset"
    and ms: "merged_chain (construction_ref (ba_candidate_ref c)) (ba_base_sha c) es ms (bg_sha g)"
      "list_all2 records_merge ms (bg_steps g)"
    by (auto simp: built_def)
  have "rs_result_sha st = (case result of None \<Rightarrow> bg_sha g | Some sha \<Rightarrow> sha)"
    using st(1) fx by (cases result) (auto simp: records_merge_def merges_entry_def)
  with merged_chain_snoc [OF ms(1) fx, of result]
  have "merged_chain (construction_ref (ba_candidate_ref c)) (ba_base_sha c) (es @ [e]) (ms @ [Merged fx (Inr result)]) (bg_sha g')"
    by (simp add: g')
  moreover have "list_all2 records_merge (ms @ [Merged fx (Inr result)]) (bg_steps g')"
    using ms(2) st(1) by (simp add: g' list_all2_appendI)
  ultimately show ?thesis
    using log reset st(2) by (simp add: built_def g')
qed

lemma observed_records:
  assumes run: "(case result of None \<Rightarrow> observe_no_op b path branch g e
      | Some sha \<Rightarrow> observe_merge b path branch g e sha) s = (Inr st, s')"
    and sha: "py_strip (bg_sha g) = bg_sha g"
    and fx: "mf_rolling_parent_sha fx = bg_sha g" "mf_pull_request_number fx = be_pull_request_number e"
      "mf_head_sha fx = be_head_sha e"
  shows "records_merge (Merged fx (Inr result)) st \<and> py_strip (rs_result_sha st) = rs_result_sha st"
proof (cases result)
  case None
  with run have "observe_no_op b path branch g e s = (Inr st, s')" by simp
  from step_of_fields [OF observed_no_op [OF this]] None sha fx show ?thesis by (simp add: records_merge_def)
next
  case (Some result)
  with run obtain tree where "step_of g e result tree Merge_commit = Inr st" "py_strip result = result"
    by (auto dest: observed_merge)
  with step_of_fields [OF this(1)] Some sha fx show ?thesis by (simp add: records_merge_def)
qed

text \<open>The rest of a round, from the answer to the merge.\<close>

lemma observe_round:
  assumes b: "built c es g log" and car: "carries_steps c g" and c: "ba_entries c = es @ e # rest"
    and fx: "merges_entry (construction_ref (ba_candidate_ref c)) (bg_sha g) e fx"
    and own: "mf_rolling_parent_sha fx = bg_sha g" "mf_pull_request_number fx = be_pull_request_number e'"
      "mf_head_sha fx = be_head_sha e'"
    and log: "snd s = Merged fx (Inr result) # log"
  shows "runs_to (andDo (case result of None \<Rightarrow> observe_no_op (logged_build b) path branch g e'
         | Some sha \<Rightarrow> observe_merge (logged_build b) path branch g e' sha) (\<lambda>step.
       let steps = bg_steps g @ [step] in
       andDo (lift_res (candidate_with_provenance (bg_candidate g) (rs_result_sha step) (rs_result_tree_sha step) steps)) (\<lambda>c.
       andDo (at_phase (beside_checkpoint cp) c (Some e') phase) (\<lambda>_.
       give \<lparr>bg_candidate = c, bg_sha = rs_result_sha step, bg_tree_sha = rs_result_tree_sha step, bg_steps = steps\<rparr>))))
     (round_done c (es @ [e])) s"
proof (rule still_thenI, goal_cases quiet step failed)
  case quiet
  show ?case by (cases result) (auto intro: keeps_build_reads)
next
  case (step st s1)
  have "py_strip (bg_sha g) = bg_sha g" using b by (simp add: built_def)
  with observed_records [OF step(1) _ own]
  have st: "records_merge (Merged fx (Inr result)) st" "py_strip (rs_result_sha st) = rs_result_sha st" by auto
  have now: "built c (es @ [e]) g' (snd s1)" if "bg_sha g' = rs_result_sha st" "bg_steps g' = bg_steps g @ [st]" for g'
    using built_snoc [OF b fx st that] step(2) log by simp
  have next_es: "ba_entries c = (es @ [e]) @ rest" using c by simp
  show ?case
    unfolding Let_def
  proof (rule pure_thenI, goal_cases candidate failed)
    case (candidate c')
    from with_provenance [OF candidate] car st(2)
    have car': "carries_steps c \<lparr>bg_candidate = c', bg_sha = rs_result_sha st, bg_tree_sha = rs_result_tree_sha st,
        bg_steps = bg_steps g @ [st]\<rparr>" by (simp add: carries_steps_def)
    show ?case
    proof (rule still_thenI, goal_cases quiet given failed)
      case (given x s2)
      with now car' show ?case by (cases s2) (auto simp: wp round_done_def)
    next
      case (failed er s2)
      from built_orderly [OF now [of "g\<lparr>bg_sha := rs_result_sha st, bg_steps := bg_steps g @ [st]\<rparr>"] next_es] failed
      show ?case by (simp add: round_done_def)
    qed (intro keeps_intros)
  next
    case (failed er)
    from built_orderly [OF now [of "g\<lparr>bg_sha := rs_result_sha st, bg_steps := bg_steps g @ [st]\<rparr>"] next_es]
    show ?case by (simp add: round_done_def)
  qed
next
  case (failed er s1)
  with merging_orderly [OF b c fx] log show ?case by (simp add: round_done_def)
qed

lemma build_entry_round:
  assumes b: "built c es g (snd s)" and car: "carries_steps c g" and c: "ba_entries c = es @ e # rest"
    and e': "be_pull_request_number e' = be_pull_request_number e" "py_strip (be_head_sha e') = py_strip (be_head_sha e)"
  shows "runs_to (build_entry (logged_build b) (beside_checkpoint cp) path (construction_ref (ba_candidate_ref c)) branch i e' g)
    (round_done c (es @ [e])) s"
proof -
  obtain w log where s: "s = (w, log)" by (cases s)
  note b = b [unfolded s snd_conv]
  let ?fx = "\<lparr>mf_lineage = candidate_lineage (bg_candidate g), mf_candidate_ref = construction_ref (ba_candidate_ref c),
    mf_rolling_parent_sha = bg_sha g, mf_pull_request_number = be_pull_request_number e', mf_head_sha = be_head_sha e'\<rparr>"
  have fx: "merges_entry (construction_ref (ba_candidate_ref c)) (bg_sha g) e ?fx"
    by (simp add: merges_entry_def e')
  show ?thesis
    unfolding build_entry_def
  proof (rule still_thenI, goal_cases quiet merging failed)
    case (merging x s1)
    show ?case
    proof (rule andDoI [where P = "\<lambda>r s2. snd s2 = Merged ?fx r # log"], goal_cases call failed merged)
      case call
      show ?case
        unfolding merge_head_def logged_build_fields using merging(2) s
        by (cases s1) (auto intro!: logged_anyI)
    next
      case (failed er s2)
      with merging_orderly [OF b c fx] show ?case by (simp add: round_done_def)
    next
      case (merged result s2)
      from observe_round [OF b car c fx _ _ _ merged] show ?case by simp
    qed
  next
    case (failed er s1)
    with built_orderly [OF b c] s show ?case by (simp add: round_done_def)
  qed (intro keeps_intros)
qed

text \<open>Resolving an entry keeps the pull request and the head it names.\<close>

definition same_head :: "batch_entry \<Rightarrow> batch_entry \<Rightarrow> bool" where
  "same_head e e' \<longleftrightarrow> be_pull_request_number e' = be_pull_request_number e
     \<and> py_strip (be_head_sha e') = py_strip (be_head_sha e)"

lemma build_entries_rounds:
  assumes "built c es g (snd s)" and "carries_steps c g" and "ba_entries c = es @ rest" and "list_all2 same_head rest rest'"
  shows "runs_to (build_entries (logged_build b) (beside_checkpoint cp) path (construction_ref (ba_candidate_ref c)) branch i rest' g)
    (round_done c (ba_entries c)) s"
  using assms
proof (induction rest' arbitrary: i es g s rest)
  case Nil
  then show ?case by (simp add: wp round_done_def)
next
  case (Cons e' rest')
  from Cons.prems(4) obtain e more where rest: "rest = e # more" and e: "same_head e e'" and more: "list_all2 same_head more rest'"
    by (auto simp: list_all2_Cons2)
  have "runs_to (build_entry (logged_build b) (beside_checkpoint cp) path (construction_ref (ba_candidate_ref c)) branch i e' g)
      (round_done c (es @ [e])) s"
    by (rule build_entry_round [OF Cons.prems(1,2)]) (use Cons.prems(3) rest e in \<open>auto simp: same_head_def\<close>)
  then show ?case
    unfolding build_entries.simps
  proof (rule andDoI, goal_cases failed built)
    case (failed er s1)
    then show ?case by (simp add: round_done_def)
  next
    case (built g' s1)
    then have "built c (es @ [e]) g' (snd s1)" "carries_steps c g'" by (simp_all add: round_done_def)
    moreover have "ba_entries c = (es @ [e]) @ more" using Cons.prems(3) rest by simp
    ultimately show ?case by (rule Cons.IH [OF _ _ _ more])
  qed
qed

subsection \<open>Publication\<close>

fun is_merge :: "ref_event \<Rightarrow> bool" where
  "is_merge (Merged _ _) = True"
| "is_merge _ = False"

definition merges_of :: "ref_log \<Rightarrow> ref_log" where
  "merges_of log = filter is_merge (rev log)"

lemma merged_chain_merges: "merged_chain ref parent es ms final \<Longrightarrow> filter is_merge ms = ms \<and> length ms = length es"
  by (induction ref parent es ms final rule: merged_chain.induct) auto

lemma built_merges:
  assumes "built c es g log"
  shows "list_all2 records_merge (merges_of log) (bg_steps g)" and "length (bg_steps g) = length es"
    and "merged_chain (construction_ref (ba_candidate_ref c)) (ba_base_sha c) es (merges_of log) (bg_sha g)"
proof -
  from assms obtain reset ms where log: "rev log = reset # ms" and "\<not> is_merge reset"
    and ms: "merged_chain (construction_ref (ba_candidate_ref c)) (ba_base_sha c) es ms (bg_sha g)"
      "list_all2 records_merge ms (bg_steps g)"
    by (auto simp: built_def resets_ref_def)
  then have "merges_of log = ms" using merged_chain_merges by (auto simp: merges_of_def)
  with ms show "list_all2 records_merge (merges_of log) (bg_steps g)"
    "merged_chain (construction_ref (ba_candidate_ref c)) (ba_base_sha c) es (merges_of log) (bg_sha g)" by simp_all
  show "length (bg_steps g) = length es"
    using merged_chain_merges [OF ms(1)] list_all2_lengthD [OF ms(2)] by simp
qed

lemma published_orderly:
  assumes "built c (ba_entries c) g log" and "pf_candidate_ref fx = py_strip (ba_candidate_ref c)" "pf_base_sha fx = bg_sha g"
    and dels: "\<forall>d \<in> set dels. \<exists>fx r. d = Deleted fx r \<and> df_candidate_ref fx = construction_ref (ba_candidate_ref c)"
  shows "orderly_build c (dels @ Prepared fx r # log)" and "merges_of (dels @ Prepared fx r # log) = merges_of log"
proof -
  from assms(1) obtain reset ms where log: "rev log = reset # ms"
    and parts: "resets_ref (construction_ref (ba_candidate_ref c)) (ba_base_sha c) reset"
      "merged_chain (construction_ref (ba_candidate_ref c)) (ba_base_sha c) (ba_entries c) ms (bg_sha g)"
    by (auto simp: built_def)
  have "rev (dels @ Prepared fx r # log) = reset # ms @ (Prepared fx r # rev dels)" using log by simp
  moreover have "orderly_tail (construction_ref (ba_candidate_ref c)) (py_strip (ba_candidate_ref c)) (bg_sha g) []
      (Prepared fx r # rev dels)"
    using assms(2,3) dels by (auto simp: orderly_tail_def resets_ref_def)
  ultimately show "orderly_build c (dels @ Prepared fx r # log)"
    using parts unfolding orderly_build_def Let_def by (metis append_Nil2)
  have "filter is_merge (rev dels) = []" using dels by (auto simp: filter_empty_conv)
  then show "merges_of (dels @ Prepared fx r # log) = merges_of log" by (simp add: merges_of_def)
qed

text \<open>
  A returned candidate: the merges of the run are a chain from the base over all its entries to its commit;
  its provenance is complete and records exactly these merges; its ref was pointed at its commit, or it is
  the construction ref where the checks of its only head count for it.
\<close>

definition built_candidate :: "batch_candidate \<Rightarrow> batch_candidate \<Rightarrow> ref_log \<Rightarrow> bool" where
  "built_candidate c c' log \<longleftrightarrow>
     merged_chain (construction_ref (ba_candidate_ref c)) (ba_base_sha c) (ba_entries c) (merges_of log)
       (ba_candidate_sha c')
     \<and> (\<exists>p. ba_structural_provenance c' = Some p \<and> provenance_complete p
          \<and> ba_candidate_sha c' = sp_candidate_sha p \<and> list_all2 records_merge (merges_of log) (sp_steps p))
     \<and> (ba_status c' = Cand_passed \<and> ba_head_check_reuse c' \<noteq> None
          \<and> ba_candidate_ref c' = py_strip (construction_ref (ba_candidate_ref c))
        \<or> ba_status c' = Cand_ready_for_checks \<and> ba_candidate_ref c' = py_strip (ba_candidate_ref c)
          \<and> (\<exists>fx. Prepared fx (Inr ()) \<in> set log \<and> pf_candidate_ref fx = ba_candidate_ref c'
               \<and> pf_base_sha fx = ba_candidate_sha c'))"

definition build_ends :: "batch_candidate \<Rightarrow> batch_candidate res \<Rightarrow> 'w \<times> ref_log \<Rightarrow> bool" where
  "build_ends c r s \<longleftrightarrow> orderly_build c (snd s) \<and> (\<forall>c'. r = Inr c' \<longrightarrow> built_candidate c c' (snd s))"

lemma finished_candidate:
  assumes "validate_batch_candidate d = Inr c'" and "carries_steps c g" and "bg_steps g \<noteq> []"
    and "ba_candidate_sha d = ba_candidate_sha (bg_candidate g)"
      "ba_structural_provenance d = ba_structural_provenance (bg_candidate g)"
    and "ba_status d \<notin> {Cand_planned, Cand_building}" and "py_strip (bg_sha g) = bg_sha g"
  shows "\<exists>p. ba_structural_provenance c' = Some p \<and> provenance_complete p \<and> ba_candidate_sha c' = sp_candidate_sha p
    \<and> sp_steps p = bg_steps g \<and> ba_candidate_sha c' = bg_sha g"
  using assms validated_candidate_fields [OF assms(1)] by (auto simp: carries_steps_def)

lemma returned_candidate:
  assumes b: "built c (ba_entries c) g log" and car: "carries_steps c g" and steps: "bg_steps g \<noteq> []"
    and val: "validate_batch_candidate d = Inr c'" and log: "merges_of log' = merges_of log"
    and d: "ba_candidate_sha d = ba_candidate_sha (bg_candidate g)"
      "ba_structural_provenance d = ba_structural_provenance (bg_candidate g)" "ba_status d \<notin> {Cand_planned, Cand_building}"
    and ready: "ba_candidate_sha c' = bg_sha g \<Longrightarrow> ba_status c' = Cand_passed \<and> ba_head_check_reuse c' \<noteq> None
          \<and> ba_candidate_ref c' = py_strip (construction_ref (ba_candidate_ref c))
        \<or> ba_status c' = Cand_ready_for_checks \<and> ba_candidate_ref c' = py_strip (ba_candidate_ref c)
          \<and> (\<exists>fx. Prepared fx (Inr ()) \<in> set log' \<and> pf_candidate_ref fx = ba_candidate_ref c'
               \<and> pf_base_sha fx = ba_candidate_sha c')"
  shows "built_candidate c c' log'"
proof -
  have "py_strip (bg_sha g) = bg_sha g" using b by (simp add: built_def)
  from finished_candidate [OF val car steps d this] obtain p where "ba_structural_provenance c' = Some p"
    "provenance_complete p" "ba_candidate_sha c' = sp_candidate_sha p" "sp_steps p = bg_steps g"
    and sha: "ba_candidate_sha c' = bg_sha g" by blast
  moreover have "merged_chain (construction_ref (ba_candidate_ref c)) (ba_base_sha c) (ba_entries c) (merges_of log')
      (ba_candidate_sha c')"
    using built_merges(3) [OF b] log sha by simp
  moreover from calculation built_merges(1) [OF b] log have "\<exists>p. ba_structural_provenance c' = Some p \<and> provenance_complete p
      \<and> ba_candidate_sha c' = sp_candidate_sha p \<and> list_all2 records_merge (merges_of log') (sp_steps p)"
    by metis
  ultimately show ?thesis using ready [OF sha] unfolding built_candidate_def by blast
qed

lemma publish_call:
  "runs_to (prepare_ref (logged_build b) d ref sha)
     (\<lambda>r s'. \<exists>fx. snd s' = Prepared fx r # snd s \<and> pf_candidate_ref fx = ref \<and> pf_base_sha fx = sha) s"
  unfolding prepare_ref_def logged_build_fields by (cases s) (auto intro!: logged_anyI)

lemma publish_ref_call:
  "runs_to (publish_ref (logged_build b) d path ref sha)
     (\<lambda>r s'. \<exists>fx r1. snd s' = Prepared fx r1 # snd s \<and> pf_candidate_ref fx = ref \<and> pf_base_sha fx = sha
        \<and> (r = Inr () \<longrightarrow> r1 = Inr ())) s"
  unfolding publish_ref_def
proof (rule andDoI [OF publish_call], goal_cases failed called)
  case (called x s1)
  then obtain fx where fx: "snd s1 = Prepared fx (Inr ()) # snd s" "pf_candidate_ref fx = ref" "pf_base_sha fx = sha" by auto
  have "keeps_view snd (andDo (lift_res (branch_name_from_ref ref)) (\<lambda>branch.
      verify_publication (bd_reads (logged_build b)) path branch sha (Suc merge_ref_reads)))"
    unfolding logged_build_fields by (intro keeps_intros quiet_beside)
  with fx show ?case by (intro runs_toI) (metis keeps_view_def)
qed auto

lemma drop_call:
  "runs_to (drop_construction_ref (logged_build b) d ref)
     (\<lambda>r s'. \<exists>fx x. snd s' = Deleted fx x # snd s \<and> df_candidate_ref fx = ref) s"
proof (rule runs_toI)
  fix r s' assume run: "drop_construction_ref (logged_build b) d ref s = (r, s')"
  have "runs_to (delete_ref (logged_build b) d ref)
      (\<lambda>r s'. \<exists>fx x. snd s' = Deleted fx x # snd s \<and> df_candidate_ref fx = ref) s"
    unfolding delete_ref_def logged_build_fields by (cases s) (auto intro!: logged_anyI)
  then show "\<exists>fx x. snd s' = Deleted fx x # snd s \<and> df_candidate_ref fx = ref"
    using run by (auto simp: runs_to_def drop_construction_ref_def split: prod.splits sum.splits)
qed

lemma publish_ends:
  fixes s :: "'w \<times> ref_log"
  assumes b: "built c (ba_entries c) g (snd s)" and car: "carries_steps c g" and steps: "bg_steps g \<noteq> []"
  shows "runs_to (publish_candidate (logged_build b) (beside_checkpoint cp) path (construction_ref (ba_candidate_ref c)) g)
    (build_ends c) s"
proof -
  let ?ref = "py_strip (ba_candidate_ref c)"
  have own: "ba_candidate_ref (bg_candidate g) = ?ref" using car by (simp add: carries_steps_def)
  have here: "build_ends c (Inl e) s'" if "snd s' = snd s" for e and s' :: "'w \<times> ref_log"
    using that built_orderly [OF b, of "[]"] by (simp add: build_ends_def)
  have published: "build_ends c (Inl e) s'"
    if "snd s' = dels @ Prepared fx r # snd s" "pf_candidate_ref fx = ?ref" "pf_base_sha fx = bg_sha g"
      "\<forall>d \<in> set dels. \<exists>fx r. d = Deleted fx r \<and> df_candidate_ref fx = construction_ref (ba_candidate_ref c)" for e dels fx r and s' :: "'w \<times> ref_log"
    using published_orderly [OF b that(2,3,4)] that(1) by (simp add: build_ends_def)
  show ?thesis
    unfolding publish_candidate_def Let_def own
  proof (rule still_thenI, goal_cases quiet at_publish failed)
    case (at_publish x s1)
    show ?case
    proof (rule andDoI [where P = "\<lambda>r s2. \<exists>fx r1. snd s2 = Prepared fx r1 # snd s \<and> pf_candidate_ref fx = ?ref
          \<and> pf_base_sha fx = bg_sha g \<and> (r = Inr () \<longrightarrow> r1 = Inr ())"], goal_cases published failed cleanup)
      case published
      show ?case
        by (rule runs_to_mono [OF publish_ref_call]) (auto simp: at_publish(2))
    next
      case (failed e s2)
      then obtain fx r1 where "snd s2 = [] @ Prepared fx r1 # snd s" "pf_candidate_ref fx = ?ref" "pf_base_sha fx = bg_sha g"
        by auto
      from published [OF this] show ?case by simp
    next
      case (cleanup u s2)
      then obtain fx where pub: "snd s2 = Prepared fx (Inr ()) # snd s" "pf_candidate_ref fx = ?ref" "pf_base_sha fx = bg_sha g"
        by auto
      show ?case
      proof (rule still_thenI, goal_cases quiet dropping failed)
        case (dropping x s3)
        show ?case
        proof (rule andDoI [OF drop_call], goal_cases failed dropped)
          case (failed e s4)
          then obtain dx r where "snd s4 = [Deleted dx r] @ Prepared fx (Inr ()) # snd s"
            "df_candidate_ref dx = construction_ref (ba_candidate_ref c)" using dropping(2) pub by auto
          from published [OF this(1) pub(2,3)] this(2) show ?case by auto
        next
          case (dropped x s4)
          then obtain dx r where log: "snd s4 = [Deleted dx r] @ Prepared fx (Inr ()) # snd s"
            and dx: "\<forall>d \<in> set [Deleted dx r]. \<exists>fx r. d = Deleted fx r \<and> df_candidate_ref fx = construction_ref (ba_candidate_ref c)"
            using dropping(2) pub by auto
          note final = published_orderly [OF b pub(2,3) dx]
          have "built_candidate c c' (snd s4)"
            if val: "validate_batch_candidate ((bg_candidate g)\<lparr>ba_status := Cand_ready_for_checks\<rparr>) = Inr c'" for c'
            by (rule returned_candidate [OF b car steps val])
              (use final log pub validated_candidate_fields [OF val] own in auto)
          with final log show ?case by (simp add: wp build_ends_def)
        qed
      next
        case (failed e s3)
        then have "snd s3 = [] @ Prepared fx (Inr ()) # snd s" using pub by simp
        from published [OF this pub(2,3)] show ?case by simp
      qed (intro keeps_intros)
    qed
  qed (use here in \<open>auto intro: keeps_intros\<close>)
qed

subsection \<open>A whole run\<close>

lemma finish_build_ends:
  fixes s :: "'w \<times> ref_log"
  assumes b: "built c (ba_entries c) g (snd s)" and car: "carries_steps c g" and steps: "bg_steps g \<noteq> []"
  shows "runs_to (finish_build (logged_build b) (beside_checkpoint cp) path (construction_ref (ba_candidate_ref c)) g)
    (build_ends c) s"
proof -
  have here: "orderly_build c (snd s)" using built_orderly [OF b, of "[]"] by simp
  show ?thesis
    unfolding finish_build_def logged_build_fields
  proof (rule still_thenI, goal_cases quiet reuse failed)
    case (reuse found s1)
    show ?case
    proof (cases found)
      case None
      from publish_ends [of c g s1] b car steps reuse(2) show ?thesis unfolding None option.case by simp
    next
      case (Some found)
      have ends: "build_ends c (Inr d) s2"
        if val: "validate_batch_candidate ((bg_candidate g)\<lparr>ba_candidate_ref := construction_ref (ba_candidate_ref c),
            ba_head_check_reuse := Some found, ba_required_checks_status := Cc_pass, ba_status := Cand_passed\<rparr>) = Inr d"
          and log: "snd s2 = snd s" for d and s2 :: "'w \<times> ref_log"
      proof -
        have "built_candidate c d (snd s2)"
          by (rule returned_candidate [OF b car steps val])
            (use log validated_candidate_fields(1,4) [OF val] validated_candidate_rest(1) [OF val] in auto)
        with log here show ?thesis by (simp add: build_ends_def)
      qed
      show ?thesis
        unfolding Some option.case
        by (rule pure_thenI, rule still_thenI, intro keeps_intros)
          (use reuse(2) here ends in \<open>auto simp: wp build_ends_def\<close>)
    qed
  qed (use here in \<open>auto simp: build_ends_def\<close>)
qed

lemma resolved_same:
  assumes "map_each (resolve_entry b path) es s = (Inr es', s')"
  shows "list_all2 same_head es es'"
proof (rule map_each_all2 [OF assms])
  fix e e' s s' assume "resolve_entry b path e s = (Inr e', s')"
  then show "same_head e e'"
    by (auto simp: resolve_entry_def validate_batch_entry_def same_head_def required_text_def Let_def split: if_splits)
qed

text \<open>From the construction ref, which now stands at the base.\<close>

definition build_on :: "'w build_client \<Rightarrow> 'w build_checkpoint \<Rightarrow> string \<Rightarrow> string \<Rightarrow> string \<Rightarrow> batch_candidate \<Rightarrow> ('w, batch_candidate) eff" where
  "build_on b checkpoint path ref branch c =
     andDo (git_commit_identity (bd_reads b) path (ba_base_sha c)) (\<lambda>(base, base_tree).
     andDo (map_each (resolve_entry b path) (ba_entries c)) (\<lambda>entries.
     andDo (lift_res (validate_batch_candidate (c\<lparr>ba_entries := entries, ba_status := Cand_building\<rparr>))) (\<lambda>c.
     andDo (build_entries b checkpoint path ref branch 1 (ba_entries c)
       \<lparr>bg_candidate = c, bg_sha = base, bg_tree_sha = base_tree, bg_steps = []\<rparr>) (\<lambda>g.
     finish_build b checkpoint path ref g))))"

lemma reset_ends:
  assumes "snd s = [Prepared fx r]" "pf_candidate_ref fx = construction_ref (ba_candidate_ref c)" "pf_base_sha fx = ba_base_sha c"
  shows "build_ends c (Inl e) s"
proof -
  have "resets_ref (construction_ref (ba_candidate_ref c)) (ba_base_sha c) (Prepared fx r)"
    using assms by (auto simp: resets_ref_def)
  moreover have "rev (snd s) = Prepared fx r # [] @ []" using assms by simp
  ultimately have "orderly_build c (snd s)"
    unfolding orderly_build_def Let_def orderly_tail_def by (metis append_Nil merged_chain.simps(1))
  then show ?thesis by (simp add: build_ends_def)
qed

lemma build_on_ends:
  fixes s :: "'w \<times> ref_log"
  assumes fx: "snd s = [Prepared fx (Inr ())]" "pf_candidate_ref fx = construction_ref (ba_candidate_ref c)"
    "pf_base_sha fx = ba_base_sha c"
  shows "runs_to (build_on (logged_build b) (beside_checkpoint cp) path (construction_ref (ba_candidate_ref c)) branch c)
    (build_ends c) s"
proof -
  let ?ref = "construction_ref (ba_candidate_ref c)"
  have stopped: "build_ends c (Inl e) s'" if "snd s' = snd s" for e and s' :: "'w \<times> ref_log"
    by (rule reset_ends [OF _ fx(2,3)]) (use that fx(1) in simp)
  show ?thesis
    unfolding build_on_def
  proof (rule still_thenI, simp only: logged_build_fields, intro keeps_intros quiet_beside, goal_cases base failed)
    case (base ident s4)
    obtain sha tree where ident: "ident = (sha, tree)" by (cases ident)
    then have sha: "sha = ba_base_sha c" "py_strip sha = sha" using commit_identity base(1) by fastforce+
    show ?case
      unfolding ident prod.case
    proof (rule still_thenI, intro keeps_intros, goal_cases entries failed)
      case (entries es s5)
      note heads = resolved_same [OF entries(1)]
      have s5: "snd s5 = [Prepared fx (Inr ())]" "snd s5 = snd s" using fx base(2) entries(2) by simp_all
      show ?case
      proof (rule pure_thenI, goal_cases valid failed)
        case (valid d)
        note d = validated_candidate_fields [OF valid]
        let ?g = "\<lparr>bg_candidate = d, bg_sha = sha, bg_tree_sha = tree, bg_steps = []\<rparr>"
        have "built c [] ?g (snd s5)" using fx sha s5 by (auto simp: built_def resets_ref_def)
        moreover have "carries_steps c ?g" using d by (simp add: carries_steps_def)
        moreover have es: "ba_entries d = es" "es \<noteq> []" using d validated_candidate_rest(2) [OF valid] by simp_all
        ultimately have rounds: "runs_to (build_entries (logged_build b) (beside_checkpoint cp) path ?ref branch 1 (ba_entries d) ?g)
            (round_done c (ba_entries c)) s5"
          using heads by (intro build_entries_rounds [where es = "[]"]) auto
        have some: "ba_entries c \<noteq> []" using heads es(2) by auto
        show ?case
        proof (rule andDoI [OF rounds], goal_cases failed finished)
          case (finished g s6)
          then have "built c (ba_entries c) g (snd s6)" "carries_steps c g" by (simp_all add: round_done_def)
          moreover from this some have "bg_steps g \<noteq> []" using built_merges(2) by fastforce
          ultimately show ?case by (rule finish_build_ends)
        qed (simp add: round_done_def build_ends_def)
      qed (use stopped s5 in auto)
    qed (use stopped base in auto)
  qed (use stopped in auto)
qed

lemma build_run_ends:
  fixes s :: "'w \<times> ref_log"
  assumes "snd s = []"
  shows "runs_to (build_provider_candidate (logged_build b) (beside_checkpoint cp) c) (build_ends c) s"
proof -
  let ?ref = "construction_ref (ba_candidate_ref c)"
  have untouched: "build_ends c (Inl e) s1" if "snd s1 = []" for e and s1 :: "'w \<times> ref_log"
    using that by (simp add: build_ends_def orderly_build_def)
  have reset: "runs_to (andDo (prepare_ref (logged_build b) c ?ref (ba_base_sha c)) (\<lambda>_.
      andDo (at_phase (beside_checkpoint cp) c None ''construction_ref_ready'') (\<lambda>_.
      build_on (logged_build b) (beside_checkpoint cp) path ?ref branch c))) (build_ends c) s1"
    if empty: "snd s1 = []" for path branch and s1 :: "'w \<times> ref_log"
  proof (rule andDoI [OF publish_call], goal_cases failed ready)
    case (ready u s2)
    then obtain fx where fx: "snd s2 = [Prepared fx (Inr ())]" "pf_candidate_ref fx = ?ref" "pf_base_sha fx = ba_base_sha c"
      using empty by auto
    show ?case
      by (rule still_thenI, intro keeps_intros) (use fx in \<open>auto intro: build_on_ends reset_ends\<close>)
  qed (use empty in \<open>auto intro: reset_ends\<close>)
  show ?thesis
    unfolding build_provider_candidate_def Let_def build_on_def [symmetric]
    by (rule pure_thenI, rule pure_thenI, rule still_thenI [OF keeps_phase], rule reset)
      (use assms in \<open>auto intro: untouched\<close>)
qed

end
