(* ===== verification/Mt_Build_Properties.thy ===== *)
theory Mt_Build_Properties
  imports Mt_Build_Safety Mt_Batch_Properties
begin

section \<open>Properties of the construction of a candidate\<close>

text \<open>What every run has done to refs when it stops, and what a returned candidate records.\<close>

text \<open>
  C11. Moves of refs. However far a build gets, it has reset the construction ref to the base, merged the
  heads of the entries in order, each onto the result of the one before, and touched nothing after a
  refused merge. Only when every entry is merged is the candidate's own ref set, to the last result, and
  only then is a ref deleted, the construction ref.
\<close>

theorem candidate_ref_moves_last:
  "orderly_build c (snd (snd (build_provider_candidate (logged_build b) (beside_checkpoint cp) c (w, []))))"
proof -
  have "runs_to (build_provider_candidate (logged_build b) (beside_checkpoint cp) c) (build_ends c) (w, [])"
    by (rule build_run_ends) simp
  then show ?thesis by (auto simp: runs_to_def build_ends_def split: prod.splits)
qed

text \<open>
  C12. What a built candidate claims. The merges of the run are an unbroken chain from its base over all of
  its entries in their order, each onto the result of the one before, and its commit is the last result. Its
  provenance is complete and has one step per merge, with the parent, head, result and kind of that merge,
  and ends in that commit too. It is ready for checks once its ref was pointed at the commit, or passed, at
  the construction ref, where the checks of its head are reused.
\<close>

theorem built_candidate_records_merges:
  assumes "build_provider_candidate (logged_build b) (beside_checkpoint cp) c (w, []) = (Inr c', w', log)"
  shows "built_candidate c c' log"
proof -
  have "runs_to (build_provider_candidate (logged_build b) (beside_checkpoint cp) c) (build_ends c) (w, [])"
    by (rule build_run_ends) simp
  with assms show ?thesis by (simp add: runs_to_def build_ends_def)
qed

subsection \<open>A concrete build\<close>

definition cb_client :: "unit landing_client" where
  "cb_client = \<lparr>lc_pull = (\<lambda>_ _. raise (GitHubError (Some 404) ''pull'')),
     lc_branch = (\<lambda>_ _. give \<lparr>br_sha = ''c1'', br_tree_sha = ''c1''\<rparr>),
     lc_commit = (\<lambda>_ sha. give \<lparr>co_sha = sha, co_tree_sha = sha,
       co_parents = if sha = ''c1'' then [''b'', ''h1''] else []\<rparr>),
     lc_compare = (\<lambda>_ _ _. give ''ahead''), lc_review_intent = (\<lambda>_ _. give ('''', False)),
     lc_client_veto = (\<lambda>_ _. give False), lc_owner_review = (\<lambda>_ _. give True), lc_land = (\<lambda>_. give '''')\<rparr>"

definition cb_build :: "unit build_client" where
  "cb_build = \<lparr>bd_reads = cb_client, bd_prepare = (\<lambda>_. give ()), bd_merge = (\<lambda>_. give (Some ''c1'')),
     bd_delete = (\<lambda>_. give True), bd_reuse = (\<lambda>_. give None),
     bd_required_checks = (\<lambda>_ _. give (Cc_pending, '''')), bd_full_build = (\<lambda>_. give False)\<rparr>"

definition cb_ref :: string where
  "cb_ref = ''refs/heads/c''"

definition cb_candidate :: batch_candidate where
  "cb_candidate = (ex_train_candidate Cand_planned)\<lparr>ba_candidate_ref := cb_ref, ba_candidate_sha := '''',
     ba_candidate_tree_sha := '''', ba_entries := [ex_batch_entry 1 1 ''h1'']\<rparr>"

lemma cb_fields:
  "ba_repository cb_candidate = ''o/r''" "ba_base_sha cb_candidate = ''b''"
  "ba_candidate_ref cb_candidate = cb_ref" "ba_entries cb_candidate = [ex_batch_entry 1 1 ''h1'']"
  by (simp_all add: cb_candidate_def ex_train_candidate_def)

lemma cb_text:
  "repository_path ''o/r'' = Inr ''o/r''" "py_strip cb_ref = cb_ref" "cb_ref \<noteq> []"
  "branch_name_from_ref cb_ref = Inr ''c''" "py_strip ''h1'' = ''h1''" "py_strip ''b'' = ''b''" "py_strip ''c'' = ''c''"
  "normalize_subjects [] = []"
  by code_simp+

lemma cb_branch: "\<exists>branch. branch_name_from_ref (construction_ref ref) = Inr branch"
proof -
  have digest: "sha256_hexdigest (utf8_bytes ref) \<noteq> []"
    using length_sha256_hexdigest [of "utf8_bytes ref"] by fastforce
  have "py_strip (construction_ref ref) = construction_ref ref"
  proof (rule py_strip_id)
    show "\<not> py_space (last (construction_ref ref))"
      using lower_hex_plain sha256_hexdigest_lower_hex [OF last_in_set [OF digest]] digest
      by (simp add: construction_ref_def)
  qed (simp_all add: construction_ref_def py_space_def)
  then show ?thesis
    by (simp add: branch_name_from_ref_def required_text_def construction_ref_def)
qed

lemma cb_run [simp]:
  "andDo (give x) f = f x" "andDo (lift_res (Inr x)) f = f x" "lift_res (Inr x) = give x" "requireE True e = give ()"
  by (simp_all add: andDo_def give_def lift_res_def requireE_def fun_eq_iff)

lemma cb_client_fields:
  "lc_branch (beside_client cb_client) path branch = give \<lparr>br_sha = ''c1'', br_tree_sha = ''c1''\<rparr>"
  "lc_commit (beside_client cb_client) path sha = give \<lparr>co_sha = sha, co_tree_sha = sha,
     co_parents = if sha = ''c1'' then [''b'', ''h1''] else []\<rparr>"
  by (simp_all add: beside_client_def cb_client_def beside_def give_def fun_eq_iff)

lemma cb_reads:
  "git_commit_proof (beside_client cb_client) path ''b'' = give (''b'', ''b'', [])"
  "git_commit_proof (beside_client cb_client) path ''h1'' = give (''h1'', ''h1'', [])"
  "git_commit_proof (beside_client cb_client) path ''c1'' = give (''c1'', ''c1'', [''b'', ''h1''])"
  "base_branch_sha (beside_client cb_client) path branch = give ''c1''"
  by (simp_all add: git_commit_proof_def base_branch_sha_def cb_client_fields required_text_def required_answer_def cb_text)

definition cb_entry :: batch_entry where
  "cb_entry = (ex_batch_entry 1 1 ''h1'')\<lparr>be_head_tree_sha := ''h1''\<rparr>"

definition cb_started :: batch_candidate where
  "cb_started = cb_candidate\<lparr>ba_entries := [cb_entry], ba_status := Cand_building\<rparr>"

lemma cb_starts:
  "validate_batch_candidate (cb_candidate\<lparr>ba_entries := [cb_entry], ba_status := Cand_building\<rparr>) = Inr cb_started"
  by (simp add: validate_batch_candidate_def cb_started_def cb_candidate_def ex_train_candidate_def cb_entry_def
    required_text_def normalize_batch_repository_def normalize_batch_entries_def check_head_reuse_def bind_provenance_def
    Let_def ex_batch_entry_def cb_text upt_rec)

lemma cb_resolves: "resolve_entry (logged_build cb_build) path (ex_batch_entry 1 1 ''h1'') = give cb_entry"
  by (simp add: resolve_entry_def logged_build_fields cb_build_def git_commit_identity_def cb_reads ex_batch_entry_def
    validate_batch_entry_def required_text_def cb_text cb_entry_def Let_def)

text \<open>The provenance of the single merge, its digests left as they are.\<close>

definition cb_provenance :: structural_provenance where
  "cb_provenance = ex_provenance\<lparr>sp_entries := [ex_binding 1 ''h1''], sp_steps := [ex_step 1 ''b'' ''h1'' ''c1''],
     sp_candidate_sha := ''c1'', sp_candidate_tree_sha := ''c1''\<rparr>"

definition cb_digested :: structural_provenance where
  "cb_digested = cb_provenance\<lparr>sp_provenance_sha256 := structural_provenance_sha256 cb_provenance,
     sp_candidate_sha256 := structural_candidate_sha256 cb_provenance\<rparr>"

lemma cb_provenance_valid: "validate_structural_provenance cb_provenance = Inr cb_digested"
  by (simp add: validate_structural_provenance_def cb_digested_def cb_provenance_def ex_provenance_def provenance_tokens_def
    required_token_def normalize_provenance_repository_def ex_binding_def ex_step_def check_stack_root_def
    check_digest_def Let_def cb_text)

lemma cb_digested_fields:
  "sp_repository cb_digested = ''o/r''" "sp_base_branch cb_digested = ''main''" "sp_base_sha cb_digested = ''b''"
  "sp_policy_key cb_digested = ''k''" "sp_policy_sha256 cb_digested = ''k''" "sp_candidate_sha cb_digested = ''c1''"
  "sp_candidate_tree_sha cb_digested = ''c1''" "sp_stack_collapse_root cb_digested = None"
  "sp_entries cb_digested = [ex_binding 1 ''h1'']" "sp_steps cb_digested = [ex_step 1 ''b'' ''h1'' ''c1'']"
  "provenance_complete cb_digested" "py_lower (py_strip (sp_candidate_sha256 cb_digested)) = sp_candidate_sha256 cb_digested"
  by (simp_all add: cb_digested_def cb_provenance_def ex_provenance_def provenance_complete_def structural_candidate_sha256_def)

definition cb_at :: "candidate_status \<Rightarrow> batch_candidate" where
  "cb_at status = cb_started\<lparr>ba_candidate_sha := ''c1'', ba_candidate_tree_sha := ''c1'',
     ba_candidate_sha256 := sp_candidate_sha256 cb_digested, ba_structural_provenance := Some cb_digested,
     ba_status := status\<rparr>"

lemma cb_at_valid: "validate_batch_candidate (cb_at status) = Inr (cb_at status)"
  by (simp add: validate_batch_candidate_def cb_at_def cb_started_def cb_candidate_def ex_train_candidate_def cb_entry_def
    required_text_def normalize_batch_repository_def normalize_batch_entries_def check_head_reuse_def bind_provenance_def
    Let_def ex_batch_entry_def cb_text cb_digested_fields ex_binding_def binding_identity_def entry_identity_def upt_rec)

lemma cb_bindings: "mapM (\<lambda>e. validate_entry_binding (binding_of_entry e)) [cb_entry] = Inr [ex_binding 1 ''h1'']"
  by (simp add: cb_entry_def ex_batch_entry_def binding_of_entry_def validate_entry_binding_def required_token_def
    ex_binding_def cb_text Let_def)

lemma cb_started_fields:
  "ba_repository cb_started = ''o/r''" "ba_base_branch cb_started = ''main''" "ba_base_sha cb_started = ''b''"
  "ba_policy_key cb_started = ''k''" "ba_policy_sha256 cb_started = ''k''" "ba_stack_collapse_root cb_started = None"
  "ba_entries cb_started = [cb_entry]" "ba_candidate_ref cb_started = cb_ref"
  by (simp_all add: cb_started_def cb_candidate_def ex_train_candidate_def)

lemma cb_progresses:
  "candidate_with_provenance cb_started ''c1'' ''c1'' [ex_step 1 ''b'' ''h1'' ''c1''] = Inr (cb_at Cand_building)"
proof -
  have "cb_provenance = \<lparr>sp_schema_version = 1, sp_repository = ''o/r'', sp_base_branch = ''main'', sp_base_sha = ''b'',
      sp_base_tree_sha = ''b'', sp_policy_key = ''k'', sp_policy_sha256 = ''k'', sp_entries = [ex_binding 1 ''h1''],
      sp_steps = [ex_step 1 ''b'' ''h1'' ''c1''], sp_candidate_sha = ''c1'', sp_candidate_tree_sha = ''c1'',
      sp_stack_collapse_root = None, sp_provenance_sha256 = [], sp_candidate_sha256 = []\<rparr>"
    by (simp add: cb_provenance_def ex_provenance_def)
  note valid = cb_provenance_valid [unfolded this]
  have parent: "rs_parent_tree_sha (ex_step 1 ''b'' ''h1'' ''c1'') = ''b''" by (simp add: ex_step_def)
  have same: "cb_started\<lparr>ba_candidate_sha := ''c1'', ba_candidate_tree_sha := ''c1'',
      ba_candidate_sha256 := sp_candidate_sha256 cb_digested, ba_stack_collapse_root := None,
      ba_structural_provenance := Some cb_digested, ba_status := Cand_building\<rparr> = cb_at Cand_building"
    by (simp add: cb_at_def cb_started_def cb_candidate_def ex_train_candidate_def)
  show ?thesis
    unfolding candidate_with_provenance_def root_with_tree_def cb_started_fields option.case andThen_Inr list.case
      parent cb_bindings valid same cb_at_valid by simp
qed

lemma cb_step:
  "step_of \<lparr>bg_candidate = cb_started, bg_sha = ''b'', bg_tree_sha = ''b'', bg_steps = []\<rparr> cb_entry ''c1'' ''c1'' Merge_commit
     = Inr (ex_step 1 ''b'' ''h1'' ''c1'')"
  by (simp add: step_of_def cb_entry_def ex_batch_entry_def validate_rolling_step_def required_token_def ex_step_def cb_text)

subsection \<open>The run\<close>

definition cb_prepared :: "string \<Rightarrow> string \<Rightarrow> ref_event" where
  "cb_prepared ref sha = Prepared \<lparr>pf_lineage = candidate_lineage cb_candidate, pf_candidate_ref = ref, pf_base_sha = sha\<rparr> (Inr ())"

definition cb_merged :: ref_event where
  "cb_merged = Merged \<lparr>mf_lineage = candidate_lineage cb_candidate, mf_candidate_ref = construction_ref cb_ref,
     mf_rolling_parent_sha = ''b'', mf_pull_request_number = 1, mf_head_sha = ''h1''\<rparr> (Inr (Some ''c1''))"

definition cb_deleted :: ref_event where
  "cb_deleted = Deleted \<lparr>df_lineage = candidate_lineage cb_candidate, df_candidate_ref = construction_ref cb_ref,
     df_expected_ref_sha = ''''\<rparr> (Inr True)"

lemma cb_lineage: "candidate_lineage cb_started = candidate_lineage cb_candidate"
  "candidate_lineage (cb_at status) = candidate_lineage cb_candidate"
  by (simp_all add: candidate_lineage_def cb_at_def cb_started_def cb_candidate_def ex_train_candidate_def)

lemma cb_entry_fields:
  "be_pull_request_number cb_entry = 1" "be_head_sha cb_entry = ''h1''"
  by (simp_all add: cb_entry_def ex_batch_entry_def)

lemma cb_calls:
  "prepare_ref (logged_build cb_build) cb_candidate ref sha (w, log) = (Inr (), (w, cb_prepared ref sha # log))"
  "prepare_ref (logged_build cb_build) (cb_at status) ref sha (w, log) = (Inr (), (w, cb_prepared ref sha # log))"
  "drop_construction_ref (logged_build cb_build) (cb_at status) (construction_ref cb_ref) (w, log) = (Inr (), (w, cb_deleted # log))"
  "merge_head (logged_build cb_build) (construction_ref cb_ref)
     \<lparr>bg_candidate = cb_started, bg_sha = ''b'', bg_tree_sha = ''b'', bg_steps = []\<rparr> cb_entry (w, log)
   = (Inr (Some ''c1''), (w, cb_merged # log))"
  by (simp_all add: prepare_ref_def drop_construction_ref_def delete_ref_def merge_head_def logged_build_fields cb_build_def
    logged_def give_def cb_prepared_def cb_deleted_def cb_merged_def cb_lineage cb_entry_fields)

lemma cb_observes:
  "observe_merge (logged_build cb_build) path branch
     \<lparr>bg_candidate = cb_started, bg_sha = ''b'', bg_tree_sha = ''b'', bg_steps = []\<rparr> cb_entry ''c1''
   = give (ex_step 1 ''b'' ''h1'' ''c1'')"
  by (simp add: observe_merge_def wait_for_branch_sha_def merge_ref_reads_def eval_nat_numeral logged_build_fields cb_build_def cb_reads
    validated_merge_commit_identity_def cb_step cb_entry_fields)

lemma cb_phase: "at_phase (beside_checkpoint None) c e phase = give ()"
  by (simp add: at_phase_def beside_checkpoint_def)

definition cb_progress :: build_progress where
  "cb_progress = \<lparr>bg_candidate = cb_at Cand_building, bg_sha = ''c1'', bg_tree_sha = ''c1'',
     bg_steps = [ex_step 1 ''b'' ''h1'' ''c1'']\<rparr>"

lemma cb_builds_entry:
  "build_entry (logged_build cb_build) (beside_checkpoint None) path (construction_ref cb_ref) branch i cb_entry
     \<lparr>bg_candidate = cb_started, bg_sha = ''b'', bg_tree_sha = ''b'', bg_steps = []\<rparr> (w, log)
   = (Inr cb_progress, (w, cb_merged # log))"
proof -
  have step: "rs_result_sha (ex_step 1 ''b'' ''h1'' ''c1'') = ''c1''" "rs_result_tree_sha (ex_step 1 ''b'' ''h1'' ''c1'') = ''c1''"
    by (simp_all add: ex_step_def)
  show ?thesis
    unfolding build_entry_def cb_phase cb_run
    by (simp add: andDo_def cb_calls cb_observes give_def Let_def lift_res_def cb_progresses step cb_progress_def del: One_nat_def)
qed

lemma cb_publishes:
  "publish_candidate (logged_build cb_build) (beside_checkpoint None) path (construction_ref cb_ref) cb_progress (w, log)
   = (Inr (cb_at Cand_ready_for_checks), (w, cb_deleted # cb_prepared cb_ref ''c1'' # log))"
proof -
  have at: "bg_candidate cb_progress = cb_at Cand_building" "bg_sha cb_progress = ''c1''"
      "ba_candidate_ref (cb_at Cand_building) = cb_ref"
      "(cb_at Cand_building)\<lparr>ba_status := Cand_ready_for_checks\<rparr> = cb_at Cand_ready_for_checks"
    by (simp_all add: cb_progress_def cb_at_def cb_started_fields)
  have reads: "bd_reads (logged_build cb_build) = beside_client cb_client"
    by (simp add: logged_build_fields cb_build_def)
  have verify: "verify_publication (beside_client cb_client) path branch ''c1'' (Suc n) s = (Inr (), s)" for branch n s
    by (simp add: cb_reads give_def)
  have "publish_ref (logged_build cb_build) (cb_at Cand_building) path cb_ref ''c1'' (w, log)
      = (Inr (), (w, cb_prepared cb_ref ''c1'' # log))"
    unfolding publish_ref_def
    by (simp add: andDo_def cb_calls cb_text lift_res_def reads verify del: verify_publication.simps)
  then show ?thesis
    unfolding publish_candidate_def Let_def cb_phase at cb_run
    by (simp add: andDo_def cb_calls at cb_at_valid lift_res_def)
qed

lemma cb_builds:
  "build_provider_candidate (logged_build cb_build) (beside_checkpoint None) cb_candidate (w, [])
   = (Inr (cb_at Cand_ready_for_checks),
      (w, [cb_deleted, cb_prepared cb_ref ''c1'', cb_merged, cb_prepared (construction_ref cb_ref) ''b'']))"
proof -
  obtain branch where branch: "branch_name_from_ref (construction_ref cb_ref) = Inr branch" using cb_branch by blast
  have base: "git_commit_identity (bd_reads (logged_build cb_build)) path ''b'' = give (''b'', ''b'')" for path
    by (simp add: git_commit_identity_def logged_build_fields cb_build_def cb_reads)
  have reuse: "bd_reuse (logged_build cb_build) c = give None" for c
    by (simp add: logged_build_fields cb_build_def beside_def give_def fun_eq_iff)
  have finish: "finish_build (logged_build cb_build) (beside_checkpoint None) path (construction_ref cb_ref) cb_progress
      = publish_candidate (logged_build cb_build) (beside_checkpoint None) path (construction_ref cb_ref) cb_progress" for path
    by (simp add: finish_build_def reuse)
  show ?thesis
    unfolding build_provider_candidate_def Let_def cb_fields cb_text branch cb_phase cb_run
    by (simp add: andDo_def cb_calls base cb_resolves give_def cb_starts lift_res_def cb_started_fields cb_builds_entry finish cb_publishes del: One_nat_def)
qed

theorem built_candidate_records_merges_witness:
  "built_candidate cb_candidate (cb_at Cand_ready_for_checks)
     [cb_deleted, cb_prepared cb_ref ''c1'', cb_merged, cb_prepared (construction_ref cb_ref) ''b'']"
  by (rule built_candidate_records_merges [OF cb_builds [of "()"]])

end
