(* ===== verification/Mt_Cleanup.thy ===== *)
theory Mt_Cleanup
  imports Mt_Build
begin

section \<open>Retiring the refs of a batch\<close>

text \<open>
  \<open>cleanup_batch_candidate_ref\<close> and \<open>_cleanup_batch_refs\<close> of \<open>control_plane/merge_train_github.py\<close>. The
  batch is its candidate or its landing plan; only the plan has an id for the lineage and may have a
  validation pull request to close first.
\<close>

record ref_answer =
  ra_ref :: string
  ra_sha :: string

text \<open>
  The reads of a ref and of the open pull requests with the branch as head of the owner's repository
  (\<open>Some owner\<close>) or as base (\<open>None\<close>): their number, None where the answer is no list.
\<close>

record 'w ref_client =
  rf_ref :: "string \<Rightarrow> string \<Rightarrow> ('w, ref_answer) eff"
  rf_open_pulls :: "string \<Rightarrow> string option \<Rightarrow> string \<Rightarrow> ('w, nat option) eff"
  rf_delete :: "ref_delete_effect \<Rightarrow> ('w, bool) eff"
  rf_full_build :: "string \<Rightarrow> ('w, bool) eff"

type_synonym retired_batch = "batch_candidate + landing_plan"

definition target_of_batch :: "retired_batch \<Rightarrow> batch_target" where
  "target_of_batch which = (case which of Inl c \<Rightarrow> target_of_candidate c | Inr p \<Rightarrow> target_of_plan p)"

definition lineage_of_batch :: "retired_batch \<Rightarrow> effect_lineage_record" where
  "lineage_of_batch which = (let t = target_of_batch which in
     \<lparr>el_repository = bt_repository t, el_base_branch = bt_base_branch t, el_batch_id = bt_batch_id t,
      el_landing_plan_id = (case which of Inl _ \<Rightarrow> '''' | Inr p \<Rightarrow> lp_plan_id p)\<rparr>)"

definition not_train_owned :: py_error where
  "not_train_owned = GitHubError None ''Retirement requires a train-owned batch ref.''"

definition no_open_pulls :: "'w ref_client \<Rightarrow> string \<Rightarrow> string option \<Rightarrow> string \<Rightarrow> ('w, bool) eff" where
  "no_open_pulls c path head branch =
     andDo (rf_open_pulls c path head branch) (\<lambda>found.
     case found of None \<Rightarrow> raise (GitHubError None ''Open PR ref usage is unavailable or incomplete.'')
     | Some n \<Rightarrow> if 100 \<le> n then raise (GitHubError None ''Open PR ref usage is unavailable or incomplete.'')
         else give (n = 0))"

text \<open>Whether a ref was deleted: not one that is gone, not one that an open pull request uses.\<close>

definition retire_read_ref ::
  "'w ref_client \<Rightarrow> retired_batch \<Rightarrow> string \<Rightarrow> string \<Rightarrow> ref_answer \<Rightarrow> ('w, bool) eff" where
  "retire_read_ref c which path reference answer =
     andDo (requireE (ra_ref answer = reference) (GitHubError None ''Retired candidate ref identity changed.'')) (\<lambda>_.
     andDo (lift_res (branch_name_from_ref reference)) (\<lambda>branch.
     let owner = repository_owner (bt_repository (target_of_batch which)) in
     andDo (no_open_pulls c path (Some owner) branch) (\<lambda>no_head.
     andDo (no_open_pulls c path None branch) (\<lambda>no_base.
     if \<not> no_head \<or> \<not> no_base then give False
     else
     andDo (lift_res (required_answer (ra_sha answer) ''Retired ref requires SHA.'')) (\<lambda>sha.
     rf_delete c \<lparr>df_lineage = lineage_of_batch which, df_candidate_ref = reference, df_expected_ref_sha = sha\<rparr>)))))"

definition retire_ref :: "'w ref_client \<Rightarrow> retired_batch \<Rightarrow> string \<Rightarrow> string \<Rightarrow> ('w, bool) eff" where
  "retire_ref c which path reference w = (case rf_ref c path reference w of
       (Inl e, w') \<Rightarrow> if is_github_error e \<and> error_status_code e = Some 404 then (Inr False, w') else (Inl e, w')
     | (Inr answer, w') \<Rightarrow> retire_read_ref c which path reference answer w')"

definition cleanup_batch_refs :: "'w ref_client \<Rightarrow> retired_batch \<Rightarrow> ('w, bool) eff" where
  "cleanup_batch_refs c which =
     andDo (lift_res (batch_refs (target_of_batch which))) (\<lambda>(own, construction).
     andDo (requireE (bt_candidate_ref (target_of_batch which) \<in> {own, construction}) not_train_owned) (\<lambda>_.
     andDo (lift_res (repository_path (bt_repository (target_of_batch which)))) (\<lambda>path.
     andDo (map_each (retire_ref c which path) [own, construction]) (\<lambda>deleted.
     give (True \<in> set deleted)))))"

text \<open>The validation pull request of a plan that landed through its original pull requests.\<close>

definition close_failed :: "py_error \<Rightarrow> py_error" where
  "close_failed e = (case e of
       AdmissionDenied _ _ \<Rightarrow> GitHubError (Some 409) ''Candidate validation PR cleanup could not be verified.''
     | AdmissionAmbiguous _ \<Rightarrow> GitHubError (Some 409) ''Candidate validation PR cleanup could not be verified.''
     | _ \<Rightarrow> e)"

definition close_validation :: "'w batch_pull_client \<Rightarrow> landing_plan \<Rightarrow> ('w, unit) eff" where
  "close_validation bc plan w =
     apfst (map_sum close_failed id) (close_batch_pull_request bc (Inr plan)
       ''its original pull requests landed through the train.'' w)"

definition validation_to_close :: "'w ref_client \<Rightarrow> landing_plan \<Rightarrow> ('w, bool) eff" where
  "validation_to_close c plan =
     (if lp_candidate_pull_request_number plan \<noteq> None then give False
      else andDo (lift_res (is_canonical_ref (target_of_plan plan))) (\<lambda>canonical.
        if canonical then rf_full_build c (lp_repository plan) else give False))"

definition delete_unowned_ref :: "'w ref_client \<Rightarrow> retired_batch \<Rightarrow> ('w, bool) eff" where
  "delete_unowned_ref c which = (case which of
       Inl _ \<Rightarrow> raise not_train_owned
     | Inr plan \<Rightarrow> rf_delete c \<lparr>df_lineage = lineage_of_batch which,
         df_candidate_ref = lp_candidate_ref plan, df_expected_ref_sha = ''''\<rparr>)"

definition cleanup_batch_candidate_ref ::
  "'w ref_client \<Rightarrow> 'w batch_pull_client \<Rightarrow> retired_batch \<Rightarrow> ('w, bool) eff" where
  "cleanup_batch_candidate_ref c bc which =
     andDo (case which of Inl _ \<Rightarrow> give ()
       | Inr plan \<Rightarrow> andDo (validation_to_close c plan) (\<lambda>yes. if yes then close_validation bc plan else give ()))
       (\<lambda>_.
     andDo (lift_res (batch_refs (target_of_batch which))) (\<lambda>(own, construction).
     if bt_candidate_ref (target_of_batch which) \<in> {own, construction} then cleanup_batch_refs c which
     else delete_unowned_ref c which))"

end
