(* ===== verification/Mt_Cleanup_Properties.thy ===== *)
theory Mt_Cleanup_Properties
  imports Mt_Cleanup Mt_Build_Properties
begin

section \<open>Which refs the cleanup deletes\<close>

text \<open>
  The reads and deletions of a cleanup, followed through a log, newest call first. The calls on the
  validation pull request go to the same provider and leave the log alone.
\<close>

datatype retire_event =
  SawRef string "ref_answer res"
| SawOpen "string option" string "nat option res"
| Retired ref_delete_effect "bool res"

type_synonym retire_log = "retire_event list"

definition logged_refs :: "'w ref_client \<Rightarrow> ('w \<times> retire_log) ref_client" where
  "logged_refs c = \<lparr>rf_ref = (\<lambda>path ref. logged (SawRef ref) (rf_ref c path ref)),
     rf_open_pulls = (\<lambda>path head branch. logged (SawOpen head branch) (rf_open_pulls c path head branch)),
     rf_delete = (\<lambda>fx. logged (Retired fx) (rf_delete c fx)),
     rf_full_build = (\<lambda>r. beside (rf_full_build c r))\<rparr>"

lemma logged_refs_fields:
  "rf_ref (logged_refs c) path ref = logged (SawRef ref) (rf_ref c path ref)"
  "rf_open_pulls (logged_refs c) path head branch = logged (SawOpen head branch) (rf_open_pulls c path head branch)"
  "rf_delete (logged_refs c) fx = logged (Retired fx) (rf_delete c fx)"
  "rf_full_build (logged_refs c) r = beside (rf_full_build c r)"
  by (simp_all add: logged_refs_def)

definition beside_pulls :: "'w batch_pull_client \<Rightarrow> ('w \<times> 'l) batch_pull_client" where
  "beside_pulls c = \<lparr>bc_list = (\<lambda>path head. beside (bc_list c path head)), bc_pull = (\<lambda>path n. beside (bc_pull c path n)),
     bc_create = (\<lambda>path title head base body. beside (bc_create c path title head base body)),
     bc_close = (\<lambda>path n. beside (bc_close c path n)), bc_comments = (\<lambda>path n page. beside (bc_comments c path n page)),
     bc_comment = (\<lambda>path n body. beside (bc_comment c path n body)), bc_notes = (\<lambda>d. beside (bc_notes c d))\<rparr>"

lemma keeps_pulls [keeps_intros]:
  "keeps_view snd (bc_list (beside_pulls c) path head)" "keeps_view snd (bc_pull (beside_pulls c) path n)"
  "keeps_view snd (bc_close (beside_pulls c) path n)" "keeps_view snd (bc_comments (beside_pulls c) path n page)"
  "keeps_view snd (bc_comment (beside_pulls c) path n body)"
  by (simp_all add: beside_pulls_def keeps_intros)

lemma keeps_option [keeps_intros]:
  "keeps_view view m \<Longrightarrow> (\<And>x. keeps_view view (f x)) \<Longrightarrow> keeps_view view (case v of None \<Rightarrow> m | Some x \<Rightarrow> f x)"
  by (cases v) auto

lemma keeps_for_each [keeps_intros]: "(\<And>x. keeps_view view (f x)) \<Longrightarrow> keeps_view view (for_each f xs)"
  by (induction xs) (auto intro: keeps_intros)

lemma keeps_comment_present [keeps_intros]:
  "keeps_view snd (close_comment_present (beside_pulls c) path n marker pages)"
  by (induction pages) (auto intro!: keeps_intros)

lemma keeps_retire_pull [keeps_intros]: "keeps_view snd (retire_pull_request (beside_pulls c) t reason p)"
  unfolding retire_pull_request_def pull_request_detail_def comment_close_reason_once_def Let_def
  by (intro keeps_intros)

lemma keeps_candidate_pulls [keeps_intros]: "keeps_view snd (candidate_pull_requests (beside_pulls c) t)"
  unfolding candidate_pull_requests_def by (intro keeps_intros)

lemma keeps_close_pulls_of [keeps_intros]: "keeps_view snd (close_pull_requests_of (beside_pulls c) t reason)"
  unfolding close_pull_requests_of_def by (intro keeps_intros)

lemma keeps_close_pull [keeps_intros]: "keeps_view snd (close_batch_pull_request (beside_pulls c) which reason)"
  unfolding close_batch_pull_request_def by (cases which) (auto intro: keeps_intros)

lemma keeps_close_validation [keeps_intros]: "keeps_view snd (close_validation (beside_pulls c) plan)"
  using keeps_close_pull [of c "Inr plan"]
  by (force simp: keeps_view_def close_validation_def apfst_def map_prod_def split: prod.splits)

subsection \<open>Deletions of unused refs\<close>

text \<open>
  A deletion is sound on a log when the ref is one of the batch's, the calls just before it found the ref
  at the expected commit and no open pull request with its branch as head or as base.
\<close>

definition unused_ref :: "retired_batch \<Rightarrow> ref_delete_effect \<Rightarrow> retire_log \<Rightarrow> bool" where
  "unused_ref which fx log \<longleftrightarrow> (\<exists>own construction branch answer earlier.
     batch_refs (target_of_batch which) = Inr (own, construction) \<and> df_candidate_ref fx \<in> {own, construction}
     \<and> branch_name_from_ref (df_candidate_ref fx) = Inr branch
     \<and> ra_ref answer = df_candidate_ref fx \<and> df_expected_ref_sha fx = py_strip (ra_sha answer) \<and> df_expected_ref_sha fx \<noteq> ''''
     \<and> log = SawOpen None branch (Inr (Some 0))
         # SawOpen (Some (repository_owner (bt_repository (target_of_batch which)))) branch (Inr (Some 0))
         # SawRef (df_candidate_ref fx) (Inr answer) # earlier)"

fun sound_deletes :: "retired_batch \<Rightarrow> retire_log \<Rightarrow> bool" where
  "sound_deletes which [] = True"
| "sound_deletes which (Retired fx r # log) = (unused_ref which fx log \<and> sound_deletes which log)"
| "sound_deletes which (_ # log) = sound_deletes which log"

definition deleted_some :: "retire_log \<Rightarrow> bool" where
  "deleted_some log \<longleftrightarrow> (\<exists>fx. Retired fx (Inr True) \<in> set log)"

text \<open>What one ref leaves: deletions stay sound, and the answer says whether it was deleted.\<close>

definition retire_step :: "retired_batch \<Rightarrow> retire_log \<Rightarrow> bool res \<Rightarrow> 'w \<times> retire_log \<Rightarrow> bool" where
  "retire_step which log r s \<longleftrightarrow> sound_deletes which (snd s)
     \<and> (\<forall>d. r = Inr d \<longrightarrow> deleted_some (snd s) = (deleted_some log \<or> d))"

lemma no_open_pulls_call:
  "runs_to (no_open_pulls (logged_refs c) path head branch)
     (\<lambda>r s'. \<exists>found. snd s' = SawOpen head branch found # snd s \<and> (r = Inr True \<longrightarrow> found = Inr (Some 0))) s"
proof -
  obtain w log where s: "s = (w, log)" by (cases s)
  show ?thesis
    unfolding no_open_pulls_def logged_refs_fields s
    by (rule andDoI, rule logged_anyI [where Q = "\<lambda>r s'. snd s' = SawOpen head branch r # log"])
      (auto simp: wp split: option.split)
qed

lemma deleted_some_Cons [simp]:
  "deleted_some (SawRef ref a # log) = deleted_some log" "deleted_some (SawOpen h b n # log) = deleted_some log"
  "deleted_some (Retired fx r # log) = (r = Inr True \<or> deleted_some log)"
  by (auto simp: deleted_some_def)

lemma retire_asked:
  assumes "unused_ref which fx log'" and "sound_deletes which log'" and "deleted_some log' = deleted_some log"
    and "snd s = log'"
  shows "runs_to (rf_delete (logged_refs c) fx) (retire_step which log) s"
proof -
  obtain w where s: "s = (w, log')" using assms(4) by (cases s) auto
  have "runs_to (logged (Retired fx) (rf_delete c fx)) (retire_step which log) (w, log')"
    by (rule logged_anyI) (use assms(1-3) in \<open>auto simp: retire_step_def\<close>)
  then show ?thesis by (simp add: logged_refs_fields s)
qed

lemma retire_read_step:
  assumes refs: "batch_refs (target_of_batch which) = Inr (own, construction)" "ref \<in> {own, construction}"
    and log: "snd s = SawRef ref (Inr answer) # log" "sound_deletes which log"
  shows "runs_to (retire_read_ref (logged_refs c) which path ref answer) (retire_step which log) s"
proof -
  let ?owner = "Some (repository_owner (bt_repository (target_of_batch which)))"
  show ?thesis
    unfolding retire_read_ref_def Let_def
  proof (rule andDoI [where P = "\<lambda>r t. t = s \<and> (r = Inr () \<longrightarrow> ra_ref answer = ref)"], goal_cases same failed named)
    case (named u t)
    show ?case
    proof (rule pure_thenI, goal_cases branch failed)
      case (branch branch)
      show ?case
      proof (rule andDoI [OF no_open_pulls_call], goal_cases failed head)
        case (head no_head t1)
        then obtain a where t1: "snd t1 = SawOpen ?owner branch a # snd s" "no_head \<Longrightarrow> a = Inr (Some 0)"
          using named by auto
        show ?case
        proof (rule andDoI [OF no_open_pulls_call], goal_cases failed base)
          case (base no_base t2)
          then obtain b where t2: "snd t2 = SawOpen None branch b # SawOpen ?owner branch a # snd s"
            "no_base \<Longrightarrow> b = Inr (Some 0)" using t1 by auto
          show ?case
          proof (cases "no_head \<and> no_base")
            case False
            then show ?thesis using t2 log by (auto simp: wp retire_step_def)
          next
            case True
            have deleted: "deleted_some (snd t2) = deleted_some log" using t2 log by simp
            have sound: "sound_deletes which (snd t2)" using t2 log by simp
            have "runs_to (andDo (lift_res (required_answer (ra_sha answer) ''Retired ref requires SHA.''))
                (\<lambda>sha. rf_delete (logged_refs c) \<lparr>df_lineage = lineage_of_batch which, df_candidate_ref = ref,
                  df_expected_ref_sha = sha\<rparr>)) (retire_step which log) t2"
            proof (rule pure_thenI, goal_cases sha failed)
              case (sha sha)
              have "unused_ref which \<lparr>df_lineage = lineage_of_batch which, df_candidate_ref = ref,
                  df_expected_ref_sha = sha\<rparr> (snd t2)"
                using refs branch named t1 t2 True log(1) sha
                by (auto simp: unused_ref_def required_answer_def split: if_splits)
              then show ?case by (rule retire_asked [OF _ sound deleted refl])
            next
              case (failed e)
              show ?case using t2 log by (auto simp: retire_step_def)
            qed
            with True show ?thesis by simp
          qed
        next
          case (failed e t2)
          then show ?case using t1 log by (auto simp: retire_step_def)
        qed
      next
        case (failed e t1)
        then show ?case using named log by (auto simp: retire_step_def)
      qed
    next
      case (failed e)
      then show ?case using named log by (auto simp: retire_step_def)
    qed
  qed (use log in \<open>auto simp: wp retire_step_def\<close>)
qed

lemma retire_ref_step:
  assumes refs: "batch_refs (target_of_batch which) = Inr (own, construction)" "ref \<in> {own, construction}"
    and log: "sound_deletes which (snd s)"
  shows "runs_to (retire_ref (logged_refs c) which path ref) (retire_step which (snd s)) s"
proof (rule runs_toI)
  fix r s' assume run: "retire_ref (logged_refs c) which path ref s = (r, s')"
  obtain w log where s: "s = (w, log)" by (cases s)
  obtain x w1 where read: "rf_ref c path ref w = (x, w1)" by (cases "rf_ref c path ref w")
  then have logged: "rf_ref (logged_refs c) path ref s = (x, (w1, SawRef ref x # log))"
    by (simp add: logged_refs_fields s logged_def)
  show "retire_step which (snd s) r s'"
  proof (cases x)
    case (Inl e)
    with run logged log s show ?thesis by (auto simp: retire_ref_def retire_step_def split: if_splits)
  next
    case (Inr answer)
    then have "retire_read_ref (logged_refs c) which path ref answer (w1, SawRef ref (Inr answer) # log) = (r, s')"
      using run logged by (simp add: retire_ref_def)
    moreover have "runs_to (retire_read_ref (logged_refs c) which path ref answer) (retire_step which log)
        (w1, SawRef ref (Inr answer) # log)"
      by (rule retire_read_step [OF refs]) (use log s in simp_all)
    ultimately show ?thesis by (simp add: runs_to_def s)
  qed
qed

lemma retire_refs_step:
  assumes "batch_refs (target_of_batch which) = Inr (own, construction)" "set refs \<subseteq> {own, construction}"
    and "sound_deletes which (snd s)"
  shows "runs_to (map_each (retire_ref (logged_refs c) which path) refs)
    (\<lambda>r s'. sound_deletes which (snd s') \<and> (\<forall>ds. r = Inr ds \<longrightarrow> deleted_some (snd s') = (deleted_some (snd s) \<or> True \<in> set ds))) s"
  using assms(2,3)
proof (induction refs arbitrary: s)
  case Nil
  then show ?case by (simp add: wp)
next
  case (Cons ref refs)
  have first: "runs_to (retire_ref (logged_refs c) which path ref) (retire_step which (snd s)) s"
    by (rule retire_ref_step [OF assms(1)]) (use Cons.prems in auto)
  show ?case
    unfolding map_each.simps
  proof (rule andDoI [OF first], goal_cases failed rest)
    case (failed e s1)
    then show ?case by (simp add: retire_step_def)
  next
    case (rest d s1)
    then have s1: "sound_deletes which (snd s1)" "deleted_some (snd s1) = (deleted_some (snd s) \<or> d)"
      by (auto simp: retire_step_def)
    have "runs_to (map_each (retire_ref (logged_refs c) which path) refs)
      (\<lambda>r s'. sound_deletes which (snd s') \<and> (\<forall>ds. r = Inr ds \<longrightarrow> deleted_some (snd s') = (deleted_some (snd s1) \<or> True \<in> set ds))) s1"
      by (rule Cons.IH) (use Cons.prems s1 in auto)
    then show ?case
      by (rule andDoI) (use s1 in \<open>auto simp: wp\<close>)
  qed
qed

subsection \<open>A whole cleanup\<close>

text \<open>
  Every deletion is of an unused ref of the batch; the one exception is a plan with a ref that is not the
  train's, which is deleted as it is recorded: it is not read, its use is not looked up, and the deletion
  expects no commit. The answer says whether anything was deleted.
\<close>

definition recorded_ref_deleted :: "retired_batch \<Rightarrow> retire_log \<Rightarrow> bool" where
  "recorded_ref_deleted which log \<longleftrightarrow> (\<exists>plan own construction fx r. which = Inr plan
     \<and> batch_refs (target_of_batch which) = Inr (own, construction) \<and> lp_candidate_ref plan \<notin> {own, construction}
     \<and> log = [Retired fx r] \<and> df_candidate_ref fx = lp_candidate_ref plan \<and> df_expected_ref_sha fx = '''')"

definition sound_cleanup :: "retired_batch \<Rightarrow> bool res \<Rightarrow> retire_log \<Rightarrow> bool" where
  "sound_cleanup which r log \<longleftrightarrow> (sound_deletes which log \<or> recorded_ref_deleted which log)
     \<and> (\<forall>d. r = Inr d \<longrightarrow> d = deleted_some log)"

lemma deleted_some_Nil [simp]: "\<not> deleted_some []"
  by (simp add: deleted_some_def)

lemma unowned_step:
  assumes "batch_refs (target_of_batch which) = Inr (own, construction)"
    "bt_candidate_ref (target_of_batch which) \<notin> {own, construction}" and empty: "snd s = []"
  shows "runs_to (delete_unowned_ref (logged_refs c) which) (\<lambda>r s'. sound_cleanup which r (snd s')) s"
proof (cases which)
  case (Inl candidate)
  with empty show ?thesis by (simp add: delete_unowned_ref_def sound_cleanup_def wp)
next
  case (Inr plan)
  let ?fx = "\<lparr>df_lineage = lineage_of_batch which, df_candidate_ref = lp_candidate_ref plan, df_expected_ref_sha = ''''\<rparr>"
  from empty obtain w where s: "s = (w, [])" by (cases s) auto
  have "lp_candidate_ref plan \<notin> {own, construction}"
    using assms(2) Inr by (simp add: target_of_batch_def target_of_plan_def)
  then have "recorded_ref_deleted which [Retired ?fx r]" for r
    using assms(1) Inr unfolding recorded_ref_deleted_def by auto
  moreover have "deleted_some [Retired ?fx r] = (r = Inr True)" for r by simp
  ultimately have "runs_to (logged (Retired ?fx) (rf_delete c ?fx)) (\<lambda>r s'. sound_cleanup which r (snd s')) (w, [])"
    by (intro logged_anyI) (simp add: sound_cleanup_def)
  with Inr show ?thesis by (simp add: delete_unowned_ref_def logged_refs_fields s)
qed

lemma owned_step:
  assumes "batch_refs (target_of_batch which) = Inr (own, construction)" and empty: "snd s = []"
  shows "runs_to (cleanup_batch_refs (logged_refs c) which) (\<lambda>r s'. sound_cleanup which r (snd s')) s"
proof -
  have stopped: "sound_cleanup which (Inl e) (snd s)" for e using empty by (simp add: sound_cleanup_def)
  show ?thesis
    unfolding cleanup_batch_refs_def
  proof (rule pure_thenI, unfold assms(1), simp only: sum.inject, elim HOL.subst, unfold prod.case, goal_cases owned failed)
    case owned
    have "runs_to (map_each (retire_ref (logged_refs c) which path) [own, construction])
      (\<lambda>r s'. sound_deletes which (snd s') \<and> (\<forall>ds. r = Inr ds \<longrightarrow> deleted_some (snd s') = (deleted_some (snd s) \<or> True \<in> set ds))) s"
      for path by (rule retire_refs_step [OF assms(1)]) (use empty in simp_all)
    then have "runs_to (andDo (map_each (retire_ref (logged_refs c) which path) [own, construction])
        (\<lambda>deleted. give (True \<in> set deleted))) (\<lambda>r s'. sound_cleanup which r (snd s')) s" for path
      by (rule andDoI) (use empty in \<open>auto simp: wp sound_cleanup_def\<close>)
    then show ?case
      using stopped by (auto simp only: wp split: sum.split if_split)
  qed (rule stopped)
qed

lemma keeps_to_close: "keeps_view snd (validation_to_close (logged_refs c) plan)"
  unfolding validation_to_close_def logged_refs_fields by (intro keeps_view_andDo keeps_view_if keeps_view_pure keeps_beside)

text \<open>
  C13. What a cleanup deletes. There are two cases. Either every deletion is of a ref of the batch that was
  just read at the commit the deletion expects and found to be neither the head nor the base of an open pull
  request. Or it is the cleanup of a landing plan whose recorded ref is none of the batch's: then the one
  deletion is of that recorded ref, and it is neither read nor checked for its use before. The answer is
  whether a deletion was confirmed, on every path that returns.
\<close>

theorem cleanup_deletes_batch_or_recorded_ref:
  "sound_cleanup which (fst (cleanup_batch_candidate_ref (logged_refs c) (beside_pulls bc) which (w, [])))
     (snd (snd (cleanup_batch_candidate_ref (logged_refs c) (beside_pulls bc) which (w, []))))"
proof -
  let ?Q = "\<lambda>r s'. sound_cleanup which r (snd s')"
  have stopped: "?Q (Inl e) s" if "snd s = []" for e and s :: "'a \<times> retire_log"
    using that by (simp add: sound_cleanup_def)
  have closing: "keeps_view snd (case which of Inl _ \<Rightarrow> give ()
      | Inr plan \<Rightarrow> andDo (validation_to_close (logged_refs c) plan) (\<lambda>yes. if yes then close_validation (beside_pulls bc) plan else give ()))"
    by (cases which) (auto intro: keeps_view_andDo keeps_to_close keeps_view_if keeps_close_validation keeps_view_pure)
  have "runs_to (cleanup_batch_candidate_ref (logged_refs c) (beside_pulls bc) which) ?Q (w, [])"
    unfolding cleanup_batch_candidate_ref_def
  proof (rule still_thenI [OF closing], goal_cases closed failed)
    case (closed u s1)
    show ?case
    proof (rule pure_thenI, goal_cases refs failed)
      case (refs names)
      obtain own construction where names: "names = (own, construction)" by (cases names)
      show ?case
        unfolding names prod.case
        using owned_step [of which own construction s1] unowned_step [of which own construction s1] refs names closed(2)
        by (simp split: if_split)
    qed (use stopped closed in simp)
  qed (use stopped in simp)
  then show ?thesis by (auto simp: runs_to_def split: prod.splits)
qed

end
