(* ===== verification/Spec2Isabelle.thy ===== *)
theory Spec2Isabelle
  imports Mt_Plan_Safety Mt_Lease_Properties Mt_Evaluation_Input Mt_Collapse_Properties
    Mt_Controller_Properties Mt_Policy_Properties Mt_Structural_Properties Mt_Worker_Properties
    Mt_Readiness_Properties Mt_Admission_Safety Mt_Landing_Properties
    Mt_Stack_Properties Mt_Protected_Properties Mt_Build_Properties Mt_Cleanup_Properties
begin

text \<open>
  Launchplane is the control plane that decides and records what reaches the protected branches of a
  set of GitHub repositories. This library models its merge train (\<open>src/control_plane/merge_train*.py\<close>,
  their contracts and stores): pull requests are queued, tested as one candidate commit, and landed on
  the base branch one by one, each landing admitted and recorded.

  \<^bold>\<open>How the program works.\<close> A controller pass takes the lease of one train (repository and base branch) in
  the record store, reads the open pull requests under the policy of the train, and decides one action.
  It plans the queue (\<open>merge_train.py\<close>), builds or retests a candidate, lands a passed candidate by its
  landing plan, or collapses a stack of dependent pull requests into its root. Every record carries
  digests that bind it to the records it was made from. A landing is checked against the structural
  provenance of the tested candidate, found ready against live evidence, admitted by appending an
  admission under the controller's fence, made through the provider, and closed by an outcome.

  \<^bold>\<open>Shared theories.\<close>
  \<^item> \<open>Prelude\<close>: results \<open>py_error + 'a\<close>, Python's string operations, generic lemmas, \<open>res_simps\<close>.
  \<^item> \<open>Py_Time\<close>, \<open>Py_Json\<close>, \<open>Canonical_Json\<close>, \<open>Sha256\<close>, \<open>Record_Fields\<close>: timestamps, JSON values, canonical
    text and its SHA-256 digest (computed on 32-bit words), the field normalizers of
    \<open>contracts/record_fields.py\<close>. \<open>Canonical_Text\<close> shows that a canonical text determines its value up to the
    order of keys (\<open>same_text_same_value\<close>), so that what a digest covers can be stated on the hashed text.
  \<^item> \<open>Effects\<close>: code that calls a provider or a store, as functions of a world, with weakest preconditions
    (\<open>runs_to\<close>) and calls that put their outcome into a log.

  \<^bold>\<open>Queue and plan.\<close> \<open>Mt_Policy\<close> and \<open>Mt_Policy_Records\<close> are \<open>contracts/merge_train_policy.py\<close> and
  \<open>merge_train_policy_binding.py\<close>; \<open>Mt_Handoff\<close> is \<open>merge_train_handoff.py\<close>; \<open>Mt_Dependency\<close> is
  \<open>merge_train_dependency_updates.py\<close>; \<open>Mt_Queue\<close>, \<open>Mt_Stack\<close> and \<open>Mt_Plan\<close> are \<open>merge_train.py\<close>, where
  \<open>build_dry_run_result\<close> is the whole plan. \<open>Mt_Worker\<close> applies a plan (\<open>workflows/merge_train_worker.py\<close>).
  \<open>Mt_Queue_Safety\<close>, \<open>Mt_Plan_Steps\<close> and \<open>Mt_Plan_Safety\<close> compare the eligibility of an entry with the
  admission rules, and show that a plan is a sorted, bounded, complete front of the queue that merges
  only ready heads; \<open>Mt_Stack_Properties\<close> shows that the discovery of a stack ends, whatever cycles the
  branches form; \<open>Mt_Policy_Properties\<close>: the classification of policy changes is exact, and
  operational changes keep a plan bound;
  \<open>Mt_Worker_Properties\<close> shows that a worker step refines the decision about the front of the train.

  \<^bold>\<open>Controller.\<close> \<open>Mt_Controller_State\<close> and \<open>Mt_Lease_Store\<close> are the state record and the lease operations
  of \<open>storage/filesystem.py\<close> and \<open>merge_train_controller_run_once.py\<close>. \<open>Lease_Protocol\<close> states the contract
  of a lease as the locale \<open>lease_store\<close>, with the interleavings of sessions as the step relation
  \<open>lease_step\<close>; \<open>Mt_Lease_Safety\<close> interprets it on the store, and \<open>Mt_Lease_Properties\<close> has the mutual
  exclusion and fencing. \<open>Mt_Controller\<close> is \<open>workflows/merge_train_controller.py\<close> over the record lists of
  \<open>Progress_Records\<close>, whose locale \<open>progress_view\<close> (what counts as the latest record of a group) is
  interpreted for candidates, landings and collapses; \<open>Mt_Controller_Properties\<close> shows that late records
  change no decision and that a recorded landing is carried on.

  \<^bold>\<open>Candidates and provenance.\<close> \<open>Mt_Batch\<close> is \<open>contracts/merge_train_batch.py\<close>, \<open>Mt_Provenance\<close> and
  \<open>Mt_Evaluation_Input\<close> are \<open>contracts/merge_train_structural_provenance.py\<close>, \<open>Mt_Historical\<close> is
  \<open>contracts/merge_train_historical_completion.py\<close>, and \<open>Mt_Structural\<close> is the evaluator
  \<open>merge_train_structural_provenance.py\<close>. \<open>Mt_Batch_Properties\<close>: validated provenance is a chain of
  commits, a landing plan carries that chain, its digest covers all of the plan and nothing of its progress.
  \<open>Mt_Structural_Properties\<close>: a successful evaluation lands what was tested, entry by entry or as a batch.

  \<open>Mt_Build\<close> and \<open>Mt_Cleanup\<close> are the construction of a candidate, the observation of its checks and the
  retirement of its refs in \<open>merge_train_github.py\<close>. \<open>Mt_Build_Safety\<close> follows the moves of refs through a
  log: \<open>Mt_Build_Properties\<close> shows that the ref of a candidate only ever moves to the completed merge, of which
  the provenance records every step; \<open>Mt_Cleanup_Properties\<close> that only unused refs of the batch are deleted, or
  the one recorded ref of a landing plan for which the train has no ref.

  \<^bold>\<open>Stacks.\<close> \<open>Mt_Collapse\<close> is \<open>contracts/merge_train_stack_collapse.py\<close>. \<open>Mt_Collapse_Safety\<close>,
  \<open>Mt_Collapse_Children\<close> and \<open>Mt_Collapse_Properties\<close> follow the log of the provider calls of any sequence
  of runs, each cut off anywhere: children merge leaf to root, once, only when ready and only as
  recorded, and are closed after a notice that was found or written with success.

  \<^bold>\<open>Readiness, admission, landing.\<close> \<open>Mt_Readiness\<close> and \<open>Mt_Readiness_Evaluation\<close> are
  \<open>contracts/merge_readiness.py\<close>, \<open>merge_readiness.py\<close> and \<open>github_required_checks.py\<close>;
  \<open>Mt_Readiness_Properties\<close> says what a ready result means. \<open>Mt_Admission_Records\<close> and \<open>Mt_Admission\<close> are
  \<open>contracts/merge_admission_record.py\<close>, the file store of admissions and outcomes, and the guard of
  \<open>merge_admission.py\<close> on a world of guard, ledger and provider. \<open>Mt_Admission_Properties\<close> has the step
  relation \<open>ledger_step\<close>, its invariant \<open>ledger_ok\<close> and the calculus \<open>advances\<close>: every operation of the guard
  only takes such steps, so what holds of reachable ledgers holds for any number of guards, cut off
  anywhere. \<open>Mt_Landing\<close> is \<open>land_batch_candidate\<close> of \<open>merge_train_github.py\<close>; \<open>Mt_Landing_Properties\<close>
  composes the parts: every landing call names an admission of its own for exactly the commits it
  merges, and a run that returns has a recorded landing for every entry, each on top of the one before.
  \<open>Mt_Batch_Pull\<close> and \<open>Mt_Protected\<close> are \<open>merge_train_batch_pull_request.py\<close>: the pull request that carries a
  whole batch, and its landing by one merge; \<open>Mt_Protected_Safety\<close> and \<open>Mt_Protected_Properties\<close> show that the
  merge is asked for at most once, after every member was admitted, and what a run that returns has
  recorded. \<open>Mt_Admission_Example\<close>, \<open>Mt_Landing_Example\<close> and \<open>Mt_Protected_Example\<close> hold complete concrete runs.

  \<^bold>\<open>Conventions.\<close> A pydantic model is a record and its validator a function \<open>validate_...\<close> that returns the
  normalized record or the error; an enum of strings is a datatype with a function \<open>..._str\<close>. Every raise
  is an \<open>Inl\<close> of \<open>py_error\<close>. Loops over lists are structural recursion; the walk over a stack, the
  calendar searches and the block split of SHA-256 terminate by a measure, so nothing needs fuel. A store is the list or map of its
  records; one call of the store is one step, which is what its file lock makes it. Strings are lists of
  8-bit characters, and case mapping is that of ASCII.

  \<^bold>\<open>Parameters.\<close> Code that is not under \<open>src/\<close> or is I/O is an argument of the definitions: the GitHub
  transport and the clients on it, the semantic effect executor, the clocks, the readers of the current
  controller state, the metadata readers of commit messages. Nothing is assumed of them in the properties
  of landing and worker. Of the collapse properties, one assumes that a lookup finds a merge that took
  effect (\<open>truthful_lookups\<close>), one that the client answers commit names (\<open>answers_shas\<close>). The lease
  properties are about instants up to the year 9999 (\<open>last_instant\<close>), where \<open>datetime\<close> ends, and start
  from a store that only the store's own operations wrote (\<open>good_store\<close>).

  \<^bold>\<open>Not modelled.\<close> The HTTP application, the PostgreSQL store and its migrations, deployments, previews,
  Odoo and runner operations, rendering and the command line: I/O around other workflows of the
  repository. Of the merge train: the run-once driver and the workers around the parts modelled
  here, the failure and recovery receipts; the TOML loader and the
  regular expressions over comments and commit messages, which are parameters.
\<close>

end
